(* ===== verification/CAO_Prelude.thy ===== *)
theory CAO_Prelude
  imports Main "HOL-Library.List_Lexorder" "HOL-Library.Char_ord" "HOL-Library.Product_Lexorder"
begin

text \<open>
  Shared vocabulary of the development.

  The control plane keeps its whole state in SQLite tables and changes it with single SQL
  statements inside transactions. The model writes a table as the list of its rows, a
  \<open>SELECT\<close> without an order as \<open>fetchone\<close>, an \<open>EXISTS\<close> as \<open>list_ex\<close>, and an
  \<open>UPDATE ... WHERE\<close> as \<open>update_rows\<close>, whose affected-row count is \<open>rowcount\<close>.
  Comparisons of nullable columns follow SQL: \<open>a = b\<close> is \<open>sql_eq\<close>, true only when
  both are present, while \<open>a IS b\<close> is plain equality of options.

  Timestamps are whole seconds. The source stores fixed-width UTC texts with second
  precision, whose order as texts is the order of the instants they denote.
\<close>

named_theorems row_simps "how the table operations act on rows"
named_theorems fence_intros "introduction rules for compare-and-swap fences"

type_synonym ident = string
type_synonym timestamp = int
type_synonym ('e, 'a) result = "'e + 'a"

section \<open>Results\<close>

definition bindE :: "('e, 'a) result \<Rightarrow> ('a \<Rightarrow> ('e, 'b) result) \<Rightarrow> ('e, 'b) result" where
  "bindE m k = (case m of Inl e \<Rightarrow> Inl e | Inr x \<Rightarrow> k x)"

definition require :: "bool \<Rightarrow> 'e \<Rightarrow> ('e, unit) result" where
  "require b e = (if b then Inr () else Inl e)"

fun foldE :: "('s \<Rightarrow> 'a \<Rightarrow> ('e, 's) result) \<Rightarrow> 's \<Rightarrow> 'a list \<Rightarrow> ('e, 's) result" where
  "foldE f s [] = Inr s"
| "foldE f s (x # xs) = bindE (f s x) (\<lambda>s'. foldE f s' xs)"

definition is_ok :: "('e, 'a) result \<Rightarrow> bool" where
  "is_ok m = (case m of Inl _ \<Rightarrow> False | Inr _ \<Rightarrow> True)"

lemma bindE_simps [simp]: "bindE (Inl e) k = Inl e" "bindE (Inr x) k = k x"
  by (simp_all add: bindE_def)

lemma bindE_Inr_iff: "bindE m k = Inr y \<longleftrightarrow> (\<exists>x. m = Inr x \<and> k x = Inr y)"
  by (cases m) auto

lemma bindE_Inl_iff: "bindE m k = Inl e \<longleftrightarrow> m = Inl e \<or> (\<exists>x. m = Inr x \<and> k x = Inl e)"
  by (cases m) auto

lemma bindE_assoc: "bindE (bindE m k) h = bindE m (\<lambda>x. bindE (k x) h)"
  by (cases m) auto

lemma require_iff [simp]: "require b e = Inr u \<longleftrightarrow> b" "require b e = Inl e' \<longleftrightarrow> \<not> b \<and> e' = e"
  by (auto simp: require_def)

lemma require_simps [simp]: "require True e = Inr ()" "require False e = Inl e"
  by (simp_all add: require_def)

lemma foldE_invariant:
  assumes "foldE f s xs = Inr t" and "P s"
    and "\<And>s x s'. x \<in> set xs \<Longrightarrow> P s \<Longrightarrow> f s x = Inr s' \<Longrightarrow> P s'"
  shows "P t"
  using assms
proof (induction xs arbitrary: s)
  case Nil
  then show ?case by simp
next
  case (Cons x xs)
  from Cons.prems(1) obtain s' where s': "f s x = Inr s'" and rest: "foldE f s' xs = Inr t"
    by (auto simp: bindE_Inr_iff)
  have "P s'" by (rule Cons.prems(3) [OF _ Cons.prems(2) s']) simp
  with rest show ?case
    by (rule Cons.IH) (rule Cons.prems(3), auto)
qed

lemma foldE_append: "foldE f s (xs @ ys) = bindE (foldE f s xs) (\<lambda>s'. foldE f s' ys)"
  by (induction xs arbitrary: s) (simp_all add: bindE_assoc)

section \<open>Tables\<close>

definition fetchone :: "('r \<Rightarrow> bool) \<Rightarrow> 'r list \<Rightarrow> 'r option" where
  "fetchone p rows = List.find p rows"

definition update_rows :: "('r \<Rightarrow> bool) \<Rightarrow> ('r \<Rightarrow> 'r) \<Rightarrow> 'r list \<Rightarrow> 'r list" where
  "update_rows p f rows = map (\<lambda>r. if p r then f r else r) rows"

definition rowcount :: "('r \<Rightarrow> bool) \<Rightarrow> 'r list \<Rightarrow> nat" where
  "rowcount p rows = length (filter p rows)"

definition sql_eq :: "'a option \<Rightarrow> 'a option \<Rightarrow> bool" where
  "sql_eq a b = (case a of None \<Rightarrow> False | Some x \<Rightarrow> (case b of None \<Rightarrow> False | Some y \<Rightarrow> x = y))"

definition coalesce :: "'a option \<Rightarrow> 'a option \<Rightarrow> 'a option" where
  "coalesce a b = (case a of None \<Rightarrow> b | Some _ \<Rightarrow> a)"

text \<open>\<open>str(x or "")\<close> on a nullable text column.\<close>

definition str_or_empty :: "string option \<Rightarrow> string" where
  "str_or_empty a = (case a of None \<Rightarrow> '''' | Some x \<Rightarrow> x)"

lemma sql_eq_simps [simp]:
  "sql_eq None b = False" "sql_eq a None = False" "sql_eq (Some x) (Some y) = (x = y)"
  by (simp_all add: sql_eq_def split: option.split)

lemma sql_eq_iff: "sql_eq a b \<longleftrightarrow> (\<exists>x. a = Some x \<and> b = Some x)"
  by (cases a; cases b) auto

lemma coalesce_simps [simp]: "coalesce None b = b" "coalesce (Some x) b = Some x"
  by (simp_all add: coalesce_def)

lemma coalesce_not_None [simp]: "coalesce a (Some x) \<noteq> None"
  by (cases a) auto

lemma str_or_empty_simps [simp]: "str_or_empty None = ''''" "str_or_empty (Some x) = x"
  by (simp_all add: str_or_empty_def)

lemma fetchone_simps [simp, code]:
  "fetchone p [] = None"
  "fetchone p (r # rs) = (if p r then Some r else fetchone p rs)"
  by (simp_all add: fetchone_def)

lemma fetchone_SomeD: "fetchone p rows = Some r \<Longrightarrow> r \<in> set rows \<and> p r"
  by (induction rows) (auto split: if_splits)

lemma fetchone_None_iff: "fetchone p rows = None \<longleftrightarrow> (\<forall>r\<in>set rows. \<not> p r)"
  by (induction rows) auto

lemma fetchone_cong_rows: "(\<And>r. r \<in> set rows \<Longrightarrow> p r = q r) \<Longrightarrow> fetchone p rows = fetchone q rows"
  by (induction rows) auto

lemma fetchone_append:
  "fetchone p (xs @ ys) = (case fetchone p xs of None \<Rightarrow> fetchone p ys | Some r \<Rightarrow> Some r)"
  by (induction xs) auto

lemma fetchone_update_rows:
  "(\<And>r. q (f r) = q r) \<Longrightarrow>
     fetchone q (map (\<lambda>r. if p r then f r else r) rows) = map_option (\<lambda>r. if p r then f r else r) (fetchone q rows)"
  by (induction rows) auto

lemma update_rows_simps [simp]:
  "update_rows p f [] = []"
  "update_rows p f (r # rs) = (if p r then f r else r) # update_rows p f rs"
  by (simp_all add: update_rows_def)

lemma length_update_rows [simp]: "length (update_rows p f rows) = length rows"
  by (simp add: update_rows_def)

lemma set_update_rows: "set (update_rows p f rows) = (\<lambda>r. if p r then f r else r) ` set rows"
  by (simp add: update_rows_def)

lemma update_rows_idle: "(\<And>r. r \<in> set rows \<Longrightarrow> \<not> p r) \<Longrightarrow> update_rows p f rows = rows"
  by (induction rows) auto

lemma map_update_rows [row_simps]: "(\<And>r. p r \<Longrightarrow> k (f r) = k r) \<Longrightarrow> map k (update_rows p f rows) = map k rows"
  by (induction rows) auto

lemma list_all_update_rows:
  assumes "list_all P rows" and "\<And>r. r \<in> set rows \<Longrightarrow> p r \<Longrightarrow> P r \<Longrightarrow> P (f r)"
  shows "list_all P (update_rows p f rows)"
  using assms by (auto simp: list_all_iff set_update_rows)

lemma rowcount_simps [simp, code]:
  "rowcount p [] = 0"
  "rowcount p (r # rs) = (if p r then Suc (rowcount p rs) else rowcount p rs)"
  by (simp_all add: rowcount_def)

lemma rowcount_0_iff: "rowcount p rows = 0 \<longleftrightarrow> (\<forall>r\<in>set rows. \<not> p r)"
  by (induction rows) auto

lemma rowcount_pos_iff: "0 < rowcount p rows \<longleftrightarrow> (\<exists>r\<in>set rows. p r)"
  using rowcount_0_iff [of p rows] by auto

text \<open>A predicate that pins the primary key matches at most one row.\<close>

lemma rowcount_key_le_1:
  assumes "distinct (map k rows)" and "\<And>r. p r \<Longrightarrow> k r = c"
  shows "rowcount p rows \<le> 1"
  using assms
proof (induction rows)
  case Nil
  then show ?case by simp
next
  case (Cons r rows)
  show ?case
  proof (cases "p r")
    case True
    with Cons.prems have "\<forall>x\<in>set rows. \<not> p x" by force
    then have "rowcount p rows = 0" by (simp add: rowcount_0_iff)
    then show ?thesis by simp
  next
    case False
    with Cons show ?thesis by simp
  qed
qed

lemma key_unique:
  assumes "distinct (map k rows)" "x \<in> set rows" "y \<in> set rows" "k x = k y"
  shows "x = y"
  using assms by (metis distinct_map inj_onD)

lemma fetchone_unique:
  assumes "distinct (map k rows)" "r \<in> set rows" "p r" "\<And>x. p x \<Longrightarrow> k x = k r"
  shows "fetchone p rows = Some r"
proof (cases "fetchone p rows")
  case None
  with assms show ?thesis by (auto simp: fetchone_None_iff)
next
  case (Some x)
  then have "x \<in> set rows" "p x" by (auto dest: fetchone_SomeD)
  with assms Some show ?thesis by (metis key_unique)
qed

section \<open>Order-preserving duplicate removal\<close>

text \<open>\<open>list(dict.fromkeys(xs))\<close>: each element once, at its first position.\<close>

fun dict_fromkeys :: "'a list \<Rightarrow> 'a list" where
  "dict_fromkeys [] = []"
| "dict_fromkeys (x # xs) = x # filter (\<lambda>y. y \<noteq> x) (dict_fromkeys xs)"

lemma set_dict_fromkeys [simp]: "set (dict_fromkeys xs) = set xs"
  by (induction xs) auto

lemma distinct_dict_fromkeys [simp]: "distinct (dict_fromkeys xs)"
  by (induction xs) auto

lemma dict_fromkeys_Nil_iff [simp]: "dict_fromkeys xs = [] \<longleftrightarrow> xs = []"
  by (cases xs) auto

lemma dict_fromkeys_distinct: "distinct xs \<Longrightarrow> dict_fromkeys xs = xs"
proof (induction xs)
  case Nil
  then show ?case by simp
next
  case (Cons x xs)
  then show ?case by (auto intro: filter_True)
qed

lemma dict_fromkeys_idem [simp]: "dict_fromkeys (dict_fromkeys xs) = dict_fromkeys xs"
  by (simp add: dict_fromkeys_distinct)

section \<open>First row of an ordered selection\<close>

text \<open>\<open>ORDER BY k LIMIT 1\<close>: the first row among those with the least key.\<close>

fun first_by :: "('r \<Rightarrow> 'k::linorder) \<Rightarrow> 'r list \<Rightarrow> 'r option" where
  "first_by k [] = None"
| "first_by k (r # rs) =
     (case first_by k rs of None \<Rightarrow> Some r | Some s \<Rightarrow> if k r \<le> k s then Some r else Some s)"

lemma first_by_None_iff [simp]: "first_by k rows = None \<longleftrightarrow> rows = []"
  by (cases rows) (auto split: option.splits if_splits)

lemma first_by_SomeD: "first_by k rows = Some r \<Longrightarrow> r \<in> set rows \<and> (\<forall>x\<in>set rows. k r \<le> k x)"
  by (induction rows arbitrary: r) (force split: option.splits if_splits)+

text \<open>\<open>ORDER BY k DESC LIMIT 1\<close>.\<close>

fun last_by :: "('r \<Rightarrow> 'k::linorder) \<Rightarrow> 'r list \<Rightarrow> 'r option" where
  "last_by k [] = None"
| "last_by k (r # rs) =
     (case last_by k rs of None \<Rightarrow> Some r | Some s \<Rightarrow> if k s \<le> k r then Some r else Some s)"

lemma last_by_None_iff [simp]: "last_by k rows = None \<longleftrightarrow> rows = []"
  by (cases rows) (auto split: option.splits if_splits)

lemma last_by_SomeD: "last_by k rows = Some r \<Longrightarrow> r \<in> set rows \<and> (\<forall>x\<in>set rows. k x \<le> k r)"
  by (induction rows arbitrary: r) (force split: option.splits if_splits)+

end
