(* ===== verification/Json.thy ===== *)
theory Json
  imports CAO_Prelude
begin

text \<open>
  JSON documents and their canonical text, after \<open>canonical.py\<close> and the encoder of
  \<open>security.py\<close>. A Python string is the list of its code points. A dict is the list of
  its items in insertion order. Floating-point numbers are left out: no packet field of the
  modelled components holds one.

  Both encoders are \<open>json.dumps\<close> with sorted keys and no white space; they differ in the
  escape table only (\<open>ensure_ascii\<close>). The locale \<open>string_code\<close> states what the document
  encoder needs of such a table, and both tables are shown to provide it.
\<close>

type_synonym pystr = "nat list"

definition u :: "string \<Rightarrow> pystr" where
  "u s = map of_char s"

lemma u_inject [simp]: "u a = u b \<longleftrightarrow> a = b"
  by (simp add: u_def inj_map_eq_map inj_of_char)

lemma u_append: "u (a @ b) = u a @ u b"
  by (simp add: u_def)

lemma u_Nil_iff [simp]: "u a = [] \<longleftrightarrow> a = []" "[] = u a \<longleftrightarrow> a = []"
  by (auto simp: u_def)

datatype json =
    JNull
  | JBool bool
  | JInt int
  | JStr pystr
  | JArr "json list"
  | JObj "(pystr \<times> json) list"

definition jstr :: "string \<Rightarrow> json" where
  "jstr s = JStr (u s)"

definition jobj :: "(string \<times> json) list \<Rightarrow> json" where
  "jobj kvs = JObj (map (\<lambda>(k, v). (u k, v)) kvs)"

definition jopt :: "('a \<Rightarrow> json) \<Rightarrow> 'a option \<Rightarrow> json" where
  "jopt f a = (case a of None \<Rightarrow> JNull | Some x \<Rightarrow> f x)"

definition jint_opt :: "int option \<Rightarrow> json" where
  "jint_opt a = jopt JInt a"

definition jstr_opt :: "string option \<Rightarrow> json" where
  "jstr_opt a = jopt jstr a"

text \<open>\<open>mapping.get(key)\<close>, with \<open>None\<close> for a missing key or a value that is no mapping.\<close>

fun jget :: "json \<Rightarrow> string \<Rightarrow> json option" where
  "jget (JObj kvs) k = map_of kvs (u k)"
| "jget _ k = None"

text \<open>Python truth of a JSON value.\<close>

fun truthy :: "json \<Rightarrow> bool" where
  "truthy JNull = False"
| "truthy (JBool b) = b"
| "truthy (JInt i) = (i \<noteq> 0)"
| "truthy (JStr s) = (s \<noteq> [])"
| "truthy (JArr vs) = (vs \<noteq> [])"
| "truthy (JObj kvs) = (kvs \<noteq> [])"

fun is_mapping :: "json \<Rightarrow> bool" where
  "is_mapping (JObj kvs) = True"
| "is_mapping _ = False"

text \<open>\<open>mapping | {...}\<close>: a key keeps its place and takes the new value; new keys are appended.\<close>

fun put_key :: "(pystr \<times> json) list \<Rightarrow> pystr \<Rightarrow> json \<Rightarrow> (pystr \<times> json) list" where
  "put_key [] k v = [(k, v)]"
| "put_key ((k', v') # kvs) k v = (if k' = k then (k, v) # kvs else (k', v') # put_key kvs k v)"

lemma jstr_inject [simp]: "jstr a = jstr b \<longleftrightarrow> a = b"
  by (simp add: jstr_def)

lemma jopt_simps [simp]: "jopt f None = JNull" "jopt f (Some x) = f x"
  by (simp_all add: jopt_def)

lemma jget_jobj [simp]:
  "jget (jobj []) k = None"
  "jget (jobj ((k', v) # kvs)) k = (if k' = k then Some v else jget (jobj kvs) k)"
  by (auto simp: jobj_def)

section \<open>Python equality of documents\<close>

text \<open>Mappings are equal whatever the order of their keys, and \<open>True == 1\<close>.\<close>

fun py_num :: "json \<Rightarrow> int option" where
  "py_num (JInt i) = Some i"
| "py_num (JBool b) = Some (if b then 1 else 0)"
| "py_num _ = None"

fun py_eq :: "json \<Rightarrow> json \<Rightarrow> bool" and py_eqs :: "json list \<Rightarrow> json list \<Rightarrow> bool" where
  "py_eq JNull w = (w = JNull)"
| "py_eq (JBool b) w = (py_num w = Some (if b then 1 else 0))"
| "py_eq (JInt i) w = (py_num w = Some i)"
| "py_eq (JStr t) w = (w = JStr t)"
| "py_eq (JArr vs) w = (case w of JArr ws \<Rightarrow> py_eqs vs ws | _ \<Rightarrow> False)"
| "py_eq (JObj kvs) w = (case w of
      JObj lws \<Rightarrow> length kvs = length lws
        \<and> list_all (\<lambda>(k, v). case map_of lws k of None \<Rightarrow> False | Some x \<Rightarrow> py_eq v x) kvs
    | _ \<Rightarrow> False)"
| "py_eqs [] ws = (ws = [])"
| "py_eqs (v # vs) ws = (case ws of [] \<Rightarrow> False | x # xs \<Rightarrow> py_eq v x \<and> py_eqs vs xs)"

section \<open>Decimal integers\<close>

fun dec :: "nat \<Rightarrow> pystr" where
  "dec n = (if n < 10 then [48 + n] else dec (n div 10) @ [48 + n mod 10])"

declare dec.simps [simp del]

definition py_int :: "int \<Rightarrow> pystr" where
  "py_int i = (if i < 0 then 45 # dec (nat (- i)) else dec (nat i))"

definition is_digit :: "nat \<Rightarrow> bool" where
  "is_digit c \<longleftrightarrow> 48 \<le> c \<and> c \<le> 57"

definition undec :: "pystr \<Rightarrow> nat" where
  "undec ds = foldl (\<lambda>a d. 10 * a + (d - 48)) 0 ds"

lemma undec_dec [simp]: "undec (dec n) = n"
proof (induction n rule: dec.induct)
  case (1 n)
  show ?case
  proof (cases "n < 10")
    case True
    then show ?thesis by (simp add: dec.simps [of n] undec_def)
  next
    case False
    with 1 show ?thesis by (simp add: dec.simps [of n] undec_def)
  qed
qed

lemma dec_digits: "list_all is_digit (dec n)"
proof (induction n rule: dec.induct)
  case (1 n)
  have "n mod 10 < 10" by simp
  with 1 show ?case by (auto simp: dec.simps [of n] is_digit_def)
qed

lemma dec_not_Nil [simp]: "dec n \<noteq> []"
  by (subst dec.simps) simp

text \<open>What may follow a number: nothing, or a character that is no digit.\<close>

definition ends_number :: "pystr \<Rightarrow> bool" where
  "ends_number xs \<longleftrightarrow> (case xs of [] \<Rightarrow> True | c # _ \<Rightarrow> \<not> is_digit c)"

lemma takeWhile_dec: "ends_number xs \<Longrightarrow> takeWhile is_digit (dec n @ xs) = dec n"
  using dec_digits [of n]
  by (auto simp: ends_number_def list_all_iff takeWhile_append split: list.splits)

lemma dec_unique:
  assumes "dec a @ xs = dec b @ ys" "ends_number xs" "ends_number ys"
  shows "a = b \<and> xs = ys"
proof -
  from assms have "dec a = dec b" by (metis takeWhile_dec)
  then have "a = b" by (metis undec_dec)
  with assms show ?thesis by simp
qed

lemma hd_dec: "dec n @ xs = c # ys \<Longrightarrow> is_digit c"
  using dec_digits [of n] by (cases "dec n") auto

lemma py_int_unique:
  assumes "py_int a @ xs = py_int b @ ys" "ends_number xs" "ends_number ys"
  shows "a = b \<and> xs = ys"
proof -
  have no_minus: "dec n @ zs \<noteq> 45 # ws" for n zs ws
  proof
    assume "dec n @ zs = 45 # ws"
    then have "is_digit 45" by (rule hd_dec)
    then show False by (simp add: is_digit_def)
  qed
  show ?thesis
  proof (cases "a < 0"; cases "b < 0")
    assume "a < 0" "b < 0"
    with assms dec_unique [of "nat (- a)" xs "nat (- b)" ys] show ?thesis
      by (auto simp: py_int_def)
  next
    assume "a < 0" "\<not> b < 0"
    with assms(1) no_minus [of "nat b" ys "dec (nat (- a)) @ xs"] show ?thesis
      by (simp add: py_int_def)
  next
    assume "\<not> a < 0" "b < 0"
    with assms(1) no_minus [of "nat a" xs "dec (nat (- b)) @ ys"] show ?thesis
      by (simp add: py_int_def)
  next
    assume "\<not> a < 0" "\<not> b < 0"
    with assms dec_unique [of "nat a" xs "nat b" ys] show ?thesis
      by (auto simp: py_int_def)
  qed
qed

section \<open>Escape tables\<close>

definition hexdigit :: "nat \<Rightarrow> nat" where
  "hexdigit d = (if d < 10 then 48 + d else 87 + d)"

definition hex4 :: "nat \<Rightarrow> pystr" where
  "hex4 n = [hexdigit (n div 4096 mod 16), hexdigit (n div 256 mod 16),
             hexdigit (n div 16 mod 16), hexdigit (n mod 16)]"

definition esc_u :: "nat \<Rightarrow> pystr" where
  "esc_u n = 92 # 117 # hex4 n"

text \<open>The two-character escapes both encoders share.\<close>

definition short_escape :: "nat \<Rightarrow> nat option" where
  "short_escape c =
     (if c = 34 then Some 34 else if c = 92 then Some 92 else if c = 10 then Some 110
      else if c = 13 then Some 114 else if c = 9 then Some 116 else if c = 12 then Some 102
      else if c = 8 then Some 98 else None)"

text \<open>\<open>ensure_ascii=True\<close>: everything outside the printable ASCII range is escaped, a code
  point above the basic plane as a surrogate pair.\<close>

definition esc_ascii :: "nat \<Rightarrow> pystr" where
  "esc_ascii c =
     (case short_escape c of
        Some e \<Rightarrow> [92, e]
      | None \<Rightarrow>
          if 32 \<le> c \<and> c \<le> 126 then [c]
          else if c < 65536 then esc_u c
          else esc_u (55296 + (c - 65536) div 1024 mod 1024) @ esc_u (56320 + (c - 65536) mod 1024))"

text \<open>\<open>ensure_ascii=False\<close>: only quotes, backslashes and control characters are escaped.\<close>

definition esc_plain :: "nat \<Rightarrow> pystr" where
  "esc_plain c =
     (case short_escape c of Some e \<Rightarrow> [92, e] | None \<Rightarrow> if c < 32 then esc_u c else [c])"

text \<open>Unicode scalar values: code points that are no surrogates.\<close>

definition scalar :: "nat \<Rightarrow> bool" where
  "scalar c \<longleftrightarrow> c < 55296 \<or> 57344 \<le> c \<and> c < 1114112"

lemma hexdigit_inject: "a < 16 \<Longrightarrow> b < 16 \<Longrightarrow> hexdigit a = hexdigit b \<longleftrightarrow> a = b"
  by (auto simp: hexdigit_def split: if_splits)

lemma hex4_inject:
  assumes "a < 65536" "b < 65536" "hex4 a = hex4 b"
  shows "a = b"
proof -
  from assms(3) have eqs: "a div 4096 mod 16 = b div 4096 mod 16" "a div 256 mod 16 = b div 256 mod 16"
    "a div 16 mod 16 = b div 16 mod 16" "a mod 16 = b mod 16"
    by (auto simp: hex4_def hexdigit_inject)
  have split: "n = 4096 * (n div 4096 mod 16) + 256 * (n div 256 mod 16) + 16 * (n div 16 mod 16) + n mod 16"
    if "n < 65536" for n :: nat
  proof -
    define a b c where "a = n div 16" and "b = a div 16" and "c = b div 16"
    have "n = 16 * a + n mod 16" "a = 16 * b + a mod 16" "b = 16 * c + b mod 16"
      by (simp_all add: a_def b_def c_def)
    moreover have "n div 256 = b" "n div 4096 = c"
      by (simp_all add: a_def b_def c_def div_mult2_eq [symmetric])
    moreover have "c < 16"
      using that by (simp add: a_def b_def c_def div_mult2_eq [symmetric] less_mult_imp_div_less)
    ultimately show ?thesis by (simp add: a_def [symmetric])
  qed
  from split [OF assms(1)] split [OF assms(2)] eqs show ?thesis by linarith
qed

lemma length_hex4 [simp]: "length (hex4 n) = 4"
  by (simp add: hex4_def)

lemma esc_u_unique: "a < 65536 \<Longrightarrow> b < 65536 \<Longrightarrow> esc_u a @ xs = esc_u b @ ys \<Longrightarrow> a = b \<and> xs = ys"
  by (auto simp: esc_u_def dest: hex4_inject)

lemma short_escape_inject: "short_escape a = Some e \<Longrightarrow> short_escape b = Some e \<Longrightarrow> a = b"
  by (auto simp: short_escape_def split: if_splits)

lemma short_escape_not_u: "short_escape a \<noteq> Some 117"
  by (auto simp: short_escape_def split: if_splits)

lemma short_escape_None: "short_escape c = None \<Longrightarrow> c \<noteq> 34 \<and> c \<noteq> 92"
  by (auto simp: short_escape_def split: if_splits)

text \<open>The four shapes an ASCII escape can have.\<close>

lemma esc_ascii_cases:
  assumes "scalar c"
  obtains (short) e where "short_escape c = Some e" "esc_ascii c = [92, e]"
  | (literal) "c \<noteq> 92" "esc_ascii c = [c]"
  | (basic) "c < 65536" "\<not> (55296 \<le> c \<and> c < 57344)" "esc_ascii c = esc_u c"
  | (pair) "65536 \<le> c" "c < 1114112"
      "esc_ascii c = esc_u (55296 + (c - 65536) div 1024) @ esc_u (56320 + (c - 65536) mod 1024)"
proof (cases "short_escape c")
  case (Some e)
  then show ?thesis using short by (simp add: esc_ascii_def)
next
  case None
  note none = this
  show ?thesis
  proof (cases "32 \<le> c \<and> c \<le> 126")
    case True
    then show ?thesis using literal none short_escape_None [OF none] by (simp add: esc_ascii_def)
  next
    case False
    show ?thesis
    proof (cases "c < 65536")
      case True
      with False none assms show ?thesis by (intro basic) (auto simp: esc_ascii_def scalar_def)
    next
      case big: False
      with assms have bound: "(c - 65536) div 1024 < 1024" "c < 1114112"
        by (auto simp: scalar_def less_mult_imp_div_less)
      with big False none show ?thesis using pair by (simp add: esc_ascii_def)
    qed
  qed
qed

lemma ascii_unique_aux:
  assumes "scalar a" "scalar b" and eq: "esc_ascii a @ xs = esc_ascii b @ ys"
  shows "a = b \<and> xs = ys"
proof -
  have half: "(c - 65536) div 1024 < 1024" if "c < 1114112" for c :: nat
    using that by (simp add: less_mult_imp_div_less)
  have join: "a = b" if "(a - 65536) div 1024 = (b - 65536) div 1024"
    "(a - 65536) mod 1024 = (b - 65536) mod 1024" "65536 \<le> a" "65536 \<le> b"
    using that by (metis div_mult_mod_eq le_add_diff_inverse)
  from assms(1) show ?thesis
  proof (cases rule: esc_ascii_cases)
    case (short e)
    from assms(2) show ?thesis
      by (cases rule: esc_ascii_cases)
        (use short eq short_escape_not_u short_escape_inject in \<open>auto simp: esc_u_def\<close>)
  next
    case literal
    from assms(2) show ?thesis
      by (cases rule: esc_ascii_cases) (use literal eq in \<open>auto simp: esc_u_def\<close>)
  next
    case basic
    from assms(2) show ?thesis
    proof (cases rule: esc_ascii_cases)
      case b: basic
      show ?thesis using basic b eq by (intro esc_u_unique) simp_all
    next
      case b: pair
      from basic(3) b(3) eq have "esc_u a @ xs
          = esc_u (55296 + (b - 65536) div 1024) @ (esc_u (56320 + (b - 65536) mod 1024) @ ys)"
        by simp
      from esc_u_unique [OF basic(1) _ this] half [OF b(2)]
      have "a = 55296 + (b - 65536) div 1024" by linarith
      with half [OF b(2)] basic show ?thesis by simp
    qed (use basic eq short_escape_not_u in \<open>auto simp: esc_u_def\<close>)
  next
    case pair
    from assms(2) show ?thesis
    proof (cases rule: esc_ascii_cases)
      case b: basic
      from pair(3) b(3) eq have "esc_u b @ ys
          = esc_u (55296 + (a - 65536) div 1024) @ (esc_u (56320 + (a - 65536) mod 1024) @ xs)"
        by simp
      from esc_u_unique [OF b(1) _ this] half [OF pair(2)]
      have "b = 55296 + (a - 65536) div 1024" by linarith
      with half [OF pair(2)] b show ?thesis by simp
    next
      case b: pair
      from pair(3) b(3) eq
      have "esc_u (55296 + (a - 65536) div 1024) @ (esc_u (56320 + (a - 65536) mod 1024) @ xs)
          = esc_u (55296 + (b - 65536) div 1024) @ (esc_u (56320 + (b - 65536) mod 1024) @ ys)"
        by simp
      from esc_u_unique [OF _ _ this] half [OF pair(2)] half [OF b(2)]
      have 1: "(a - 65536) div 1024 = (b - 65536) div 1024"
        and 2: "esc_u (56320 + (a - 65536) mod 1024) @ xs = esc_u (56320 + (b - 65536) mod 1024) @ ys"
        by linarith+
      have m: "(c - 65536) mod 1024 < 1024" for c :: nat by simp
      from 2 have "56320 + (a - 65536) mod 1024 = 56320 + (b - 65536) mod 1024 \<and> xs = ys"
        using m [of a] m [of b] by (intro esc_u_unique) linarith+
      with 1 pair b join show ?thesis by simp
    qed (use pair eq short_escape_not_u in \<open>auto simp: esc_u_def\<close>)
  qed
qed

section \<open>Interface: a string escape table\<close>

text \<open>
  What the document encoder relies on: on the admitted code points the escapes are uniquely
  decodable, and no escape is empty or starts like the closing quote.
\<close>

locale string_code =
  fixes esc :: "nat \<Rightarrow> pystr" and admitted :: "nat \<Rightarrow> bool"
  assumes unique: "admitted a \<Longrightarrow> admitted b \<Longrightarrow> esc a @ xs = esc b @ ys \<Longrightarrow> a = b \<and> xs = ys"
    and no_quote: "admitted a \<Longrightarrow> esc a @ xs \<noteq> 34 # ys"
begin

lemma body_unique:
  assumes "list_all admitted s" "list_all admitted t"
    and "concat (map esc s) @ 34 # xs = concat (map esc t) @ 34 # ys"
  shows "s = t \<and> xs = ys"
  using assms
proof (induction s arbitrary: t)
  case Nil
  show ?case
  proof (cases t)
    case Nil
    with Nil.prems show ?thesis by simp
  next
    case (Cons b t')
    with Nil.prems have "admitted b" "esc b @ concat (map esc t') @ 34 # ys = 34 # xs" by auto
    then show ?thesis using no_quote by blast
  qed
next
  case (Cons a s)
  show ?case
  proof (cases t)
    case Nil
    with Cons.prems have "admitted a" "esc a @ concat (map esc s) @ 34 # xs = 34 # ys" by auto
    then show ?thesis using no_quote by blast
  next
    case (Cons b t')
    from Cons Cons.prems have ab: "admitted a" "admitted b" "list_all admitted s" "list_all admitted t'"
      and "esc a @ (concat (map esc s) @ 34 # xs) = esc b @ (concat (map esc t') @ 34 # ys)"
      by auto
    from unique [OF ab(1,2) this(5)]
    have "a = b" "concat (map esc s) @ 34 # xs = concat (map esc t') @ 34 # ys" by auto
    with Cons.IH [OF ab(3,4)] Cons show ?thesis by blast
  qed
qed

end

interpretation ascii_code: string_code esc_ascii scalar
proof unfold_locales
  fix a b xs ys
  assume ok: "scalar a" "scalar b" and eq: "esc_ascii a @ xs = esc_ascii b @ ys"
  show "a = b \<and> xs = ys"
    using ascii_unique_aux [OF ok eq] .
next
  fix a xs ys
  show "esc_ascii a @ xs \<noteq> 34 # ys"
    by (auto simp: esc_ascii_def esc_u_def dest: short_escape_None split: option.split)
qed

interpretation plain_code: string_code esc_plain "\<lambda>_. True"
proof unfold_locales
  fix a b xs ys
  assume "esc_plain a @ xs = esc_plain b @ ys"
  then show "a = b \<and> xs = ys"
    using hex4_inject [of a b]
    by (auto simp: esc_plain_def esc_u_def short_escape_not_u dest: short_escape_inject short_escape_None
        split: option.splits if_splits)
next
  fix a xs ys
  show "esc_plain a @ xs \<noteq> 34 # ys"
    by (auto simp: esc_plain_def esc_u_def dest: short_escape_None split: option.split)
qed

end
