(* ===== verification/Canonical.thy ===== *)
theory Canonical
  imports Json
begin

text \<open>
  The canonical text of a document and the digests built on it: \<open>canonical.py\<close>
  (\<open>canonical_json\<close>, \<open>canonical_sha256\<close>) and the security encoder with the service
  digest. SHA-256 of the UTF-8 bytes is the parameter \<open>sha\<close>, a function of the text.

  The encoder is shown to be uniquely decodable, so two documents share a canonical text
  exactly when they agree up to the order of mapping keys.
\<close>

fun joinc :: "pystr list \<Rightarrow> pystr" where
  "joinc [] = []"
| "joinc [x] = x"
| "joinc (x # y # zs) = x @ 44 # joinc (y # zs)"

definition quote :: "(nat \<Rightarrow> pystr) \<Rightarrow> pystr \<Rightarrow> pystr" where
  "quote esc s = 34 # concat (map esc s) @ [34]"

fun json_dumps :: "(nat \<Rightarrow> pystr) \<Rightarrow> json \<Rightarrow> pystr" where
  "json_dumps esc JNull = u ''null''"
| "json_dumps esc (JBool b) = (if b then u ''true'' else u ''false'')"
| "json_dumps esc (JInt i) = py_int i"
| "json_dumps esc (JStr s) = quote esc s"
| "json_dumps esc (JArr vs) = 91 # joinc (map (json_dumps esc) vs) @ [93]"
| "json_dumps esc (JObj kvs) =
     123 # joinc (map (\<lambda>(k, v). quote esc k @ 58 # json_dumps esc v) kvs) @ [125]"

text \<open>\<open>sort_keys=True\<close>, at every level.\<close>

fun sort_keys :: "json \<Rightarrow> json" where
  "sort_keys (JArr vs) = JArr (map sort_keys vs)"
| "sort_keys (JObj kvs) = JObj (sort_key fst (map (\<lambda>(k, v). (k, sort_keys v)) kvs))"
| "sort_keys v = v"

definition canonical_json :: "json \<Rightarrow> pystr" where
  "canonical_json v = json_dumps esc_ascii (sort_keys v)"

definition canonical_sha256 :: "(pystr \<Rightarrow> string) \<Rightarrow> json \<Rightarrow> string" where
  "canonical_sha256 sha v = sha (canonical_json v)"

definition security_canonical_json :: "json \<Rightarrow> pystr" where
  "security_canonical_json v = json_dumps esc_plain (sort_keys v)"

definition sha256_json :: "(pystr \<Rightarrow> string) \<Rightarrow> json \<Rightarrow> string" where
  "sha256_json sha v = ''sha256:'' @ sha (security_canonical_json v)"

definition service_digest :: "(pystr \<Rightarrow> string) \<Rightarrow> json \<Rightarrow> string" where
  "service_digest sha v = sha (security_canonical_json v)"

text \<open>Every text of the document uses admitted code points only.\<close>

fun json_chars :: "(nat \<Rightarrow> bool) \<Rightarrow> json \<Rightarrow> bool" where
  "json_chars p (JStr s) = list_all p s"
| "json_chars p (JArr vs) = list_all (json_chars p) vs"
| "json_chars p (JObj kvs) = list_all (\<lambda>(k, v). list_all p k \<and> json_chars p v) kvs"
| "json_chars p _ = True"

section \<open>Unique decoding\<close>

lemma ends_number_simps [simp]:
  "ends_number []" "ends_number (c # xs) \<longleftrightarrow> \<not> is_digit c"
  by (simp_all add: ends_number_def)

lemma structural_not_digit [simp]: "\<not> is_digit 44" "\<not> is_digit 93" "\<not> is_digit 125"
  by (simp_all add: is_digit_def)

text \<open>
  A separated list of items closed by a bracket can be read back when each item can, and no
  item starts with the bracket.
\<close>

lemma joinc_unique:
  assumes "\<And>v w xs ys. v \<in> set vs \<Longrightarrow> w \<in> set ws \<Longrightarrow> ends_number xs \<Longrightarrow> ends_number ys \<Longrightarrow>
      E v @ xs = E w @ ys \<Longrightarrow> v = w \<and> xs = ys"
    and "\<And>v. v \<in> set vs \<union> set ws \<Longrightarrow> \<exists>c cs. E v = c # cs \<and> c \<noteq> close"
    and "joinc (map E vs) @ close # xs = joinc (map E ws) @ close # ys"
    and "close = 93 \<or> close = 125"
  shows "vs = ws \<and> xs = ys"
  using assms
proof (induction vs arbitrary: ws)
  case Nil
  show ?case
  proof (cases ws)
    case Nil
    with Nil.prems show ?thesis by simp
  next
    case (Cons w ws')
    then obtain c cs where "E w = c # cs" "c \<noteq> close" using Nil.prems(2) by force
    then have False using Nil.prems(3) Cons by (cases ws') auto
    then show ?thesis ..
  qed
next
  case (Cons v vs)
  note decode = Cons.prems(1) and heads = Cons.prems(2) and eq = Cons.prems(3) and close = Cons.prems(4)
  show ?case
  proof (cases ws)
    case Nil
    then obtain c cs where "E v = c # cs" "c \<noteq> close" using heads by force
    then have False using eq Nil by (cases vs) auto
    then show ?thesis ..
  next
    case ws: (Cons w ws')
    define tail where "tail = (\<lambda>us rest. if us = [] then close # rest else 44 # joinc (map E us) @ close # rest)"
    have shape: "joinc (map E (a # us)) @ close # rest = E a @ tail us rest" for a us rest
      by (cases us) (simp_all add: tail_def)
    have ends: "ends_number (tail us rest)" for us rest
      using close by (auto simp: tail_def)
    have "E v @ tail vs xs = E w @ tail ws' ys" using eq ws shape [of v vs xs] shape [of w ws' ys] by simp
    with decode [of v w "tail vs xs" "tail ws' ys"] ws ends
    have vw: "v = w" and rest: "tail vs xs = tail ws' ys" by auto
    have "vs = ws' \<and> xs = ys"
    proof (cases "vs = [] \<or> ws' = []")
      case True
      with rest close show ?thesis by (auto simp: tail_def split: if_splits)
    next
      case False
      with rest have "joinc (map E vs) @ close # xs = joinc (map E ws') @ close # ys"
        by (simp add: tail_def)
      then show ?thesis
        using decode heads close ws by (intro Cons.IH) auto
    qed
    with vw ws show ?thesis by simp
  qed
qed

text \<open>The first character tells the constructor.\<close>

definition head_kind :: "nat \<Rightarrow> nat" where
  "head_kind c = (if is_digit c then 45 else c)"

fun json_kind :: "json \<Rightarrow> nat" where
  "json_kind JNull = 110"
| "json_kind (JBool b) = (if b then 116 else 102)"
| "json_kind (JInt i) = 45"
| "json_kind (JStr s) = 34"
| "json_kind (JArr vs) = 91"
| "json_kind (JObj kvs) = 123"

lemma py_int_head: "\<exists>c cs. py_int i = c # cs \<and> head_kind c = 45"
proof (cases "i < 0")
  case True
  then show ?thesis by (simp add: py_int_def head_kind_def is_digit_def)
next
  case False
  then show ?thesis
    using dec_digits [of "nat i"] by (cases "dec (nat i)") (auto simp: py_int_def head_kind_def)
qed

lemma dumps_head: "\<exists>c cs. json_dumps esc v = c # cs \<and> head_kind c = json_kind v"
  using py_int_head
  by (cases v) (auto simp: u_def quote_def head_kind_def is_digit_def)

lemma dumps_kind:
  assumes "json_dumps esc v @ xs = json_dumps esc w @ ys"
  shows "json_kind v = json_kind w"
proof -
  obtain c cs d ds where "json_dumps esc v = c # cs" "head_kind c = json_kind v"
    "json_dumps esc w = d # ds" "head_kind d = json_kind w"
    using dumps_head [of esc v] dumps_head [of esc w] by blast
  with assms show ?thesis by simp
qed

lemma dumps_open: "\<exists>c cs. json_dumps esc v = c # cs \<and> c \<noteq> 93 \<and> c \<noteq> 125"
proof -
  obtain c cs where c: "json_dumps esc v = c # cs" "head_kind c = json_kind v"
    using dumps_head [of esc v] by blast
  have "json_kind v \<noteq> 93" "json_kind v \<noteq> 125" by (cases v; simp)+
  with c show ?thesis by (metis head_kind_def structural_not_digit(2,3))
qed

context string_code
begin

lemma quote_unique:
  assumes "list_all admitted s" "list_all admitted t" "quote esc s @ xs = quote esc t @ ys"
  shows "s = t \<and> xs = ys"
  using assms body_unique [of s t xs ys] by (simp add: quote_def)

theorem dumps_unique:
  assumes "json_chars admitted v" "json_chars admitted w" "ends_number xs" "ends_number ys"
    and "json_dumps esc v @ xs = json_dumps esc w @ ys"
  shows "v = w \<and> xs = ys"
  using assms
proof (induction v arbitrary: w xs ys)
  case JNull
  then show ?case using dumps_kind [OF JNull(5)] by (cases w) (auto split: if_splits)
next
  case (JBool b)
  then show ?case using dumps_kind [OF JBool(5)] by (cases w) (auto split: if_splits)
next
  case (JInt i)
  then show ?case using dumps_kind [OF JInt(5)] by (cases w) (auto dest: py_int_unique split: if_splits)
next
  case (JStr s)
  then show ?case using dumps_kind [OF JStr(5)] by (cases w) (auto dest: quote_unique split: if_splits)
next
  case (JArr vs)
  then obtain ws where w: "w = JArr ws"
    using dumps_kind [OF JArr(6)] by (cases w) (auto split: if_splits)
  have "vs = ws \<and> xs = ys"
  proof (rule joinc_unique [where E = "json_dumps esc" and close = 93])
    show "joinc (map (json_dumps esc) vs) @ 93 # xs = joinc (map (json_dumps esc) ws) @ 93 # ys"
      using JArr.prems(5) w by simp
  next
    fix v' w' xs' ys'
    assume "v' \<in> set vs" "w' \<in> set ws" "ends_number xs'" "ends_number ys'"
      "json_dumps esc v' @ xs' = json_dumps esc w' @ ys'"
    then show "v' = w' \<and> xs' = ys'"
      using JArr.prems(1,2) w by (intro JArr.IH) (auto simp: list_all_iff)
  next
    fix v'
    show "\<exists>c cs. json_dumps esc v' = c # cs \<and> c \<noteq> 93" using dumps_open by blast
  qed simp
  with w show ?case by simp
next
  case (JObj kvs)
  then obtain kws where w: "w = JObj kws"
    using dumps_kind [OF JObj(6)] by (cases w) (auto split: if_splits)
  let ?E = "\<lambda>(k, v). quote esc k @ 58 # json_dumps esc v"
  have "kvs = kws \<and> xs = ys"
  proof (rule joinc_unique [where E = ?E and close = 125])
    show "joinc (map ?E kvs) @ 125 # xs = joinc (map ?E kws) @ 125 # ys"
      using JObj.prems(5) w by simp
  next
    fix p q xs' ys'
    assume p: "p \<in> set kvs" and q: "q \<in> set kws" and ends: "ends_number xs'" "ends_number ys'"
      and eq: "?E p @ xs' = ?E q @ ys'"
    obtain k v k' v' where kv: "p = (k, v)" "q = (k', v')" by (cases p; cases q)
    have chars: "list_all admitted k" "list_all admitted k'" "json_chars admitted v" "json_chars admitted v'"
      using p q kv JObj.prems(1,2) w by (auto simp: list_all_iff)
    from eq kv have "quote esc k @ (58 # json_dumps esc v @ xs') = quote esc k' @ (58 # json_dumps esc v' @ ys')"
      by simp
    from quote_unique [OF chars(1,2) this]
    have "k = k'" and "json_dumps esc v @ xs' = json_dumps esc v' @ ys'" by auto
    with JObj.IH [of p v v' xs' ys'] p kv chars ends show "p = q \<and> xs' = ys'" by auto
  next
    fix p
    show "\<exists>c cs. ?E p = c # cs \<and> c \<noteq> 125" by (cases p) (simp add: quote_def)
  qed simp
  with w show ?case by simp
qed

corollary dumps_inject:
  assumes "json_chars admitted v" "json_chars admitted w"
  shows "json_dumps esc v = json_dumps esc w \<longleftrightarrow> v = w"
  using dumps_unique [OF assms, of "[]" "[]"] by auto

end

lemma json_chars_True [simp]: "json_chars (\<lambda>_. True) v"
proof (induction v)
  case (JArr vs)
  then show ?case by (auto simp: list_all_iff)
next
  case (JObj kvs)
  then show ?case by (force simp: list_all_iff)
qed (auto simp: list_all_iff)

section \<open>Canonical texts identify documents up to key order\<close>

lemma json_chars_sort_keys [simp]: "json_chars p (sort_keys v) = json_chars p v"
proof (induction v)
  case (JArr vs)
  then show ?case by (auto simp: list_all_iff)
next
  case (JObj kvs)
  then show ?case by (force simp: list_all_iff)
qed auto

lemma canonical_json_inject:
  assumes "json_chars scalar v" "json_chars scalar w"
  shows "canonical_json v = canonical_json w \<longleftrightarrow> sort_keys v = sort_keys w"
  using assms by (simp add: canonical_json_def ascii_code.dumps_inject)

lemma security_canonical_json_inject:
  "security_canonical_json v = security_canonical_json w \<longleftrightarrow> sort_keys v = sort_keys w"
  by (simp add: security_canonical_json_def plain_code.dumps_inject)

end
