(* ===== verification/Errors.thy ===== *)
theory Errors
  imports Json
begin

text \<open>
  The exceptions of \<open>errors.py\<close> as values: a handler that raises returns \<open>Inl\<close>. The
  details of an exception are its keyword arguments. \<open>PyError\<close> stands for an exception of
  the language or of SQLite (its class and message), which has no envelope of its own.
\<close>

type_synonym details = "(string \<times> json) list"

datatype cp_error =
    NotFoundError string string
  | ConflictError string details
  | AuthorizationError string details
  | AuthenticationError string
  | ValidationError string details
  | AuthorityModeError string
  | StaleGoalError int int
  | StaleGenerationError int int
  | PyError string string

type_synonym 'a cp = "(cp_error, 'a) result"

fun error_code :: "cp_error \<Rightarrow> string" where
  "error_code (NotFoundError r i) = ''not_found''"
| "error_code (ConflictError m d) = ''conflict''"
| "error_code (AuthorizationError m d) = ''forbidden''"
| "error_code (AuthenticationError m) = ''unauthorized''"
| "error_code (ValidationError m d) = ''invalid_request''"
| "error_code (AuthorityModeError m) = ''authority_not_canonical''"
| "error_code (StaleGoalError e a) = ''stale_goal_version''"
| "error_code (StaleGenerationError e a) = ''stale_work_generation''"
| "error_code (PyError c m) = c"

fun status_code :: "cp_error \<Rightarrow> int" where
  "status_code (NotFoundError r i) = 404"
| "status_code (ConflictError m d) = 409"
| "status_code (AuthorizationError m d) = 403"
| "status_code (AuthenticationError m) = 401"
| "status_code (ValidationError m d) = 422"
| "status_code (AuthorityModeError m) = 503"
| "status_code (StaleGoalError e a) = 409"
| "status_code (StaleGenerationError e a) = 409"
| "status_code (PyError c m) = 500"

fun error_message :: "cp_error \<Rightarrow> pystr" where
  "error_message (NotFoundError r i) = u (r @ '' not found: '' @ i)"
| "error_message (ConflictError m d) = u m"
| "error_message (AuthorizationError m d) = u m"
| "error_message (AuthenticationError m) = u m"
| "error_message (ValidationError m d) = u m"
| "error_message (AuthorityModeError m) =
     u ''the control plane is not the active write and dispatch authority''"
| "error_message (StaleGoalError e a) =
     u ''goal version is stale: expected '' @ py_int e @ u '', current '' @ py_int a"
| "error_message (StaleGenerationError e a) =
     u ''work generation is stale: expected '' @ py_int e @ u '', current '' @ py_int a"
| "error_message (PyError c m) = u m"

text \<open>An empty keyword mapping is stored as \<open>None\<close>; both are falsy and left out below.\<close>

fun error_details :: "cp_error \<Rightarrow> details" where
  "error_details (NotFoundError r i) = [(''resource'', jstr r), (''identifier'', jstr i)]"
| "error_details (ConflictError m d) = d"
| "error_details (AuthorizationError m d) = d"
| "error_details (AuthenticationError m) = []"
| "error_details (ValidationError m d) = d"
| "error_details (AuthorityModeError m) = [(''authority_mode'', jstr m)]"
| "error_details (StaleGoalError e a) = [(''expected'', JInt e), (''current'', JInt a)]"
| "error_details (StaleGenerationError e a) = [(''expected'', JInt e), (''current'', JInt a)]"
| "error_details (PyError c m) = []"

definition as_dict :: "cp_error \<Rightarrow> json" where
  "as_dict e = jobj ([(''code'', jstr (error_code e)), (''message'', JStr (error_message e))]
     @ (if error_details e = [] then [] else [(''details'', jobj (error_details e))]))"

end
