(* ===== verification/Store.thy ===== *)
theory Store
  imports Canonical Errors
begin

text \<open>
  The persistent state: the enumerations of \<open>models.py\<close> that the modelled columns hold, one
  record per table of \<open>database.py\<close> with the columns the modelled operations read or write,
  the database as the record of its tables, and the transaction bracket.

  A table is the list of its rows in row order. Columns that no modelled operation looks at
  are left out. JSON columns hold the document their text parses to (every modelled writer
  stores \<open>_json(value)\<close>). Enumeration columns hold the enumeration value.
\<close>

section \<open>Enumerations\<close>

datatype principal_role = CAO | WORKER | USER | EXTERNAL | DASHBOARD

datatype work_state = W_OPEN | W_ACTIVE | W_SUSPENDED | W_WAITING_SUPERVISOR | W_WAITING_REVIEW
  | W_WAITING_USER | W_USER_NEEDED | W_COMPLETED | W_CANCELED | W_FAILED

datatype attempt_state = A_ASSIGNED | A_ACCEPTED | A_WORKING | A_SUSPENDED | A_WAITING_SUPERVISOR
  | A_INPUT_REQUIRED | A_BLOCKED | A_SUBMITTED | A_COMPLETED | A_FAILED | A_CANCELED

datatype runtime_state = R_STARTING | R_READY | R_BUSY | R_WAITING | R_STOPPED | R_FAILED | R_MISSING

datatype enrollment_state = E_AWAITING_HANDSHAKE | E_READY | E_STALE | E_REVOKED | E_FAILED

datatype attention_owner = AO_NONE | AO_WORKER | AO_CAO | AO_USER | AO_EXTERNAL

datatype message_kind = ASSIGNMENT | INSTRUCTION | QUESTION | BLOCKER | PROGRESS | ARTIFACT
  | COMPLETION_CLAIM | STATUS_REQUEST | REVIEW | USER_INPUT | CANCEL | SYSTEM

datatype delivery_state = QUEUED | LEASED | DISPATCHED | DELIVERED | ACKNOWLEDGED | HANDLED | DEAD

datatype reactivation_policy = TERMINAL | RETRYABLE

datatype boundary_kind = DIRECTIVE | IDLE | BK_QUESTION | BK_BLOCKER | COMPLETION | WORKER_OUTPUT
  | REVIEW_REJECTED | USER_REJECTION | RETRY_REQUEST | EXIT | FAILURE

datatype disposition_kind = CONTINUE | CORRECT | RETRY | WAIT_USER | PAUSE | ACCEPT | CANCEL_WORK | FAIL

datatype turn_state = TURN_LEASED | TURN_COMPLETED | TURN_ABANDONED

datatype effect_kind = LOCAL | EXTERNAL_EFFECT | DESTRUCTIVE

datatype effect_status = STARTED | EFFECT_SUCCEEDED | EFFECT_NOT_APPLIED | EFFECT_FAILED | EFFECT_UNKNOWN

fun role_value :: "principal_role \<Rightarrow> string" where
  "role_value CAO = ''cao''"
| "role_value WORKER = ''worker''"
| "role_value USER = ''user''"
| "role_value EXTERNAL = ''external''"
| "role_value DASHBOARD = ''dashboard''"

fun work_state_value :: "work_state \<Rightarrow> string" where
  "work_state_value W_OPEN = ''open''"
| "work_state_value W_ACTIVE = ''active''"
| "work_state_value W_SUSPENDED = ''suspended''"
| "work_state_value W_WAITING_SUPERVISOR = ''waiting_supervisor''"
| "work_state_value W_WAITING_REVIEW = ''waiting_review''"
| "work_state_value W_WAITING_USER = ''waiting_user''"
| "work_state_value W_USER_NEEDED = ''user_needed''"
| "work_state_value W_COMPLETED = ''completed''"
| "work_state_value W_CANCELED = ''canceled''"
| "work_state_value W_FAILED = ''failed''"

fun delivery_state_value :: "delivery_state \<Rightarrow> string" where
  "delivery_state_value QUEUED = ''queued''"
| "delivery_state_value LEASED = ''leased''"
| "delivery_state_value DISPATCHED = ''dispatched''"
| "delivery_state_value DELIVERED = ''delivered''"
| "delivery_state_value ACKNOWLEDGED = ''acknowledged''"
| "delivery_state_value HANDLED = ''handled''"
| "delivery_state_value DEAD = ''dead''"

fun message_kind_value :: "message_kind \<Rightarrow> string" where
  "message_kind_value ASSIGNMENT = ''assignment''"
| "message_kind_value INSTRUCTION = ''instruction''"
| "message_kind_value QUESTION = ''question''"
| "message_kind_value BLOCKER = ''blocker''"
| "message_kind_value PROGRESS = ''progress''"
| "message_kind_value ARTIFACT = ''artifact''"
| "message_kind_value COMPLETION_CLAIM = ''completion_claim''"
| "message_kind_value STATUS_REQUEST = ''status_request''"
| "message_kind_value REVIEW = ''review''"
| "message_kind_value USER_INPUT = ''user_input''"
| "message_kind_value CANCEL = ''cancel''"
| "message_kind_value SYSTEM = ''system''"

fun runtime_state_value :: "runtime_state \<Rightarrow> string" where
  "runtime_state_value R_STARTING = ''starting''"
| "runtime_state_value R_READY = ''ready''"
| "runtime_state_value R_BUSY = ''busy''"
| "runtime_state_value R_WAITING = ''waiting''"
| "runtime_state_value R_STOPPED = ''stopped''"
| "runtime_state_value R_FAILED = ''failed''"
| "runtime_state_value R_MISSING = ''missing''"

fun boundary_kind_value :: "boundary_kind \<Rightarrow> string" where
  "boundary_kind_value DIRECTIVE = ''directive''"
| "boundary_kind_value IDLE = ''idle''"
| "boundary_kind_value BK_QUESTION = ''question''"
| "boundary_kind_value BK_BLOCKER = ''blocker''"
| "boundary_kind_value COMPLETION = ''completion''"
| "boundary_kind_value WORKER_OUTPUT = ''worker_output''"
| "boundary_kind_value REVIEW_REJECTED = ''review_rejected''"
| "boundary_kind_value USER_REJECTION = ''user_rejection''"
| "boundary_kind_value RETRY_REQUEST = ''retry_request''"
| "boundary_kind_value EXIT = ''exit''"
| "boundary_kind_value FAILURE = ''failure''"

fun disposition_kind_value :: "disposition_kind \<Rightarrow> string" where
  "disposition_kind_value CONTINUE = ''continue''"
| "disposition_kind_value CORRECT = ''correct''"
| "disposition_kind_value RETRY = ''retry''"
| "disposition_kind_value WAIT_USER = ''wait_user''"
| "disposition_kind_value PAUSE = ''pause''"
| "disposition_kind_value ACCEPT = ''accept''"
| "disposition_kind_value CANCEL_WORK = ''cancel''"
| "disposition_kind_value FAIL = ''fail''"

fun policy_value :: "reactivation_policy \<Rightarrow> string" where
  "policy_value TERMINAL = ''terminal''"
| "policy_value RETRYABLE = ''retryable''"

fun effect_kind_value :: "effect_kind \<Rightarrow> string" where
  "effect_kind_value LOCAL = ''local''"
| "effect_kind_value EXTERNAL_EFFECT = ''external''"
| "effect_kind_value DESTRUCTIVE = ''destructive''"

fun effect_status_value :: "effect_status \<Rightarrow> string" where
  "effect_status_value STARTED = ''started''"
| "effect_status_value EFFECT_SUCCEEDED = ''succeeded''"
| "effect_status_value EFFECT_NOT_APPLIED = ''not_applied''"
| "effect_status_value EFFECT_FAILED = ''failed''"
| "effect_status_value EFFECT_UNKNOWN = ''unknown''"

section \<open>Rows\<close>

record principal_row =
  p_id :: ident
  p_role :: principal_role
  p_enabled :: bool
  p_operator_scope :: string

record runtime_row =
  r_id :: ident
  r_principal_id :: ident
  r_adapter :: string
  r_endpoint :: string
  r_native_session_id :: string
  r_state :: runtime_state
  r_lease_expires_at :: timestamp
  r_metadata :: json
  r_updated_at :: timestamp

record enrollment_row =
  we_id :: ident
  we_principal_id :: ident
  we_runtime_session_id :: ident
  we_state :: enrollment_state
  we_generation :: int
  we_required_tools_digest :: string
  we_discovered_tools_digest :: string
  we_protocol_version :: string
  we_heartbeat_sequence :: int
  we_managed :: bool
  we_lease_expires_at :: "timestamp option"

record credential_row =
  cr_id :: ident
  cr_owner_id :: ident
  cr_connection_id :: "ident option"
  cr_principal_id :: ident
  cr_generation :: int
  cr_state :: string
  cr_expires_at :: timestamp

record attachment_row =
  ca_id :: ident
  ca_principal_id :: ident
  ca_runtime_session_id :: ident
  ca_native_thread_id :: string
  ca_project_digest :: string
  ca_project_scope_digest :: string
  ca_state :: string
  ca_generation :: int
  ca_lease_expires_at :: timestamp

record connection_row =
  cc_id :: ident
  cc_attachment_id :: ident
  cc_principal_id :: ident
  cc_generation :: int
  cc_connection_generation :: int
  cc_proxy_catalog_digest :: string
  cc_proxy_abi_version :: int
  cc_state :: string
  cc_lease_expires_at :: timestamp

record ticket_row =
  tk_id :: ident
  tk_owner_id :: ident
  tk_generation :: int
  tk_state :: string
  tk_consumed_at :: "timestamp option"

record spec_row =
  ms_id :: ident
  ms_attachment_id :: ident
  ms_attachment_generation :: int
  ms_principal_id :: ident
  ms_runtime_session_id :: ident
  ms_enrollment_id :: ident
  ms_adapter :: string
  ms_workspace_ref :: string
  ms_catalog_target_id :: string
  ms_provider_scope_digest :: string
  ms_state :: string

record thread_row =
  mt_id :: ident
  mt_managed_spec_id :: ident
  mt_state :: string
  mt_generation :: int

record epoch_row =
  te_id :: ident
  te_thread_id :: ident
  te_generation :: int
  te_connection_generation :: int
  te_runtime_session_id :: ident
  te_enrollment_id :: ident
  te_retired_at :: "timestamp option"

record circuit_row =
  pc_scope_digest :: string
  pc_state :: string
  pc_cooldown_until :: timestamp
  pc_restart_authorized :: bool
  pc_source_runtime_session_id :: "ident option"
  pc_source_boundary_id :: "ident option"
  pc_source_work_item_id :: "ident option"
  pc_source_boundary_sequence :: int
  pc_probe_restart_override :: bool
  pc_probe_runtime_session_id :: "ident option"
  pc_probe_attempt_id :: "ident option"
  pc_probe_message_id :: string
  pc_probe_instruction_sequence :: int
  pc_probe_outcome_state :: string
  pc_opened_at :: timestamp
  pc_updated_at :: timestamp

record work_row =
  w_id :: ident
  w_goal_version :: int
  w_state :: work_state
  w_created_by :: ident
  w_requester_id :: "ident option"
  w_supervisor_id :: "ident option"
  w_supervisor_attachment_id :: "ident option"
  w_assigned_worker_id :: ident
  w_managed_worker_thread_id :: "ident option"
  w_managed_worker_thread_generation :: "int option"
  w_user_needed_boundary_id :: "ident option"
  w_paused_boundary_id :: "ident option"
  w_operator_scope :: string
  w_attention_owner :: attention_owner
  w_generation :: int
  w_suspended_by_work_item_id :: "ident option"
  w_created_at :: timestamp
  w_updated_at :: timestamp

record goal_revision_row =
  gr_work_item_id :: ident
  gr_version :: int
  gr_objective :: pystr
  gr_maturity :: string
  gr_acceptance :: json
  gr_non_goals :: json
  gr_packet :: json
  gr_packet_digest :: string

record attempt_row =
  a_id :: ident
  a_work_item_id :: ident
  a_attempt_number :: int
  a_worker_id :: ident
  a_runtime_session_id :: "ident option"
  a_goal_version :: int
  a_goal_packet_digest :: string
  a_task_packet_digest :: string
  a_state :: attempt_state
  a_trajectory :: string
  a_evidence_confidence :: string
  a_stage :: pystr
  a_next_boundary :: pystr
  a_completion_claim :: json
  a_updated_at :: timestamp

record directive_row =
  di_id :: ident
  di_target_work_item_id :: "ident option"
  di_created_work_item_id :: "ident option"
  di_relation :: string
  di_state :: string
  di_content :: pystr
  di_handled_by :: "ident option"
  di_handled_at :: "timestamp option"
  di_updated_at :: timestamp

record message_row =
  m_sequence :: int
  m_id :: ident
  m_work_item_id :: "ident option"
  m_attempt_id :: "ident option"
  m_sender_id :: ident
  m_kind :: message_kind
  m_payload :: json
  m_payload_digest :: string
  m_message_digest :: string
  m_correlation_id :: string
  m_causation_id :: string
  m_idempotency_key :: string
  m_goal_version :: "int option"
  m_goal_packet_digest :: string
  m_task_packet_digest :: string

record delivery_row =
  d_message_id :: ident
  d_recipient_id :: ident
  d_recipient_attachment_id :: "ident option"
  d_state :: delivery_state
  d_generation :: int
  d_attempts :: int
  d_next_attempt_at :: timestamp
  d_runtime_session_id :: "ident option"
  d_lease_until :: "timestamp option"
  d_owner_token :: string
  d_delivered_at :: "timestamp option"
  d_acknowledged_at :: "timestamp option"
  d_handled_at :: "timestamp option"
  d_last_error :: string
  d_reactivation_policy :: reactivation_policy
  d_updated_at :: timestamp

record output_receipt_row =
  wo_sequence :: int
  wo_id :: ident
  wo_stream_id :: ident
  wo_work_item_id :: ident
  wo_attempt_id :: ident
  wo_runtime_session_id :: ident
  wo_source_message_id :: ident
  wo_delivery_generation :: int
  wo_enrollment_generation :: int
  wo_work_generation :: int
  wo_goal_version :: int
  wo_goal_packet_digest :: string
  wo_task_packet_digest :: string
  wo_source_thread_digest :: string
  wo_source_turn_digest :: string
  wo_source_item_digest :: string
  wo_event_kind :: string
  wo_phase :: string
  wo_turn_status :: string
  wo_capture_state :: string
  wo_content_digest :: string
  wo_byte_count :: int
  wo_complete :: bool
  wo_event_digest :: string
  wo_artifact_manifest :: pystr
  wo_notification_message_id :: "ident option"
  wo_boundary_id :: "ident option"
  wo_created_at :: timestamp

record artifact_row =
  ar_id :: ident
  ar_work_item_id :: ident
  ar_attempt_id :: ident
  ar_producer_id :: ident
  ar_name :: pystr
  ar_uri :: pystr
  ar_media_type :: pystr
  ar_digest :: pystr
  ar_metadata :: json
  ar_created_at :: timestamp

record review_row =
  rv_id :: ident
  rv_work_item_id :: ident
  rv_attempt_id :: ident
  rv_boundary_id :: "ident option"
  rv_reviewer_id :: ident
  rv_reviewer_role :: principal_role
  rv_supervisor_attachment_id :: "ident option"
  rv_supervisor_attachment_generation :: "int option"
  rv_work_generation :: int
  rv_goal_version :: int
  rv_goal_packet_digest :: string
  rv_task_packet_digest :: string
  rv_verdict :: string
  rv_summary :: pystr
  rv_evidence :: json
  rv_created_at :: timestamp

record requester_decision_row =
  rd_id :: ident
  rd_work_item_id :: ident
  rd_attempt_id :: ident
  rd_review_id :: ident
  rd_requester_id :: ident
  rd_recorded_by :: ident
  rd_supervisor_attachment_id :: ident
  rd_supervisor_attachment_generation :: int
  rd_goal_version :: int
  rd_goal_packet_digest :: string
  rd_task_packet_digest :: string
  rd_work_generation :: int
  rd_verdict :: string
  rd_summary :: pystr
  rd_evidence :: json
  rd_conversation_evidence_id :: string
  rd_request_digest :: string
  rd_created_at :: timestamp

record read_input_row =
  ri_sequence :: int
  ri_attachment_id :: ident
  ri_input_digest :: string

record read_cursor_row =
  rc_attachment_id :: ident
  rc_resource :: string
  rc_cause_digest :: string
  rc_reservation_id :: string
  rc_pending :: bool
  rc_next_cursor_digest :: string

record enrollment_ticket_row =
  et_id :: ident
  et_enrollment_id :: ident
  et_attempt_id :: "ident option"
  et_generation :: int
  et_state :: string

record boundary_row =
  b_id :: ident
  b_source_principal_id :: ident
  b_source_event_id :: string
  b_work_item_id :: ident
  b_attempt_id :: ident
  b_goal_version :: int
  b_generation :: int
  b_goal_packet_digest :: string
  b_task_packet_digest :: string
  b_kind :: boundary_kind
  b_summary :: pystr
  b_runtime_state :: runtime_state
  b_metadata :: json
  b_recovery_action :: string
  b_input_digest :: string
  b_created_at :: timestamp

record disposition_row =
  bd_id :: ident
  bd_boundary_id :: ident
  bd_reasoner_turn_id :: ident
  bd_decided_by :: ident
  bd_generation :: int
  bd_kind :: disposition_kind
  bd_reason :: pystr
  bd_instruction :: pystr
  bd_resume_condition :: pystr
  bd_request_digest :: string
  bd_created_at :: timestamp

record supersession_row =
  bs_boundary_id :: ident
  bs_boundary_event_sequence :: int
  bs_superseding_event_sequence :: int
  bs_reason :: string

record turn_row =
  rt_id :: ident
  rt_supervisor_id :: ident
  rt_work_item_id :: ident
  rt_boundary_id :: ident
  rt_generation :: int
  rt_goal_version :: int
  rt_goal_packet_digest :: string
  rt_task_packet_digest :: string
  rt_input_digest :: string
  rt_result_digest :: string
  rt_state :: turn_state
  rt_lease_token_digest :: string
  rt_lease_expires_at :: timestamp
  rt_idempotency_key :: string
  rt_completed_at :: "timestamp option"
  rt_created_at :: timestamp
  rt_updated_at :: timestamp

record continuation_row =
  bc_boundary_id :: ident
  bc_work_item_id :: ident
  bc_source_attempt_id :: ident
  bc_source_generation :: int
  bc_successor_attempt_id :: ident
  bc_successor_generation :: int
  bc_message_id :: ident
  bc_decided_by :: ident

record pause_row =
  wz_boundary_id :: ident
  wz_work_item_id :: ident
  wz_attempt_id :: ident
  wz_source_generation :: int
  wz_pause_generation :: int
  wz_paused_by :: ident
  wz_created_at :: timestamp

record resumption_row =
  wr_boundary_id :: ident
  wr_work_item_id :: ident
  wr_previous_attempt_id :: ident
  wr_successor_attempt_id :: ident
  wr_expected_generation :: int
  wr_successor_generation :: int
  wr_message_id :: ident
  wr_resumed_by :: ident
  wr_reason :: pystr
  wr_instruction :: pystr
  wr_resume_evidence :: pystr

record output_stream_row =
  os_id :: ident
  os_work_item_id :: ident
  os_attempt_id :: ident
  os_runtime_session_id :: ident
  os_source_message_id :: ident
  os_delivery_generation :: int
  os_enrollment_generation :: int
  os_work_generation :: int
  os_owner_token_digest :: string
  os_source_thread_digest :: string
  os_source_turn_digest :: string
  os_terminal_output_id :: ident
  os_settled_at :: "timestamp option"
  os_created_at :: timestamp

record event_row =
  e_sequence :: int
  e_id :: ident
  e_event_type :: string
  e_aggregate_type :: string
  e_aggregate_id :: ident
  e_operator_scope :: string
  e_actor_id :: ident
  e_data :: json
  e_correlation_id :: string
  e_causation_id :: string
  e_created_at :: timestamp

record task_map_row =
  tm_task_id :: ident
  tm_work_item_id :: ident

record push_config_row =
  pcf_id :: ident
  pcf_task_id :: ident

record push_delivery_row =
  pd_id :: ident
  pd_config_id :: ident
  pd_event_sequence :: int
  pd_state :: string
  pd_attempts :: int
  pd_next_attempt_at :: timestamp
  pd_lease_until :: "timestamp option"
  pd_owner_token :: string
  pd_last_error :: pystr
  pd_created_at :: timestamp
  pd_updated_at :: timestamp

record grant_row =
  g_id :: ident
  g_principal_id :: ident
  g_kind :: effect_kind
  g_target_pattern :: string
  g_action_pattern :: string
  g_content_digest :: string
  g_argv_digest :: string
  g_workdir_digest :: string
  g_expires_at :: "timestamp option"
  g_standing :: bool
  g_consumed_at :: "timestamp option"
  g_created_at :: timestamp

record operation_row =
  o_id :: ident
  o_principal_id :: ident
  o_kind :: effect_kind
  o_target :: string
  o_action :: string
  o_content_digest :: string
  o_argv_digest :: string
  o_workdir_digest :: string
  o_status :: effect_status
  o_evidence :: string
  o_grant_id :: "ident option"
  o_cleanup_work_item_id :: "ident option"
  o_cleanup_generation :: "int option"
  o_cleanup_preparation_id :: string
  o_cleanup_target_kind :: string
  o_cleanup_target_fingerprint :: string
  o_cleanup_execution_digest :: string
  o_created_at :: timestamp
  o_updated_at :: timestamp

record preparation_row =
  wp_id :: ident
  wp_work_item_id :: ident
  wp_work_generation :: int
  wp_inventory :: "json option"
  wp_inventory_digest :: string

record idempotency_row =
  i_actor_id :: ident
  i_operation :: string
  i_key :: string
  i_request_digest :: string
  i_result :: json

record purpose_row =
  wpr_worker_thread_id :: ident
  wpr_version :: int
  wpr_purpose :: pystr
  wpr_created_by :: ident
  wpr_supervisor_attachment_id :: ident
  wpr_project_digest :: string
  wpr_reason :: pystr
  wpr_packet :: "json option"
  wpr_packet_digest :: string

record purpose_binding_row =
  pb_work_item_id :: ident
  pb_goal_version :: int
  pb_worker_thread_id :: ident
  pb_purpose_version :: int

section \<open>The database\<close>

record db =
  authority_mode :: "string option"
  metadata :: "(string \<times> string) list"
  principals :: "principal_row list"
  runtimes :: "runtime_row list"
  enrollments :: "enrollment_row list"
  runtime_credentials :: "credential_row list"
  attachments :: "attachment_row list"
  connections :: "connection_row list"
  cao_runtime_credentials :: "credential_row list"
  cao_runtime_tickets :: "ticket_row list"
  conversation_credentials :: "credential_row list"
  specs :: "spec_row list"
  threads :: "thread_row list"
  epochs :: "epoch_row list"
  circuits :: "circuit_row list"
  works :: "work_row list"
  goal_revisions :: "goal_revision_row list"
  attempts :: "attempt_row list"
  directives :: "directive_row list"
  messages :: "message_row list"
  message_sequence :: int
  deliveries :: "delivery_row list"
  output_receipts :: "output_receipt_row list"
  output_sequence :: int
  artifacts :: "artifact_row list"
  reviews :: "review_row list"
  requester_decisions :: "requester_decision_row list"
  read_inputs :: "read_input_row list"
  read_input_sequence :: int
  read_cursors :: "read_cursor_row list"
  enrollment_tickets :: "enrollment_ticket_row list"
  boundaries :: "boundary_row list"
  dispositions :: "disposition_row list"
  supersessions :: "supersession_row list"
  reasoner_turns :: "turn_row list"
  continuations :: "continuation_row list"
  pauses :: "pause_row list"
  resumptions :: "resumption_row list"
  output_streams :: "output_stream_row list"
  events :: "event_row list"
  event_sequence :: int
  task_map :: "task_map_row list"
  push_configs :: "push_config_row list"
  push_deliveries :: "push_delivery_row list"
  effect_grants :: "grant_row list"
  effect_operations :: "operation_row list"
  close_preparations :: "preparation_row list"
  idempotency_results :: "idempotency_row list"
  purpose_revisions :: "purpose_row list"
  purpose_bindings :: "purpose_binding_row list"

definition empty_db :: db where
  "empty_db = \<lparr>authority_mode = Some ''canonical'', metadata = [], principals = [], runtimes = [],
     enrollments = [], runtime_credentials = [], attachments = [], connections = [],
     cao_runtime_credentials = [], cao_runtime_tickets = [], conversation_credentials = [], specs = [], threads = [], epochs = [],
     circuits = [], works = [], goal_revisions = [], attempts = [], directives = [], messages = [], message_sequence = 0, deliveries = [],
     output_receipts = [], output_sequence = 0, artifacts = [], reviews = [], requester_decisions = [],
     read_inputs = [], read_input_sequence = 0, read_cursors = [], enrollment_tickets = [], boundaries = [], dispositions = [], supersessions = [],
     reasoner_turns = [], continuations = [], pauses = [], resumptions = [], output_streams = [], events = [],
     event_sequence = 0, task_map = [], push_configs = [], push_deliveries = [], effect_grants = [],
     effect_operations = [], close_preparations = [], idempotency_results = [], purpose_revisions = [],
     purpose_bindings = []\<rparr>"

text \<open>
  What an operation takes from outside: the clock (\<open>utc_now()\<close>, one reading per operation),
  fresh identifiers (\<open>_id(prefix)\<close>, the identifier drawn for the n-th row of a kind), the
  hash of a text, the printed form (\<open>str\<close>) of a list or mapping, and the digest of the tool
  contract a Worker must have discovered (\<open>worker_mcp_tool_contract_digest()\<close>).
\<close>

record env =
  env_now :: timestamp
  env_mint :: "string \<Rightarrow> int \<Rightarrow> ident"
  env_sha :: "pystr \<Rightarrow> string"
  env_repr :: "json \<Rightarrow> pystr"
  env_tools_digest :: string

text \<open>A fixed environment for concrete runs.\<close>

definition fixed_env :: "timestamp \<Rightarrow> env" where
  "fixed_env t = \<lparr>env_now = t, env_mint = (\<lambda>prefix n. prefix), env_sha = (\<lambda>t. ''''), env_repr = (\<lambda>v. []),
     env_tools_digest = ''tools''\<rparr>"

definition utc_after :: "env \<Rightarrow> int \<Rightarrow> timestamp" where
  "utc_after e seconds = env_now e + seconds"

text \<open>\<open>_is_expired\<close>: an absent expiry never expires, and the boundary second is expired.\<close>

definition is_expired :: "env \<Rightarrow> timestamp option \<Rightarrow> bool" where
  "is_expired e t = (case t of None \<Rightarrow> False | Some x \<Rightarrow> x \<le> env_now e)"

text \<open>
  \<open>Database.transaction\<close>: the authority mode is read first, and an exception rolls every
  change back, so a failed operation yields no new database.
\<close>

definition transaction :: "db \<Rightarrow> (db \<Rightarrow> (db \<times> 'a) cp) \<Rightarrow> (db \<times> 'a) cp" where
  "transaction s body =
     (case authority_mode s of
        None \<Rightarrow> Inl (AuthorityModeError ''missing'')
      | Some mode \<Rightarrow> if mode \<noteq> ''canonical'' then Inl (AuthorityModeError mode) else body s)"

lemma transaction_Inr_iff:
  "transaction s body = Inr r \<longleftrightarrow> authority_mode s = Some ''canonical'' \<and> body s = Inr r"
  by (auto simp: transaction_def split: option.split)

lemma transaction_canonical [simp]: "authority_mode s = Some ''canonical'' \<Longrightarrow> transaction s body = body s"
  by (simp add: transaction_def)

text \<open>What SQLite raises when a constraint fails; the transaction is rolled back.\<close>

definition unique_violation :: cp_error where
  "unique_violation = PyError ''IntegrityError'' ''UNIQUE constraint failed''"

definition foreign_key_violation :: cp_error where
  "foreign_key_violation = PyError ''IntegrityError'' ''FOREIGN KEY constraint failed''"

text \<open>A timestamp inside an event document.\<close>

definition jtime :: "timestamp \<Rightarrow> json" where
  "jtime t = JInt t"

text \<open>\<open>str(mapping.get(key))\<close>.\<close>

fun py_str :: "env \<Rightarrow> json option \<Rightarrow> pystr" where
  "py_str e None = u ''None''"
| "py_str e (Some JNull) = u ''None''"
| "py_str e (Some (JBool b)) = (if b then u ''True'' else u ''False'')"
| "py_str e (Some (JInt i)) = py_int i"
| "py_str e (Some (JStr t)) = t"
| "py_str e (Some v) = env_repr e v"

text \<open>\<open>str(mapping.get(key) or "")\<close>.\<close>

definition py_str_or_empty :: "env \<Rightarrow> json option \<Rightarrow> pystr" where
  "py_str_or_empty e v = (case v of None \<Rightarrow> [] | Some x \<Rightarrow> if truthy x then py_str e v else [])"

section \<open>Row access\<close>

definition get_message :: "db \<Rightarrow> ident \<Rightarrow> message_row option" where
  "get_message s i = fetchone (\<lambda>m. m_id m = i) (messages s)"

definition get_delivery :: "db \<Rightarrow> ident \<Rightarrow> ident \<Rightarrow> delivery_row option" where
  "get_delivery s i r = fetchone (\<lambda>d. d_message_id d = i \<and> d_recipient_id d = r) (deliveries s)"

definition get_work :: "db \<Rightarrow> ident \<Rightarrow> work_row option" where
  "get_work s i = fetchone (\<lambda>w. w_id w = i) (works s)"

definition get_attempt :: "db \<Rightarrow> ident \<Rightarrow> attempt_row option" where
  "get_attempt s i = fetchone (\<lambda>a. a_id a = i) (attempts s)"

definition delivery_key :: "delivery_row \<Rightarrow> ident \<times> ident" where
  "delivery_key d = (d_message_id d, d_recipient_id d)"

end
