(* ===== verification/Events.thy ===== *)
theory Events
  imports Store
begin

text \<open>
  The append-only event log: \<open>ControlPlane._event\<close> of \<open>service.py\<close> and the operator scope
  attribution of \<open>event_scope.py\<close>. Every state change of the modelled operations records its
  events through \<open>record_event\<close>, which also queues one push delivery per callback
  configuration of the task the event belongs to.
\<close>

section \<open>Operator scope\<close>

definition OPERATOR_SCOPES :: "string list" where
  "OPERATOR_SCOPES = [''production'', ''acceptance-test'', ''system'', ''unclassified'']"

definition normalize_event_operator_scope :: "string \<Rightarrow> string" where
  "normalize_event_operator_scope v = (if v \<in> set OPERATOR_SCOPES then v else ''unclassified'')"

definition principal_scope :: "db \<Rightarrow> ident \<Rightarrow> string option" where
  "principal_scope s i = map_option p_operator_scope (fetchone (\<lambda>p. p_id p = i) (principals s))"

definition work_scope :: "db \<Rightarrow> ident option \<Rightarrow> string option" where
  "work_scope s i = (case i of None \<Rightarrow> None | Some w \<Rightarrow> map_option w_operator_scope (get_work s w))"

definition thread_scope :: "db \<Rightarrow> ident \<Rightarrow> string option" where
  "thread_scope s i = coalesce
     (case fetchone (\<lambda>t. mt_id t = i) (threads s) of None \<Rightarrow> None
      | Some t \<Rightarrow> (case fetchone (\<lambda>sp. ms_id sp = mt_managed_spec_id t) (specs s) of None \<Rightarrow> None
          | Some sp \<Rightarrow> principal_scope s (ms_principal_id sp)))
     (map_option w_operator_scope (first_by (\<lambda>w. (w_created_at w, w_id w))
        (filter (\<lambda>w. w_managed_worker_thread_id w = Some i \<and> w_operator_scope w \<noteq> ''unclassified'') (works s))))"

text \<open>\<open>_EVENT_SCOPE_QUERIES\<close>: the scope the query of an aggregate type finds, if any.\<close>

definition event_scope_query :: "db \<Rightarrow> string \<Rightarrow> ident \<Rightarrow> string option" where
  "event_scope_query s aggregate_type i =
     (if aggregate_type = ''work_item'' then work_scope s (Some i)
      else if aggregate_type = ''attempt'' then
        (case get_attempt s i of None \<Rightarrow> None | Some a \<Rightarrow> work_scope s (Some (a_work_item_id a)))
      else if aggregate_type = ''message'' then
        (case get_message s i of None \<Rightarrow> None | Some m \<Rightarrow> work_scope s (m_work_item_id m))
      else if aggregate_type = ''managed_worker_spec'' then
        (case fetchone (\<lambda>sp. ms_id sp = i) (specs s) of None \<Rightarrow> None | Some sp \<Rightarrow> principal_scope s (ms_principal_id sp))
      else if aggregate_type = ''managed_worker_thread'' then thread_scope s i
      else if aggregate_type = ''runtime'' then
        (case fetchone (\<lambda>r. r_id r = i) (runtimes s) of None \<Rightarrow> None | Some r \<Rightarrow> principal_scope s (r_principal_id r))
      else if aggregate_type = ''worker_enrollment'' then
        (case fetchone (\<lambda>n. we_id n = i) (enrollments s) of None \<Rightarrow> None | Some n \<Rightarrow> principal_scope s (we_principal_id n))
      else if aggregate_type = ''principal'' then
        map_option p_operator_scope (fetchone (\<lambda>p. p_id p = i \<and> p_role p = WORKER) (principals s))
      else if aggregate_type = ''effect_operation'' then
        (case fetchone (\<lambda>q. o_id q = i) (effect_operations s) of None \<Rightarrow> None | Some q \<Rightarrow> work_scope s (o_cleanup_work_item_id q))
      else if aggregate_type = ''a2a_task'' then
        (case fetchone (\<lambda>t. tm_task_id t = i) (task_map s) of None \<Rightarrow> None | Some t \<Rightarrow> work_scope s (Some (tm_work_item_id t)))
      else None)"

definition resolve_event_operator_scope_tx :: "db \<Rightarrow> string \<Rightarrow> ident \<Rightarrow> string" where
  "resolve_event_operator_scope_tx s aggregate_type i =
     (case event_scope_query s aggregate_type i of
        None \<Rightarrow> ''unclassified''
      | Some scope \<Rightarrow> normalize_event_operator_scope scope)"

text \<open>Attribution of legacy events: only unclassified ones are rewritten.\<close>

definition backfill_event_operator_scopes_tx :: "db \<Rightarrow> db" where
  "backfill_event_operator_scopes_tx s = s\<lparr>events :=
     map (\<lambda>ev. if e_operator_scope ev = ''unclassified''
               then ev\<lparr>e_operator_scope := (case event_scope_query s (e_aggregate_type ev) (e_aggregate_id ev) of
                        None \<Rightarrow> ''unclassified'' | Some scope \<Rightarrow> scope)\<rparr>
               else ev) (events s)\<rparr>"

section \<open>Recording an event\<close>

record event_input =
  ei_type :: string
  ei_aggregate_type :: string
  ei_aggregate_id :: ident
  ei_actor_id :: ident
  ei_data :: json
  ei_correlation_id :: string
  ei_causation_id :: string
  ei_operator_scope :: "string option"

definition mk_event :: "string \<Rightarrow> string \<Rightarrow> ident \<Rightarrow> ident \<Rightarrow> (string \<times> json) list \<Rightarrow> event_input" where
  "mk_event ty agg i actor data = \<lparr>ei_type = ty, ei_aggregate_type = agg, ei_aggregate_id = i,
     ei_actor_id = actor, ei_data = jobj data, ei_correlation_id = '''', ei_causation_id = '''',
     ei_operator_scope = None\<rparr>"

text \<open>The Work an aggregate belongs to, empty when there is none.\<close>

definition event_work_id :: "db \<Rightarrow> string \<Rightarrow> ident \<Rightarrow> ident" where
  "event_work_id s aggregate_type i =
     (if aggregate_type = ''work_item'' then i
      else if aggregate_type = ''attempt'' then
        (case get_attempt s i of None \<Rightarrow> '''' | Some a \<Rightarrow> a_work_item_id a)
      else if aggregate_type = ''message'' then
        (case get_message s i of None \<Rightarrow> '''' | Some m \<Rightarrow> str_or_empty (m_work_item_id m))
      else '''')"

definition configs_of_work :: "db \<Rightarrow> ident \<Rightarrow> push_config_row list" where
  "configs_of_work s w = filter (\<lambda>c. list_ex (\<lambda>t. tm_task_id t = pcf_task_id c \<and> tm_work_item_id t = w) (task_map s))
     (push_configs s)"

definition enqueue_push :: "env \<Rightarrow> int \<Rightarrow> push_config_row \<Rightarrow> push_delivery_row list \<Rightarrow> push_delivery_row list" where
  "enqueue_push e seq c rows =
     (if list_ex (\<lambda>p. pd_config_id p = pcf_id c \<and> pd_event_sequence p = seq) rows then rows
      else rows @ [\<lparr>pd_id = env_mint e ''pushd'' (int (length rows)), pd_config_id = pcf_id c,
        pd_event_sequence = seq, pd_state = ''queued'', pd_attempts = 0, pd_next_attempt_at = env_now e,
        pd_lease_until = None, pd_owner_token = '''', pd_last_error = [], pd_created_at = env_now e, pd_updated_at = env_now e\<rparr>])"

definition record_event :: "env \<Rightarrow> event_input \<Rightarrow> db \<Rightarrow> db \<times> int" where
  "record_event e x s =
     (let scope = (case ei_operator_scope x of
                     None \<Rightarrow> resolve_event_operator_scope_tx s (ei_aggregate_type x) (ei_aggregate_id x)
                   | Some v \<Rightarrow> normalize_event_operator_scope v);
          seq = event_sequence s + 1;
          row = \<lparr>e_sequence = seq, e_id = env_mint e ''evt'' seq, e_event_type = ei_type x,
                 e_aggregate_type = ei_aggregate_type x, e_aggregate_id = ei_aggregate_id x,
                 e_operator_scope = scope, e_actor_id = ei_actor_id x, e_data = ei_data x,
                 e_correlation_id = ei_correlation_id x, e_causation_id = ei_causation_id x,
                 e_created_at = env_now e\<rparr>;
          w = event_work_id s (ei_aggregate_type x) (ei_aggregate_id x);
          pushes = (if w = '''' then push_deliveries s
                    else fold (enqueue_push e seq) (configs_of_work s w) (push_deliveries s))
      in (s\<lparr>events := events s @ [row], event_sequence := seq, push_deliveries := pushes\<rparr>, seq))"

definition log_event :: "env \<Rightarrow> event_input \<Rightarrow> db \<Rightarrow> db" where
  "log_event e x s = fst (record_event e x s)"

section \<open>Frame and log invariant\<close>

text \<open>Logging changes the event log and the push queue only.\<close>

lemma log_event_frame [simp]:
  "authority_mode (log_event e x s) = authority_mode s"
  "metadata (log_event e x s) = metadata s"
  "principals (log_event e x s) = principals s"
  "runtimes (log_event e x s) = runtimes s"
  "enrollments (log_event e x s) = enrollments s"
  "runtime_credentials (log_event e x s) = runtime_credentials s"
  "attachments (log_event e x s) = attachments s"
  "connections (log_event e x s) = connections s"
  "cao_runtime_credentials (log_event e x s) = cao_runtime_credentials s"
  "cao_runtime_tickets (log_event e x s) = cao_runtime_tickets s"
  "conversation_credentials (log_event e x s) = conversation_credentials s"
  "specs (log_event e x s) = specs s"
  "threads (log_event e x s) = threads s"
  "epochs (log_event e x s) = epochs s"
  "circuits (log_event e x s) = circuits s"
  "works (log_event e x s) = works s"
  "goal_revisions (log_event e x s) = goal_revisions s"
  "attempts (log_event e x s) = attempts s"
  "directives (log_event e x s) = directives s"
  "messages (log_event e x s) = messages s"
  "message_sequence (log_event e x s) = message_sequence s"
  "deliveries (log_event e x s) = deliveries s"
  "output_receipts (log_event e x s) = output_receipts s"
  "output_sequence (log_event e x s) = output_sequence s"
  "artifacts (log_event e x s) = artifacts s"
  "reviews (log_event e x s) = reviews s"
  "requester_decisions (log_event e x s) = requester_decisions s"
  "read_inputs (log_event e x s) = read_inputs s"
  "read_input_sequence (log_event e x s) = read_input_sequence s"
  "read_cursors (log_event e x s) = read_cursors s"
  "enrollment_tickets (log_event e x s) = enrollment_tickets s"
  "boundaries (log_event e x s) = boundaries s"
  "dispositions (log_event e x s) = dispositions s"
  "supersessions (log_event e x s) = supersessions s"
  "reasoner_turns (log_event e x s) = reasoner_turns s"
  "continuations (log_event e x s) = continuations s"
  "pauses (log_event e x s) = pauses s"
  "resumptions (log_event e x s) = resumptions s"
  "output_streams (log_event e x s) = output_streams s"
  "task_map (log_event e x s) = task_map s"
  "push_configs (log_event e x s) = push_configs s"
  "effect_grants (log_event e x s) = effect_grants s"
  "effect_operations (log_event e x s) = effect_operations s"
  "close_preparations (log_event e x s) = close_preparations s"
  "idempotency_results (log_event e x s) = idempotency_results s"
  "purpose_revisions (log_event e x s) = purpose_revisions s"
  "purpose_bindings (log_event e x s) = purpose_bindings s"
  by (simp_all add: log_event_def record_event_def Let_def)

lemma get_message_log_event [simp]: "get_message (log_event e x s) i = get_message s i"
  and get_delivery_log_event [simp]: "get_delivery (log_event e x s) i r = get_delivery s i r"
  and get_work_log_event [simp]: "get_work (log_event e x s) w = get_work s w"
  and get_attempt_log_event [simp]: "get_attempt (log_event e x s) a = get_attempt s a"
  by (simp_all add: get_message_def get_delivery_def get_work_def get_attempt_def)

lemma log_event_events:
  "events (log_event e x s) = events s @ [last (events (log_event e x s))]"
  "e_event_type (last (events (log_event e x s))) = ei_type x"
  "e_aggregate_id (last (events (log_event e x s))) = ei_aggregate_id x"
  "e_sequence (last (events (log_event e x s))) = event_sequence s + 1"
  "event_sequence (log_event e x s) = event_sequence s + 1"
  by (simp_all add: log_event_def record_event_def Let_def)

text \<open>Sequence numbers grow along the log and never exceed the counter.\<close>

definition event_log_ok :: "db \<Rightarrow> bool" where
  "event_log_ok s \<longleftrightarrow> sorted_wrt (<) (map e_sequence (events s)) \<and> (\<forall>ev\<in>set (events s). e_sequence ev \<le> event_sequence s)
     \<and> (\<forall>ev\<in>set (events s). e_operator_scope ev \<in> set OPERATOR_SCOPES)"

lemma normalized_scope [simp]: "normalize_event_operator_scope v \<in> set OPERATOR_SCOPES"
  by (simp add: normalize_event_operator_scope_def OPERATOR_SCOPES_def)

lemma resolved_scope [simp]: "resolve_event_operator_scope_tx s t i \<in> set OPERATOR_SCOPES"
  by (auto simp: resolve_event_operator_scope_tx_def OPERATOR_SCOPES_def split: option.split)
    (metis OPERATOR_SCOPES_def list.set(1,2) insert_iff empty_iff normalized_scope)

lemma log_event_ok: "event_log_ok s \<Longrightarrow> event_log_ok (log_event e x s)"
proof -
  assume ok: "event_log_ok s"
  have "\<And>ev. ev \<in> set (events s) \<Longrightarrow> e_sequence ev < event_sequence s + 1"
    using ok by (force simp: event_log_ok_def)
  with ok show ?thesis
    by (auto simp: event_log_ok_def log_event_def record_event_def Let_def sorted_wrt_append
        intro: order_trans split: option.split)
qed

lemma enqueue_push_configs:
  "(pcf_id c, seq) \<in> (\<lambda>p. (pd_config_id p, pd_event_sequence p)) ` set (enqueue_push e seq c rows)"
  "set rows \<subseteq> set (enqueue_push e seq c rows)"
  "distinct (map (\<lambda>p. (pd_config_id p, pd_event_sequence p)) rows) \<Longrightarrow>
     distinct (map (\<lambda>p. (pd_config_id p, pd_event_sequence p)) (enqueue_push e seq c rows))"
  by (force simp: enqueue_push_def list_ex_iff image_iff)+

lemma fold_enqueue_push:
  "set rows \<subseteq> set (fold (enqueue_push e seq) cs rows)"
  "\<forall>c\<in>set cs. (pcf_id c, seq) \<in> (\<lambda>p. (pd_config_id p, pd_event_sequence p)) ` set (fold (enqueue_push e seq) cs rows)"
  "distinct (map (\<lambda>p. (pd_config_id p, pd_event_sequence p)) rows) \<Longrightarrow>
     distinct (map (\<lambda>p. (pd_config_id p, pd_event_sequence p)) (fold (enqueue_push e seq) cs rows))"
proof (induction cs arbitrary: rows)
  case Nil
  { case 1 show ?case by simp next case 2 show ?case by simp next case 3 then show ?case by simp }
next
  case (Cons c cs)
  { case 1
    show ?case using Cons.IH(1) [of "enqueue_push e seq c rows"] enqueue_push_configs(2) [of rows e seq c] by auto
  next
    case 2
    show ?case
      using Cons.IH(1,2) [of "enqueue_push e seq c rows"] enqueue_push_configs(1) [of c seq e rows]
      by (fastforce dest: subsetD)
  next
    case 3
    then show ?case using Cons.IH(3) enqueue_push_configs(3) by simp }
qed

end
