(* ===== verification/Delivery_Lane.thy ===== *)
theory Delivery_Lane
  imports Events
begin

text \<open>
  The SQL predicates of \<open>delivery_lane.py\<close> and \<open>connection_contract.py\<close>: which delivery is
  the head of a Worker command lane, which CAO notification may be submitted next, which are
  visible in the inbox, which notification a later decision notification supersedes, and when
  an attachment can consume an automatic wake.

  Each predicate is a Boolean function of the tables, the message \<open>m\<close> and the delivery \<open>d\<close>
  its aliases stand for. \<open>json_extract\<close> of a payload is \<open>jget\<close>; an absent member is SQL
  \<open>NULL\<close>, which no comparison accepts.
\<close>

section \<open>JSON columns in SQL\<close>

text \<open>\<open>COALESCE(json_extract(payload, path), '') = text\<close> and its negation.\<close>

definition json_text_is :: "json \<Rightarrow> string \<Rightarrow> string \<Rightarrow> bool" where
  "json_text_is j path text =
     (case jget j path of None \<Rightarrow> text = '''' | Some JNull \<Rightarrow> text = '''' | Some v \<Rightarrow> v = jstr text)"

text \<open>\<open>CAST(json_extract(payload, path) AS INTEGER)\<close>.\<close>

definition is_sql_space :: "nat \<Rightarrow> bool" where
  "is_sql_space c = (c = 32 \<or> 9 \<le> c \<and> c \<le> 13)"

definition clamp64 :: "int \<Rightarrow> int" where
  "clamp64 i = max (- (2 ^ 63)) (min (2 ^ 63 - 1) i)"

definition sql_text_integer :: "pystr \<Rightarrow> int" where
  "sql_text_integer t =
     (case dropWhile is_sql_space t of
        [] \<Rightarrow> 0
      | c # cs \<Rightarrow> if c = 45 then clamp64 (- int (undec (takeWhile is_digit cs)))
          else if c = 43 then clamp64 (int (undec (takeWhile is_digit cs)))
          else clamp64 (int (undec (takeWhile is_digit (c # cs)))))"

fun sql_json_integer :: "json option \<Rightarrow> int option" where
  "sql_json_integer None = None"
| "sql_json_integer (Some JNull) = None"
| "sql_json_integer (Some (JBool b)) = Some (if b then 1 else 0)"
| "sql_json_integer (Some (JInt i)) = Some (clamp64 i)"
| "sql_json_integer (Some (JStr t)) = Some (sql_text_integer t)"
| "sql_json_integer (Some (JArr xs)) = Some 0"
| "sql_json_integer (Some (JObj ps)) = Some 0"

text \<open>\<open>CAST(integer AS TEXT)\<close>.\<close>

definition int_text :: "int \<Rightarrow> string" where
  "int_text i = List.map char_of (py_int i)"

section \<open>Automatic wakes\<close>

definition cao_automatic_wake_ready :: "db \<Rightarrow> attachment_row \<Rightarrow> bool" where
  "cao_automatic_wake_ready s attachment =
     list_ex (\<lambda>c. (''conversation_mcp_catalog_digest'', cc_proxy_catalog_digest c) \<in> set (metadata s)
       \<and> (''conversation_mcp_proxy_abi_version'', int_text (cc_proxy_abi_version c)) \<in> set (metadata s)
       \<and> cc_attachment_id c = ca_id attachment
       \<and> cc_principal_id c = ca_principal_id attachment
       \<and> cc_generation c = ca_generation attachment
       \<and> cc_state c \<in> {''active'', ''expired''}) (connections s)"

definition cao_automatic_wake_ready_tx :: "db \<Rightarrow> ident option \<Rightarrow> bool" where
  "cao_automatic_wake_ready_tx s attachment_id =
     (case attachment_id of
        None \<Rightarrow> True
      | Some i \<Rightarrow> list_ex (\<lambda>a. ca_id a = i \<and> cao_automatic_wake_ready s a) (attachments s))"

section \<open>Informational and superseded notifications\<close>

definition cao_informational_wake :: "db \<Rightarrow> message_row \<Rightarrow> bool" where
  "cao_informational_wake s m =
     (json_text_is (m_payload m) ''boundary_id'' ''''
      \<and> ((m_kind m = PROGRESS \<and> \<not> json_text_is (m_payload m) ''progress_event'' ''execution_started'')
         \<or> (m_kind m = SYSTEM \<and> jget (m_payload m) ''action'' = Some (jstr ''worker_output'')
            \<and> list_ex (\<lambda>o'. wo_notification_message_id o' = Some (m_id m)
                 \<and> wo_event_kind o' = ''message''
                 \<and> sql_eq (Some (wo_work_item_id o')) (m_work_item_id m)
                 \<and> sql_eq (Some (wo_attempt_id o')) (m_attempt_id m)) (output_receipts s))))"

definition supersedes :: "db \<Rightarrow> message_row \<Rightarrow> delivery_row \<Rightarrow> message_row \<Rightarrow> bool" where
  "supersedes s m d successor =
     (list_ex (\<lambda>b. jget (m_payload successor) ''boundary_id'' = Some (jstr (b_id b))
         \<and> sql_eq (Some (b_work_item_id b)) (m_work_item_id successor)
         \<and> sql_eq (Some (b_attempt_id b)) (m_attempt_id successor)) (boundaries s)
      \<and> sql_eq (m_work_item_id successor) (m_work_item_id m)
      \<and> sql_eq (m_attempt_id successor) (m_attempt_id m)
      \<and> sql_eq (m_goal_version successor) (m_goal_version m)
      \<and> m_goal_packet_digest successor = m_goal_packet_digest m
      \<and> m_task_packet_digest successor = m_task_packet_digest m
      \<and> m_sequence successor > m_sequence m
      \<and> list_ex (\<lambda>sd. d_message_id sd = m_id successor
           \<and> d_recipient_id sd = d_recipient_id d
           \<and> sql_eq (d_recipient_attachment_id sd) (d_recipient_attachment_id d)) (deliveries s))"

definition cao_superseding_boundary :: "db \<Rightarrow> message_row \<Rightarrow> delivery_row \<Rightarrow> ident option" where
  "cao_superseding_boundary s m d =
     map_option m_id (first_by m_sequence (filter (supersedes s m d) (messages s)))"

section \<open>The Worker command lane\<close>

definition work_paused :: "db \<Rightarrow> ident option \<Rightarrow> bool" where
  "work_paused s i = list_ex (\<lambda>w. sql_eq (Some (w_id w)) i \<and> w_paused_boundary_id w \<noteq> None) (works s)"

text \<open>The states in which a delivery still holds its place in the lane.\<close>

definition lane_open :: "delivery_state \<Rightarrow> bool" where
  "lane_open st = (st \<in> {QUEUED, LEASED, DISPATCHED, DELIVERED, ACKNOWLEDGED})"

definition same_runtime_lane :: "ident option \<Rightarrow> ident option \<Rightarrow> bool" where
  "same_runtime_lane a b = (a = None \<and> b = None \<or> sql_eq a b)"

definition lane_prior :: "db \<Rightarrow> message_row \<Rightarrow> delivery_row \<Rightarrow> delivery_row \<Rightarrow> bool" where
  "lane_prior s m d p =
     (case get_message s (d_message_id p) of
        None \<Rightarrow> False
      | Some pm \<Rightarrow> d_recipient_id p = d_recipient_id d
          \<and> m_sequence pm < m_sequence m
          \<and> lane_open (d_state p)
          \<and> d_recipient_attachment_id p = None
          \<and> \<not> (d_state p = QUEUED \<and> d_owner_token p = '''' \<and> work_paused s (m_work_item_id pm))
          \<and> same_runtime_lane (d_runtime_session_id p) (d_runtime_session_id d))"

definition runtime_delivery_lane_head :: "db \<Rightarrow> message_row \<Rightarrow> delivery_row \<Rightarrow> bool" where
  "runtime_delivery_lane_head s m d =
     (\<not> work_paused s (m_work_item_id m) \<and> \<not> list_ex (lane_prior s m d) (deliveries s))"

section \<open>CAO notifications\<close>

definition cao_notification_inbox_visible :: "bool \<Rightarrow> delivery_row \<Rightarrow> bool" where
  "cao_notification_inbox_visible include_acknowledged d =
     (if include_acknowledged then d_recipient_attachment_id d \<noteq> None
      else d_recipient_attachment_id d \<noteq> None \<and> d_state d \<notin> {ACKNOWLEDGED, HANDLED})"

text \<open>The owner of the newest dispatch on the runtime and attachment of \<open>p\<close>.\<close>

definition sequence_of :: "db \<Rightarrow> delivery_row \<Rightarrow> int" where
  "sequence_of s r = (case get_message s (d_message_id r) of None \<Rightarrow> 0 | Some m \<Rightarrow> m_sequence m)"

definition newest_dispatch_owner :: "db \<Rightarrow> delivery_row \<Rightarrow> string option" where
  "newest_dispatch_owner s p = map_option d_owner_token
     (last_by (sequence_of s) (filter (\<lambda>n. get_message s (d_message_id n) \<noteq> None
        \<and> sql_eq (d_runtime_session_id n) (d_runtime_session_id p)
        \<and> d_recipient_id n = d_recipient_id p
        \<and> sql_eq (d_recipient_attachment_id n) (d_recipient_attachment_id p)
        \<and> d_state n = DISPATCHED \<and> d_owner_token n \<noteq> '''') (deliveries s)))"

definition live_dispatch :: "db \<Rightarrow> timestamp \<Rightarrow> delivery_row \<Rightarrow> bool" where
  "live_dispatch s now p =
     (d_state p = DISPATCHED \<and> d_owner_token p \<noteq> ''''
      \<and> ((case d_lease_until p of None \<Rightarrow> False | Some t \<Rightarrow> t > now)
         \<or> list_ex (\<lambda>r. sql_eq (Some (r_id r)) (d_runtime_session_id p) \<and> r_state r = R_BUSY
              \<and> sql_eq (Some (d_owner_token p)) (newest_dispatch_owner s p)) (runtimes s)))"

definition notification_prior :: "db \<Rightarrow> timestamp \<Rightarrow> message_row \<Rightarrow> delivery_row \<Rightarrow> delivery_row \<Rightarrow> bool" where
  "notification_prior s now m d p =
     (case get_message s (d_message_id p) of
        None \<Rightarrow> False
      | Some pm \<Rightarrow> d_recipient_id p = d_recipient_id d
          \<and> sql_eq (d_recipient_attachment_id p) (d_recipient_attachment_id d)
          \<and> m_sequence pm < m_sequence m
          \<and> (d_state p \<in> {QUEUED, LEASED} \<or> live_dispatch s now p))"

definition cao_notification_dispatch_head :: "db \<Rightarrow> timestamp \<Rightarrow> message_row \<Rightarrow> delivery_row \<Rightarrow> bool" where
  "cao_notification_dispatch_head s now m d =
     (d_recipient_attachment_id d \<noteq> None \<and> \<not> list_ex (notification_prior s now m d) (deliveries s))"

section \<open>Lane heads are unique\<close>

text \<open>The commands of one lane that are open, unpaused and on the lane of \<open>d\<close>.\<close>

definition in_command_lane :: "db \<Rightarrow> ident \<Rightarrow> ident option \<Rightarrow> delivery_row \<Rightarrow> bool" where
  "in_command_lane s recipient runtime r =
     (d_recipient_id r = recipient \<and> d_runtime_session_id r = runtime
      \<and> d_recipient_attachment_id r = None \<and> lane_open (d_state r))"

lemma same_runtime_lane_iff [simp]: "same_runtime_lane a b \<longleftrightarrow> a = b"
  by (cases a; cases b) (auto simp: same_runtime_lane_def)

lemma lane_head_no_earlier:
  assumes "runtime_delivery_lane_head s m d" and "p \<in> set (deliveries s)"
    and "get_message s (d_message_id p) = Some pm"
    and "in_command_lane s (d_recipient_id d) (d_runtime_session_id d) p"
    and "\<not> work_paused s (m_work_item_id pm)"
  shows "m_sequence m \<le> m_sequence pm"
proof (rule ccontr)
  assume "\<not> m_sequence m \<le> m_sequence pm"
  with assms(3-5) have "lane_prior s m d p"
    by (simp add: lane_prior_def in_command_lane_def)
  with assms(1,2) show False
    by (auto simp: runtime_delivery_lane_head_def list_ex_iff)
qed

text \<open>Two heads of one lane carry the same message.\<close>

lemma lane_heads_agree:
  assumes "runtime_delivery_lane_head s m d" and "runtime_delivery_lane_head s m' d'"
    and "d \<in> set (deliveries s)" "d' \<in> set (deliveries s)"
    and "get_message s (d_message_id d) = Some m" "get_message s (d_message_id d') = Some m'"
    and "in_command_lane s recipient runtime d" "in_command_lane s recipient runtime d'"
  shows "m_sequence m = m_sequence m'"
proof -
  have "m_sequence m \<le> m_sequence m'"
    using assms lane_head_no_earlier [of s m d d' m']
    by (simp add: in_command_lane_def runtime_delivery_lane_head_def)
  moreover have "m_sequence m' \<le> m_sequence m"
    using assms lane_head_no_earlier [of s m' d' d m]
    by (simp add: in_command_lane_def runtime_delivery_lane_head_def)
  ultimately show ?thesis by simp
qed

lemma notification_head_no_earlier:
  assumes "cao_notification_dispatch_head s now m d" and "p \<in> set (deliveries s)"
    and "get_message s (d_message_id p) = Some pm"
    and "d_recipient_id p = d_recipient_id d"
    and "d_recipient_attachment_id p = d_recipient_attachment_id d"
    and "d_state p \<in> {QUEUED, LEASED} \<or> live_dispatch s now p"
  shows "m_sequence m \<le> m_sequence pm"
proof (rule ccontr)
  assume "\<not> m_sequence m \<le> m_sequence pm"
  with assms have "notification_prior s now m d p"
    by (auto simp: notification_prior_def cao_notification_dispatch_head_def)
  with assms(1,2) show False
    by (auto simp: cao_notification_dispatch_head_def list_ex_iff)
qed

end
