(* ===== verification/Dispatch_Claim.thy ===== *)
theory Dispatch_Claim
  imports Delivery_Lane
begin

text \<open>
  \<open>RuntimeDispatcher._claim_delivery\<close> of \<open>runtime.py\<close>: one transaction first requeues expired
  leases, then selects the earliest delivery that passes every admission condition of the
  claim query, and leases it with a compare-and-swap. The conditions of the query are one
  definition each, in the order the query has them.
\<close>

record dispatcher_settings =
  dispatcher_lease_seconds :: int
  max_dispatch_attempts :: int

section \<open>Expired leases\<close>

definition lease_expired :: "timestamp \<Rightarrow> delivery_row \<Rightarrow> bool" where
  "lease_expired now r = (d_state r = LEASED \<and> (case d_lease_until r of None \<Rightarrow> False | Some t \<Rightarrow> t < now))"

definition requeue_row :: "timestamp \<Rightarrow> delivery_row \<Rightarrow> delivery_row" where
  "requeue_row now r = r\<lparr>d_state := QUEUED, d_generation := d_generation r + 1, d_next_attempt_at := now,
     d_lease_until := None, d_owner_token := '''', d_updated_at := now\<rparr>"

definition requeue_expired_leases :: "timestamp \<Rightarrow> db \<Rightarrow> db" where
  "requeue_expired_leases now s = s\<lparr>deliveries := update_rows (lease_expired now) (requeue_row now) (deliveries s)\<rparr>"

section \<open>Admission\<close>

text \<open>A CAO delivery needs a wake route, and an attachment-bound one a current connection.\<close>

definition wake_route_ok :: "db \<Rightarrow> principal_row \<Rightarrow> delivery_row \<Rightarrow> bool" where
  "wake_route_ok s recipient d =
     (\<not> (p_role recipient = CAO \<and> d_runtime_session_id d = None)
      \<and> (d_recipient_attachment_id d = None
         \<or> list_ex (\<lambda>a. sql_eq (Some (ca_id a)) (d_recipient_attachment_id d) \<and> cao_automatic_wake_ready s a)
             (attachments s)))"

text \<open>The runtime whose finished turn produced the notification has settled.\<close>

definition source_settled :: "db \<Rightarrow> message_row \<Rightarrow> bool" where
  "source_settled s m = (\<not> list_ex (\<lambda>output. wo_notification_message_id output = Some (m_id m)
     \<and> wo_event_kind output = ''turn_end''
     \<and> list_ex (\<lambda>r. r_id r = wo_runtime_session_id output \<and> r_state r = R_BUSY) (runtimes s))
       (output_receipts s))"

text \<open>An unmanaged Work: no thread, and the route belongs to no managed Worker.\<close>

definition unmanaged_route :: "db \<Rightarrow> work_row \<Rightarrow> delivery_row \<Rightarrow> bool" where
  "unmanaged_route s w d =
     (w_managed_worker_thread_id w = None \<and> w_managed_worker_thread_generation w = None
      \<and> \<not> list_ex (\<lambda>ep. sql_eq (Some (te_runtime_session_id ep)) (d_runtime_session_id d)) (epochs s)
      \<and> \<not> list_ex (\<lambda>sp. ms_principal_id sp = w_assigned_worker_id w) (specs s))"

text \<open>A managed Work: the route is the current epoch of exactly its thread generation.\<close>

definition supervised_from :: "db \<Rightarrow> work_row \<Rightarrow> spec_row \<Rightarrow> bool" where
  "supervised_from s w sp = list_ex (\<lambda>source. ca_id source = ms_attachment_id sp
     \<and> list_ex (\<lambda>supervisor. sql_eq (Some (ca_id supervisor)) (w_supervisor_attachment_id w)
         \<and> ca_principal_id supervisor = ca_principal_id source
         \<and> ca_project_digest supervisor = ca_project_digest source) (attachments s)) (attachments s)"

definition current_epoch_route :: "db \<Rightarrow> work_row \<Rightarrow> attempt_row \<Rightarrow> delivery_row \<Rightarrow> bool" where
  "current_epoch_route s w a d =
     (w_managed_worker_thread_id w \<noteq> None \<and> w_managed_worker_thread_generation w \<noteq> None
      \<and> list_ex (\<lambda>ep. list_ex (\<lambda>t. mt_id t = te_thread_id ep \<and> list_ex (\<lambda>sp.
            ms_id sp = mt_managed_spec_id t
            \<and> supervised_from s w sp
            \<and> sql_eq (Some (te_thread_id ep)) (w_managed_worker_thread_id w)
            \<and> sql_eq (Some (te_generation ep)) (w_managed_worker_thread_generation w)
            \<and> sql_eq (Some (te_runtime_session_id ep)) (d_runtime_session_id d)
            \<and> te_retired_at ep = None
            \<and> mt_state t = ''active''
            \<and> sql_eq (Some (mt_generation t)) (w_managed_worker_thread_generation w)
            \<and> ms_state sp = ''enabled''
            \<and> ms_principal_id sp = w_assigned_worker_id w
            \<and> ms_principal_id sp = a_worker_id a
            \<and> ms_runtime_session_id sp = te_runtime_session_id ep
            \<and> ms_enrollment_id sp = te_enrollment_id ep) (specs s)) (threads s)) (epochs s))"

definition assignment_executable :: "db \<Rightarrow> message_row \<Rightarrow> delivery_row \<Rightarrow> attempt_row \<Rightarrow> work_row \<Rightarrow> bool" where
  "assignment_executable s m d a w =
     (sql_eq (Some (a_id a)) (m_attempt_id m)
      \<and> sql_eq (Some (a_work_item_id a)) (m_work_item_id m)
      \<and> w_id w = a_work_item_id a
      \<and> a_worker_id a = d_recipient_id d
      \<and> w_assigned_worker_id w = a_worker_id a
      \<and> sql_eq (a_runtime_session_id a) (d_runtime_session_id d)
      \<and> a_state a = A_ASSIGNED
      \<and> a_trajectory a = ''untracked''
      \<and> list_all (\<lambda>latest. a_work_item_id latest = w_id w \<longrightarrow> a_attempt_number latest \<le> a_attempt_number a) (attempts s)
      \<and> w_state w = W_ACTIVE
      \<and> w_attention_owner w = AO_WORKER
      \<and> (unmanaged_route s w d \<or> current_epoch_route s w a d)
      \<and> sql_eq (sql_json_integer (jget (m_payload m) ''generation'')) (Some (w_generation w)))"

definition assignment_ok :: "db \<Rightarrow> message_row \<Rightarrow> delivery_row \<Rightarrow> bool" where
  "assignment_ok s m d =
     (m_kind m \<noteq> ASSIGNMENT
      \<or> list_ex (\<lambda>a. list_ex (assignment_executable s m d a) (works s)) (attempts s))"

text \<open>The archive fence, and the final fence of a revoked managed Worker.\<close>

definition epoch_active :: "db \<Rightarrow> delivery_row \<Rightarrow> bool" where
  "epoch_active s d = (\<not> list_ex (\<lambda>ep. sql_eq (Some (te_runtime_session_id ep)) (d_runtime_session_id d)
     \<and> list_ex (\<lambda>t. mt_id t = te_thread_id ep \<and> (te_retired_at ep \<noteq> None \<or> mt_state t \<noteq> ''active'')) (threads s))
       (epochs s))"

definition spec_threads :: "db \<Rightarrow> spec_row \<Rightarrow> thread_row option list" where
  "spec_threads s sp = (case filter (\<lambda>t. mt_managed_spec_id t = ms_id sp) (threads s) of
      [] \<Rightarrow> [None] | ts \<Rightarrow> List.map Some ts)"

definition spec_active :: "db \<Rightarrow> delivery_row \<Rightarrow> bool" where
  "spec_active s d = (\<not> list_ex (\<lambda>sp. list_ex (\<lambda>t.
       (sql_eq (Some (ms_runtime_session_id sp)) (d_runtime_session_id d)
        \<or> (ms_principal_id sp = d_recipient_id d \<and> ms_state sp = ''revoked'' \<and> t = None))
       \<and> (case t of None \<Rightarrow> True | Some th \<Rightarrow> mt_state th \<noteq> ''active'')) (spec_threads s sp)) (specs s))"

text \<open>No turn is running on the route.\<close>

definition runtime_free :: "db \<Rightarrow> delivery_row \<Rightarrow> bool" where
  "runtime_free s d = (\<not> list_ex (\<lambda>r. sql_eq (Some (r_id r)) (d_runtime_session_id d)
     \<and> r_principal_id r = d_recipient_id d \<and> r_state r = R_BUSY
     \<and> list_ex (\<lambda>n. we_runtime_session_id n = r_id r \<and> we_state n = E_READY) (enrollments s)) (runtimes s))"

definition lane_admits :: "db \<Rightarrow> timestamp \<Rightarrow> principal_row \<Rightarrow> message_row \<Rightarrow> delivery_row \<Rightarrow> bool" where
  "lane_admits s now recipient m d =
     (p_role recipient \<noteq> CAO \<and> runtime_delivery_lane_head s m d
      \<or> p_role recipient = CAO \<and> cao_notification_dispatch_head s now m d)"

definition claimable :: "db \<Rightarrow> timestamp \<Rightarrow> delivery_row \<Rightarrow> bool" where
  "claimable s now d =
     (case get_message s (d_message_id d) of
        None \<Rightarrow> False
      | Some m \<Rightarrow> (case fetchone (\<lambda>p. p_id p = d_recipient_id d) (principals s) of
          None \<Rightarrow> False
        | Some recipient \<Rightarrow>
            d_state d = QUEUED \<and> d_next_attempt_at d \<le> now
            \<and> wake_route_ok s recipient d
            \<and> source_settled s m
            \<and> assignment_ok s m d
            \<and> epoch_active s d
            \<and> spec_active s d
            \<and> runtime_free s d
            \<and> lane_admits s now recipient m d))"

section \<open>The claim\<close>

definition next_claim :: "db \<Rightarrow> timestamp \<Rightarrow> delivery_row option" where
  "next_claim s now = first_by (sequence_of s) (filter (claimable s now) (deliveries s))"

definition claim_fence :: "delivery_row \<Rightarrow> delivery_row \<Rightarrow> bool" where
  "claim_fence d r = (d_message_id r = d_message_id d \<and> d_recipient_id r = d_recipient_id d
     \<and> d_generation r = d_generation d \<and> d_state r = QUEUED)"

definition lease_row :: "timestamp \<Rightarrow> timestamp \<Rightarrow> string \<Rightarrow> delivery_row \<Rightarrow> delivery_row" where
  "lease_row now lease_until owner r =
     r\<lparr>d_state := LEASED, d_lease_until := Some lease_until, d_owner_token := owner, d_updated_at := now\<rparr>"

definition claim_delivery_tx :: "env \<Rightarrow> dispatcher_settings \<Rightarrow> string \<Rightarrow> db \<Rightarrow> db \<times> delivery_row option" where
  "claim_delivery_tx e cfg owner s0 =
     (let now = env_now e;
          lease_until = utc_after e (dispatcher_lease_seconds cfg);
          s = requeue_expired_leases now s0
      in case next_claim s now of
           None \<Rightarrow> (s, None)
         | Some row \<Rightarrow>
             let s' = s\<lparr>deliveries := update_rows (claim_fence row) (lease_row now lease_until owner) (deliveries s)\<rparr>
             in if rowcount (claim_fence row) (deliveries s) \<noteq> 1 then (s', None)
                else (s', get_delivery s' (d_message_id row) (d_recipient_id row)))"

definition claim_delivery :: "env \<Rightarrow> dispatcher_settings \<Rightarrow> string \<Rightarrow> db \<Rightarrow> (db \<times> delivery_row option) cp" where
  "claim_delivery e cfg owner s = transaction s (\<lambda>s. Inr (claim_delivery_tx e cfg owner s))"

section \<open>What a claim does\<close>

lemma next_claim_SomeD:
  assumes "next_claim s now = Some d"
  shows "d \<in> set (deliveries s)" "claimable s now d"
    "\<And>x. x \<in> set (deliveries s) \<Longrightarrow> claimable s now x \<Longrightarrow> sequence_of s d \<le> sequence_of s x"
  using first_by_SomeD [OF assms [unfolded next_claim_def]] by auto

lemma claimableD:
  assumes "claimable s now d"
  obtains m recipient where "get_message s (d_message_id d) = Some m"
    "fetchone (\<lambda>p. p_id p = d_recipient_id d) (principals s) = Some recipient"
    "d_state d = QUEUED" "d_next_attempt_at d \<le> now" "wake_route_ok s recipient d" "source_settled s m"
    "assignment_ok s m d" "epoch_active s d" "spec_active s d" "runtime_free s d"
    "lane_admits s now recipient m d"
  using assms by (auto simp: claimable_def split: option.splits)

lemma claim_fence_self: "claimable s now d \<Longrightarrow> claim_fence d d"
  by (elim claimableD) (simp add: claim_fence_def)

lemma claim_fence_key: "claim_fence d r \<Longrightarrow> delivery_key r = delivery_key d"
  by (simp add: claim_fence_def delivery_key_def)

lemma claim_rowcount:
  assumes "distinct (map delivery_key (deliveries s))" and "next_claim s now = Some d"
  shows "rowcount (claim_fence d) (deliveries s) = 1"
proof -
  have "rowcount (claim_fence d) (deliveries s) \<le> 1"
    by (rule rowcount_key_le_1 [OF assms(1) claim_fence_key])
  moreover have "0 < rowcount (claim_fence d) (deliveries s)"
    using next_claim_SomeD(1) [OF assms(2)] claim_fence_self [OF next_claim_SomeD(2) [OF assms(2)]]
    by (auto simp: rowcount_pos_iff)
  ultimately show ?thesis by simp
qed

lemma requeue_frame [simp]:
  "messages (requeue_expired_leases now s) = messages s"
  "principals (requeue_expired_leases now s) = principals s"
  "get_message (requeue_expired_leases now s) i = get_message s i"
  "sequence_of (requeue_expired_leases now s) r = sequence_of s r"
  by (simp_all add: requeue_expired_leases_def get_message_def sequence_of_def)

lemma requeue_keys [simp]:
  "map delivery_key (deliveries (requeue_expired_leases now s)) = map delivery_key (deliveries s)"
  by (simp add: requeue_expired_leases_def map_update_rows requeue_row_def delivery_key_def)

lemma get_delivery_fetch: "get_delivery s i r = fetchone (\<lambda>x. delivery_key x = (i, r)) (deliveries s)"
  by (simp add: get_delivery_def delivery_key_def)

lemma fetchone_update_keyed:
  assumes "distinct (map delivery_key rows)" "d \<in> set rows" "p d"
    and "\<And>r. p r \<Longrightarrow> delivery_key r = delivery_key d" and "\<And>r. delivery_key (f r) = delivery_key r"
  shows "fetchone (\<lambda>x. delivery_key x = delivery_key d) (update_rows p f rows) = Some (f d)"
proof -
  have "map delivery_key (update_rows p f rows) = map delivery_key rows"
    using assms(5) by (simp add: map_update_rows)
  moreover have "f d \<in> set (update_rows p f rows)" using assms(2,3) by (auto simp: set_update_rows)
  ultimately show ?thesis
    using assms(1,5) by (intro fetchone_unique [where k = delivery_key]) auto
qed

text \<open>The row a claim returns is the selected row, leased to the claimant.\<close>

lemma claim_delivery_result:
  assumes "distinct (map delivery_key (deliveries s))"
    and "claim_delivery_tx e cfg owner s = (s', Some c)"
  obtains d where "next_claim (requeue_expired_leases (env_now e) s) (env_now e) = Some d"
    "c = lease_row (env_now e) (utc_after e (dispatcher_lease_seconds cfg)) owner d"
    "s' = (requeue_expired_leases (env_now e) s)\<lparr>deliveries := update_rows (claim_fence d)
        (lease_row (env_now e) (utc_after e (dispatcher_lease_seconds cfg)) owner)
        (deliveries (requeue_expired_leases (env_now e) s))\<rparr>"
proof -
  let ?s = "requeue_expired_leases (env_now e) s"
  let ?f = "lease_row (env_now e) (utc_after e (dispatcher_lease_seconds cfg)) owner"
  have dist: "distinct (map delivery_key (deliveries ?s))" using assms(1) by simp
  from assms(2) obtain d where d: "next_claim ?s (env_now e) = Some d"
    by (auto simp: claim_delivery_tx_def Let_def split: option.splits)
  have fetched: "fetchone (\<lambda>x. delivery_key x = delivery_key d) (update_rows (claim_fence d) ?f (deliveries ?s)) = Some (?f d)"
    using next_claim_SomeD(1) [OF d] claim_fence_self [OF next_claim_SomeD(2) [OF d]]
    by (rule fetchone_update_keyed [OF dist]) (simp_all add: claim_fence_key, simp add: lease_row_def delivery_key_def)
  show thesis
    using assms(2) d claim_rowcount [OF dist d] fetched
    by (intro that [OF d]) (auto simp: claim_delivery_tx_def Let_def get_delivery_fetch delivery_key_def [of d])
qed

end
