(* ===== verification/Runtime_Diagnostics.thy ===== *)
theory Runtime_Diagnostics
  imports Store
begin

text \<open>
  The closed diagnostics of \<open>runtime.py\<close>: the classification of an adapter failure
  (\<open>_runtime_failure_code\<close>) and the only part of an adapter result that may enter durable
  state (\<open>_durable_dispatch_summary\<close>).

  Adapter errors are Python texts. Case folding and the JSON reader of the standard library
  are tables too large to restate; they are the two functions of \<open>text_lib\<close>, on which no law is
  assumed.
\<close>

record text_lib =
  tx_lower :: "pystr \<Rightarrow> pystr"
  tx_loads :: "pystr \<Rightarrow> json option"

section \<open>Text predicates\<close>

definition py_space :: "nat \<Rightarrow> bool" where
  "py_space c = (9 \<le> c \<and> c \<le> 13 \<or> 28 \<le> c \<and> c \<le> 32 \<or> 8192 \<le> c \<and> c \<le> 8202
     \<or> c \<in> {133, 160, 5760, 8232, 8233, 8239, 8287, 12288})"

definition py_strip :: "pystr \<Rightarrow> pystr" where
  "py_strip t = rev (dropWhile py_space (rev (dropWhile py_space t)))"

fun strip_prefix :: "pystr \<Rightarrow> pystr \<Rightarrow> pystr option" where
  "strip_prefix [] t = Some t"
| "strip_prefix (p # ps) [] = None"
| "strip_prefix (p # ps) (c # cs) = (if p = c then strip_prefix ps cs else None)"

definition starts :: "string \<Rightarrow> pystr \<Rightarrow> bool" where
  "starts p t = (strip_prefix (u p) t \<noteq> None)"

fun contains_text :: "pystr \<Rightarrow> pystr \<Rightarrow> bool" where
  "contains_text p [] = (p = [])"
| "contains_text p (c # cs) = (strip_prefix p (c # cs) \<noteq> None \<or> contains_text p cs)"

section \<open>Provider rate limits\<close>

text \<open>\<open>\s*429(?![0-9])\<close> at the start of the text.\<close>

definition code_429 :: "pystr \<Rightarrow> bool" where
  "code_429 t = (case strip_prefix (u ''429'') (dropWhile py_space t) of
      None \<Rightarrow> False | Some [] \<Rightarrow> True | Some (c # cs) \<Rightarrow> \<not> is_digit c)"

text \<open>\<open>\s+word\<close> at the start of the text: what follows it.\<close>

definition spaced_word :: "string \<Rightarrow> pystr \<Rightarrow> pystr option" where
  "spaced_word w t = (case t of [] \<Rightarrow> None
      | c # cs \<Rightarrow> if py_space c then strip_prefix (u w) (dropWhile py_space cs) else None)"

definition http_429 :: "pystr \<Rightarrow> bool" where
  "http_429 t =
     ((case strip_prefix (u ''api'') t of None \<Rightarrow> False
       | Some r \<Rightarrow> (case spaced_word ''error:'' r of None \<Rightarrow> False | Some q \<Rightarrow> code_429 q))
      \<or> (case strip_prefix (u ''http'') t of None \<Rightarrow> False
         | Some r \<Rightarrow> code_429 r
             \<or> (case spaced_word ''status'' r of None \<Rightarrow> False | Some q \<Rightarrow> code_429 q)))"

fun status_429 :: "json option \<Rightarrow> bool" where
  "status_429 (Some (JInt n)) = (n = 429)"
| "status_429 (Some (JStr t)) = (py_strip t = u ''429'')"
| "status_429 _ = False"

fun lower_is :: "text_lib \<Rightarrow> string \<Rightarrow> json option \<Rightarrow> bool" where
  "lower_is tx w (Some (JStr t)) = (tx_lower tx t = u w)"
| "lower_is tx w _ = False"

text \<open>
  The recursion of the source is cut at depth two; the first argument counts the levels that
  remain, three at the outermost call.
\<close>

fun provider_rate_limited :: "text_lib \<Rightarrow> nat \<Rightarrow> json \<Rightarrow> bool" where
  "provider_rate_limited tx 0 v = False"
| "provider_rate_limited tx (Suc n) (JObj kvs) =
     (if lower_is tx ''rate_limit'' (jget (JObj kvs) ''type'') then True
      else if status_429 (jget (JObj kvs) ''status'') \<or> status_429 (jget (JObj kvs) ''status_code'') then True
      else if lower_is tx ''rate_limit'' (jget (JObj kvs) ''error'') then True
      else (case jget (JObj kvs) ''error'' of
          Some (JObj e) \<Rightarrow> provider_rate_limited tx n (JObj e)
        | _ \<Rightarrow> (case jget (JObj kvs) ''result'' of
            Some (JStr t) \<Rightarrow> length t \<le> 65536 \<and> provider_rate_limited tx n (JStr t)
          | _ \<Rightarrow> False)))"
| "provider_rate_limited tx (Suc n) (JStr t) =
     (let normalized = tx_lower tx (py_strip t) in
      case (if starts ''{'' normalized \<and> last normalized = 125 then tx_loads tx normalized else None) of
        Some (JObj kvs) \<Rightarrow> provider_rate_limited tx n (JObj kvs)
      | _ \<Rightarrow> http_429 normalized)"
| "provider_rate_limited tx (Suc n) _ = False"

section \<open>The failure code\<close>

definition DURABLE_FAILURE_CODES :: "string list" where
  "DURABLE_FAILURE_CODES =
     [''message_missing'', ''runtime_unavailable'', ''managed_mcp_launch_preparation_failed'',
      ''managed_mcp_launch_ticket_pending'', ''desktop_wake_pre_start_unavailable'',
      ''cao_provider_turn_evidence_unavailable'', ''assignment_dependency_unavailable'',
      ''mcp_startup_timeout'', ''mcp_startup_failed'', ''worker_inactive_timeout'',
      ''runtime_timeout'', ''runtime_protocol_invalid_json'', ''runtime_process_exited'',
      ''runtime_dispatch_failed'', ''runtime_provider_rate_limited'', ''runtime_turn_failed'']"

definition runtime_failure_code :: "text_lib \<Rightarrow> pystr \<Rightarrow> string" where
  "runtime_failure_code tx error =
     (let value = tx_lower tx error;
          has = (\<lambda>w. contains_text (u w) value)
      in case List.find (\<lambda>c. u c = value) DURABLE_FAILURE_CODES of
           Some c \<Rightarrow> c
         | None \<Rightarrow>
           if provider_rate_limited tx 3 (JStr error) then ''runtime_provider_rate_limited''
           else if has ''desktop_wake_pre_start_unavailable'' then ''desktop_wake_pre_start_unavailable''
           else if has ''mcp'' \<and> (has ''readiness timed out'' \<or> has ''startup timed out'' \<or> has ''startup_timeout'')
             then ''mcp_startup_timeout''
           else if has ''mcp'' \<and> (has ''handshake'' \<or> has ''startup'' \<or> has ''enrollment'')
             then ''mcp_startup_failed''
           else if has ''exceeded'' \<and> has ''second'' \<or> has '' timed out'' then ''runtime_timeout''
           else if has ''invalid json'' \<or> has ''non-object json'' then ''runtime_protocol_invalid_json''
           else if has ''exited before'' then ''runtime_process_exited''
           else ''runtime_dispatch_failed'')"

lemma chosen_codes:
  "''runtime_provider_rate_limited'' \<in> set DURABLE_FAILURE_CODES"
  "''desktop_wake_pre_start_unavailable'' \<in> set DURABLE_FAILURE_CODES"
  "''mcp_startup_timeout'' \<in> set DURABLE_FAILURE_CODES"
  "''mcp_startup_failed'' \<in> set DURABLE_FAILURE_CODES"
  "''runtime_timeout'' \<in> set DURABLE_FAILURE_CODES"
  "''runtime_protocol_invalid_json'' \<in> set DURABLE_FAILURE_CODES"
  "''runtime_process_exited'' \<in> set DURABLE_FAILURE_CODES"
  "''runtime_dispatch_failed'' \<in> set DURABLE_FAILURE_CODES"
  by (simp_all add: DURABLE_FAILURE_CODES_def)

lemma failure_code_closed [simp]: "runtime_failure_code tx error \<in> set DURABLE_FAILURE_CODES"
proof (cases "List.find (\<lambda>c. u c = tx_lower tx error) DURABLE_FAILURE_CODES")
  case None
  then show ?thesis
    by (simp add: runtime_failure_code_def Let_def chosen_codes)
next
  case (Some c)
  then have "c \<in> set DURABLE_FAILURE_CODES" by (auto simp: find_Some_iff in_set_conv_nth)
  with Some show ?thesis by (simp add: runtime_failure_code_def)
qed

section \<open>The durable summary\<close>

fun runtime_state_value :: "runtime_state \<Rightarrow> string" where
  "runtime_state_value R_STARTING = ''starting''"
| "runtime_state_value R_READY = ''ready''"
| "runtime_state_value R_BUSY = ''busy''"
| "runtime_state_value R_WAITING = ''waiting''"
| "runtime_state_value R_STOPPED = ''stopped''"
| "runtime_state_value R_FAILED = ''failed''"
| "runtime_state_value R_MISSING = ''missing''"

record dispatch_result =
  dr_success :: bool
  dr_native_session_id :: string
  dr_state :: runtime_state
  dr_output :: pystr
  dr_error :: pystr
  dr_metadata :: json

definition DURABLE_TURN_STATUSES :: "string list" where
  "DURABLE_TURN_STATUSES = [''completed'', ''succeeded'', ''success'', ''failed'', ''cancelled'',
     ''canceled'', ''interrupted'', ''expired'']"

text \<open>\<open>value in {texts}\<close>: a list or mapping is unhashable and raises.\<close>

fun in_text_set :: "string list \<Rightarrow> json option \<Rightarrow> bool cp" where
  "in_text_set ws (Some (JArr vs)) = Inl (PyError ''TypeError'' (''unhashable type: '' @ [CHR 0x27] @ ''list'' @ [CHR 0x27]))"
| "in_text_set ws (Some (JObj kvs)) = Inl (PyError ''TypeError'' (''unhashable type: '' @ [CHR 0x27] @ ''dict'' @ [CHR 0x27]))"
| "in_text_set ws (Some (JStr t)) = Inr (t \<in> set (List.map u ws))"
| "in_text_set ws _ = Inr False"

definition text_field :: "string list \<Rightarrow> json \<Rightarrow> string \<Rightarrow> (string \<times> json) list cp" where
  "text_field ws md k = bindE (in_text_set ws (jget md k)) (\<lambda>b.
     Inr (if b then (case jget md k of Some v \<Rightarrow> [(k, v)] | None \<Rightarrow> []) else []))"

definition DELIVERY_METHODS :: "string list" where
  "DELIVERY_METHODS = [''thread_queue'', ''direct_turn'']"

definition DELIVERY_ACCEPTANCES :: "string list" where
  "DELIVERY_ACCEPTANCES = [''not_submitted'', ''submitted'', ''queued'', ''started'', ''completed'']"

definition DISPATCH_PHASES :: "string list" where
  "DISPATCH_PHASES = [''initialize'', ''thread_binding'', ''mcp_startup'', ''delivery_submit'', ''turn_running'']"

fun event_count_field :: "json option \<Rightarrow> (string \<times> json) list" where
  "event_count_field (Some (JInt n)) = [(''event_count'', JInt (max 0 (min n 1000000)))]"
| "event_count_field _ = []"

fun turn_status_field :: "json option \<Rightarrow> (string \<times> json) list" where
  "turn_status_field (Some (JStr t)) =
     (if t \<in> set (List.map u DURABLE_TURN_STATUSES) then [(''turn_status'', JStr t)] else [])"
| "turn_status_field _ = []"

definition durable_dispatch_summary :: "text_lib \<Rightarrow> dispatch_result \<Rightarrow> json cp" where
  "durable_dispatch_summary tx result =
     bindE (text_field DELIVERY_METHODS (dr_metadata result) ''delivery_method'') (\<lambda>delivery.
     bindE (text_field DELIVERY_ACCEPTANCES (dr_metadata result) ''delivery_acceptance'') (\<lambda>acceptance.
     bindE (text_field DISPATCH_PHASES (dr_metadata result) ''dispatch_phase'') (\<lambda>phase.
       (let code = (if dr_success result then '''' else runtime_failure_code tx (dr_error result));
            diagnostics = event_count_field (jget (dr_metadata result) ''event_count'')
              @ turn_status_field (jget (dr_metadata result) ''turn_status'')
              @ delivery @ acceptance @ phase
              @ (if starts ''mcp_startup_'' (u code) then [(''mcp_startup_failure_code'', jstr code)] else [])
              @ (if dr_success result then [] else [(''failure_code'', jstr code)])
        in Inr (jobj [(''success'', JBool (dr_success result)),
                      (''state'', jstr (runtime_state_value (dr_state result))),
                      (''diagnostics'', jobj diagnostics)])))))"

section \<open>Nothing the adapter wrote survives\<close>

text \<open>Every text of a document, keys included.\<close>

fun json_texts :: "json \<Rightarrow> pystr list" where
  "json_texts (JStr t) = [t]"
| "json_texts (JArr vs) = concat (List.map json_texts vs)"
| "json_texts (JObj kvs) = concat (List.map (\<lambda>(k, v). k # json_texts v) kvs)"
| "json_texts _ = []"

definition SUMMARY_VOCABULARY :: "string list" where
  "SUMMARY_VOCABULARY =
     [''success'', ''state'', ''diagnostics'', ''event_count'', ''turn_status'', ''delivery_method'',
      ''delivery_acceptance'', ''dispatch_phase'', ''mcp_startup_failure_code'', ''failure_code'',
      ''starting'', ''ready'', ''busy'', ''waiting'', ''stopped'', ''missing'']
     @ DURABLE_FAILURE_CODES @ DURABLE_TURN_STATUSES @ DELIVERY_METHODS @ DELIVERY_ACCEPTANCES
     @ DISPATCH_PHASES"

definition vocabulary :: "pystr set" where
  "vocabulary = set (List.map u SUMMARY_VOCABULARY)"

definition fields_closed :: "(string \<times> json) list \<Rightarrow> bool" where
  "fields_closed kvs = (\<forall>(k, v)\<in>set kvs. u k \<in> vocabulary \<and> set (json_texts v) \<subseteq> vocabulary)"

lemma fields_closed_simps [simp]:
  "fields_closed []" "fields_closed (xs @ ys) = (fields_closed xs \<and> fields_closed ys)"
  "fields_closed ((k, v) # xs) = (u k \<in> vocabulary \<and> set (json_texts v) \<subseteq> vocabulary \<and> fields_closed xs)"
  by (auto simp: fields_closed_def)

lemma json_texts_jobj: "fields_closed kvs \<Longrightarrow> set (json_texts (jobj kvs)) \<subseteq> vocabulary"
  by (induction kvs) (auto simp: jobj_def fields_closed_def)

lemma in_vocabulary: "k \<in> set SUMMARY_VOCABULARY \<Longrightarrow> u k \<in> vocabulary"
  by (auto simp: vocabulary_def)

lemma text_field_closed:
  assumes "text_field ws md k = Inr kvs" and "k \<in> set SUMMARY_VOCABULARY" "set ws \<subseteq> set SUMMARY_VOCABULARY"
  shows "fields_closed kvs"
proof (cases "jget md k")
  case None
  with assms show ?thesis by (auto simp: text_field_def)
next
  case (Some v)
  with assms show ?thesis
    by (cases v) (auto simp: text_field_def in_vocabulary split: if_splits)
qed

lemma summary_words:
  "set DURABLE_FAILURE_CODES \<subseteq> set SUMMARY_VOCABULARY"
  "set DURABLE_TURN_STATUSES \<subseteq> set SUMMARY_VOCABULARY"
  "set DELIVERY_METHODS \<subseteq> set SUMMARY_VOCABULARY"
  "set DELIVERY_ACCEPTANCES \<subseteq> set SUMMARY_VOCABULARY"
  "set DISPATCH_PHASES \<subseteq> set SUMMARY_VOCABULARY"
  "''success'' \<in> set SUMMARY_VOCABULARY" "''state'' \<in> set SUMMARY_VOCABULARY"
  "''diagnostics'' \<in> set SUMMARY_VOCABULARY" "''event_count'' \<in> set SUMMARY_VOCABULARY"
  "''turn_status'' \<in> set SUMMARY_VOCABULARY" "''delivery_method'' \<in> set SUMMARY_VOCABULARY"
  "''delivery_acceptance'' \<in> set SUMMARY_VOCABULARY" "''dispatch_phase'' \<in> set SUMMARY_VOCABULARY"
  "''mcp_startup_failure_code'' \<in> set SUMMARY_VOCABULARY" "''failure_code'' \<in> set SUMMARY_VOCABULARY"
  unfolding SUMMARY_VOCABULARY_def set_append by auto

lemma state_words: "runtime_state_value st \<in> set SUMMARY_VOCABULARY"
proof -
  have "''failed'' \<in> set DURABLE_TURN_STATUSES" by (simp add: DURABLE_TURN_STATUSES_def)
  then show ?thesis
    unfolding SUMMARY_VOCABULARY_def set_append by (cases st) auto
qed

lemma event_count_field_closed: "fields_closed (event_count_field v)"
  by (cases v rule: event_count_field.cases) (auto simp: in_vocabulary summary_words)

lemma turn_status_field_closed: "fields_closed (turn_status_field v)"
  by (cases v rule: turn_status_field.cases)
    (auto intro!: in_vocabulary simp: summary_words summary_words(2) [THEN subsetD])

text \<open>C16: Whatever an adapter reports, its error text, output, session locator and metadata never
  reach durable state: every key and every text of the durable dispatch summary belongs to a
  fixed vocabulary.\<close>

theorem durable_summary_closed:
  assumes "durable_dispatch_summary tx result = Inr summary"
  shows "set (json_texts summary) \<subseteq> vocabulary"
proof -
  let ?m = "dr_metadata result"
  let ?code = "if dr_success result then '''' else runtime_failure_code tx (dr_error result)"
  from assms obtain delivery acceptance phase where
    fields: "text_field DELIVERY_METHODS ?m ''delivery_method'' = Inr delivery"
      "text_field DELIVERY_ACCEPTANCES ?m ''delivery_acceptance'' = Inr acceptance"
      "text_field DISPATCH_PHASES ?m ''dispatch_phase'' = Inr phase"
    by (auto simp: durable_dispatch_summary_def bindE_Inr_iff)
  define diagnostics where "diagnostics = event_count_field (jget ?m ''event_count'')
    @ turn_status_field (jget ?m ''turn_status'') @ delivery @ acceptance @ phase
    @ (if starts ''mcp_startup_'' (u ?code) then [(''mcp_startup_failure_code'', jstr ?code)] else [])
    @ (if dr_success result then [] else [(''failure_code'', jstr ?code)])"
  have summary: "summary = jobj [(''success'', JBool (dr_success result)),
    (''state'', jstr (runtime_state_value (dr_state result))), (''diagnostics'', jobj diagnostics)]"
    using assms fields by (simp add: durable_dispatch_summary_def Let_def diagnostics_def)
  have closed: "fields_closed delivery" "fields_closed acceptance" "fields_closed phase"
    using fields [THEN text_field_closed] by (simp_all add: summary_words)
  have "u (runtime_failure_code tx (dr_error result)) \<in> vocabulary"
    using failure_code_closed summary_words(1) by (blast intro: in_vocabulary)
  moreover have "\<not> starts ''mcp_startup_'' (u '''')"
    by (simp add: starts_def u_def)
  ultimately have "fields_closed diagnostics"
    using closed by (simp add: diagnostics_def event_count_field_closed turn_status_field_closed
        jstr_def in_vocabulary summary_words)
  then have "set (json_texts (jobj diagnostics)) \<subseteq> vocabulary" by (rule json_texts_jobj)
  then show ?thesis
    unfolding summary by (intro json_texts_jobj) (simp add: jstr_def in_vocabulary summary_words state_words)
qed

text \<open>A rate-limited run whose adapter leaked a locator into its metadata.\<close>

definition sample_text_lib :: text_lib where
  "sample_text_lib = \<lparr>tx_lower = (\<lambda>t. t), tx_loads = (\<lambda>t. None)\<rparr>"

definition sample_result :: dispatch_result where
  "sample_result = \<lparr>dr_success = False, dr_native_session_id = ''thread-1'', dr_state = R_FAILED,
     dr_output = u ''secret'', dr_error = u ''http 429: /home/owner'',
     dr_metadata = jobj [(''delivery_acceptance'', jstr ''submitted''), (''path'', jstr ''/home/owner'')]\<rparr>"

lemma durable_summary_closed_witness:
  "\<exists>summary. durable_dispatch_summary sample_text_lib sample_result = Inr summary
     \<and> set (json_texts summary) \<subseteq> vocabulary"
proof -
  have "is_ok (durable_dispatch_summary sample_text_lib sample_result)"
    by (simp add: durable_dispatch_summary_def sample_result_def text_field_def jstr_def Let_def is_ok_def)
  then obtain summary where "durable_dispatch_summary sample_text_lib sample_result = Inr summary"
    by (auto simp: is_ok_def split: sum.splits)
  with durable_summary_closed [OF this] show ?thesis by blast
qed

end
