(* ===== verification/Provider_Probe.thy ===== *)
theory Provider_Probe
  imports Delivery_Lane
begin

text \<open>
  The provider circuit operations of \<open>service.py\<close> that the dispatcher and the receipts call: the
  half-open slot of a rate-limited provider scope is held by one exact probe (runtime, Attempt,
  message). \<open>mark_provider_runtime_probe_unknown_tx\<close> fences a slot whose outcome is unproven,
  \<open>release_provider_runtime_probe_tx\<close> reopens a slot that was never handed to the provider.
\<close>

text \<open>The durable tuple that must still hold for the slot of circuit \<open>c\<close>.\<close>

definition probe_delivery_live :: "db \<Rightarrow> runtime_row \<Rightarrow> message_row \<Rightarrow> bool" where
  "probe_delivery_live s r m = list_ex (\<lambda>d. d_message_id d = m_id m
     \<and> d_recipient_id d = r_principal_id r
     \<and> sql_eq (d_runtime_session_id d) (Some (r_id r))
     \<and> d_state d \<in> {DISPATCHED, DELIVERED, ACKNOWLEDGED}) (deliveries s)"

definition probe_message_live :: "db \<Rightarrow> circuit_row \<Rightarrow> runtime_row \<Rightarrow> attempt_row \<Rightarrow> bool" where
  "probe_message_live s c r a = list_ex (\<lambda>m. m_id m = pc_probe_message_id c
     \<and> m_kind m = ASSIGNMENT
     \<and> sql_eq (m_attempt_id m) (Some (a_id a))
     \<and> sql_eq (m_work_item_id m) (Some (a_work_item_id a))
     \<and> probe_delivery_live s r m) (messages s)"

definition probe_tuple_live :: "db \<Rightarrow> circuit_row \<Rightarrow> bool" where
  "probe_tuple_live s c = list_ex (\<lambda>spec.
     sql_eq (Some (ms_runtime_session_id spec)) (pc_probe_runtime_session_id c)
     \<and> ms_adapter spec = ''claude''
     \<and> ms_provider_scope_digest spec = pc_scope_digest c
     \<and> list_ex (\<lambda>r. r_id r = ms_runtime_session_id spec \<and> r_principal_id r = ms_principal_id spec
         \<and> list_ex (\<lambda>a. sql_eq (Some (a_id a)) (pc_probe_attempt_id c)
             \<and> sql_eq (a_runtime_session_id a) (Some (r_id r))
             \<and> a_worker_id a = r_principal_id r
             \<and> probe_message_live s c r a) (attempts s)) (runtimes s)) (specs s)"

definition probe_unknown_fence :: "db \<Rightarrow> ident \<Rightarrow> circuit_row \<Rightarrow> bool" where
  "probe_unknown_fence s runtime_id c =
     (pc_state c = ''half_open'' \<and> pc_probe_outcome_state c = ''active''
      \<and> pc_probe_runtime_session_id c = Some runtime_id
      \<and> pc_probe_attempt_id c \<noteq> None
      \<and> pc_probe_message_id c \<noteq> ''''
      \<and> probe_tuple_live s c)"

definition mark_provider_runtime_probe_unknown_tx :: "env \<Rightarrow> ident \<Rightarrow> db \<Rightarrow> db \<times> bool" where
  "mark_provider_runtime_probe_unknown_tx e runtime_id s =
     (if runtime_id = '''' then (s, False)
      else (s\<lparr>circuits := update_rows (probe_unknown_fence s runtime_id)
                (\<lambda>c. c\<lparr>pc_state := ''blocked'', pc_probe_outcome_state := ''unknown'', pc_updated_at := env_now e\<rparr>)
                (circuits s)\<rparr>,
            rowcount (probe_unknown_fence s runtime_id) (circuits s) = 1))"

definition probe_release_fence :: "string \<Rightarrow> ident \<Rightarrow> ident \<Rightarrow> ident \<Rightarrow> circuit_row \<Rightarrow> bool" where
  "probe_release_fence scope runtime_id message_id attempt_id c =
     (pc_scope_digest c = scope \<and> pc_state c \<in> {''half_open'', ''blocked''}
      \<and> pc_probe_runtime_session_id c = Some runtime_id
      \<and> pc_probe_attempt_id c = Some attempt_id
      \<and> pc_probe_message_id c = message_id)"

definition release_provider_runtime_probe_tx :: "env \<Rightarrow> ident \<Rightarrow> ident \<Rightarrow> ident \<Rightarrow> db \<Rightarrow> db" where
  "release_provider_runtime_probe_tx e runtime_id message_id attempt_id s =
     (case fetchone (\<lambda>spec. ms_runtime_session_id spec = runtime_id \<and> ms_adapter spec = ''claude'') (specs s) of
        None \<Rightarrow> s
      | Some spec \<Rightarrow> s\<lparr>circuits := update_rows
          (probe_release_fence (ms_provider_scope_digest spec) runtime_id message_id attempt_id)
          (\<lambda>c. c\<lparr>pc_state := ''open'', pc_restart_authorized := False, pc_probe_restart_override := False,
                 pc_probe_runtime_session_id := None, pc_probe_attempt_id := None, pc_probe_message_id := '''',
                 pc_probe_instruction_sequence := 0, pc_probe_outcome_state := ''none'',
                 pc_updated_at := env_now e\<rparr>) (circuits s)\<rparr>)"

definition release_provider_runtime_probe :: "env \<Rightarrow> ident \<Rightarrow> ident \<Rightarrow> ident \<Rightarrow> db \<Rightarrow> (db \<times> unit) cp" where
  "release_provider_runtime_probe e runtime_id message_id attempt_id s =
     transaction s (\<lambda>s. Inr (release_provider_runtime_probe_tx e runtime_id message_id attempt_id s, ()))"

section \<open>Frame\<close>

lemma mark_probe_frame [simp]:
  "deliveries (fst (mark_provider_runtime_probe_unknown_tx e i s)) = deliveries s"
  "messages (fst (mark_provider_runtime_probe_unknown_tx e i s)) = messages s"
  "events (fst (mark_provider_runtime_probe_unknown_tx e i s)) = events s"
  "runtimes (fst (mark_provider_runtime_probe_unknown_tx e i s)) = runtimes s"
  "works (fst (mark_provider_runtime_probe_unknown_tx e i s)) = works s"
  "attempts (fst (mark_provider_runtime_probe_unknown_tx e i s)) = attempts s"
  "authority_mode (fst (mark_provider_runtime_probe_unknown_tx e i s)) = authority_mode s"
  by (simp_all add: mark_provider_runtime_probe_unknown_tx_def)

lemma release_probe_frame [simp]:
  "deliveries (release_provider_runtime_probe_tx e i m a s) = deliveries s"
  "messages (release_provider_runtime_probe_tx e i m a s) = messages s"
  "events (release_provider_runtime_probe_tx e i m a s) = events s"
  "runtimes (release_provider_runtime_probe_tx e i m a s) = runtimes s"
  "works (release_provider_runtime_probe_tx e i m a s) = works s"
  "attempts (release_provider_runtime_probe_tx e i m a s) = attempts s"
  "authority_mode (release_provider_runtime_probe_tx e i m a s) = authority_mode s"
  by (simp_all add: release_provider_runtime_probe_tx_def split: option.split)

section \<open>The slot\<close>

text \<open>A probe marked unknown keeps its tuple; it is not handed to another probe.\<close>

definition slot_tuple :: "circuit_row \<Rightarrow> string \<times> ident option \<times> ident option \<times> string" where
  "slot_tuple c = (pc_scope_digest c, pc_probe_runtime_session_id c, pc_probe_attempt_id c, pc_probe_message_id c)"

lemma mark_unknown_keeps_tuple:
  "map slot_tuple (circuits (fst (mark_provider_runtime_probe_unknown_tx e i s))) = map slot_tuple (circuits s)"
  by (simp add: mark_provider_runtime_probe_unknown_tx_def map_update_rows slot_tuple_def)

end
