(* ===== verification/Dispatch_Outcome.thy ===== *)
theory Dispatch_Outcome
  imports Dispatch_Claim Runtime_Diagnostics Provider_Probe
begin

text \<open>
  What the dispatcher of \<open>runtime.py\<close> does with a claimed delivery: reserving the dispatch,
  recording its outcome, retrying, parking and blocking. Every outcome is one transaction
  around a compare-and-swap on (message, recipient, generation, state, owner); the locale
  \<open>fenced_row_write\<close> states what makes such a write safe and is interpreted on each of them.

  A claim is handed to these operations as the row \<open>d\<close> the claim returned.
\<close>

section \<open>Fenced writes\<close>

text \<open>
  A write is described by the row key it pins, its fence and the new row, all for a handle
  \<open>h\<close>; \<open>valid\<close> holds of the handles the dispatcher can hold.
\<close>

locale fenced_row_write =
  fixes valid :: "'h \<Rightarrow> bool"
    and pinned :: "'h \<Rightarrow> ident \<times> ident"
    and fence :: "'h \<Rightarrow> delivery_row \<Rightarrow> bool"
    and wr :: "'h \<Rightarrow> delivery_row \<Rightarrow> delivery_row"
  assumes fence_pins: "fence h r \<Longrightarrow> delivery_key r = pinned h"
    and keeps_key: "delivery_key (wr h r) = delivery_key r"
    and fence_spent: "valid h \<Longrightarrow> fence h r \<Longrightarrow> \<not> fence h (wr h r)"
begin

lemma keys_kept: "map delivery_key (update_rows (fence h) (wr h) rows) = map delivery_key rows"
  by (rule map_update_rows) (rule keeps_key)

lemma at_most_one: "distinct (map delivery_key rows) \<Longrightarrow> rowcount (fence h) rows \<le> 1"
  by (rule rowcount_key_le_1 [where k = delivery_key and c = "pinned h"]) (auto dest: fence_pins)

lemma once: "valid h \<Longrightarrow> rowcount (fence h) (update_rows (fence h) (wr h) rows) = 0"
  by (auto simp: rowcount_0_iff set_update_rows fence_spent)

lemma twice_is_once:
  "valid h \<Longrightarrow> update_rows (fence h) (wr h) (update_rows (fence h) (wr h) rows) = update_rows (fence h) (wr h) rows"
  by (intro update_rows_idle) (auto simp: set_update_rows fence_spent)

lemma others_kept:
  "r \<in> set rows \<Longrightarrow> delivery_key r \<noteq> pinned h \<Longrightarrow> r \<in> set (update_rows (fence h) (wr h) rows)"
  by (force simp: set_update_rows dest: fence_pins)

lemma stale_idle: "rowcount (fence h) rows = 0 \<Longrightarrow> update_rows (fence h) (wr h) rows = rows"
  by (intro update_rows_idle) (auto simp: rowcount_0_iff)

end

text \<open>The fence of every dispatcher write: the exact claim, in the state \<open>st\<close>, still owned.\<close>

type_synonym claim = "string \<times> delivery_row"

definition held :: "claim \<Rightarrow> delivery_state \<Rightarrow> delivery_row \<Rightarrow> bool" where
  "held h st r = (d_message_id r = d_message_id (snd h) \<and> d_recipient_id r = d_recipient_id (snd h)
     \<and> d_generation r = d_generation (snd h) \<and> d_state r = st \<and> d_owner_token r = fst h)"

definition claim_key :: "claim \<Rightarrow> ident \<times> ident" where
  "claim_key h = delivery_key (snd h)"

definition owned :: "claim \<Rightarrow> bool" where
  "owned h = (fst h \<noteq> '''')"

lemma held_pins: "held h st r \<Longrightarrow> delivery_key r = claim_key h"
  by (simp add: held_def claim_key_def delivery_key_def)

definition cas :: "(delivery_row \<Rightarrow> bool) \<Rightarrow> (delivery_row \<Rightarrow> delivery_row) \<Rightarrow> db \<Rightarrow> db \<times> bool" where
  "cas fence wr s = (s\<lparr>deliveries := update_rows fence wr (deliveries s)\<rparr>, rowcount fence (deliveries s) = 1)"

section \<open>Releasing a lease: retry, defer, park, block\<close>

definition dispatch_delay :: "int \<Rightarrow> int" where
  "dispatch_delay n = min 300 (2 ^ nat (min n 8))"

definition finish_is_dead :: "dispatcher_settings \<Rightarrow> bool \<Rightarrow> delivery_row \<Rightarrow> bool" where
  "finish_is_dead cfg dead row = (dead \<or> d_attempts row + 1 \<ge> max_dispatch_attempts cfg)"

definition finish_policy :: "dispatcher_settings \<Rightarrow> bool \<Rightarrow> delivery_row \<Rightarrow> reactivation_policy" where
  "finish_policy cfg dead row = (if finish_is_dead cfg dead row \<and> \<not> dead then RETRYABLE else TERMINAL)"

definition finish_row :: "env \<Rightarrow> dispatcher_settings \<Rightarrow> bool \<Rightarrow> string \<Rightarrow> delivery_row \<Rightarrow> delivery_row" where
  "finish_row e cfg dead code row = row\<lparr>
     d_state := (if finish_is_dead cfg dead row then DEAD else QUEUED),
     d_generation := d_generation row + (if finish_is_dead cfg dead row then 0 else 1),
     d_attempts := d_attempts row + 1,
     d_next_attempt_at := utc_after e (dispatch_delay (d_attempts row + 1)),
     d_lease_until := None, d_owner_token := '''', d_last_error := code,
     d_reactivation_policy := finish_policy cfg dead row, d_updated_at := env_now e\<rparr>"

definition finish_event :: "env \<Rightarrow> dispatcher_settings \<Rightarrow> bool \<Rightarrow> string \<Rightarrow> delivery_row \<Rightarrow> event_input" where
  "finish_event e cfg dead code row =
     mk_event (if finish_is_dead cfg dead row then ''runtime.message_dead'' else ''runtime.message_retry_scheduled'')
       ''message'' (d_message_id row) ''''
       ([(''attempts'', JInt (d_attempts row + 1)), (''failure_code'', jstr code),
         (''reactivation_policy'', jstr (policy_value (finish_policy cfg dead row)))]
        @ (if finish_is_dead cfg dead row then []
           else [(''next_attempt_at'', jtime (utc_after e (dispatch_delay (d_attempts row + 1))))]))"

definition finish_delivery_tx :: "env \<Rightarrow> dispatcher_settings \<Rightarrow> text_lib \<Rightarrow> claim \<Rightarrow> pystr \<Rightarrow> bool \<Rightarrow> db \<Rightarrow> db \<times> bool" where
  "finish_delivery_tx e cfg tx h error dead s =
     (let code = runtime_failure_code tx error in
      case get_delivery s (d_message_id (snd h)) (d_recipient_id (snd h)) of
        None \<Rightarrow> (s, False)
      | Some row \<Rightarrow>
          if d_state row \<noteq> LEASED \<or> d_owner_token row \<noteq> fst h \<or> d_generation row \<noteq> d_generation (snd h)
          then (s, False)
          else (case cas (held (fst h, row) LEASED) (finish_row e cfg dead code) s of
              (s', updated) \<Rightarrow>
                if \<not> updated then (s', False)
                else (log_event e (finish_event e cfg dead code row) s', finish_is_dead cfg dead row)))"

definition finish_delivery :: "env \<Rightarrow> dispatcher_settings \<Rightarrow> text_lib \<Rightarrow> claim \<Rightarrow> pystr \<Rightarrow> bool \<Rightarrow> db \<Rightarrow> (db \<times> bool) cp" where
  "finish_delivery e cfg tx h error dead s = transaction s (\<lambda>s. Inr (finish_delivery_tx e cfg tx h error dead s))"

definition defer_row :: "env \<Rightarrow> timestamp \<Rightarrow> string \<Rightarrow> delivery_row \<Rightarrow> delivery_row" where
  "defer_row e next code r = r\<lparr>d_state := QUEUED, d_generation := d_generation r + 1,
     d_next_attempt_at := next, d_lease_until := None, d_owner_token := '''',
     d_last_error := code, d_updated_at := env_now e\<rparr>"

definition defer_delivery_tx :: "env \<Rightarrow> claim \<Rightarrow> timestamp \<Rightarrow> string \<Rightarrow> string \<Rightarrow> db \<Rightarrow> db" where
  "defer_delivery_tx e h next code event s =
     (case cas (held h LEASED) (defer_row e next code) s of
        (s', updated) \<Rightarrow>
          if \<not> updated then s'
          else log_event e (mk_event event ''message'' (d_message_id (snd h)) ''''
                 [(''failure_code'', jstr code), (''next_attempt_at'', jtime next)]) s')"

definition defer_provider_rate_limited_delivery :: "env \<Rightarrow> claim \<Rightarrow> timestamp \<Rightarrow> db \<Rightarrow> (db \<times> unit) cp" where
  "defer_provider_rate_limited_delivery e h next s = transaction s (\<lambda>s. Inr
     (defer_delivery_tx e h next ''runtime_provider_rate_limited''
        ''runtime.provider_rate_limit_dispatch_suppressed'' s, ()))"

definition defer_pending_launch_ticket_delivery :: "env \<Rightarrow> claim \<Rightarrow> timestamp \<Rightarrow> db \<Rightarrow> (db \<times> unit) cp" where
  "defer_pending_launch_ticket_delivery e h next s = transaction s (\<lambda>s. Inr
     (defer_delivery_tx e h next ''managed_mcp_launch_ticket_pending''
        ''runtime.launch_ticket_pending_dispatch_parked'' s, ()))"

definition park_row :: "env \<Rightarrow> delivery_row \<Rightarrow> delivery_row" where
  "park_row e r = r\<lparr>d_state := QUEUED, d_generation := d_generation r + 1, d_lease_until := None,
     d_owner_token := '''', d_updated_at := env_now e\<rparr>"

definition park_fence :: "claim \<Rightarrow> delivery_row \<Rightarrow> bool" where
  "park_fence h r = (held h LEASED r \<and> sql_eq (d_recipient_attachment_id r) (d_recipient_attachment_id (snd h)))"

definition park_cao_catalog_delivery_tx :: "env \<Rightarrow> claim \<Rightarrow> db \<Rightarrow> db \<times> bool" where
  "park_cao_catalog_delivery_tx e h s =
     (if d_recipient_attachment_id (snd h) = None \<or> cao_automatic_wake_ready_tx s (d_recipient_attachment_id (snd h))
      then (s, False)
      else (let s' = fst (cas (park_fence h) (park_row e) s) in
            (if rowcount (park_fence h) (deliveries s) \<noteq> 0
             then log_event e (mk_event ''cao.wake_waiting_for_connection'' ''message'' (d_message_id (snd h)) ''''
                    [(''reason_code'', jstr ''attachment_catalog_refresh_required'')]) s'
             else s', True)))"

definition block_row :: "env \<Rightarrow> string \<Rightarrow> delivery_row \<Rightarrow> delivery_row" where
  "block_row e code r = r\<lparr>d_state := DEAD, d_attempts := d_attempts r + 1, d_lease_until := None,
     d_owner_token := '''', d_last_error := code, d_reactivation_policy := TERMINAL, d_updated_at := env_now e\<rparr>"

definition owner_private_code :: "string \<Rightarrow> string" where
  "owner_private_code code =
     (if starts ''owner_private_policy_'' (u code) then code else ''owner_private_policy_unavailable'')"

definition block_owner_private_delivery_tx :: "env \<Rightarrow> claim \<Rightarrow> delivery_state \<Rightarrow> string \<Rightarrow> string \<Rightarrow> db \<Rightarrow> db" where
  "block_owner_private_delivery_tx e h expected code decision_id s =
     (case cas (held h expected) (block_row e (owner_private_code code)) s of
        (s', updated) \<Rightarrow>
          if \<not> updated then s'
          else log_event e (mk_event ''runtime.owner_private_placement_blocked'' ''message'' (d_message_id (snd h)) ''''
                 [(''code'', jstr (owner_private_code code)), (''decision_id'', jstr decision_id),
                  (''delivery_generation'', JInt (d_generation (snd h)))]) s')"

definition block_owner_private_delivery :: "env \<Rightarrow> claim \<Rightarrow> delivery_state \<Rightarrow> string \<Rightarrow> string \<Rightarrow> db \<Rightarrow> (db \<times> unit) cp" where
  "block_owner_private_delivery e h expected code decision_id s =
     transaction s (\<lambda>s. Inr (block_owner_private_delivery_tx e h expected code decision_id s, ()))"

section \<open>Ending a dispatch\<close>

definition unknown_row :: "env \<Rightarrow> string \<Rightarrow> delivery_row \<Rightarrow> delivery_row" where
  "unknown_row e code r = r\<lparr>d_lease_until := None, d_owner_token := '''', d_attempts := d_attempts r + 1,
     d_last_error := code, d_updated_at := env_now e\<rparr>"

definition dispatch_binding :: "claim \<Rightarrow> (string \<times> json) list" where
  "dispatch_binding h = [(''binding_version'', JInt 2),
     (''runtime_session_id'', jstr (str_or_empty (d_runtime_session_id (snd h)))),
     (''delivery_generation'', JInt (d_generation (snd h)))]"

definition mark_delivery_unknown_tx :: "env \<Rightarrow> text_lib \<Rightarrow> claim \<Rightarrow> pystr \<Rightarrow> db \<Rightarrow> db" where
  "mark_delivery_unknown_tx e tx h error s =
     (let code = runtime_failure_code tx error in
      case cas (held h DISPATCHED) (unknown_row e code) s of
        (s', updated) \<Rightarrow>
          if \<not> updated then s'
          else log_event e (mk_event ''runtime.message_delivery_unknown'' ''message'' (d_message_id (snd h)) ''''
                 ([(''recipient_id'', jstr (d_recipient_id (snd h))), (''failure_code'', jstr code)] @ dispatch_binding h))
               (fst (mark_provider_runtime_probe_unknown_tx e (str_or_empty (d_runtime_session_id (snd h))) s')))"

definition mark_delivery_unknown :: "env \<Rightarrow> text_lib \<Rightarrow> claim \<Rightarrow> pystr \<Rightarrow> db \<Rightarrow> (db \<times> unit) cp" where
  "mark_delivery_unknown e tx h error s = transaction s (\<lambda>s. Inr (mark_delivery_unknown_tx e tx h error s, ()))"

definition not_submitted_row :: "env \<Rightarrow> delivery_row \<Rightarrow> delivery_row" where
  "not_submitted_row e r = r\<lparr>d_state := DEAD, d_lease_until := None, d_owner_token := '''',
     d_attempts := d_attempts r + 1, d_last_error := ''runtime_dispatch_pre_submit_failed'',
     d_reactivation_policy := TERMINAL, d_updated_at := env_now e\<rparr>"

definition safe_phase :: "string option \<Rightarrow> string" where
  "safe_phase phase = (case phase of None \<Rightarrow> ''initialize''
     | Some p \<Rightarrow> if p \<in> {''initialize'', ''thread_binding'', ''mcp_startup''} then p else ''initialize'')"

definition mark_delivery_not_submitted_tx :: "env \<Rightarrow> text_lib \<Rightarrow> claim \<Rightarrow> pystr \<Rightarrow> string option \<Rightarrow> db \<Rightarrow> db \<times> bool" where
  "mark_delivery_not_submitted_tx e tx h error phase s =
     (let code = runtime_failure_code tx error in
      case cas (held h DISPATCHED) (not_submitted_row e) s of
        (s', updated) \<Rightarrow>
          if \<not> updated then (s', False)
          else (log_event e (mk_event ''runtime.message_not_submitted'' ''message'' (d_message_id (snd h)) ''''
                 ([(''recipient_id'', jstr (d_recipient_id (snd h))), (''failure_code'', jstr code),
                   (''dispatch_phase'', jstr (safe_phase phase))] @ dispatch_binding h)) s', True))"

definition mark_delivery_not_submitted :: "env \<Rightarrow> text_lib \<Rightarrow> claim \<Rightarrow> pystr \<Rightarrow> string option \<Rightarrow> db \<Rightarrow> (db \<times> bool) cp" where
  "mark_delivery_not_submitted e tx h error phase s =
     transaction s (\<lambda>s. Inr (mark_delivery_not_submitted_tx e tx h error phase s))"

definition retry_row :: "env \<Rightarrow> string \<Rightarrow> int \<Rightarrow> delivery_row \<Rightarrow> delivery_row" where
  "retry_row e code n r = r\<lparr>d_state := QUEUED, d_generation := d_generation r + 1,
     d_attempts := n, d_next_attempt_at := utc_after e (dispatch_delay n),
     d_lease_until := None, d_owner_token := '''', d_last_error := code, d_updated_at := env_now e\<rparr>"

definition retry_event :: "env \<Rightarrow> claim \<Rightarrow> string \<Rightarrow> int \<Rightarrow> string \<Rightarrow> event_input" where
  "retry_event e h code n proof_code =
     mk_event ''runtime.message_retry_scheduled'' ''message'' (d_message_id (snd h)) ''''
       [(''attempts'', JInt n), (''failure_code'', jstr code),
        (''next_attempt_at'', jtime (utc_after e (dispatch_delay n))),
        (''start_proof'', jstr proof_code)]"

text \<open>Retry is allowed only while the exact launch ticket is revoked and unconsumed.\<close>

definition retry_unstarted_cao_delivery_tx :: "env \<Rightarrow> text_lib \<Rightarrow> claim \<Rightarrow> ident \<Rightarrow> pystr \<Rightarrow> db \<Rightarrow> db \<times> bool" where
  "retry_unstarted_cao_delivery_tx e tx h ticket_id error s =
     (let code = runtime_failure_code tx error in
      case fetchone (held h DISPATCHED) (deliveries s) of
        None \<Rightarrow> (s, False)
      | Some row \<Rightarrow>
          if \<not> list_ex (\<lambda>t. tk_id t = ticket_id \<and> tk_state t = ''revoked'' \<and> tk_consumed_at t = None) (cao_runtime_tickets s)
          then (s, False)
          else (let n = d_attempts row + 1 in
            case cas (held h DISPATCHED) (retry_row e code n) s of
              (s', updated) \<Rightarrow>
                if \<not> updated then (s', False)
                else (log_event e (retry_event e h code n ''cao_runtime_ticket_unconsumed'') s', True)))"

definition retry_unstarted_cao_delivery :: "env \<Rightarrow> text_lib \<Rightarrow> claim \<Rightarrow> ident \<Rightarrow> pystr \<Rightarrow> db \<Rightarrow> (db \<times> bool) cp" where
  "retry_unstarted_cao_delivery e tx h ticket_id error s =
     transaction s (\<lambda>s. Inr (retry_unstarted_cao_delivery_tx e tx h ticket_id error s))"

definition attachment_live_for :: "env \<Rightarrow> int \<Rightarrow> delivery_row \<Rightarrow> attachment_row \<Rightarrow> bool" where
  "attachment_live_for e attachment_generation row a =
     (sql_eq (Some (ca_runtime_session_id a)) (d_runtime_session_id row)
      \<and> ca_state a = ''active'' \<and> ca_generation a = attachment_generation
      \<and> ca_lease_expires_at a > env_now e)"

definition set_runtime_waiting :: "env \<Rightarrow> ident \<Rightarrow> db \<Rightarrow> db" where
  "set_runtime_waiting e runtime_id s = s\<lparr>runtimes := update_rows
     (\<lambda>r. r_id r = runtime_id \<and> r_state r = R_BUSY)
     (\<lambda>r. r\<lparr>r_state := R_WAITING, r_updated_at := env_now e\<rparr>) (runtimes s)\<rparr>"

definition retry_unstarted_desktop_cao_delivery_tx :: "env \<Rightarrow> claim \<Rightarrow> ident \<Rightarrow> int option \<Rightarrow> db \<Rightarrow> db \<times> bool" where
  "retry_unstarted_desktop_cao_delivery_tx e h runtime_id attachment_generation s =
     (case attachment_generation of
        None \<Rightarrow> (s, False)
      | Some g \<Rightarrow>
        (case fetchone (\<lambda>r. held h DISPATCHED r \<and> d_runtime_session_id r = Some runtime_id
                 \<and> list_ex (attachment_live_for e g r) (attachments s)) (deliveries s) of
           None \<Rightarrow> (s, False)
         | Some row \<Rightarrow>
             (let n = d_attempts row + 1; code = ''desktop_wake_pre_start_unavailable'' in
              case cas (held h DISPATCHED) (retry_row e code n) s of
                (s', updated) \<Rightarrow>
                  if \<not> updated then (s', False)
                  else (log_event e (retry_event e h code n ''desktop_host_pre_turn'')
                          (set_runtime_waiting e runtime_id s'), True))))"

definition retry_unstarted_desktop_cao_delivery :: "env \<Rightarrow> claim \<Rightarrow> ident \<Rightarrow> int option \<Rightarrow> db \<Rightarrow> (db \<times> bool) cp" where
  "retry_unstarted_desktop_cao_delivery e h runtime_id attachment_generation s =
     transaction s (\<lambda>s. Inr (retry_unstarted_desktop_cao_delivery_tx e h runtime_id attachment_generation s))"

section \<open>Reserving and delivering\<close>

definition dispatch_row :: "env \<Rightarrow> delivery_row \<Rightarrow> delivery_row" where
  "dispatch_row e r = r\<lparr>d_state := DISPATCHED, d_updated_at := env_now e\<rparr>"

definition unreserve_row :: "env \<Rightarrow> delivery_row \<Rightarrow> delivery_row" where
  "unreserve_row e r = r\<lparr>d_state := LEASED, d_updated_at := env_now e\<rparr>"

definition runtime_usable :: "ident \<Rightarrow> ident \<Rightarrow> runtime_row \<Rightarrow> bool" where
  "runtime_usable runtime_id recipient r =
     (r_id r = runtime_id \<and> r_principal_id r = recipient \<and> r_state r \<notin> {R_STOPPED, R_FAILED, R_MISSING})"

definition runtime_wakeable :: "ident \<Rightarrow> ident \<Rightarrow> runtime_row \<Rightarrow> bool" where
  "runtime_wakeable runtime_id recipient r =
     (r_id r = runtime_id \<and> r_principal_id r = recipient \<and> r_state r \<in> {R_READY, R_WAITING, R_BUSY})"

text \<open>The route of a dispatch that is not to a managed Worker.\<close>

record cao_launch =
  cl_native_session_id :: string
  cl_desktop_wake :: bool
  cl_ticket_id :: ident
  cl_ticket_generation :: "int option"

definition cao_launch_current :: "env \<Rightarrow> db \<Rightarrow> cao_launch \<Rightarrow> ident \<Rightarrow> ident \<Rightarrow> bool" where
  "cao_launch_current e s l runtime_id recipient =
     list_ex (\<lambda>r. runtime_wakeable runtime_id recipient r \<and> list_ex (\<lambda>a.
         ca_runtime_session_id a = r_id r \<and> ca_state a = ''active''
         \<and> ca_native_thread_id a = cl_native_session_id l
         \<and> ca_lease_expires_at a > env_now e
         \<and> (cl_desktop_wake l
            \<or> list_ex (\<lambda>t. tk_owner_id t = ca_id a \<and> tk_id t = cl_ticket_id l \<and> tk_state t = ''pending''
                 \<and> sql_eq (Some (tk_generation t)) (cl_ticket_generation l)) (cao_runtime_tickets s)))
       (attachments s)) (runtimes s)"

definition busy_runtime :: "env \<Rightarrow> (runtime_row \<Rightarrow> bool) \<Rightarrow> db \<Rightarrow> db \<times> bool" where
  "busy_runtime e fence s =
     (s\<lparr>runtimes := update_rows fence (\<lambda>r. r\<lparr>r_state := R_BUSY, r_updated_at := env_now e\<rparr>) (runtimes s)\<rparr>,
      rowcount fence (runtimes s) = 1)"

text \<open>A reservation that cannot mark its runtime busy puts the delivery back under its lease.\<close>

definition reserve_on_runtime :: "env \<Rightarrow> claim \<Rightarrow> (runtime_row \<Rightarrow> bool) \<Rightarrow> db \<Rightarrow> db \<times> bool" where
  "reserve_on_runtime e h fence s =
     (case busy_runtime e fence s of
        (s', True) \<Rightarrow> (s', True)
      | (s', False) \<Rightarrow> (fst (cas (held h DISPATCHED) (unreserve_row e) s'), False))"

definition reserve_dispatch_tx :: "env \<Rightarrow> claim \<Rightarrow> ident \<Rightarrow> cao_launch option \<Rightarrow> db \<Rightarrow> db \<times> bool" where
  "reserve_dispatch_tx e h runtime_id managed_cao s =
     (let recipient = d_recipient_id (snd h) in
      case park_cao_catalog_delivery_tx e h s of
        (s1, True) \<Rightarrow> (s1, False)
      | (s1, False) \<Rightarrow>
          (let current = (case managed_cao of
                 None \<Rightarrow> list_ex (runtime_usable runtime_id recipient) (runtimes s1)
               | Some l \<Rightarrow> cao_launch_current e s1 l runtime_id recipient)
           in if \<not> current then (s1, False)
              else (case cas (held h LEASED) (dispatch_row e) s1 of
                  (s2, False) \<Rightarrow> (s2, False)
                | (s2, True) \<Rightarrow>
                    (case managed_cao of
                       None \<Rightarrow> reserve_on_runtime e h (runtime_usable runtime_id recipient) s2
                     | Some l \<Rightarrow> if cl_desktop_wake l
                         then reserve_on_runtime e h (runtime_wakeable runtime_id recipient) s2
                         else (s2, True)))))"

definition deliver_row :: "env \<Rightarrow> delivery_row \<Rightarrow> delivery_row" where
  "deliver_row e r = r\<lparr>d_state := DELIVERED, d_delivered_at := Some (env_now e), d_lease_until := None,
     d_owner_token := '''', d_updated_at := env_now e\<rparr>"

definition dispatch_metadata :: "(pystr \<times> json) list \<Rightarrow> json \<Rightarrow> ident \<Rightarrow> json" where
  "dispatch_metadata durable summary message_id =
     JObj (put_key (put_key durable (u ''last_dispatch'') summary) (u ''last_dispatch_message_id'') (jstr message_id))"

text \<open>Settling a successful dispatch on a runtime that is neither a managed Worker nor a managed CAO.\<close>

definition settle_dispatch_tx ::
  "env \<Rightarrow> claim \<Rightarrow> runtime_row \<Rightarrow> (pystr \<times> json) list \<Rightarrow> dispatch_result \<Rightarrow> json \<Rightarrow> string \<Rightarrow> db \<Rightarrow> db" where
  "settle_dispatch_tx e h runtime durable result summary correlation s =
     (let s1 = s\<lparr>runtimes := update_rows (\<lambda>r. r_id r = r_id runtime)
            (\<lambda>r. r\<lparr>r_native_session_id := (if dr_native_session_id result \<noteq> '''' then dr_native_session_id result
                                         else r_native_session_id r),
                   r_metadata := dispatch_metadata durable summary (d_message_id (snd h)),
                   r_updated_at := env_now e\<rparr>) (runtimes s)\<rparr>
      in case cas (held h DISPATCHED) (deliver_row e) s1 of
           (s2, False) \<Rightarrow> s2
         | (s2, True) \<Rightarrow> log_event e
             ((mk_event ''runtime.message_delivered'' ''runtime'' (r_id runtime) ''''
                [(''message_id'', jstr (d_message_id (snd h))), (''adapter'', jstr (r_adapter runtime)),
                 (''result'', summary)])
              \<lparr>ei_correlation_id := correlation, ei_causation_id := d_message_id (snd h)\<rparr>) s2)"

definition park_cao_catalog_delivery :: "env \<Rightarrow> claim \<Rightarrow> db \<Rightarrow> (db \<times> bool) cp" where
  "park_cao_catalog_delivery e h s = transaction s (\<lambda>s. Inr (park_cao_catalog_delivery_tx e h s))"

definition reserve_dispatch :: "env \<Rightarrow> claim \<Rightarrow> ident \<Rightarrow> cao_launch option \<Rightarrow> db \<Rightarrow> (db \<times> bool) cp" where
  "reserve_dispatch e h runtime_id managed_cao s = transaction s (\<lambda>s. Inr (reserve_dispatch_tx e h runtime_id managed_cao s))"

definition settle_dispatch ::
  "env \<Rightarrow> claim \<Rightarrow> runtime_row \<Rightarrow> (pystr \<times> json) list \<Rightarrow> dispatch_result \<Rightarrow> json \<Rightarrow> string \<Rightarrow> db \<Rightarrow> (db \<times> unit) cp" where
  "settle_dispatch e h runtime durable result summary correlation s =
     transaction s (\<lambda>s. Inr (settle_dispatch_tx e h runtime durable result summary correlation s, ()))"

end
