(* ===== verification/Dispatch_Lifecycle.thy ===== *)
theory Dispatch_Lifecycle
  imports Dispatch_Outcome
begin

text \<open>
  The delivery lifecycle the dispatcher promises, as an abstract graph of phases, and the proof
  that every dispatcher transaction refines it, whatever other dispatchers do in between. The
  dispatcher's transactions are the rules of \<open>dispatcher_step\<close>.
\<close>

section \<open>The abstract lifecycle\<close>

datatype phase = Waiting | Leased | In_Flight | Outcome_Unknown | Delivered | Acknowledged | Handled | Dead

definition phase_of :: "delivery_row \<Rightarrow> phase" where
  "phase_of r = (case d_state r of
      QUEUED \<Rightarrow> Waiting
    | LEASED \<Rightarrow> Leased
    | DISPATCHED \<Rightarrow> if d_owner_token r = '''' then Outcome_Unknown else In_Flight
    | DELIVERED \<Rightarrow> Delivered
    | ACKNOWLEDGED \<Rightarrow> Acknowledged
    | HANDLED \<Rightarrow> Handled
    | DEAD \<Rightarrow> Dead)"

definition dispatcher_edges :: "(phase \<times> phase) list" where
  "dispatcher_edges =
     [(Waiting, Leased), (Leased, Waiting), (Leased, Dead), (Leased, In_Flight),
      (In_Flight, Waiting), (In_Flight, Dead), (In_Flight, Outcome_Unknown), (In_Flight, Delivered)]"

text \<open>
  One move of a row: its identity and route never change; it is left alone (a lease may be
  touched), or moves along an edge, and a move back to waiting opens the next generation.
\<close>

definition same_identity :: "delivery_row \<Rightarrow> delivery_row \<Rightarrow> bool" where
  "same_identity r r' = (d_message_id r' = d_message_id r \<and> d_recipient_id r' = d_recipient_id r
     \<and> d_recipient_attachment_id r' = d_recipient_attachment_id r
     \<and> d_runtime_session_id r' = d_runtime_session_id r)"

definition lifecycle_step :: "delivery_row \<Rightarrow> delivery_row \<Rightarrow> bool" where
  "lifecycle_step r r' = (same_identity r r'
     \<and> (r' = r
        \<or> phase_of r = Leased \<and> r' = r\<lparr>d_updated_at := d_updated_at r'\<rparr>
        \<or> (phase_of r, phase_of r') \<in> set dispatcher_edges
          \<and> d_generation r' = d_generation r + (if phase_of r' = Waiting then 1 else 0)))"

lemma lifecycle_refl [simp]: "lifecycle_step r r"
  by (simp add: lifecycle_step_def same_identity_def)

text \<open>The owner, lease and receipt columns each state admits.\<close>

definition delivery_ok :: "delivery_row \<Rightarrow> bool" where
  "delivery_ok r = (d_generation r \<ge> 1
     \<and> (d_state r = LEASED \<longrightarrow> d_owner_token r \<noteq> '''' \<and> d_lease_until r \<noteq> None)
     \<and> (d_state r = DISPATCHED \<longrightarrow> (d_owner_token r = '''') = (d_lease_until r = None))
     \<and> (d_state r \<notin> {LEASED, DISPATCHED} \<longrightarrow> d_owner_token r = '''' \<and> d_lease_until r = None)
     \<and> (d_state r = DELIVERED \<longrightarrow> d_delivered_at r \<noteq> None)
     \<and> (d_state r = ACKNOWLEDGED \<longrightarrow> d_acknowledged_at r \<noteq> None)
     \<and> (d_state r = HANDLED \<longrightarrow> d_handled_at r \<noteq> None)
     \<and> (d_reactivation_policy r = RETRYABLE \<longrightarrow> d_state r \<in> {DEAD, HANDLED}))"

section \<open>The dispatcher's writes are fenced\<close>

lemmas write_defs = finish_row_def defer_row_def park_row_def block_row_def unknown_row_def
  not_submitted_row_def retry_row_def dispatch_row_def unreserve_row_def deliver_row_def lease_row_def

interpretation claim_write: fenced_row_write "\<lambda>_. True" claim_key "\<lambda>h. claim_fence (snd h)" "\<lambda>h. lease_row now until (fst h)"
  for now until
  by unfold_locales (auto simp: claim_fence_def claim_key_def delivery_key_def lease_row_def)

interpretation finish_write: fenced_row_write owned claim_key "\<lambda>h. held h LEASED" "\<lambda>_. finish_row e cfg dead code"
  for e cfg dead code
  by unfold_locales (auto simp: held_pins held_def claim_key_def delivery_key_def finish_row_def)

interpretation defer_write: fenced_row_write owned claim_key "\<lambda>h. held h LEASED" "\<lambda>_. defer_row e next code"
  for e "next" code
  by unfold_locales (auto simp: held_pins held_def claim_key_def delivery_key_def defer_row_def)

interpretation park_write: fenced_row_write owned claim_key park_fence "\<lambda>_. park_row e"
  for e
  by unfold_locales (auto simp: park_fence_def held_pins held_def claim_key_def delivery_key_def park_row_def)

interpretation block_write: fenced_row_write owned claim_key "\<lambda>h. held h expected" "\<lambda>_. block_row e code"
  for expected e code
  by unfold_locales (auto simp: held_pins held_def claim_key_def delivery_key_def block_row_def owned_def)

interpretation unknown_write: fenced_row_write owned claim_key "\<lambda>h. held h DISPATCHED" "\<lambda>_. unknown_row e code"
  for e code
  by unfold_locales (auto simp: held_pins held_def claim_key_def delivery_key_def unknown_row_def owned_def)

interpretation not_submitted_write: fenced_row_write owned claim_key "\<lambda>h. held h DISPATCHED" "\<lambda>_. not_submitted_row e"
  for e
  by unfold_locales (auto simp: held_pins held_def claim_key_def delivery_key_def not_submitted_row_def)

interpretation retry_write: fenced_row_write owned claim_key "\<lambda>h. held h DISPATCHED" "\<lambda>_. retry_row e code n"
  for e code n
  by unfold_locales (auto simp: held_pins held_def claim_key_def delivery_key_def retry_row_def)

interpretation dispatch_write: fenced_row_write owned claim_key "\<lambda>h. held h LEASED" "\<lambda>_. dispatch_row e"
  for e
  by unfold_locales (auto simp: held_pins held_def claim_key_def delivery_key_def dispatch_row_def)

interpretation deliver_write: fenced_row_write owned claim_key "\<lambda>h. held h DISPATCHED" "\<lambda>_. deliver_row e"
  for e
  by unfold_locales (auto simp: held_pins held_def claim_key_def delivery_key_def deliver_row_def)

section \<open>Row by row\<close>

text \<open>A row move is sound when it follows the lifecycle and keeps the row well formed.\<close>

definition row_move :: "delivery_row \<Rightarrow> delivery_row \<Rightarrow> bool" where
  "row_move r r' = (lifecycle_step r r' \<and> (delivery_ok r \<longrightarrow> delivery_ok r'))"

lemmas move_defs = row_move_def lifecycle_step_def same_identity_def dispatcher_edges_def phase_of_def
  delivery_ok_def held_def owned_def

lemma row_move_refl [simp]: "row_move r r"
  by (simp add: row_move_def)

lemma claim_move: "claim_fence d r \<Longrightarrow> owner \<noteq> '''' \<Longrightarrow> row_move r (lease_row now until owner r)"
  by (simp add: move_defs claim_fence_def lease_row_def)

lemma requeue_move: "lease_expired now r \<Longrightarrow> row_move r (requeue_row now r)"
  by (simp add: move_defs lease_expired_def requeue_row_def)

lemma finish_move: "held h LEASED r \<Longrightarrow> row_move r (finish_row e cfg dead code r)"
  by (auto simp: move_defs finish_row_def finish_policy_def)

lemma defer_move: "held h LEASED r \<Longrightarrow> row_move r (defer_row e next code r)"
  by (simp add: move_defs defer_row_def)

lemma park_move: "park_fence h r \<Longrightarrow> row_move r (park_row e r)"
  by (simp add: move_defs park_fence_def park_row_def)

lemma block_move:
  "held h expected r \<Longrightarrow> owned h \<Longrightarrow> expected \<in> {LEASED, DISPATCHED} \<Longrightarrow> row_move r (block_row e code r)"
  by (auto simp: move_defs block_row_def)

lemma unknown_move: "held h DISPATCHED r \<Longrightarrow> owned h \<Longrightarrow> row_move r (unknown_row e code r)"
  by (auto simp: move_defs unknown_row_def)

lemma not_submitted_move: "held h DISPATCHED r \<Longrightarrow> owned h \<Longrightarrow> row_move r (not_submitted_row e r)"
  by (auto simp: move_defs not_submitted_row_def)

lemma retry_move: "held h DISPATCHED r \<Longrightarrow> owned h \<Longrightarrow> row_move r (retry_row e code n r)"
  by (auto simp: move_defs retry_row_def)

lemma dispatch_move: "held h LEASED r \<Longrightarrow> owned h \<Longrightarrow> row_move r (dispatch_row e r)"
  by (auto simp: move_defs dispatch_row_def)

lemma deliver_move: "held h DISPATCHED r \<Longrightarrow> owned h \<Longrightarrow> row_move r (deliver_row e r)"
  by (auto simp: move_defs deliver_row_def)

lemma unreserve_move:
  "held h LEASED r \<Longrightarrow> row_move r (unreserve_row e (dispatch_row e r))"
  by (auto simp: move_defs dispatch_row_def unreserve_row_def)

section \<open>The dispatcher's transactions\<close>

text \<open>
  The transactions of one or several dispatchers, in any order, each with the claim it holds.
  A claim is owned by a non-empty token: \<open>RuntimeDispatcher\<close> draws one when it is built.
\<close>

inductive dispatcher_step :: "dispatcher_settings \<Rightarrow> text_lib \<Rightarrow> db \<Rightarrow> db \<Rightarrow> bool" for cfg tx where
  claim_step: "owner \<noteq> '''' \<Longrightarrow> claim_delivery e cfg owner s = Inr (s', c) \<Longrightarrow> dispatcher_step cfg tx s s'"
| finish_step: "owned h \<Longrightarrow> finish_delivery e cfg tx h error dead s = Inr (s', b) \<Longrightarrow> dispatcher_step cfg tx s s'"
| rate_limit_step: "owned h \<Longrightarrow> defer_provider_rate_limited_delivery e h next s = Inr (s', x) \<Longrightarrow> dispatcher_step cfg tx s s'"
| ticket_step: "owned h \<Longrightarrow> defer_pending_launch_ticket_delivery e h next s = Inr (s', x) \<Longrightarrow> dispatcher_step cfg tx s s'"
| park_step: "owned h \<Longrightarrow> park_cao_catalog_delivery e h s = Inr (s', b) \<Longrightarrow> dispatcher_step cfg tx s s'"
| block_step: "owned h \<Longrightarrow> expected \<in> {LEASED, DISPATCHED} \<Longrightarrow>
    block_owner_private_delivery e h expected code decision_id s = Inr (s', x) \<Longrightarrow> dispatcher_step cfg tx s s'"
| unknown_step: "owned h \<Longrightarrow> mark_delivery_unknown e tx h error s = Inr (s', x) \<Longrightarrow> dispatcher_step cfg tx s s'"
| not_submitted_step: "owned h \<Longrightarrow> mark_delivery_not_submitted e tx h error phase s = Inr (s', b) \<Longrightarrow> dispatcher_step cfg tx s s'"
| retry_cao_step: "owned h \<Longrightarrow> retry_unstarted_cao_delivery e tx h ticket_id error s = Inr (s', b) \<Longrightarrow> dispatcher_step cfg tx s s'"
| retry_desktop_step: "owned h \<Longrightarrow> retry_unstarted_desktop_cao_delivery e h runtime_id g s = Inr (s', b) \<Longrightarrow> dispatcher_step cfg tx s s'"
| reserve_step: "owned h \<Longrightarrow> reserve_dispatch e h runtime_id managed_cao s = Inr (s', b) \<Longrightarrow> dispatcher_step cfg tx s s'"
| settle_step: "owned h \<Longrightarrow> settle_dispatch e h runtime durable result summary correlation s = Inr (s', x) \<Longrightarrow> dispatcher_step cfg tx s s'"

definition row_path :: "delivery_row \<Rightarrow> delivery_row \<Rightarrow> bool" where
  "row_path = row_move\<^sup>*\<^sup>*"

definition rows_path :: "db \<Rightarrow> db \<Rightarrow> bool" where
  "rows_path s s' = list_all2 row_path (deliveries s) (deliveries s')"

lemma row_path_refl [simp]: "row_path r r"
  by (simp add: row_path_def)

lemma row_move_path: "row_move r r' \<Longrightarrow> row_path r r'"
  by (simp add: row_path_def r_into_rtranclp)

lemma rows_path_same: "deliveries s' = deliveries s \<Longrightarrow> rows_path s s'"
  by (simp add: rows_path_def list_all2_refl)

lemma rows_path_trans: "rows_path s s' \<Longrightarrow> rows_path s' s'' \<Longrightarrow> rows_path s s''"
  unfolding rows_path_def row_path_def
  by (rule list_all2_trans [of "row_move\<^sup>*\<^sup>*" "row_move\<^sup>*\<^sup>*"]) (auto intro: rtranclp_trans)

lemma rows_path_update:
  assumes "deliveries s' = update_rows p f (deliveries s)"
    and "\<And>r. r \<in> set (deliveries s) \<Longrightarrow> p r \<Longrightarrow> row_move r (f r)"
  shows "rows_path s s'"
  using assms by (simp add: rows_path_def update_rows_def list_all2_conv_all_nth row_move_path)

lemmas path_step = rows_path_trans rows_path_update rows_path_same

section \<open>Every transaction follows the lifecycle\<close>

lemma deliveries_log [simp]: "deliveries (log_event e x s) = deliveries s"
  by simp

lemma claim_path:
  assumes "owner \<noteq> ''''" and "claim_delivery e cfg owner s = Inr (s', c)"
  shows "rows_path s s'"
proof -
  let ?q = "requeue_expired_leases (env_now e) s"
  have q: "rows_path s ?q"
    by (rule rows_path_update [where p = "lease_expired (env_now e)" and f = "requeue_row (env_now e)"])
      (simp_all add: requeue_expired_leases_def requeue_move)
  have tx: "claim_delivery_tx e cfg owner s = (s', c)"
    using assms(2) by (auto simp: claim_delivery_def transaction_Inr_iff)
  show ?thesis
  proof (cases "next_claim ?q (env_now e)")
    case None
    with tx q show ?thesis by (simp add: claim_delivery_tx_def Let_def)
  next
    case (Some d)
    with tx have "deliveries s' = update_rows (claim_fence d)
        (lease_row (env_now e) (utc_after e (dispatcher_lease_seconds cfg)) owner) (deliveries ?q)"
      by (auto simp: claim_delivery_tx_def Let_def split: if_splits)
    then have "rows_path ?q s'" by (rule rows_path_update) (rule claim_move [OF _ assms(1)])
    with q show ?thesis by (rule rows_path_trans)
  qed
qed

lemma cas_path:
  "cas fence wr s = (s', b) \<Longrightarrow> (\<And>r. fence r \<Longrightarrow> row_move r (wr r)) \<Longrightarrow> rows_path s s'"
  by (rule rows_path_update [where p = fence and f = wr]) (auto simp: cas_def)

lemma finish_path: "finish_delivery_tx e cfg tx h error dead s = (s', b) \<Longrightarrow> rows_path s s'"
  by (auto simp: finish_delivery_tx_def Let_def split: option.splits if_splits prod.splits
      intro: rows_path_same cas_path finish_move elim!: rows_path_trans [OF cas_path])

lemma rows_path_log [simp]: "rows_path s (log_event e x s') = rows_path s s'"
  by (simp add: rows_path_def)

lemma rows_path_probe [simp]:
  "rows_path s (fst (mark_provider_runtime_probe_unknown_tx e i s')) = rows_path s s'"
  by (simp add: rows_path_def)

lemma rows_path_waiting [simp]: "rows_path s (set_runtime_waiting e i s') = rows_path s s'"
  by (simp add: rows_path_def set_runtime_waiting_def)

lemma cas_move:
  "(\<And>r. fence r \<Longrightarrow> row_move r (wr r)) \<Longrightarrow> rows_path s (fst (cas fence wr s))"
  by (rule cas_path [of fence wr s _ "snd (cas fence wr s)"]) auto

lemma defer_path: "rows_path s (defer_delivery_tx e h next code event s)"
  using cas_move [of "held h LEASED" "defer_row e next code" s]
  by (auto simp: defer_delivery_tx_def defer_move split: prod.split)

lemma park_path: "rows_path s (fst (park_cao_catalog_delivery_tx e h s))"
  using cas_move [of "park_fence h" "park_row e" s]
  by (auto simp: park_cao_catalog_delivery_tx_def Let_def park_move rows_path_same)

lemma block_path:
  "owned h \<Longrightarrow> expected \<in> {LEASED, DISPATCHED} \<Longrightarrow>
     rows_path s (block_owner_private_delivery_tx e h expected code decision_id s)"
  using cas_move [of "held h expected" "block_row e (owner_private_code code)" s]
  by (auto simp: block_owner_private_delivery_tx_def block_move split: prod.split)

lemma unknown_path: "owned h \<Longrightarrow> rows_path s (mark_delivery_unknown_tx e tx h error s)"
  using cas_move [of "held h DISPATCHED" "unknown_row e (runtime_failure_code tx error)" s]
  by (auto simp: mark_delivery_unknown_tx_def Let_def unknown_move split: prod.split)

lemma not_submitted_path: "owned h \<Longrightarrow> rows_path s (fst (mark_delivery_not_submitted_tx e tx h error phase s))"
  using cas_move [of "held h DISPATCHED" "not_submitted_row e" s]
  by (auto simp: mark_delivery_not_submitted_tx_def Let_def not_submitted_move split: prod.split)

lemma retry_cas_path: "owned h \<Longrightarrow> rows_path s (fst (cas (held h DISPATCHED) (retry_row e code n) s))"
  by (rule cas_move) (rule retry_move)

lemma retry_after_cas:
  assumes "owned h"
  shows "rows_path s (fst (case cas (held h DISPATCHED) (retry_row e code n) s of
      (s', updated) \<Rightarrow> if \<not> updated then (s', False) else (log_event e' ev s', True)))"
    and "rows_path s (fst (case cas (held h DISPATCHED) (retry_row e code n) s of
      (s', updated) \<Rightarrow> if \<not> updated then (s', False)
        else (log_event e' ev (set_runtime_waiting e'' runtime_id s'), True)))"
  using retry_cas_path [OF assms, of s e code n]
  by (cases "cas (held h DISPATCHED) (retry_row e code n) s"; simp)+

lemma retry_cao_path:
  assumes "owned h"
  shows "rows_path s (fst (retry_unstarted_cao_delivery_tx e tx h ticket_id error s))"
proof (cases "fetchone (held h DISPATCHED) (deliveries s)")
  case None
  then show ?thesis by (simp add: retry_unstarted_cao_delivery_tx_def Let_def rows_path_same)
next
  case (Some row)
  then show ?thesis
    using retry_after_cas(1) [OF assms]
    by (simp add: retry_unstarted_cao_delivery_tx_def Let_def rows_path_same)
qed

lemma retry_desktop_path:
  assumes "owned h"
  shows "rows_path s (fst (retry_unstarted_desktop_cao_delivery_tx e h runtime_id g s))"
proof (cases g)
  case None
  then show ?thesis by (simp add: retry_unstarted_desktop_cao_delivery_tx_def rows_path_same)
next
  case (Some g')
  show ?thesis
    using retry_after_cas(2) [OF assms]
    by (simp add: retry_unstarted_desktop_cao_delivery_tx_def Some Let_def rows_path_same split: option.split)
qed

lemma settle_path: "owned h \<Longrightarrow> rows_path s (settle_dispatch_tx e h runtime durable result summary correlation s)"
proof -
  assume h: "owned h"
  define s1 where "s1 = s\<lparr>runtimes := update_rows (\<lambda>r. r_id r = r_id runtime)
            (\<lambda>r. r\<lparr>r_native_session_id := (if dr_native_session_id result \<noteq> '''' then dr_native_session_id result
                                         else r_native_session_id r),
                   r_metadata := dispatch_metadata durable summary (d_message_id (snd h)),
                   r_updated_at := env_now e\<rparr>) (runtimes s)\<rparr>"
  have "rows_path s s1" by (simp add: s1_def rows_path_same)
  moreover have "rows_path s1 (fst (cas (held h DISPATCHED) (deliver_row e) s1))"
    using h by (intro cas_move deliver_move)
  ultimately have "rows_path s (fst (cas (held h DISPATCHED) (deliver_row e) s1))"
    by (rule rows_path_trans)
  then show ?thesis
    unfolding settle_dispatch_tx_def Let_def s1_def [symmetric]
    by (cases "cas (held h DISPATCHED) (deliver_row e) s1") (simp split: bool.split)
qed

text \<open>Reserving: the row is dispatched, or dispatched and put back under its lease.\<close>

lemma busy_runtime_deliveries [simp]: "deliveries (fst (busy_runtime e fence s)) = deliveries s"
  by (simp add: busy_runtime_def)

lemma busy_runtime_split: "busy_runtime e fence s = (s', b) \<Longrightarrow> deliveries s' = deliveries s"
  using busy_runtime_deliveries [of e fence s] by simp

lemma dispatched_then_back:
  "update_rows (held h DISPATCHED) (unreserve_row e) (update_rows (held h LEASED) (dispatch_row e) rows)
     = update_rows (\<lambda>r. held h LEASED r \<or> held h DISPATCHED r)
         (\<lambda>r. if held h LEASED r then unreserve_row e (dispatch_row e r) else unreserve_row e r) rows"
  by (induction rows) (auto simp: held_def dispatch_row_def)

text \<open>
  The claim is leased when the reservation begins; the primary key leaves no other row with its
  key that could be in the dispatched state.
\<close>

lemma reserve_on_runtime_path:
  assumes "owned h" and "distinct (map delivery_key (deliveries s))"
    and "cas (held h LEASED) (dispatch_row e) s = (s2, True)"
  shows "rows_path s (fst (reserve_on_runtime e h fence s2))"
proof (cases "snd (busy_runtime e fence s2)")
  case True
  then have "reserve_on_runtime e h fence s2 = (fst (busy_runtime e fence s2), True)"
    by (cases "busy_runtime e fence s2") (simp add: reserve_on_runtime_def)
  moreover have "rows_path s s2" by (rule cas_path [OF assms(3)]) (rule dispatch_move [OF _ assms(1)])
  ultimately show ?thesis by (simp add: rows_path_def)
next
  case False
  obtain r where r: "r \<in> set (deliveries s)" "held h LEASED r"
    using assms(3) rowcount_pos_iff [of "held h LEASED" "deliveries s"] by (auto simp: cas_def)
  have alone: "\<not> held h DISPATCHED x" if "x \<in> set (deliveries s)" for x
  proof
    assume x: "held h DISPATCHED x"
    with r have "delivery_key x = delivery_key r" by (simp add: held_pins)
    with that r(1) assms(2) have "x = r" by (simp add: key_unique)
    with x r(2) show False by (simp add: held_def)
  qed
  from False have "reserve_on_runtime e h fence s2 =
      (fst (cas (held h DISPATCHED) (unreserve_row e) (fst (busy_runtime e fence s2))), False)"
    by (cases "busy_runtime e fence s2") (simp add: reserve_on_runtime_def)
  moreover have "deliveries s2 = update_rows (held h LEASED) (dispatch_row e) (deliveries s)"
    using assms(3) by (auto simp: cas_def)
  ultimately have rows: "deliveries (fst (reserve_on_runtime e h fence s2)) =
      update_rows (\<lambda>r. held h LEASED r \<or> held h DISPATCHED r)
         (\<lambda>r. if held h LEASED r then unreserve_row e (dispatch_row e r) else unreserve_row e r) (deliveries s)"
    by (simp add: cas_def dispatched_then_back)
  show ?thesis
    by (rule rows_path_update [OF rows]) (auto simp: alone unreserve_move)
qed

lemma park_deliveries_keys:
  "map delivery_key (deliveries (fst (park_cao_catalog_delivery_tx e h s))) = map delivery_key (deliveries s)"
  by (simp add: park_cao_catalog_delivery_tx_def Let_def cas_def park_write.keys_kept)

lemma reserve_path:
  assumes "owned h" and "distinct (map delivery_key (deliveries s))"
  shows "rows_path s (fst (reserve_dispatch_tx e h runtime_id managed_cao s))"
proof -
  obtain s1 parked where s1: "park_cao_catalog_delivery_tx e h s = (s1, parked)" by fastforce
  have p1: "rows_path s s1" using park_path [of s e h] s1 by simp
  have keys: "distinct (map delivery_key (deliveries s1))"
    using assms(2) park_deliveries_keys [of e h s] s1 by simp
  obtain s2 started where s2: "cas (held h LEASED) (dispatch_row e) s1 = (s2, started)" by fastforce
  have p2: "rows_path s1 s2" by (rule cas_path [OF s2]) (rule dispatch_move [OF _ assms(1)])
  have p3: "rows_path s1 (fst (reserve_on_runtime e h fence s2))" if started for fence
    using reserve_on_runtime_path [OF assms(1) keys] s2 that by simp
  show ?thesis
    using p1 rows_path_trans [OF p1 p2] rows_path_trans [OF p1 p3] s1 s2
    by (auto simp: reserve_dispatch_tx_def Let_def split: bool.split option.split)
qed

section \<open>The refinement\<close>

definition delivery_keys_distinct :: "db \<Rightarrow> bool" where
  "delivery_keys_distinct s = distinct (map delivery_key (deliveries s))"

lemma dispatcher_step_path:
  assumes "dispatcher_step cfg tx s s'" and "delivery_keys_distinct s"
  shows "rows_path s s'"
  using assms
proof (cases rule: dispatcher_step.cases)
  case (claim_step owner e c)
  then show ?thesis by (rule claim_path)
next
  case (finish_step h e error dead b)
  then show ?thesis by (auto simp: finish_delivery_def transaction_Inr_iff intro: finish_path)
next
  case (rate_limit_step h e n x)
  then show ?thesis by (auto simp: defer_provider_rate_limited_delivery_def transaction_Inr_iff defer_path)
next
  case (ticket_step h e n x)
  then show ?thesis by (auto simp: defer_pending_launch_ticket_delivery_def transaction_Inr_iff defer_path)
next
  case (park_step h e b)
  then show ?thesis using park_path [of s e h] by (auto simp: park_cao_catalog_delivery_def transaction_Inr_iff)
next
  case (block_step h expected e code decision_id x)
  then show ?thesis by (auto simp: block_owner_private_delivery_def transaction_Inr_iff block_path)
next
  case (unknown_step h e error x)
  then show ?thesis by (auto simp: mark_delivery_unknown_def transaction_Inr_iff unknown_path)
next
  case (not_submitted_step h e error phase b)
  then show ?thesis using not_submitted_path [of h s e tx error phase]
    by (auto simp: mark_delivery_not_submitted_def transaction_Inr_iff)
next
  case (retry_cao_step h e ticket_id error b)
  then show ?thesis using retry_cao_path [of h s e tx ticket_id error]
    by (auto simp: retry_unstarted_cao_delivery_def transaction_Inr_iff)
next
  case (retry_desktop_step h e runtime_id g b)
  then show ?thesis using retry_desktop_path [of h s e runtime_id g]
    by (auto simp: retry_unstarted_desktop_cao_delivery_def transaction_Inr_iff)
next
  case (reserve_step h e runtime_id managed_cao b)
  then show ?thesis using reserve_path [of h s e runtime_id managed_cao] assms(2)
    by (auto simp: reserve_dispatch_def transaction_Inr_iff delivery_keys_distinct_def)
next
  case (settle_step h e runtime durable result summary correlation x)
  then show ?thesis by (auto simp: settle_dispatch_def transaction_Inr_iff settle_path)
qed

end
