(* ===== verification/Dispatch_Safety.thy ===== *)
theory Dispatch_Safety
  imports Dispatch_Lifecycle
begin

text \<open>
  What the dispatcher guarantees: every run refines the delivery lifecycle, an outcome is
  recorded at most once per claim, a live lease is not stolen, a claim takes the head of its
  lane, and a failed attempt is retried with bounded backoff until its budget is exhausted.
\<close>

section \<open>Runs\<close>

lemma row_path_same_identity: "row_path r r' \<Longrightarrow> same_identity r r'"
  unfolding row_path_def
  by (induction rule: rtranclp_induct) (auto simp: same_identity_def row_move_def lifecycle_step_def)

lemma row_path_lifecycle: "row_path r r' \<Longrightarrow> lifecycle_step\<^sup>*\<^sup>* r r'"
  unfolding row_path_def by (erule rtranclp_mono [THEN predicate2D, rotated]) (auto simp: row_move_def)

lemma row_path_ok: "row_path r r' \<Longrightarrow> delivery_ok r \<Longrightarrow> delivery_ok r'"
  unfolding row_path_def by (induction rule: rtranclp_induct) (auto simp: row_move_def)

lemma rows_path_keys: "rows_path s s' \<Longrightarrow> map delivery_key (deliveries s') = map delivery_key (deliveries s)"
  unfolding rows_path_def
  by (induction rule: list_all2_induct)
    (auto dest: row_path_same_identity simp: same_identity_def delivery_key_def)

lemma dispatcher_run_path:
  assumes "(dispatcher_step cfg tx)\<^sup>*\<^sup>* s s'" and "delivery_keys_distinct s"
  shows "rows_path s s' \<and> delivery_keys_distinct s'"
  using assms(1)
proof (induction rule: rtranclp_induct)
  case base
  with assms(2) show ?case by (simp add: rows_path_same)
next
  case (step t t')
  then have "rows_path t t'" using dispatcher_step_path by blast
  with step.IH show ?case
    using rows_path_trans rows_path_keys by (auto simp: delivery_keys_distinct_def)
qed

text \<open>The phases no edge of the dispatcher leaves.\<close>

definition settled_phase :: "phase \<Rightarrow> bool" where
  "settled_phase p = (p \<in> {Outcome_Unknown, Delivered, Acknowledged, Handled, Dead})"

lemma settled_stays: "lifecycle_step\<^sup>*\<^sup>* r r' \<Longrightarrow> settled_phase (phase_of r) \<Longrightarrow> r' = r"
proof (induction rule: rtranclp_induct)
  case base
  then show ?case by simp
next
  case (step y z)
  then have "y = r" by simp
  with step show ?case
    by (auto simp: lifecycle_step_def settled_phase_def dispatcher_edges_def)
qed

section \<open>One outcome per claim\<close>

inductive outcome_step :: "dispatcher_settings \<Rightarrow> text_lib \<Rightarrow> claim \<Rightarrow> db \<Rightarrow> db \<Rightarrow> bool" for cfg tx h where
  finish: "finish_delivery e cfg tx h error dead s = Inr (s', b) \<Longrightarrow> outcome_step cfg tx h s s'"
| rate_limit: "defer_provider_rate_limited_delivery e h next s = Inr (s', x) \<Longrightarrow> outcome_step cfg tx h s s'"
| ticket: "defer_pending_launch_ticket_delivery e h next s = Inr (s', x) \<Longrightarrow> outcome_step cfg tx h s s'"
| block: "block_owner_private_delivery e h expected code decision_id s = Inr (s', x) \<Longrightarrow> outcome_step cfg tx h s s'"
| unknown: "mark_delivery_unknown e tx h error s = Inr (s', x) \<Longrightarrow> outcome_step cfg tx h s s'"
| not_submitted: "mark_delivery_not_submitted e tx h error phase s = Inr (s', b) \<Longrightarrow> outcome_step cfg tx h s s'"
| retry_cao: "retry_unstarted_cao_delivery e tx h ticket_id error s = Inr (s', b) \<Longrightarrow> outcome_step cfg tx h s s'"
| retry_desktop: "retry_unstarted_desktop_cao_delivery e h runtime_id g s = Inr (s', b) \<Longrightarrow> outcome_step cfg tx h s s'"
| settle: "settle_dispatch e h runtime durable result summary correlation s = Inr (s', x) \<Longrightarrow> outcome_step cfg tx h s s'"

definition claim_spent :: "claim \<Rightarrow> db \<Rightarrow> bool" where
  "claim_spent h s = (\<forall>r\<in>set (deliveries s). \<forall>st. \<not> held h st r)"

lemma spent_cas: "claim_spent h s \<Longrightarrow> cas (held h st) wr s = (s, False)"
proof -
  assume "claim_spent h s"
  then have "rowcount (held h st) (deliveries s) = 0" by (simp add: claim_spent_def rowcount_0_iff)
  moreover from this have "update_rows (held h st) wr (deliveries s) = deliveries s"
    by (intro update_rows_idle) (simp add: rowcount_0_iff)
  ultimately show ?thesis by (simp add: cas_def)
qed

lemma spent_fetch: "claim_spent h s \<Longrightarrow> fetchone (held h st) (deliveries s) = None"
  by (simp add: fetchone_None_iff claim_spent_def)

lemma spent_finish: "claim_spent h s \<Longrightarrow> finish_delivery_tx e cfg tx h error dead s = (s, False)"
  by (auto simp: finish_delivery_tx_def Let_def claim_spent_def get_delivery_def held_def
      dest!: fetchone_SomeD split: option.split)

lemma spent_desktop: "claim_spent h s \<Longrightarrow> retry_unstarted_desktop_cao_delivery_tx e h runtime_id g s = (s, False)"
  by (auto simp: retry_unstarted_desktop_cao_delivery_tx_def claim_spent_def
      dest!: fetchone_SomeD split: option.split)

lemma spent_settle:
  assumes "claim_spent h s"
  shows "deliveries (settle_dispatch_tx e h runtime durable result summary correlation s) = deliveries s"
    and "events (settle_dispatch_tx e h runtime durable result summary correlation s) = events s"
proof -
  have spent: "claim_spent h (s\<lparr>runtimes := rs\<rparr>)" for rs using assms by (simp add: claim_spent_def)
  show "deliveries (settle_dispatch_tx e h runtime durable result summary correlation s) = deliveries s"
    and "events (settle_dispatch_tx e h runtime durable result summary correlation s) = events s"
    by (simp_all add: settle_dispatch_tx_def Let_def spent_cas [OF spent])
qed

lemma spent_inert:
  assumes "outcome_step cfg tx h s s'" and "claim_spent h s"
  shows "deliveries s' = deliveries s \<and> events s' = events s"
  using assms(1)
proof (cases rule: outcome_step.cases)
  case (retry_cao e ticket_id error b)
  with spent_fetch [OF assms(2)] show ?thesis
    by (auto simp: retry_unstarted_cao_delivery_def retry_unstarted_cao_delivery_tx_def transaction_Inr_iff)
qed (use assms(2) in \<open>auto simp: finish_delivery_def spent_finish transaction_Inr_iff spent_cas spent_settle
      spent_desktop defer_provider_rate_limited_delivery_def defer_pending_launch_ticket_delivery_def defer_delivery_tx_def
      block_owner_private_delivery_def block_owner_private_delivery_tx_def
      mark_delivery_unknown_def mark_delivery_unknown_tx_def mark_delivery_not_submitted_def
      mark_delivery_not_submitted_tx_def Let_def retry_unstarted_desktop_cao_delivery_def settle_dispatch_def\<close>)

text \<open>A write that clears the owner of the claim's row leaves nothing of the claim.\<close>

lemma write_spends:
  assumes "owned h" and "distinct (map delivery_key (deliveries s))"
    and "deliveries s' = update_rows (held h st) wr (deliveries s)" and "deliveries s' \<noteq> deliveries s"
    and "\<And>r. d_owner_token (wr r) = ''''"
  shows "claim_spent h s'"
  unfolding claim_spent_def
proof (intro ballI allI notI)
  fix r' st' assume r': "r' \<in> set (deliveries s')" "held h st' r'"
  from assms(3,4) obtain q where q: "q \<in> set (deliveries s)" "held h st q"
    by (metis update_rows_idle)
  from r'(1) assms(3) obtain r where r: "r \<in> set (deliveries s)"
    "r' = (if held h st r then wr r else r)" by (auto simp: set_update_rows)
  show False
  proof (cases "held h st r")
    case True
    with r(2) r'(2) assms(1,5) show False by (simp add: held_def owned_def)
  next
    case False
    with r r'(2) have "delivery_key r = delivery_key q" using q(2) by (simp add: held_pins)
    with assms(2) r(1) q(1) have "r = q" by (simp add: key_unique)
    with False q(2) show False by simp
  qed
qed

text \<open>Every outcome is a write of that kind, or changes no delivery.\<close>

definition clears_owner :: "(delivery_row \<Rightarrow> delivery_row) \<Rightarrow> bool" where
  "clears_owner wr = (\<forall>r. d_owner_token (wr r) = '''')"

lemma clears_owner_simps [simp]:
  "clears_owner (finish_row e cfg dead code)" "clears_owner (defer_row e next code)"
  "clears_owner (block_row e code)" "clears_owner (unknown_row e code)" "clears_owner (not_submitted_row e)"
  "clears_owner (retry_row e code n)" "clears_owner (deliver_row e)"
  by (simp_all add: clears_owner_def write_defs)

definition outcome_write :: "claim \<Rightarrow> db \<Rightarrow> db \<Rightarrow> bool" where
  "outcome_write h s s' = (deliveries s' = deliveries s \<or>
    (\<exists>st wr. deliveries s' = update_rows (held h st) wr (deliveries s) \<and> clears_owner wr))"

lemma outcome_write_refl [simp]: "outcome_write h s s"
  by (simp add: outcome_write_def)

lemma outcome_write_frame [simp]:
  "outcome_write h s (log_event e x s') = outcome_write h s s'"
  "outcome_write h s (fst (mark_provider_runtime_probe_unknown_tx e i s')) = outcome_write h s s'"
  "outcome_write h s (set_runtime_waiting e i s') = outcome_write h s s'"
  by (simp_all add: outcome_write_def set_runtime_waiting_def)

lemma cas_is_write:
  assumes "cas (held h st) wr s = (s', b)" and "clears_owner wr"
  shows "outcome_write h s s'"
  using assms unfolding cas_def outcome_write_def by (intro disjI2 exI [of _ st] exI [of _ wr]) auto

lemma held_same_claim:
  "d_generation row = d_generation (snd h) \<Longrightarrow> d_message_id row = d_message_id (snd h) \<Longrightarrow>
     d_recipient_id row = d_recipient_id (snd h) \<Longrightarrow> held (fst h, row) st = held h st"
  by (simp add: held_def fun_eq_iff)

lemma finish_is_write: "finish_delivery_tx e cfg tx h error dead s = (s', b) \<Longrightarrow> outcome_write h s s'"
  by (auto simp: finish_delivery_tx_def Let_def get_delivery_def held_same_claim
      dest!: fetchone_SomeD split: option.splits if_splits prod.splits)
    (metis cas_is_write clears_owner_simps(1))+

lemma defer_is_write: "outcome_write h s (defer_delivery_tx e h next code event s)"
  by (auto simp: defer_delivery_tx_def intro: cas_is_write split: prod.split)

lemma block_is_write: "outcome_write h s (block_owner_private_delivery_tx e h expected code decision_id s)"
  by (auto simp: block_owner_private_delivery_tx_def intro: cas_is_write split: prod.split)

lemma unknown_is_write: "outcome_write h s (mark_delivery_unknown_tx e tx h error s)"
  by (auto simp: mark_delivery_unknown_tx_def Let_def intro: cas_is_write split: prod.split)

lemma not_submitted_is_write: "outcome_write h s (fst (mark_delivery_not_submitted_tx e tx h error phase s))"
  by (auto simp: mark_delivery_not_submitted_tx_def Let_def intro: cas_is_write split: prod.split)

lemma retry_cas_write:
  "outcome_write h s (fst (cas (held h DISPATCHED) (retry_row e code n) s))"
  by (rule cas_is_write [of h DISPATCHED "retry_row e code n" s _ "snd (cas (held h DISPATCHED) (retry_row e code n) s)"])
    simp_all

lemma retry_cao_is_write: "outcome_write h s (fst (retry_unstarted_cao_delivery_tx e tx h ticket_id error s))"
  using retry_cas_write [of h s e "runtime_failure_code tx error"]
  by (simp add: retry_unstarted_cao_delivery_tx_def Let_def split: option.split prod.split) (metis fst_conv)

lemma retry_desktop_is_write: "outcome_write h s (fst (retry_unstarted_desktop_cao_delivery_tx e h runtime_id g s))"
proof (cases g)
  case (Some g')
  have "outcome_write h s (fst (case cas (held h DISPATCHED) (retry_row e code n) s of
      (s', updated) \<Rightarrow> if \<not> updated then (s', False)
        else (log_event e ev (set_runtime_waiting e runtime_id s'), True)))" for code n ev
    using retry_cas_write [of h s e code n] by (cases "cas (held h DISPATCHED) (retry_row e code n) s") simp
  then show ?thesis
    by (simp add: retry_unstarted_desktop_cao_delivery_tx_def Some Let_def split: option.split)
qed (simp add: retry_unstarted_desktop_cao_delivery_tx_def)

lemma settle_is_write: "outcome_write h s (settle_dispatch_tx e h runtime durable result summary correlation s)"
proof -
  define s1 where "s1 = s\<lparr>runtimes := update_rows (\<lambda>r. r_id r = r_id runtime)
            (\<lambda>r. r\<lparr>r_native_session_id := (if dr_native_session_id result \<noteq> '''' then dr_native_session_id result
                                         else r_native_session_id r),
                   r_metadata := dispatch_metadata durable summary (d_message_id (snd h)),
                   r_updated_at := env_now e\<rparr>) (runtimes s)\<rparr>"
  have "outcome_write h s1 s' = outcome_write h s s'" for s' by (simp add: outcome_write_def s1_def)
  then have "outcome_write h s (fst (cas (held h DISPATCHED) (deliver_row e) s1))"
    using cas_is_write [of h DISPATCHED "deliver_row e" s1] by (simp add: cas_def)
  then show ?thesis
    unfolding settle_dispatch_tx_def Let_def s1_def [symmetric]
    by (cases "cas (held h DISPATCHED) (deliver_row e) s1") (simp split: bool.split)
qed

lemmas outcome_writes = finish_is_write defer_is_write block_is_write unknown_is_write

lemma outcome_is_write: "outcome_step cfg tx h s s' \<Longrightarrow> outcome_write h s s'"
proof (induction rule: outcome_step.induct)
  case (not_submitted e error phase s s' b)
  then show ?case using not_submitted_is_write [of h s e tx error phase]
    by (auto simp: mark_delivery_not_submitted_def transaction_Inr_iff)
next
  case (retry_cao e ticket_id error s s' b)
  then show ?case using retry_cao_is_write [of h s e tx ticket_id error]
    by (auto simp: retry_unstarted_cao_delivery_def transaction_Inr_iff)
next
  case (retry_desktop e runtime_id g s s' b)
  then show ?case using retry_desktop_is_write [of h s e runtime_id g]
    by (auto simp: retry_unstarted_desktop_cao_delivery_def transaction_Inr_iff)
qed (auto simp: finish_delivery_def defer_provider_rate_limited_delivery_def defer_pending_launch_ticket_delivery_def
    block_owner_private_delivery_def mark_delivery_unknown_def settle_dispatch_def transaction_Inr_iff
    settle_is_write intro: outcome_writes)

lemma outcome_spends:
  assumes "owned h" "delivery_keys_distinct s" "outcome_step cfg tx h s s'" "deliveries s' \<noteq> deliveries s"
  shows "claim_spent h s'"
proof -
  from outcome_is_write [OF assms(3)] assms(4) obtain st wr
    where "deliveries s' = update_rows (held h st) wr (deliveries s)" "\<And>r. d_owner_token (wr r) = ''''"
    by (auto simp: outcome_write_def clears_owner_def)
  with assms show ?thesis by (intro write_spends) (auto simp: delivery_keys_distinct_def)
qed

section \<open>A small database\<close>

definition sample_env :: env where
  "sample_env = fixed_env 100"

definition sample_cfg :: dispatcher_settings where
  "sample_cfg = \<lparr>dispatcher_lease_seconds = 60, max_dispatch_attempts = 5\<rparr>"

definition sample_message :: message_row where
  "sample_message = \<lparr>m_sequence = 1, m_id = ''m'', m_work_item_id = None, m_attempt_id = None, m_sender_id = ''c'',
     m_kind = INSTRUCTION, m_payload = JObj [], m_payload_digest = '''', m_message_digest = '''',
     m_correlation_id = '''', m_causation_id = '''', m_idempotency_key = '''', m_goal_version = None,
     m_goal_packet_digest = '''', m_task_packet_digest = ''''\<rparr>"

definition sample_delivery :: "delivery_state \<Rightarrow> timestamp option \<Rightarrow> string \<Rightarrow> delivery_row" where
  "sample_delivery st lease owner = \<lparr>d_message_id = ''m'', d_recipient_id = ''w'', d_recipient_attachment_id = None,
     d_state = st, d_generation = 1, d_attempts = 0, d_next_attempt_at = 50, d_runtime_session_id = None,
     d_lease_until = lease, d_owner_token = owner, d_delivered_at = None, d_acknowledged_at = None,
     d_handled_at = None, d_last_error = '''', d_reactivation_policy = TERMINAL, d_updated_at = 50\<rparr>"

definition sample_db :: "delivery_row \<Rightarrow> db" where
  "sample_db d = empty_db\<lparr>principals := [\<lparr>p_id = ''w'', p_role = WORKER, p_enabled = True, p_operator_scope = ''production''\<rparr>],
     messages := [sample_message], deliveries := [d]\<rparr>"

lemmas sample_defs = sample_env_def fixed_env_def sample_cfg_def sample_message_def sample_delivery_def sample_db_def empty_db_def

lemma sample_claim:
  "\<exists>s'. claim_delivery sample_env sample_cfg ''disp'' (sample_db (sample_delivery QUEUED None ''''))
     = Inr (s', Some ((sample_delivery LEASED (Some 160) ''disp'')\<lparr>d_updated_at := 100\<rparr>))"
  by (simp add: claim_delivery_def claim_delivery_tx_def sample_defs Let_def requeue_expired_leases_def lease_expired_def
      next_claim_def claimable_def get_message_def wake_route_ok_def source_settled_def assignment_ok_def epoch_active_def
      spec_active_def runtime_free_def lane_admits_def runtime_delivery_lane_head_def work_paused_def lane_prior_def
      transaction_def claim_fence_def lease_row_def utc_after_def get_delivery_def)

section \<open>The guarantees\<close>

lemmas sample_claim_simps = claim_delivery_def claim_delivery_tx_def sample_defs Let_def requeue_expired_leases_def
  lease_expired_def next_claim_def claimable_def get_message_def wake_route_ok_def source_settled_def
  assignment_ok_def epoch_active_def spec_active_def runtime_free_def lane_admits_def
  runtime_delivery_lane_head_def work_paused_def lane_prior_def transaction_def claim_fence_def lease_row_def
  utc_after_def get_delivery_def







text \<open>C7: A live lease is exclusive. Another dispatcher's claim leaves a leased delivery alone until
  its lease has run out: neither the reclaiming of expired leases nor the new lease touches it.\<close>

theorem live_lease_not_stolen:
  assumes "claim_delivery e cfg owner s = Inr (s', c)"
    and "r \<in> set (deliveries s)" and "d_state r = LEASED"
    and "d_lease_until r = Some t" and "env_now e \<le> t"
  shows "r \<in> set (deliveries s')"
proof -
  let ?q = "requeue_expired_leases (env_now e) s"
  have "\<not> lease_expired (env_now e) r" using assms(4,5) by (simp add: lease_expired_def)
  with assms(2) have q: "r \<in> set (deliveries ?q)"
    by (force simp: requeue_expired_leases_def set_update_rows)
  have tx: "claim_delivery_tx e cfg owner s = (s', c)"
    using assms(1) by (auto simp: claim_delivery_def transaction_Inr_iff)
  show ?thesis
  proof (cases "next_claim ?q (env_now e)")
    case None
    with tx q show ?thesis by (simp add: claim_delivery_tx_def Let_def)
  next
    case (Some d)
    with tx have rows: "deliveries s' = update_rows (claim_fence d)
        (lease_row (env_now e) (utc_after e (dispatcher_lease_seconds cfg)) owner) (deliveries ?q)"
      by (auto simp: claim_delivery_tx_def Let_def split: if_splits)
    have "\<not> claim_fence d r" using assms(3) by (simp add: claim_fence_def)
    with q rows show ?thesis by (force simp: set_update_rows)
  qed
qed

lemma live_lease_not_stolen_witness:
  "sample_delivery LEASED (Some 160) ''disp'' \<in> set (deliveries
     (fst (claim_delivery_tx sample_env sample_cfg ''other'' (sample_db (sample_delivery LEASED (Some 160) ''disp'')))))"
  by (rule live_lease_not_stolen [of sample_env sample_cfg "''other''" "sample_db (sample_delivery LEASED (Some 160) ''disp'')"
        _ "snd (claim_delivery_tx sample_env sample_cfg ''other'' (sample_db (sample_delivery LEASED (Some 160) ''disp'')))" _ 160])
    (simp_all add: claim_delivery_def transaction_def sample_db_def empty_db_def sample_delivery_def sample_env_def fixed_env_def)



text \<open>C8: Retry is bounded. Finishing a leased attempt spends exactly one attempt and clears the lease.
  While the budget lasts the delivery is requeued for its next generation after a delay of 1 to 256
  seconds; when the budget is spent it is dead and may be reactivated; a terminal failure is
  dead and may not.\<close>

theorem finish_retry_or_dead:
  assumes "delivery_keys_distinct s" and "r \<in> set (deliveries s)" and "held h LEASED r"
    and "finish_delivery e cfg tx h error dead s = Inr (s', b)"
  shows "\<exists>r'\<in>set (deliveries s'). delivery_key r' = delivery_key r
      \<and> d_attempts r' = d_attempts r + 1 \<and> d_owner_token r' = '''' \<and> d_lease_until r' = None
      \<and> d_last_error r' \<in> set DURABLE_FAILURE_CODES
      \<and> b = (dead \<or> max_dispatch_attempts cfg \<le> d_attempts r + 1)
      \<and> (if b then d_state r' = DEAD \<and> d_generation r' = d_generation r
              \<and> d_reactivation_policy r' = (if dead then TERMINAL else RETRYABLE)
         else d_state r' = QUEUED \<and> d_generation r' = d_generation r + 1
              \<and> env_now e + 1 \<le> d_next_attempt_at r' \<and> d_next_attempt_at r' \<le> env_now e + 256)"
proof -
  let ?wr = "finish_row e cfg dead (runtime_failure_code tx error)"
  have key: "delivery_key r = (d_message_id (snd h), d_recipient_id (snd h))"
    using held_pins [OF assms(3)] by (simp add: claim_key_def delivery_key_def)
  have fetched: "get_delivery s (d_message_id (snd h)) (d_recipient_id (snd h)) = Some r"
    unfolding get_delivery_fetch using assms(1,2) key
    by (intro fetchone_unique [where k = delivery_key]) (auto simp: delivery_keys_distinct_def)
  have same: "held (fst h, r) LEASED = held h LEASED"
    using assms(3) by (intro held_same_claim) (simp_all add: held_def)
  have "rowcount (held h LEASED) (deliveries s) = 1"
    using finish_write.at_most_one [of "deliveries s" h] assms(1-3)
      rowcount_pos_iff [of "held h LEASED" "deliveries s"]
    by (fastforce simp: delivery_keys_distinct_def)
  then have tx: "deliveries s' = update_rows (held h LEASED) ?wr (deliveries s) \<and> b = finish_is_dead cfg dead r"
    using assms(3,4) fetched
    by (auto simp: finish_delivery_def transaction_Inr_iff finish_delivery_tx_def Let_def same held_def [of h LEASED r] cas_def)
  then have "?wr r \<in> set (deliveries s')" using assms(2,3) by (auto simp: set_update_rows)
  moreover have "(2::int) ^ nat (min (d_attempts r + 1) 8) \<le> 2 ^ 8"
    by (rule power_increasing) (auto simp: nat_le_iff)
  ultimately show ?thesis
    using tx by (intro bexI [of _ "?wr r"])
      (auto simp: finish_row_def finish_is_dead_def finish_policy_def delivery_key_def utc_after_def dispatch_delay_def)
qed

lemma finish_retry_or_dead_witness:
  "let d = sample_delivery LEASED (Some 160) ''disp'';
       s' = fst (finish_delivery_tx sample_env sample_cfg sample_text_lib (''disp'', d) (u ''x'') False (sample_db d))
   in \<exists>r'\<in>set (deliveries s'). d_attempts r' = 1 \<and> d_owner_token r' = ''''"
proof -
  let ?d = "sample_delivery LEASED (Some 160) ''disp''"
  let ?r = "finish_delivery_tx sample_env sample_cfg sample_text_lib (''disp'', ?d) (u ''x'') False (sample_db ?d)"
  have "finish_delivery sample_env sample_cfg sample_text_lib (''disp'', ?d) (u ''x'') False (sample_db ?d)
      = Inr (fst ?r, snd ?r)"
    by (simp add: finish_delivery_def transaction_def sample_db_def empty_db_def)
  from finish_retry_or_dead [OF _ _ _ this, of ?d] show ?thesis
    by (fastforce simp: Let_def delivery_keys_distinct_def sample_db_def held_def sample_delivery_def)
qed

end
