(* ===== verification/Close_Contract.thy ===== *)
theory Close_Contract
  imports Canonical Errors
begin

text \<open>
  The explicit close contract of \<open>close_contract.py\<close>: the plan a supervisor submits, the
  canonical state observed in the same transaction, and the gate computed from both.

  \<open>evaluate_close\<close> follows the source's accumulation of error texts step by step; the
  predicate \<open>close_permitted\<close> states the contract it promises. The dynamic type tests of the
  source (\<open>isinstance\<close>) hold here by typing.
\<close>

datatype cleanup_target_kind = RUNTIME | SUPERVISION_REGISTRATION | WORKSPACE | TEMPORARY | LOG | BRANCH
datatype cleanup_action = STOP | DETACH | ARCHIVE | TRASH | DELETE
datatype cleanup_outcome = SUCCEEDED | NOT_APPLIED | UNKNOWN

fun target_kind_value :: "cleanup_target_kind \<Rightarrow> string" where
  "target_kind_value RUNTIME = ''runtime''"
| "target_kind_value SUPERVISION_REGISTRATION = ''supervision-registration''"
| "target_kind_value WORKSPACE = ''workspace''"
| "target_kind_value TEMPORARY = ''temporary''"
| "target_kind_value LOG = ''log''"
| "target_kind_value BRANCH = ''branch''"

fun action_value :: "cleanup_action \<Rightarrow> string" where
  "action_value STOP = ''stop''"
| "action_value DETACH = ''detach''"
| "action_value ARCHIVE = ''archive''"
| "action_value TRASH = ''trash''"
| "action_value DELETE = ''delete''"

fun outcome_value :: "cleanup_outcome \<Rightarrow> string" where
  "outcome_value SUCCEEDED = ''succeeded''"
| "outcome_value NOT_APPLIED = ''not-applied''"
| "outcome_value UNKNOWN = ''unknown''"

definition destructive :: "cleanup_action \<Rightarrow> bool" where
  "destructive a \<longleftrightarrow> a = TRASH \<or> a = DELETE"

record artifact_preservation =
  ap_artifact_id :: string
  ap_digest :: string
  ap_evidence_id :: string

record cleanup_record =
  cr_target_kind :: cleanup_target_kind
  cr_target_fingerprint :: string
  cr_action :: cleanup_action
  cr_outcome :: cleanup_outcome
  cr_evidence_id :: string
  cr_effect_operation_id :: string
  cr_destructive_authority_evidence_id :: string

record close_plan =
  cp_work_item_id :: string
  cp_attempt_id :: string
  cp_review_id :: string
  cp_requester_decision_id :: string
  cp_expected_goal_version :: int
  cp_expected_goal_packet_digest :: string
  cp_expected_task_packet_digest :: string
  cp_expected_generation :: int
  cp_retention_policy_evidence_id :: string
  cp_artifact_manifest_evidence_id :: string
  cp_cleanup_inventory_evidence_id :: string
  cp_artifacts :: "artifact_preservation list"
  cp_cleanup :: "cleanup_record list"
  cp_close_preparation_id :: string

record close_readiness =
  rd_work_state :: string
  rd_attempt_state :: string
  rd_review_verdict :: string
  rd_requester_decision_verdict :: string
  rd_goal_version :: int
  rd_goal_packet_digest :: string
  rd_task_packet_digest :: string
  rd_generation :: int
  rd_artifact_ids :: "string list"
  rd_open_delivery_count :: int
  rd_active_runtime_count :: int
  rd_unresolved_effect_count :: int

record close_gate =
  cg_ready :: bool
  cg_plan_digest :: string
  cg_errors :: "string list"

section \<open>Reference shapes\<close>

definition lower_or_digit :: "char \<Rightarrow> bool" where
  "lower_or_digit c \<longleftrightarrow> (CHR ''a'' \<le> c \<and> c \<le> CHR ''z'') \<or> (CHR ''0'' \<le> c \<and> c \<le> CHR ''9'')"

text \<open>\<open>^[a-z0-9][a-z0-9._:-]{0,127}$\<close>, matched against the whole text.\<close>

definition valid_identifier :: "string \<Rightarrow> bool" where
  "valid_identifier s \<longleftrightarrow>
     (case s of [] \<Rightarrow> False
      | c # cs \<Rightarrow> lower_or_digit c \<and> length cs \<le> 127
          \<and> list_all (\<lambda>d. lower_or_digit d \<or> d \<in> set ''._:-'') cs)"

text \<open>\<open>^[0-9a-f]{64}$\<close>.\<close>

definition valid_digest :: "string \<Rightarrow> bool" where
  "valid_digest s \<longleftrightarrow> length s = 64 \<and>
     list_all (\<lambda>c. (CHR ''0'' \<le> c \<and> c \<le> CHR ''9'') \<or> (CHR ''a'' \<le> c \<and> c \<le> CHR ''f'')) s"

section \<open>The sealed plan\<close>

definition artifact_json :: "artifact_preservation \<Rightarrow> json" where
  "artifact_json a = jobj [(''artifact_id'', jstr (ap_artifact_id a)), (''digest'', jstr (ap_digest a)),
     (''evidence_id'', jstr (ap_evidence_id a))]"

definition cleanup_json :: "cleanup_record \<Rightarrow> json" where
  "cleanup_json c = jobj [(''target_kind'', jstr (target_kind_value (cr_target_kind c))),
     (''target_fingerprint'', jstr (cr_target_fingerprint c)),
     (''action'', jstr (action_value (cr_action c))), (''outcome'', jstr (outcome_value (cr_outcome c))),
     (''evidence_id'', jstr (cr_evidence_id c)), (''effect_operation_id'', jstr (cr_effect_operation_id c)),
     (''destructive_authority_evidence_id'', jstr (cr_destructive_authority_evidence_id c))]"

definition plan_json :: "close_plan \<Rightarrow> json" where
  "plan_json p = jobj
     [(''work_item_id'', jstr (cp_work_item_id p)), (''attempt_id'', jstr (cp_attempt_id p)),
      (''review_id'', jstr (cp_review_id p)), (''requester_decision_id'', jstr (cp_requester_decision_id p)),
      (''expected_goal_version'', JInt (cp_expected_goal_version p)),
      (''expected_goal_packet_digest'', jstr (cp_expected_goal_packet_digest p)),
      (''expected_task_packet_digest'', jstr (cp_expected_task_packet_digest p)),
      (''expected_generation'', JInt (cp_expected_generation p)),
      (''retention_policy_evidence_id'', jstr (cp_retention_policy_evidence_id p)),
      (''artifact_manifest_evidence_id'', jstr (cp_artifact_manifest_evidence_id p)),
      (''cleanup_inventory_evidence_id'', jstr (cp_cleanup_inventory_evidence_id p)),
      (''artifacts'', JArr (map artifact_json (cp_artifacts p))),
      (''cleanup'', JArr (map cleanup_json (cp_cleanup p))),
      (''close_preparation_id'', jstr (cp_close_preparation_id p))]"

definition plan_digest :: "(pystr \<Rightarrow> string) \<Rightarrow> close_plan \<Rightarrow> string" where
  "plan_digest sha p = canonical_sha256 sha (plan_json p)"

section \<open>Evaluation\<close>

definition err_if :: "bool \<Rightarrow> string \<Rightarrow> string list" where
  "err_if b e = (if b then [e] else [])"

definition reference_fields :: "close_plan \<Rightarrow> (string \<times> string) list" where
  "reference_fields p =
    [(''work item'', cp_work_item_id p), (''attempt'', cp_attempt_id p), (''review'', cp_review_id p),
     (''requester decision'', cp_requester_decision_id p),
     (''retention policy evidence'', cp_retention_policy_evidence_id p),
     (''artifact manifest evidence'', cp_artifact_manifest_evidence_id p),
     (''cleanup inventory evidence'', cp_cleanup_inventory_evidence_id p)]"

definition reference_errors :: "close_plan \<Rightarrow> string list" where
  "reference_errors p =
     concat (map (\<lambda>(label, v). err_if (\<not> valid_identifier v) (label @ '' must be a non-sensitive reference identifier''))
        (reference_fields p))
     @ err_if (cp_expected_goal_version p < 1 \<or> cp_expected_generation p < 1)
         ''goal version and generation must be positive''
     @ concat (map (\<lambda>(label, v). err_if (\<not> valid_digest v) (label @ '' digest must be canonical sha256''))
        [(''goal packet'', cp_expected_goal_packet_digest p), (''task packet'', cp_expected_task_packet_digest p)])"

text \<open>The loop over the artifacts, with the ids seen so far.\<close>

fun artifact_errors :: "string list \<Rightarrow> artifact_preservation list \<Rightarrow> string list" where
  "artifact_errors seen [] = []"
| "artifact_errors seen (a # as) =
     (if \<not> valid_identifier (ap_artifact_id a) then [''artifact id must be a non-sensitive reference identifier'']
      else if ap_artifact_id a \<in> set seen then [''artifact preservation records must be unique''] else [])
     @ err_if (\<not> valid_digest (ap_digest a)) ''artifact digest must be canonical sha256''
     @ err_if (\<not> valid_identifier (ap_evidence_id a)) ''artifact evidence must be a non-sensitive reference identifier''
     @ artifact_errors (ap_artifact_id a # seen) as"

text \<open>The loop over the cleanup records, with the targets seen so far.\<close>

fun cleanup_errors :: "(cleanup_target_kind \<times> string) list \<Rightarrow> cleanup_record list \<Rightarrow> string list" where
  "cleanup_errors seen [] = []"
| "cleanup_errors seen (c # cs) =
     (let target = (cr_target_kind c, cr_target_fingerprint c) in
     err_if (\<not> valid_digest (cr_target_fingerprint c)) ''cleanup target must be an opaque canonical fingerprint''
     @ err_if (target \<in> set seen) ''cleanup targets must be unique''
     @ err_if (cr_outcome c = UNKNOWN) ''cleanup with an unknown outcome blocks close''
     @ err_if (\<not> valid_identifier (cr_evidence_id c)) ''cleanup evidence must be a non-sensitive reference identifier''
     @ (if destructive (cr_action c) then
          err_if (\<not> valid_identifier (cr_effect_operation_id c))
            ''destructive cleanup requires a resolved effect operation''
          @ err_if (\<not> valid_identifier (cr_destructive_authority_evidence_id c))
            ''destructive cleanup requires authority evidence''
        else err_if (cr_destructive_authority_evidence_id c \<noteq> '''')
            ''non-destructive cleanup cannot carry destructive authority evidence'')
     @ cleanup_errors (target # seen) cs)"

definition readiness_errors :: "close_plan \<Rightarrow> close_readiness \<Rightarrow> string list" where
  "readiness_errors p r =
     err_if (rd_work_state r \<noteq> ''completed'') ''work must be completed before close''
     @ err_if (rd_attempt_state r \<noteq> ''completed'') ''attempt must be completed before close''
     @ err_if (rd_review_verdict r \<noteq> ''ok'') ''CAO review must be ok before close''
     @ err_if (rd_requester_decision_verdict r \<noteq> ''accepted'') ''requester decision must be accepted before close''
     @ err_if (rd_goal_version r \<noteq> cp_expected_goal_version p) ''close plan targets a stale goal version''
     @ err_if (rd_goal_packet_digest r \<noteq> cp_expected_goal_packet_digest p) ''close plan targets a stale goal packet''
     @ err_if (rd_task_packet_digest r \<noteq> cp_expected_task_packet_digest p) ''close plan targets a stale task packet''
     @ err_if (rd_generation r \<noteq> cp_expected_generation p) ''close plan targets a stale work generation''
     @ err_if (set (rd_artifact_ids r) \<noteq> set (map ap_artifact_id (cp_artifacts p)))
         ''artifact manifest does not cover the scope-selected canonical artifact set''
     @ err_if (rd_open_delivery_count r \<noteq> 0) ''open deliveries block close''
     @ err_if (rd_active_runtime_count r \<noteq> 0) ''active runtimes block close''
     @ err_if (rd_unresolved_effect_count r \<noteq> 0) ''unresolved effects block close''"

definition evaluate_close :: "(pystr \<Rightarrow> string) \<Rightarrow> close_plan \<Rightarrow> close_readiness \<Rightarrow> close_gate" where
  "evaluate_close sha p r =
     (let unique_errors = dict_fromkeys (reference_errors p @ artifact_errors [] (cp_artifacts p)
            @ cleanup_errors [] (cp_cleanup p) @ readiness_errors p r)
      in \<lparr>cg_ready = (unique_errors = []), cg_plan_digest = plan_digest sha p, cg_errors = unique_errors\<rparr>)"

fun join_with :: "string \<Rightarrow> string list \<Rightarrow> string" where
  "join_with sep [] = ''''"
| "join_with sep [x] = x"
| "join_with sep (x # y # zs) = x @ sep @ join_with sep (y # zs)"

definition require_ready :: "close_gate \<Rightarrow> unit cp" where
  "require_ready g = (if cg_ready g then Inr () else Inl (PyError ''CloseContractError'' (join_with ''; '' (cg_errors g))))"

definition require_close_ready :: "(pystr \<Rightarrow> string) \<Rightarrow> close_plan \<Rightarrow> close_readiness \<Rightarrow> string cp" where
  "require_close_ready sha p r =
     (let gate = evaluate_close sha p r in bindE (require_ready gate) (\<lambda>_. Inr (cg_plan_digest gate)))"

section \<open>The contract\<close>

definition artifact_record_ok :: "artifact_preservation \<Rightarrow> bool" where
  "artifact_record_ok a \<longleftrightarrow> valid_identifier (ap_artifact_id a) \<and> valid_digest (ap_digest a) \<and> valid_identifier (ap_evidence_id a)"

definition cleanup_record_ok :: "cleanup_record \<Rightarrow> bool" where
  "cleanup_record_ok c \<longleftrightarrow> valid_digest (cr_target_fingerprint c) \<and> cr_outcome c \<noteq> UNKNOWN \<and>
     valid_identifier (cr_evidence_id c) \<and>
     (if destructive (cr_action c)
      then valid_identifier (cr_effect_operation_id c) \<and> valid_identifier (cr_destructive_authority_evidence_id c)
      else cr_destructive_authority_evidence_id c = '''')"

definition plan_well_formed :: "close_plan \<Rightarrow> bool" where
  "plan_well_formed p \<longleftrightarrow> list_all (\<lambda>(l, v). valid_identifier v) (reference_fields p) \<and>
     1 \<le> cp_expected_goal_version p \<and> 1 \<le> cp_expected_generation p \<and>
     valid_digest (cp_expected_goal_packet_digest p) \<and> valid_digest (cp_expected_task_packet_digest p) \<and>
     list_all artifact_record_ok (cp_artifacts p) \<and> distinct (map ap_artifact_id (cp_artifacts p)) \<and>
     list_all cleanup_record_ok (cp_cleanup p) \<and>
     distinct (map (\<lambda>c. (cr_target_kind c, cr_target_fingerprint c)) (cp_cleanup p))"

definition close_permitted :: "close_plan \<Rightarrow> close_readiness \<Rightarrow> bool" where
  "close_permitted p r \<longleftrightarrow> plan_well_formed p \<and>
     rd_work_state r = ''completed'' \<and> rd_attempt_state r = ''completed'' \<and> rd_review_verdict r = ''ok'' \<and>
     rd_requester_decision_verdict r = ''accepted'' \<and>
     rd_goal_version r = cp_expected_goal_version p \<and>
     rd_goal_packet_digest r = cp_expected_goal_packet_digest p \<and>
     rd_task_packet_digest r = cp_expected_task_packet_digest p \<and>
     rd_generation r = cp_expected_generation p \<and>
     set (rd_artifact_ids r) = ap_artifact_id ` set (cp_artifacts p) \<and>
     rd_open_delivery_count r = 0 \<and> rd_active_runtime_count r = 0 \<and> rd_unresolved_effect_count r = 0"

lemma err_if_Nil [simp]: "err_if b e = [] \<longleftrightarrow> \<not> b" "[] = err_if b e \<longleftrightarrow> \<not> b"
  by (auto simp: err_if_def)

lemma artifact_errors_Nil:
  "artifact_errors seen as = [] \<longleftrightarrow> list_all artifact_record_ok as \<and> distinct (map ap_artifact_id as)
     \<and> set (map ap_artifact_id as) \<inter> set seen = {}"
  by (induction seen as rule: artifact_errors.induct) (auto simp: artifact_record_ok_def)

lemma cleanup_errors_Nil:
  "cleanup_errors seen cs = [] \<longleftrightarrow> list_all cleanup_record_ok cs
     \<and> distinct (map (\<lambda>c. (cr_target_kind c, cr_target_fingerprint c)) cs)
     \<and> set (map (\<lambda>c. (cr_target_kind c, cr_target_fingerprint c)) cs) \<inter> set seen = {}"
  by (induction seen cs rule: cleanup_errors.induct) (auto simp: cleanup_record_ok_def Let_def)

lemma reference_errors_Nil:
  "reference_errors p = [] \<longleftrightarrow> list_all (\<lambda>(l, v). valid_identifier v) (reference_fields p) \<and>
     1 \<le> cp_expected_goal_version p \<and> 1 \<le> cp_expected_generation p \<and>
     valid_digest (cp_expected_goal_packet_digest p) \<and> valid_digest (cp_expected_task_packet_digest p)"
  by (simp add: reference_errors_def reference_fields_def) linarith

lemma close_errors_Nil:
  "reference_errors p @ artifact_errors [] (cp_artifacts p) @ cleanup_errors [] (cp_cleanup p) @ readiness_errors p r = []
     \<longleftrightarrow> close_permitted p r"
  by (auto simp: artifact_errors_Nil cleanup_errors_Nil reference_errors_Nil readiness_errors_def
      close_permitted_def plan_well_formed_def)

lemma evaluate_close_ready: "cg_ready (evaluate_close sha p r) \<longleftrightarrow> close_permitted p r"
  using close_errors_Nil [of p r] by (simp add: evaluate_close_def Let_def)

text \<open>C13: The gate reports ready exactly when the close contract holds: every reference is an
  opaque identifier, digests are canonical, artifact records and cleanup targets are unique,
  no cleanup outcome is unknown, destructive cleanup carries an operation and its authority
  and nothing else does, and the observed state is completed, reviewed, accepted, at exactly
  the planned goal, packets and generation, with exactly the planned artifacts and no open
  delivery, runtime or effect. Otherwise it names at least one reason, each once.
\<close>

theorem close_gate_exact:
  "(cg_ready (evaluate_close sha p r) \<longleftrightarrow> close_permitted p r)
   \<and> (cg_errors (evaluate_close sha p r) = [] \<longleftrightarrow> close_permitted p r)
   \<and> distinct (cg_errors (evaluate_close sha p r))"
  using close_errors_Nil [of p r] by (simp add: evaluate_close_def Let_def)

text \<open>C14: \<open>require_close_ready\<close> never fails open: it returns the sealed digest of the plan if and
  only if the contract holds, and otherwise raises the error that lists the reasons.
\<close>

theorem require_close_ready_exact:
  "require_close_ready sha p r =
     (if close_permitted p r then Inr (plan_digest sha p)
      else Inl (PyError ''CloseContractError'' (join_with ''; '' (cg_errors (evaluate_close sha p r)))))"
  by (simp add: require_close_ready_def Let_def require_ready_def evaluate_close_ready)
    (simp add: evaluate_close_def Let_def)

end
