(* ===== verification/Goal_Packets.thy ===== *)
theory Goal_Packets
  imports Canonical Errors "HOL-Library.Sublist"
begin

text \<open>
  The immutable goal and task packets of \<open>goal_packets.py\<close>. The keyword arguments of each
  builder are a record; a packet is the JSON mapping the builder returns, with the keys in
  the order it inserts them. Fields added after the v1 format are left out when they hold
  their neutral value, so that packets persisted before keep their digest.

  The lemmas show that a packet determines every argument it was built from, up to the order
  of keys inside the opaque mappings.
\<close>

type_synonym mapping_doc = "(pystr \<times> json) list"

definition GOAL_PACKET_FORMAT :: string where
  "GOAL_PACKET_FORMAT = ''cao-goal-packet/v1''"

definition TASK_PACKET_FORMAT :: string where
  "TASK_PACKET_FORMAT = ''cao-task-packet/v1''"

record goal_packet_args =
  gp_work_item_id :: pystr
  gp_version :: int
  gp_title :: pystr
  gp_objective :: pystr
  gp_maturity :: pystr
  gp_acceptance :: "pystr list"
  gp_non_goals :: "pystr list"
  gp_priority :: int
  gp_requester_id :: "pystr option"
  gp_supervisor_id :: "pystr option"
  gp_metadata :: mapping_doc
  gp_reason :: pystr
  gp_created_by :: pystr
  gp_source_intent_id :: "pystr option"
  gp_source_directive_id :: "pystr option"
  gp_correlation_id :: pystr
  gp_prior_version :: "int option"
  gp_completion_contract :: pystr
  gp_supervisor_attachment :: "mapping_doc option"
  gp_dependencies :: "pystr list"
  gp_managed_task_policy :: "mapping_doc option"
  gp_worker_purpose :: "mapping_doc option"

definition jtext_opt :: "pystr option \<Rightarrow> json" where
  "jtext_opt a = jopt JStr a"

definition opt_mapping :: "string \<Rightarrow> mapping_doc option \<Rightarrow> mapping_doc" where
  "opt_mapping k m = (case m of None \<Rightarrow> [] | Some d \<Rightarrow> [(u k, JObj d)])"

definition opt_list :: "string \<Rightarrow> pystr list \<Rightarrow> mapping_doc" where
  "opt_list k xs = (if xs = [] then [] else [(u k, JArr (map JStr xs))])"

definition goal_packet_v1 :: "goal_packet_args \<Rightarrow> mapping_doc" where
  "goal_packet_v1 a =
    [(u ''format'', jstr GOAL_PACKET_FORMAT),
     (u ''work_item_id'', JStr (gp_work_item_id a)),
     (u ''version'', JInt (gp_version a)),
     (u ''title'', JStr (gp_title a)),
     (u ''objective'', JStr (gp_objective a)),
     (u ''maturity'', JStr (gp_maturity a)),
     (u ''acceptance'', JArr (map JStr (gp_acceptance a))),
     (u ''non_goals'', JArr (map JStr (gp_non_goals a))),
     (u ''priority'', JInt (gp_priority a)),
     (u ''requester_id'', jtext_opt (gp_requester_id a)),
     (u ''supervisor_id'', jtext_opt (gp_supervisor_id a)),
     (u ''metadata'', JObj (gp_metadata a)),
     (u ''reason'', JStr (gp_reason a)),
     (u ''created_by'', JStr (gp_created_by a)),
     (u ''source_intent_id'', jtext_opt (gp_source_intent_id a)),
     (u ''source_directive_id'', jtext_opt (gp_source_directive_id a)),
     (u ''correlation_id'', JStr (gp_correlation_id a)),
     (u ''prior_version'', jint_opt (gp_prior_version a))]"

definition build_goal_packet :: "goal_packet_args \<Rightarrow> json" where
  "build_goal_packet a = JObj (goal_packet_v1 a
     @ opt_mapping ''supervisor_attachment'' (gp_supervisor_attachment a)
     @ (if gp_completion_contract a \<noteq> u ''legacy_unclassified''
        then [(u ''completion_contract'', JStr (gp_completion_contract a))] else [])
     @ opt_list ''dependencies'' (gp_dependencies a)
     @ opt_mapping ''managed_task_policy'' (gp_managed_task_policy a)
     @ opt_mapping ''worker_purpose'' (gp_worker_purpose a))"

definition goal_packet_digest :: "(pystr \<Rightarrow> string) \<Rightarrow> json \<Rightarrow> string cp" where
  "goal_packet_digest sha packet =
     (if jget packet ''format'' \<noteq> Some (jstr GOAL_PACKET_FORMAT)
      then Inl (PyError ''ValueError'' ''unsupported goal packet format'')
      else Inr (canonical_sha256 sha packet))"

record task_packet_args =
  tp_goal_packet_digest_value :: pystr
  tp_work_item_id :: pystr
  tp_goal_version :: int
  tp_attempt_id :: pystr
  tp_attempt_number :: int
  tp_worker_id :: pystr
  tp_runtime_session_id :: "pystr option"
  tp_supervisor_attachment :: "mapping_doc option"
  tp_dependencies :: "pystr list"

definition build_task_packet :: "task_packet_args \<Rightarrow> json" where
  "build_task_packet a = JObj (
    [(u ''format'', jstr TASK_PACKET_FORMAT),
     (u ''goal_packet_digest'', JStr (tp_goal_packet_digest_value a)),
     (u ''work_item_id'', JStr (tp_work_item_id a)),
     (u ''goal_version'', JInt (tp_goal_version a)),
     (u ''attempt_id'', JStr (tp_attempt_id a)),
     (u ''attempt_number'', JInt (tp_attempt_number a)),
     (u ''worker_id'', JStr (tp_worker_id a)),
     (u ''runtime_session_id'', jtext_opt (tp_runtime_session_id a))]
     @ opt_mapping ''supervisor_attachment'' (tp_supervisor_attachment a)
     @ opt_list ''dependencies'' (tp_dependencies a))"

definition task_packet_digest :: "(pystr \<Rightarrow> string) \<Rightarrow> json \<Rightarrow> string cp" where
  "task_packet_digest sha packet =
     (if jget packet ''format'' \<noteq> Some (jstr TASK_PACKET_FORMAT)
      then Inl (PyError ''ValueError'' ''unsupported task packet format'')
      else Inr (canonical_sha256 sha packet))"

section \<open>Reading a packet back\<close>

text \<open>Sorting the keys of a mapping with distinct keys changes no lookup.\<close>

lemma map_of_sort_key: "distinct (map fst kvs) \<Longrightarrow> map_of (sort_key fst kvs) = map_of kvs"
proof -
  assume d: "distinct (map fst kvs)"
  have "distinct (map fst (sort_key fst kvs))" using d by (simp add: distinct_map)
  with d show ?thesis by (simp add: map_of_inject_set)
qed

lemma sort_keys_jget:
  assumes "sort_keys (JObj a) = sort_keys (JObj b)" "distinct (map fst a)" "distinct (map fst b)"
  shows "map_option sort_keys (map_of a k) = map_option sort_keys (map_of b k)"
proof -
  let ?m = "map (\<lambda>(k, v). (k, sort_keys v))"
  have keys: "map fst (?m xs) = map fst xs" for xs :: mapping_doc by (simp add: case_prod_unfold)
  have look: "map_of (?m xs) k = map_option sort_keys (map_of xs k)" for xs :: mapping_doc
    by (induction xs) auto
  from assms(1) have "sort_key fst (?m a) = sort_key fst (?m b)" by simp
  moreover have "distinct (map fst (?m a))" "distinct (map fst (?m b))"
    using assms(2,3) keys by metis+
  ultimately have "map_of (?m a) = map_of (?m b)" by (metis map_of_sort_key)
  with look show ?thesis by metis
qed

lemma sort_keys_leaf [simp]:
  "sort_keys (jtext_opt a) = jtext_opt a" "sort_keys (jint_opt b) = jint_opt b"
  "map (sort_keys \<circ> JStr) xs = map JStr xs"
  by (auto simp: jtext_opt_def jint_opt_def jopt_def split: option.split)

lemma jtext_opt_inject [simp]: "jtext_opt a = jtext_opt b \<longleftrightarrow> a = b"
  by (auto simp: jtext_opt_def jopt_def split: option.splits)

lemma jint_opt_inject [simp]: "jint_opt a = jint_opt b \<longleftrightarrow> a = b"
  by (auto simp: jint_opt_def jopt_def split: option.splits)

lemma map_JStr_inject [simp]: "map JStr xs = map JStr ys \<longleftrightarrow> xs = ys"
  by (auto simp: inj_map_eq_map inj_def)

lemma keys_opt [simp]:
  "map fst (opt_mapping k m) = (if m = None then [] else [u k])"
  "map fst (opt_list k xs) = (if xs = [] then [] else [u k])"
  by (auto simp: opt_mapping_def opt_list_def split: option.split)

lemma map_of_opt [simp]:
  "map_of (opt_mapping k m) k' = (if k' = u k then map_option JObj m else None)"
  "map_of (opt_list k xs) k' = (if k' = u k \<and> xs \<noteq> [] then Some (JArr (map JStr xs)) else None)"
  by (auto simp: opt_mapping_def opt_list_def split: option.split)


text \<open>All arguments but the opaque mappings are equal, and those agree up to key order.\<close>

definition same_mapping :: "mapping_doc option \<Rightarrow> mapping_doc option \<Rightarrow> bool" where
  "same_mapping a b \<longleftrightarrow> map_option (\<lambda>d. sort_keys (JObj d)) a = map_option (\<lambda>d. sort_keys (JObj d)) b"

definition same_goal_packet_args :: "goal_packet_args \<Rightarrow> goal_packet_args \<Rightarrow> bool" where
  "same_goal_packet_args a b \<longleftrightarrow>
     gp_work_item_id a = gp_work_item_id b \<and> gp_version a = gp_version b \<and>
     gp_title a = gp_title b \<and> gp_objective a = gp_objective b \<and> gp_maturity a = gp_maturity b \<and>
     gp_acceptance a = gp_acceptance b \<and> gp_non_goals a = gp_non_goals b \<and>
     gp_priority a = gp_priority b \<and> gp_requester_id a = gp_requester_id b \<and>
     gp_supervisor_id a = gp_supervisor_id b \<and>
     same_mapping (Some (gp_metadata a)) (Some (gp_metadata b)) \<and>
     gp_reason a = gp_reason b \<and> gp_created_by a = gp_created_by b \<and>
     gp_source_intent_id a = gp_source_intent_id b \<and>
     gp_source_directive_id a = gp_source_directive_id b \<and>
     gp_correlation_id a = gp_correlation_id b \<and> gp_prior_version a = gp_prior_version b \<and>
     gp_completion_contract a = gp_completion_contract b \<and>
     same_mapping (gp_supervisor_attachment a) (gp_supervisor_attachment b) \<and>
     gp_dependencies a = gp_dependencies b \<and>
     same_mapping (gp_managed_task_policy a) (gp_managed_task_policy b) \<and>
     same_mapping (gp_worker_purpose a) (gp_worker_purpose b)"

lemmas goal_packet_defs = build_goal_packet_def goal_packet_v1_def

fun packet_items :: "json \<Rightarrow> mapping_doc" where
  "packet_items (JObj kvs) = kvs"
| "packet_items _ = []"

lemma build_goal_packet_items: "build_goal_packet a = JObj (packet_items (build_goal_packet a))"
  by (simp add: build_goal_packet_def)

lemma subseq_distinct: "subseq xs ys \<Longrightarrow> distinct ys \<Longrightarrow> distinct xs"
  by (auto simp: subseq_conv_nths distinct_nthsI)

text \<open>The keys of every packet are a subsequence of one list of distinct names.\<close>

definition goal_packet_keys :: "string list" where
  "goal_packet_keys = [''format'', ''work_item_id'', ''version'', ''title'', ''objective'', ''maturity'', ''acceptance'', ''non_goals'', ''priority'', ''requester_id'', ''supervisor_id'', ''metadata'', ''reason'', ''created_by'', ''source_intent_id'', ''source_directive_id'', ''correlation_id'', ''prior_version'',
     ''supervisor_attachment'', ''completion_contract'', ''dependencies'', ''managed_task_policy'', ''worker_purpose'']"

lemma goal_packet_keys_distinct: "distinct goal_packet_keys"
  by code_simp

lemma opt_keys_subseq:
  "subseq (map fst (opt_mapping k m)) (map u [k])" "subseq (map fst (opt_list k xs)) (map u [k])"
  by simp_all

lemma goal_packet_distinct: "distinct (map fst (packet_items (build_goal_packet a)))"
proof -
  have "subseq (map fst (packet_items (build_goal_packet a))) (map u goal_packet_keys)"
  proof -
    have split: "map u goal_packet_keys = map fst (goal_packet_v1 a) @ map u [''supervisor_attachment'']
        @ map u [''completion_contract''] @ map u [''dependencies''] @ map u [''managed_task_policy'']
        @ map u [''worker_purpose'']"
      by (simp add: goal_packet_keys_def goal_packet_v1_def)
    show ?thesis
      unfolding split build_goal_packet_def packet_items.simps map_append
      by (intro list_emb_append_mono opt_keys_subseq) simp_all
  qed
  moreover have "distinct (map u goal_packet_keys)"
    using goal_packet_keys_distinct by (simp add: distinct_map inj_on_def)
  ultimately show ?thesis by (rule subseq_distinct)
qed

definition goal_field :: "goal_packet_args \<Rightarrow> string \<Rightarrow> json option" where
  "goal_field a k = map_of (packet_items (build_goal_packet a)) (u k)"

lemma goal_field_simps:
  "goal_field a ''work_item_id'' = Some (JStr (gp_work_item_id a))"
  "goal_field a ''version'' = Some (JInt (gp_version a))"
  "goal_field a ''title'' = Some (JStr (gp_title a))"
  "goal_field a ''objective'' = Some (JStr (gp_objective a))"
  "goal_field a ''maturity'' = Some (JStr (gp_maturity a))"
  "goal_field a ''acceptance'' = Some (JArr (map JStr (gp_acceptance a)))"
  "goal_field a ''non_goals'' = Some (JArr (map JStr (gp_non_goals a)))"
  "goal_field a ''priority'' = Some (JInt (gp_priority a))"
  "goal_field a ''requester_id'' = Some (jtext_opt (gp_requester_id a))"
  "goal_field a ''supervisor_id'' = Some (jtext_opt (gp_supervisor_id a))"
  "goal_field a ''metadata'' = Some (JObj (gp_metadata a))"
  "goal_field a ''reason'' = Some (JStr (gp_reason a))"
  "goal_field a ''created_by'' = Some (JStr (gp_created_by a))"
  "goal_field a ''source_intent_id'' = Some (jtext_opt (gp_source_intent_id a))"
  "goal_field a ''source_directive_id'' = Some (jtext_opt (gp_source_directive_id a))"
  "goal_field a ''correlation_id'' = Some (JStr (gp_correlation_id a))"
  "goal_field a ''prior_version'' = Some (jint_opt (gp_prior_version a))"
  by (simp_all add: goal_field_def goal_packet_defs)

lemma goal_field_opt_simps:
  "goal_field a ''completion_contract'' =
     (if gp_completion_contract a = u ''legacy_unclassified'' then None else Some (JStr (gp_completion_contract a)))"
  "goal_field a ''supervisor_attachment'' = map_option JObj (gp_supervisor_attachment a)"
  "goal_field a ''dependencies'' =
     (if gp_dependencies a = [] then None else Some (JArr (map JStr (gp_dependencies a))))"
  "goal_field a ''managed_task_policy'' = map_option JObj (gp_managed_task_policy a)"
  "goal_field a ''worker_purpose'' = map_option JObj (gp_worker_purpose a)"
  by (simp_all add: goal_field_def goal_packet_defs map_add_def split: option.split)

lemma goal_packet_fields:
  assumes "sort_keys (build_goal_packet a) = sort_keys (build_goal_packet b)"
  shows "same_goal_packet_args a b"
proof -
  have "sort_keys (JObj (packet_items (build_goal_packet a))) = sort_keys (JObj (packet_items (build_goal_packet b)))"
    using assms by (simp only: build_goal_packet_items [symmetric])
  then have field: "map_option sort_keys (goal_field a k) = map_option sort_keys (goal_field b k)" for k
    unfolding goal_field_def by (rule sort_keys_jget) (rule goal_packet_distinct)+
  note f0 = field [of "''work_item_id''", unfolded goal_field_simps goal_field_opt_simps]
  note f1 = field [of "''version''", unfolded goal_field_simps goal_field_opt_simps]
  note f2 = field [of "''title''", unfolded goal_field_simps goal_field_opt_simps]
  note f3 = field [of "''objective''", unfolded goal_field_simps goal_field_opt_simps]
  note f4 = field [of "''maturity''", unfolded goal_field_simps goal_field_opt_simps]
  note f5 = field [of "''acceptance''", unfolded goal_field_simps goal_field_opt_simps]
  note f6 = field [of "''non_goals''", unfolded goal_field_simps goal_field_opt_simps]
  note f7 = field [of "''priority''", unfolded goal_field_simps goal_field_opt_simps]
  note f8 = field [of "''requester_id''", unfolded goal_field_simps goal_field_opt_simps]
  note f9 = field [of "''supervisor_id''", unfolded goal_field_simps goal_field_opt_simps]
  note f10 = field [of "''metadata''", unfolded goal_field_simps goal_field_opt_simps]
  note f11 = field [of "''reason''", unfolded goal_field_simps goal_field_opt_simps]
  note f12 = field [of "''created_by''", unfolded goal_field_simps goal_field_opt_simps]
  note f13 = field [of "''source_intent_id''", unfolded goal_field_simps goal_field_opt_simps]
  note f14 = field [of "''source_directive_id''", unfolded goal_field_simps goal_field_opt_simps]
  note f15 = field [of "''correlation_id''", unfolded goal_field_simps goal_field_opt_simps]
  note f16 = field [of "''prior_version''", unfolded goal_field_simps goal_field_opt_simps]
  note f17 = field [of "''completion_contract''", unfolded goal_field_simps goal_field_opt_simps]
  note f18 = field [of "''supervisor_attachment''", unfolded goal_field_simps goal_field_opt_simps]
  note f19 = field [of "''dependencies''", unfolded goal_field_simps goal_field_opt_simps]
  note f20 = field [of "''managed_task_policy''", unfolded goal_field_simps goal_field_opt_simps]
  note f21 = field [of "''worker_purpose''", unfolded goal_field_simps goal_field_opt_simps]
  have opt: "same_mapping m m'"
    if "map_option sort_keys (map_option JObj m) = map_option sort_keys (map_option JObj m')" for m m'
    using that by (simp add: same_mapping_def option.map_comp comp_def)
  have contract: "gp_completion_contract a = gp_completion_contract b"
    using f17 by (simp split: if_splits)
  have deps: "gp_dependencies a = gp_dependencies b"
    using f19 by (simp split: if_splits)
  have meta: "same_mapping (Some (gp_metadata a)) (Some (gp_metadata b))"
    using f10 by (intro opt) simp
  have lists: "gp_acceptance a = gp_acceptance b" "gp_non_goals a = gp_non_goals b"
    using f5 f6 by simp_all
  show ?thesis
    unfolding same_goal_packet_args_def
    using f0 f1 f2 f3 f4 f7 f8 f9 f11 f12 f13 f14 f15 f16 contract deps meta lists
      opt [OF f18] opt [OF f20] opt [OF f21]
    by simp
qed


lemma scalar_u [simp]: "list_all scalar (u s)"
proof -
  have "of_char c < (256 :: nat)" for c :: char by simp
  then have "of_char c < (55296 :: nat)" for c :: char by (rule less_trans) simp
  then show ?thesis by (simp add: u_def scalar_def list_all_iff)
qed

lemma json_chars_jstr [simp]: "json_chars scalar (jstr s)"
  by (simp add: jstr_def)

lemma goal_packet_format: "jget (build_goal_packet a) ''format'' = Some (jstr GOAL_PACKET_FORMAT)"
  by (simp add: goal_packet_defs)

lemma goal_packet_digest_ok:
  "goal_packet_digest sha (build_goal_packet a) = Inr (canonical_sha256 sha (build_goal_packet a))"
  by (simp add: goal_packet_digest_def goal_packet_format)

text \<open>C15: The digest of a goal packet binds the goal revision: two revisions whose packets have
  the same digest, for a hash that does not collide on these two texts, agree in every
  argument, the opaque mappings up to the order of their keys. The texts are Unicode texts
  (no lone surrogates).
\<close>

theorem goal_packet_digest_binds:
  assumes "goal_packet_digest sha (build_goal_packet a) = goal_packet_digest sha (build_goal_packet b)"
    and "sha (canonical_json (build_goal_packet a)) = sha (canonical_json (build_goal_packet b)) \<Longrightarrow>
      canonical_json (build_goal_packet a) = canonical_json (build_goal_packet b)"
    and "json_chars scalar (build_goal_packet a)" "json_chars scalar (build_goal_packet b)"
  shows "same_goal_packet_args a b"
proof (rule goal_packet_fields)
  have "canonical_json (build_goal_packet a) = canonical_json (build_goal_packet b)"
    using assms(1,2) by (simp add: goal_packet_digest_ok canonical_sha256_def)
  then show "sort_keys (build_goal_packet a) = sort_keys (build_goal_packet b)"
    using assms(3,4) by (simp add: canonical_json_inject)
qed

definition sample_goal :: goal_packet_args where
  "sample_goal = \<lparr>gp_work_item_id = u ''work_1'', gp_version = 1, gp_title = u ''T'', gp_objective = u ''O'',
     gp_maturity = u ''unset'', gp_acceptance = [], gp_non_goals = [], gp_priority = 50,
     gp_requester_id = None, gp_supervisor_id = None, gp_metadata = [(u ''b'', JInt 1), (u ''a'', JInt 2)],
     gp_reason = [], gp_created_by = u ''cao'', gp_source_intent_id = None, gp_source_directive_id = None,
     gp_correlation_id = u ''c'', gp_prior_version = None, gp_completion_contract = u ''legacy_unclassified'',
     gp_supervisor_attachment = None, gp_dependencies = [], gp_managed_task_policy = None,
     gp_worker_purpose = None\<rparr>"

text \<open>Witness: two revisions that list their metadata in different orders, with the text itself as the digest.\<close>

lemma goal_packet_digest_binds_witness:
  "same_goal_packet_args sample_goal (sample_goal\<lparr>gp_metadata := [(u ''a'', JInt 2), (u ''b'', JInt 1)]\<rparr>)"
proof (rule goal_packet_digest_binds [where sha = "map char_of"])
  let ?b = "sample_goal\<lparr>gp_metadata := [(u ''a'', JInt 2), (u ''b'', JInt 1)]\<rparr>"
  have "sort_keys (JObj [(u ''b'', JInt 1), (u ''a'', JInt 2)])
      = sort_keys (JObj [(u ''a'', JInt 2), (u ''b'', JInt 1)])"
    by (simp add: u_def)
  then have "sort_keys (build_goal_packet sample_goal) = sort_keys (build_goal_packet ?b)"
    by (simp add: sample_goal_def goal_packet_defs opt_mapping_def opt_list_def)
  then have c: "canonical_json (build_goal_packet sample_goal) = canonical_json (build_goal_packet ?b)"
    by (simp add: canonical_json_def)
  then show "goal_packet_digest (map char_of) (build_goal_packet sample_goal)
      = goal_packet_digest (map char_of) (build_goal_packet ?b)"
    by (simp add: goal_packet_digest_ok canonical_sha256_def)
  show "canonical_json (build_goal_packet sample_goal) = canonical_json (build_goal_packet ?b)" by (rule c)
  show "json_chars scalar (build_goal_packet sample_goal)" "json_chars scalar (build_goal_packet ?b)"
    by (simp_all add: sample_goal_def goal_packet_defs opt_mapping_def opt_list_def jint_opt_def jtext_opt_def)
qed

end
