(* ===== verification/Actors.thy ===== *)
theory Actors
  imports Events
begin

text \<open>
  Who may act: the authenticated actor as \<open>service.py\<close> carries it, \<open>_require_role\<close> and the
  recheck of an attachment bearer inside a use case's transaction.

  The actor of the source is a mapping with optional credential entries; an absent or empty
  entry is the empty text here, and an absent generation is \<open>None\<close>.
\<close>

record actor =
  act_id :: ident
  act_role :: principal_role
  act_runtime_session_id :: ident
  act_attachment_id :: ident
  act_attachment_generation :: "int option"
  act_runtime_credential_id :: ident
  act_conversation_credential_id :: ident
  act_connection_id :: ident
  act_connection_generation :: "int option"
  act_worker_credential_id :: ident
  act_enrollment_id :: ident
  act_enrollment_generation :: "int option"

text \<open>An actor that carries no credential entries.\<close>

definition bare_actor :: "ident \<Rightarrow> principal_role \<Rightarrow> actor" where
  "bare_actor i role = \<lparr>act_id = i, act_role = role, act_runtime_session_id = '''', act_attachment_id = '''',
     act_attachment_generation = None, act_runtime_credential_id = '''', act_conversation_credential_id = '''',
     act_connection_id = '''', act_connection_generation = None, act_worker_credential_id = '''',
     act_enrollment_id = '''', act_enrollment_generation = None\<rparr>"

section \<open>Roles and current leases\<close>

text \<open>A live runtime credential: the credential, its attachment and its busy runtime.\<close>

definition runtime_bearer_current :: "env \<Rightarrow> db \<Rightarrow> actor \<Rightarrow> bool" where
  "runtime_bearer_current e s a = list_ex (\<lambda>c.
     cr_id c = act_runtime_credential_id a \<and> cr_principal_id c = act_id a
     \<and> cr_owner_id c = act_attachment_id a
     \<and> cr_state c = ''active'' \<and> cr_expires_at c > env_now e
     \<and> sql_eq (Some (cr_generation c)) (act_attachment_generation a)
     \<and> list_ex (\<lambda>t. ca_id t = cr_owner_id c
         \<and> sql_eq (Some (ca_generation t)) (act_attachment_generation a)
         \<and> ca_state t = ''active'' \<and> ca_lease_expires_at t > env_now e
         \<and> list_ex (\<lambda>r. r_id r = ca_runtime_session_id t \<and> r_id r = act_runtime_session_id a
              \<and> r_state r = R_BUSY \<and> r_lease_expires_at r > env_now e) (runtimes s)) (attachments s))
     (cao_runtime_credentials s)"

text \<open>A live conversation credential: the credential, its connection and its attachment.\<close>

definition conversation_bearer_current :: "env \<Rightarrow> db \<Rightarrow> actor \<Rightarrow> bool" where
  "conversation_bearer_current e s a = list_ex (\<lambda>c.
     cr_id c = act_conversation_credential_id a \<and> cr_principal_id c = act_id a
     \<and> cr_owner_id c = act_attachment_id a
     \<and> cr_state c = ''active'' \<and> cr_expires_at c > env_now e
     \<and> sql_eq (Some (cr_generation c)) (act_attachment_generation a)
     \<and> list_ex (\<lambda>conn. sql_eq (Some (cc_id conn)) (cr_connection_id c)
         \<and> cc_attachment_id conn = cr_owner_id c
         \<and> cc_principal_id conn = cr_principal_id c
         \<and> cc_generation conn = cr_generation c
         \<and> cc_id conn = act_connection_id a
         \<and> sql_eq (Some (cc_connection_generation conn)) (act_connection_generation a)
         \<and> cc_state conn = ''active'' \<and> cc_lease_expires_at conn > env_now e
         \<and> list_ex (\<lambda>t. ca_id t = cc_attachment_id conn \<and> ca_principal_id t = cc_principal_id conn
              \<and> sql_eq (Some (ca_generation t)) (act_attachment_generation a)
              \<and> ca_state t = ''active'') (attachments s)) (connections s))
     (conversation_credentials s)"

definition require_role :: "env \<Rightarrow> db \<Rightarrow> actor \<Rightarrow> principal_role list \<Rightarrow> unit cp" where
  "require_role e s a roles =
     (if act_role a \<notin> set roles
      then Inl (AuthorizationError ''principal role is not permitted''
             [(''actual'', jstr (role_value (act_role a))),
              (''allowed'', JArr (List.map jstr (sort (remdups (List.map role_value roles)))))])
      else if act_runtime_credential_id a \<noteq> '''' \<and> \<not> runtime_bearer_current e s a
      then Inl (AuthorizationError ''CAO runtime attachment lease is stale or revoked'' [])
      else if act_conversation_credential_id a \<noteq> '''' \<and> \<not> conversation_bearer_current e s a
      then Inl (AuthorizationError ''CAO conversation attachment lease is stale or revoked'' [])
      else Inr ())"

section \<open>The attachment bearer inside a transaction\<close>

definition enabled_cao :: "db \<Rightarrow> ident \<Rightarrow> bool" where
  "enabled_cao s i = list_ex (\<lambda>p. p_id p = i \<and> p_role p = CAO \<and> p_enabled p) (principals s)"

definition attachment_bearer_malformed :: "bool \<Rightarrow> actor \<Rightarrow> bool" where
  "attachment_bearer_malformed allow_runtime_credential a =
     (act_role a \<noteq> CAO
      \<or> act_attachment_id a = ''''
      \<or> act_attachment_generation a = None
      \<or> (act_conversation_credential_id a \<noteq> '''') = (act_runtime_credential_id a \<noteq> '''')
      \<or> (act_runtime_credential_id a \<noteq> '''' \<and> act_runtime_session_id a = '''')
      \<or> (act_runtime_credential_id a \<noteq> '''' \<and> \<not> allow_runtime_credential)
      \<or> (act_conversation_credential_id a \<noteq> ''''
         \<and> (act_connection_id a = '''' \<or> act_connection_generation a = None)))"

text \<open>The transactional query also binds the runtime's principal to the credential's.\<close>

definition runtime_attachment_current :: "env \<Rightarrow> db \<Rightarrow> actor \<Rightarrow> bool" where
  "runtime_attachment_current e s a = list_ex (\<lambda>c.
     cr_id c = act_runtime_credential_id a \<and> cr_principal_id c = act_id a
     \<and> cr_owner_id c = act_attachment_id a
     \<and> cr_state c = ''active'' \<and> cr_expires_at c > env_now e
     \<and> sql_eq (Some (cr_generation c)) (act_attachment_generation a)
     \<and> enabled_cao s (cr_principal_id c)
     \<and> list_ex (\<lambda>t. ca_id t = cr_owner_id c \<and> ca_principal_id t = cr_principal_id c
         \<and> sql_eq (Some (ca_generation t)) (act_attachment_generation a)
         \<and> ca_state t = ''active'' \<and> ca_lease_expires_at t > env_now e
         \<and> ca_runtime_session_id t = act_runtime_session_id a
         \<and> list_ex (\<lambda>r. r_id r = ca_runtime_session_id t \<and> r_principal_id r = cr_principal_id c
              \<and> r_state r = R_BUSY \<and> r_lease_expires_at r > env_now e) (runtimes s)) (attachments s))
     (cao_runtime_credentials s)"

definition require_current_cao_attachment_actor_tx :: "env \<Rightarrow> bool \<Rightarrow> db \<Rightarrow> actor \<Rightarrow> unit cp" where
  "require_current_cao_attachment_actor_tx e allow_runtime_credential s a =
     (if attachment_bearer_malformed allow_runtime_credential a
      then Inl (AuthorizationError ''CAO attachment authority is unavailable'' [])
      else if act_conversation_credential_id a \<noteq> ''''
      then (if conversation_bearer_current e s a \<and> enabled_cao s (act_id a) then Inr ()
            else Inl (AuthorizationError ''CAO conversation attachment lease is stale or revoked'' []))
      else (if runtime_attachment_current e s a then Inr ()
            else Inl (AuthorizationError ''CAO runtime attachment lease is stale or revoked'' [])))"

section \<open>The Worker's managed runtime\<close>

text \<open>
  \<open>_require_worker_runtime_actor_tx\<close>: the enrollment, its runtime and the credential of the actor,
  rechecked inside the transaction. \<open>expected\<close> is \<open>expected_runtime_id\<close>.
\<close>

definition worker_credential_current :: "env \<Rightarrow> db \<Rightarrow> actor \<Rightarrow> enrollment_row \<Rightarrow> runtime_row \<Rightarrow> credential_row \<Rightarrow> bool" where
  "worker_credential_current e s a n r c =
     (let g = (case act_enrollment_generation a of None \<Rightarrow> - 1 | Some g \<Rightarrow> g) in
      cr_state c = ''active''
      \<and> \<not> is_expired e (Some (cr_expires_at c))
      \<and> we_generation n = g \<and> cr_generation c = g
      \<and> we_state n \<notin> {E_REVOKED, E_FAILED, E_STALE}
      \<and> we_lease_expires_at n \<noteq> None \<and> \<not> is_expired e (we_lease_expires_at n)
      \<and> \<not> is_expired e (Some (r_lease_expires_at r)))"

definition worker_handshake_fresh :: "env \<Rightarrow> enrollment_row \<Rightarrow> runtime_row \<Rightarrow> bool" where
  "worker_handshake_fresh e n r =
     (we_state n = E_READY \<and> r_state r \<in> {R_READY, R_BUSY, R_WAITING}
      \<and> we_required_tools_digest n = env_tools_digest e
      \<and> we_discovered_tools_digest n = env_tools_digest e
      \<and> we_protocol_version n \<noteq> '''')"

definition worker_binding :: "db \<Rightarrow> actor \<Rightarrow> (enrollment_row \<times> runtime_row \<times> credential_row) option" where
  "worker_binding s a =
     (case fetchone (\<lambda>n. we_id n = act_enrollment_id a \<and> we_principal_id n = act_id a
              \<and> we_runtime_session_id n = act_runtime_session_id a) (enrollments s) of
        None \<Rightarrow> None
      | Some n \<Rightarrow> (case fetchone (\<lambda>r. r_id r = we_runtime_session_id n) (runtimes s) of
          None \<Rightarrow> None
        | Some r \<Rightarrow> (case fetchone (\<lambda>c. cr_id c = act_worker_credential_id a \<and> cr_owner_id c = we_id n
                 \<and> cr_principal_id c = we_principal_id n) (runtime_credentials s) of
            None \<Rightarrow> None
          | Some c \<Rightarrow> if list_ex (\<lambda>p. p_id p = we_principal_id n \<and> p_enabled p) (principals s)
              then Some (n, r, c) else None)))"

definition require_worker_runtime_actor_tx :: "env \<Rightarrow> ident option \<Rightarrow> bool \<Rightarrow> db \<Rightarrow> actor \<Rightarrow> enrollment_row cp" where
  "require_worker_runtime_actor_tx e expected require_ready s a =
     bindE (require_role e s a [WORKER]) (\<lambda>_.
       if act_worker_credential_id a = '''' \<or> act_enrollment_id a = '''' \<or> act_runtime_session_id a = ''''
       then Inl (AuthorizationError ''Worker operation requires a managed MCP runtime credential'' [])
       else if (case expected of None \<Rightarrow> False | Some i \<Rightarrow> act_runtime_session_id a \<noteq> i)
       then Inl (AuthorizationError ''Worker credential is bound to another runtime'' [])
       else (case worker_binding s a of
          None \<Rightarrow> Inl (AuthorizationError ''Worker MCP runtime credential is stale or revoked'' [])
        | Some (n, r, c) \<Rightarrow>
            if \<not> worker_credential_current e s a n r c
            then Inl (AuthorizationError ''Worker MCP runtime credential is stale or revoked'' [])
            else if require_ready \<and> \<not> worker_handshake_fresh e n r
            then Inl (ConflictError ''Worker MCP runtime has not completed a fresh handshake'' [])
            else Inr n))"

section \<open>Work scope\<close>

definition authorize_work_actor :: "actor \<Rightarrow> work_row \<Rightarrow> unit cp" where
  "authorize_work_actor a w =
     (if act_role a = CAO
      then (if act_attachment_id a \<noteq> '''' \<and> w_supervisor_attachment_id w \<noteq> Some (act_attachment_id a)
            then Inl (AuthorizationError ''work item belongs to another CAO conversation'' []) else Inr ())
      else if act_role a = USER \<and> w_requester_id w = Some (act_id a) then Inr ()
      else if act_role a = WORKER \<and> w_assigned_worker_id w = act_id a then Inr ()
      else Inl (AuthorizationError (''work item is outside this principal'' @ [CHR 0x27] @ ''s scope'') []))"

definition require_authorized_work_tx :: "db \<Rightarrow> actor \<Rightarrow> ident \<Rightarrow> work_row cp" where
  "require_authorized_work_tx s a work_id =
     (case get_work s work_id of
        None \<Rightarrow> Inl (NotFoundError ''work item'' work_id)
      | Some w \<Rightarrow> bindE (authorize_work_actor a w) (\<lambda>_. Inr w))"

definition resolve_requester_id_tx :: "db \<Rightarrow> ident option \<Rightarrow> ident cp" where
  "resolve_requester_id_tx s requested =
     (let users = sort (List.map p_id (filter (\<lambda>p. p_role p = USER \<and> p_enabled p) (principals s))) in
      case (case requested of None \<Rightarrow> None | Some i \<Rightarrow> if i = '''' then None else Some i) of
        Some i \<Rightarrow> if list_ex (\<lambda>p. p_id p = i \<and> p_role p = USER \<and> p_enabled p) (principals s) then Inr i
           else Inl (ValidationError ''requester_id must identify an enabled user principal'' [])
      | None \<Rightarrow> (case users of
          [] \<Rightarrow> Inl (ValidationError ''at least one enabled user principal is required'' [])
        | [i] \<Rightarrow> Inr i
        | _ \<Rightarrow> Inl (ValidationError ''requester_id is required when multiple user principals are enabled''
               [(''enabled_user_count'', JInt (int (length users)))])))"

lemma require_role_ok: "require_role e s a roles = Inr () \<Longrightarrow> act_role a \<in> set roles"
  by (auto simp: require_role_def split: if_splits)

lemma require_role_plain:
  "act_runtime_credential_id a = '''' \<Longrightarrow> act_conversation_credential_id a = '''' \<Longrightarrow>
     (require_role e s a roles = Inr ()) = (act_role a \<in> set roles)"
  by (auto simp: require_role_def)

text \<open>A bearer is revoked with its attachment. An attachment bearer acts inside a transaction only
  as an enabled CAO principal whose attachment is active at exactly the generation the bearer was
  issued for, through exactly one kind of credential that is active and unexpired; a bearer of an
  earlier generation is refused.
\<close>

theorem attachment_actor_current:
  assumes "require_current_cao_attachment_actor_tx e allow s a = Inr ()"
  shows "act_role a = CAO \<and> enabled_cao s (act_id a)
    \<and> (\<exists>t\<in>set (attachments s). ca_id t = act_attachment_id a \<and> ca_state t = ''active''
         \<and> act_attachment_generation a = Some (ca_generation t) \<and> ca_principal_id t = act_id a)
    \<and> (act_conversation_credential_id a \<noteq> '''') \<noteq> (act_runtime_credential_id a \<noteq> '''')
    \<and> (\<exists>c\<in>set (conversation_credentials s @ cao_runtime_credentials s).
         cr_state c = ''active'' \<and> cr_expires_at c > env_now e \<and> cr_principal_id c = act_id a
         \<and> act_attachment_generation a = Some (cr_generation c))"
proof -
  from assms have well_formed: "\<not> attachment_bearer_malformed allow a"
    by (auto simp: require_current_cao_attachment_actor_tx_def split: if_splits)
  show ?thesis
  proof (cases "act_conversation_credential_id a = ''''")
    case True
    with assms well_formed have "runtime_attachment_current e s a"
      by (auto simp: require_current_cao_attachment_actor_tx_def split: if_splits)
    with well_formed True show ?thesis
      unfolding runtime_attachment_current_def list_ex_iff
      by (fastforce simp: attachment_bearer_malformed_def sql_eq_iff)
  next
    case False
    with assms well_formed have "conversation_bearer_current e s a" "enabled_cao s (act_id a)"
      by (auto simp: require_current_cao_attachment_actor_tx_def split: if_splits)
    with well_formed False show ?thesis
      unfolding conversation_bearer_current_def list_ex_iff
      by (fastforce simp: attachment_bearer_malformed_def sql_eq_iff)
  qed
qed

text \<open>A runtime bearer of generation 2.\<close>

definition sample_actor :: actor where
  "sample_actor = (bare_actor ''c'' CAO)\<lparr>act_runtime_session_id := ''r'', act_attachment_id := ''a'',
     act_attachment_generation := Some 2, act_runtime_credential_id := ''k''\<rparr>"

definition sample_bearer_db :: db where
  "sample_bearer_db = empty_db\<lparr>
     principals := [\<lparr>p_id = ''c'', p_role = CAO, p_enabled = True, p_operator_scope = ''production''\<rparr>],
     runtimes := [\<lparr>r_id = ''r'', r_principal_id = ''c'', r_adapter = ''codex'', r_endpoint = '''', r_native_session_id = ''n'',
       r_state = R_BUSY, r_lease_expires_at = 200, r_metadata = JObj [], r_updated_at = 0\<rparr>],
     attachments := [\<lparr>ca_id = ''a'', ca_principal_id = ''c'', ca_runtime_session_id = ''r'', ca_native_thread_id = ''n'',
       ca_project_digest = '''', ca_project_scope_digest = '''', ca_state = ''active'', ca_generation = 2, ca_lease_expires_at = 200\<rparr>],
     cao_runtime_credentials := [\<lparr>cr_id = ''k'', cr_owner_id = ''a'', cr_connection_id = None, cr_principal_id = ''c'',
       cr_generation = 2, cr_state = ''active'', cr_expires_at = 200\<rparr>]\<rparr>"

lemma attachment_actor_current_witness:
  "enabled_cao sample_bearer_db (act_id sample_actor)"
proof -
  let ?e = "fixed_env 100"
  have "require_current_cao_attachment_actor_tx ?e True sample_bearer_db sample_actor = Inr ()"
    by (simp add: require_current_cao_attachment_actor_tx_def attachment_bearer_malformed_def
        runtime_attachment_current_def enabled_cao_def sample_actor_def bare_actor_def fixed_env_def sample_bearer_db_def empty_db_def)
  from attachment_actor_current [OF this] show ?thesis by blast
qed

end
