(* ===== verification/Glob.thy ===== *)
theory Glob
  imports CAO_Prelude
begin

text \<open>
  \<open>security.matches\<close>: the shell-style patterns of \<open>fnmatch.fnmatchcase\<close> with which an effect
  grant names targets and actions. A pattern is cut into tokens as \<open>fnmatch.translate\<close> cuts
  it (bracket expressions with ranges, empty ranges removed, an unclosed bracket literal) and
  the tokens are matched against the whole text.
\<close>

datatype glob_token =
    Star
  | Any_Char
  | Literal char
  | Char_Set bool "(char \<times> char) list"
  | Never

section \<open>Bracket expressions\<close>

definition bracket_skip :: "string \<Rightarrow> nat" where
  "bracket_skip t =
     (let p = (if t \<noteq> [] \<and> hd t = CHR ''!'' then 1 else 0)
      in if p < length t \<and> t ! p = CHR '']'' then p + 1 else p)"

text \<open>What stands between the brackets, and the rest of the pattern; none without a close.\<close>

definition split_bracket :: "string \<Rightarrow> (string \<times> string) option" where
  "split_bracket t =
     (let p = bracket_skip t; r = drop p t
      in case dropWhile (\<lambda>c. c \<noteq> CHR '']'') r of
           [] \<Rightarrow> None
         | _ # rest \<Rightarrow> Some (take p t @ takeWhile (\<lambda>c. c \<noteq> CHR '']'') r, rest))"

text \<open>The chunks between the range hyphens; \<open>offset\<close> is the first place a hyphen can be one.\<close>

function (sequential) range_chunks :: "nat \<Rightarrow> string list \<Rightarrow> string \<Rightarrow> string list" where
  "range_chunks offset acc r =
     (case dropWhile (\<lambda>c. c \<noteq> CHR ''-'') (drop offset r) of
        [] \<Rightarrow> if r \<noteq> [] then acc @ [r] else butlast acc @ [last acc @ ''-'']
      | _ # rest \<Rightarrow>
          range_chunks 2 (acc @ [take offset r @ takeWhile (\<lambda>c. c \<noteq> CHR ''-'') (drop offset r)]) rest)"
  by pat_completeness auto

termination
proof (relation "measure (\<lambda>(offset, acc, r). length r)")
  show "wf (measure (\<lambda>(offset, acc :: string list, r :: string). length r))" by simp
next
  fix offset :: nat and acc :: "string list" and r :: string and c rest
  assume "dropWhile (\<lambda>c. c \<noteq> CHR ''-'') (drop offset r) = c # rest"
  then have "length (c # rest) \<le> length (drop offset r)"
    by (metis length_dropWhile_le)
  then show "((2, acc @ [take offset r @ takeWhile (\<lambda>c. c \<noteq> CHR ''-'') (drop offset r)], rest), offset, acc, r)
      \<in> measure (\<lambda>(offset, acc, r). length r)"
    by simp
qed

declare range_chunks.simps [simp del]

text \<open>A range whose ends are out of order is removed with both ends.\<close>

fun drop_empty_ranges :: "string list \<Rightarrow> string list" where
  "drop_empty_ranges [] = []"
| "drop_empty_ranges (c # cs) =
     (case drop_empty_ranges cs of
        [] \<Rightarrow> [c]
      | d # ds \<Rightarrow> if c \<noteq> [] \<and> d \<noteq> [] \<and> hd d < last c then (butlast c @ tl d) # ds else c # d # ds)"

text \<open>Single characters, and a range between the last of a chunk and the first of the next.\<close>

fun set_items :: "string list \<Rightarrow> (char \<times> char) list" where
  "set_items [] = []"
| "set_items [c] = map (\<lambda>x. (x, x)) c"
| "set_items (c # d # ds) = map (\<lambda>x. (x, x)) (butlast c)
     @ (if c \<noteq> [] \<and> d \<noteq> [] then [(last c, hd d)] else []) @ set_items (tl d # ds)"

definition bracket_token :: "string \<Rightarrow> glob_token" where
  "bracket_token stuff =
     (let chunks = (if CHR ''-'' \<notin> set stuff then [stuff]
            else drop_empty_ranges (range_chunks (if stuff \<noteq> [] \<and> hd stuff = CHR ''!'' then 2 else 1) [] stuff))
      in case chunks of
           [] \<Rightarrow> Never
         | c # cs \<Rightarrow>
             if c = [] \<and> cs = [] then Never
             else if c = ''!'' \<and> cs = [] then Any_Char
             else if c \<noteq> [] \<and> hd c = CHR ''!'' then Char_Set False (set_items (tl c # cs))
             else Char_Set True (set_items (c # cs)))"

section \<open>Patterns\<close>

lemma split_bracket_shorter: "split_bracket t = Some (stuff, rest) \<Longrightarrow> length rest < length t"
proof -
  assume "split_bracket t = Some (stuff, rest)"
  then obtain c where "dropWhile (\<lambda>c. c \<noteq> CHR '']'') (drop (bracket_skip t) t) = c # rest"
    by (auto simp: split_bracket_def Let_def split: list.splits)
  then have "length (c # rest) \<le> length (drop (bracket_skip t) t)" by (metis length_dropWhile_le)
  then show ?thesis by simp
qed

function (sequential) glob_tokens :: "string \<Rightarrow> glob_token list" where
  "glob_tokens [] = []"
| "glob_tokens (c # cs) =
     (if c = CHR ''*'' then Star # glob_tokens cs
      else if c = CHR ''?'' then Any_Char # glob_tokens cs
      else if c = CHR ''['' then
        (case split_bracket cs of
           None \<Rightarrow> Literal c # glob_tokens cs
         | Some (stuff, rest) \<Rightarrow> bracket_token stuff # glob_tokens rest)
      else Literal c # glob_tokens cs)"
  by pat_completeness auto

termination
  by (relation "measure length") (auto dest: split_bracket_shorter)

fun token_accepts :: "glob_token \<Rightarrow> char \<Rightarrow> bool" where
  "token_accepts Star x = False"
| "token_accepts Any_Char x = True"
| "token_accepts (Literal c) x = (x = c)"
| "token_accepts (Char_Set positive items) x = (list_ex (\<lambda>(a, b). a \<le> x \<and> x \<le> b) items = positive)"
| "token_accepts Never x = False"

fun glob_match :: "glob_token list \<Rightarrow> string \<Rightarrow> bool" where
  "glob_match [] t = (t = [])"
| "glob_match (Star # ps) [] = glob_match ps []"
| "glob_match (Star # ps) (x # t) = (glob_match ps (x # t) \<or> glob_match (Star # ps) t)"
| "glob_match (p # ps) [] = False"
| "glob_match (p # ps) (x # t) = (token_accepts p x \<and> glob_match ps t)"

definition matches :: "string \<Rightarrow> string \<Rightarrow> bool" where
  "matches pattern value = (pattern \<noteq> [] \<and> glob_match (glob_tokens pattern) value)"

section \<open>Laws\<close>

lemma glob_match_Star: "glob_match (Star # ps) t \<longleftrightarrow> (\<exists>u v. t = u @ v \<and> glob_match ps v)"
proof (induction t)
  case Nil
  then show ?case by simp
next
  case (Cons x t)
  have "(\<exists>u v. x # t = u @ v \<and> glob_match ps v) \<longleftrightarrow> glob_match ps (x # t) \<or> (\<exists>u v. t = u @ v \<and> glob_match ps v)"
    by (metis append_Cons append_Nil append_eq_Cons_conv)
  with Cons.IH show ?case by simp
qed

definition plain_char :: "char \<Rightarrow> bool" where
  "plain_char c = (c \<notin> {CHR ''*'', CHR ''?'', CHR ''[''})"

lemma glob_tokens_plain: "list_all plain_char p \<Longrightarrow> glob_tokens (p @ q) = map Literal p @ glob_tokens q"
  by (induction p) (auto simp: plain_char_def)

lemma glob_match_literals: "glob_match (map Literal p @ ps) t \<longleftrightarrow> (\<exists>v. t = p @ v \<and> glob_match ps v)"
proof (induction p arbitrary: t)
  case Nil
  then show ?case by simp
next
  case (Cons c p)
  then show ?case by (cases t) auto
qed

lemma matches_literal: "list_all plain_char p \<Longrightarrow> matches p t \<longleftrightarrow> p \<noteq> [] \<and> t = p"
  using glob_tokens_plain [of p "[]"] glob_match_literals [of p "[]" t] by (auto simp: matches_def)

lemma matches_prefix: "list_all plain_char p \<Longrightarrow> matches (p @ ''*'') t \<longleftrightarrow> (\<exists>v. t = p @ v)"
  using glob_tokens_plain [of p "''*''"] by (simp add: matches_def glob_match_literals glob_match_Star)

end
