(* ===== verification/Effects.thy ===== *)
theory Effects
  imports Actors Glob
begin

text \<open>
  Effect authority: \<open>grant_effect\<close>, \<open>revoke_effect_grant\<close>, \<open>check_effect\<close>, \<open>start_effect\<close> and
  \<open>resolve_effect\<close> of \<open>service.py\<close>, and the recovery of \<open>effects.py\<close>. A grant names what a
  principal may do by patterns and digests; starting an effect consumes a one-time grant and
  reserves an operation in the same transaction; an operation is resolved once.

  Identifiers drawn by \<open>_id\<close> are arguments. The SQLite constraints the statements rely on
  (primary keys, foreign keys, the partial unique index of unresolved operations) are checks
  that end in \<open>IntegrityError\<close>.
\<close>

section \<open>Requests\<close>

record effect_grant_input =
  eg_principal_id :: ident
  eg_kind :: effect_kind
  eg_target_pattern :: string
  eg_action_pattern :: string
  eg_content_digest :: string
  eg_argv_digest :: string
  eg_workdir_digest :: string
  eg_expires_at :: "timestamp option"
  eg_standing :: bool

record effect_check_input =
  ec_principal_id :: ident
  ec_kind :: effect_kind
  ec_target :: string
  ec_action :: string
  ec_content_digest :: string
  ec_argv_digest :: string
  ec_workdir_digest :: string
  ec_cleanup_work_item_id :: string
  ec_cleanup_generation :: "int option"
  ec_cleanup_preparation_id :: string
  ec_cleanup_target_kind :: string
  ec_cleanup_target_fingerprint :: string
  ec_cleanup_execution_digest :: string

definition grant_input_json :: "effect_grant_input \<Rightarrow> (string \<times> json) list" where
  "grant_input_json q = [(''principal_id'', jstr (eg_principal_id q)), (''kind'', jstr (effect_kind_value (eg_kind q))),
     (''target_pattern'', jstr (eg_target_pattern q)), (''action_pattern'', jstr (eg_action_pattern q)),
     (''content_digest'', jstr (eg_content_digest q)), (''argv_digest'', jstr (eg_argv_digest q)),
     (''workdir_digest'', jstr (eg_workdir_digest q)), (''expires_at'', jopt jtime (eg_expires_at q)),
     (''standing'', JBool (eg_standing q))]"

definition check_input_json :: "effect_check_input \<Rightarrow> (string \<times> json) list" where
  "check_input_json q = [(''principal_id'', jstr (ec_principal_id q)), (''kind'', jstr (effect_kind_value (ec_kind q))),
     (''target'', jstr (ec_target q)), (''action'', jstr (ec_action q)),
     (''content_digest'', jstr (ec_content_digest q)), (''argv_digest'', jstr (ec_argv_digest q)),
     (''workdir_digest'', jstr (ec_workdir_digest q)), (''cleanup_work_item_id'', jstr (ec_cleanup_work_item_id q)),
     (''cleanup_generation'', jint_opt (ec_cleanup_generation q)),
     (''cleanup_preparation_id'', jstr (ec_cleanup_preparation_id q)),
     (''cleanup_target_kind'', jstr (ec_cleanup_target_kind q)),
     (''cleanup_target_fingerprint'', jstr (ec_cleanup_target_fingerprint q)),
     (''cleanup_execution_digest'', jstr (ec_cleanup_execution_digest q))]"

text \<open>A cleanup binding is given in full or not at all; pydantic checks it before the service runs.\<close>

definition cleanup_binding_complete :: "effect_check_input \<Rightarrow> bool" where
  "cleanup_binding_complete q =
     ((ec_cleanup_work_item_id q = '''' \<and> ec_cleanup_generation q = None \<and> ec_cleanup_preparation_id q = ''''
       \<and> ec_cleanup_target_kind q = '''' \<and> ec_cleanup_target_fingerprint q = '''' \<and> ec_cleanup_execution_digest q = '''')
      \<or> (ec_cleanup_work_item_id q \<noteq> '''' \<and> ec_cleanup_generation q \<noteq> None \<and> ec_cleanup_preparation_id q \<noteq> ''''
       \<and> ec_cleanup_target_kind q \<noteq> '''' \<and> ec_cleanup_target_fingerprint q \<noteq> '''' \<and> ec_cleanup_execution_digest q \<noteq> ''''))"

section \<open>Grants\<close>

definition get_effect_grant :: "db \<Rightarrow> ident \<Rightarrow> grant_row cp" where
  "get_effect_grant s i = (case fetchone (\<lambda>g. g_id g = i) (effect_grants s) of
      None \<Rightarrow> Inl (NotFoundError ''effect grant'' i) | Some g \<Rightarrow> Inr g)"

definition get_effect_operation :: "db \<Rightarrow> ident \<Rightarrow> operation_row cp" where
  "get_effect_operation s i = (case fetchone (\<lambda>q. o_id q = i) (effect_operations s) of
      None \<Rightarrow> Inl (NotFoundError ''effect operation'' i) | Some q \<Rightarrow> Inr q)"

definition new_grant :: "env \<Rightarrow> ident \<Rightarrow> effect_grant_input \<Rightarrow> grant_row" where
  "new_grant e grant_id q = \<lparr>g_id = grant_id, g_principal_id = eg_principal_id q, g_kind = eg_kind q,
     g_target_pattern = eg_target_pattern q, g_action_pattern = eg_action_pattern q,
     g_content_digest = eg_content_digest q, g_argv_digest = eg_argv_digest q, g_workdir_digest = eg_workdir_digest q,
     g_expires_at = eg_expires_at q, g_standing = eg_standing q, g_consumed_at = None, g_created_at = env_now e\<rparr>"

definition grant_effect :: "env \<Rightarrow> actor \<Rightarrow> ident \<Rightarrow> effect_grant_input \<Rightarrow> db \<Rightarrow> (db \<times> grant_row) cp" where
  "grant_effect e a grant_id q s =
     bindE (require_role e s a [CAO]) (\<lambda>_.
     bindE (require (list_ex (\<lambda>p. p_id p = eg_principal_id q) (principals s))
              (NotFoundError ''principal'' (eg_principal_id q))) (\<lambda>_.
     bindE (transaction s (\<lambda>s.
        if list_ex (\<lambda>g. g_id g = grant_id) (effect_grants s) then Inl unique_violation
        else Inr (log_event e (mk_event ''effect.granted'' ''effect_grant'' grant_id (act_id a) (grant_input_json q))
                   (s\<lparr>effect_grants := effect_grants s @ [new_grant e grant_id q]\<rparr>), ()))) (\<lambda>(s', _).
     bindE (get_effect_grant s' grant_id) (\<lambda>g. Inr (s', g)))))"

text \<open>An operation that used a grant references it, without an action on delete.\<close>

definition revoke_effect_grant :: "env \<Rightarrow> actor \<Rightarrow> ident \<Rightarrow> db \<Rightarrow> (db \<times> grant_row) cp" where
  "revoke_effect_grant e a grant_id s =
     bindE (require_role e s a [CAO]) (\<lambda>_.
     bindE (get_effect_grant s grant_id) (\<lambda>grant.
     bindE (transaction s (\<lambda>s.
        if list_ex (\<lambda>q. o_grant_id q = Some grant_id) (effect_operations s) then Inl foreign_key_violation
        else Inr (log_event e (mk_event ''effect.grant_revoked'' ''effect_grant'' grant_id (act_id a) [])
                   (s\<lparr>effect_grants := filter (\<lambda>g. g_id g \<noteq> grant_id) (effect_grants s)\<rparr>), ()))) (\<lambda>(s', _).
     Inr (s', grant))))"

section \<open>The decision\<close>

datatype effect_decision =
    Verify_Remote ident
  | Allow_Effect "ident option" string
  | Approval_Required

fun decision_text :: "effect_decision \<Rightarrow> string" where
  "decision_text (Verify_Remote i) = ''verify_remote''"
| "decision_text (Allow_Effect g r) = ''allow''"
| "decision_text Approval_Required = ''approval_required''"

fun decision_reason :: "effect_decision \<Rightarrow> string" where
  "decision_reason (Verify_Remote i) = ''a previous operation has an unresolved outcome''"
| "decision_reason (Allow_Effect g r) = r"
| "decision_reason Approval_Required = ''no matching authority''"

fun decision_operation :: "effect_decision \<Rightarrow> ident option" where
  "decision_operation (Verify_Remote i) = Some i"
| "decision_operation _ = None"

definition unresolved :: "operation_row \<Rightarrow> bool" where
  "unresolved q = (o_status q \<in> {STARTED, EFFECT_UNKNOWN})"

definition unresolved_for :: "effect_check_input \<Rightarrow> operation_row \<Rightarrow> bool" where
  "unresolved_for q r = (o_principal_id r = ec_principal_id q \<and> o_target r = ec_target q
     \<and> o_action r = ec_action q \<and> unresolved r)"

definition digest_ok :: "string \<Rightarrow> string \<Rightarrow> bool" where
  "digest_ok bound actual = (bound = '''' \<or> bound = actual)"

definition grant_covers :: "env \<Rightarrow> effect_check_input \<Rightarrow> grant_row \<Rightarrow> bool" where
  "grant_covers e q g =
     (\<not> (g_consumed_at g \<noteq> None \<and> \<not> g_standing g)
      \<and> \<not> is_expired e (g_expires_at g)
      \<and> matches (g_target_pattern g) (ec_target q)
      \<and> matches (g_action_pattern g) (ec_action q)
      \<and> digest_ok (g_content_digest g) (ec_content_digest q)
      \<and> digest_ok (g_argv_digest g) (ec_argv_digest q)
      \<and> digest_ok (g_workdir_digest g) (ec_workdir_digest q))"

definition principal_grants :: "db \<Rightarrow> effect_check_input \<Rightarrow> grant_row list" where
  "principal_grants s q = sort_key g_created_at
     (filter (\<lambda>g. g_principal_id g = ec_principal_id q \<and> g_kind g = ec_kind q) (effect_grants s))"

definition effect_decision_tx :: "env \<Rightarrow> effect_check_input \<Rightarrow> db \<Rightarrow> effect_decision cp" where
  "effect_decision_tx e q s =
     (if \<not> list_ex (\<lambda>p. p_id p = ec_principal_id q \<and> p_enabled p) (principals s)
      then Inl (NotFoundError ''enabled principal'' (ec_principal_id q))
      else (case last_by o_created_at (filter (unresolved_for q) (effect_operations s)) of
          Some r \<Rightarrow> Inr (Verify_Remote (o_id r))
        | None \<Rightarrow>
            if ec_kind q = LOCAL then Inr (Allow_Effect None ''local reversible effect'')
            else (case fetchone (grant_covers e q) (principal_grants s q) of
                Some g \<Rightarrow> Inr (Allow_Effect (Some (g_id g)) ''matching authority'')
              | None \<Rightarrow> Inr Approval_Required)))"

definition check_effect :: "env \<Rightarrow> effect_check_input \<Rightarrow> db \<Rightarrow> effect_decision cp" where
  "check_effect e q s = effect_decision_tx e q s"

section \<open>Starting an effect\<close>

fun inventory_expects :: "env \<Rightarrow> json option \<Rightarrow> string \<Rightarrow> string \<Rightarrow> string \<Rightarrow> bool" where
  "inventory_expects e (Some (JArr items)) kind fingerprint action =
     list_ex (\<lambda>item. is_mapping item
       \<and> py_str e (jget item ''target_kind'') = u kind
       \<and> py_str e (jget item ''target_fingerprint'') = u fingerprint
       \<and> py_str e (jget item ''action'') = u action) items"
| "inventory_expects e _ kind fingerprint action = False"

definition cleanup_prepared :: "env \<Rightarrow> effect_check_input \<Rightarrow> db \<Rightarrow> bool" where
  "cleanup_prepared e q s =
     (case fetchone (\<lambda>p. wp_work_item_id p = ec_cleanup_work_item_id q
              \<and> sql_eq (Some (wp_work_generation p)) (ec_cleanup_generation q)) (close_preparations s) of
        None \<Rightarrow> False
      | Some p \<Rightarrow> wp_id p = ec_cleanup_preparation_id q
          \<and> service_digest (env_sha e) (case wp_inventory p of None \<Rightarrow> JNull | Some v \<Rightarrow> v) = wp_inventory_digest p
          \<and> inventory_expects e (wp_inventory p) (ec_cleanup_target_kind q) (ec_cleanup_target_fingerprint q) (ec_action q)
          \<and> ec_target q = ec_cleanup_target_fingerprint q
          \<and> ec_content_digest q = ec_cleanup_execution_digest q)"

definition cleanup_work :: "effect_check_input \<Rightarrow> ident option" where
  "cleanup_work q = (if ec_cleanup_work_item_id q = '''' then None else Some (ec_cleanup_work_item_id q))"

definition new_operation :: "env \<Rightarrow> ident \<Rightarrow> effect_check_input \<Rightarrow> ident option \<Rightarrow> operation_row" where
  "new_operation e operation_id q grant_id = \<lparr>o_id = operation_id, o_principal_id = ec_principal_id q, o_kind = ec_kind q,
     o_target = ec_target q, o_action = ec_action q, o_content_digest = ec_content_digest q,
     o_argv_digest = ec_argv_digest q, o_workdir_digest = ec_workdir_digest q, o_status = STARTED, o_evidence = '''',
     o_grant_id = grant_id, o_cleanup_work_item_id = cleanup_work q,
     o_cleanup_generation = ec_cleanup_generation q, o_cleanup_preparation_id = ec_cleanup_preparation_id q,
     o_cleanup_target_kind = ec_cleanup_target_kind q, o_cleanup_target_fingerprint = ec_cleanup_target_fingerprint q,
     o_cleanup_execution_digest = ec_cleanup_execution_digest q, o_created_at = env_now e, o_updated_at = env_now e\<rparr>"

text \<open>The columns of the unresolved index; \<open>NULL\<close>s are never equal to each other in it.\<close>

definition same_unresolved_key :: "operation_row \<Rightarrow> operation_row \<Rightarrow> bool" where
  "same_unresolved_key r r' = (o_principal_id r = o_principal_id r' \<and> o_kind r = o_kind r' \<and> o_target r = o_target r'
     \<and> o_action r = o_action r' \<and> o_content_digest r = o_content_digest r' \<and> o_argv_digest r = o_argv_digest r'
     \<and> o_workdir_digest r = o_workdir_digest r'
     \<and> o_cleanup_target_kind r = o_cleanup_target_kind r'
     \<and> o_cleanup_target_fingerprint r = o_cleanup_target_fingerprint r')"

definition operation_conflicts :: "operation_row list \<Rightarrow> operation_row \<Rightarrow> bool" where
  "operation_conflicts rows r = list_ex (\<lambda>r'. o_id r' = o_id r
     \<or> (same_unresolved_key r r' \<and> unresolved r \<and> unresolved r' \<and> o_kind r \<noteq> LOCAL
        \<and> sql_eq (o_cleanup_work_item_id r) (o_cleanup_work_item_id r')
        \<and> sql_eq (o_cleanup_generation r) (o_cleanup_generation r'))) rows"

definition dangling_cleanup :: "db \<Rightarrow> operation_row \<Rightarrow> bool" where
  "dangling_cleanup s r = (case o_cleanup_work_item_id r of None \<Rightarrow> False | Some w \<Rightarrow> get_work s w = None)"

definition unresolved_twin :: "operation_row \<Rightarrow> operation_row \<Rightarrow> bool" where
  "unresolved_twin r r' = (same_unresolved_key r r' \<and> o_cleanup_work_item_id r' = o_cleanup_work_item_id r
     \<and> o_cleanup_generation r' = o_cleanup_generation r \<and> unresolved r')"

definition insert_operation :: "operation_row \<Rightarrow> db \<Rightarrow> db cp" where
  "insert_operation r s =
     (if operation_conflicts (effect_operations s) r \<or> dangling_cleanup s r
      then (case fetchone (unresolved_twin r) (effect_operations s) of
          Some r' \<Rightarrow> Inl (AuthorizationError ''effect outcome must be verified before another reservation''
                [(''decision'', jstr ''verify_remote''), (''operation_id'', jstr (o_id r'))])
        | None \<Rightarrow> Inl (if operation_conflicts (effect_operations s) r then unique_violation else foreign_key_violation))
      else Inr (s\<lparr>effect_operations := effect_operations s @ [r]\<rparr>))"

text \<open>Consuming the grant a decision names; a standing grant is left as it is.\<close>

definition consume_grant :: "env \<Rightarrow> ident option \<Rightarrow> db \<Rightarrow> db cp" where
  "consume_grant e grant_id s =
     (case grant_id of
        None \<Rightarrow> Inr s
      | Some i \<Rightarrow> if i = '''' then Inr s
          else (case fetchone (\<lambda>g. g_id g = i) (effect_grants s) of
            None \<Rightarrow> Inl (ConflictError ''effect grant disappeared before reservation'' [])
          | Some g \<Rightarrow>
              if g_standing g then Inr s
              else if g_consumed_at g \<noteq> None
              then Inl (ConflictError ''one-time effect grant has already been consumed'' [])
              else Inr (s\<lparr>effect_grants := update_rows (\<lambda>g. g_id g = i)
                     (\<lambda>g. g\<lparr>g_consumed_at := Some (env_now e)\<rparr>) (effect_grants s)\<rparr>)))"

fun decided_grant :: "effect_decision \<Rightarrow> ident option" where
  "decided_grant (Allow_Effect g r) = g"
| "decided_grant _ = None"

definition start_effect_tx ::
  "env \<Rightarrow> actor \<Rightarrow> ident \<Rightarrow> effect_check_input \<Rightarrow> db \<Rightarrow> (db \<times> unit) cp" where
  "start_effect_tx e a operation_id q s =
     bindE (require (ec_cleanup_work_item_id q = '''' \<or> cleanup_prepared e q s)
              (ConflictError ''cleanup effect does not target a prepared close inventory item'' [])) (\<lambda>_.
     bindE (effect_decision_tx e q s) (\<lambda>decision.
     bindE (require (decision_text decision = ''allow'')
              (AuthorizationError ''effect is not authorized''
                 [(''decision'', jstr (decision_text decision)), (''reason'', jstr (decision_reason decision)),
                  (''operation_id'', jstr_opt (decision_operation decision))])) (\<lambda>_.
     bindE (consume_grant e (decided_grant decision) s) (\<lambda>s1.
     bindE (insert_operation (new_operation e operation_id q (decided_grant decision)) s1) (\<lambda>s2.
     Inr (log_event e (mk_event ''effect.started'' ''effect_operation'' operation_id (act_id a) (check_input_json q)) s2, ()))))))"

definition start_effect ::
  "env \<Rightarrow> actor \<Rightarrow> ident \<Rightarrow> effect_check_input \<Rightarrow> db \<Rightarrow> (db \<times> operation_row) cp" where
  "start_effect e a operation_id q s =
     bindE (if act_id a \<noteq> ec_principal_id q then require_role e s a [CAO] else Inr ()) (\<lambda>_.
     bindE (transaction s (start_effect_tx e a operation_id q)) (\<lambda>(s', _).
     bindE (get_effect_operation s' operation_id) (\<lambda>r. Inr (s', r))))"

section \<open>Resolving an effect\<close>

text \<open>
  \<open>resolve_effect\<close> reads and checks the operation first and writes in a later transaction that
  does not look at the status again; the two halves are separate definitions.
\<close>

definition resolve_effect_check :: "env \<Rightarrow> actor \<Rightarrow> ident \<Rightarrow> effect_status \<Rightarrow> db \<Rightarrow> unit cp" where
  "resolve_effect_check e a operation_id status s =
     bindE (get_effect_operation s operation_id) (\<lambda>r.
     bindE (if act_id a \<noteq> o_principal_id r then require_role e s a [CAO] else Inr ()) (\<lambda>_.
     bindE (require (o_status r \<notin> {EFFECT_SUCCEEDED, EFFECT_NOT_APPLIED, EFFECT_FAILED})
              (ConflictError ''effect operation is already resolved'' [(''status'', jstr (effect_status_value (o_status r)))])) (\<lambda>_.
     require (status \<noteq> STARTED) (ValidationError ''effect cannot be resolved back to started'' []))))"

definition resolve_effect_write :: "env \<Rightarrow> actor \<Rightarrow> ident \<Rightarrow> effect_status \<Rightarrow> string \<Rightarrow> db \<Rightarrow> (db \<times> operation_row) cp" where
  "resolve_effect_write e a operation_id status evidence s =
     bindE (transaction s (\<lambda>s. Inr (log_event e
        (mk_event ''effect.resolved'' ''effect_operation'' operation_id (act_id a)
          [(''status'', jstr (effect_status_value status)), (''evidence'', jstr evidence)])
        (s\<lparr>effect_operations := update_rows (\<lambda>r. o_id r = operation_id)
             (\<lambda>r. r\<lparr>o_status := status, o_evidence := evidence, o_updated_at := env_now e\<rparr>) (effect_operations s)\<rparr>), ())))
     (\<lambda>(s', _). bindE (get_effect_operation s' operation_id) (\<lambda>r. Inr (s', r)))"

definition resolve_effect :: "env \<Rightarrow> actor \<Rightarrow> ident \<Rightarrow> effect_status \<Rightarrow> string \<Rightarrow> db \<Rightarrow> (db \<times> operation_row) cp" where
  "resolve_effect e a operation_id status evidence s =
     bindE (resolve_effect_check e a operation_id status s) (\<lambda>_. resolve_effect_write e a operation_id status evidence s)"

text \<open>\<open>EffectExecutor.recover_incomplete\<close>: every operation a crash left started becomes unknown.\<close>

definition recover_evidence :: string where
  "recover_evidence = ''executor restarted after durable reservation; verify target state''"

definition started_ids :: "db \<Rightarrow> ident list" where
  "started_ids s = List.map o_id (sort_key o_created_at (filter (\<lambda>r. o_status r = STARTED) (effect_operations s)))"

definition recover_incomplete :: "env \<Rightarrow> actor \<Rightarrow> db \<Rightarrow> (db \<times> nat) cp" where
  "recover_incomplete e a s =
     bindE (foldE (\<lambda>s i. bindE (resolve_effect e a i EFFECT_UNKNOWN recover_evidence s) (\<lambda>(s', _). Inr s')) s (started_ids s))
       (\<lambda>s'. Inr (s', length (started_ids s)))"

end
