(* ===== verification/Effects_Safety.thy ===== *)
theory Effects_Safety
  imports Effects
begin

text \<open>
  What effect authority guarantees: a one-time grant authorizes at most one operation, an
  unresolved operation blocks the next one on the same target, a started effect is covered by
  its grant, a resolved operation stays resolved, and recovery leaves nothing started.
\<close>

section \<open>Transactions on grants and operations\<close>

inductive effect_step :: "db \<Rightarrow> db \<Rightarrow> bool" where
  grant: "grant_id \<noteq> '''' \<Longrightarrow> grant_effect e a grant_id q s = Inr (s', g) \<Longrightarrow> effect_step s s'"
| revoke: "revoke_effect_grant e a grant_id s = Inr (s', g) \<Longrightarrow> effect_step s s'"
| start: "start_effect e a operation_id q s = Inr (s', r) \<Longrightarrow> effect_step s s'"
| resolve_write: "resolve_effect_write e a operation_id status evidence s = Inr (s', r) \<Longrightarrow> effect_step s s'"

inductive_cases effect_stepE: "effect_step s s'"

text \<open>The same with a resolution whose check and write are not interrupted.\<close>

inductive atomic_effect_step :: "db \<Rightarrow> db \<Rightarrow> bool" where
  a_grant: "grant_id \<noteq> '''' \<Longrightarrow> grant_effect e a grant_id q s = Inr (s', g) \<Longrightarrow> atomic_effect_step s s'"
| a_revoke: "revoke_effect_grant e a grant_id s = Inr (s', g) \<Longrightarrow> atomic_effect_step s s'"
| a_start: "start_effect e a operation_id q s = Inr (s', r) \<Longrightarrow> atomic_effect_step s s'"
| a_resolve: "resolve_effect e a operation_id status evidence s = Inr (s', r) \<Longrightarrow> atomic_effect_step s s'"

lemma grant_effectD:
  assumes "grant_effect e a grant_id q s = Inr (s', g)"
  shows "effect_grants s' = effect_grants s @ [new_grant e grant_id q]" "effect_operations s' = effect_operations s"
    "\<forall>x\<in>set (effect_grants s). g_id x \<noteq> grant_id"
  using assms by (auto simp: grant_effect_def bindE_Inr_iff transaction_Inr_iff list_ex_iff split: if_splits)

lemma revoke_grantD:
  assumes "revoke_effect_grant e a grant_id s = Inr (s', g)"
  shows "effect_grants s' = filter (\<lambda>x. g_id x \<noteq> grant_id) (effect_grants s)"
    "effect_operations s' = effect_operations s"
    "\<forall>r\<in>set (effect_operations s). o_grant_id r \<noteq> Some grant_id"
  using assms by (auto simp: revoke_effect_grant_def bindE_Inr_iff transaction_Inr_iff list_ex_iff split: if_splits)

lemma resolve_writeD:
  assumes "resolve_effect_write e a i status evidence s = Inr (s', r)"
  shows "effect_grants s' = effect_grants s"
    "effect_operations s' = update_rows (\<lambda>r. o_id r = i)
       (\<lambda>r. r\<lparr>o_status := status, o_evidence := evidence, o_updated_at := env_now e\<rparr>) (effect_operations s)"
  using assms by (auto simp: resolve_effect_write_def bindE_Inr_iff transaction_Inr_iff)

lemma resolve_effectD:
  assumes "resolve_effect e a i status evidence s = Inr (s', r)"
  shows "resolve_effect_write e a i status evidence s = Inr (s', r)" "status \<noteq> STARTED"
    "\<exists>x. fetchone (\<lambda>q. o_id q = i) (effect_operations s) = Some x \<and> unresolved x"
  using assms
  by (auto simp: resolve_effect_def resolve_effect_check_def bindE_Inr_iff get_effect_operation_def unresolved_def
      split: option.splits if_splits) (metis effect_status.exhaust)+

text \<open>What a started effect has passed.\<close>

definition decision_clear :: "env \<Rightarrow> effect_check_input \<Rightarrow> ident option \<Rightarrow> db \<Rightarrow> bool" where
  "decision_clear e q grant_id s =
     (list_ex (\<lambda>p. p_id p = ec_principal_id q \<and> p_enabled p) (principals s)
      \<and> (\<forall>r\<in>set (effect_operations s). \<not> unresolved_for q r)
      \<and> (case grant_id of
           None \<Rightarrow> ec_kind q = LOCAL
         | Some i \<Rightarrow> \<exists>g\<in>set (effect_grants s). g_id g = i \<and> g_principal_id g = ec_principal_id q
              \<and> g_kind g = ec_kind q \<and> grant_covers e q g))"

lemma decision_allow:
  assumes "effect_decision_tx e q s = Inr d" and "decision_text d = ''allow''"
  shows "decision_clear e q (decided_grant d) s"
proof -
  have none: "filter (unresolved_for q) (effect_operations s) = []"
    using assms by (auto simp: effect_decision_tx_def split: if_splits option.splits)
  with assms show ?thesis
    by (auto simp: effect_decision_tx_def decision_clear_def principal_grants_def filter_empty_conv
        dest!: fetchone_SomeD split: if_splits option.splits)
qed

lemma start_effectD:
  assumes "start_effect e a operation_id q s = Inr (s', r)"
  obtains grant_id s1 where "decision_clear e q grant_id s" "consume_grant e grant_id s = Inr s1"
    "effect_grants s' = effect_grants s1"
    "effect_operations s' = effect_operations s @ [new_operation e operation_id q grant_id]"
    "\<forall>x\<in>set (effect_operations s). o_id x \<noteq> operation_id"
proof -
  from assms obtain d s1 s2 where d: "effect_decision_tx e q s = Inr d" "decision_text d = ''allow''"
    and s1: "consume_grant e (decided_grant d) s = Inr s1"
    and s2: "insert_operation (new_operation e operation_id q (decided_grant d)) s1 = Inr s2"
    and s': "effect_grants s' = effect_grants s2" "effect_operations s' = effect_operations s2"
    by (auto simp: start_effect_def start_effect_tx_def bindE_Inr_iff transaction_Inr_iff)
  have same: "effect_operations s1 = effect_operations s"
    using s1 by (auto simp: consume_grant_def split: option.splits if_splits)
  show thesis
    using s2 s' same
    by (intro that [OF decision_allow [OF d] s1])
      (auto simp: insert_operation_def operation_conflicts_def list_ex_iff new_operation_def split: if_splits option.splits)
qed

section \<open>One operation per one-time grant\<close>

definition uses :: "grant_row \<Rightarrow> operation_row list \<Rightarrow> nat" where
  "uses g ops = length (filter (\<lambda>r. o_grant_id r = Some (g_id g)) ops)"

definition grants_sound :: "db \<Rightarrow> bool" where
  "grants_sound s = (distinct (map g_id (effect_grants s))
     \<and> (\<forall>r\<in>set (effect_operations s). \<forall>i. o_grant_id r = Some i \<longrightarrow> i \<in> g_id ` set (effect_grants s))
     \<and> (\<forall>g\<in>set (effect_grants s). g_id g \<noteq> '''' \<and>
          (\<not> g_standing g \<longrightarrow> uses g (effect_operations s) \<le> (if g_consumed_at g = None then 0 else 1))))"

lemma uses_snoc: "uses g (ops @ [r]) = uses g ops + (if o_grant_id r = Some (g_id g) then 1 else 0)"
  by (simp add: uses_def)

lemma uses_0_iff: "uses g ops = 0 \<longleftrightarrow> (\<forall>r\<in>set ops. o_grant_id r \<noteq> Some (g_id g))"
  by (simp add: uses_def filter_empty_conv)

lemma uses_update:
  "(\<And>r. o_grant_id (f r) = o_grant_id r) \<Longrightarrow> uses g (update_rows p f ops) = uses g ops"
  by (induction ops) (auto simp: uses_def)

lemma grant_sound_step:
  assumes "grants_sound s" and "grant_id \<noteq> ''''" and "grant_effect e a grant_id q s = Inr (s', g)"
  shows "grants_sound s'"
proof -
  note D = grant_effectD [OF assms(3)]
  have "\<forall>r\<in>set (effect_operations s). o_grant_id r \<noteq> Some grant_id"
    using assms(1) D(3) by (force simp: grants_sound_def)
  then have "uses (new_grant e grant_id q) (effect_operations s) = 0"
    by (simp add: uses_0_iff new_grant_def)
  with assms(1,2) D show ?thesis
    by (auto simp: grants_sound_def new_grant_def)
qed

lemma revoke_sound_step:
  "grants_sound s \<Longrightarrow> revoke_effect_grant e a grant_id s = Inr (s', g) \<Longrightarrow> grants_sound s'"
  using revoke_grantD [of e a grant_id s s' g]
  by (auto simp: grants_sound_def distinct_map_filter) blast

lemma resolve_sound_step:
  "grants_sound s \<Longrightarrow> resolve_effect_write e a i status evidence s = Inr (s', r) \<Longrightarrow> grants_sound s'"
  using resolve_writeD [of e a i status evidence s s' r]
  by (auto simp: grants_sound_def uses_update set_update_rows)

lemma sound_append:
  assumes "grants_sound s" and "effect_grants s' = effect_grants s" and "effect_operations s' = effect_operations s @ [r]"
    and "\<And>i. o_grant_id r = Some i \<Longrightarrow> i \<in> g_id ` set (effect_grants s)"
    and "\<And>x. x \<in> set (effect_grants s) \<Longrightarrow> o_grant_id r = Some (g_id x) \<Longrightarrow> g_standing x"
  shows "grants_sound s'"
proof -
  have "uses x (effect_operations s') = uses x (effect_operations s)"
    if "x \<in> set (effect_grants s)" "\<not> g_standing x" for x
    using that assms(3,5) by (auto simp: uses_snoc)
  moreover have "\<forall>q\<in>set (effect_operations s'). \<forall>i. o_grant_id q = Some i \<longrightarrow> i \<in> g_id ` set (effect_grants s)"
    using assms(1,3,4) by (simp add: grants_sound_def)
  ultimately show ?thesis
    using assms(1) by (simp add: grants_sound_def assms(2))
qed

definition consume :: "env \<Rightarrow> ident \<Rightarrow> grant_row list \<Rightarrow> grant_row list" where
  "consume e i = update_rows (\<lambda>g. g_id g = i) (\<lambda>g. g\<lparr>g_consumed_at := Some (env_now e)\<rparr>)"

lemma sound_consume:
  assumes "grants_sound s" and "g \<in> set (effect_grants s)" and "\<not> g_standing g" "g_consumed_at g = None"
    and "effect_grants s' = consume e (g_id g) (effect_grants s)"
    and "effect_operations s' = effect_operations s @ [r]" and "o_grant_id r = Some (g_id g)"
  shows "grants_sound s'"
proof -
  have ids: "map g_id (effect_grants s') = map g_id (effect_grants s)"
    by (simp add: assms(5) consume_def map_update_rows)
  have "\<forall>q\<in>set (effect_operations s'). \<forall>i. o_grant_id q = Some i \<longrightarrow> i \<in> g_id ` set (effect_grants s)"
    using assms(1,2,6,7) by (auto simp: grants_sound_def)
  moreover have "g_id ` set (effect_grants s') = g_id ` set (effect_grants s)"
    using ids by (metis set_map)
  moreover have "g_id x \<noteq> '''' \<and> (\<not> g_standing x \<longrightarrow> uses x (effect_operations s') \<le> (if g_consumed_at x = None then 0 else 1))"
    if x: "x \<in> set (effect_grants s')" for x
  proof -
    obtain y where y: "y \<in> set (effect_grants s)"
      "x = (if g_id y = g_id g then y\<lparr>g_consumed_at := Some (env_now e)\<rparr> else y)"
      using x by (auto simp: assms(5) consume_def set_update_rows)
    show ?thesis
    proof (cases "g_id y = g_id g")
      case True
      then have "y = g" using key_unique [of g_id "effect_grants s" y g] y(1) assms(1,2) by (simp add: grants_sound_def)
      moreover have "uses g (effect_operations s) = 0" using assms(1-4) by (auto simp: grants_sound_def)
      ultimately show ?thesis
        using y assms(1,2,6,7) by (auto simp: grants_sound_def uses_def)
    next
      case False
      with y assms(1,6,7) show ?thesis by (auto simp: grants_sound_def uses_snoc)
    qed
  qed
  ultimately show ?thesis
    using assms(1) ids by (simp add: grants_sound_def)
qed

lemma start_sound_step:
  assumes "grants_sound s" and "start_effect e a operation_id q s = Inr (s', r)"
  shows "grants_sound s'"
proof (rule start_effectD [OF assms(2)])
  fix grant_id s1
  assume clear: "decision_clear e q grant_id s" and s1: "consume_grant e grant_id s = Inr s1"
    and grants: "effect_grants s' = effect_grants s1"
    and ops: "effect_operations s' = effect_operations s @ [new_operation e operation_id q grant_id]"
  show "grants_sound s'"
  proof (cases grant_id)
    case None
    with s1 have "s1 = s" by (simp add: consume_grant_def)
    with grants ops None show ?thesis
      by (intro sound_append [OF assms(1)]) (auto simp: new_operation_def)
  next
    case (Some i)
    with clear obtain g where g: "g \<in> set (effect_grants s)" "g_id g = i" by (auto simp: decision_clear_def)
    have nonempty: "i \<noteq> ''''" using assms(1) g by (auto simp: grants_sound_def)
    have unique: "x = g" if "x \<in> set (effect_grants s)" "g_id x = i" for x
      using key_unique [of g_id "effect_grants s" x g] that g assms(1) by (simp add: grants_sound_def)
    have fetched: "fetchone (\<lambda>g. g_id g = i) (effect_grants s) = Some g"
      using g assms(1) by (intro fetchone_unique [where k = g_id]) (simp_all add: grants_sound_def)
    show ?thesis
    proof (cases "g_standing g")
      case True
      with s1 Some fetched nonempty have "s1 = s" by (simp add: consume_grant_def)
      have standing: "g_standing x" if "x \<in> set (effect_grants s)" "g_id x = i" for x
        using unique [OF that] True by simp
      from \<open>s1 = s\<close> grants ops Some g standing show ?thesis
        by (intro sound_append [OF assms(1)]) (auto simp: new_operation_def)
    next
      case False
      with s1 Some fetched nonempty have "g_consumed_at g = None" "effect_grants s1 = consume e i (effect_grants s)"
        by (auto simp: consume_grant_def consume_def split: if_splits)
      with grants ops Some g False show ?thesis
        by (intro sound_consume [OF assms(1) g(1), where r = "new_operation e operation_id q grant_id"])
          (simp_all, simp add: new_operation_def)
    qed
  qed
qed

lemma effect_step_sound: "effect_step s s' \<Longrightarrow> grants_sound s \<Longrightarrow> grants_sound s'"
  by (erule effect_stepE) (auto intro: grant_sound_step revoke_sound_step start_sound_step resolve_sound_step)

lemma effect_run_sound: "effect_step\<^sup>*\<^sup>* s s' \<Longrightarrow> grants_sound s \<Longrightarrow> grants_sound s'"
  by (induction rule: rtranclp_induct) (auto intro: effect_step_sound)

text \<open>C17: A one-time grant is used once. Whatever grants are issued and revoked, effects started and
  outcomes recorded, in any order and with any interleaving of resolutions, no grant that is not
  standing ever backs more than one operation, and one that has not been consumed backs none.
\<close>

theorem one_time_grant_used_once:
  assumes "effect_step\<^sup>*\<^sup>* s s'" and "grants_sound s"
    and "g \<in> set (effect_grants s')" and "\<not> g_standing g"
  shows "uses g (effect_operations s') \<le> (if g_consumed_at g = None then 0 else 1)"
  using effect_run_sound [OF assms(1,2)] assms(3,4) by (auto simp: grants_sound_def)

section \<open>Unresolved operations\<close>

lemma new_operation_simps [simp]:
  "o_id (new_operation e i q g) = i" "o_status (new_operation e i q g) = STARTED"
  "o_principal_id (new_operation e i q g) = ec_principal_id q" "o_target (new_operation e i q g) = ec_target q"
  "o_action (new_operation e i q g) = ec_action q" "o_kind (new_operation e i q g) = ec_kind q"
  by (simp_all add: new_operation_def)

text \<open>C18: No blind retry. While an operation of a principal on a target and action has an unresolved
  outcome (started or unknown), starting another effect on them never succeeds, whoever asks,
  whatever grants exist and of whatever kind the effect is; the decision is to verify the target.
\<close>

theorem unresolved_blocks_effect:
  assumes "r \<in> set (effect_operations s)" and "unresolved_for q r"
  shows "\<not> is_ok (start_effect e a operation_id q s)
    \<and> (\<forall>d. check_effect e q s = Inr d \<longrightarrow> decision_text d = ''verify_remote'')"
proof
  show "\<not> is_ok (start_effect e a operation_id q s)"
  proof
    assume "is_ok (start_effect e a operation_id q s)"
    then obtain s' x where "start_effect e a operation_id q s = Inr (s', x)"
      by (auto simp: is_ok_def split: sum.splits)
    from start_effectD [OF this] obtain g where "decision_clear e q g s" by metis
    with assms show False by (auto simp: decision_clear_def)
  qed
  have "filter (unresolved_for q) (effect_operations s) \<noteq> []"
    using assms by (auto simp: filter_empty_conv)
  then show "\<forall>d. check_effect e q s = Inr d \<longrightarrow> decision_text d = ''verify_remote''"
    by (auto simp: check_effect_def effect_decision_tx_def split: option.splits if_splits)
qed


text \<open>The invariant of uninterrupted resolutions: one unresolved operation per target and action.\<close>

definition conflicting :: "operation_row \<Rightarrow> operation_row \<Rightarrow> bool" where
  "conflicting r r' = (o_principal_id r = o_principal_id r' \<and> o_target r = o_target r' \<and> o_action r = o_action r'
     \<and> unresolved r \<and> unresolved r')"

definition unresolved_unique :: "db \<Rightarrow> bool" where
  "unresolved_unique s = (distinct (map o_id (effect_operations s))
     \<and> (\<forall>r\<in>set (effect_operations s). \<forall>r'\<in>set (effect_operations s). conflicting r r' \<longrightarrow> o_id r = o_id r'))"

lemma unresolved_unique_frame: "effect_operations s' = effect_operations s \<Longrightarrow> unresolved_unique s' = unresolved_unique s"
  by (simp add: unresolved_unique_def)

lemma start_unique_step:
  assumes "unresolved_unique s" and "start_effect e a operation_id q s = Inr (s', r)"
  shows "unresolved_unique s'"
proof (rule start_effectD [OF assms(2)])
  fix grant_id s1
  assume clear: "decision_clear e q grant_id s" and fresh: "\<forall>x\<in>set (effect_operations s). o_id x \<noteq> operation_id"
    and ops: "effect_operations s' = effect_operations s @ [new_operation e operation_id q grant_id]"
  have "\<not> conflicting x (new_operation e operation_id q grant_id)" "\<not> conflicting (new_operation e operation_id q grant_id) x"
    if "x \<in> set (effect_operations s)" for x
    using clear that by (auto simp: decision_clear_def conflicting_def unresolved_for_def)
  with assms(1) fresh ops show ?thesis by (auto simp: unresolved_unique_def)
qed

lemma unresolved_unique_key:
  assumes "unresolved_unique s" "y \<in> set (effect_operations s)" "z \<in> set (effect_operations s)" "o_id y = o_id z"
  shows "y = z"
  by (rule key_unique [of o_id "effect_operations s"]) (use assms in \<open>simp_all add: unresolved_unique_def\<close>)

lemma resolve_unique_step:
  assumes "unresolved_unique s" and "resolve_effect e a i status evidence s = Inr (s', r)"
  shows "unresolved_unique s'"
proof -
  let ?f = "\<lambda>r. r\<lparr>o_status := status, o_evidence := evidence, o_updated_at := env_now e\<rparr>"
  define g :: "operation_row \<Rightarrow> operation_row" where "g r = (if o_id r = i then ?f r else r)" for r
  have attrs: "o_principal_id (g y) = o_principal_id y" "o_target (g y) = o_target y" "o_action (g y) = o_action y"
    "o_id (g y) = o_id y" for y by (simp_all add: g_def)
  note D = resolve_effectD [OF assms(2)]
  from D(3) obtain x where x: "x \<in> set (effect_operations s)" "o_id x = i" "unresolved x"
    by (auto dest: fetchone_SomeD)
  have ops: "effect_operations s' = map g (effect_operations s)"
    using resolve_writeD(2) [OF D(1)] by (simp add: update_rows_def g_def)
  have was: "unresolved y" if "y \<in> set (effect_operations s)" "unresolved (g y)" for y
  proof (cases "o_id y = i")
    case True
    with x that(1) have "y = x" by (intro unresolved_unique_key [OF assms(1)]) simp_all
    with x(3) show ?thesis by simp
  next
    case False
    with that(2) show ?thesis by (simp add: g_def)
  qed
  have "o_id y = o_id z"
    if y: "y \<in> set (effect_operations s)" and z: "z \<in> set (effect_operations s)" and c: "conflicting (g y) (g z)" for y z
  proof -
    from c was [OF y] was [OF z] have "conflicting y z" by (simp add: conflicting_def attrs)
    with y z assms(1) show ?thesis by (simp add: unresolved_unique_def)
  qed
  moreover have "map o_id (effect_operations s') = map o_id (effect_operations s)"
    by (simp add: ops attrs)
  moreover have "set (effect_operations s') = g ` set (effect_operations s)" by (simp add: ops)
  ultimately show ?thesis
    using assms(1) by (simp add: unresolved_unique_def attrs)
qed

lemma atomic_step_unique: "atomic_effect_step s s' \<Longrightarrow> unresolved_unique s \<Longrightarrow> unresolved_unique s'"
proof (induction rule: atomic_effect_step.induct)
  case (a_grant grant_id e a q s s' g)
  then show ?case using unresolved_unique_frame [OF grant_effectD(2) [OF a_grant(2)]] by simp
next
  case (a_revoke e a grant_id s s' g)
  then show ?case using unresolved_unique_frame [OF revoke_grantD(2) [OF a_revoke(1)]] by simp
next
  case (a_start e a operation_id q s s' r)
  then show ?case by (rule start_unique_step [rotated])
next
  case (a_resolve e a i status evidence s s' r)
  then show ?case by (rule resolve_unique_step [rotated])
qed

text \<open>C20: At most one operation of a principal on a target and action is unresolved at any time, over any
  run of grants, revocations, starts and uninterrupted resolutions.
\<close>

theorem at_most_one_unresolved:
  assumes "atomic_effect_step\<^sup>*\<^sup>* s s'" and "unresolved_unique s"
    and "r \<in> set (effect_operations s')" "r' \<in> set (effect_operations s')" and "conflicting r r'"
  shows "r = r'"
proof -
  have "unresolved_unique s'" using assms(1,2)
    by (induction rule: rtranclp_induct) (auto intro: atomic_step_unique)
  with assms(3-5) show ?thesis
    by (intro unresolved_unique_key [of s']) (simp_all add: unresolved_unique_def)
qed

text \<open>C21: A resolved operation stays resolved. Over any run of grants, revocations, starts and
  uninterrupted resolutions, an operation that succeeded, was not applied or failed is never
  changed again.
\<close>

theorem resolved_operation_final:
  assumes "atomic_effect_step\<^sup>*\<^sup>* s s'" and "unresolved_unique s"
    and "r \<in> set (effect_operations s)" and "\<not> unresolved r"
  shows "r \<in> set (effect_operations s')"
  using assms(1)
proof (induction rule: rtranclp_induct)
  case base
  show ?case by (rule assms(3))
next
  case (step t t')
  have "unresolved_unique t" using step.hyps(1) assms(2)
    by (induction rule: rtranclp_induct) (auto intro: atomic_step_unique)
  with step.hyps(2) step.IH show ?case
  proof (induction rule: atomic_effect_step.induct)
    case (a_start e a operation_id q s s' x)
    from start_effectD [OF a_start(1)] obtain g
      where "effect_operations s' = effect_operations s @ [new_operation e operation_id q g]" by metis
    with a_start show ?case by simp
  next
    case (a_resolve e a i status evidence s s' x)
    note D = resolve_effectD [OF a_resolve(1)]
    from D(3) obtain y where "y \<in> set (effect_operations s)" "o_id y = i" "unresolved y"
      by (auto dest: fetchone_SomeD)
    with a_resolve(2,3) assms(4) have "o_id r \<noteq> i"
      using unresolved_unique_key [of s r y] by auto
    with a_resolve resolve_writeD(2) [OF D(1)] show ?case by (force simp: set_update_rows)
  qed (simp_all add: grant_effectD(2) revoke_grantD(2))
qed

section \<open>Recovery after a crash\<close>

definition plain_cao :: "actor \<Rightarrow> bool" where
  "plain_cao a = (act_role a = CAO \<and> act_runtime_credential_id a = '''' \<and> act_conversation_credential_id a = '''')"

definition fence_started :: "env \<Rightarrow> operation_row \<Rightarrow> operation_row" where
  "fence_started e r = r\<lparr>o_status := EFFECT_UNKNOWN, o_evidence := recover_evidence, o_updated_at := env_now e\<rparr>"

lemma plain_cao_role: "plain_cao a \<Longrightarrow> require_role e s a [CAO] = Inr ()"
  by (simp add: plain_cao_def require_role_def)

lemma recover_one:
  assumes "plain_cao a" "authority_mode s = Some ''canonical''"
    and "fetchone (\<lambda>q. o_id q = i) (effect_operations s) = Some r" "o_status r = STARTED"
  shows "\<exists>s' r'. resolve_effect e a i EFFECT_UNKNOWN recover_evidence s = Inr (s', r')
     \<and> authority_mode s' = Some ''canonical''
     \<and> effect_operations s' = update_rows (\<lambda>r. o_id r = i) (fence_started e) (effect_operations s)"
proof -
  have "fetchone (\<lambda>q. o_id q = i) (update_rows (\<lambda>r. o_id r = i) (fence_started e) ops) \<noteq> None"
    if "fetchone (\<lambda>q. o_id q = i) ops \<noteq> None" for ops :: "operation_row list"
    using that by (induction ops) (auto simp: fence_started_def)
  with assms(3) obtain r' where
    "fetchone (\<lambda>q. o_id q = i) (update_rows (\<lambda>r. o_id r = i) (fence_started e) (effect_operations s)) = Some r'"
    by force
  with assms plain_cao_role [OF assms(1)] show ?thesis
    by (simp add: resolve_effect_def resolve_effect_check_def resolve_effect_write_def get_effect_operation_def
        fence_started_def [abs_def] require_def)
qed

lemma recover_fold:
  assumes "plain_cao a" "authority_mode s = Some ''canonical''" "distinct (map o_id (effect_operations s))" "distinct ids"
    and "\<forall>i\<in>set ids. \<exists>r\<in>set (effect_operations s). o_id r = i \<and> o_status r = STARTED"
  shows "\<exists>s'. foldE (\<lambda>s i. bindE (resolve_effect e a i EFFECT_UNKNOWN recover_evidence s) (\<lambda>(s', _). Inr s')) s ids = Inr s'
     \<and> effect_operations s' = update_rows (\<lambda>r. o_id r \<in> set ids) (fence_started e) (effect_operations s)"
  using assms(2-)
proof (induction ids arbitrary: s)
  case Nil
  then show ?case by (simp add: update_rows_idle)
next
  case (Cons i ids)
  from Cons.prems(4) obtain r where r: "r \<in> set (effect_operations s)" "o_id r = i" "o_status r = STARTED" by auto
  then have "fetchone (\<lambda>q. o_id q = i) (effect_operations s) = Some r"
    using Cons.prems(2) by (intro fetchone_unique [where k = o_id]) simp_all
  from recover_one [OF assms(1) Cons.prems(1) this r(3), of e] obtain s1 r1
    where s1: "resolve_effect e a i EFFECT_UNKNOWN recover_evidence s = Inr (s1, r1)"
      "authority_mode s1 = Some ''canonical''"
      "effect_operations s1 = update_rows (\<lambda>r. o_id r = i) (fence_started e) (effect_operations s)" by blast
  have "distinct (map o_id (effect_operations s1))"
    using Cons.prems(2) by (simp add: s1(3) map_update_rows fence_started_def)
  moreover have "\<forall>j\<in>set ids. \<exists>r\<in>set (effect_operations s1). o_id r = j \<and> o_status r = STARTED"
    using Cons.prems(3,4) by (fastforce simp: s1(3) set_update_rows)
  ultimately obtain s' where "foldE (\<lambda>s i. bindE (resolve_effect e a i EFFECT_UNKNOWN recover_evidence s) (\<lambda>(s', _). Inr s')) s1 ids = Inr s'"
    "effect_operations s' = update_rows (\<lambda>r. o_id r \<in> set ids) (fence_started e) (effect_operations s1)"
    using Cons.IH [OF s1(2)] Cons.prems(3) by auto
  moreover have "update_rows (\<lambda>r. o_id r \<in> set ids) (fence_started e) (update_rows (\<lambda>r. o_id r = i) (fence_started e) ops)
      = update_rows (\<lambda>r. o_id r \<in> set (i # ids)) (fence_started e) ops" for ops
    using Cons.prems(3) by (induction ops) (auto simp: fence_started_def)
  ultimately show ?case using s1 by auto
qed

text \<open>C22: Recovery terminates and fences every interrupted effect. For a CAO principal on the active
  authority it succeeds, turns every operation left started into unknown with the restart
  evidence, leaves every other operation as it is, and reports how many it fenced.
\<close>

theorem recovery_fences_started:
  assumes "plain_cao a" and "authority_mode s = Some ''canonical''" and "distinct (map o_id (effect_operations s))"
  shows "\<exists>s'. recover_incomplete e a s = Inr (s', rowcount (\<lambda>r. o_status r = STARTED) (effect_operations s))
    \<and> effect_operations s' = update_rows (\<lambda>r. o_status r = STARTED) (fence_started e) (effect_operations s)
    \<and> (\<forall>r\<in>set (effect_operations s'). o_status r \<noteq> STARTED)"
proof -
  have ids: "set (started_ids s) = o_id ` {r \<in> set (effect_operations s). o_status r = STARTED}"
    by (auto simp: started_ids_def)
  have started: "\<forall>i\<in>set (started_ids s). \<exists>r\<in>set (effect_operations s). o_id r = i \<and> o_status r = STARTED"
    by (auto simp: ids)
  have "distinct (started_ids s)"
    using assms(3) by (auto simp: started_ids_def distinct_map inj_on_def)
  from recover_fold [OF assms this started, of e] obtain s' where s':
    "foldE (\<lambda>s i. bindE (resolve_effect e a i EFFECT_UNKNOWN recover_evidence s) (\<lambda>(s', _). Inr s')) s (started_ids s) = Inr s'"
    "effect_operations s' = update_rows (\<lambda>r. o_id r \<in> set (started_ids s)) (fence_started e) (effect_operations s)"
    by blast
  have "(o_id r \<in> set (started_ids s)) = (o_status r = STARTED)" if "r \<in> set (effect_operations s)" for r
    using that assms(3) by (auto simp: ids distinct_map inj_on_def)
  then have ops: "effect_operations s' = update_rows (\<lambda>r. o_status r = STARTED) (fence_started e) (effect_operations s)"
    unfolding s'(2) by (simp add: update_rows_def)
  moreover have "length (started_ids s) = rowcount (\<lambda>r. o_status r = STARTED) (effect_operations s)"
    by (simp add: started_ids_def rowcount_def)
  ultimately show ?thesis
    using s'(1) by (auto simp: recover_incomplete_def set_update_rows fence_started_def)
qed

section \<open>Where the code falls short\<close>

text \<open>A grant that any operation has used, a standing one included, can never be revoked again.\<close>

lemma used_grant_not_revocable:
  assumes "r \<in> set (effect_operations s)" and "o_grant_id r = Some i"
  shows "\<not> is_ok (revoke_effect_grant e a i s)"
  using assms by (auto simp: revoke_effect_grant_def is_ok_def bindE_def transaction_def list_ex_iff
      split: sum.splits option.splits if_splits)

text \<open>
  A resolution whose check read an unresolved operation overwrites a terminal outcome that was
  committed between its check and its write.
\<close>

lemma resolve_race_overwrites:
  assumes "resolve_effect_check e a i EFFECT_UNKNOWN s0 = Inr ()"
    and "authority_mode s = Some ''canonical''"
    and "r \<in> set (effect_operations s)" "o_id r = i" "o_status r = EFFECT_SUCCEEDED"
    and "resolve_effect_write e a i EFFECT_UNKNOWN evidence s = Inr (s', x)"
  shows "\<exists>r'\<in>set (effect_operations s'). o_id r' = i \<and> o_status r' = EFFECT_UNKNOWN"
  using assms(3,4) resolve_writeD(2) [OF assms(6)]
  by (intro bexI [of _ "r\<lparr>o_status := EFFECT_UNKNOWN, o_evidence := evidence, o_updated_at := env_now e\<rparr>"])
    (auto simp: set_update_rows image_iff)

section \<open>A small database\<close>

definition effect_env :: env where
  "effect_env = fixed_env 100"

definition effect_actor :: "ident \<Rightarrow> principal_role \<Rightarrow> actor" where
  "effect_actor i role = bare_actor i role"

definition effect_request :: effect_check_input where
  "effect_request = \<lparr>ec_principal_id = ''w'', ec_kind = EXTERNAL_EFFECT, ec_target = ''prod'', ec_action = ''deploy'',
     ec_content_digest = '''', ec_argv_digest = '''', ec_workdir_digest = '''', ec_cleanup_work_item_id = '''',
     ec_cleanup_generation = None, ec_cleanup_preparation_id = '''', ec_cleanup_target_kind = '''',
     ec_cleanup_target_fingerprint = '''', ec_cleanup_execution_digest = ''''\<rparr>"

definition effect_grant_row :: grant_row where
  "effect_grant_row = \<lparr>g_id = ''g'', g_principal_id = ''w'', g_kind = EXTERNAL_EFFECT, g_target_pattern = ''prod'',
     g_action_pattern = ''deploy'', g_content_digest = '''', g_argv_digest = '''', g_workdir_digest = '''',
     g_expires_at = Some 200, g_standing = False, g_consumed_at = None, g_created_at = 0\<rparr>"

definition effect_db :: "operation_row list \<Rightarrow> db" where
  "effect_db ops = empty_db\<lparr>
     principals := [\<lparr>p_id = ''w'', p_role = WORKER, p_enabled = True, p_operator_scope = ''production''\<rparr>],
     effect_grants := [effect_grant_row], effect_operations := ops\<rparr>"

lemmas effect_sample_defs = effect_env_def fixed_env_def effect_actor_def bare_actor_def effect_request_def effect_grant_row_def effect_db_def empty_db_def

lemma sample_covers: "grant_covers effect_env effect_request effect_grant_row"
  by (simp add: grant_covers_def effect_sample_defs is_expired_def digest_ok_def matches_literal plain_char_def)

lemma sample_decision:
  "effect_decision_tx effect_env effect_request (effect_db []) = Inr (Allow_Effect (Some ''g'') ''matching authority'')"
proof -
  have "principal_grants (effect_db []) effect_request = [effect_grant_row]"
    by (simp add: principal_grants_def effect_sample_defs)
  then show ?thesis
    using sample_covers by (simp add: effect_decision_tx_def) (simp add: effect_sample_defs)
qed

lemma sample_start:
  "\<exists>s'. start_effect effect_env (effect_actor ''w'' WORKER) ''op1'' effect_request (effect_db [])
      = Inr (s', new_operation effect_env ''op1'' effect_request (Some ''g''))
    \<and> effect_grants s' = [effect_grant_row\<lparr>g_consumed_at := Some 100\<rparr>]
    \<and> effect_operations s' = [new_operation effect_env ''op1'' effect_request (Some ''g'')]"
  using sample_decision
  by (simp add: start_effect_def start_effect_tx_def transaction_def consume_grant_def insert_operation_def
      operation_conflicts_def dangling_cleanup_def get_effect_operation_def cleanup_work_def new_operation_def require_def effect_sample_defs)

lemma sample_sound: "grants_sound (effect_db [])" "unresolved_unique (effect_db [])"
  by (simp_all add: grants_sound_def unresolved_unique_def uses_def effect_sample_defs)

lemma one_time_grant_used_once_witness:
  "\<exists>s'. effect_step\<^sup>*\<^sup>* (effect_db []) s' \<and> length (effect_operations s') = 1
     \<and> uses (effect_grant_row\<lparr>g_consumed_at := Some 100\<rparr>) (effect_operations s') \<le> 1"
proof -
  obtain s' where s': "start_effect effect_env (effect_actor ''w'' WORKER) ''op1'' effect_request (effect_db [])
      = Inr (s', new_operation effect_env ''op1'' effect_request (Some ''g''))"
    "effect_grants s' = [effect_grant_row\<lparr>g_consumed_at := Some 100\<rparr>]" "length (effect_operations s') = 1"
    using sample_start by auto
  have run: "effect_step\<^sup>*\<^sup>* (effect_db []) s'" by (rule r_into_rtranclp, rule effect_step.start, rule s'(1))
  from one_time_grant_used_once [OF run sample_sound(1), of "effect_grant_row\<lparr>g_consumed_at := Some 100\<rparr>"] run s'(2,3)
  show ?thesis by (auto simp: effect_grant_row_def)
qed

lemma unresolved_blocks_effect_witness:
  "\<not> is_ok (start_effect effect_env (effect_actor ''w'' WORKER) ''op2'' effect_request
     (effect_db [new_operation effect_env ''op1'' effect_request (Some ''g'')]))"
  using unresolved_blocks_effect [of "new_operation effect_env ''op1'' effect_request (Some ''g'')"
      "effect_db [new_operation effect_env ''op1'' effect_request (Some ''g'')]" effect_request]
  by (simp add: effect_db_def unresolved_for_def unresolved_def)


lemma at_most_one_unresolved_witness:
  "\<exists>s'. atomic_effect_step\<^sup>*\<^sup>* (effect_db []) s' \<and> length (effect_operations s') = 1
     \<and> (\<forall>r\<in>set (effect_operations s'). \<forall>r'\<in>set (effect_operations s'). conflicting r r' \<longrightarrow> r = r')"
proof -
  obtain s' where s': "start_effect effect_env (effect_actor ''w'' WORKER) ''op1'' effect_request (effect_db [])
      = Inr (s', new_operation effect_env ''op1'' effect_request (Some ''g''))" "length (effect_operations s') = 1"
    using sample_start by auto
  have run: "atomic_effect_step\<^sup>*\<^sup>* (effect_db []) s'"
    by (rule r_into_rtranclp, rule atomic_effect_step.a_start, rule s'(1))
  from at_most_one_unresolved [OF run sample_sound(2)] run s'(2) show ?thesis by blast
qed

definition resolved_operation :: operation_row where
  "resolved_operation = (new_operation effect_env ''op0'' effect_request None)\<lparr>o_status := EFFECT_SUCCEEDED\<rparr>"

lemma resolved_operation_final_witness:
  "\<exists>s'. atomic_effect_step\<^sup>*\<^sup>* (effect_db [resolved_operation]) s' \<and> s' \<noteq> effect_db [resolved_operation]
     \<and> resolved_operation \<in> set (effect_operations s')"
proof -
  let ?s = "effect_db [resolved_operation]"
  let ?a = "effect_actor ''c'' CAO"
  obtain s' g where s': "revoke_effect_grant effect_env ?a ''g'' ?s = Inr (s', g)" "effect_grants s' = []"
    by (simp add: revoke_effect_grant_def require_role_def get_effect_grant_def transaction_def resolved_operation_def
        new_operation_def effect_sample_defs)
  have run: "atomic_effect_step\<^sup>*\<^sup>* ?s s'" by (rule r_into_rtranclp, rule atomic_effect_step.a_revoke, rule s'(1))
  have "resolved_operation \<in> set (effect_operations s')"
    by (rule resolved_operation_final [OF run])
      (simp_all add: effect_db_def unresolved_unique_def resolved_operation_def unresolved_def)
  moreover have "s' \<noteq> ?s" using s'(2) by (auto simp: effect_db_def)
  ultimately show ?thesis using run by blast
qed

lemma recovery_fences_started_witness:
  "\<exists>s'. recover_incomplete effect_env (effect_actor ''c'' CAO)
       (effect_db [resolved_operation, new_operation effect_env ''op1'' effect_request None]) = Inr (s', 1)
     \<and> (\<forall>r\<in>set (effect_operations s'). o_status r \<noteq> STARTED)"
  using recovery_fences_started [of "effect_actor ''c'' CAO"
      "effect_db [resolved_operation, new_operation effect_env ''op1'' effect_request None]" effect_env]
  by (auto simp: plain_cao_def effect_actor_def bare_actor_def effect_db_def empty_db_def resolved_operation_def)

end
