(* ===== verification/Worker_Purpose.thy ===== *)
theory Worker_Purpose
  imports Runtime_Diagnostics Events
begin

text \<open>
  The business purpose of a Worker: \<open>worker_purpose.py\<close>, the contract validation of
  \<open>models.WorkerPurposeContract\<close>, and \<open>_confirm_work_purpose_tx\<close> of \<open>service.py\<close>. A purpose is a
  sequence of immutable, digest-bound revisions; a command confirms the current version it read.
\<close>

definition PURPOSE_FORMAT :: string where
  "PURPOSE_FORMAT = ''cao-worker-purpose/v1''"

definition STRUCTURED_PURPOSE_FORMAT :: string where
  "STRUCTURED_PURPOSE_FORMAT = ''cao-worker-purpose/v2''"

section \<open>The purpose contract\<close>

record purpose_criterion =
  pcr_id :: pystr
  pcr_condition :: pystr
  pcr_evidence :: pystr

record purpose_contract =
  wpc_outcome :: pystr
  wpc_scope :: pystr
  wpc_criteria :: "purpose_criterion list"
  wpc_completion :: pystr
  wpc_authority :: pystr
  wpc_unmet_action :: pystr

text \<open>The white space of the pattern \<open>\S\<close>, a regular expression of the validation core.\<close>

definition pattern_space :: "nat \<Rightarrow> bool" where
  "pattern_space c = (9 \<le> c \<and> c \<le> 13 \<or> c = 32 \<or> 8192 \<le> c \<and> c \<le> 8202
     \<or> c \<in> {133, 160, 5760, 8232, 8233, 8239, 8287, 12288})"

text \<open>A text field: length and pattern are checked on the input, then it is stripped.\<close>

fun contract_text :: "json option \<Rightarrow> pystr option" where
  "contract_text (Some (JStr t)) =
     (if 1 \<le> length t \<and> length t \<le> 2000 \<and> list_ex (\<lambda>c. \<not> pattern_space c) t then Some (py_strip t) else None)"
| "contract_text _ = None"

definition criterion_id_ok :: "pystr \<Rightarrow> bool" where
  "criterion_id_ok t = (case t of [] \<Rightarrow> False
     | c # cs \<Rightarrow> 97 \<le> c \<and> c \<le> 122 \<and> length cs \<le> 63
         \<and> list_all (\<lambda>x. 97 \<le> x \<and> x \<le> 122 \<or> is_digit x \<or> x = 95 \<or> x = 45) cs)"

fun criterion_id :: "json option \<Rightarrow> pystr option" where
  "criterion_id (Some (JStr t)) = (if criterion_id_ok t then Some t else None)"
| "criterion_id _ = None"

definition only_keys :: "string list \<Rightarrow> (pystr \<times> json) list \<Rightarrow> bool" where
  "only_keys ks kvs = list_all (\<lambda>(k, v). k \<in> set (List.map u ks)) kvs"

fun validate_criterion :: "json \<Rightarrow> purpose_criterion option" where
  "validate_criterion (JObj kvs) =
     (case (criterion_id (jget (JObj kvs) ''id''), contract_text (jget (JObj kvs) ''condition''),
            contract_text (jget (JObj kvs) ''evidence'')) of
        (Some i, Some c, Some ev) \<Rightarrow>
          if only_keys [''id'', ''condition'', ''evidence''] kvs
          then Some \<lparr>pcr_id = i, pcr_condition = c, pcr_evidence = ev\<rparr> else None
      | _ \<Rightarrow> None)"
| "validate_criterion _ = None"

fun collect :: "'a option list \<Rightarrow> 'a list option" where
  "collect [] = Some []"
| "collect (None # xs) = None"
| "collect (Some x # xs) = (case collect xs of None \<Rightarrow> None | Some ys \<Rightarrow> Some (x # ys))"

fun validate_criteria :: "json option \<Rightarrow> purpose_criterion list option" where
  "validate_criteria (Some (JArr vs)) =
     (if 1 \<le> length vs \<and> length vs \<le> 16 then collect (List.map validate_criterion vs) else None)"
| "validate_criteria _ = None"

definition contract_size :: "purpose_contract \<Rightarrow> nat" where
  "contract_size c = length (wpc_outcome c) + length (wpc_scope c) + length (wpc_completion c)
     + length (wpc_authority c) + length (wpc_unmet_action c)
     + sum_list (List.map (\<lambda>x. length (pcr_id x) + length (pcr_condition x) + length (pcr_evidence x)) (wpc_criteria c))"

definition contract_fixed :: "purpose_contract \<Rightarrow> bool" where
  "contract_fixed c = (distinct (List.map pcr_id (wpc_criteria c)) \<and> contract_size c \<le> 8000)"

fun validate_contract :: "json \<Rightarrow> purpose_contract option" where
  "validate_contract (JObj kvs) =
     (let get = jget (JObj kvs) in
      case (contract_text (get ''outcome''), contract_text (get ''scope''), validate_criteria (get ''criteria''),
            contract_text (get ''completion''), contract_text (get ''authority''), contract_text (get ''unmet_action'')) of
        (Some oc, Some sc, Some cr, Some cm, Some au, Some un) \<Rightarrow>
          (let c = \<lparr>wpc_outcome = oc, wpc_scope = sc, wpc_criteria = cr, wpc_completion = cm,
                    wpc_authority = au, wpc_unmet_action = un\<rparr>
           in if only_keys [''outcome'', ''scope'', ''criteria'', ''completion'', ''authority'', ''unmet_action''] kvs
                 \<and> contract_fixed c then Some c else None)
      | _ \<Rightarrow> None)"
| "validate_contract _ = None"

definition criterion_json :: "purpose_criterion \<Rightarrow> json" where
  "criterion_json x = jobj [(''id'', JStr (pcr_id x)), (''condition'', JStr (pcr_condition x)),
     (''evidence'', JStr (pcr_evidence x))]"

definition contract_json :: "purpose_contract \<Rightarrow> json" where
  "contract_json c = jobj [(''outcome'', JStr (wpc_outcome c)), (''scope'', JStr (wpc_scope c)),
     (''criteria'', JArr (List.map criterion_json (wpc_criteria c))), (''completion'', JStr (wpc_completion c)),
     (''authority'', JStr (wpc_authority c)), (''unmet_action'', JStr (wpc_unmet_action c))]"

section \<open>Revisions\<close>

definition purpose_packet ::
  "ident \<Rightarrow> int \<Rightarrow> pystr \<Rightarrow> ident \<Rightarrow> ident \<Rightarrow> string \<Rightarrow> pystr \<Rightarrow> json option \<Rightarrow> json" where
  "purpose_packet thread version purpose actor_id attachment_id project_digest reason contract =
     jobj ([(''format'', jstr (if contract \<noteq> None then STRUCTURED_PURPOSE_FORMAT else PURPOSE_FORMAT)),
            (''worker_thread_id'', jstr thread), (''version'', JInt version), (''purpose'', JStr purpose),
            (''created_by'', jstr actor_id), (''supervisor_attachment_id'', jstr attachment_id),
            (''project_digest'', jstr project_digest), (''reason'', JStr reason)]
           @ (case contract of None \<Rightarrow> [] | Some c \<Rightarrow> [(''contract'', c)]))"

record purpose_view =
  pv_worker_thread_id :: ident
  pv_version :: int
  pv_text :: pystr
  pv_digest :: string
  pv_contract :: "json option"

definition purpose_view_json :: "purpose_view \<Rightarrow> json" where
  "purpose_view_json p = jobj ([(''worker_thread_id'', jstr (pv_worker_thread_id p)), (''version'', JInt (pv_version p)),
      (''text'', JStr (pv_text p)), (''digest'', jstr (pv_digest p))]
     @ (case pv_contract p of None \<Rightarrow> [] | Some c \<Rightarrow> [(''contract'', c)]))"

definition purpose_integrity_invalid :: cp_error where
  "purpose_integrity_invalid = ConflictError ''Worker business purpose integrity is invalid''
     [(''reason_code'', jstr ''worker_purpose_integrity_invalid'')]"

text \<open>The contract of a stored packet; \<open>None\<close> outside when reading it raises.\<close>

definition stored_contract :: "json \<Rightarrow> json option option" where
  "stored_contract stored =
     (if \<not> is_mapping stored then None
      else if jget stored ''format'' \<noteq> Some (jstr STRUCTURED_PURPOSE_FORMAT) then Some None
      else (case jget stored ''contract'' of
          None \<Rightarrow> None
        | Some v \<Rightarrow> (case validate_contract v of None \<Rightarrow> None | Some c \<Rightarrow> Some (Some (contract_json c)))))"

definition row_packet :: "purpose_row \<Rightarrow> json option \<Rightarrow> json" where
  "row_packet r contract = purpose_packet (wpr_worker_thread_id r) (wpr_version r) (wpr_purpose r) (wpr_created_by r)
     (wpr_supervisor_attachment_id r) (wpr_project_digest r) (wpr_reason r) contract"

definition purpose_row_view :: "env \<Rightarrow> purpose_row \<Rightarrow> purpose_view cp" where
  "purpose_row_view e r =
     (case wpr_packet r of
        None \<Rightarrow> Inl purpose_integrity_invalid
      | Some stored \<Rightarrow> (case stored_contract stored of
          None \<Rightarrow> Inl purpose_integrity_invalid
        | Some contract \<Rightarrow>
            if py_eq stored (row_packet r contract)
               \<and> canonical_sha256 (env_sha e) (row_packet r contract) = wpr_packet_digest r
            then Inr \<lparr>pv_worker_thread_id = wpr_worker_thread_id r, pv_version = wpr_version r,
                      pv_text = wpr_purpose r, pv_digest = wpr_packet_digest r, pv_contract = contract\<rparr>
            else Inl purpose_integrity_invalid))"

definition current_revision :: "db \<Rightarrow> ident \<Rightarrow> purpose_row option" where
  "current_revision s thread = last_by wpr_version (filter (\<lambda>r. wpr_worker_thread_id r = thread) (purpose_revisions s))"

definition worker_purpose_tx :: "env \<Rightarrow> db \<Rightarrow> ident \<Rightarrow> purpose_view option cp" where
  "worker_purpose_tx e s thread =
     (if thread = '''' then Inr None
      else (case current_revision s thread of
          None \<Rightarrow> Inr None
        | Some r \<Rightarrow> bindE (purpose_row_view e r) (\<lambda>p. Inr (Some p))))"

definition readable_worker_purpose_tx :: "env \<Rightarrow> db \<Rightarrow> ident \<Rightarrow> purpose_view option \<times> string" where
  "readable_worker_purpose_tx e s thread =
     (case worker_purpose_tx e s thread of
        Inl err \<Rightarrow> (None, ''invalid'')
      | Inr None \<Rightarrow> (None, ''unset'')
      | Inr (Some p) \<Rightarrow> (Some p, ''defined''))"

definition work_purpose_tx :: "env \<Rightarrow> db \<Rightarrow> ident \<Rightarrow> int \<Rightarrow> purpose_view option cp" where
  "work_purpose_tx e s work_item_id goal_version =
     (case fetchone (\<lambda>b. pb_work_item_id b = work_item_id \<and> pb_goal_version b = goal_version) (purpose_bindings s) of
        None \<Rightarrow> Inr None
      | Some b \<Rightarrow> (case fetchone (\<lambda>r. wpr_worker_thread_id r = pb_worker_thread_id b \<and> wpr_version r = pb_purpose_version b)
              (purpose_revisions s) of
          None \<Rightarrow> Inr None
        | Some r \<Rightarrow> bindE (purpose_row_view e r) (\<lambda>p. Inr (Some p))))"

definition bind_work_purpose_tx :: "ident \<Rightarrow> int \<Rightarrow> purpose_view option \<Rightarrow> db \<Rightarrow> db cp" where
  "bind_work_purpose_tx work_item_id goal_version purpose s =
     (case purpose of
        None \<Rightarrow> Inr s
      | Some p \<Rightarrow>
          if list_ex (\<lambda>b. pb_work_item_id b = work_item_id \<and> pb_goal_version b = goal_version) (purpose_bindings s)
          then Inl (PyError ''IntegrityError'' ''UNIQUE constraint failed'')
          else if \<not> list_ex (\<lambda>r. wpr_worker_thread_id r = pv_worker_thread_id p \<and> wpr_version r = pv_version p) (purpose_revisions s)
          then Inl (PyError ''IntegrityError'' ''FOREIGN KEY constraint failed'')
          else Inr (s\<lparr>purpose_bindings := purpose_bindings s @ [\<lparr>pb_work_item_id = work_item_id, pb_goal_version = goal_version,
                 pb_worker_thread_id = pv_worker_thread_id p, pb_purpose_version = pv_version p\<rparr>]\<rparr>))"

section \<open>Confirmation\<close>

definition purpose_confirmation_stale :: "int option \<Rightarrow> purpose_view \<Rightarrow> cp_error" where
  "purpose_confirmation_stale expected p =
     ConflictError (''Read the Worker'' @ [CHR 0x27] @ ''s current business purpose before deciding and confirm its version'')
       [(''reason_code'', jstr (if expected = None then ''worker_purpose_confirmation_required''
                              else ''worker_purpose_version_conflict'')),
        (''current_purpose_version'', JInt (pv_version p))]"

definition confirm_worker_purpose_tx :: "env \<Rightarrow> db \<Rightarrow> ident \<Rightarrow> int option \<Rightarrow> bool \<Rightarrow> purpose_view option cp" where
  "confirm_worker_purpose_tx e s thread expected required =
     (if (case expected of None \<Rightarrow> False | Some v \<Rightarrow> v < 0)
      then Inl (ValidationError ''purpose confirmation must be a nonnegative integer'' [])
      else bindE (worker_purpose_tx e s thread) (\<lambda>purpose.
        case purpose of
          None \<Rightarrow>
            if required
            then Inl (ConflictError (''Define this Worker'' @ [CHR 0x27] @ ''s business purpose from the requester direction before assigning a task; do not use the task or its constraints as purpose'')
                   [(''reason_code'', jstr ''worker_purpose_unset'')])
            else if expected \<notin> {None, Some 0}
            then Inl (ConflictError ''Worker business purpose confirmation is stale''
                   [(''reason_code'', jstr ''worker_purpose_version_conflict'')])
            else Inr None
        | Some p \<Rightarrow>
            if required \<and> pv_contract p = None
            then Inl (ConflictError ''Define the fixed purpose contract before assigning new managed work; preserve historical tasks''
                   [(''reason_code'', jstr ''worker_purpose_contract_required'')])
            else if expected \<noteq> Some (pv_version p) then Inl (purpose_confirmation_stale expected p)
            else Inr (Some p)))"

definition confirm_work_purpose :: "env \<Rightarrow> db \<Rightarrow> work_row \<Rightarrow> int option \<Rightarrow> purpose_view option cp" where
  "confirm_work_purpose e s w expected =
     confirm_worker_purpose_tx e s (str_or_empty (w_managed_worker_thread_id w)) expected False"

definition confirm_work_purpose_tx :: "env \<Rightarrow> ident \<Rightarrow> work_row \<Rightarrow> int option \<Rightarrow> string \<Rightarrow> db \<Rightarrow> db cp" where
  "confirm_work_purpose_tx e actor_id w expected decision s =
     bindE (confirm_work_purpose e s w expected) (\<lambda>purpose.
       case purpose of
         None \<Rightarrow> Inr s
       | Some p \<Rightarrow> Inr (log_event e ((mk_event ''work.purpose_confirmed'' ''work_item'' (w_id w) actor_id
             [(''decision'', jstr decision), (''worker_purpose'', purpose_view_json p)])
             \<lparr>ei_operator_scope := Some (w_operator_scope w)\<rparr>) s))"

definition purpose_alignment :: "purpose_view option \<Rightarrow> purpose_view option \<Rightarrow> json" where
  "purpose_alignment current assigned =
     (let changed = (case (current, assigned) of
            (None, None) \<Rightarrow> False
          | (Some p, Some q) \<Rightarrow> \<not> py_eq (purpose_view_json p) (purpose_view_json q)
          | _ \<Rightarrow> True)
      in jobj [(''status'', jstr (if changed then ''changed'' else if current \<noteq> None then ''current'' else ''unset'')),
               (''current_version'', jint_opt (map_option pv_version current)),
               (''assignment_version'', jint_opt (map_option pv_version assigned)),
               (''contract_defined'', JBool (case current of None \<Rightarrow> False
                   | Some p \<Rightarrow> (case pv_contract p of None \<Rightarrow> False | Some c \<Rightarrow> truthy c))),
               (''next_action'', jstr (if changed then ''retain_frozen_task_or_revise_at_safe_boundary'' else ''judge_frozen_task''))])"

section \<open>Confirmed purposes\<close>

text \<open>C23: A command acts on the purpose it read. When a purpose confirmation succeeds for a Worker that
  has a purpose, the confirmed version is the newest revision of that Worker, the packet stored
  with it agrees with every column of the revision, and the digest the command saw is the digest
  of exactly that packet; a stale, missing or tampered revision is refused.
\<close>

theorem purpose_confirmation_exact:
  assumes "confirm_worker_purpose_tx e s thread expected required = Inr (Some p)"
  shows "expected = Some (pv_version p) \<and> (required \<longrightarrow> pv_contract p \<noteq> None)
    \<and> (\<exists>r\<in>set (purpose_revisions s). wpr_worker_thread_id r = thread \<and> wpr_version r = pv_version p
        \<and> (\<forall>r'\<in>set (purpose_revisions s). wpr_worker_thread_id r' = thread \<longrightarrow> wpr_version r' \<le> pv_version p)
        \<and> pv_text p = wpr_purpose r
        \<and> (\<exists>stored. wpr_packet r = Some stored \<and> py_eq stored (row_packet r (pv_contract p)))
        \<and> pv_digest p = canonical_sha256 (env_sha e) (row_packet r (pv_contract p)))"
proof -
  have nonneg: "\<not> (case expected of None \<Rightarrow> False | Some v \<Rightarrow> v < 0)"
    using assms unfolding confirm_worker_purpose_tx_def by (rule contrapos_pn) simp
  then obtain q where q: "worker_purpose_tx e s thread = Inr q"
    using assms by (cases "worker_purpose_tx e s thread") (auto simp: confirm_worker_purpose_tx_def)
  have p: "worker_purpose_tx e s thread = Inr (Some p)" and confirmed: "expected = Some (pv_version p)"
    "required \<longrightarrow> pv_contract p \<noteq> None"
    using assms nonneg q
    by (cases q; auto simp: confirm_worker_purpose_tx_def split: if_splits)+
  from p obtain r where r: "current_revision s thread = Some r" "purpose_row_view e r = Inr p"
    by (auto simp: worker_purpose_tx_def bindE_Inr_iff split: if_splits option.splits)
  from last_by_SomeD [OF r(1) [unfolded current_revision_def]]
  have newest: "r \<in> set (purpose_revisions s)" "wpr_worker_thread_id r = thread"
    "\<forall>r'\<in>set (purpose_revisions s). wpr_worker_thread_id r' = thread \<longrightarrow> wpr_version r' \<le> wpr_version r"
    by auto
  from r(2) have "wpr_version r = pv_version p" "pv_text p = wpr_purpose r"
    "\<exists>stored. wpr_packet r = Some stored \<and> py_eq stored (row_packet r (pv_contract p))"
    "pv_digest p = canonical_sha256 (env_sha e) (row_packet r (pv_contract p))"
    by (auto simp: purpose_row_view_def split: option.splits if_splits)
  with confirmed newest show ?thesis by (intro conjI bexI [of _ r]) auto
qed

text \<open>A Worker with one unstructured purpose.\<close>

definition sample_purpose_row :: purpose_row where
  "sample_purpose_row = \<lparr>wpr_worker_thread_id = ''t'', wpr_version = 1, wpr_purpose = [112], wpr_created_by = ''c'',
     wpr_supervisor_attachment_id = ''a'', wpr_project_digest = ''d'', wpr_reason = [114],
     wpr_packet = Some (purpose_packet ''t'' 1 [112] ''c'' ''a'' ''d'' [114] None), wpr_packet_digest = ''''\<rparr>"

lemma purpose_confirmation_exact_witness:
  "\<exists>p. confirm_worker_purpose_tx (fixed_env 0) (empty_db\<lparr>purpose_revisions := [sample_purpose_row]\<rparr>) ''t'' (Some 1) False
      = Inr (Some p) \<and> pv_text p = [112]"
proof -
  have "\<exists>p. confirm_worker_purpose_tx (fixed_env 0) (empty_db\<lparr>purpose_revisions := [sample_purpose_row]\<rparr>) ''t'' (Some 1) False
      = Inr (Some p)"
    by (simp add: confirm_worker_purpose_tx_def worker_purpose_tx_def current_revision_def purpose_row_view_def
        sample_purpose_row_def stored_contract_def purpose_packet_def row_packet_def jobj_def jstr_def fixed_env_def
        canonical_sha256_def PURPOSE_FORMAT_def STRUCTURED_PURPOSE_FORMAT_def)
  then obtain p where p: "confirm_worker_purpose_tx (fixed_env 0) (empty_db\<lparr>purpose_revisions := [sample_purpose_row]\<rparr>)
      ''t'' (Some 1) False = Inr (Some p)" by blast
  from purpose_confirmation_exact [OF p] p show ?thesis by (auto simp: sample_purpose_row_def)
qed

text \<open>
  The pattern \<open>\S\<close> accepts the control characters 28 to 31, which \<open>str.strip\<close> removes: a field of
  such a character alone passes validation, is stored empty, and then never validates again.
\<close>

lemma control_text_accepted_once: "contract_text (Some (JStr [28])) = Some []" "contract_text (Some (JStr [])) = None"
  by (simp_all add: pattern_space_def py_strip_def py_space_def)

end
