(* ===== verification/Supervision_Ledger.thy ===== *)
theory Supervision_Ledger
  imports Store
begin

text \<open>
  The database side of supervision: the triggers of \<open>database.py\<close> that guard the two
  pointers of a Work, \<open>user_needed_boundary_id\<close> (\<open>_install_boundary_continuation_triggers\<close>)
  and \<open>paused_boundary_id\<close> (\<open>_ensure_supervision_pause_schema\<close>), and the append-only
  ledgers those pointers refer to. Every statement that can touch them is an operation that
  fails the way SQLite aborts it; \<open>ledger_step\<close> is any one of these statements, and the
  lemmas show what no sequence of them can break, whatever the service above does.

  A trigger with \<open>BEFORE UPDATE OF c1, c2\<close> fires when the statement names one of the columns,
  so an update carries the guarded columns of its \<open>SET\<close> clause.
\<close>

section \<open>Columns and bindings\<close>

datatype work_column = COL_STATE | COL_ATTENTION | COL_GENERATION | COL_GOAL_VERSION | COL_ASSIGNED_WORKER
  | COL_SUPERVISOR | COL_SUSPENDED_BY | COL_USER_NEEDED | COL_PAUSED

text \<open>\<open>length(trim(x)) > 0\<close>: \<open>trim\<close> removes spaces only, and \<open>length\<close> stops at a NUL.\<close>

definition sql_nonblank :: "pystr \<Rightarrow> bool" where
  "sql_nonblank t = (case dropWhile (\<lambda>c. c = 32) t of [] \<Rightarrow> False | c # _ \<Rightarrow> c \<noteq> 0)"

definition later_attempt :: "db \<Rightarrow> ident \<Rightarrow> attempt_row \<Rightarrow> bool" where
  "later_attempt s i a = list_ex (\<lambda>x. a_work_item_id x = i \<and> a_attempt_number x > a_attempt_number a) (attempts s)"

definition superseded :: "db \<Rightarrow> ident \<Rightarrow> bool" where
  "superseded s b = list_ex (\<lambda>x. bs_boundary_id x = b) (supersessions s)"

definition continued :: "db \<Rightarrow> ident \<Rightarrow> bool" where
  "continued s b = list_ex (\<lambda>x. bc_boundary_id x = b) (continuations s)"

definition resumed :: "db \<Rightarrow> ident \<Rightarrow> bool" where
  "resumed s b = list_ex (\<lambda>x. wr_boundary_id x = b) (resumptions s)"

definition is_cao :: "db \<Rightarrow> ident \<Rightarrow> bool" where
  "is_cao s i = list_ex (\<lambda>p. p_id p = i \<and> p_role p = CAO) (principals s)"

text \<open>The attempt a boundary was recorded on, with the packet the boundary names.\<close>

definition packet_attempt :: "boundary_row \<Rightarrow> attempt_row \<Rightarrow> bool" where
  "packet_attempt b a = (a_id a = b_attempt_id b \<and> a_goal_version a = b_goal_version b
     \<and> a_goal_packet_digest a = b_goal_packet_digest b \<and> a_task_packet_digest a = b_task_packet_digest b)"

text \<open>A disposition of this kind by this supervisor at this generation, made in its own turn.\<close>

definition decided :: "db \<Rightarrow> boundary_row \<Rightarrow> disposition_kind \<Rightarrow> ident \<Rightarrow> int \<Rightarrow> (disposition_row \<Rightarrow> bool) \<Rightarrow> bool" where
  "decided s b kind by gen extra = list_ex (\<lambda>d. bd_boundary_id d = b_id b \<and> bd_kind d = kind
     \<and> bd_decided_by d = by \<and> bd_generation d = gen \<and> extra d
     \<and> list_ex (\<lambda>t. rt_id t = bd_reasoner_turn_id d \<and> rt_boundary_id t = b_id b
         \<and> rt_work_item_id t = b_work_item_id b \<and> rt_supervisor_id t = by \<and> rt_generation t = gen
         \<and> rt_goal_version t = b_goal_version b \<and> rt_goal_packet_digest t = b_goal_packet_digest b
         \<and> rt_task_packet_digest t = b_task_packet_digest b) (reasoner_turns s)) (dispositions s)"

section \<open>The WAIT_USER triggers\<close>

definition user_needed_contract :: "work_row \<Rightarrow> bool" where
  "user_needed_contract w =
     (\<not> (w_user_needed_boundary_id w \<noteq> None \<and> (w_state w \<noteq> W_USER_NEEDED \<or> w_attention_owner w \<noteq> AO_USER))
      \<and> \<not> (w_state w = W_USER_NEEDED \<and> (w_attention_owner w \<noteq> AO_USER \<or> w_user_needed_boundary_id w = None)))"

definition wait_user_binding :: "db \<Rightarrow> work_row \<Rightarrow> bool" where
  "wait_user_binding s w = list_ex (\<lambda>b. Some (b_id b) = w_user_needed_boundary_id w
     \<and> b_work_item_id b = w_id w \<and> b_generation b = w_generation w \<and> b_goal_version b = w_goal_version w
     \<and> list_ex (\<lambda>a. packet_attempt b a \<and> a_work_item_id a = w_id w
         \<and> (b_source_principal_id b = a_worker_id a \<or> sql_eq (Some (b_source_principal_id b)) (w_supervisor_id w))
         \<and> a_worker_id a = w_assigned_worker_id w \<and> a_state a = A_INPUT_REQUIRED
         \<and> \<not> later_attempt s (w_id w) a) (attempts s)
     \<and> (case w_supervisor_id w of None \<Rightarrow> False
        | Some i \<Rightarrow> decided s b WAIT_USER i (w_generation w) (\<lambda>_. True))
     \<and> \<not> superseded s (b_id b) \<and> \<not> continued s (b_id b)) (boundaries s)"

definition wait_user_cleared :: "db \<Rightarrow> work_row \<Rightarrow> work_row \<Rightarrow> bool" where
  "wait_user_cleared s old new =
     (w_state new \<in> {W_COMPLETED, W_CANCELED, W_FAILED} \<and> w_attention_owner new = AO_NONE
        \<and> w_generation new > w_generation old
      \<or> w_state new = W_ACTIVE \<and> w_attention_owner new = AO_WORKER
        \<and> list_ex (\<lambda>c. Some (bc_boundary_id c) = w_user_needed_boundary_id old \<and> bc_work_item_id c = w_id new
            \<and> bc_successor_generation c = w_generation new
            \<and> list_ex (\<lambda>a. a_id a = bc_successor_attempt_id c \<and> a_work_item_id a = w_id new
                \<and> a_worker_id a = w_assigned_worker_id new \<and> a_goal_version a = w_goal_version new
                \<and> \<not> later_attempt s (w_id new) a) (attempts s)) (continuations s))"

text \<open>The four triggers on the pointer itself, each with its \<open>WHEN\<close> condition negated.\<close>

definition wait_user_pointer_ok :: "db \<Rightarrow> work_row \<Rightarrow> work_row \<Rightarrow> bool" where
  "wait_user_pointer_ok s old new =
     ((w_user_needed_boundary_id new = None \<or> wait_user_binding s new)
      \<and> \<not> (w_user_needed_boundary_id old = None \<and> w_state old = W_USER_NEEDED
            \<and> w_attention_owner old = AO_USER \<and> w_user_needed_boundary_id new \<noteq> None)
      \<and> \<not> (w_user_needed_boundary_id old \<noteq> None \<and> w_user_needed_boundary_id new \<noteq> None
            \<and> w_user_needed_boundary_id new \<noteq> w_user_needed_boundary_id old)
      \<and> \<not> (w_user_needed_boundary_id old \<noteq> None \<and> w_user_needed_boundary_id new = None
            \<and> \<not> wait_user_cleared s old new))"

section \<open>The pause triggers\<close>

text \<open>\<open>work_pause_record_binding_sql\<close>: the immutable provenance of a recorded pause.\<close>

definition pause_record_binding :: "db \<Rightarrow> pause_row \<Rightarrow> bool" where
  "pause_record_binding s p = list_ex (\<lambda>b. b_id b = wz_boundary_id p \<and> b_work_item_id b = wz_work_item_id p
     \<and> list_ex (\<lambda>w. w_id w = wz_work_item_id p) (works s)
     \<and> list_ex (\<lambda>a. packet_attempt b a \<and> a_id a = wz_attempt_id p \<and> a_work_item_id a = wz_work_item_id p
         \<and> (b_source_principal_id b = a_worker_id a \<or> b_source_principal_id b = wz_paused_by p)) (attempts s)
     \<and> decided s b PAUSE (wz_paused_by p) (wz_source_generation p)
         (\<lambda>d. sql_nonblank (bd_reason d) \<and> sql_nonblank (bd_resume_condition d))
     \<and> is_cao s (wz_paused_by p)
     \<and> b_generation b = wz_source_generation p \<and> wz_source_generation p \<ge> 1
     \<and> wz_pause_generation p = wz_source_generation p + 1
     \<and> \<not> superseded s (b_id b)) (boundaries s)"

text \<open>What \<open>work_pauses_exact_insert\<close> asks of the Work the pause is recorded for.\<close>

definition pause_insert_current :: "db \<Rightarrow> pause_row \<Rightarrow> bool" where
  "pause_insert_current s p = list_ex (\<lambda>w. w_id w = wz_work_item_id p
     \<and> sql_eq (w_supervisor_id w) (Some (wz_paused_by p)) \<and> w_generation w = wz_source_generation p
     \<and> w_paused_boundary_id w = None
     \<and> list_ex (\<lambda>a. a_id a = wz_attempt_id p \<and> w_assigned_worker_id w = a_worker_id a
         \<and> w_goal_version w = a_goal_version a \<and> \<not> later_attempt s (w_id w) a) (attempts s)) (works s)"

definition insert_pause :: "pause_row \<Rightarrow> db \<Rightarrow> db cp" where
  "insert_pause p s =
     (if \<not> (pause_record_binding s p \<and> pause_insert_current s p)
      then Inl (PyError ''IntegrityError'' ''supervision pause exact binding violation'')
      else if list_ex (\<lambda>x. wz_boundary_id x = wz_boundary_id p
          \<or> wz_work_item_id x = wz_work_item_id p \<and> wz_pause_generation x = wz_pause_generation p) (pauses s)
      then Inl unique_violation
      else Inr (s\<lparr>pauses := pauses s @ [p]\<rparr>))"

definition paused_pointer_bound :: "db \<Rightarrow> work_row \<Rightarrow> bool" where
  "paused_pointer_bound s w = list_ex (\<lambda>p. Some (wz_boundary_id p) = w_paused_boundary_id w
     \<and> wz_work_item_id p = w_id w \<and> wz_pause_generation p = w_generation w
     \<and> sql_eq (Some (wz_paused_by p)) (w_supervisor_id w)
     \<and> list_ex (\<lambda>a. a_id a = wz_attempt_id p \<and> a_state a = A_SUSPENDED \<and> a_worker_id a = w_assigned_worker_id w
         \<and> a_goal_version a = w_goal_version w \<and> \<not> later_attempt s (w_id w) a) (attempts s)
     \<and> pause_record_binding s p \<and> \<not> resumed s (wz_boundary_id p)) (pauses s)"

definition pause_exact_ok :: "db \<Rightarrow> work_row \<Rightarrow> work_row \<Rightarrow> bool" where
  "pause_exact_ok s old new = (w_paused_boundary_id new \<noteq> None \<longrightarrow>
     w_state new = W_SUSPENDED \<and> w_attention_owner new = AO_NONE \<and> w_suspended_by_work_item_id new = None
     \<and> w_user_needed_boundary_id new = None
     \<and> (w_paused_boundary_id old = None \<longrightarrow> w_generation new = w_generation old + 1)
     \<and> paused_pointer_bound s new)"

definition pause_pointer_ok :: "work_row \<Rightarrow> work_row \<Rightarrow> bool" where
  "pause_pointer_ok old new =
     (\<not> (w_paused_boundary_id old \<noteq> None \<and> w_paused_boundary_id new \<noteq> None
          \<and> w_paused_boundary_id new \<noteq> w_paused_boundary_id old)
      \<and> \<not> (w_paused_boundary_id old \<noteq> None \<and> w_paused_boundary_id new = None
          \<and> \<not> (w_state new = W_ACTIVE \<and> w_attention_owner new = AO_WORKER \<and> w_generation new = w_generation old + 1
               \<or> w_state new \<in> {W_COMPLETED, W_CANCELED, W_FAILED} \<and> w_attention_owner new = AO_NONE
                 \<and> w_generation new > w_generation old)))"

section \<open>Guarded updates of a Work\<close>

definition fires :: "work_column list \<Rightarrow> work_column list \<Rightarrow> bool" where
  "fires cols watched = list_ex (\<lambda>c. c \<in> set watched) cols"

definition work_update_ok :: "db \<Rightarrow> work_column list \<Rightarrow> work_row \<Rightarrow> work_row \<Rightarrow> bool" where
  "work_update_ok s cols old new =
     ((fires cols [COL_STATE, COL_ATTENTION, COL_USER_NEEDED] \<longrightarrow> user_needed_contract new)
      \<and> (fires cols [COL_USER_NEEDED] \<longrightarrow> wait_user_pointer_ok s old new)
      \<and> (fires cols [COL_PAUSED, COL_STATE, COL_ATTENTION, COL_GENERATION, COL_GOAL_VERSION, COL_ASSIGNED_WORKER,
           COL_SUPERVISOR, COL_SUSPENDED_BY, COL_USER_NEEDED] \<longrightarrow> pause_exact_ok s old new)
      \<and> (fires cols [COL_PAUSED] \<longrightarrow> pause_pointer_ok old new))"

definition work_binding_violation :: cp_error where
  "work_binding_violation = PyError ''IntegrityError'' ''Work supervision binding violation''"

definition update_works :: "work_column list \<Rightarrow> (work_row \<Rightarrow> bool) \<Rightarrow> (work_row \<Rightarrow> work_row) \<Rightarrow> db \<Rightarrow> db cp" where
  "update_works cols p f s =
     (if list_all (\<lambda>w. p w \<longrightarrow> work_update_ok s cols w (f w)) (works s)
      then Inr (s\<lparr>works := update_rows p f (works s)\<rparr>) else Inl work_binding_violation)"

section \<open>The append-only ledgers\<close>

definition insert_boundary :: "boundary_row \<Rightarrow> db \<Rightarrow> db cp" where
  "insert_boundary b s =
     (if list_ex (\<lambda>x. b_id x = b_id b \<or> b_source_principal_id x = b_source_principal_id b
          \<and> b_source_event_id x = b_source_event_id b) (boundaries s)
      then Inl unique_violation
      else if \<not> (list_ex (\<lambda>p. p_id p = b_source_principal_id b) (principals s)
          \<and> list_ex (\<lambda>w. w_id w = b_work_item_id b) (works s) \<and> list_ex (\<lambda>a. a_id a = b_attempt_id b) (attempts s))
      then Inl foreign_key_violation
      else Inr (s\<lparr>boundaries := boundaries s @ [b]\<rparr>))"

definition insert_disposition :: "disposition_row \<Rightarrow> db \<Rightarrow> db cp" where
  "insert_disposition d s =
     (if superseded s (bd_boundary_id d)
      then Inl (PyError ''IntegrityError'' ''superseded boundary cannot receive a disposition'')
      else if list_ex (\<lambda>x. bd_id x = bd_id d \<or> bd_boundary_id x = bd_boundary_id d) (dispositions s)
      then Inl unique_violation
      else if \<not> (list_ex (\<lambda>b. b_id b = bd_boundary_id d) (boundaries s)
          \<and> list_ex (\<lambda>t. rt_id t = bd_reasoner_turn_id d) (reasoner_turns s)
          \<and> list_ex (\<lambda>p. p_id p = bd_decided_by d) (principals s))
      then Inl foreign_key_violation
      else Inr (s\<lparr>dispositions := dispositions s @ [d]\<rparr>))"

text \<open>The three unique indexes of \<open>reasoner_turns\<close>, two of them over leased turns only.\<close>

definition turn_clash :: "turn_row \<Rightarrow> turn_row \<Rightarrow> bool" where
  "turn_clash t x = (rt_id x = rt_id t
     \<or> rt_state x = TURN_LEASED \<and> rt_state t = TURN_LEASED
       \<and> (rt_supervisor_id x = rt_supervisor_id t \<and> rt_work_item_id x = rt_work_item_id t
          \<or> rt_boundary_id x = rt_boundary_id t)
     \<or> rt_supervisor_id x = rt_supervisor_id t \<and> rt_idempotency_key x = rt_idempotency_key t
       \<and> rt_idempotency_key t \<noteq> '''')"

definition insert_turn :: "turn_row \<Rightarrow> db \<Rightarrow> db cp" where
  "insert_turn t s =
     (if list_ex (turn_clash t) (reasoner_turns s) then Inl unique_violation
      else if \<not> (list_ex (\<lambda>p. p_id p = rt_supervisor_id t) (principals s)
          \<and> list_ex (\<lambda>w. w_id w = rt_work_item_id t) (works s)
          \<and> list_ex (\<lambda>b. b_id b = rt_boundary_id t) (boundaries s))
      then Inl foreign_key_violation
      else Inr (s\<lparr>reasoner_turns := reasoner_turns s @ [t]\<rparr>))"

text \<open>\<open>boundary_continuations_exact_insert\<close>.\<close>

definition successor_packet_message :: "message_row \<Rightarrow> ident \<Rightarrow> ident \<Rightarrow> attempt_row \<Rightarrow> bool" where
  "successor_packet_message m i by a = (m_work_item_id m = Some i \<and> m_attempt_id m = Some (a_id a) \<and> m_sender_id m = by
     \<and> m_goal_version m = Some (a_goal_version a) \<and> m_goal_packet_digest m = a_goal_packet_digest a
     \<and> m_task_packet_digest m = a_task_packet_digest a)"

definition delivered_only_to :: "db \<Rightarrow> message_row \<Rightarrow> ident \<Rightarrow> bool" where
  "delivered_only_to s m i = (list_ex (\<lambda>d. d_message_id d = m_id m \<and> d_recipient_id d = i) (deliveries s)
     \<and> \<not> list_ex (\<lambda>d. d_message_id d = m_id m \<and> d_recipient_id d \<noteq> i) (deliveries s))"

definition continuation_mode_ok :: "continuation_row \<Rightarrow> attempt_row \<Rightarrow> attempt_row \<Rightarrow> message_row \<Rightarrow> bool" where
  "continuation_mode_ok c source succ m =
     (bc_successor_attempt_id c = bc_source_attempt_id c \<and> bc_successor_generation c = bc_source_generation c
        \<and> a_state source = A_INPUT_REQUIRED \<and> m_kind m = INSTRUCTION
      \<or> bc_successor_attempt_id c \<noteq> bc_source_attempt_id c \<and> a_attempt_number succ = a_attempt_number source + 1
        \<and> bc_successor_generation c = bc_source_generation c + 1 \<and> a_state source = A_CANCELED \<and> m_kind m = ASSIGNMENT)"

definition continuation_binding :: "db \<Rightarrow> continuation_row \<Rightarrow> bool" where
  "continuation_binding s c = list_ex (\<lambda>w. w_id w = bc_work_item_id c
     \<and> w_user_needed_boundary_id w = Some (bc_boundary_id c) \<and> w_state w = W_USER_NEEDED \<and> w_attention_owner w = AO_USER
     \<and> w_supervisor_id w = Some (bc_decided_by c) \<and> w_generation w = bc_source_generation c
     \<and> is_cao s (bc_decided_by c)
     \<and> list_ex (\<lambda>b. b_id b = bc_boundary_id c \<and> b_work_item_id b = w_id w \<and> b_generation b = bc_source_generation c
         \<and> decided s b WAIT_USER (bc_decided_by c) (bc_source_generation c) (\<lambda>_. True) \<and> \<not> superseded s (b_id b)
         \<and> list_ex (\<lambda>source. a_id source = bc_source_attempt_id c \<and> packet_attempt b source \<and> a_work_item_id source = w_id w
             \<and> (b_source_principal_id b = a_worker_id source \<or> sql_eq (Some (b_source_principal_id b)) (w_supervisor_id w))
             \<and> list_ex (\<lambda>succ. a_id succ = bc_successor_attempt_id c \<and> a_work_item_id succ = w_id w
                 \<and> w_assigned_worker_id w = a_worker_id succ \<and> w_goal_version w = a_goal_version succ
                 \<and> \<not> later_attempt s (w_id w) succ
                 \<and> list_ex (\<lambda>m. m_id m = bc_message_id c \<and> continuation_mode_ok c source succ m
                     \<and> successor_packet_message m (w_id w) (bc_decided_by c) succ
                     \<and> delivered_only_to s m (a_worker_id succ)) (messages s)) (attempts s)) (attempts s))
         (boundaries s)) (works s)"

definition insert_continuation :: "continuation_row \<Rightarrow> db \<Rightarrow> db cp" where
  "insert_continuation c s =
     (if \<not> continuation_binding s c
      then Inl (PyError ''IntegrityError'' ''boundary continuation exact binding violation'')
      else if continued s (bc_boundary_id c) then Inl unique_violation
      else Inr (s\<lparr>continuations := continuations s @ [c]\<rparr>))"

text \<open>\<open>work_pause_resumption_binding_sql\<close> and \<open>work_pause_resumptions_exact_insert\<close>.\<close>

definition resumption_binding :: "db \<Rightarrow> resumption_row \<Rightarrow> bool" where
  "resumption_binding s r = list_ex (\<lambda>p. wz_boundary_id p = wr_boundary_id r \<and> wz_work_item_id p = wr_work_item_id r
     \<and> wr_expected_generation r = wz_pause_generation p \<and> wr_successor_generation r = wr_expected_generation r + 1
     \<and> is_cao s (wr_resumed_by r)
     \<and> list_ex (\<lambda>old. a_id old = wz_attempt_id p \<and> a_id old = wr_previous_attempt_id r \<and> a_work_item_id old = wz_work_item_id p
         \<and> list_ex (\<lambda>succ. a_id succ = wr_successor_attempt_id r \<and> a_work_item_id succ = wz_work_item_id p
             \<and> a_id succ \<noteq> a_id old \<and> a_attempt_number succ = a_attempt_number old + 1
             \<and> a_worker_id succ = a_worker_id old \<and> a_goal_version succ = a_goal_version old
             \<and> a_goal_packet_digest succ = a_goal_packet_digest old
             \<and> list_ex (\<lambda>m. m_id m = wr_message_id r \<and> m_kind m = ASSIGNMENT
                 \<and> successor_packet_message m (wz_work_item_id p) (wr_resumed_by r) succ
                 \<and> list_ex (\<lambda>d. d_message_id d = m_id m \<and> d_recipient_id d = a_worker_id succ
                     \<and> d_runtime_session_id d = a_runtime_session_id succ) (deliveries s)
                 \<and> \<not> list_ex (\<lambda>d. d_message_id d = m_id m \<and> d_recipient_id d \<noteq> a_worker_id succ) (deliveries s))
             (messages s)) (attempts s)) (attempts s)) (pauses s)"

definition resumption_current :: "db \<Rightarrow> resumption_row \<Rightarrow> bool" where
  "resumption_current s r = list_ex (\<lambda>w. w_id w = wr_work_item_id r \<and> w_supervisor_id w = Some (wr_resumed_by r)
     \<and> w_paused_boundary_id w = None \<and> w_state w = W_ACTIVE \<and> w_attention_owner w = AO_WORKER
     \<and> w_generation w = wr_successor_generation r
     \<and> list_ex (\<lambda>a. a_id a = wr_successor_attempt_id r \<and> w_assigned_worker_id w = a_worker_id a
         \<and> w_goal_version w = a_goal_version a \<and> \<not> later_attempt s (w_id w) a) (attempts s)) (works s)"

definition insert_resumption :: "resumption_row \<Rightarrow> db \<Rightarrow> db cp" where
  "insert_resumption r s =
     (if \<not> (resumption_binding s r \<and> resumption_current s r)
      then Inl (PyError ''IntegrityError'' ''supervision pause resumption exact binding violation'')
      else if \<not> (wr_expected_generation r \<ge> 1 \<and> sql_nonblank (wr_reason r) \<and> sql_nonblank (wr_instruction r)
          \<and> sql_nonblank (wr_resume_evidence r))
      then Inl (PyError ''IntegrityError'' ''CHECK constraint failed'')
      else if list_ex (\<lambda>x. wr_boundary_id x = wr_boundary_id r \<or> wr_successor_attempt_id x = wr_successor_attempt_id r
          \<or> wr_message_id x = wr_message_id r) (resumptions s)
      then Inl unique_violation
      else Inr (s\<lparr>resumptions := resumptions s @ [r]\<rparr>))"

text \<open>A new Work: \<open>work_items_user_needed_contract_insert\<close> and \<open>work_items_pause_insert\<close>.\<close>

definition insert_work :: "work_row \<Rightarrow> db \<Rightarrow> db cp" where
  "insert_work w s =
     (if \<not> user_needed_contract w \<or> w_paused_boundary_id w \<noteq> None then Inl work_binding_violation
      else if list_ex (\<lambda>x. w_id x = w_id w) (works s) then Inl unique_violation
      else Inr (s\<lparr>works := works s @ [w]\<rparr>))"

section \<open>What no statement can break\<close>

text \<open>
  Any statement of the service that reaches these tables. An update of Works names the
  guarded columns it sets, keeps the key, and never lowers a generation; the last rule is
  every statement on other tables, among them the updates of attempts and turns.
\<close>

definition sets_only :: "work_column list \<Rightarrow> (work_row \<Rightarrow> work_row) \<Rightarrow> bool" where
  "sets_only cols f = (\<forall>w. w_id (f w) = w_id w \<and> w_generation w \<le> w_generation (f w)
     \<and> (COL_STATE \<notin> set cols \<longrightarrow> w_state (f w) = w_state w)
     \<and> (COL_ATTENTION \<notin> set cols \<longrightarrow> w_attention_owner (f w) = w_attention_owner w)
     \<and> (COL_GENERATION \<notin> set cols \<longrightarrow> w_generation (f w) = w_generation w)
     \<and> (COL_SUPERVISOR \<notin> set cols \<longrightarrow> w_supervisor_id (f w) = w_supervisor_id w)
     \<and> (COL_SUSPENDED_BY \<notin> set cols \<longrightarrow> w_suspended_by_work_item_id (f w) = w_suspended_by_work_item_id w)
     \<and> (COL_USER_NEEDED \<notin> set cols \<longrightarrow> w_user_needed_boundary_id (f w) = w_user_needed_boundary_id w)
     \<and> (COL_PAUSED \<notin> set cols \<longrightarrow> w_paused_boundary_id (f w) = w_paused_boundary_id w))"

inductive ledger_step :: "db \<Rightarrow> db \<Rightarrow> bool" where
  ledger_pause: "insert_pause p s = Inr s' \<Longrightarrow> ledger_step s s'"
| ledger_resumption: "insert_resumption r s = Inr s' \<Longrightarrow> ledger_step s s'"
| ledger_continuation: "insert_continuation c s = Inr s' \<Longrightarrow> ledger_step s s'"
| ledger_new_work: "insert_work w s = Inr s' \<Longrightarrow> ledger_step s s'"
| ledger_work: "update_works cols p f s = Inr s' \<Longrightarrow> sets_only cols f \<Longrightarrow> ledger_step s s'"
| ledger_other: "works s' = works s \<Longrightarrow> pauses s' = pauses s \<Longrightarrow> resumptions s' = resumptions s
    \<Longrightarrow> continuations s' = continuations s \<Longrightarrow> ledger_step s s'"

definition pause_pointer_held :: "db \<Rightarrow> work_row \<Rightarrow> bool" where
  "pause_pointer_held s w = (case w_paused_boundary_id w of None \<Rightarrow> True
     | Some b \<Rightarrow> w_state w = W_SUSPENDED \<and> w_attention_owner w = AO_NONE \<and> w_suspended_by_work_item_id w = None
         \<and> w_user_needed_boundary_id w = None
         \<and> list_ex (\<lambda>p. wz_boundary_id p = b \<and> wz_work_item_id p = w_id w \<and> wz_pause_generation p = w_generation w
             \<and> w_supervisor_id w = Some (wz_paused_by p)) (pauses s))"

definition supervision_pointers_ok :: "db \<Rightarrow> bool" where
  "supervision_pointers_ok s = (list_all (\<lambda>w. user_needed_contract w \<and> pause_pointer_held s w) (works s)
     \<and> distinct (map wz_boundary_id (pauses s)))"

inductive_cases ledger_stepE: "ledger_step s s'"

lemma insert_pause_frame:
  assumes "insert_pause p s = Inr s'"
  shows "s' = s\<lparr>pauses := pauses s @ [p]\<rparr>" "wz_boundary_id p \<notin> wz_boundary_id ` set (pauses s)"
  using assms by (auto simp: insert_pause_def list_ex_iff split: if_splits)

lemma pause_pointer_held_grows:
  "pause_pointer_held s w \<Longrightarrow> set (pauses s) \<subseteq> set (pauses s') \<Longrightarrow> pause_pointer_held s' w"
  by (auto simp: pause_pointer_held_def list_ex_iff split: option.splits)

lemma ledger_appends: "ledger_step s s' \<Longrightarrow> \<exists>news. pauses s' = pauses s @ news"
  by (erule ledger_stepE)
    (auto simp: insert_pause_def insert_resumption_def insert_continuation_def insert_work_def update_works_def
      split: if_splits)

lemma guarded_update_user_needed:
  assumes "work_update_ok s cols w (f w)" "sets_only cols f" "user_needed_contract w"
  shows "user_needed_contract (f w)"
proof (cases "fires cols [COL_STATE, COL_ATTENTION, COL_USER_NEEDED]")
  case True
  with assms(1) show ?thesis by (simp add: work_update_ok_def)
next
  case False
  then have "w_state (f w) = w_state w" "w_attention_owner (f w) = w_attention_owner w"
    "w_user_needed_boundary_id (f w) = w_user_needed_boundary_id w"
    using assms(2) by (auto simp: fires_def list_ex_iff sets_only_def)
  with assms(3) show ?thesis by (auto simp: user_needed_contract_def)
qed

lemma guarded_update_paused:
  assumes "work_update_ok s cols w (f w)" "sets_only cols f" "pause_pointer_held s w"
  shows "pause_pointer_held s (f w)"
proof (cases "fires cols [COL_PAUSED, COL_STATE, COL_ATTENTION, COL_GENERATION, COL_GOAL_VERSION, COL_ASSIGNED_WORKER,
           COL_SUPERVISOR, COL_SUSPENDED_BY, COL_USER_NEEDED]")
  case True
  with assms(1) have "pause_exact_ok s w (f w)" by (simp add: work_update_ok_def)
  then show ?thesis
    by (auto simp: pause_exact_ok_def pause_pointer_held_def paused_pointer_bound_def list_ex_iff sql_eq_iff
      split: option.splits)
next
  case False
  then have "w_state (f w) = w_state w" "w_attention_owner (f w) = w_attention_owner w" "w_id (f w) = w_id w"
    "w_user_needed_boundary_id (f w) = w_user_needed_boundary_id w" "w_supervisor_id (f w) = w_supervisor_id w"
    "w_generation (f w) = w_generation w" "w_paused_boundary_id (f w) = w_paused_boundary_id w"
    "w_suspended_by_work_item_id (f w) = w_suspended_by_work_item_id w"
    using assms(2) by (auto simp: fires_def list_ex_iff sets_only_def)
  with assms(3) show ?thesis by (simp add: pause_pointer_held_def split: option.splits)
qed

lemma ledger_step_pointers:
  assumes "ledger_step s s'" and "supervision_pointers_ok s"
  shows "supervision_pointers_ok s'"
proof -
  from assms(2) have ok: "\<And>w. w \<in> set (works s) \<Longrightarrow> user_needed_contract w \<and> pause_pointer_held s w"
    and keys: "distinct (map wz_boundary_id (pauses s))"
    by (auto simp: supervision_pointers_ok_def list_all_iff)
  from ledger_appends [OF assms(1)] have grows: "set (pauses s) \<subseteq> set (pauses s')" by auto
  have kept: "pause_pointer_held s w \<Longrightarrow> pause_pointer_held s' w" for w
    by (rule pause_pointer_held_grows [OF _ grows])
  have "distinct (map wz_boundary_id (pauses s'))"
    using assms(1) keys
  proof cases
    case (ledger_pause p)
    then show ?thesis using insert_pause_frame [OF ledger_pause] keys by simp
  qed (auto simp: insert_resumption_def insert_continuation_def insert_work_def update_works_def split: if_splits)
  moreover have "user_needed_contract w \<and> pause_pointer_held s' w" if "w \<in> set (works s')" for w
    using assms(1)
  proof cases
    case (ledger_work cols p f)
    then have all: "\<And>x. x \<in> set (works s) \<Longrightarrow> p x \<Longrightarrow> work_update_ok s cols x (f x)"
      and rows: "works s' = update_rows p f (works s)"
      by (auto simp: update_works_def list_all_iff split: if_splits)
    from that rows obtain x where "x \<in> set (works s)" "w = (if p x then f x else x)"
      by (auto simp: update_rows_def)
    then show ?thesis
      using ok all kept guarded_update_user_needed guarded_update_paused ledger_work(2)
      by (cases "p x") (metis (no_types), metis (no_types))
  next
    case (ledger_new_work x)
    with that have "w \<in> set (works s) \<or> w = x \<and> user_needed_contract x \<and> w_paused_boundary_id x = None"
      by (auto simp: insert_work_def split: if_splits)
    then show ?thesis using ok kept by (auto simp: pause_pointer_held_def)
  qed (use that ok kept in \<open>auto simp: insert_pause_def insert_resumption_def insert_continuation_def split: if_splits\<close>)
  ultimately show ?thesis by (auto simp: supervision_pointers_ok_def list_all_iff)
qed

lemma ledger_run_pointers:
  "ledger_step\<^sup>*\<^sup>* s s' \<Longrightarrow> supervision_pointers_ok s \<Longrightarrow> supervision_pointers_ok s'"
  by (induction rule: rtranclp_induct) (auto intro: ledger_step_pointers)

lemma supervision_pointers_pauseE:
  assumes "supervision_pointers_ok s" "w \<in> set (works s)" "w_paused_boundary_id w = Some b"
  obtains p where "p \<in> set (pauses s)" "wz_boundary_id p = b" "wz_pause_generation p = w_generation w"
proof -
  from assms(1,2) have "pause_pointer_held s w"
    by (simp add: supervision_pointers_ok_def list_all_iff)
  with assms(3) that show thesis by (auto simp: pause_pointer_held_def list_ex_iff)
qed

text \<open>A Work whose generation has passed g stays past it, and is never inserted again.\<close>

definition past :: "db \<Rightarrow> ident \<Rightarrow> int \<Rightarrow> bool" where
  "past s i g = (list_ex (\<lambda>w. w_id w = i) (works s) \<and> list_all (\<lambda>w. w_id w = i \<longrightarrow> w_generation w > g) (works s))"

lemma ledger_step_past:
  assumes "ledger_step s s'" and "past s i g"
  shows "past s' i g"
  using assms(1)
proof cases
  case (ledger_work cols p f)
  then have f: "\<And>w. w_id (f w) = w_id w" "\<And>w. w_generation w \<le> w_generation (f w)"
    by (simp_all add: sets_only_def)
  from ledger_work have rows: "works s' = update_rows p f (works s)"
    by (auto simp: update_works_def split: if_splits)
  have "map w_id (works s') = map w_id (works s)"
    unfolding rows by (rule map_update_rows) (rule f(1))
  then have ids: "w_id ` set (works s') = w_id ` set (works s)"
    unfolding set_map [symmetric] by simp
  have "i \<in> w_id ` set (works s)" using assms(2) by (auto simp: past_def list_ex_iff)
  then have "list_ex (\<lambda>w. w_id w = i) (works s')"
    unfolding ids [symmetric] by (auto simp: list_ex_iff)
  moreover have "g < w_generation w" if "w \<in> set (works s')" "w_id w = i" for w
  proof -
    from that(1) rows obtain y where "y \<in> set (works s)" "w = (if p y then f y else y)"
      by (auto simp: update_rows_def)
    then show ?thesis
      using assms(2) that(2) f less_le_trans [OF _ f(2)] by (auto simp: past_def list_all_iff split: if_splits)
  qed
  ultimately show ?thesis by (auto simp: past_def list_all_iff)
next
  case (ledger_new_work w)
  then have "works s' = works s @ [w]" "\<forall>x\<in>set (works s). w_id x \<noteq> w_id w"
    by (auto simp: insert_work_def list_ex_iff split: if_splits)
  then show ?thesis using assms(2) by (fastforce simp: past_def list_ex_iff list_all_iff)
qed (use assms(2) in \<open>auto simp: past_def insert_pause_def insert_resumption_def insert_continuation_def split: if_splits\<close>)

lemma ledger_run_past: "ledger_step\<^sup>*\<^sup>* s s' \<Longrightarrow> past s i g \<Longrightarrow> past s' i g"
  by (induction rule: rtranclp_induct) (auto intro: ledger_step_past)

lemma ledger_run_pauses: "ledger_step\<^sup>*\<^sup>* s s' \<Longrightarrow> set (pauses s) \<subseteq> set (pauses s')"
  by (induction rule: rtranclp_induct) (auto dest!: ledger_appends)

lemma past_pause_not_current:
  assumes "supervision_pointers_ok s" "p \<in> set (pauses s)" "past s i (wz_pause_generation p)"
    and "x \<in> set (works s)" "w_id x = i"
  shows "w_paused_boundary_id x \<noteq> Some (wz_boundary_id p)"
proof
  assume "w_paused_boundary_id x = Some (wz_boundary_id p)"
  from supervision_pointers_pauseE [OF assms(1,4) this] obtain p' where p': "p' \<in> set (pauses s)"
    "wz_boundary_id p' = wz_boundary_id p" "wz_pause_generation p' = w_generation x" .
  from assms(1) have "inj_on wz_boundary_id (set (pauses s))"
    by (simp add: supervision_pointers_ok_def distinct_map)
  with p' assms(2) have "p' = p" by (auto dest: inj_onD)
  with p' assms(3-5) show False by (auto simp: past_def list_all_iff)
qed


text \<open>C30: A pause is consumed once. After the statement that clears the pause pointer of a Work,
  no further run of statements ever makes the same pause current again.\<close>

theorem pause_consumed_once:
  assumes "supervision_pointers_ok s" "distinct (map w_id (works s))"
    and "w \<in> set (works s)" "w_paused_boundary_id w = Some b"
    and "update_works cols q f s = Inr s1" "sets_only cols f" "q w" "w_paused_boundary_id (f w) = None"
    and "ledger_step\<^sup>*\<^sup>* s1 t" "x \<in> set (works t)" "w_id x = w_id w"
  shows "w_paused_boundary_id x \<noteq> Some b"
proof -
  from supervision_pointers_pauseE [OF assms(1,3,4)] obtain p where p: "p \<in> set (pauses s)"
    "wz_boundary_id p = b" "wz_pause_generation p = w_generation w" .
  from assms(5) have rows: "works s1 = update_rows q f (works s)" and same: "pauses s1 = pauses s"
    and ok: "\<forall>x\<in>set (works s). q x \<longrightarrow> work_update_ok s cols x (f x)"
    by (auto simp: update_works_def list_all_iff split: if_splits)
  from assms(4,6,8) have "COL_PAUSED \<in> set cols"
    unfolding sets_only_def by (metis option.distinct(1))
  with ok assms(3,7) have "pause_pointer_ok w (f w)"
    by (auto simp: work_update_ok_def fires_def list_ex_iff)
  with assms(4,8) have more: "w_generation w < w_generation (f w)"
    by (auto simp: pause_pointer_ok_def)
  have ids: "w_id (f y) = w_id y" for y using assms(6) by (simp add: sets_only_def)
  have one: "y = w" if "y \<in> set (works s)" "w_id y = w_id w" for y
    using that assms(2,3) by (auto simp: distinct_map dest: inj_onD)
  have "past s1 (w_id w) (wz_pause_generation p)"
    unfolding past_def rows set_update_rows list_ex_iff list_all_iff
  proof
    show "\<exists>y\<in>(\<lambda>r. if q r then f r else r) ` set (works s). w_id y = w_id w"
      using imageI [OF assms(3), of "\<lambda>r. if q r then f r else r"] assms(7) ids by (intro bexI [of _ "f w"]) auto
    show "\<forall>y\<in>(\<lambda>r. if q r then f r else r) ` set (works s). w_id y = w_id w \<longrightarrow> wz_pause_generation p < w_generation y"
    proof (intro ballI impI)
      fix y assume "y \<in> (\<lambda>r. if q r then f r else r) ` set (works s)" and id: "w_id y = w_id w"
      then obtain z where z: "z \<in> set (works s)" "y = (if q z then f z else z)" by auto
      with id ids have "w_id z = w_id w" by (auto split: if_splits)
      with z one assms(7) more p(3) show "wz_pause_generation p < w_generation y" by auto
    qed
  qed
  moreover have "supervision_pointers_ok s1"
    by (rule ledger_step_pointers [OF ledger_work [OF assms(5,6)] assms(1)])
  moreover have "p \<in> set (pauses t)"
    using ledger_run_pauses [OF assms(9)] p(1) same by auto
  ultimately show ?thesis
    using past_pause_not_current [of t p "w_id w" x] ledger_run_past [OF assms(9)] ledger_run_pointers [OF assms(9)]
      assms(10,11) p(2) by auto
qed

section \<open>Witnesses\<close>

definition sample_paused_work :: work_row where
  "sample_paused_work = \<lparr>w_id = ''w'', w_goal_version = 1, w_state = W_SUSPENDED, w_created_by = ''c'',
     w_requester_id = None, w_supervisor_id = Some ''c'', w_supervisor_attachment_id = None, w_assigned_worker_id = ''k'',
     w_managed_worker_thread_id = None, w_managed_worker_thread_generation = None, w_user_needed_boundary_id = None,
     w_paused_boundary_id = Some ''b'', w_operator_scope = ''production'', w_attention_owner = AO_NONE,
     w_generation = 3, w_suspended_by_work_item_id = None, w_created_at = 10, w_updated_at = 20\<rparr>"

definition sample_pause :: pause_row where
  "sample_pause = \<lparr>wz_boundary_id = ''b'', wz_work_item_id = ''w'', wz_attempt_id = ''a'', wz_source_generation = 2,
     wz_pause_generation = 3, wz_paused_by = ''c'', wz_created_at = 20\<rparr>"

definition sample_paused_db :: db where
  "sample_paused_db = empty_db\<lparr>works := [sample_paused_work], pauses := [sample_pause]\<rparr>"

text \<open>The update of \<open>_cancel_work_tx\<close>.\<close>

definition canceled_work :: "timestamp \<Rightarrow> work_row \<Rightarrow> work_row" where
  "canceled_work now w = w\<lparr>w_state := W_CANCELED, w_attention_owner := AO_NONE, w_generation := w_generation w + 1,
     w_user_needed_boundary_id := None, w_paused_boundary_id := None, w_updated_at := now\<rparr>"

definition cancel_columns :: "work_column list" where
  "cancel_columns = [COL_STATE, COL_ATTENTION, COL_GENERATION, COL_USER_NEEDED, COL_PAUSED]"

lemma sets_only_canceled [simp]: "sets_only cancel_columns (canceled_work now)"
  by (simp add: sets_only_def cancel_columns_def canceled_work_def)

lemma sample_paused_ok: "supervision_pointers_ok sample_paused_db"
  by (simp add: supervision_pointers_ok_def sample_paused_db_def sample_paused_work_def sample_pause_def
    user_needed_contract_def pause_pointer_held_def)

lemma sample_paused_cancel:
  "update_works cancel_columns (\<lambda>w. w_id w = ''w'') (canceled_work 30) sample_paused_db
     = Inr (sample_paused_db\<lparr>works := [canceled_work 30 sample_paused_work]\<rparr>)"
  by (simp add: update_works_def work_update_ok_def fires_def cancel_columns_def sample_paused_db_def
    sample_paused_work_def canceled_work_def user_needed_contract_def wait_user_pointer_ok_def pause_exact_ok_def
    pause_pointer_ok_def)


lemma pause_consumed_once_witness:
  "w_paused_boundary_id (canceled_work 30 sample_paused_work) \<noteq> Some ''b''"
  by (rule pause_consumed_once [OF sample_paused_ok _ _ _ sample_paused_cancel sets_only_canceled _ _ rtranclp.rtrancl_refl,
    of sample_paused_work])
    (simp_all add: sample_paused_db_def sample_paused_work_def canceled_work_def)

end
