(* ===== verification/Messages.thy ===== *)
theory Messages
  imports Worker_Purpose Actors
begin

text \<open>
  Creating a message: \<open>ControlPlane._message\<close> and \<open>send_message\<close> of \<open>service.py\<close>. A message
  binds the durable goal and task packets of its Work, gets a digest over everything it carries,
  and one queued delivery per recipient, each pinned to the route the recipient's role allows.
  The trigger \<open>message_deliveries_attachment_exact_insert\<close> of \<open>database.py\<close> guards the insert.
\<close>

record message_request =
  mq_sender_id :: ident
  mq_recipient_id :: "ident option"
  mq_recipient_ids :: "ident list"
  mq_kind :: message_kind
  mq_payload :: "(pystr \<times> json) list"
  mq_work_item_id :: "ident option"
  mq_attempt_id :: "ident option"
  mq_correlation_id :: string
  mq_causation_id :: string
  mq_idempotency_key :: string
  mq_goal_version :: "int option"
  mq_runtime_session_id :: "ident option"
  mq_create_delivery :: bool

text \<open>A nullable text that is present and not empty.\<close>

definition given :: "string option \<Rightarrow> bool" where
  "given a = (str_or_empty a \<noteq> '''')"

definition request_recipients :: "message_request \<Rightarrow> ident list" where
  "request_recipients q = dict_fromkeys
     ((case mq_recipient_id q of None \<Rightarrow> [] | Some i \<Rightarrow> if i = '''' then [] else [i]) @ mq_recipient_ids q)"

section \<open>The durable packets\<close>

record packet_binding =
  pk_goal_digest :: string
  pk_task_digest :: string
  pk_attempt_runtime :: "ident option"
  pk_attempt_worker :: "ident option"
  pk_supervisor :: "ident option"
  pk_supervisor_attachment :: "ident option"
  pk_managed_thread :: string

definition unbound :: packet_binding where
  "unbound = \<lparr>pk_goal_digest = '''', pk_task_digest = '''', pk_attempt_runtime = None, pk_attempt_worker = None,
     pk_supervisor = None, pk_supervisor_attachment = None, pk_managed_thread = ''''\<rparr>"

definition bind_attempt :: "db \<Rightarrow> ident \<Rightarrow> ident option \<Rightarrow> int \<Rightarrow> packet_binding \<Rightarrow> packet_binding cp" where
  "bind_attempt s work_id attempt_id goal_version b =
     (if \<not> given attempt_id then Inr b
      else (case fetchone (\<lambda>x. a_id x = str_or_empty attempt_id \<and> a_work_item_id x = work_id) (attempts s) of
          None \<Rightarrow> Inl (ConflictError ''message cannot bind a stale task packet'' [])
        | Some x \<Rightarrow>
            if a_goal_version x \<noteq> goal_version \<or> a_goal_packet_digest x \<noteq> pk_goal_digest b \<or> a_task_packet_digest x = ''''
            then Inl (ConflictError ''message cannot bind a stale task packet'' [])
            else if \<not> given (a_runtime_session_id x)
            then Inl (ConflictError ''Worker message cannot bind an attempt without a runtime'' [])
            else Inr (b\<lparr>pk_task_digest := a_task_packet_digest x, pk_attempt_runtime := a_runtime_session_id x,
                       pk_attempt_worker := Some (a_worker_id x)\<rparr>)))"

definition bind_packets :: "db \<Rightarrow> message_request \<Rightarrow> packet_binding cp" where
  "bind_packets s q =
     (if \<not> given (mq_work_item_id q) then Inr unbound
      else (let work_id = str_or_empty (mq_work_item_id q) in
        case mq_goal_version q of
          None \<Rightarrow> Inl (ValidationError ''work-scoped message requires a goal version'' [])
        | Some version \<Rightarrow> (case fetchone (\<lambda>g. gr_work_item_id g = work_id \<and> gr_version g = version) (goal_revisions s) of
            None \<Rightarrow> Inl (ConflictError ''message cannot bind a missing goal packet'' [])
          | Some g \<Rightarrow>
              if gr_packet_digest g = '''' then Inl (ConflictError ''message cannot bind a missing goal packet'' [])
              else (case get_work s work_id of
                  None \<Rightarrow> Inl (NotFoundError ''work item'' work_id)
                | Some w \<Rightarrow> bind_attempt s work_id (mq_attempt_id q) version
                    \<lparr>pk_goal_digest = gr_packet_digest g, pk_task_digest = '''', pk_attempt_runtime = None,
                     pk_attempt_worker = None, pk_supervisor = coalesce (w_supervisor_id w) (Some (w_created_by w)),
                     pk_supervisor_attachment = w_supervisor_attachment_id w,
                     pk_managed_thread = str_or_empty (w_managed_worker_thread_id w)\<rparr>))))"

text \<open>\<open>supplied not in {None, "", expected}\<close>; a list or mapping cannot be looked up in a set.\<close>

definition digest_field :: "string \<Rightarrow> string \<Rightarrow> (pystr \<times> json) list \<Rightarrow> (pystr \<times> json) list cp" where
  "digest_field field expected payload =
     (let accept = (if expected = '''' then payload else put_key payload (u field) (jstr expected)) in
      case jget (JObj payload) field of
        None \<Rightarrow> Inr accept
      | Some JNull \<Rightarrow> Inr accept
      | Some (JArr vs) \<Rightarrow> Inl (PyError ''TypeError'' ''unhashable type'')
      | Some (JObj kvs) \<Rightarrow> Inl (PyError ''TypeError'' ''unhashable type'')
      | Some v \<Rightarrow> if v = jstr '''' \<or> v = jstr expected then Inr accept
          else Inl (ConflictError (''message '' @ field @ '' does not match the durable packet'') []))"

definition bound_payload :: "message_request \<Rightarrow> packet_binding \<Rightarrow> (pystr \<times> json) list cp" where
  "bound_payload q b =
     (if \<not> given (mq_work_item_id q) then Inr (mq_payload q)
      else bindE (digest_field ''goal_packet_digest'' (pk_goal_digest b) (mq_payload q))
             (digest_field ''task_packet_digest'' (pk_task_digest b)))"

definition purposed_payload :: "env \<Rightarrow> db \<Rightarrow> message_request \<Rightarrow> packet_binding \<Rightarrow> (pystr \<times> json) list \<Rightarrow> (pystr \<times> json) list cp" where
  "purposed_payload e s q b payload =
     (if mq_kind q \<noteq> ASSIGNMENT \<or> \<not> given (mq_work_item_id q) then Inr payload
      else bindE (worker_purpose_tx e s (pk_managed_thread b)) (\<lambda>purpose.
        case purpose of
          None \<Rightarrow> Inr payload
        | Some p \<Rightarrow>
            if (case jget (JObj payload) ''worker_purpose'' of None \<Rightarrow> False | Some v \<Rightarrow> \<not> py_eq v (purpose_view_json p))
            then Inl (ConflictError ''Assignment business purpose does not match the current Worker'' [])
            else Inr (put_key payload (u ''worker_purpose'') (purpose_view_json p))))"

definition request_digest :: "env \<Rightarrow> message_request \<Rightarrow> packet_binding \<Rightarrow> (pystr \<times> json) list \<Rightarrow> string" where
  "request_digest e q b payload = service_digest (env_sha e) (jobj
     [(''sender_id'', jstr (mq_sender_id q)), (''recipient_ids'', JArr (List.map jstr (request_recipients q))),
      (''kind'', jstr (message_kind_value (mq_kind q))), (''payload'', JObj payload),
      (''work_item_id'', jstr_opt (mq_work_item_id q)), (''attempt_id'', jstr_opt (mq_attempt_id q)),
      (''correlation_id'', jstr (mq_correlation_id q)), (''causation_id'', jstr (mq_causation_id q)),
      (''goal_version'', jint_opt (mq_goal_version q)), (''goal_packet_digest'', jstr (pk_goal_digest b)),
      (''task_packet_digest'', jstr (pk_task_digest b)),
      (''runtime_session_id'', jstr_opt (mq_runtime_session_id q))])"

section \<open>Routes\<close>

definition pinned_runtime :: "db \<Rightarrow> ident \<Rightarrow> ident \<Rightarrow> runtime_row option" where
  "pinned_runtime s recipient i = fetchone (\<lambda>r. r_id r = i \<and> r_principal_id r = recipient
     \<and> r_state r \<notin> {R_STOPPED, R_MISSING, R_FAILED}) (runtimes s)"

definition ready_worker_runtime :: "env \<Rightarrow> db \<Rightarrow> ident \<Rightarrow> runtime_row option" where
  "ready_worker_runtime e s recipient = last_by r_updated_at (filter (\<lambda>r. r_principal_id r = recipient
     \<and> r_lease_expires_at r \<ge> env_now e \<and> r_state r \<in> {R_READY, R_BUSY, R_WAITING}
     \<and> list_ex (\<lambda>n. we_runtime_session_id n = r_id r \<and> we_state n = E_READY
         \<and> (case we_lease_expires_at n of None \<Rightarrow> False | Some t \<Rightarrow> t \<ge> env_now e)
         \<and> list_ex (\<lambda>c. cr_owner_id c = we_id n \<and> cr_principal_id c = we_principal_id n \<and> cr_state c = ''active''
              \<and> cr_expires_at c \<ge> env_now e \<and> cr_generation c = we_generation n) (runtime_credentials s))
         (enrollments s)) (runtimes s))"

definition supervisor_runtime :: "env \<Rightarrow> db \<Rightarrow> ident option \<Rightarrow> ident \<Rightarrow> runtime_row option" where
  "supervisor_runtime e s work_item_id recipient =
     (case (case work_item_id of None \<Rightarrow> None | Some i \<Rightarrow> get_work s i) of
        None \<Rightarrow> None
      | Some w \<Rightarrow>
          if \<not> sql_eq (w_supervisor_id w) (Some recipient) then None
          else (case fetchone (\<lambda>t. sql_eq (Some (ca_id t)) (w_supervisor_attachment_id w) \<and> ca_principal_id t = recipient
                  \<and> ca_state t = ''active'' \<and> ca_lease_expires_at t > env_now e) (attachments s) of
              None \<Rightarrow> None
            | Some t \<Rightarrow> fetchone (\<lambda>r. r_id r = ca_runtime_session_id t \<and> r_lease_expires_at r > env_now e
                  \<and> r_state r \<in> {R_READY, R_WAITING, R_BUSY}) (runtimes s)))"

definition latest_runtime :: "db \<Rightarrow> ident \<Rightarrow> runtime_row option" where
  "latest_runtime s recipient = last_by r_updated_at
     (filter (\<lambda>r. r_principal_id r = recipient \<and> r_state r \<notin> {R_STOPPED, R_MISSING}) (runtimes s))"

definition choose_runtime ::
  "env \<Rightarrow> db \<Rightarrow> message_request \<Rightarrow> principal_role \<Rightarrow> ident \<Rightarrow> ident option \<Rightarrow> ident option cp" where
  "choose_runtime e s q role recipient pinned =
     (case pinned of
        Some i \<Rightarrow> (case pinned_runtime s recipient i of
            None \<Rightarrow> Inl (ConflictError ''message is pinned to an unavailable runtime'' [(''runtime_session_id'', jstr i)])
          | Some r \<Rightarrow> Inr (Some (r_id r)))
      | None \<Rightarrow> Inr (map_option r_id
          (if role = WORKER then ready_worker_runtime e s recipient
           else if role = CAO then supervisor_runtime e s (mq_work_item_id q) recipient
           else latest_runtime s recipient)))"

text \<open>The trigger on inserting a delivery.\<close>

definition attachment_exact :: "db \<Rightarrow> delivery_row \<Rightarrow> bool" where
  "attachment_exact s d =
     (let cao = list_ex (\<lambda>p. p_id p = d_recipient_id d \<and> p_role p = CAO) (principals s) in
      (d_recipient_attachment_id d = None
       \<or> cao \<and> list_ex (\<lambda>t. Some (ca_id t) = d_recipient_attachment_id d \<and> ca_principal_id t = d_recipient_id d) (attachments s))
      \<and> \<not> (cao \<and> (case get_message s (d_message_id d) of
             None \<Rightarrow> False
           | Some m \<Rightarrow> (case m_work_item_id m of None \<Rightarrow> False
               | Some i \<Rightarrow> (case get_work s i of None \<Rightarrow> False
                   | Some w \<Rightarrow> d_recipient_attachment_id d \<noteq> w_supervisor_attachment_id w)))))"

definition new_delivery :: "env \<Rightarrow> ident \<Rightarrow> ident \<Rightarrow> ident option \<Rightarrow> ident option \<Rightarrow> delivery_row" where
  "new_delivery e message_id recipient attachment runtime = \<lparr>d_message_id = message_id, d_recipient_id = recipient,
     d_recipient_attachment_id = attachment, d_state = QUEUED, d_generation = 1, d_attempts = 0,
     d_next_attempt_at = env_now e, d_runtime_session_id = runtime, d_lease_until = None, d_owner_token = '''',
     d_delivered_at = None, d_acknowledged_at = None, d_handled_at = None, d_last_error = '''',
     d_reactivation_policy = TERMINAL, d_updated_at = env_now e\<rparr>"

definition insert_delivery :: "delivery_row \<Rightarrow> db \<Rightarrow> db cp" where
  "insert_delivery d s =
     (if \<not> attachment_exact s d
      then Inl (PyError ''IntegrityError'' ''message delivery attachment binding is invalid'')
      else if list_ex (\<lambda>r. delivery_key r = delivery_key d) (deliveries s) then Inl unique_violation
      else Inr (s\<lparr>deliveries := deliveries s @ [d]\<rparr>))"

definition route_delivery :: "env \<Rightarrow> message_request \<Rightarrow> packet_binding \<Rightarrow> ident \<Rightarrow> db \<Rightarrow> ident \<Rightarrow> db cp" where
  "route_delivery e q b message_id s recipient =
     (case fetchone (\<lambda>p. p_id p = recipient \<and> p_enabled p) (principals s) of
        None \<Rightarrow> Inl (NotFoundError ''enabled message recipient'' recipient)
      | Some p \<Rightarrow>
          if \<not> mq_create_delivery q
          then bindE (require (given (mq_work_item_id q) \<and> given (mq_attempt_id q)
                 \<and> Some (mq_sender_id q) = pk_attempt_worker b \<and> Some recipient = pk_supervisor b)
                 (ValidationError ''informational report must bind its exact Worker attempt and supervisor'' [])) (\<lambda>_. Inr s)
          else if p_role p = CAO \<and> given (mq_work_item_id q) \<and> Some recipient \<noteq> pk_supervisor b
          then Inl (AuthorizationError ''Work-bound CAO delivery must target its exact supervisor'' [])
          else if Some recipient = pk_attempt_worker b \<and> mq_runtime_session_id q \<noteq> None
                  \<and> mq_runtime_session_id q \<noteq> pk_attempt_runtime b
          then Inl (ConflictError ''message runtime does not match the durable task packet'' [])
          else bindE (choose_runtime e s q (p_role p) recipient
                 (if Some recipient = pk_attempt_worker b then pk_attempt_runtime b else mq_runtime_session_id q)) (\<lambda>runtime.
               insert_delivery (new_delivery e message_id recipient
                 (if p_role p = CAO then pk_supervisor_attachment b else None) runtime) s))"

section \<open>The message\<close>

definition existing_message :: "db \<Rightarrow> message_request \<Rightarrow> message_row option" where
  "existing_message s q = (if mq_idempotency_key q = '''' then None
     else fetchone (\<lambda>m. m_sender_id m = mq_sender_id q \<and> m_idempotency_key m = mq_idempotency_key q) (messages s))"

definition new_message :: "env \<Rightarrow> message_request \<Rightarrow> packet_binding \<Rightarrow> (pystr \<times> json) list \<Rightarrow> int \<Rightarrow> message_row" where
  "new_message e q b payload seq =
     (let i = env_mint e ''msg'' seq in
      \<lparr>m_sequence = seq, m_id = i, m_work_item_id = mq_work_item_id q, m_attempt_id = mq_attempt_id q,
       m_sender_id = mq_sender_id q, m_kind = mq_kind q, m_payload = sort_keys (JObj payload),
       m_payload_digest = service_digest (env_sha e) (JObj payload), m_message_digest = request_digest e q b payload,
       m_correlation_id = (if mq_correlation_id q = '''' then i else mq_correlation_id q),
       m_causation_id = mq_causation_id q, m_idempotency_key = mq_idempotency_key q, m_goal_version = mq_goal_version q,
       m_goal_packet_digest = pk_goal_digest b, m_task_packet_digest = pk_task_digest b\<rparr>)"

definition dangling :: "('a \<Rightarrow> ident) \<Rightarrow> 'a list \<Rightarrow> ident option \<Rightarrow> bool" where
  "dangling key rows i = (case i of None \<Rightarrow> False | Some x \<Rightarrow> \<not> list_ex (\<lambda>r. key r = x) rows)"

definition insert_message :: "message_row \<Rightarrow> db \<Rightarrow> db cp" where
  "insert_message m s =
     (if list_ex (\<lambda>x. m_id x = m_id m) (messages s) then Inl unique_violation
      else if dangling p_id (principals s) (Some (m_sender_id m)) \<or> dangling w_id (works s) (m_work_item_id m)
         \<or> dangling a_id (attempts s) (m_attempt_id m)
      then Inl foreign_key_violation
      else Inr (s\<lparr>messages := messages s @ [m], message_sequence := m_sequence m\<rparr>))"

definition message_bundle :: "db \<Rightarrow> ident \<Rightarrow> (message_row \<times> delivery_row list) cp" where
  "message_bundle s message_id =
     (case get_message s message_id of
        None \<Rightarrow> Inl (NotFoundError ''message'' message_id)
      | Some m \<Rightarrow> Inr (m, sort_key d_recipient_id (filter (\<lambda>d. d_message_id d = message_id) (deliveries s))))"

definition create_message :: "env \<Rightarrow> message_request \<Rightarrow> packet_binding \<Rightarrow> (pystr \<times> json) list \<Rightarrow> db \<Rightarrow> (db \<times> message_row \<times> delivery_row list) cp" where
  "create_message e q b payload s =
     (let m = new_message e q b payload (message_sequence s + 1) in
      bindE (insert_message m s) (\<lambda>s1.
      bindE (foldE (route_delivery e q b (m_id m)) s1 (request_recipients q)) (\<lambda>s2.
      let s3 = log_event e ((mk_event ''message.created'' ''message'' (m_id m) (mq_sender_id q)
                  [(''recipient_ids'', JArr (List.map jstr (request_recipients q))),
                   (''kind'', jstr (message_kind_value (mq_kind q))), (''work_item_id'', jstr_opt (mq_work_item_id q)),
                   (''attempt_id'', jstr_opt (mq_attempt_id q))])
                \<lparr>ei_correlation_id := m_correlation_id m, ei_causation_id := mq_causation_id q\<rparr>) s2
      in bindE (message_bundle s3 (m_id m)) (\<lambda>r. Inr (s3, r)))))"

definition message_tx :: "env \<Rightarrow> message_request \<Rightarrow> db \<Rightarrow> (db \<times> message_row \<times> delivery_row list) cp" where
  "message_tx e q s =
     (if request_recipients q = [] then Inl (ValidationError ''message requires at least one recipient'' [])
      else if \<not> mq_create_delivery q \<and> mq_kind q \<notin> {ARTIFACT, PROGRESS}
      then Inl (ValidationError ''only an informational Worker report may omit delivery'' [])
      else bindE (bind_packets s q) (\<lambda>b.
        bindE (bound_payload q b) (\<lambda>payload0.
        bindE (purposed_payload e s q b payload0) (\<lambda>payload.
        case existing_message s q of
          Some m \<Rightarrow>
            if m_message_digest m \<noteq> '''' \<and> m_message_digest m \<noteq> request_digest e q b payload
            then Inl (ConflictError ''message idempotency key was reused with different content'' [])
            else bindE (message_bundle s (m_id m)) (\<lambda>r. Inr (s, r))
        | None \<Rightarrow> create_message e q b payload s))))"

definition send_message ::
  "env \<Rightarrow> actor \<Rightarrow> ident list \<Rightarrow> message_kind \<Rightarrow> (pystr \<times> json) list \<Rightarrow> ident option \<Rightarrow> ident option \<Rightarrow> int option
    \<Rightarrow> string \<Rightarrow> db \<Rightarrow> (db \<times> message_row \<times> delivery_row list) cp" where
  "send_message e a recipient_ids kind payload work_item_id attempt_id goal_version idempotency_key s =
     bindE (require_role e s a [CAO]) (\<lambda>_. transaction s (message_tx e
       \<lparr>mq_sender_id = act_id a, mq_recipient_id = None, mq_recipient_ids = recipient_ids, mq_kind = kind,
        mq_payload = payload, mq_work_item_id = work_item_id, mq_attempt_id = attempt_id, mq_correlation_id = '''',
        mq_causation_id = '''', mq_idempotency_key = idempotency_key, mq_goal_version = goal_version,
        mq_runtime_session_id = None, mq_create_delivery = True\<rparr>))"

end
