(* ===== verification/Delivery_Receipts.thy ===== *)
theory Delivery_Receipts
  imports Worker_Purpose Actors Provider_Probe
begin

text \<open>
  What a recipient and a supervisor do with a delivery: \<open>acknowledge\<close>, \<open>resolve_delivery\<close>,
  \<open>mark_message_handled\<close>, the FIFO fence \<open>_require_delivery_head_tx\<close>, the late receipt of a dead
  notification, and \<open>_reactivate_deliveries_tx\<close> of \<open>service.py\<close>.
\<close>

section \<open>Fences\<close>

definition require_delivery_head_tx :: "db \<Rightarrow> message_row \<Rightarrow> delivery_row \<Rightarrow> unit cp" where
  "require_delivery_head_tx s m d =
     (if str_or_empty (d_recipient_attachment_id d) \<noteq> '''' then Inr ()
      else require (list_ex (\<lambda>r. d_message_id r = m_id m \<and> d_recipient_id r = d_recipient_id d
               \<and> d_runtime_session_id r = d_runtime_session_id d
               \<and> runtime_delivery_lane_head s m r) (deliveries s))
             (ConflictError ''message has an unhandled predecessor'' []))"

text \<open>The digest columns of a message, when its payload repeats them.\<close>

definition payload_digest_fields_ok :: "message_row \<Rightarrow> bool" where
  "payload_digest_fields_ok m =
     (jget (m_payload m) ''goal_packet_digest'' \<in> {None, Some (jstr (m_goal_packet_digest m))}
      \<and> jget (m_payload m) ''task_packet_digest'' \<in> {None, Some (jstr (m_task_packet_digest m))})"

text \<open>\<open>payload.get("boundary_id")\<close> of a mapping, when it is true.\<close>

definition payload_boundary :: "message_row \<Rightarrow> json option" where
  "payload_boundary m = (case jget (m_payload m) ''boundary_id'' of
      None \<Rightarrow> None | Some v \<Rightarrow> if truthy v then Some v else None)"

definition boundary_disposition :: "db \<Rightarrow> work_row \<Rightarrow> boundary_row \<Rightarrow> disposition_row option" where
  "boundary_disposition s w b = fetchone (\<lambda>x. bd_boundary_id x = b_id b \<and> bd_generation x = b_generation b
     \<and> sql_eq (Some (bd_decided_by x)) (w_supervisor_id w)) (dispositions s)"

definition boundary_supersession :: "db \<Rightarrow> boundary_row \<Rightarrow> supersession_row option" where
  "boundary_supersession s b = fetchone (\<lambda>x. bs_boundary_id x = b_id b) (supersessions s)"

text \<open>The Work of a boundary whose notification \<open>m\<close> is, under the supervisor \<open>actor\<close>.\<close>

definition notified_work :: "db \<Rightarrow> actor \<Rightarrow> message_row \<Rightarrow> boundary_row \<Rightarrow> work_row option" where
  "notified_work s a m b =
     (if sql_eq (Some (b_work_item_id b)) (m_work_item_id m)
         \<and> sql_eq (Some (b_attempt_id b)) (m_attempt_id m)
         \<and> sql_eq (Some (b_goal_version b)) (m_goal_version m)
         \<and> b_goal_packet_digest b = m_goal_packet_digest m
         \<and> b_task_packet_digest b = m_task_packet_digest m
         \<and> list_ex (\<lambda>x. a_id x = b_attempt_id b \<and> a_work_item_id x = b_work_item_id b) (attempts s)
      then (case get_work s (b_work_item_id b) of
          None \<Rightarrow> None
        | Some w \<Rightarrow> if w_supervisor_id w = Some (act_id a) \<and> w_supervisor_attachment_id w = Some (act_attachment_id a)
              \<and> (boundary_disposition s w b \<noteq> None \<or> boundary_supersession s b \<noteq> None)
            then Some w else None)
      else None)"

definition generation_field_ok :: "json \<Rightarrow> string \<Rightarrow> int \<Rightarrow> bool" where
  "generation_field_ok payload field g = (jget payload field \<in> {None, Some (JInt g)})"

definition resolved_cao_boundary_notification_tx ::
  "env \<Rightarrow> db \<Rightarrow> actor \<Rightarrow> message_row \<Rightarrow> delivery_row \<Rightarrow> (string \<times> json) list option" where
  "resolved_cao_boundary_notification_tx e s a m d =
     (if act_role a \<noteq> CAO \<or> act_attachment_id a = '''' \<or> d_recipient_id d \<noteq> act_id a
         \<or> str_or_empty (d_recipient_attachment_id d) \<noteq> act_attachment_id a
      then None
      else if payload_boundary m = None \<or> \<not> payload_digest_fields_ok m then None
      else (case fetchone (\<lambda>b. u (b_id b) = py_str e (payload_boundary m) \<and> notified_work s a m b \<noteq> None) (boundaries s) of
          None \<Rightarrow> None
        | Some b \<Rightarrow>
            if \<not> generation_field_ok (m_payload m) ''generation'' (b_generation b)
               \<or> \<not> generation_field_ok (m_payload m) ''expected_generation'' (b_generation b)
            then None
            else Some [(''boundary_id'', jstr (b_id b)),
                 (''boundary_disposition_id'', jstr (case notified_work s a m b of
                     None \<Rightarrow> '''' | Some w \<Rightarrow> str_or_empty (map_option bd_id (boundary_disposition s w b)))),
                 (''boundary_superseding_event_sequence'', jint_opt (map_option bs_superseding_event_sequence
                     (boundary_supersession s b)))]))"

section \<open>Acknowledging\<close>

text \<open>The owner of the newest dispatch to a recipient on a runtime.\<close>

definition newest_runtime_owner :: "db \<Rightarrow> delivery_row \<Rightarrow> string option" where
  "newest_runtime_owner s d = map_option d_owner_token
     (last_by (sequence_of s) (filter (\<lambda>n. get_message s (d_message_id n) \<noteq> None
        \<and> sql_eq (d_runtime_session_id n) (d_runtime_session_id d)
        \<and> d_recipient_id n = d_recipient_id d
        \<and> d_state n = DISPATCHED \<and> d_owner_token n \<noteq> '''') (deliveries s)))"

definition active_handoff :: "db \<Rightarrow> delivery_row \<Rightarrow> bool" where
  "active_handoff s d = list_ex (\<lambda>r. sql_eq (Some (r_id r)) (d_runtime_session_id d) \<and> r_state r = R_BUSY
     \<and> sql_eq (Some (d_owner_token d)) (newest_runtime_owner s d)) (runtimes s)"

definition settled_unknown :: "env \<Rightarrow> db \<Rightarrow> delivery_row \<Rightarrow> bool" where
  "settled_unknown e s d = (d_state d = DISPATCHED
     \<and> (d_owner_token d = ''''
        \<or> ((case d_lease_until d of None \<Rightarrow> True | Some t \<Rightarrow> t \<le> env_now e) \<and> \<not> active_handoff s d)))"

definition ack_attachment_ok :: "env \<Rightarrow> db \<Rightarrow> actor \<Rightarrow> delivery_row \<Rightarrow> unit cp" where
  "ack_attachment_ok e s a d =
     (if act_attachment_id a = '''' then Inr ()
      else if str_or_empty (d_recipient_attachment_id d) \<noteq> act_attachment_id a
      then Inl (AuthorizationError ''message is not bound to this CAO conversation'' [])
      else if settled_unknown e s d
      then Inl (ConflictError ''unknown CAO handoff is preserved and unavailable for acknowledgement''
             [(''state'', jstr (delivery_state_value (d_state d)))])
      else Inr ())"

definition worker_route_ok :: "env \<Rightarrow> db \<Rightarrow> actor \<Rightarrow> delivery_row \<Rightarrow> unit cp" where
  "worker_route_ok e s a d =
     (if act_role a \<noteq> WORKER then Inr ()
      else if str_or_empty (d_runtime_session_id d) = ''''
      then Inl (ConflictError ''Worker delivery is not bound to a managed MCP runtime'' [])
      else bindE (require_worker_runtime_actor_tx e (Some (str_or_empty (d_runtime_session_id d))) True s a) (\<lambda>_. Inr ()))"

definition addressed :: "ident \<Rightarrow> ident \<Rightarrow> delivery_row \<Rightarrow> bool" where
  "addressed message_id recipient_id r = (d_message_id r = message_id \<and> d_recipient_id r = recipient_id)"

definition message_event :: "string \<Rightarrow> ident \<Rightarrow> ident \<Rightarrow> (string \<times> json) list \<Rightarrow> event_input" where
  "message_event ty message_id actor_id data = (mk_event ty ''message'' message_id actor_id data)\<lparr>ei_causation_id := message_id\<rparr>"

definition late_receipt_row :: "env \<Rightarrow> delivery_row \<Rightarrow> delivery_row" where
  "late_receipt_row e r = r\<lparr>d_state := HANDLED, d_acknowledged_at := coalesce (d_acknowledged_at r) (Some (env_now e)),
     d_handled_at := coalesce (d_handled_at r) (Some (env_now e)), d_updated_at := env_now e\<rparr>"

definition dead_receipt_row :: "env \<Rightarrow> delivery_row \<Rightarrow> delivery_row" where
  "dead_receipt_row e r = r\<lparr>d_state := HANDLED, d_acknowledged_at := coalesce (d_acknowledged_at r) (Some (env_now e)),
     d_handled_at := coalesce (d_handled_at r) (Some (env_now e)), d_lease_until := None, d_owner_token := '''',
     d_updated_at := env_now e\<rparr>"

definition ack_row :: "env \<Rightarrow> delivery_row \<Rightarrow> delivery_row" where
  "ack_row e r = r\<lparr>d_state := ACKNOWLEDGED, d_acknowledged_at := coalesce (d_acknowledged_at r) (Some (env_now e)),
     d_lease_until := None, d_owner_token := '''', d_updated_at := env_now e\<rparr>"

definition terminal_work :: "db \<Rightarrow> message_row \<Rightarrow> work_state option" where
  "terminal_work s m = (case m_work_item_id m of None \<Rightarrow> None
     | Some i \<Rightarrow> (case get_work s i of None \<Rightarrow> None
         | Some w \<Rightarrow> if w_state w \<in> {W_COMPLETED, W_CANCELED, W_FAILED} then Some (w_state w) else None))"

text \<open>A receipt for a dead delivery; \<open>None\<close> when the ordinary path is to decide.\<close>

definition acknowledge_dead :: "env \<Rightarrow> actor \<Rightarrow> message_row \<Rightarrow> delivery_row \<Rightarrow> db \<Rightarrow> db option cp" where
  "acknowledge_dead e a m d s =
     (case resolved_cao_boundary_notification_tx e s a m d of
        Some resolution \<Rightarrow>
          (let fence = (\<lambda>r. addressed (m_id m) (act_id a) r \<and> d_generation r = d_generation d \<and> d_state r = DEAD) in
           if rowcount fence (deliveries s) \<noteq> 1
           then Inl (ConflictError ''message acknowledgement lost its delivery fence'' [])
           else Inr (Some (log_event e (message_event ''message.dead_acknowledged'' (m_id m) (act_id a)
                  (resolution @ [(''prior_delivery_state'', jstr ''dead''), (''delivery_generation'', JInt (d_generation d)),
                     (''prior_error_digest'', jstr (service_digest (env_sha e) (jstr (d_last_error d))))]))
                (s\<lparr>deliveries := update_rows fence (late_receipt_row e) (deliveries s)\<rparr>))))
      | None \<Rightarrow>
          if act_role a = CAO \<and> act_attachment_id a \<noteq> '''' \<and> payload_boundary m \<noteq> None
          then Inl (ConflictError ''message is not available for acknowledgement''
                 [(''state'', jstr (delivery_state_value (d_state d)))])
          else (case terminal_work s m of
              None \<Rightarrow> Inr None
            | Some state \<Rightarrow>
                (let fence = (\<lambda>r. addressed (m_id m) (act_id a) r \<and> d_state r = DEAD);
                     s' = s\<lparr>deliveries := update_rows fence (dead_receipt_row e) (deliveries s)\<rparr>
                 in Inr (Some (if rowcount fence (deliveries s) = 1
                      then log_event e (message_event ''message.dead_acknowledged'' (m_id m) (act_id a)
                             [(''terminal_work_state'', jstr (work_state_value state))]) s'
                      else s')))))"

text \<open>The attempt a message belongs to, whose packet it must carry.\<close>

definition ack_attempt :: "db \<Rightarrow> message_row \<Rightarrow> attempt_row option cp" where
  "ack_attempt s m =
     (case m_attempt_id m of
        None \<Rightarrow> Inr None
      | Some i \<Rightarrow> (case get_attempt s i of
          None \<Rightarrow> Inl (ConflictError ''message acknowledgement targets a stale task packet'' [])
        | Some x \<Rightarrow>
            if (case m_goal_version m of None \<Rightarrow> 0 | Some v \<Rightarrow> v) = a_goal_version x
               \<and> m_goal_packet_digest m = a_goal_packet_digest x \<and> m_task_packet_digest m = a_task_packet_digest x
            then Inr (Some x)
            else Inl (ConflictError ''message acknowledgement targets a stale task packet'' [])))"

definition accept_assignment :: "env \<Rightarrow> actor \<Rightarrow> message_row \<Rightarrow> attempt_row option \<Rightarrow> db \<Rightarrow> db" where
  "accept_assignment e a m att s =
     (case att of
        None \<Rightarrow> s
      | Some x \<Rightarrow>
          if m_kind m = ASSIGNMENT \<and> a_worker_id x = act_id a \<and> a_state x = A_ASSIGNED
          then log_event e ((mk_event ''work.assignment_accepted'' ''work_item'' (a_work_item_id x) (act_id a)
                 [(''attempt_id'', jstr (a_id x)), (''goal_version'', JInt (a_goal_version x)),
                  (''goal_packet_digest'', jstr (a_goal_packet_digest x)),
                  (''task_packet_digest'', jstr (a_task_packet_digest x))])\<lparr>ei_causation_id := m_id m\<rparr>)
               (s\<lparr>attempts := update_rows (\<lambda>y. a_id y = a_id x)
                    (\<lambda>y. y\<lparr>a_state := A_ACCEPTED, a_updated_at := env_now e\<rparr>) (attempts s)\<rparr>)
          else s)"

definition ack_open :: "ident \<Rightarrow> ident \<Rightarrow> delivery_row \<Rightarrow> bool" where
  "ack_open message_id recipient_id r =
     (addressed message_id recipient_id r \<and> d_state r \<in> {QUEUED, LEASED, DISPATCHED, DELIVERED})"

definition acknowledge_open :: "env \<Rightarrow> actor \<Rightarrow> message_row \<Rightarrow> delivery_row \<Rightarrow> db \<Rightarrow> db cp" where
  "acknowledge_open e a m d s =
     bindE (require_delivery_head_tx s m d) (\<lambda>_.
     bindE (ack_attempt s m) (\<lambda>att.
     bindE (require (d_state d \<in> {QUEUED, LEASED, DISPATCHED, DELIVERED})
              (ConflictError ''message is not available for acknowledgement''
                 [(''state'', jstr (delivery_state_value (d_state d)))])) (\<lambda>_.
     bindE (require (rowcount (ack_open (m_id m) (act_id a)) (deliveries s) = 1)
              (ConflictError ''message acknowledgement lost its delivery fence'' [])) (\<lambda>_.
     Inr (accept_assignment e a m att
       (log_event e (message_event ''message.acknowledged'' (m_id m) (act_id a) [])
          (s\<lparr>deliveries := update_rows (ack_open (m_id m) (act_id a)) (ack_row e) (deliveries s)\<rparr>)))))))"

definition acknowledge_one :: "env \<Rightarrow> actor \<Rightarrow> db \<Rightarrow> ident \<Rightarrow> db cp" where
  "acknowledge_one e a s message_id =
     (case get_message s message_id of
        None \<Rightarrow> Inl (NotFoundError ''message'' message_id)
      | Some m \<Rightarrow> (case get_delivery s message_id (act_id a) of
          None \<Rightarrow> Inl (AuthorizationError ''message is not addressed to this principal'' [])
        | Some d \<Rightarrow>
            bindE (ack_attachment_ok e s a d) (\<lambda>_.
            bindE (worker_route_ok e s a d) (\<lambda>_.
            if d_state d \<in> {ACKNOWLEDGED, HANDLED} then Inr s
            else bindE (if d_state d = DEAD then acknowledge_dead e a m d s else Inr None) (\<lambda>done_by.
              case done_by of Some s' \<Rightarrow> Inr s' | None \<Rightarrow> acknowledge_open e a m d s)))))"

text \<open>Every message named is acknowledged once, in the order first named, or the call fails as a whole.\<close>

definition cao_bearer :: "actor \<Rightarrow> bool" where
  "cao_bearer a = (act_runtime_credential_id a \<noteq> '''' \<or> act_conversation_credential_id a \<noteq> '''')"

definition acknowledge :: "env \<Rightarrow> actor \<Rightarrow> ident list \<Rightarrow> db \<Rightarrow> (db \<times> ident list) cp" where
  "acknowledge e a message_ids s =
     bindE (if cao_bearer a then require_role e s a [CAO] else Inr ()) (\<lambda>_.
     transaction s (\<lambda>s.
       bindE (if act_role a = CAO \<and> cao_bearer a then require_current_cao_attachment_actor_tx e True s a else Inr ()) (\<lambda>_.
       foldE (\<lambda>(s, done_ids) i. bindE (acknowledge_one e a s i) (\<lambda>s'. Inr (s', done_ids @ [i])))
         (s, []) (dict_fromkeys message_ids))))"

section \<open>Resolving an unknown dispatch\<close>

datatype delivery_outcome = OUTCOME_DELIVERED | OUTCOME_NOT_DELIVERED | OUTCOME_DEAD

fun delivery_outcome_value :: "delivery_outcome \<Rightarrow> string" where
  "delivery_outcome_value OUTCOME_DELIVERED = ''delivered''"
| "delivery_outcome_value OUTCOME_NOT_DELIVERED = ''not_delivered''"
| "delivery_outcome_value OUTCOME_DEAD = ''dead''"

definition latest_attempt :: "db \<Rightarrow> ident \<Rightarrow> attempt_row option" where
  "latest_attempt s work_id = last_by a_attempt_number (filter (\<lambda>x. a_work_item_id x = work_id) (attempts s))"

definition current_attempt_of :: "db \<Rightarrow> message_row \<Rightarrow> attempt_row option" where
  "current_attempt_of s m = fetchone (\<lambda>x. sql_eq (Some (a_id x)) (m_attempt_id m)
     \<and> sql_eq (Some (a_work_item_id x)) (m_work_item_id m)
     \<and> map_option a_id (latest_attempt s (a_work_item_id x)) = Some (a_id x)) (attempts s)"

text \<open>An Assignment may be sent again only while it still is the current task of its Work.\<close>

definition assignment_is_current :: "env \<Rightarrow> db \<Rightarrow> message_row \<Rightarrow> work_row option \<Rightarrow> delivery_row \<Rightarrow> bool" where
  "assignment_is_current e s m work d =
     (if m_kind m \<noteq> ASSIGNMENT then True
      else (case (work, current_attempt_of s m) of
          (Some w, Some x) \<Rightarrow>
            is_mapping (m_payload m)
            \<and> service_digest (env_sha e) (m_payload m) = m_payload_digest m
            \<and> py_str_or_empty e (jget (m_payload m) ''work_item_id'') = u (w_id w)
            \<and> py_str_or_empty e (jget (m_payload m) ''attempt_id'') = u (a_id x)
            \<and> (case jget (m_payload m) ''generation'' of None \<Rightarrow> False | Some v \<Rightarrow> py_num v = Some (w_generation w))
            \<and> w_state w = W_ACTIVE \<and> w_attention_owner w = AO_WORKER
            \<and> a_state x \<in> {A_ASSIGNED, A_ACCEPTED, A_WORKING}
            \<and> a_worker_id x = d_recipient_id d
            \<and> str_or_empty (a_runtime_session_id x) = str_or_empty (d_runtime_session_id d)
        | _ \<Rightarrow> False))"

definition resolve_state :: "delivery_outcome \<Rightarrow> bool \<Rightarrow> delivery_state" where
  "resolve_state outcome current = (case outcome of
      OUTCOME_DELIVERED \<Rightarrow> DELIVERED
    | OUTCOME_NOT_DELIVERED \<Rightarrow> if current then QUEUED else DEAD
    | OUTCOME_DEAD \<Rightarrow> DEAD)"

definition resolve_error :: "env \<Rightarrow> delivery_outcome \<Rightarrow> bool \<Rightarrow> pystr \<Rightarrow> string" where
  "resolve_error e outcome current evidence =
     (if outcome = OUTCOME_NOT_DELIVERED \<and> \<not> current then ''system_reconciliation_required''
      else ''resolved:'' @ delivery_outcome_value outcome @ '';evidence_digest='' @ service_digest (env_sha e) (JStr evidence))"

definition resolve_row :: "env \<Rightarrow> delivery_outcome \<Rightarrow> bool \<Rightarrow> pystr \<Rightarrow> delivery_row \<Rightarrow> delivery_row" where
  "resolve_row e outcome current evidence r = r\<lparr>d_state := resolve_state outcome current,
     d_generation := d_generation r + (if resolve_state outcome current = QUEUED then 1 else 0),
     d_next_attempt_at := (if outcome = OUTCOME_NOT_DELIVERED then env_now e else d_next_attempt_at r),
     d_delivered_at := coalesce (d_delivered_at r) (if outcome = OUTCOME_DELIVERED then Some (env_now e) else None),
     d_lease_until := None, d_owner_token := '''', d_last_error := resolve_error e outcome current evidence,
     d_updated_at := env_now e\<rparr>"

definition resolve_fence :: "ident \<Rightarrow> ident \<Rightarrow> delivery_row \<Rightarrow> bool" where
  "resolve_fence message_id recipient_id r = (addressed message_id recipient_id r \<and> d_state r = DISPATCHED)"

definition resolve_events :: "env \<Rightarrow> actor \<Rightarrow> message_row \<Rightarrow> delivery_row \<Rightarrow> delivery_outcome \<Rightarrow> bool \<Rightarrow> pystr \<Rightarrow> db \<Rightarrow> db" where
  "resolve_events e a m d outcome current evidence s =
     (let s1 = (if outcome = OUTCOME_NOT_DELIVERED \<and> \<not> current
                then log_event e (message_event ''message.delivery_superseded'' (m_id m) (act_id a)
                       [(''recipient_id'', jstr (d_recipient_id d)),
                        (''reason_code'', jstr ''system_reconciliation_required'')]) s
                else s);
          s2 = (case (m_attempt_id m, d_runtime_session_id d) of
                  (Some attempt, Some runtime) \<Rightarrow>
                    if outcome = OUTCOME_NOT_DELIVERED \<and> m_kind m = ASSIGNMENT
                    then release_provider_runtime_probe_tx e runtime (m_id m) attempt s1 else s1
                | _ \<Rightarrow> s1)
      in log_event e (message_event ''message.delivery_resolved'' (m_id m) (act_id a)
           [(''recipient_id'', jstr (d_recipient_id d)), (''outcome'', jstr (delivery_outcome_value outcome)),
            (''evidence_digest'', jstr (service_digest (env_sha e) (JStr evidence)))]) s2)"

definition message_work :: "db \<Rightarrow> actor \<Rightarrow> message_row \<Rightarrow> work_row option cp" where
  "message_work s a m =
     (case m_work_item_id m of
        None \<Rightarrow> Inr None
      | Some i \<Rightarrow> (case get_work s i of
          None \<Rightarrow> Inl (NotFoundError ''work item'' i)
        | Some w \<Rightarrow> bindE (authorize_work_actor a w) (\<lambda>_. Inr (Some w))))"

definition resolve_delivery_tx ::
  "env \<Rightarrow> actor \<Rightarrow> ident \<Rightarrow> ident \<Rightarrow> delivery_outcome \<Rightarrow> pystr \<Rightarrow> db \<Rightarrow> (db \<times> delivery_row) cp" where
  "resolve_delivery_tx e a message_id recipient_id outcome evidence s =
     (case get_message s message_id of
        None \<Rightarrow> Inl (NotFoundError ''message'' message_id)
      | Some m \<Rightarrow>
          bindE (message_work s a m) (\<lambda>work.
          case get_delivery s message_id recipient_id of
            None \<Rightarrow> Inl (NotFoundError ''message delivery'' message_id)
          | Some d \<Rightarrow>
              if d_state d \<noteq> DISPATCHED
              then Inl (ConflictError ''only an unknown dispatched delivery can be resolved''
                     [(''state'', jstr (delivery_state_value (d_state d)))])
              else (let current = assignment_is_current e s m work d;
                        fence = resolve_fence message_id recipient_id;
                        s' = s\<lparr>deliveries := update_rows fence (resolve_row e outcome current evidence) (deliveries s)\<rparr>
                    in if rowcount fence (deliveries s) \<noteq> 1
                       then Inl (ConflictError ''delivery resolution lost its state fence'' [])
                       else (let s'' = resolve_events e a m d outcome current evidence s' in
                             case get_delivery s'' message_id recipient_id of
                               None \<Rightarrow> Inl (PyError ''AssertionError'' '''')
                             | Some row \<Rightarrow> Inr (s'', row)))))"

definition resolve_delivery ::
  "env \<Rightarrow> actor \<Rightarrow> ident \<Rightarrow> ident \<Rightarrow> delivery_outcome \<Rightarrow> pystr \<Rightarrow> db \<Rightarrow> (db \<times> delivery_row) cp" where
  "resolve_delivery e a message_id recipient_id outcome evidence s =
     bindE (require_role e s a [CAO]) (\<lambda>_. transaction s (resolve_delivery_tx e a message_id recipient_id outcome evidence))"

section \<open>Handling\<close>

definition handled_row :: "env \<Rightarrow> delivery_row \<Rightarrow> delivery_row" where
  "handled_row e r = r\<lparr>d_state := HANDLED, d_handled_at := Some (env_now e), d_updated_at := env_now e\<rparr>"

definition boundary_resolved :: "env \<Rightarrow> db \<Rightarrow> actor \<Rightarrow> message_row \<Rightarrow> delivery_row \<Rightarrow> bool" where
  "boundary_resolved e s a m d =
     (if act_role a = CAO \<and> act_attachment_id a \<noteq> ''''
      then resolved_cao_boundary_notification_tx e s a m d \<noteq> None
      else list_ex (\<lambda>x. u (bd_boundary_id x) = py_str e (payload_boundary m)) (dispositions s)
           \<or> list_ex (\<lambda>x. u (bs_boundary_id x) = py_str e (payload_boundary m)) (supersessions s))"

text \<open>What must hold before an acknowledged message is handled; the purpose confirmation is an event.\<close>

definition handling_admitted :: "env \<Rightarrow> actor \<Rightarrow> message_row \<Rightarrow> delivery_row \<Rightarrow> int option \<Rightarrow> db \<Rightarrow> db cp" where
  "handling_admitted e a m d expected s =
     (if payload_boundary m \<noteq> None
      then (if boundary_resolved e s a m d then Inr s
            else Inl (ConflictError ''supervisor boundary must be disposed before its message is handled''
                   [(''boundary_id'', JStr (py_str e (payload_boundary m)))]))
      else (case m_work_item_id m of
          None \<Rightarrow> Inr s
        | Some i \<Rightarrow>
            if act_role a = CAO \<and> i \<noteq> ''''
            then bindE (require_authorized_work_tx s a i) (\<lambda>w.
                 confirm_work_purpose_tx e (act_id a) w expected ''handle_report'' s)
            else Inr s))"

definition mark_message_handled_tx ::
  "env \<Rightarrow> actor \<Rightarrow> ident \<Rightarrow> pystr \<Rightarrow> int option \<Rightarrow> db \<Rightarrow> (db \<times> delivery_row) cp" where
  "mark_message_handled_tx e a message_id evidence expected s =
     bindE (if act_role a = CAO \<and> act_attachment_id a \<noteq> '''' then require_current_cao_attachment_actor_tx e True s a
            else Inr ()) (\<lambda>_.
     case get_delivery s message_id (act_id a) of
       None \<Rightarrow> Inl (NotFoundError ''message delivery'' message_id)
     | Some d \<Rightarrow>
         bindE (require (act_attachment_id a = '''' \<or> str_or_empty (d_recipient_attachment_id d) = act_attachment_id a)
                  (AuthorizationError ''message is not bound to this CAO conversation'' [])) (\<lambda>_.
         bindE (worker_route_ok e s a d) (\<lambda>_.
         case get_message s message_id of
           None \<Rightarrow> Inl (NotFoundError ''message'' message_id)
         | Some m \<Rightarrow>
             bindE (require_delivery_head_tx s m d) (\<lambda>_.
             if d_state d = HANDLED then Inr (s, d)
             else if d_state d \<noteq> ACKNOWLEDGED
             then Inl (ConflictError ''message must be acknowledged before it is handled''
                    [(''state'', jstr (delivery_state_value (d_state d)))])
             else bindE (handling_admitted e a m d expected s) (\<lambda>s1.
               let s2 = log_event e (message_event ''message.handled'' message_id (act_id a)
                          [(''evidence_digest'', jstr (service_digest (env_sha e) (JStr (py_strip evidence))))])
                          (s1\<lparr>deliveries := update_rows (addressed message_id (act_id a)) (handled_row e) (deliveries s1)\<rparr>)
               in case get_delivery s2 message_id (act_id a) of
                    None \<Rightarrow> Inl (PyError ''AssertionError'' '''')
                  | Some row \<Rightarrow> Inr (s2, row))))))"

definition mark_message_handled ::
  "env \<Rightarrow> actor \<Rightarrow> ident \<Rightarrow> pystr \<Rightarrow> int option \<Rightarrow> db \<Rightarrow> (db \<times> delivery_row) cp" where
  "mark_message_handled e a message_id evidence expected s =
     bindE (if cao_bearer a then require_role e s a [CAO] else Inr ()) (\<lambda>_.
     if py_strip evidence = [] then Inl (ValidationError ''message handling evidence is required'' [])
     else transaction s (mark_message_handled_tx e a message_id evidence expected))"

section \<open>Reactivation\<close>

definition retired_route :: "db \<Rightarrow> delivery_row \<Rightarrow> attempt_row option \<Rightarrow> bool" where
  "retired_route s d att = list_ex (\<lambda>ep. te_retired_at ep \<noteq> None
     \<and> (sql_eq (Some (te_runtime_session_id ep)) (d_runtime_session_id d)
        \<or> sql_eq (Some (te_runtime_session_id ep)) (case att of None \<Rightarrow> None | Some x \<Rightarrow> a_runtime_session_id x)))
     (epochs s)"

definition reactivatable :: "db \<Rightarrow> ident \<Rightarrow> delivery_row \<Rightarrow> bool" where
  "reactivatable s principal_id d =
     (case get_message s (d_message_id d) of
        None \<Rightarrow> False
      | Some m \<Rightarrow>
          (let att = (case m_attempt_id m of None \<Rightarrow> None | Some i \<Rightarrow> get_attempt s i) in
           d_recipient_id d = principal_id \<and> d_state d = DEAD \<and> d_reactivation_policy d = RETRYABLE
           \<and> \<not> retired_route s d att
           \<and> (m_attempt_id m = None \<or> m_kind m = CANCEL
              \<or> (case att of None \<Rightarrow> False
                 | Some x \<Rightarrow> a_worker_id x \<noteq> d_recipient_id d \<or> a_state x \<notin> {A_COMPLETED, A_FAILED, A_CANCELED}))))"

definition reactivate_row :: "env \<Rightarrow> ident \<Rightarrow> delivery_row \<Rightarrow> delivery_row" where
  "reactivate_row e runtime_id r = r\<lparr>d_state := QUEUED, d_generation := d_generation r + 1, d_attempts := 0,
     d_next_attempt_at := env_now e, d_runtime_session_id := Some runtime_id, d_lease_until := None,
     d_owner_token := '''', d_last_error := '''', d_reactivation_policy := TERMINAL, d_updated_at := env_now e\<rparr>"

definition reactivate_deliveries_tx :: "env \<Rightarrow> ident \<Rightarrow> ident \<Rightarrow> db \<Rightarrow> db \<times> nat" where
  "reactivate_deliveries_tx e principal_id runtime_id s =
     (let ids = List.map d_message_id (filter (reactivatable s principal_id) (deliveries s)) in
      if ids = [] then (s, 0)
      else (s\<lparr>deliveries := update_rows (\<lambda>r. d_recipient_id r = principal_id \<and> d_message_id r \<in> set ids)
               (reactivate_row e runtime_id) (deliveries s)\<rparr>, length ids))"

section \<open>The inbox\<close>

definition inbox_visible :: "db \<Rightarrow> actor \<Rightarrow> int \<Rightarrow> ident option \<Rightarrow> bool \<Rightarrow> message_row \<Rightarrow> delivery_row \<Rightarrow> bool" where
  "inbox_visible s a after attempt_id include_acknowledged m d =
     (d_message_id d = m_id m \<and> d_recipient_id d = act_id a \<and> m_sequence m > after
      \<and> (act_attachment_id a \<noteq> '''' \<longrightarrow> d_recipient_attachment_id d = Some (act_attachment_id a)
           \<and> cao_notification_inbox_visible include_acknowledged d)
      \<and> (str_or_empty attempt_id \<noteq> '''' \<longrightarrow> sql_eq (m_attempt_id m) attempt_id)
      \<and> (act_attachment_id a = '''' \<longrightarrow> (include_acknowledged \<or> d_state d \<notin> {ACKNOWLEDGED, HANDLED})
           \<and> runtime_delivery_lane_head s m d))"

definition inbox_rows :: "db \<Rightarrow> actor \<Rightarrow> int \<Rightarrow> ident option \<Rightarrow> bool \<Rightarrow> message_row list" where
  "inbox_rows s a after attempt_id include_acknowledged = sort_key m_sequence
     (concat (List.map (\<lambda>m. List.map (\<lambda>_. m)
        (filter (inbox_visible s a after attempt_id include_acknowledged m) (deliveries s))) (messages s)))"

definition inbox_limit :: "int \<Rightarrow> nat" where
  "inbox_limit limit = nat (min (max limit 1) 1000)"

text \<open>The items of one page and the cursor of the next; the columns shown of an item are left out.\<close>

definition get_inbox ::
  "env \<Rightarrow> actor \<Rightarrow> int \<Rightarrow> int \<Rightarrow> ident option \<Rightarrow> bool \<Rightarrow> db \<Rightarrow> (db \<times> message_row list \<times> int option) cp" where
  "get_inbox e a after limit attempt_id include_acknowledged s =
     bindE (if act_conversation_credential_id a \<noteq> '''' then require_role e s a [CAO] else Inr ()) (\<lambda>_.
     transaction s (\<lambda>s.
       bindE (if act_role a = CAO \<and> act_attachment_id a \<noteq> '''' then require_current_cao_attachment_actor_tx e True s a
              else if act_role a = WORKER then bindE (require_worker_runtime_actor_tx e None True s a) (\<lambda>_. Inr ())
              else Inr ()) (\<lambda>_.
       let rows = inbox_rows s a after attempt_id include_acknowledged;
           n = inbox_limit limit;
           items = take n rows
       in Inr (s, items, if length rows > n \<and> items \<noteq> [] then Some (m_sequence (last items)) else None))))"

end
