(* ===== verification/Reasoner_Recovery.thy ===== *)
theory Reasoner_Recovery
  imports Supervision_Ledger Messages Delivery_Receipts
begin

text \<open>
  What the service does when a decision about a boundary does not come: the decision leases of
  \<open>reasoner_turns\<close>, the recovery wakes, and the escalation to the requester, after the
  \<open>_supersede_boundary_deliveries_tx\<close> family, \<open>recover_expired_reasoner_turns\<close>,
  \<open>_recover_incomplete_requester_escalation_tx\<close> and
  \<open>_recover_incomplete_reasoner_delivery_tx\<close> of \<open>service.py\<close>, and \<open>requester_escalation.py\<close>.
\<close>

section \<open>Boundaries and their notifications\<close>

definition get_boundary :: "db \<Rightarrow> ident \<Rightarrow> boundary_row option" where
  "get_boundary s i = fetchone (\<lambda>b. b_id b = i) (boundaries s)"

definition disposed :: "db \<Rightarrow> ident \<Rightarrow> bool" where
  "disposed s b = list_ex (\<lambda>d. bd_boundary_id d = b) (dispositions s)"

text \<open>The message carries the packet of the boundary and names it.\<close>

definition boundary_message :: "boundary_row \<Rightarrow> message_row \<Rightarrow> bool" where
  "boundary_message b m = (m_work_item_id m = Some (b_work_item_id b) \<and> m_attempt_id m = Some (b_attempt_id b)
     \<and> m_goal_version m = Some (b_goal_version b) \<and> m_goal_packet_digest m = b_goal_packet_digest b
     \<and> m_task_packet_digest m = b_task_packet_digest b
     \<and> jget (m_payload m) ''boundary_id'' = Some (jstr (b_id b)))"

definition boundary_delivery_rows_tx :: "db \<Rightarrow> ident \<Rightarrow> ident \<Rightarrow> (message_row \<times> delivery_row) list" where
  "boundary_delivery_rows_tx s boundary_id recipient_id =
     (case get_boundary s boundary_id of None \<Rightarrow> []
      | Some b \<Rightarrow> (case get_work s (b_work_item_id b) of None \<Rightarrow> []
         | Some w \<Rightarrow> concat (map (\<lambda>m. map (Pair m) (filter (\<lambda>d. d_message_id d = m_id m \<and> d_recipient_id d = recipient_id
             \<and> d_recipient_attachment_id d = w_supervisor_attachment_id w) (deliveries s)))
             (sort_key m_sequence (filter (boundary_message b) (messages s))))))"

definition caused_event :: "string \<Rightarrow> string \<Rightarrow> ident \<Rightarrow> ident \<Rightarrow> (string \<times> json) list \<Rightarrow> ident \<Rightarrow> event_input" where
  "caused_event ty agg i actor data cause = (mk_event ty agg i actor data)\<lparr>ei_causation_id := cause\<rparr>"

definition text_digest :: "env \<Rightarrow> string \<Rightarrow> string" where
  "text_digest e t = service_digest (env_sha e) (jstr t)"

section \<open>Settling and superseding notifications\<close>

definition boundary_handled_row :: "env \<Rightarrow> delivery_row \<Rightarrow> delivery_row" where
  "boundary_handled_row e r = r\<lparr>d_state := HANDLED, d_handled_at := Some (env_now e), d_lease_until := None,
     d_owner_token := '''', d_updated_at := env_now e\<rparr>"

definition handle_boundary_deliveries_tx :: "env \<Rightarrow> ident \<Rightarrow> ident \<Rightarrow> string \<Rightarrow> db \<Rightarrow> db" where
  "handle_boundary_deliveries_tx e boundary_id recipient_id evidence s =
     fold (\<lambda>(m, d) s. if d_state d \<noteq> ACKNOWLEDGED then s
       else log_event e (caused_event ''message.handled'' ''message'' (m_id m) recipient_id
              [(''evidence_digest'', jstr (text_digest e evidence))] boundary_id)
            (s\<lparr>deliveries := update_rows (\<lambda>r. addressed (m_id m) recipient_id r \<and> d_state r = ACKNOWLEDGED)
                 (boundary_handled_row e) (deliveries s)\<rparr>))
       (boundary_delivery_rows_tx s boundary_id recipient_id) s"

definition abandoned_turn :: "env \<Rightarrow> turn_row \<Rightarrow> turn_row" where
  "abandoned_turn e t = t\<lparr>rt_state := TURN_ABANDONED, rt_updated_at := env_now e\<rparr>"

definition fence_reasoner_turns_tx :: "env \<Rightarrow> ident \<Rightarrow> db \<Rightarrow> db" where
  "fence_reasoner_turns_tx e work_id s = s\<lparr>reasoner_turns :=
     update_rows (\<lambda>t. rt_work_item_id t = work_id \<and> rt_state t = TURN_LEASED) (abandoned_turn e) (reasoner_turns s)\<rparr>"

definition superseded_delivery :: "env \<Rightarrow> string \<Rightarrow> delivery_row \<Rightarrow> delivery_row" where
  "superseded_delivery e reason r = r\<lparr>d_state := DEAD, d_lease_until := None, d_owner_token := '''',
     d_last_error := ''superseded;evidence_digest='' @ text_digest e reason, d_updated_at := env_now e\<rparr>"

definition supersede_boundary_deliveries_tx :: "env \<Rightarrow> ident \<Rightarrow> ident \<Rightarrow> string \<Rightarrow> db \<Rightarrow> db" where
  "supersede_boundary_deliveries_tx e boundary_id recipient_id reason s =
     fold (\<lambda>(m, d) s. if d_state d \<in> {HANDLED, DEAD} then s
       else log_event e (caused_event ''message.delivery_superseded'' ''message'' (m_id m) recipient_id
              [(''boundary_id'', jstr boundary_id), (''reason_digest'', jstr (text_digest e reason))] boundary_id)
            (s\<lparr>deliveries := update_rows (addressed (m_id m) recipient_id) (superseded_delivery e reason) (deliveries s)\<rparr>))
       (boundary_delivery_rows_tx s boundary_id recipient_id)
       (s\<lparr>reasoner_turns := update_rows (\<lambda>t. rt_boundary_id t = boundary_id \<and> rt_state t = TURN_LEASED)
            (abandoned_turn e) (reasoner_turns s)\<rparr>)"

section \<open>System notifications\<close>

datatype notification_action = RECOVER_TERMINAL_WORKER_ATTEMPT | RECONCILE_COMPLETED_WORKER_TURN
  | RECONCILE_CONTINUE_SAME_THREAD | RECOVER_EXPIRED_REASONER_TURN | RECOVER_INCOMPLETE_REASONER_TURN
  | REVIEW_RUNTIME_BOUNDARY | REARM_SUPERVISION_BOUNDARY

fun notification_action_value :: "notification_action \<Rightarrow> string" where
  "notification_action_value RECOVER_TERMINAL_WORKER_ATTEMPT = ''recover_terminal_worker_attempt''"
| "notification_action_value RECONCILE_COMPLETED_WORKER_TURN = ''reconcile_completed_worker_turn''"
| "notification_action_value RECONCILE_CONTINUE_SAME_THREAD = ''reconcile_continue_same_thread''"
| "notification_action_value RECOVER_EXPIRED_REASONER_TURN = ''recover_expired_reasoner_turn''"
| "notification_action_value RECOVER_INCOMPLETE_REASONER_TURN = ''recover_incomplete_reasoner_turn''"
| "notification_action_value REVIEW_RUNTIME_BOUNDARY = ''review_runtime_boundary''"
| "notification_action_value REARM_SUPERVISION_BOUNDARY = ''rearm_supervision_boundary''"

fun notification_detail_field :: "notification_action \<Rightarrow> string option" where
  "notification_detail_field RECOVER_TERMINAL_WORKER_ATTEMPT = Some ''reason''"
| "notification_detail_field RECONCILE_COMPLETED_WORKER_TURN = Some ''reason''"
| "notification_detail_field RECOVER_EXPIRED_REASONER_TURN = Some ''prior_turn_id''"
| "notification_detail_field RECOVER_INCOMPLETE_REASONER_TURN = Some ''prior_turn_id''"
| "notification_detail_field _ = None"

definition system_reconciliation_notification_payload ::
  "notification_action \<Rightarrow> ident \<Rightarrow> string \<Rightarrow> int \<Rightarrow> string option \<Rightarrow> string option \<Rightarrow> (string \<times> json) list cp" where
  "system_reconciliation_notification_payload action boundary_id boundary_kind generation reason prior_turn_id =
     (let details = [(''reason'', reason), (''prior_turn_id'', prior_turn_id)];
          payload = [(''action'', jstr (notification_action_value action)), (''boundary_id'', jstr boundary_id),
                     (''boundary_kind'', jstr boundary_kind), (''generation'', JInt generation)]
      in case filter (\<lambda>(field, value). value \<noteq> None \<and> Some field \<noteq> notification_detail_field action) details of
           (field, value) # _ \<Rightarrow> Inl (PyError ''ValueError''
             (notification_action_value action @ '' notification does not accept '' @ field))
         | [] \<Rightarrow> (case notification_detail_field action of
               None \<Rightarrow> Inr payload
             | Some field \<Rightarrow> (case map_of details field of
                   Some (Some detail) \<Rightarrow> Inr (payload @ [(field, jstr detail)])
                 | _ \<Rightarrow> Inl (PyError ''ValueError''
                     (notification_action_value action @ '' notification requires '' @ field)))))"

definition system_request :: "ident \<Rightarrow> ident \<Rightarrow> (pystr \<times> json) list \<Rightarrow> ident \<Rightarrow> ident \<Rightarrow> int \<Rightarrow> string \<Rightarrow> message_request" where
  "system_request sender recipient payload work_item_id attempt_id goal_version key =
     \<lparr>mq_sender_id = sender, mq_recipient_id = Some recipient, mq_recipient_ids = [], mq_kind = SYSTEM,
      mq_payload = payload, mq_work_item_id = Some work_item_id, mq_attempt_id = Some attempt_id,
      mq_correlation_id = '''', mq_causation_id = '''', mq_idempotency_key = key, mq_goal_version = Some goal_version,
      mq_runtime_session_id = None, mq_create_delivery = True\<rparr>"

definition upayload :: "(string \<times> json) list \<Rightarrow> (pystr \<times> json) list" where
  "upayload kvs = map (\<lambda>(k, v). (u k, v)) kvs"

section \<open>Escalation to the requester\<close>

definition has_reasoner_recovery_tx :: "db \<Rightarrow> ident \<Rightarrow> bool" where
  "has_reasoner_recovery_tx s boundary_id = list_ex (\<lambda>m. jget (m_payload m) ''boundary_id'' = Some (jstr boundary_id)
     \<and> (jget (m_payload m) ''action'' = Some (jstr ''recover_expired_reasoner_turn'')
        \<or> jget (m_payload m) ''action'' = Some (jstr ''recover_incomplete_reasoner_turn''))) (messages s)"

definition escalation_instruction :: string where
  "escalation_instruction = ''The objective remains unmet. Explain the supervision failure to the requester ''
     @ ''and obtain guidance or a safe recovery decision; do not repeat the blocked operation.''"

definition escalation_resume_condition :: string where
  "escalation_resume_condition = ''Requester guidance or verified recovery permits safe continuation.''"

definition escalation_decision_digest :: "env \<Rightarrow> boundary_row \<Rightarrow> string \<Rightarrow> string \<Rightarrow> string" where
  "escalation_decision_digest e b reason_code req_digest =
     (if req_digest \<noteq> '''' then req_digest
      else service_digest (env_sha e) (jobj [(''boundary_id'', jstr (b_id b)), (''reason_code'', jstr reason_code),
        (''kind'', jstr ''wait_user''), (''origin'', jstr ''system_supervision_recovery'')]))"

definition decision_result_digest :: "env \<Rightarrow> boundary_row \<Rightarrow> ident \<Rightarrow> string \<Rightarrow> string" where
  "decision_result_digest e b disposition_id digest = service_digest (env_sha e)
     (jobj [(''boundary_id'', jstr (b_id b)), (''disposition_id'', jstr disposition_id), (''request_digest'', jstr digest),
        (''goal_packet_digest'', jstr (b_goal_packet_digest b)), (''task_packet_digest'', jstr (b_task_packet_digest b))])"

definition boundary_turn_digest :: "env \<Rightarrow> boundary_row \<Rightarrow> string" where
  "boundary_turn_digest e b = service_digest (env_sha e)
     (jobj [(''boundary_id'', jstr (b_id b)), (''boundary_input_digest'', jstr (b_input_digest b)),
        (''goal_packet_digest'', jstr (b_goal_packet_digest b)), (''task_packet_digest'', jstr (b_task_packet_digest b)),
        (''generation'', JInt (b_generation b))])"

definition escalation_turn :: "env \<Rightarrow> ident \<Rightarrow> ident \<Rightarrow> ident \<Rightarrow> boundary_row \<Rightarrow> string \<Rightarrow> turn_row" where
  "escalation_turn e turn_id supervisor work_id b result_digest =
     \<lparr>rt_id = turn_id, rt_supervisor_id = supervisor, rt_work_item_id = work_id, rt_boundary_id = b_id b,
      rt_generation = b_generation b, rt_goal_version = b_goal_version b, rt_goal_packet_digest = b_goal_packet_digest b,
      rt_task_packet_digest = b_task_packet_digest b, rt_input_digest = boundary_turn_digest e b,
      rt_result_digest = result_digest, rt_state = TURN_COMPLETED,
      rt_lease_token_digest = text_digest e (''system-escalation:'' @ turn_id), rt_lease_expires_at = env_now e,
      rt_idempotency_key = ''system-escalation:'' @ b_id b, rt_completed_at = Some (env_now e),
      rt_created_at = env_now e, rt_updated_at = env_now e\<rparr>"

definition escalation_disposition :: "env \<Rightarrow> ident \<Rightarrow> ident \<Rightarrow> ident \<Rightarrow> boundary_row \<Rightarrow> string \<Rightarrow> string \<Rightarrow> disposition_row" where
  "escalation_disposition e disposition_id turn_id supervisor b reason digest =
     \<lparr>bd_id = disposition_id, bd_boundary_id = b_id b, bd_reasoner_turn_id = turn_id, bd_decided_by = supervisor,
      bd_generation = b_generation b, bd_kind = WAIT_USER, bd_reason = u reason, bd_instruction = u escalation_instruction,
      bd_resume_condition = u escalation_resume_condition, bd_request_digest = digest, bd_created_at = env_now e\<rparr>"

definition user_needed_work :: "env \<Rightarrow> ident \<Rightarrow> work_row \<Rightarrow> work_row" where
  "user_needed_work e boundary_id w = w\<lparr>w_state := W_USER_NEEDED, w_attention_owner := AO_USER,
     w_user_needed_boundary_id := Some boundary_id, w_updated_at := env_now e\<rparr>"

definition input_required_attempt :: "env \<Rightarrow> attempt_row \<Rightarrow> attempt_row" where
  "input_required_attempt e a = a\<lparr>a_state := A_INPUT_REQUIRED, a_updated_at := env_now e\<rparr>"

definition escalation_payload :: "ident \<Rightarrow> ident \<Rightarrow> string \<Rightarrow> string \<Rightarrow> (string \<times> json) list" where
  "escalation_payload boundary_id disposition_id reason reason_code =
     [(''action'', jstr ''requester_escalation''), (''source_boundary_id'', jstr boundary_id),
      (''disposition_id'', jstr disposition_id), (''disposition'', jstr ''wait_user''), (''reason'', jstr reason),
      (''decision'', jstr escalation_instruction), (''resume_condition'', jstr escalation_resume_condition),
      (''origin'', jstr ''system_supervision_recovery''), (''reason_code'', jstr reason_code)]"

text \<open>
  \<open>_escalate_supervision_tx\<close>. A Work without a supervisor breaks the NOT NULL constraint of
  the disposition. Identifiers are drawn for the next row of their table.
\<close>

definition escalate_supervision_tx ::
  "env \<Rightarrow> boundary_row \<Rightarrow> work_row \<Rightarrow> string \<Rightarrow> string \<Rightarrow> turn_row option \<Rightarrow> string \<Rightarrow> db \<Rightarrow> (db \<times> disposition_row) cp" where
  "escalate_supervision_tx e b w reason_code reason turn req_digest s =
     (case w_supervisor_id w of
        None \<Rightarrow> Inl (PyError ''IntegrityError'' ''NOT NULL constraint failed'')
      | Some supervisor \<Rightarrow>
        (let turn_id = (case turn of Some t \<Rightarrow> rt_id t | None \<Rightarrow> env_mint e ''turn'' (int (length (reasoner_turns s))));
             disposition_id = env_mint e ''bdisp'' (int (length (dispositions s)));
             digest = escalation_decision_digest e b reason_code req_digest;
             result_digest = decision_result_digest e b disposition_id digest;
             d = escalation_disposition e disposition_id turn_id supervisor b reason digest
         in bindE (case turn of
                None \<Rightarrow> insert_turn (escalation_turn e turn_id supervisor (w_id w) b result_digest) s
              | Some t \<Rightarrow> Inr (s\<lparr>reasoner_turns := update_rows (\<lambda>x. rt_id x = turn_id)
                    (\<lambda>x. x\<lparr>rt_state := TURN_COMPLETED, rt_result_digest := result_digest,
                       rt_completed_at := Some (env_now e), rt_updated_at := env_now e\<rparr>) (reasoner_turns s)\<rparr>)) (\<lambda>s1.
            bindE (insert_disposition d s1) (\<lambda>s2.
            let s3 = s2\<lparr>attempts := update_rows (\<lambda>a. a_id a = b_attempt_id b) (input_required_attempt e) (attempts s2)\<rparr>
            in bindE (update_works [COL_STATE, COL_ATTENTION, COL_USER_NEEDED] (\<lambda>x. w_id x = w_id w)
                   (user_needed_work e (b_id b)) s3) (\<lambda>s4.
            let s5 = supersede_boundary_deliveries_tx e (b_id b) supervisor (''system-escalation:'' @ disposition_id) s4
            in bindE (message_tx e (system_request supervisor supervisor
                    (upayload (escalation_payload (b_id b) disposition_id reason reason_code)) (w_id w) (b_attempt_id b)
                    (b_goal_version b) (''requester-escalation:'' @ b_id b)) s5) (\<lambda>(s6, _).
            Inr (log_event e (mk_event ''boundary.disposed'' ''work_item'' (w_id w) supervisor
                  [(''boundary_id'', jstr (b_id b)), (''disposition_id'', jstr disposition_id),
                   (''generation'', JInt (b_generation b)), (''kind'', jstr ''wait_user''),
                   (''reason_code'', jstr reason_code), (''origin'', jstr ''system_supervision_recovery'')]) s6, d)))))))"

section \<open>Expired decision leases\<close>

definition recovery_open :: "work_row \<Rightarrow> bool" where
  "recovery_open w = (w_state w \<notin> {W_COMPLETED, W_CANCELED, W_FAILED, W_SUSPENDED})"

definition expired_turns :: "env \<Rightarrow> db \<Rightarrow> (turn_row \<times> boundary_row \<times> work_row) list" where
  "expired_turns e s = sort_key (\<lambda>(t, b, w). (rt_lease_expires_at t, rt_id t))
     [(t, b, w). t \<leftarrow> reasoner_turns s, rt_state t = TURN_LEASED \<and> rt_lease_expires_at t < env_now e,
        b \<leftarrow> boundaries s, b_id b = rt_boundary_id t \<and> \<not> disposed s (b_id b) \<and> \<not> superseded s (b_id b),
        w \<leftarrow> works s, w_id w = b_work_item_id b \<and> b_generation b = w_generation w \<and> b_goal_version b = w_goal_version w
          \<and> recovery_open w]"

definition turn_expired :: "env \<Rightarrow> ident \<Rightarrow> turn_row \<Rightarrow> bool" where
  "turn_expired e i t = (rt_id t = i \<and> rt_state t = TURN_LEASED \<and> rt_lease_expires_at t < env_now e)"

definition recovery_reason_code :: string where
  "recovery_reason_code = ''supervision_recovery_incomplete''"

definition recovery_reason :: string where
  "recovery_reason = ''Supervision recovery ended without a decision; requester guidance is required.''"

text \<open>The rest of the loop body once the lease has been taken from the expired turn.\<close>

definition recover_abandoned_turn :: "env \<Rightarrow> turn_row \<Rightarrow> boundary_row \<Rightarrow> db \<Rightarrow> db cp" where
  "recover_abandoned_turn e t b s =
     (if has_reasoner_recovery_tx s (rt_boundary_id t)
      then (case (get_boundary s (rt_boundary_id t), get_work s (rt_work_item_id t)) of
          (Some b', Some w') \<Rightarrow> bindE (escalate_supervision_tx e b' w' recovery_reason_code recovery_reason None '''' s)
             (\<lambda>(s', _). Inr s')
        | _ \<Rightarrow> Inl (PyError ''AssertionError'' ''''))
      else let s2 = supersede_boundary_deliveries_tx e (rt_boundary_id t) (rt_supervisor_id t)
                 (''expired-reasoner-turn:'' @ rt_id t) s
        in bindE (system_reconciliation_notification_payload RECOVER_EXPIRED_REASONER_TURN (rt_boundary_id t)
                    (boundary_kind_value (b_kind b)) (rt_generation t) None (Some (rt_id t))) (\<lambda>payload.
           bindE (message_tx e (system_request (b_source_principal_id b) (rt_supervisor_id t) (upayload payload)
                    (rt_work_item_id t) (b_attempt_id b) (rt_goal_version t) (''reasoner-recovery:'' @ rt_id t)) s2) (\<lambda>(s3, _).
           Inr (log_event e (mk_event ''reasoner.turn_recovery_scheduled'' ''work_item'' (rt_work_item_id t)
                 (rt_supervisor_id t) [(''turn_id'', jstr (rt_id t)), (''boundary_id'', jstr (rt_boundary_id t)),
                   (''generation'', JInt (rt_generation t))]) s3))))"

definition recover_expired_turn :: "env \<Rightarrow> db \<times> int \<Rightarrow> turn_row \<times> boundary_row \<times> work_row \<Rightarrow> (db \<times> int) cp" where
  "recover_expired_turn e st tbw =
     (let (s, recovered) = st; (t, b, w) = tbw in
      if \<not> cao_automatic_wake_ready_tx s (w_supervisor_attachment_id w) then Inr st
      else if rowcount (turn_expired e (rt_id t)) (reasoner_turns s) \<noteq> 1 then Inr st
      else bindE (recover_abandoned_turn e t b (s\<lparr>reasoner_turns :=
             update_rows (turn_expired e (rt_id t)) (abandoned_turn e) (reasoner_turns s)\<rparr>))
           (\<lambda>s'. Inr (s', recovered + 1)))"

definition recover_expired_reasoner_turns :: "env \<Rightarrow> db \<Rightarrow> (db \<times> int) cp" where
  "recover_expired_reasoner_turns e s =
     transaction s (\<lambda>s. foldE (recover_expired_turn e) (s, 0) (expired_turns e s))"

section \<open>The current requester escalation\<close>

record escalation_view =
  ev_boundary_id :: ident
  ev_message_id :: string
  ev_reason :: pystr
  ev_decision :: pystr
  ev_resume_condition :: pystr
  ev_requested_at :: timestamp
  ev_notification_state :: string

definition escalation_pointer :: "work_row \<Rightarrow> (ident \<times> disposition_kind) option" where
  "escalation_pointer w =
     (let pointer = (if w_state w = W_USER_NEEDED then w_user_needed_boundary_id w
                     else if w_state w = W_SUSPENDED then w_paused_boundary_id w else None)
      in case pointer of None \<Rightarrow> None
         | Some b \<Rightarrow> if b = '''' then None
             else Some (b, if w_state w = W_USER_NEEDED then WAIT_USER else PAUSE))"

definition escalation_message :: "boundary_row \<Rightarrow> disposition_row \<Rightarrow> message_row \<Rightarrow> bool" where
  "escalation_message b d m = (m_sender_id m = bd_decided_by d \<and> m_work_item_id m = Some (b_work_item_id b)
     \<and> m_attempt_id m = Some (b_attempt_id b) \<and> m_kind m = SYSTEM
     \<and> jget (m_payload m) ''action'' = Some (jstr ''requester_escalation'')
     \<and> jget (m_payload m) ''disposition_id'' = Some (jstr (bd_id d)))"

definition escalation_notice :: "db \<Rightarrow> work_row \<Rightarrow> message_row \<Rightarrow> delivery_row option" where
  "escalation_notice s w m = fetchone (\<lambda>d. d_message_id d = m_id m \<and> sql_eq (Some (d_recipient_id d)) (w_supervisor_id w)
     \<and> d_recipient_attachment_id d = w_supervisor_attachment_id w) (deliveries s)"

definition requester_escalation_tx :: "db \<Rightarrow> work_row \<Rightarrow> escalation_view option" where
  "requester_escalation_tx s work =
     (case escalation_pointer work of None \<Rightarrow> None
      | Some (pointer, kind) \<Rightarrow>
        (case (fetchone (\<lambda>b. b_id b = pointer \<and> b_work_item_id b = w_id work) (boundaries s),
               fetchone (\<lambda>d. bd_boundary_id d = pointer \<and> bd_kind d = kind) (dispositions s),
               get_work s (w_id work)) of
           (Some b, Some d, Some w) \<Rightarrow>
             (let m = last_by m_sequence (filter (escalation_message b d) (messages s))
              in Some \<lparr>ev_boundary_id = b_id b, ev_message_id = str_or_empty (map_option m_id m),
                   ev_reason = bd_reason d, ev_decision = bd_instruction d, ev_resume_condition = bd_resume_condition d,
                   ev_requested_at = bd_created_at d,
                   ev_notification_state = (case m of None \<Rightarrow> ''unavailable'' | Some m \<Rightarrow>
                     (case escalation_notice s w m of None \<Rightarrow> ''unavailable'' | Some n \<Rightarrow> delivery_state_value (d_state n)))\<rparr>)
         | _ \<Rightarrow> None))"

text \<open>The message, its delivery and the live attachment the delivery is bound to.\<close>

definition escalation_delivery :: "db \<Rightarrow> message_row \<Rightarrow> work_row \<Rightarrow> delivery_row \<Rightarrow> attachment_row \<Rightarrow> bool" where
  "escalation_delivery s m w d t = (d_message_id d = m_id m \<and> d_recipient_attachment_id d = Some (ca_id t)
     \<and> w_supervisor_attachment_id w = Some (ca_id t) \<and> ca_principal_id t = d_recipient_id d
     \<and> w_supervisor_id w = Some (d_recipient_id d) \<and> ca_state t = ''active''
     \<and> list_ex (\<lambda>r. r_id r = ca_runtime_session_id t \<and> r_principal_id r = ca_principal_id t
          \<and> r_native_session_id r = ca_native_thread_id t \<and> r_adapter r = ''codex-app-server''
          \<and> r_state r \<notin> {R_STOPPED, R_FAILED, R_MISSING}) (runtimes s))"

definition escalation_deliveries :: "db \<Rightarrow> message_row \<Rightarrow> work_row \<Rightarrow> (delivery_row \<times> attachment_row) list" where
  "escalation_deliveries s m w = [(d, t). d \<leftarrow> deliveries s, t \<leftarrow> attachments s, escalation_delivery s m w d t]"

definition requester_escalation_delivery_tx :: "db \<Rightarrow> ident \<Rightarrow> (message_row \<times> delivery_row \<times> attachment_row) option" where
  "requester_escalation_delivery_tx s message_id =
     (case get_message s message_id of None \<Rightarrow> None
      | Some m \<Rightarrow>
        if m_kind m \<noteq> SYSTEM \<or> jget (m_payload m) ''action'' \<noteq> Some (jstr ''requester_escalation'') then None
        else (case m_work_item_id m of None \<Rightarrow> None
         | Some i \<Rightarrow> (case get_work s i of None \<Rightarrow> None
            | Some w \<Rightarrow>
              (case escalation_deliveries s m w of
                 [] \<Rightarrow> None
               | (d, t) # _ \<Rightarrow> (case requester_escalation_tx s w of
                     Some v \<Rightarrow> if ev_message_id v = message_id then Some (m, d, t) else None
                   | None \<Rightarrow> None)))))"

section \<open>Turns that ended without a decision\<close>

datatype recovery_outcome = NOT_REQUIRED | SCHEDULED

definition has_prefix :: "string \<Rightarrow> string \<Rightarrow> bool" where
  "has_prefix p t = (take (length p) t = p)"

definition retired_notice :: "env \<Rightarrow> string \<Rightarrow> delivery_row \<Rightarrow> delivery_row" where
  "retired_notice e reason r = r\<lparr>d_state := DEAD, d_lease_until := None, d_owner_token := '''',
     d_reactivation_policy := TERMINAL, d_last_error := reason, d_updated_at := env_now e\<rparr>"

definition retire_notice :: "env \<Rightarrow> ident \<Rightarrow> ident \<Rightarrow> int \<Rightarrow> string \<Rightarrow> db \<Rightarrow> db" where
  "retire_notice e message_id recipient_id generation reason s = s\<lparr>deliveries :=
     update_rows (\<lambda>r. addressed message_id recipient_id r \<and> d_generation r = generation)
       (retired_notice e reason) (deliveries s)\<rparr>"

definition payload_items :: "json \<Rightarrow> (pystr \<times> json) list" where
  "payload_items j = (case j of JObj kvs \<Rightarrow> kvs | _ \<Rightarrow> [])"

definition str_or_none :: "string option \<Rightarrow> string" where
  "str_or_none a = (case a of None \<Rightarrow> ''None'' | Some x \<Rightarrow> x)"

text \<open>\<open>json_extract(payload, '$.source_boundary_id')\<close> as the notice carries it, printed with \<open>str\<close>.\<close>

definition notice_boundary :: "env \<Rightarrow> message_row \<Rightarrow> json" where
  "notice_boundary e m = JStr (py_str e (jget (m_payload m) ''source_boundary_id''))"

text \<open>The part after the fences: a notice is sent again once, and its repetition only retired.\<close>

definition rearm_notice :: "env \<Rightarrow> ident \<Rightarrow> ident \<Rightarrow> int \<Rightarrow> message_row \<Rightarrow> db \<Rightarrow> (db \<times> recovery_outcome) cp" where
  "rearm_notice e message_id recipient_id delivery_generation m s =
     (if has_prefix ''requester-escalation-recovery:'' (m_idempotency_key m)
      then Inr (log_event e (caused_event ''cao.requester_communication_unavailable'' ''work_item''
                (str_or_none (m_work_item_id m)) recipient_id
                [(''message_id'', jstr message_id), (''boundary_id'', notice_boundary e m)] message_id)
              (retire_notice e message_id recipient_id delivery_generation ''requester_communication_unavailable'' s),
            NOT_REQUIRED)
      else (case m_goal_version m of
          None \<Rightarrow> Inl (PyError ''TypeError'' ''int() argument must not be None'')
        | Some goal_version \<Rightarrow>
          bindE (message_tx e (system_request (m_sender_id m) recipient_id (payload_items (m_payload m))
              (str_or_none (m_work_item_id m)) (str_or_none (m_attempt_id m)) goal_version
              (''requester-escalation-recovery:'' @ message_id @ '':'' @ int_text delivery_generation))
            (retire_notice e message_id recipient_id delivery_generation ''requester_escalation_turn_incomplete'' s))
          (\<lambda>(s1, successor, _). Inr (log_event e (caused_event ''cao.requester_escalation_rearmed'' ''work_item''
              (str_or_none (m_work_item_id m)) recipient_id
              [(''message_id'', jstr message_id), (''successor_message_id'', jstr (m_id successor))] message_id) s1,
            SCHEDULED))))"

definition recover_incomplete_requester_escalation_tx ::
  "env \<Rightarrow> ident \<Rightarrow> ident \<Rightarrow> int \<Rightarrow> db \<Rightarrow> (db \<times> recovery_outcome) cp" where
  "recover_incomplete_requester_escalation_tx e message_id recipient_id delivery_generation s =
     (case requester_escalation_delivery_tx s message_id of
        None \<Rightarrow> Inr (s, NOT_REQUIRED)
      | Some (m, d, t) \<Rightarrow>
        if d_recipient_id d \<noteq> recipient_id \<or> d_generation d \<noteq> delivery_generation
           \<or> d_state d \<notin> {DISPATCHED, DELIVERED, ACKNOWLEDGED} \<or> ca_lease_expires_at t \<le> env_now e
           \<or> \<not> cao_automatic_wake_ready_tx s (d_recipient_attachment_id d)
        then Inr (s, NOT_REQUIRED)
        else rearm_notice e message_id recipient_id delivery_generation m s)"

text \<open>The join that proves the delivery still speaks for the open boundary.\<close>

definition newer_notification :: "db \<Rightarrow> boundary_row \<Rightarrow> message_row \<Rightarrow> delivery_row \<Rightarrow> bool" where
  "newer_notification s b m d = list_ex (\<lambda>n. m_sequence n > m_sequence m \<and> boundary_message b n
     \<and> list_ex (\<lambda>x. d_message_id x = m_id n \<and> d_recipient_id x = d_recipient_id d
         \<and> sql_eq (d_recipient_attachment_id x) (d_recipient_attachment_id d)) (deliveries s)) (messages s)"

definition current_boundary_delivery :: "env \<Rightarrow> db \<Rightarrow> boundary_row \<Rightarrow> message_row \<Rightarrow> delivery_row \<Rightarrow> bool" where
  "current_boundary_delivery e s b m d = (boundary_message b m
     \<and> list_ex (\<lambda>w. w_id w = b_work_item_id b \<and> w_generation w = b_generation b \<and> w_goal_version w = b_goal_version b
         \<and> w_supervisor_id w = Some (d_recipient_id d)
         \<and> sql_eq (w_supervisor_attachment_id w) (d_recipient_attachment_id d)
         \<and> w_attention_owner w = AO_CAO \<and> recovery_open w) (works s)
     \<and> list_ex (\<lambda>t. d_recipient_attachment_id d = Some (ca_id t) \<and> ca_principal_id t = d_recipient_id d
         \<and> ca_state t = ''active'' \<and> ca_lease_expires_at t > env_now e) (attachments s)
     \<and> d_state d \<in> {DISPATCHED, DELIVERED, ACKNOWLEDGED}
     \<and> \<not> newer_notification s b m d
     \<and> \<not> list_ex (\<lambda>t. rt_boundary_id t = b_id b \<and> rt_supervisor_id t = d_recipient_id d \<and> rt_state t = TURN_LEASED
         \<and> rt_lease_expires_at t \<ge> env_now e) (reasoner_turns s))"

definition lapsed_turn :: "env \<Rightarrow> db \<Rightarrow> boundary_row \<Rightarrow> ident \<Rightarrow> turn_row option" where
  "lapsed_turn e s b recipient_id = last_by rt_created_at (filter (\<lambda>t. rt_boundary_id t = b_id b
     \<and> rt_supervisor_id t = recipient_id \<and> rt_state t = TURN_LEASED \<and> rt_generation t = b_generation b
     \<and> rt_goal_version t = b_goal_version b \<and> rt_goal_packet_digest t = b_goal_packet_digest b
     \<and> rt_task_packet_digest t = b_task_packet_digest b \<and> rt_lease_expires_at t < env_now e) (reasoner_turns s))"

definition abandon_lapsed :: "env \<Rightarrow> turn_row option \<Rightarrow> db \<Rightarrow> db" where
  "abandon_lapsed e turn s = (case turn of None \<Rightarrow> s
     | Some t \<Rightarrow> s\<lparr>reasoner_turns := update_rows (turn_expired e (rt_id t)) (abandoned_turn e) (reasoner_turns s)\<rparr>)"

text \<open>The part after the fences: the first interruption wakes the supervisor once more, the second goes to the requester.\<close>

definition advance_incomplete_turn ::
  "env \<Rightarrow> ident \<Rightarrow> ident \<Rightarrow> int \<Rightarrow> boundary_row \<Rightarrow> turn_row option \<Rightarrow> db \<Rightarrow> (db \<times> recovery_outcome) cp" where
  "advance_incomplete_turn e message_id recipient_id delivery_generation b turn s =
     (let prior = str_or_empty (map_option rt_id turn) in
      if has_reasoner_recovery_tx s (b_id b)
      then (case get_work s (b_work_item_id b) of
          None \<Rightarrow> Inl (PyError ''AssertionError'' '''')
        | Some w \<Rightarrow> bindE (escalate_supervision_tx e b w recovery_reason_code recovery_reason None '''' s)
            (\<lambda>(s1, _). Inr (s1, SCHEDULED)))
      else bindE (system_reconciliation_notification_payload RECOVER_INCOMPLETE_REASONER_TURN (b_id b)
              (boundary_kind_value (b_kind b)) (b_generation b) None (Some prior)) (\<lambda>payload.
        bindE (message_tx e (system_request (b_source_principal_id b) recipient_id (upayload payload) (b_work_item_id b)
              (b_attempt_id b) (b_goal_version b)
              (''reasoner-incomplete:'' @ message_id @ '':'' @ int_text delivery_generation))
            (supersede_boundary_deliveries_tx e (b_id b) recipient_id ''incomplete-reasoner-turn'' s)) (\<lambda>(s2, _).
        Inr (log_event e (caused_event ''reasoner.incomplete_turn_recovery_scheduled'' ''work_item'' (b_work_item_id b)
              recipient_id [(''boundary_id'', jstr (b_id b)), (''prior_turn_id'', jstr prior),
                (''delivery_generation'', JInt delivery_generation)] message_id) s2, SCHEDULED))))"

definition recover_incomplete_reasoner_delivery_tx ::
  "env \<Rightarrow> ident \<Rightarrow> ident \<Rightarrow> int \<Rightarrow> ident \<Rightarrow> db \<Rightarrow> (db \<times> recovery_outcome) cp" where
  "recover_incomplete_reasoner_delivery_tx e message_id recipient_id delivery_generation boundary_id s =
     (if delivery_generation < 1 then Inr (s, NOT_REQUIRED)
      else (case get_boundary s boundary_id of None \<Rightarrow> Inr (s, NOT_REQUIRED)
       | Some b \<Rightarrow>
         if disposed s boundary_id \<or> superseded s boundary_id \<or> continued s boundary_id then Inr (s, NOT_REQUIRED)
         else (case get_message s message_id of None \<Rightarrow> Inr (s, NOT_REQUIRED)
          | Some m \<Rightarrow> (case get_delivery s message_id recipient_id of None \<Rightarrow> Inr (s, NOT_REQUIRED)
             | Some d \<Rightarrow>
               if d_generation d \<noteq> delivery_generation \<or> \<not> current_boundary_delivery e s b m d
                  \<or> \<not> cao_automatic_wake_ready_tx s (d_recipient_attachment_id d)
               then Inr (s, NOT_REQUIRED)
               else (let turn = lapsed_turn e s b recipient_id
                     in advance_incomplete_turn e message_id recipient_id delivery_generation b turn
                          (abandon_lapsed e turn s))))))"

end
