(* ===== verification/Work_Pause.thy ===== *)
theory Work_Pause
  imports Reasoner_Recovery
begin

text \<open>
  Pausing a Work: \<open>_require_pause_safe_tx\<close> and \<open>_pause_work_tx\<close> of \<open>service.py\<close>, and
  \<open>require_not_paused\<close> and \<open>pause_view_tx\<close> of \<open>supervision_control.py\<close>. The handler takes
  the rows it was called with; its statements run against the triggers of
  \<open>Supervision_Ledger\<close>.
\<close>

definition require_not_paused :: "work_row \<Rightarrow> unit cp" where
  "require_not_paused w = (case w_paused_boundary_id w of None \<Rightarrow> Inr ()
     | Some b \<Rightarrow> Inl (ConflictError ''Work is paused; use its exact explicit resume contract''
         [(''reason_code'', jstr ''work_supervision_paused''), (''pause_boundary_id'', jstr b), (''retryable'', JBool False)]))"

section \<open>When a pause is safe\<close>

definition runtime_executing :: "db \<Rightarrow> attempt_row \<Rightarrow> bool" where
  "runtime_executing s a = (case fetchone (\<lambda>r. sql_eq (Some (r_id r)) (a_runtime_session_id a)) (runtimes s) of
     None \<Rightarrow> False | Some r \<Rightarrow> r_state r \<in> {R_BUSY, R_STARTING})"

definition pending_capture :: "db \<Rightarrow> work_row \<Rightarrow> bool" where
  "pending_capture s w = list_ex (\<lambda>o'. os_work_item_id o' = w_id w \<and> os_work_generation o' = w_generation w
     \<and> os_settled_at o' = None) (output_streams s)"

definition work_delivery :: "db \<Rightarrow> work_row \<Rightarrow> attempt_row \<Rightarrow> delivery_row \<Rightarrow> bool" where
  "work_delivery s w a d = (d_recipient_id d = a_worker_id a
     \<and> list_ex (\<lambda>m. m_id m = d_message_id d \<and> m_work_item_id m = Some (w_id w)) (messages s))"

definition delivery_unsettled :: "env \<Rightarrow> delivery_row \<Rightarrow> bool" where
  "delivery_unsettled e d = (d_state d \<in> {DISPATCHED, DELIVERED, ACKNOWLEDGED}
     \<or> d_state d = LEASED \<and> d_owner_token d \<noteq> '''' \<and> (case d_lease_until d of None \<Rightarrow> False | Some t \<Rightarrow> t > env_now e))"

definition effect_unsettled :: "db \<Rightarrow> work_row \<Rightarrow> attempt_row \<Rightarrow> bool" where
  "effect_unsettled s w a = list_ex (\<lambda>o'. o_status o' \<in> {STARTED, EFFECT_UNKNOWN}
     \<and> (o_principal_id o' = a_worker_id a \<or> o_cleanup_work_item_id o' = Some (w_id w))) (effect_operations s)"

definition sibling_boundary :: "db \<Rightarrow> work_row \<Rightarrow> boundary_row \<Rightarrow> bool" where
  "sibling_boundary s w b = list_ex (\<lambda>x. b_work_item_id x = w_id w \<and> b_generation x = w_generation w \<and> b_id x \<noteq> b_id b
     \<and> \<not> disposed s (b_id x) \<and> \<not> superseded s (b_id x)) (boundaries s)"

definition require_pause_safe_tx :: "env \<Rightarrow> db \<Rightarrow> work_row \<Rightarrow> attempt_row \<Rightarrow> boundary_row \<Rightarrow> unit cp" where
  "require_pause_safe_tx e s w a b = bindE (require_not_paused w) (\<lambda>_.
     if w_state w \<notin> {W_WAITING_SUPERVISOR, W_WAITING_REVIEW} \<or> w_attention_owner w \<noteq> AO_CAO
        \<or> w_suspended_by_work_item_id w \<noteq> None \<or> w_user_needed_boundary_id w \<noteq> None
        \<or> runtime_executing s a \<or> pending_capture s w
        \<or> list_ex (\<lambda>d. work_delivery s w a d \<and> delivery_unsettled e d) (deliveries s)
        \<or> effect_unsettled s w a \<or> sibling_boundary s w b
     then Inl (ConflictError ''Work pause requires a settled execution boundary''
            [(''reason_code'', jstr ''work_pause_execution_unsettled''), (''retryable'', JBool False)])
     else Inr ())"

section \<open>Pausing\<close>

definition new_pause :: "env \<Rightarrow> ident \<Rightarrow> work_row \<Rightarrow> attempt_row \<Rightarrow> boundary_row \<Rightarrow> pause_row" where
  "new_pause e actor_id w a b = \<lparr>wz_boundary_id = b_id b, wz_work_item_id = w_id w, wz_attempt_id = a_id a,
     wz_source_generation = w_generation w, wz_pause_generation = w_generation w + 1, wz_paused_by = actor_id,
     wz_created_at = env_now e\<rparr>"

definition paused_work :: "env \<Rightarrow> ident \<Rightarrow> work_row \<Rightarrow> work_row" where
  "paused_work e boundary_id w = w\<lparr>w_state := W_SUSPENDED, w_attention_owner := AO_NONE,
     w_generation := w_generation w + 1, w_paused_boundary_id := Some boundary_id, w_updated_at := env_now e\<rparr>"

definition pause_fence :: "work_row \<Rightarrow> work_row \<Rightarrow> bool" where
  "pause_fence w x = (w_id x = w_id w \<and> w_generation x = w_generation w \<and> w_paused_boundary_id x = None)"

definition unstarted_commands :: "db \<Rightarrow> work_row \<Rightarrow> attempt_row \<Rightarrow> delivery_row list" where
  "unstarted_commands s w a = filter (\<lambda>d. d_recipient_id d = a_worker_id a \<and> d_state d \<in> {QUEUED, LEASED}
     \<and> list_ex (\<lambda>m. m_id m = d_message_id d \<and> m_work_item_id m = Some (w_id w)
         \<and> m_kind m \<in> {ASSIGNMENT, INSTRUCTION, STATUS_REQUEST}) (messages s)) (deliveries s)"

definition retire_command :: "env \<Rightarrow> ident \<Rightarrow> ident \<Rightarrow> delivery_row \<Rightarrow> db \<Rightarrow> db" where
  "retire_command e actor_id boundary_id c s =
     log_event e (caused_event ''message.delivery_superseded'' ''message'' (d_message_id c) actor_id
         [(''reason_code'', jstr ''work_supervision_paused''), (''prior_state'', jstr (delivery_state_value (d_state c)))]
         boundary_id)
       (s\<lparr>deliveries := update_rows (\<lambda>r. delivery_key r = delivery_key c \<and> d_state r = d_state c)
            (retired_notice e ''work_supervision_paused'') (deliveries s)\<rparr>)"

definition pause_work_tx :: "env \<Rightarrow> ident \<Rightarrow> work_row \<Rightarrow> attempt_row \<Rightarrow> boundary_row \<Rightarrow> db \<Rightarrow> db cp" where
  "pause_work_tx e actor_id w a b s =
     bindE (require_pause_safe_tx e s w a b) (\<lambda>_.
     bindE (insert_pause (new_pause e actor_id w a b) s) (\<lambda>s1.
     let s2 = s1\<lparr>attempts := update_rows (\<lambda>x. a_id x = a_id a)
                 (\<lambda>x. x\<lparr>a_state := A_SUSPENDED, a_updated_at := env_now e\<rparr>) (attempts s1)\<rparr>
     in bindE (update_works [COL_STATE, COL_ATTENTION, COL_GENERATION, COL_PAUSED] (pause_fence w)
            (paused_work e (b_id b)) s2) (\<lambda>s3.
        if rowcount (pause_fence w) (works s2) \<noteq> 1
        then Inl (ConflictError ''Work pause lost its generation fence'' [])
        else Inr (log_event e (caused_event ''work.paused'' ''work_item'' (w_id w) actor_id
                [(''boundary_id'', jstr (b_id b)), (''source_generation'', JInt (w_generation w)),
                 (''pause_generation'', JInt (w_generation w + 1))] (b_id b))
              (fold (retire_command e actor_id (b_id b)) (unstarted_commands s3 w a) s3)))))"

section \<open>Reading the pause\<close>

record pause_view =
  pv_boundary_id :: ident
  pv_source_generation :: int
  pv_pause_generation :: int
  pv_reason :: pystr
  pv_resume_condition :: pystr
  pv_paused_at :: timestamp

definition pause_current :: "db \<Rightarrow> work_row \<Rightarrow> pause_row \<Rightarrow> bool" where
  "pause_current s w p = (Some (wz_boundary_id p) = w_paused_boundary_id w \<and> wz_work_item_id p = w_id w
     \<and> wz_pause_generation p = w_generation w \<and> sql_eq (Some (wz_paused_by p)) (w_supervisor_id w)
     \<and> list_ex (\<lambda>a. a_id a = wz_attempt_id p \<and> a_state a = A_SUSPENDED
          \<and> list_ex (\<lambda>x. a_work_item_id x = wz_work_item_id p \<and> a_attempt_number x = a_attempt_number a) (attempts s)
          \<and> \<not> later_attempt s (wz_work_item_id p) a) (attempts s)
     \<and> \<not> resumed s (wz_boundary_id p) \<and> pause_record_binding s p)"

definition pause_view_tx :: "db \<Rightarrow> work_row \<Rightarrow> pause_view option cp" where
  "pause_view_tx s w =
     (case w_paused_boundary_id w of None \<Rightarrow> Inr None
      | Some pointer \<Rightarrow>
        (case (fetchone (pause_current s w) (pauses s), fetchone (\<lambda>d. bd_boundary_id d = pointer) (dispositions s)) of
           (Some p, Some d) \<Rightarrow>
             if w_state w \<noteq> W_SUSPENDED \<or> w_attention_owner w \<noteq> AO_NONE \<or> w_suspended_by_work_item_id w \<noteq> None
                \<or> w_user_needed_boundary_id w \<noteq> None
             then Inl (ConflictError ''Work pause authority is inconsistent''
                    [(''reason_code'', jstr ''work_pause_binding_conflict''), (''retryable'', JBool False)])
             else Inr (Some \<lparr>pv_boundary_id = wz_boundary_id p, pv_source_generation = wz_source_generation p,
                    pv_pause_generation = wz_pause_generation p, pv_reason = bd_reason d,
                    pv_resume_condition = bd_resume_condition d, pv_paused_at = wz_created_at p\<rparr>)
         | _ \<Rightarrow> Inl (ConflictError ''Work pause authority is inconsistent''
                  [(''reason_code'', jstr ''work_pause_binding_conflict''), (''retryable'', JBool False)])))"

end
