(* ===== verification/Table_Growth.thy ===== *)
theory Table_Growth
  imports CAO_Prelude
begin

text \<open>
  Tables that only grow: a row is born in one of a few states, moves from state to state, and
  never disappears. \<open>grown\<close> relates two states of such a table. The locale \<open>row_lifecycle\<close>
  states what a component promises of its rows, and gives what holds of a table along any run;
  \<open>graded_lifecycle\<close> adds a measure that no move lowers. Deliveries and callback deliveries
  interpret them.
\<close>

definition grown :: "('r \<Rightarrow> 'r \<Rightarrow> bool) \<Rightarrow> ('r \<Rightarrow> bool) \<Rightarrow> 'r list \<Rightarrow> 'r list \<Rightarrow> bool" where
  "grown move born rows rows' = (\<exists>ys news. rows' = ys @ news \<and> list_all2 move\<^sup>*\<^sup>* rows ys
     \<and> (\<forall>r\<in>set news. \<exists>b. born b \<and> move\<^sup>*\<^sup>* b r))"

lemma list_all2_member: "list_all2 P xs ys \<Longrightarrow> x \<in> set xs \<Longrightarrow> \<exists>y\<in>set ys. P x y"
  by (induction rule: list_all2_induct) auto

lemma list_all2_member': "list_all2 P xs ys \<Longrightarrow> y \<in> set ys \<Longrightarrow> \<exists>x\<in>set xs. P x y"
  by (induction rule: list_all2_induct) auto

lemma grown_refl [simp]: "grown move born rows rows"
  unfolding grown_def by (intro exI [of _ rows] exI [of _ "[]"]) (simp add: list_all2_refl)

lemma grown_append: "(\<And>r. r \<in> set news \<Longrightarrow> born r) \<Longrightarrow> grown move born rows (rows @ news)"
  unfolding grown_def by (intro exI [of _ rows] exI [of _ news]) (auto simp: list_all2_refl)

lemma grown_moves: "list_all2 move\<^sup>*\<^sup>* rows rows' \<Longrightarrow> grown move born rows rows'"
  unfolding grown_def by (intro exI [of _ rows'] exI [of _ "[]"]) simp

lemma grown_update:
  "(\<And>r. r \<in> set rows \<Longrightarrow> p r \<Longrightarrow> move r (f r)) \<Longrightarrow> grown move born rows (update_rows p f rows)"
  by (rule grown_moves) (auto simp: update_rows_def list_all2_conv_all_nth)

lemma grown_trans:
  assumes "grown move born rows rows'" and "grown move born rows' rows''"
  shows "grown move born rows rows''"
proof -
  from assms(1) obtain ys news where one: "rows' = ys @ news" "list_all2 move\<^sup>*\<^sup>* rows ys"
    "\<forall>r\<in>set news. \<exists>b. born b \<and> move\<^sup>*\<^sup>* b r" by (auto simp: grown_def)
  from assms(2) one(1) obtain zs more where two: "rows'' = zs @ more" "list_all2 move\<^sup>*\<^sup>* (ys @ news) zs"
    "\<forall>r\<in>set more. \<exists>b. born b \<and> move\<^sup>*\<^sup>* b r" by (auto simp: grown_def)
  from two(2) obtain zs1 zs2 where zs: "zs = zs1 @ zs2" "list_all2 move\<^sup>*\<^sup>* ys zs1" "list_all2 move\<^sup>*\<^sup>* news zs2"
    by (auto simp: list_all2_append1)
  have "list_all2 move\<^sup>*\<^sup>* rows zs1"
    by (rule list_all2_trans [OF _ one(2) zs(2)]) (rule rtranclp_trans)
  moreover have "\<exists>b. born b \<and> move\<^sup>*\<^sup>* b r" if "r \<in> set zs2" for r
  proof -
    from list_all2_member' [OF zs(3) that] obtain x where "x \<in> set news" "move\<^sup>*\<^sup>* x r" by blast
    with one(3) show ?thesis by (meson rtranclp_trans)
  qed
  ultimately show ?thesis
    using two(1,3) zs(1) unfolding grown_def by (intro exI [of _ zs1] exI [of _ "zs2 @ more"]) auto
qed

lemma grown_mono:
  assumes "grown move born rows rows'" and "\<And>r r'. move r r' \<Longrightarrow> move' r r'" and "\<And>r. born r \<Longrightarrow> born' r"
  shows "grown move' born' rows rows'"
proof -
  have path: "move\<^sup>*\<^sup>* r r' \<Longrightarrow> move'\<^sup>*\<^sup>* r r'" for r r'
    by (rule rtranclp_mono [THEN predicate2D, of move]) (auto intro: assms(2))
  from assms(1) obtain ys news where ys: "rows' = ys @ news" "list_all2 move\<^sup>*\<^sup>* rows ys"
    "\<forall>r\<in>set news. \<exists>b. born b \<and> move\<^sup>*\<^sup>* b r" by (auto simp: grown_def)
  have "list_all2 move'\<^sup>*\<^sup>* rows ys" by (rule list_all2_mono [OF ys(2) path])
  moreover have "\<forall>r\<in>set news. \<exists>b. born' b \<and> move'\<^sup>*\<^sup>* b r"
    using ys(3) assms(3) path by meson
  ultimately show ?thesis
    unfolding grown_def using ys(1) by blast
qed

section \<open>What a component promises of its rows\<close>

locale row_lifecycle =
  fixes move :: "'r \<Rightarrow> 'r \<Rightarrow> bool"
    and born :: "'r \<Rightarrow> bool"
    and key :: "'r \<Rightarrow> 'k"
    and ok :: "'r \<Rightarrow> bool"
  assumes move_keeps_key: "move r r' \<Longrightarrow> key r' = key r"
    and move_ok: "move r r' \<Longrightarrow> ok r \<Longrightarrow> ok r'"
    and born_ok: "born r \<Longrightarrow> ok r"
begin

lemma path_keeps_key: "move\<^sup>*\<^sup>* r r' \<Longrightarrow> key r' = key r"
  by (induction rule: rtranclp_induct) (auto dest: move_keeps_key)

lemma path_ok: "move\<^sup>*\<^sup>* r r' \<Longrightarrow> ok r \<Longrightarrow> ok r'"
  by (induction rule: rtranclp_induct) (auto intro: move_ok)

lemma rows_ok:
  assumes "grown move born rows rows'" and "\<forall>r\<in>set rows. ok r"
  shows "\<forall>r\<in>set rows'. ok r"
proof -
  from assms(1) obtain ys news where ys: "rows' = ys @ news" "list_all2 move\<^sup>*\<^sup>* rows ys"
    "\<forall>r\<in>set news. \<exists>b. born b \<and> move\<^sup>*\<^sup>* b r" by (auto simp: grown_def)
  from ys(2) assms(2) have "\<forall>r\<in>set ys. ok r"
    by (induction rule: list_all2_induct) (auto intro: path_ok)
  moreover have "\<forall>r\<in>set news. ok r" using ys(3) born_ok path_ok by meson
  ultimately show ?thesis using ys(1) by auto
qed

lemma row_kept: "grown move born rows rows' \<Longrightarrow> r \<in> set rows \<Longrightarrow> \<exists>r'\<in>set rows'. move\<^sup>*\<^sup>* r r'"
  unfolding grown_def by (force dest: list_all2_member)

lemma keys_prefix: "grown move born rows rows' \<Longrightarrow> \<exists>ks. map key rows' = map key rows @ ks"
proof -
  assume "grown move born rows rows'"
  then obtain ys news where ys: "rows' = ys @ news" "list_all2 move\<^sup>*\<^sup>* rows ys" by (auto simp: grown_def)
  from ys(2) have "map key ys = map key rows"
    by (induction rule: list_all2_induct) (auto dest: path_keeps_key)
  with ys(1) show ?thesis by simp
qed

lemma row_follows:
  assumes "grown move born rows rows'" and "r \<in> set rows" and "r' \<in> set rows'" and "key r' = key r"
    and "distinct (map key rows')"
  shows "move\<^sup>*\<^sup>* r r'"
proof -
  from row_kept [OF assms(1,2)] obtain x where x: "x \<in> set rows'" "move\<^sup>*\<^sup>* r x" by blast
  then have "x = r'" using key_unique [OF assms(5) x(1) assms(3)] assms(4) path_keeps_key by fastforce
  with x show ?thesis by simp
qed

text \<open>A property of a row that every move keeps holds for good.\<close>

lemma settled_for_good:
  assumes "grown move born rows rows'" and "distinct (map key rows')"
    and "r \<in> set rows" and "P r" and "\<And>r r'. move r r' \<Longrightarrow> P r \<Longrightarrow> P r'"
    and "r' \<in> set rows'" and "key r' = key r"
  shows "P r'"
  using row_follows [OF assms(1,3,6,7,2)] assms(4)
  by (induction rule: rtranclp_induct) (auto intro: assms(5))

end

text \<open>A lifecycle whose moves never lower a measure, such as a generation.\<close>

locale graded_lifecycle = row_lifecycle move born key ok
  for move :: "'r \<Rightarrow> 'r \<Rightarrow> bool" and born :: "'r \<Rightarrow> bool" and key :: "'r \<Rightarrow> 'k" and ok :: "'r \<Rightarrow> bool" +
  fixes grade :: "'r \<Rightarrow> 'g::preorder"
  assumes move_raises: "move r r' \<Longrightarrow> grade r \<le> grade r'"
begin

lemma path_raises: "move\<^sup>*\<^sup>* r r' \<Longrightarrow> grade r \<le> grade r'"
  by (induction rule: rtranclp_induct) (auto intro: order_trans dest: move_raises)

lemma grade_monotone:
  "grown move born rows rows' \<Longrightarrow> distinct (map key rows') \<Longrightarrow> r \<in> set rows \<Longrightarrow> r' \<in> set rows'
     \<Longrightarrow> key r' = key r \<Longrightarrow> grade r \<le> grade r'"
  by (rule path_raises) (rule row_follows)

end

end
