(* ===== verification/Delivery_System.thy ===== *)
theory Delivery_System
  imports Dispatch_Safety Work_Pause Table_Growth
begin

text \<open>
  The delivery table under everything that writes it in the modelled part: dispatchers, recipients,
  supervisors, runtimes that come back, recovery of decisions that do not come, pauses, and message
  creation. The whole system is shown to refine
  one lifecycle, interpreted as a \<open>graded_lifecycle\<close> of rows.
\<close>

section \<open>Moves of a delivery\<close>

definition receipt_edges :: "(phase \<times> phase) list" where
  "receipt_edges =
     [(Waiting, Acknowledged), (Leased, Acknowledged), (In_Flight, Acknowledged), (Outcome_Unknown, Acknowledged),
      (Delivered, Acknowledged), (Acknowledged, Handled), (Dead, Handled),
      (In_Flight, Delivered), (In_Flight, Waiting), (In_Flight, Dead),
      (Outcome_Unknown, Delivered), (Outcome_Unknown, Waiting), (Outcome_Unknown, Dead), (Dead, Waiting),
      (Waiting, Dead), (Leased, Dead), (Delivered, Dead), (Acknowledged, Dead)]"

definition receipt_move :: "delivery_row \<Rightarrow> delivery_row \<Rightarrow> bool" where
  "receipt_move r r' = (delivery_key r' = delivery_key r \<and> d_recipient_attachment_id r' = d_recipient_attachment_id r
     \<and> (phase_of r, phase_of r') \<in> set receipt_edges
     \<and> d_generation r' = d_generation r + (if phase_of r' = Waiting then 1 else 0)
     \<and> (phase_of r = Dead \<and> phase_of r' = Waiting \<longrightarrow> d_reactivation_policy r = RETRYABLE)
     \<and> (phase_of r' = Waiting \<or> d_reactivation_policy r' = d_reactivation_policy r \<or> d_reactivation_policy r' = TERMINAL)
     \<and> (delivery_ok r \<longrightarrow> delivery_ok r'))"

definition delivery_move :: "delivery_row \<Rightarrow> delivery_row \<Rightarrow> bool" where
  "delivery_move r r' = (row_move r r' \<or> receipt_move r r')"

definition fresh_delivery :: "delivery_row \<Rightarrow> bool" where
  "fresh_delivery r = (d_state r = QUEUED \<and> d_generation r = 1 \<and> d_attempts r = 0 \<and> d_owner_token r = ''''
     \<and> d_lease_until r = None \<and> d_delivered_at r = None \<and> d_acknowledged_at r = None \<and> d_handled_at r = None
     \<and> d_reactivation_policy r = TERMINAL)"

definition bound_key :: "delivery_row \<Rightarrow> (ident \<times> ident) \<times> ident option" where
  "bound_key r = (delivery_key r, d_recipient_attachment_id r)"

interpretation delivery_rows: graded_lifecycle delivery_move fresh_delivery bound_key delivery_ok d_generation
proof
  fix r r' assume m: "delivery_move r r'"
  show "bound_key r' = bound_key r"
    using m by (auto simp: delivery_move_def receipt_move_def row_move_def lifecycle_step_def same_identity_def
        bound_key_def delivery_key_def)
  show "delivery_ok r \<Longrightarrow> delivery_ok r'"
    using m by (auto simp: delivery_move_def receipt_move_def row_move_def)
  have "lifecycle_step r r' \<Longrightarrow> d_generation r \<le> d_generation r'"
    by (auto simp: lifecycle_step_def) (metis delivery_row.select_convs(5) delivery_row.surjective delivery_row.update_convs(16) order_refl)
  moreover have "receipt_move r r' \<Longrightarrow> d_generation r \<le> d_generation r'"
    by (simp add: receipt_move_def)
  ultimately show "d_generation r \<le> d_generation r'"
    using m by (auto simp: delivery_move_def row_move_def)
next
  fix r show "fresh_delivery r \<Longrightarrow> delivery_ok r"
    by (simp add: fresh_delivery_def delivery_ok_def)
qed

lemmas receipt_defs = receipt_move_def receipt_edges_def phase_of_def delivery_ok_def delivery_key_def

lemma ack_receipt: "ack_open i p r \<Longrightarrow> receipt_move r (ack_row e r)"
  by (auto simp: receipt_defs ack_open_def ack_row_def)

lemma late_receipt: "d_state r = DEAD \<Longrightarrow> receipt_move r (late_receipt_row e r)"
  by (auto simp: receipt_defs late_receipt_row_def)

lemma dead_receipt: "d_state r = DEAD \<Longrightarrow> receipt_move r (dead_receipt_row e r)"
  by (auto simp: receipt_defs dead_receipt_row_def)

lemma handled_receipt: "d_state r = ACKNOWLEDGED \<Longrightarrow> receipt_move r (handled_row e r)"
  by (auto simp: receipt_defs handled_row_def)

lemma resolve_receipt: "resolve_fence i p r \<Longrightarrow> receipt_move r (resolve_row e outcome current evidence r)"
  by (cases outcome) (auto simp: receipt_defs resolve_fence_def resolve_row_def resolve_state_def)

lemma reactivate_receipt:
  "d_state r = DEAD \<and> d_reactivation_policy r = RETRYABLE \<Longrightarrow> receipt_move r (reactivate_row e runtime r)"
  by (auto simp: receipt_defs reactivate_row_def)

section \<open>Moves of the table\<close>

definition rows_moved :: "db \<Rightarrow> db \<Rightarrow> bool" where
  "rows_moved s s' = list_all2 delivery_move\<^sup>*\<^sup>* (deliveries s) (deliveries s')"

lemma rows_moved_same: "deliveries s' = deliveries s \<Longrightarrow> rows_moved s s'"
  by (simp add: rows_moved_def list_all2_refl)

lemma rows_moved_update:
  "deliveries s' = update_rows p f (deliveries s) \<Longrightarrow>
     (\<And>r. r \<in> set (deliveries s) \<Longrightarrow> p r \<Longrightarrow> receipt_move r (f r)) \<Longrightarrow> rows_moved s s'"
  by (auto simp: rows_moved_def update_rows_def list_all2_conv_all_nth delivery_move_def)

lemma rows_moved_trans: "rows_moved s s' \<Longrightarrow> rows_moved s' s'' \<Longrightarrow> rows_moved s s''"
  unfolding rows_moved_def
  by (rule list_all2_trans [of "delivery_move\<^sup>*\<^sup>*" "delivery_move\<^sup>*\<^sup>*"]) (auto intro: rtranclp_trans)

lemma rows_moved_keys: "rows_moved s s' \<Longrightarrow> map delivery_key (deliveries s') = map delivery_key (deliveries s)"
  unfolding rows_moved_def
proof (induction rule: list_all2_induct)
  case (Cons x xs y ys)
  from delivery_rows.path_keeps_key [OF Cons(1)] Cons show ?case by (simp add: bound_key_def)
qed simp

lemma rows_path_moved: "rows_path s s' \<Longrightarrow> rows_moved s s'"
proof -
  have "row_path r r' \<Longrightarrow> delivery_move\<^sup>*\<^sup>* r r'" for r r'
    unfolding row_path_def
    by (rule rtranclp_mono [THEN predicate2D, of row_move]) (auto simp: delivery_move_def)
  moreover assume "rows_path s s'"
  ultimately show ?thesis
    unfolding rows_path_def rows_moved_def by (metis list_all2_mono)
qed

section \<open>Receipts move the table\<close>

lemma accept_assignment_deliveries [simp]: "deliveries (accept_assignment e a m att s) = deliveries s"
  by (simp add: accept_assignment_def split: option.split)

lemma acknowledge_dead_moved:
  assumes "acknowledge_dead e a m d s = Inr (Some s')"
  shows "rows_moved s s'"
proof (cases "resolved_cao_boundary_notification_tx e s a m d")
  case (Some resolution)
  let ?fence = "\<lambda>r. addressed (m_id m) (act_id a) r \<and> d_generation r = d_generation d \<and> d_state r = DEAD"
  from assms Some have "deliveries s' = update_rows ?fence (late_receipt_row e) (deliveries s)"
    by (auto simp: acknowledge_dead_def Let_def split: if_splits)
  then show ?thesis by (rule rows_moved_update) (simp add: late_receipt)
next
  case None
  let ?fence = "\<lambda>r. addressed (m_id m) (act_id a) r \<and> d_state r = DEAD"
  from assms None have "deliveries s' = update_rows ?fence (dead_receipt_row e) (deliveries s)"
    by (auto simp: acknowledge_dead_def Let_def split: if_splits option.splits)
  then show ?thesis by (rule rows_moved_update) (simp add: dead_receipt)
qed

lemma acknowledge_open_moved:
  assumes "acknowledge_open e a m d s = Inr s'"
  shows "rows_moved s s'"
proof -
  from assms have "deliveries s' = update_rows (ack_open (m_id m) (act_id a)) (ack_row e) (deliveries s)"
    by (auto simp: acknowledge_open_def bindE_Inr_iff)
  then show ?thesis by (rule rows_moved_update) (rule ack_receipt)
qed

lemma acknowledge_one_moved:
  assumes "acknowledge_one e a s i = Inr s'"
  shows "rows_moved s s'"
  using assms
  by (auto simp: acknowledge_one_def bindE_Inr_iff rows_moved_same
      split: option.splits if_splits dest: acknowledge_dead_moved acknowledge_open_moved)

lemma acknowledge_moved:
  assumes "acknowledge e a ids s = Inr (s', done_ids)"
  shows "rows_moved s s'"
proof -
  from assms have "foldE (\<lambda>(s, done_ids) i. bindE (acknowledge_one e a s i) (\<lambda>s'. Inr (s', done_ids @ [i])))
      (s, []) (dict_fromkeys ids) = Inr (s', done_ids)"
    by (auto simp: acknowledge_def bindE_Inr_iff transaction_Inr_iff)
  then have "(\<lambda>(t, x). rows_moved s t) (s', done_ids)"
  proof (rule foldE_invariant)
    show "(\<lambda>(t, x). rows_moved s t) (s, [])" by (simp add: rows_moved_same)
    fix st i st' assume "(\<lambda>(t, x). rows_moved s t) st"
      and "(\<lambda>(s, done_ids) i. bindE (acknowledge_one e a s i) (\<lambda>s'. Inr (s', done_ids @ [i]))) st i = Inr st'"
    then show "(\<lambda>(t, x). rows_moved s t) st'"
      by (auto simp: bindE_Inr_iff intro: rows_moved_trans [OF _ acknowledge_one_moved])
  qed
  then show ?thesis by simp
qed

lemma release_probe_deliveries [simp]: "deliveries (release_provider_runtime_probe_tx e r i x s) = deliveries s"
  by (simp add: release_provider_runtime_probe_tx_def split: option.split)

lemma resolve_events_deliveries [simp]: "deliveries (resolve_events e a m d outcome current evidence s) = deliveries s"
  by (simp add: resolve_events_def Let_def split: option.split)

lemma resolve_moved:
  assumes "resolve_delivery e a i p outcome evidence s = Inr (s', row)"
  shows "rows_moved s s'"
proof -
  from assms have tx: "resolve_delivery_tx e a i p outcome evidence s = Inr (s', row)"
    by (auto simp: resolve_delivery_def bindE_Inr_iff transaction_Inr_iff)
  then obtain m work d where m: "get_message s i = Some m" "message_work s a m = Inr work" "get_delivery s i p = Some d"
    by (auto simp: resolve_delivery_tx_def bindE_Inr_iff split: option.splits)
  with tx have "deliveries s' = update_rows (resolve_fence i p)
      (resolve_row e outcome (assignment_is_current e s m work d) evidence) (deliveries s)"
    by (auto simp: resolve_delivery_tx_def Let_def split: option.splits if_splits)
  then show ?thesis by (rule rows_moved_update) (rule resolve_receipt)
qed

lemma confirm_work_purpose_deliveries:
  "confirm_work_purpose_tx e i w expected decision s = Inr s' \<Longrightarrow> deliveries s' = deliveries s"
  by (auto simp: confirm_work_purpose_tx_def bindE_Inr_iff split: option.splits)

lemma handling_admitted_deliveries: "handling_admitted e a m d expected s = Inr s' \<Longrightarrow> deliveries s' = deliveries s"
  by (auto simp: handling_admitted_def bindE_Inr_iff dest: confirm_work_purpose_deliveries split: option.splits if_splits)

lemma keyed_row:
  "delivery_keys_distinct s \<Longrightarrow> get_delivery s i p = Some d \<Longrightarrow> r \<in> set (deliveries s) \<Longrightarrow> addressed i p r \<Longrightarrow> r = d"
  unfolding delivery_keys_distinct_def get_delivery_def addressed_def
  by (rule key_unique [where k = delivery_key]) (auto dest: fetchone_SomeD simp: delivery_key_def)

lemma handle_moved:
  assumes "mark_message_handled e a i evidence expected s = Inr (s', row)" and "delivery_keys_distinct s"
  shows "rows_moved s s'"
proof -
  from assms(1) obtain d where d: "get_delivery s i (act_id a) = Some d"
    and cases: "deliveries s' = deliveries s \<or> d_state d = ACKNOWLEDGED
        \<and> deliveries s' = update_rows (addressed i (act_id a)) (handled_row e) (deliveries s)"
    by (auto simp: mark_message_handled_def mark_message_handled_tx_def bindE_Inr_iff transaction_Inr_iff Let_def
        dest!: handling_admitted_deliveries split: option.splits if_splits)
  from cases show ?thesis
  proof
    assume "deliveries s' = deliveries s" then show ?thesis by (rule rows_moved_same)
  next
    assume h: "d_state d = ACKNOWLEDGED
        \<and> deliveries s' = update_rows (addressed i (act_id a)) (handled_row e) (deliveries s)"
    then show ?thesis
      by (intro rows_moved_update [of s' "addressed i (act_id a)" "handled_row e"])
        (auto dest: keyed_row [OF assms(2) d] intro: handled_receipt)
  qed
qed

lemma reactivate_moved:
  assumes "delivery_keys_distinct s"
  shows "rows_moved s (fst (reactivate_deliveries_tx e p runtime s))"
proof (cases "filter (reactivatable s p) (deliveries s) = []")
  case True
  then show ?thesis by (simp add: reactivate_deliveries_tx_def Let_def rows_moved_same)
next
  case False
  let ?ids = "map d_message_id (filter (reactivatable s p) (deliveries s))"
  have "d_state r = DEAD \<and> d_reactivation_policy r = RETRYABLE"
    if r: "r \<in> set (deliveries s)" "d_recipient_id r = p \<and> d_message_id r \<in> set ?ids" for r
  proof -
    from r(2) obtain d where d: "d \<in> set (deliveries s)" "reactivatable s p d" "d_message_id d = d_message_id r" by auto
    from d(2) have dead: "d_recipient_id d = p" "d_state d = DEAD \<and> d_reactivation_policy d = RETRYABLE"
      by (auto simp: reactivatable_def Let_def split: option.splits)
    then have "delivery_key r = delivery_key d" using d(3) r(2) by (simp add: delivery_key_def)
    then have "r = d"
      by (rule key_unique [OF assms [unfolded delivery_keys_distinct_def] r(1) d(1)])
    with dead show ?thesis by simp
  qed
  moreover have "deliveries (fst (reactivate_deliveries_tx e p runtime s)) =
      update_rows (\<lambda>r. d_recipient_id r = p \<and> d_message_id r \<in> set ?ids) (reactivate_row e runtime) (deliveries s)"
    using False unfolding reactivate_deliveries_tx_def Let_def by (simp only: map_is_Nil_conv if_False fst_conv) simp
  ultimately show ?thesis
    by (elim rows_moved_update) (rule reactivate_receipt)
qed

section \<open>A message adds fresh deliveries\<close>

lemma insert_delivery_grows:
  "insert_delivery d s = Inr s' \<Longrightarrow> deliveries s' = deliveries s @ [d] \<and> delivery_key d \<notin> delivery_key ` set (deliveries s)"
  by (auto simp: insert_delivery_def list_ex_iff split: if_splits)

lemma new_delivery_fresh [simp]:
  "fresh_delivery (new_delivery e i p t r)" "delivery_key (new_delivery e i p t r) = (i, p)"
  by (simp_all add: new_delivery_def fresh_delivery_def delivery_key_def)

lemma route_delivery_grows:
  assumes "route_delivery e q b i s p = Inr s'"
  shows "deliveries s' = deliveries s \<or> (\<exists>d. deliveries s' = deliveries s @ [d] \<and> fresh_delivery d
    \<and> delivery_key d = (i, p) \<and> (i, p) \<notin> delivery_key ` set (deliveries s))"
proof -
  from assms obtain x where "deliveries s' = deliveries s \<or> (\<exists>t r. insert_delivery (new_delivery e i p t r) s = Inr s')"
    by (auto simp: route_delivery_def bindE_Inr_iff split: option.splits if_splits)
  then show ?thesis by (auto dest!: insert_delivery_grows)
qed

lemma routes_grow:
  assumes "foldE (route_delivery e q b i) s ps = Inr s'" and "delivery_keys_distinct s"
  shows "grown delivery_move fresh_delivery (deliveries s) (deliveries s') \<and> delivery_keys_distinct s'"
  using assms(1)
proof (rule foldE_invariant)
  show "grown delivery_move fresh_delivery (deliveries s) (deliveries s) \<and> delivery_keys_distinct s"
    using assms(2) by simp
  fix t p t' assume t: "grown delivery_move fresh_delivery (deliveries s) (deliveries t) \<and> delivery_keys_distinct t"
    and r: "route_delivery e q b i t p = Inr t'"
  from route_delivery_grows [OF r]
  show "grown delivery_move fresh_delivery (deliveries s) (deliveries t') \<and> delivery_keys_distinct t'"
  proof
    assume "deliveries t' = deliveries t"
    with t show ?thesis by (simp add: delivery_keys_distinct_def)
  next
    assume "\<exists>d. deliveries t' = deliveries t @ [d] \<and> fresh_delivery d
      \<and> delivery_key d = (i, p) \<and> (i, p) \<notin> delivery_key ` set (deliveries t)"
    then obtain d where d: "deliveries t' = deliveries t @ [d]" "fresh_delivery d" "delivery_key d = (i, p)"
      "(i, p) \<notin> delivery_key ` set (deliveries t)" by blast
    then have "grown delivery_move fresh_delivery (deliveries t) (deliveries t')"
      by (auto intro!: grown_append)
    with t d show ?thesis by (auto simp: delivery_keys_distinct_def intro: grown_trans)
  qed
qed

lemma message_grows:
  assumes "message_tx e q s = Inr (s', r)" and "delivery_keys_distinct s"
  shows "grown delivery_move fresh_delivery (deliveries s) (deliveries s') \<and> delivery_keys_distinct s'"
proof -
  from assms(1) obtain b payload where "s' = s \<or> create_message e q b payload s = Inr (s', r)"
    by (auto simp: message_tx_def bindE_Inr_iff split: option.splits if_splits)
  then show ?thesis
  proof
    assume "s' = s" with assms(2) show ?thesis by simp
  next
    assume c: "create_message e q b payload s = Inr (s', r)"
    then obtain s1 s2 m where s1: "insert_message m s = Inr s1" and s2: "foldE (route_delivery e q b (m_id m)) s1 (request_recipients q) = Inr s2"
      and s': "deliveries s' = deliveries s2"
      by (auto simp: create_message_def Let_def bindE_Inr_iff)
    from s1 have same: "deliveries s1 = deliveries s" by (auto simp: insert_message_def split: if_splits)
    with routes_grow [OF s2] assms(2) s' show ?thesis by (simp add: delivery_keys_distinct_def)
  qed
qed

section \<open>Growth of the table\<close>

definition table_grown :: "db \<Rightarrow> db \<Rightarrow> bool" where
  "table_grown s s' = (delivery_keys_distinct s \<longrightarrow>
     grown delivery_move fresh_delivery (deliveries s) (deliveries s') \<and> delivery_keys_distinct s')"

lemma table_grown_same: "deliveries s' = deliveries s \<Longrightarrow> table_grown s s'"
  by (simp add: table_grown_def delivery_keys_distinct_def)

lemma table_grown_trans: "table_grown s s' \<Longrightarrow> table_grown s' s'' \<Longrightarrow> table_grown s s''"
  by (auto simp: table_grown_def intro: grown_trans)

lemma table_grown_turns [simp]: "table_grown (s\<lparr>reasoner_turns := ts\<rparr>) s' = table_grown s s'"
  by (simp add: table_grown_def delivery_keys_distinct_def)

lemma moved_grown: "rows_moved s s' \<Longrightarrow> table_grown s s'"
  using rows_moved_keys [of s s'] by (simp add: table_grown_def rows_moved_def grown_moves delivery_keys_distinct_def)

lemma message_grown: "message_tx e q s = Inr (s', r) \<Longrightarrow> table_grown s s'"
  by (auto simp: table_grown_def dest: message_grows)

lemma update_grown:
  "deliveries s' = update_rows p f (deliveries s) \<Longrightarrow>
     (\<And>r. r \<in> set (deliveries s) \<Longrightarrow> p r \<Longrightarrow> receipt_move r (f r)) \<Longrightarrow> table_grown s s'"
  by (rule moved_grown) (rule rows_moved_update)

lemma keyed_update_grown:
  assumes "deliveries s' = update_rows p f (deliveries s)" and "get_delivery s i rcp = Some d"
    and "\<And>r. p r \<Longrightarrow> addressed i rcp r" and "p d \<Longrightarrow> receipt_move d (f d)"
  shows "table_grown s s'"
proof (cases "delivery_keys_distinct s")
  case True
  then have "table_grown s s'"
    using assms(3,4) keyed_row [OF True assms(2)] by (intro update_grown [OF assms(1)]) blast
  then show ?thesis .
qed (simp add: table_grown_def)

lemma fold_grown: "(\<And>x s. x \<in> set xs \<Longrightarrow> table_grown s (f x s)) \<Longrightarrow> table_grown s (fold f xs s)"
  by (induction xs arbitrary: s) (auto intro: table_grown_same table_grown_trans)

section \<open>Recovery and pauses move the table\<close>

lemma superseded_receipt: "d_state r \<notin> {HANDLED, DEAD} \<Longrightarrow> receipt_move r (superseded_delivery e reason r)"
  by (cases "d_state r") (auto simp: receipt_defs superseded_delivery_def)

lemma boundary_handled_receipt: "d_state r = ACKNOWLEDGED \<Longrightarrow> receipt_move r (boundary_handled_row e r)"
  by (auto simp: receipt_defs boundary_handled_row_def)

lemma retired_receipt: "d_state r \<notin> {HANDLED, DEAD} \<Longrightarrow> receipt_move r (retired_notice e reason r)"
  by (cases "d_state r") (auto simp: receipt_defs retired_notice_def)

lemma handle_boundary_grown: "table_grown s (handle_boundary_deliveries_tx e b p evidence s)"
  unfolding handle_boundary_deliveries_tx_def
proof (rule fold_grown, clarify)
  fix m d s
  show "table_grown s (if d_state d \<noteq> ACKNOWLEDGED then s
       else log_event e (caused_event ''message.handled'' ''message'' (m_id m) p
              [(''evidence_digest'', jstr (text_digest e evidence))] b)
            (s\<lparr>deliveries := update_rows (\<lambda>r. addressed (m_id m) p r \<and> d_state r = ACKNOWLEDGED)
                 (boundary_handled_row e) (deliveries s)\<rparr>))"
    by (auto intro: table_grown_same update_grown [where p = "\<lambda>r. addressed (m_id m) p r \<and> d_state r = ACKNOWLEDGED"]
        boundary_handled_receipt)
qed

lemma superseded_twice [simp]: "superseded_delivery e reason (superseded_delivery e reason r) = superseded_delivery e reason r"
  by (simp add: superseded_delivery_def)

lemma addressed_superseded [simp]: "addressed i p (superseded_delivery e reason r) = addressed i p r"
  by (simp add: addressed_def superseded_delivery_def)

text \<open>All the superseding updates together: one update of the rows they address.\<close>

definition supersede_targets :: "db \<Rightarrow> ident \<Rightarrow> ident \<Rightarrow> delivery_row \<Rightarrow> bool" where
  "supersede_targets s b p r = list_ex (\<lambda>(m, d). d_state d \<notin> {HANDLED, DEAD} \<and> addressed (m_id m) p r)
     (boundary_delivery_rows_tx s b p)"

lemma supersede_fold:
  "deliveries (fold (\<lambda>(m, d) s. if d_state d \<in> {HANDLED, DEAD} then s
       else log_event e (x m d) (s\<lparr>deliveries := update_rows (addressed (m_id m) p) (superseded_delivery e reason) (deliveries s)\<rparr>))
       rows s)
   = update_rows (\<lambda>r. list_ex (\<lambda>(m, d). d_state d \<notin> {HANDLED, DEAD} \<and> addressed (m_id m) p r) rows)
       (superseded_delivery e reason) (deliveries s)"
proof (induction rows arbitrary: s)
  case Nil
  then show ?case by (simp add: update_rows_def)
next
  case (Cons md rows)
  obtain m d where md: "md = (m, d)" by (cases md)
  show ?case
    using Cons.IH [of s] Cons.IH [of "log_event e (x m d)
      (s\<lparr>deliveries := update_rows (addressed (m_id m) p) (superseded_delivery e reason) (deliveries s)\<rparr>)"]
    by (simp add: md update_rows_def cong: map_cong)
qed

lemma supersede_deliveries:
  "deliveries (supersede_boundary_deliveries_tx e b p reason s)
   = update_rows (supersede_targets s b p) (superseded_delivery e reason) (deliveries s)"
  unfolding supersede_boundary_deliveries_tx_def supersede_fold supersede_targets_def [abs_def] by simp

lemma boundary_rows_member:
  "(m, d) \<in> set (boundary_delivery_rows_tx s b p) \<Longrightarrow> d \<in> set (deliveries s) \<and> addressed (m_id m) p d"
  by (auto simp: boundary_delivery_rows_tx_def addressed_def split: option.splits)

lemma supersede_grown: "table_grown s (supersede_boundary_deliveries_tx e b p reason s)"
proof (cases "delivery_keys_distinct s")
  case True
  show ?thesis
  proof (rule update_grown [OF supersede_deliveries])
    fix r assume r: "r \<in> set (deliveries s)" "supersede_targets s b p r"
    then obtain m d where md: "(m, d) \<in> set (boundary_delivery_rows_tx s b p)" "d_state d \<notin> {HANDLED, DEAD}"
      "addressed (m_id m) p r" by (auto simp: supersede_targets_def list_ex_iff)
    from boundary_rows_member [OF md(1)] md(3) have "delivery_key r = delivery_key d" "d \<in> set (deliveries s)"
      by (auto simp: addressed_def delivery_key_def)
    then have "r = d" using True r(1) by (auto simp: delivery_keys_distinct_def intro: key_unique)
    with md(2) show "receipt_move r (superseded_delivery e reason r)" by (simp add: superseded_receipt)
  qed
qed (simp add: table_grown_def)

lemma update_works_deliveries: "update_works cols p f s = Inr s' \<Longrightarrow> deliveries s' = deliveries s"
  by (auto simp: update_works_def split: if_splits)

lemma insert_turn_deliveries: "insert_turn t s = Inr s' \<Longrightarrow> deliveries s' = deliveries s"
  by (auto simp: insert_turn_def split: if_splits)

lemma insert_disposition_deliveries: "insert_disposition d s = Inr s' \<Longrightarrow> deliveries s' = deliveries s"
  by (auto simp: insert_disposition_def split: if_splits)

lemma insert_pause_deliveries: "insert_pause p s = Inr s' \<Longrightarrow> deliveries s' = deliveries s"
  by (auto simp: insert_pause_def split: if_splits)

lemmas insert_deliveries = update_works_deliveries insert_turn_deliveries insert_disposition_deliveries insert_pause_deliveries

lemma escalate_grown:
  assumes "escalate_supervision_tx e b w code reason turn digest s = Inr (s', d)"
  shows "table_grown s s'"
proof -
  from assms obtain supervisor reason' q s4 s6 r x where s4: "deliveries s4 = deliveries s"
    and s6: "message_tx e q (supersede_boundary_deliveries_tx e (b_id b) supervisor reason' s4) = Inr (s6, r)"
    and s': "s' = log_event e x s6"
    by (auto simp: escalate_supervision_tx_def Let_def bindE_Inr_iff dest!: insert_deliveries split: option.splits)
  have "table_grown s s4" using s4 by (rule table_grown_same)
  moreover have "table_grown s4 s6" by (rule table_grown_trans [OF supersede_grown message_grown [OF s6]])
  moreover have "table_grown s6 s'" unfolding s' by (rule table_grown_same) simp
  ultimately show ?thesis by (meson table_grown_trans)
qed

lemma recover_abandoned_grown:
  assumes "recover_abandoned_turn e t b s = Inr s'"
  shows "table_grown s s'"
proof (cases "has_reasoner_recovery_tx s (rt_boundary_id t)")
  case True
  with assms show ?thesis
    by (auto simp: recover_abandoned_turn_def bindE_Inr_iff split: option.splits dest: escalate_grown)
next
  case False
  with assms obtain q s3 r x reason where s3: "message_tx e q (supersede_boundary_deliveries_tx e (rt_boundary_id t)
      (rt_supervisor_id t) reason s) = Inr (s3, r)" and s': "s' = log_event e x s3"
    by (auto simp: recover_abandoned_turn_def Let_def bindE_Inr_iff)
  from table_grown_trans [OF supersede_grown message_grown [OF s3]] show ?thesis
    unfolding s' by (rule table_grown_trans) (rule table_grown_same, simp)
qed

lemma recover_expired_grown:
  assumes "recover_expired_reasoner_turns e s = Inr (s', n)"
  shows "table_grown s s'"
proof -
  from assms have "foldE (recover_expired_turn e) (s, 0) (expired_turns e s) = Inr (s', n)"
    by (auto simp: recover_expired_reasoner_turns_def transaction_Inr_iff)
  then have "table_grown s (fst (s', n))"
  proof (rule foldE_invariant)
    show "table_grown s (fst (s, 0 :: int))" by (simp add: table_grown_same)
    fix st tbw st' assume st: "table_grown s (fst st)" and r: "recover_expired_turn e st tbw = Inr st'"
    obtain s1 n1 t b w where shape: "st = (s1, n1)" "tbw = (t, b, w)" by (metis surj_pair)
    from r have "st' = st \<or> table_grown s1 (fst st')"
      by (auto simp: recover_expired_turn_def shape bindE_Inr_iff split: if_splits dest!: recover_abandoned_grown)
    with st show "table_grown s (fst st')" by (auto simp: shape intro: table_grown_trans)
  qed
  then show ?thesis by simp
qed

lemma advance_incomplete_grown:
  assumes "advance_incomplete_turn e i p g b turn s = Inr (s', out)"
  shows "table_grown s s'"
proof (cases "has_reasoner_recovery_tx s (b_id b)")
  case True
  with assms show ?thesis
    by (auto simp: advance_incomplete_turn_def bindE_Inr_iff Let_def split: option.splits dest: escalate_grown)
next
  case False
  with assms obtain q s3 r x reason where s3: "message_tx e q (supersede_boundary_deliveries_tx e (b_id b) p reason s)
      = Inr (s3, r)" and s': "s' = log_event e x s3"
    by (auto simp: advance_incomplete_turn_def Let_def bindE_Inr_iff)
  from table_grown_trans [OF supersede_grown message_grown [OF s3]] show ?thesis
    unfolding s' by (rule table_grown_trans) (rule table_grown_same, simp)
qed

lemma recover_incomplete_grown:
  assumes "recover_incomplete_reasoner_delivery_tx e i p g b s = Inr (s', out)"
  shows "table_grown s s'"
proof -
  from assms obtain c turn where "s' = s \<or> advance_incomplete_turn e i p g c turn (abandon_lapsed e turn s) = Inr (s', out)"
    by (auto simp: recover_incomplete_reasoner_delivery_tx_def Let_def split: option.splits if_splits)
  moreover have "table_grown s (abandon_lapsed e turn s)"
    by (rule table_grown_same) (simp add: abandon_lapsed_def split: option.split)
  ultimately show ?thesis
    using table_grown_same [of s s] table_grown_trans [OF _ advance_incomplete_grown] by blast
qed

lemma retire_notice_grown:
  assumes "get_delivery s i p = Some d" and "d_generation d = g" and "d_state d \<notin> {HANDLED, DEAD}"
  shows "table_grown s (retire_notice e i p g reason s)"
  by (rule keyed_update_grown [OF _ assms(1), where p = "\<lambda>r. addressed i p r \<and> d_generation r = g"])
    (use assms(3) in \<open>auto simp: retire_notice_def intro: retired_receipt\<close>)

lemma escalation_delivery_addressed:
  assumes "requester_escalation_delivery_tx s i = Some (m, d, t)" and "delivery_keys_distinct s"
  shows "get_delivery s i (d_recipient_id d) = Some d"
proof -
  from assms(1) obtain w rest where m: "get_message s i = Some m" and pairs: "escalation_deliveries s m w = (d, t) # rest"
    by (auto simp: requester_escalation_delivery_tx_def split: option.splits if_splits list.splits)
  have "(d, t) \<in> set (escalation_deliveries s m w)" by (simp add: pairs)
  then have "d \<in> set (deliveries s)" "d_message_id d = m_id m"
    by (auto simp: escalation_deliveries_def escalation_delivery_def)
  with m have d: "d \<in> set (deliveries s)" "d_message_id d = i"
    by (auto simp: get_message_def dest: fetchone_SomeD)
  with assms(2) show ?thesis
    unfolding get_delivery_def delivery_keys_distinct_def
    by (intro fetchone_unique [where k = delivery_key]) (auto simp: delivery_key_def)
qed

lemma rearm_grown:
  assumes "rearm_notice e i p g m s = Inr (s', out)" and "\<And>reason. table_grown s (retire_notice e i p g reason s)"
  shows "table_grown s s'"
proof -
  have logged: "table_grown s t \<Longrightarrow> table_grown s (log_event e x t)" for x t
    by (rule table_grown_trans [OF _ table_grown_same]) simp_all
  show ?thesis
  proof (cases "has_prefix ''requester-escalation-recovery:'' (m_idempotency_key m)")
    case True
    with assms show ?thesis by (auto simp: rearm_notice_def intro!: logged)
  next
    case False
    with assms(1) obtain q r s1 x reason where "message_tx e q (retire_notice e i p g reason s) = Inr (s1, r)"
      and s': "s' = log_event e x s1"
      by (auto simp: rearm_notice_def bindE_Inr_iff split: option.splits)
    from table_grown_trans [OF assms(2) message_grown [OF this(1)]] show ?thesis unfolding s' by (rule logged)
  qed
qed

lemma recover_escalation_grown:
  assumes "recover_incomplete_requester_escalation_tx e i p g s = Inr (s', out)"
  shows "table_grown s s'"
proof (cases "delivery_keys_distinct s \<and> s' \<noteq> s")
  case True
  then obtain m d t where n: "requester_escalation_delivery_tx s i = Some (m, d, t)"
    and d: "d_recipient_id d = p" "d_generation d = g" "d_state d \<in> {DISPATCHED, DELIVERED, ACKNOWLEDGED}"
    and rearm: "rearm_notice e i p g m s = Inr (s', out)"
    using assms by (auto simp: recover_incomplete_requester_escalation_tx_def split: option.splits if_splits)
  have row: "get_delivery s i p = Some d"
    using escalation_delivery_addressed [OF n] True d(1) by simp
  show ?thesis
    by (rule rearm_grown [OF rearm]) (use retire_notice_grown [OF row d(2)] d(3) in auto)
qed (auto simp: table_grown_def)

lemma retire_command_grown: "d_state c \<in> {QUEUED, LEASED} \<Longrightarrow> table_grown s (retire_command e a b c s)"
  by (rule update_grown [where p = "\<lambda>r. delivery_key r = delivery_key c \<and> d_state r = d_state c"])
    (auto simp: retire_command_def intro!: retired_receipt)

lemma pause_grown:
  assumes "pause_work_tx e actor_id w a b s = Inr s'"
  shows "table_grown s s'"
proof -
  from assms obtain s3 x where s3: "deliveries s3 = deliveries s"
    and s': "s' = log_event e x (fold (retire_command e actor_id (b_id b)) (unstarted_commands s3 w a) s3)"
    by (auto simp: pause_work_tx_def Let_def bindE_Inr_iff dest!: insert_deliveries split: if_splits)
  have "table_grown s3 (fold (retire_command e actor_id (b_id b)) (unstarted_commands s3 w a) s3)"
    by (rule fold_grown, rule retire_command_grown) (simp add: unstarted_commands_def)
  from table_grown_trans [OF table_grown_same [OF s3] this] show ?thesis
    unfolding s' by (rule table_grown_trans) (rule table_grown_same, simp)
qed

section \<open>Runs of the whole system\<close>

inductive delivery_step :: "dispatcher_settings \<Rightarrow> text_lib \<Rightarrow> db \<Rightarrow> db \<Rightarrow> bool" for cfg tx where
  dispatch: "dispatcher_step cfg tx s s' \<Longrightarrow> delivery_step cfg tx s s'"
| receipt: "acknowledge e a ids s = Inr (s', done_ids) \<Longrightarrow> delivery_step cfg tx s s'"
| resolution: "resolve_delivery e a i p outcome evidence s = Inr (s', row) \<Longrightarrow> delivery_step cfg tx s s'"
| handling: "mark_message_handled e a i evidence expected s = Inr (s', row) \<Longrightarrow> delivery_step cfg tx s s'"
| reactivation: "delivery_step cfg tx s (fst (reactivate_deliveries_tx e p runtime s))"
| message: "message_tx e q s = Inr (s', r) \<Longrightarrow> delivery_step cfg tx s s'"
| decision: "delivery_step cfg tx s (handle_boundary_deliveries_tx e b p evidence s)"
| supersession: "delivery_step cfg tx s (supersede_boundary_deliveries_tx e b p reason s)"
| turn_recovery: "recover_expired_reasoner_turns e s = Inr (s', n) \<Longrightarrow> delivery_step cfg tx s s'"
| turn_incomplete: "recover_incomplete_reasoner_delivery_tx e i p g b s = Inr (s', out) \<Longrightarrow> delivery_step cfg tx s s'"
| notice_incomplete: "recover_incomplete_requester_escalation_tx e i p g s = Inr (s', out) \<Longrightarrow> delivery_step cfg tx s s'"
| pause: "pause_work_tx e actor_id w att b s = Inr s' \<Longrightarrow> delivery_step cfg tx s s'"

lemma delivery_step_table_grown:
  assumes "delivery_step cfg tx s s'"
  shows "table_grown s s'"
  using assms
proof (cases rule: delivery_step.cases)
  case dispatch
  then show ?thesis
    using dispatcher_step_path [OF dispatch] moved_grown [OF rows_path_moved] by (auto simp: table_grown_def)
next
  case (handling e a i evidence expected row)
  then show ?thesis
    using handle_moved [OF handling] moved_grown by (auto simp: table_grown_def)
next
  case (reactivation e p runtime)
  show ?thesis
  proof (cases "delivery_keys_distinct s")
    case True
    from moved_grown [OF reactivate_moved [OF True]] show ?thesis by (simp add: reactivation)
  qed (simp add: table_grown_def)
qed (blast intro: moved_grown acknowledge_moved resolve_moved message_grown handle_boundary_grown supersede_grown
    recover_expired_grown recover_incomplete_grown recover_escalation_grown pause_grown)+

lemma delivery_run_grown:
  assumes "(delivery_step cfg tx)\<^sup>*\<^sup>* s s'" and "delivery_keys_distinct s"
  shows "grown delivery_move fresh_delivery (deliveries s) (deliveries s') \<and> delivery_keys_distinct s'"
proof -
  have "table_grown s s'"
    using assms(1) by (induction rule: rtranclp_induct)
      (auto intro: table_grown_same table_grown_trans delivery_step_table_grown)
  with assms(2) show ?thesis by (simp add: table_grown_def)
qed

lemma bound_keys_distinct: "delivery_keys_distinct s \<Longrightarrow> distinct (map bound_key (deliveries s))"
  unfolding delivery_keys_distinct_def
  by (rule distinct_map [THEN iffD2, OF conjI]) (auto simp: distinct_map inj_on_def bound_key_def)

section \<open>What the system guarantees\<close>


lemma run_row:
  assumes "(delivery_step cfg tx)\<^sup>*\<^sup>* s s'" and "delivery_keys_distinct s"
    and "r \<in> set (deliveries s)" and "P r" and "\<forall>x y. delivery_move x y \<longrightarrow> P x \<longrightarrow> P y"
    and "get_delivery s' (d_message_id r) (d_recipient_id r) = Some r'"
  shows "P r' \<and> d_recipient_attachment_id r' = d_recipient_attachment_id r \<and> d_generation r \<le> d_generation r'"
proof -
  note g = delivery_run_grown [OF assms(1,2)]
  then have distinct: "distinct (map bound_key (deliveries s'))" by (blast intro: bound_keys_distinct)
  have r': "r' \<in> set (deliveries s')" "delivery_key r' = delivery_key r"
    using assms(6) by (auto simp: get_delivery_def delivery_key_def dest: fetchone_SomeD)
  from delivery_rows.row_kept [OF conjunct1 [OF g] assms(3)] obtain x
    where x: "x \<in> set (deliveries s')" "delivery_move\<^sup>*\<^sup>* r x" by blast
  then have "delivery_key x = delivery_key r'"
    using delivery_rows.path_keeps_key [OF x(2)] r'(2) by (simp add: bound_key_def)
  then have "x = r'"
    using g x(1) r'(1) by (intro key_unique [of delivery_key "deliveries s'"]) (auto simp: delivery_keys_distinct_def)
  with x(2) have path: "delivery_move\<^sup>*\<^sup>* r r'" by simp
  then have "P r'" using assms(4) by (induction rule: rtranclp_induct) (use assms(5) in blast)+
  with delivery_rows.path_keeps_key [OF path] delivery_rows.path_raises [OF path] show ?thesis
    by (simp add: bound_key_def)
qed

text \<open>No edge of the dispatcher leaves an acknowledged, handled or dead delivery.\<close>

lemma settled_move: "delivery_move x y \<Longrightarrow> phase_of x \<in> {Acknowledged, Handled, Dead} \<Longrightarrow> y = x \<or> receipt_move x y"
  unfolding delivery_move_def row_move_def lifecycle_step_def dispatcher_edges_def by force

lemma settled_receipt:
  assumes "receipt_move x y"
  shows "phase_of x = Acknowledged \<Longrightarrow> phase_of y \<in> {Handled, Dead} \<and> d_generation y = d_generation x"
    and "phase_of x \<noteq> Handled"
    and "phase_of x = Dead \<Longrightarrow> d_reactivation_policy x = TERMINAL \<Longrightarrow> phase_of y = Handled \<and> d_generation y = d_generation x"
    and "d_reactivation_policy x = TERMINAL \<Longrightarrow> phase_of y \<noteq> Waiting \<Longrightarrow> d_reactivation_policy y = TERMINAL"
  using assms unfolding receipt_move_def receipt_edges_def by force+

definition settled_for_good :: "delivery_row \<Rightarrow> bool" where
  "settled_for_good x = (phase_of x = Handled
     \<or> phase_of x \<in> {Acknowledged, Dead} \<and> d_reactivation_policy x = TERMINAL)"

lemma settled_for_good_moves:
  assumes "delivery_move x y" and "settled_for_good x \<and> d_generation x = g"
  shows "settled_for_good y \<and> d_generation y = g"
  using settled_move [OF assms(1)] assms(2) settled_receipt [of x y] by (auto simp: settled_for_good_def)

lemma handled_moves: "delivery_move x y \<Longrightarrow> x = r \<and> phase_of r = Handled \<Longrightarrow> y = r \<and> phase_of r = Handled"
  using settled_move [of x y] settled_receipt(2) [of x y] by auto

lemma terminal_moves:
  assumes "delivery_move x y"
    and "(phase_of x = Dead \<and> d_reactivation_policy x = TERMINAL \<or> phase_of x = Handled) \<and> d_generation x = g"
  shows "(phase_of y = Dead \<and> d_reactivation_policy y = TERMINAL \<or> phase_of y = Handled) \<and> d_generation y = g"
  using settled_move [OF assms(1)] assms(2) settled_receipt(2,3) [of x y] by auto

lemma phase_simps:
  "phase_of r \<in> {Acknowledged, Handled} \<longleftrightarrow> d_state r \<in> {ACKNOWLEDGED, HANDLED}"
  "phase_of r = Handled \<longleftrightarrow> d_state r = HANDLED" "phase_of r = Dead \<longleftrightarrow> d_state r = DEAD"
  by (cases "d_state r"; simp add: phase_of_def)+

lemma acknowledged_settled: "delivery_ok r \<Longrightarrow> d_state r \<in> {ACKNOWLEDGED, HANDLED} \<Longrightarrow> settled_for_good r"
  by (cases "d_reactivation_policy r"; cases "d_state r") (auto simp: settled_for_good_def phase_of_def delivery_ok_def)

lemma settled_states: "settled_for_good r \<Longrightarrow> d_state r \<in> {ACKNOWLEDGED, HANDLED, DEAD}"
  by (cases "d_state r") (auto simp: settled_for_good_def phase_of_def split: if_splits)

lemma settled_run:
  assumes "(delivery_step cfg tx)\<^sup>*\<^sup>* s s'" and "delivery_keys_distinct s" and "r \<in> set (deliveries s)"
    and "settled_for_good r" and "get_delivery s' (d_message_id r) (d_recipient_id r) = Some r'"
  shows "settled_for_good r' \<and> d_generation r' = d_generation r
    \<and> d_recipient_attachment_id r' = d_recipient_attachment_id r"
proof -
  let ?P = "\<lambda>x. settled_for_good x \<and> d_generation x = d_generation r"
  have "\<forall>x y. delivery_move x y \<longrightarrow> ?P x \<longrightarrow> ?P y" using settled_for_good_moves by blast
  from run_row [where P = ?P, OF assms(1-3) _ this assms(5)] assms(4) show ?thesis by blast
qed



end
