(* ===== verification/Receipt_Safety.thy ===== *)
theory Receipt_Safety
  imports Delivery_System
begin

text \<open>
  What the receipt operations promise one by one: acknowledging is complete and idempotent, a
  resolution requeues an Assignment only while it is the current task, and handling needs an
  acknowledged delivery whose boundary was decided.
\<close>

section \<open>What an acknowledgement writes\<close>

definition only_receipts :: "db \<Rightarrow> db \<Rightarrow> bool" where
  "only_receipts s s' = (\<exists>ds as evs n ps. s' = s\<lparr>deliveries := ds, attempts := as, events := evs,
     event_sequence := n, push_deliveries := ps\<rparr>)"

lemma log_event_only: "log_event e x s = s\<lparr>deliveries := deliveries s, attempts := attempts s,
    events := events (log_event e x s), event_sequence := event_sequence (log_event e x s),
    push_deliveries := push_deliveries (log_event e x s)\<rparr>"
  by (simp add: log_event_def record_event_def Let_def)

lemma only_receipts_refl [simp]: "only_receipts s s"
  unfolding only_receipts_def
  by (intro exI [of _ "deliveries s"] exI [of _ "attempts s"] exI [of _ "events s"] exI [of _ "event_sequence s"]
      exI [of _ "push_deliveries s"]) simp

lemma only_receipts_trans: "only_receipts s s' \<Longrightarrow> only_receipts s' s'' \<Longrightarrow> only_receipts s s''"
  unfolding only_receipts_def by (elim exE) (simp, blast)

lemma only_receipts_log: "only_receipts s s' \<Longrightarrow> only_receipts s (log_event e x s')"
  by (erule only_receipts_trans, unfold only_receipts_def, subst log_event_only, blast)

lemma only_receipts_write:
  "only_receipts s (s\<lparr>deliveries := ds\<rparr>)" "only_receipts s (s\<lparr>attempts := as\<rparr>)"
  unfolding only_receipts_def
  by (intro exI [of _ ds] exI [of _ "attempts s"] exI [of _ "events s"] exI [of _ "event_sequence s"]
        exI [of _ "push_deliveries s"]; simp)
    (intro exI [of _ "deliveries s"] exI [of _ as] exI [of _ "events s"] exI [of _ "event_sequence s"]
        exI [of _ "push_deliveries s"]; simp)

lemma only_receipts_reads:
  assumes "only_receipts s s'"
  shows "authority_mode s' = authority_mode s" "get_message s' i = get_message s i"
    "require_role e s' a roles = require_role e s a roles"
    "require_current_cao_attachment_actor_tx e b s' a = require_current_cao_attachment_actor_tx e b s a"
    "worker_route_ok e s' a d = worker_route_ok e s a d"
proof -
  from assms obtain ds as evs n ps where s': "s' = s\<lparr>deliveries := ds, attempts := as, events := evs,
     event_sequence := n, push_deliveries := ps\<rparr>" by (auto simp: only_receipts_def)
  show "authority_mode s' = authority_mode s" by (simp add: s')
  show "get_message s' i = get_message s i" by (simp add: s' get_message_def)
  have bearer: "runtime_bearer_current e s' a = runtime_bearer_current e s a"
    "conversation_bearer_current e s' a = conversation_bearer_current e s a"
    by (simp_all add: s' runtime_bearer_current_def conversation_bearer_current_def)
  then show role: "require_role e s' a roles = require_role e s a roles" for roles by (simp add: require_role_def)
  have "enabled_cao s' x = enabled_cao s x" for x by (simp add: s' enabled_cao_def)
  then have "runtime_attachment_current e s' a = runtime_attachment_current e s a"
    by (simp add: s' runtime_attachment_current_def)
  with \<open>\<And>x. enabled_cao s' x = enabled_cao s x\<close> bearer
  show "require_current_cao_attachment_actor_tx e b s' a = require_current_cao_attachment_actor_tx e b s a"
    by (simp add: require_current_cao_attachment_actor_tx_def)
  have tables: "enrollments s' = enrollments s" "runtimes s' = runtimes s"
    "runtime_credentials s' = runtime_credentials s" "principals s' = principals s" by (simp_all add: s')
  have binding: "worker_binding s' a = worker_binding s a" unfolding worker_binding_def tables ..
  have current: "worker_credential_current e s' a = worker_credential_current e s a"
    by (intro ext) (simp add: worker_credential_current_def)
  show "worker_route_ok e s' a d = worker_route_ok e s a d"
    unfolding worker_route_ok_def require_worker_runtime_actor_tx_def role binding current ..
qed

lemma acknowledge_one_only: "acknowledge_one e a s i = Inr s' \<Longrightarrow> only_receipts s s'"
proof -
  have dead: "acknowledge_dead e a m d s = Inr (Some s') \<Longrightarrow> only_receipts s s'" for m d s'
    by (auto simp: acknowledge_dead_def Let_def only_receipts_write intro: only_receipts_log
        split: option.splits if_splits)
  have accept: "only_receipts s t \<Longrightarrow> only_receipts s (accept_assignment e a m att t)" for m att t
    by (auto simp: accept_assignment_def split: option.split
        intro!: only_receipts_log intro: only_receipts_trans only_receipts_write)
  have "acknowledge_open e a m d s = Inr s' \<Longrightarrow> only_receipts s s'" for m d s'
    by (auto simp: acknowledge_open_def bindE_Inr_iff intro!: accept only_receipts_log only_receipts_write)
  with dead show "acknowledge_one e a s i = Inr s' \<Longrightarrow> only_receipts s s'"
    by (auto simp: acknowledge_one_def bindE_Inr_iff split: option.splits if_splits)
qed

section \<open>Receipted messages\<close>

definition receipted :: "env \<Rightarrow> actor \<Rightarrow> db \<Rightarrow> ident \<Rightarrow> bool" where
  "receipted e a s i = (\<exists>m d. get_message s i = Some m \<and> get_delivery s i (act_id a) = Some d
     \<and> d_state d \<in> {ACKNOWLEDGED, HANDLED} \<and> ack_attachment_ok e s a d = Inr () \<and> worker_route_ok e s a d = Inr ())"

lemma receipted_replay: "receipted e a s i \<Longrightarrow> acknowledge_one e a s i = Inr s"
  by (auto simp: receipted_def acknowledge_one_def)

text \<open>The delivery of a message after one acknowledgement.\<close>

lemma get_delivery_update:
  assumes "deliveries s' = update_rows p f (deliveries s)" and "\<And>r. delivery_key (f r) = delivery_key r"
  shows "get_delivery s' i q = map_option (\<lambda>r. if p r then f r else r) (get_delivery s i q)"
  unfolding get_delivery_fetch assms(1) update_rows_def
  by (rule fetchone_update_rows) (simp add: assms(2))

lemma receipt_row_keys [simp]:
  "delivery_key (ack_row e r) = delivery_key r" "delivery_key (late_receipt_row e r) = delivery_key r"
  "delivery_key (dead_receipt_row e r) = delivery_key r"
  by (simp_all add: ack_row_def late_receipt_row_def dead_receipt_row_def delivery_key_def)

definition receipt_write :: "env \<Rightarrow> (delivery_row \<Rightarrow> delivery_row) \<Rightarrow> bool" where
  "receipt_write e f = (\<forall>r. delivery_key (f r) = delivery_key r \<and> d_state (f r) \<in> {ACKNOWLEDGED, HANDLED}
     \<and> d_recipient_attachment_id (f r) = d_recipient_attachment_id r \<and> d_runtime_session_id (f r) = d_runtime_session_id r)"

lemma receipt_writes: "receipt_write e (ack_row e)" "receipt_write e (late_receipt_row e)" "receipt_write e (dead_receipt_row e)"
  by (simp_all add: receipt_write_def) (simp_all add: ack_row_def late_receipt_row_def dead_receipt_row_def)

text \<open>Every acknowledgement that returns leaves the table alone, or writes a receipt to the message's row.\<close>

lemma acknowledge_one_writes:
  assumes "acknowledge_one e a s i = Inr s'"
  obtains m d where "get_message s i = Some m" "get_delivery s i (act_id a) = Some d"
    "ack_attachment_ok e s a d = Inr ()" "worker_route_ok e s a d = Inr ()"
    "s' = s \<and> d_state d \<in> {ACKNOWLEDGED, HANDLED}
      \<or> (\<exists>p f. receipt_write e f \<and> (\<forall>r. p r \<longrightarrow> addressed i (act_id a) r) \<and> p d
           \<and> deliveries s' = update_rows p f (deliveries s))"
proof -
  from assms obtain m d where md: "get_message s i = Some m" "get_delivery s i (act_id a) = Some d"
    "ack_attachment_ok e s a d = Inr ()" "worker_route_ok e s a d = Inr ()"
    by (auto simp: acknowledge_one_def bindE_Inr_iff split: option.splits)
  have mi: "m_id m = i" using md(1) by (auto simp: get_message_def dest: fetchone_SomeD)
  have di: "addressed i (act_id a) d" using md(2) by (auto simp: get_delivery_def addressed_def dest: fetchone_SomeD)
  let ?W = "\<exists>p f. receipt_write e f \<and> (\<forall>r. p r \<longrightarrow> addressed i (act_id a) r) \<and> p d
           \<and> deliveries s' = update_rows p f (deliveries s)"
  have dead: ?W if w: "acknowledge_dead e a m d s = Inr (Some s')" "d_state d = DEAD"
  proof (cases "resolved_cao_boundary_notification_tx e s a m d")
    case Some
    with w mi di show ?thesis
      by (intro exI [of _ "\<lambda>r. addressed i (act_id a) r \<and> d_generation r = d_generation d \<and> d_state r = DEAD"]
          exI [of _ "late_receipt_row e"])
        (auto simp: acknowledge_dead_def Let_def receipt_writes split: if_splits)
  next
    case None
    with w mi di show ?thesis
      by (intro exI [of _ "\<lambda>r. addressed i (act_id a) r \<and> d_state r = DEAD"] exI [of _ "dead_receipt_row e"])
        (auto simp: acknowledge_dead_def Let_def receipt_writes split: if_splits option.splits)
  qed
  have opened: ?W if w: "acknowledge_open e a m d s = Inr s'"
    using w mi di
    by (intro exI [of _ "ack_open i (act_id a)"] exI [of _ "ack_row e"])
      (auto simp: acknowledge_open_def bindE_Inr_iff receipt_writes ack_open_def)
  from assms md have "s' = s \<and> d_state d \<in> {ACKNOWLEDGED, HANDLED} \<or> ?W"
    by (auto simp: acknowledge_one_def bindE_Inr_iff dest: dead opened split: if_splits option.splits)
  with md show thesis by (rule that)
qed

lemma ack_attachment_settled:
  "ack_attachment_ok e s a d = Inr () \<Longrightarrow> d_recipient_attachment_id d' = d_recipient_attachment_id d
     \<Longrightarrow> d_state d' \<noteq> DISPATCHED \<Longrightarrow> ack_attachment_ok e s' a d' = Inr ()"
  by (auto simp: ack_attachment_ok_def settled_unknown_def split: if_splits)

lemma worker_route_same:
  "d_runtime_session_id d' = d_runtime_session_id d \<Longrightarrow> worker_route_ok e s a d' = worker_route_ok e s a d"
  by (simp add: worker_route_ok_def)

lemma acknowledge_one_receipts:
  assumes "acknowledge_one e a s i = Inr s'"
  shows "receipted e a s' i"
proof -
  note only = acknowledge_one_only [OF assms]
  from acknowledge_one_writes [OF assms] obtain m d where md: "get_message s i = Some m"
    "get_delivery s i (act_id a) = Some d" "ack_attachment_ok e s a d = Inr ()" "worker_route_ok e s a d = Inr ()"
    "s' = s \<and> d_state d \<in> {ACKNOWLEDGED, HANDLED}
      \<or> (\<exists>p f. receipt_write e f \<and> (\<forall>r. p r \<longrightarrow> addressed i (act_id a) r) \<and> p d
           \<and> deliveries s' = update_rows p f (deliveries s))" by blast
  from md(5) show ?thesis
  proof
    assume "s' = s \<and> d_state d \<in> {ACKNOWLEDGED, HANDLED}"
    with md show ?thesis by (auto simp: receipted_def)
  next
    assume "\<exists>p f. receipt_write e f \<and> (\<forall>r. p r \<longrightarrow> addressed i (act_id a) r) \<and> p d
        \<and> deliveries s' = update_rows p f (deliveries s)"
    then obtain p f where f: "receipt_write e f" "p d" "deliveries s' = update_rows p f (deliveries s)" by blast
    then have "get_delivery s' i (act_id a) = Some (f d)"
      using get_delivery_update [OF f(3), of i "act_id a"] md(2) by (simp add: receipt_write_def)
    moreover have "ack_attachment_ok e s' a (f d) = Inr ()"
    proof (rule ack_attachment_settled [OF md(3)])
      have "d_state (f d) \<in> {ACKNOWLEDGED, HANDLED}" using f(1) unfolding receipt_write_def by blast
      then show "d_state (f d) \<noteq> DISPATCHED" by auto
    qed (use f(1) in \<open>simp add: receipt_write_def\<close>)
    moreover have "worker_route_ok e s' a (f d) = Inr ()"
      using md(4) only_receipts_reads(5) [OF only] worker_route_same [of "f d" d] f(1) by (simp add: receipt_write_def)
    ultimately show ?thesis
      using md(1) only_receipts_reads(2) [OF only] f(1) by (simp add: receipted_def receipt_write_def)
  qed
qed

lemma acknowledge_one_keeps_receipts:
  assumes "acknowledge_one e a s i = Inr s'" and "receipted e a s j"
  shows "receipted e a s' j"
proof (cases "i = j")
  case True
  with acknowledge_one_receipts [OF assms(1)] show ?thesis by simp
next
  case False
  note only = acknowledge_one_only [OF assms(1)]
  from assms(2) obtain m x where x: "get_message s j = Some m" "get_delivery s j (act_id a) = Some x"
    "d_state x \<in> {ACKNOWLEDGED, HANDLED}" "ack_attachment_ok e s a x = Inr ()" "worker_route_ok e s a x = Inr ()"
    by (auto simp: receipted_def)
  have "d_message_id x = j" using x(2) by (auto simp: get_delivery_def dest: fetchone_SomeD)
  with False have other: "\<not> addressed i (act_id a) x" by (simp add: addressed_def)
  have "get_delivery s' j (act_id a) = Some x"
  proof (rule acknowledge_one_writes [OF assms(1)])
    fix d assume "s' = s \<and> d_state d \<in> {ACKNOWLEDGED, HANDLED}
      \<or> (\<exists>p f. receipt_write e f \<and> (\<forall>r. p r \<longrightarrow> addressed i (act_id a) r) \<and> p d
           \<and> deliveries s' = update_rows p f (deliveries s))"
    then show ?thesis
    proof
      assume "\<exists>p f. receipt_write e f \<and> (\<forall>r. p r \<longrightarrow> addressed i (act_id a) r) \<and> p d
           \<and> deliveries s' = update_rows p f (deliveries s)"
      then obtain p f where "receipt_write e f" "\<forall>r. p r \<longrightarrow> addressed i (act_id a) r"
        and rows: "deliveries s' = update_rows p f (deliveries s)" by blast
      with other x(2) show ?thesis
        using get_delivery_update [OF rows, of j "act_id a"] by (auto simp: receipt_write_def)
    qed (use x(2) in simp)
  qed
  moreover have "ack_attachment_ok e s' a x = Inr ()"
    using x(3) by (intro ack_attachment_settled [OF x(4)]) auto
  ultimately show ?thesis
    using x(1,3,5) only_receipts_reads(2,5) [OF only] by (simp add: receipted_def)
qed

abbreviation ack_step :: "env \<Rightarrow> actor \<Rightarrow> db \<times> ident list \<Rightarrow> ident \<Rightarrow> (db \<times> ident list) cp" where
  "ack_step e a \<equiv> \<lambda>(s, done_ids) i. bindE (acknowledge_one e a s i) (\<lambda>s'. Inr (s', done_ids @ [i]))"

lemma ack_fold:
  assumes "foldE (ack_step e a) (s, xs) ids = Inr (s', ys)"
  shows "only_receipts s s' \<and> ys = xs @ ids \<and> (\<forall>i\<in>set ids. receipted e a s' i)
    \<and> (\<forall>j. receipted e a s j \<longrightarrow> receipted e a s' j)"
  using assms
proof (induction ids arbitrary: s xs)
  case Nil
  then show ?case by simp
next
  case (Cons i ids)
  then obtain t where t: "acknowledge_one e a s i = Inr t" "foldE (ack_step e a) (t, xs @ [i]) ids = Inr (s', ys)"
    by (auto simp: bindE_Inr_iff)
  from Cons.IH [OF t(2)] acknowledge_one_receipts [OF t(1)] acknowledge_one_keeps_receipts [OF t(1)]
    only_receipts_trans [OF acknowledge_one_only [OF t(1)]]
  show ?case by auto
qed

lemma ack_fold_replay:
  "\<forall>i\<in>set ids. receipted e a s i \<Longrightarrow> foldE (ack_step e a) (s, xs) ids = Inr (s, xs @ ids)"
  by (induction ids arbitrary: xs) (auto simp: receipted_replay)

text \<open>Acknowledging is complete and idempotent. When it returns, it names every message once in the
  order given, the caller's delivery of each of them is acknowledged or handled, and sending the
  same acknowledgement again returns the same answer and changes nothing.
\<close>

theorem acknowledge_idempotent:
  assumes "acknowledge e a ids s = Inr (s', done_ids)"
  shows "done_ids = dict_fromkeys ids
    \<and> (\<forall>i\<in>set ids. \<exists>d. get_delivery s' i (act_id a) = Some d \<and> d_state d \<in> {ACKNOWLEDGED, HANDLED})
    \<and> acknowledge e a ids s' = Inr (s', done_ids)"
proof -
  let ?ids = "dict_fromkeys ids"
  from assms have canonical: "authority_mode s = Some ''canonical''"
    and fold: "foldE (ack_step e a) (s, []) ?ids = Inr (s', done_ids)"
    and gates: "(if cao_bearer a then require_role e s a [CAO] else Inr ()) = Inr ()"
      "(if act_role a = CAO \<and> cao_bearer a then require_current_cao_attachment_actor_tx e True s a else Inr ()) = Inr ()"
    by (auto simp: acknowledge_def bindE_Inr_iff transaction_Inr_iff)
  from ack_fold [OF fold] have only: "only_receipts s s'" and ids: "done_ids = ?ids"
    and all: "\<forall>i\<in>set ?ids. receipted e a s' i" by auto
  from ack_fold_replay [OF all] only_receipts_reads [OF only] canonical gates ids
  have "acknowledge e a ids s' = Inr (s', done_ids)" by (auto simp: acknowledge_def split: if_splits)
  with ids all show ?thesis by (auto simp: receipted_def)
qed

section \<open>Resolving\<close>

lemma resolve_row_keys [simp]: "delivery_key (resolve_row e outcome current evidence r) = delivery_key r"
  by (simp add: resolve_row_def delivery_key_def)

text \<open>An Assignment that may be sent again is the latest attempt of active work in the recipient's hands.\<close>

lemma current_assignment:
  assumes "assignment_is_current e s m work d" and "m_kind m = ASSIGNMENT"
  obtains w :: work_row and x :: attempt_row where "work = Some w" "w_state w = W_ACTIVE" "w_attention_owner w = AO_WORKER"
    "m_attempt_id m = Some (a_id x)" "map_option a_id (latest_attempt s (a_work_item_id x)) = Some (a_id x)"
    "a_worker_id x = d_recipient_id d" "a_state x \<in> {A_ASSIGNED, A_ACCEPTED, A_WORKING}"
    "service_digest (env_sha e) (m_payload m) = m_payload_digest m"
proof -
  from assms obtain w :: work_row and x :: attempt_row where x: "work = Some w" "current_attempt_of s m = Some x"
    by (auto simp: assignment_is_current_def split: option.splits)
  from x(2) have "m_attempt_id m = Some (a_id x)" "map_option a_id (latest_attempt s (a_work_item_id x)) = Some (a_id x)"
    by (auto simp: current_attempt_of_def sql_eq_iff dest!: fetchone_SomeD)
  with assms x show thesis by (intro that [of w x]) (auto simp: assignment_is_current_def)
qed

text \<open>A resolution requeues only what was reported not delivered and is still wanted. It applies to a
  dispatched delivery alone, clears its owner and lease, and leaves every other delivery as it was.
  The delivery is queued again, in the next generation, only for the outcome \<open>not_delivered\<close>; an
  Assignment only while its attempt is the latest one of active work that its recipient still holds
  and its payload still has the digest it was sent with.
\<close>

theorem resolution_requeues_current:
  assumes "resolve_delivery e a i p outcome evidence s = Inr (s', row)"
  shows "\<exists>d m. get_delivery s i p = Some d \<and> get_message s i = Some m \<and> d_state d = DISPATCHED
    \<and> get_delivery s' i p = Some row \<and> d_owner_token row = '''' \<and> d_lease_until row = None
    \<and> (\<forall>r\<in>set (deliveries s). delivery_key r \<noteq> (i, p) \<longrightarrow> r \<in> set (deliveries s'))
    \<and> d_generation row = d_generation d + (if d_state row = QUEUED then 1 else 0)
    \<and> (d_state row = QUEUED \<longrightarrow> outcome = OUTCOME_NOT_DELIVERED)
    \<and> (d_state row = QUEUED \<and> m_kind m = ASSIGNMENT \<longrightarrow>
         (\<exists>w (x :: attempt_row). get_work s (str_or_empty (m_work_item_id m)) = Some w \<and> w_state w = W_ACTIVE \<and> w_attention_owner w = AO_WORKER
            \<and> m_attempt_id m = Some (a_id x) \<and> map_option a_id (latest_attempt s (a_work_item_id x)) = Some (a_id x)
            \<and> a_worker_id x = p \<and> a_state x \<in> {A_ASSIGNED, A_ACCEPTED, A_WORKING}
            \<and> service_digest (env_sha e) (m_payload m) = m_payload_digest m))"
proof -
  from assms have tx: "resolve_delivery_tx e a i p outcome evidence s = Inr (s', row)"
    by (auto simp: resolve_delivery_def bindE_Inr_iff transaction_Inr_iff)
  then obtain m work d where m: "get_message s i = Some m" "message_work s a m = Inr work" "get_delivery s i p = Some d"
    by (auto simp: resolve_delivery_tx_def bindE_Inr_iff split: option.splits)
  let ?c = "assignment_is_current e s m work d"
  from tx m have state: "d_state d = DISPATCHED" and fetched: "get_delivery s' i p = Some row"
    and rows: "deliveries s' = update_rows (resolve_fence i p) (resolve_row e outcome ?c evidence) (deliveries s)"
    by (auto simp: resolve_delivery_tx_def Let_def split: option.splits if_splits)
  have d: "addressed i p d" using m(3) by (auto simp: get_delivery_def addressed_def dest: fetchone_SomeD)
  have row: "row = resolve_row e outcome ?c evidence d"
    using get_delivery_update [OF rows, of i p] m(3) fetched d state by (simp add: resolve_fence_def)
  have others: "\<forall>r\<in>set (deliveries s). delivery_key r \<noteq> (i, p) \<longrightarrow> r \<in> set (deliveries s')"
    unfolding rows set_update_rows by (force simp: resolve_fence_def addressed_def delivery_key_def)
  have queued: "outcome = OUTCOME_NOT_DELIVERED \<and> ?c" if "d_state row = QUEUED"
    using that row by (cases outcome) (simp_all add: resolve_row_def resolve_state_def split: if_splits)
  have assignment: "\<exists>w (x :: attempt_row). get_work s (str_or_empty (m_work_item_id m)) = Some w \<and> w_state w = W_ACTIVE \<and> w_attention_owner w = AO_WORKER
      \<and> m_attempt_id m = Some (a_id x) \<and> map_option a_id (latest_attempt s (a_work_item_id x)) = Some (a_id x)
      \<and> a_worker_id x = p \<and> a_state x \<in> {A_ASSIGNED, A_ACCEPTED, A_WORKING}
      \<and> service_digest (env_sha e) (m_payload m) = m_payload_digest m"
    if q: "d_state row = QUEUED" "m_kind m = ASSIGNMENT"
  proof (rule current_assignment [OF conjunct2 [OF queued [OF q(1)]] q(2)])
    fix w :: work_row and x :: attempt_row
    assume w: "work = Some w" "w_state w = W_ACTIVE" "w_attention_owner w = AO_WORKER"
      and x: "m_attempt_id m = Some (a_id x)" "map_option a_id (latest_attempt s (a_work_item_id x)) = Some (a_id x)"
        "a_worker_id x = d_recipient_id d" "a_state x \<in> {A_ASSIGNED, A_ACCEPTED, A_WORKING}"
        "service_digest (env_sha e) (m_payload m) = m_payload_digest m"
    from m(2) w(1) have "get_work s (str_or_empty (m_work_item_id m)) = Some w"
      by (auto simp: message_work_def bindE_Inr_iff split: option.splits)
    with w x d show ?thesis by (intro exI [of _ w] exI [of _ x] conjI) (simp_all add: addressed_def)
  qed
  have "d_owner_token row = ''''" "d_lease_until row = None"
    "d_generation row = d_generation d + (if d_state row = QUEUED then 1 else 0)"
    by (simp_all add: row) (simp_all add: resolve_row_def)
  moreover have "d_state row = QUEUED \<longrightarrow> outcome = OUTCOME_NOT_DELIVERED" using queued by blast
  moreover note impI [OF assignment [OF conjunct1 conjunct2]]
  ultimately show ?thesis
    by (intro exI [of _ d] exI [of _ m] conjI m state fetched others) assumption+
qed

section \<open>Handling\<close>

definition boundary_decided :: "db \<Rightarrow> ident \<Rightarrow> bool" where
  "boundary_decided s b = (list_ex (\<lambda>x. bd_boundary_id x = b) (dispositions s)
     \<or> list_ex (\<lambda>x. bs_boundary_id x = b) (supersessions s))"

lemma boundary_resolved_decided:
  assumes "boundary_resolved e s a m d"
  shows "\<exists>b. u b = py_str e (payload_boundary m) \<and> boundary_decided s b"
proof (cases "act_role a = CAO \<and> act_attachment_id a \<noteq> ''''")
  case True
  with assms obtain b where b: "u (b_id b) = py_str e (payload_boundary m)" "notified_work s a m b \<noteq> None"
    by (auto simp: boundary_resolved_def resolved_cao_boundary_notification_tx_def
        dest!: fetchone_SomeD split: if_splits option.splits)
  from b(2) have "boundary_decided s (b_id b)"
    by (auto simp: notified_work_def boundary_decided_def boundary_disposition_def boundary_supersession_def list_ex_iff
        dest!: fetchone_SomeD split: if_splits option.splits)
  with b(1) show ?thesis by blast
next
  case False
  then have "(if act_role a = CAO \<and> act_attachment_id a \<noteq> '''' then X else Y) = Y" for X Y :: bool by auto
  with assms show ?thesis
    by (auto simp: boundary_resolved_def boundary_decided_def list_ex_iff)
qed

text \<open>C27: A message is handled only after it was acknowledged and its boundary decided. Handling returns
  the caller's delivery in the state handled; the delivery had been acknowledged (or handled before,
  and then nothing changes), and when the message announces a boundary, that boundary has a
  disposition or was superseded.
\<close>

theorem handled_after_decision:
  assumes "mark_message_handled e a i evidence expected s = Inr (s', row)"
  shows "d_state row = HANDLED \<and> (\<exists>d m. get_delivery s i (act_id a) = Some d \<and> get_message s i = Some m
    \<and> d_state d \<in> {ACKNOWLEDGED, HANDLED} \<and> d_generation row = d_generation d
    \<and> (d_state d = HANDLED \<longrightarrow> s' = s \<and> row = d)
    \<and> (d_state d = ACKNOWLEDGED \<and> payload_boundary m \<noteq> None \<longrightarrow>
         (\<exists>b. u b = py_str e (payload_boundary m) \<and> boundary_decided s b)))"
proof -
  from assms have tx: "mark_message_handled_tx e a i evidence expected s = Inr (s', row)"
    by (auto simp: mark_message_handled_def bindE_Inr_iff transaction_Inr_iff split: if_splits)
  then obtain d m where dm: "get_delivery s i (act_id a) = Some d" "get_message s i = Some m"
    and step: "d_state d = HANDLED \<and> s' = s \<and> row = d
      \<or> d_state d = ACKNOWLEDGED \<and> (\<exists>s1. handling_admitted e a m d expected s = Inr s1
           \<and> deliveries s' = update_rows (addressed i (act_id a)) (handled_row e) (deliveries s1)
           \<and> get_delivery s' i (act_id a) = Some row)"
    by (auto simp: mark_message_handled_tx_def bindE_Inr_iff Let_def split: option.splits if_splits)
  from step show ?thesis
  proof
    assume "d_state d = HANDLED \<and> s' = s \<and> row = d"
    with dm show ?thesis by simp
  next
    assume "d_state d = ACKNOWLEDGED \<and> (\<exists>s1. handling_admitted e a m d expected s = Inr s1
        \<and> deliveries s' = update_rows (addressed i (act_id a)) (handled_row e) (deliveries s1)
        \<and> get_delivery s' i (act_id a) = Some row)"
    then obtain s1 where ack: "d_state d = ACKNOWLEDGED" and adm: "handling_admitted e a m d expected s = Inr s1"
      and rows: "deliveries s' = update_rows (addressed i (act_id a)) (handled_row e) (deliveries s)"
      and fetched: "get_delivery s' i (act_id a) = Some row"
      using handling_admitted_deliveries by fastforce
    have "addressed i (act_id a) d" using dm(1) by (auto simp: get_delivery_def addressed_def dest: fetchone_SomeD)
    then have "row = handled_row e d"
      using get_delivery_update [OF rows, of i "act_id a"] dm(1) fetched by (simp add: handled_row_def delivery_key_def)
    moreover have "payload_boundary m \<noteq> None \<longrightarrow> boundary_resolved e s a m d"
      using adm by (auto simp: handling_admitted_def split: if_splits)
    ultimately show ?thesis
      using dm ack boundary_resolved_decided by (fastforce simp: handled_row_def)
  qed
qed

section \<open>Concrete runs\<close>

lemma sample_ack:
  "\<exists>s'. acknowledge sample_env (bare_actor ''w'' USER) [''m''] (sample_db (sample_delivery QUEUED None ''''))
     = Inr (s', [''m''])"
  by (simp add: acknowledge_def acknowledge_one_def acknowledge_open_def sample_defs bare_actor_def cao_bearer_def
      get_message_def get_delivery_def ack_attachment_ok_def worker_route_ok_def require_delivery_head_tx_def
      runtime_delivery_lane_head_def work_paused_def lane_prior_def ack_attempt_def ack_open_def addressed_def
      transaction_def)

lemma acknowledge_idempotent_witness:
  "\<exists>s' d. get_delivery s' ''m'' ''w'' = Some d \<and> d_state d \<in> {ACKNOWLEDGED, HANDLED}
     \<and> acknowledge sample_env (bare_actor ''w'' USER) [''m''] s' = Inr (s', [''m''])"
proof -
  from sample_ack obtain s' where s': "acknowledge sample_env (bare_actor ''w'' USER) [''m'']
      (sample_db (sample_delivery QUEUED None '''')) = Inr (s', [''m''])" by blast
  from acknowledge_idempotent [OF s'] show ?thesis by (auto simp: bare_actor_def)
qed

lemma resolution_requeues_current_witness:
  "\<exists>s' row. resolve_delivery sample_env (bare_actor ''c'' CAO) ''m'' ''w'' OUTCOME_NOT_DELIVERED [1]
      (sample_db (sample_delivery DISPATCHED None '''')) = Inr (s', row) \<and> d_owner_token row = ''''
      \<and> d_generation row = 1 + (if d_state row = QUEUED then 1 else 0)"
proof -
  have "\<exists>s' row. resolve_delivery sample_env (bare_actor ''c'' CAO) ''m'' ''w'' OUTCOME_NOT_DELIVERED [1]
      (sample_db (sample_delivery DISPATCHED None '''')) = Inr (s', row)"
    by (simp add: resolve_delivery_def resolve_delivery_tx_def require_role_def bare_actor_def sample_defs
        get_message_def get_delivery_def message_work_def resolve_fence_def addressed_def resolve_row_def transaction_def Let_def)
  then obtain s' row where r: "resolve_delivery sample_env (bare_actor ''c'' CAO) ''m'' ''w'' OUTCOME_NOT_DELIVERED [1]
      (sample_db (sample_delivery DISPATCHED None '''')) = Inr (s', row)" by blast
  from resolution_requeues_current [OF r] r show ?thesis
    by (auto simp: get_delivery_def sample_db_def sample_delivery_def)
qed

lemma handled_after_decision_witness:
  "\<exists>s' row. mark_message_handled sample_env (bare_actor ''w'' USER) ''m'' [1] None
      (sample_db ((sample_delivery ACKNOWLEDGED None '''')\<lparr>d_acknowledged_at := Some 60\<rparr>)) = Inr (s', row)
      \<and> d_state row = HANDLED"
proof -
  have "\<exists>s' row. mark_message_handled sample_env (bare_actor ''w'' USER) ''m'' [1] None
      (sample_db ((sample_delivery ACKNOWLEDGED None '''')\<lparr>d_acknowledged_at := Some 60\<rparr>)) = Inr (s', row)"
    by (simp add: mark_message_handled_def mark_message_handled_tx_def sample_defs bare_actor_def cao_bearer_def
        get_message_def get_delivery_def worker_route_ok_def require_delivery_head_tx_def
        runtime_delivery_lane_head_def work_paused_def lane_prior_def handling_admitted_def payload_boundary_def
        addressed_def handled_row_def transaction_def py_strip_def py_space_def)
  then obtain s' row where r: "mark_message_handled sample_env (bare_actor ''w'' USER) ''m'' [1] None
      (sample_db ((sample_delivery ACKNOWLEDGED None '''')\<lparr>d_acknowledged_at := Some 60\<rparr>)) = Inr (s', row)" by blast
  from handled_after_decision [OF r] r show ?thesis by auto
qed

text \<open>Runs of the system from one delivery.\<close>

lemma sample_keys: "delivery_keys_distinct (sample_db d)"
  by (simp add: delivery_keys_distinct_def sample_db_def)


lemma reactivation_run:
  "(delivery_step cfg tx)\<^sup>*\<^sup>* s (fst (reactivate_deliveries_tx e p runtime s))"
  by (intro r_into_rtranclp reactivation)

definition sample_handled :: delivery_row where
  "sample_handled = (sample_delivery HANDLED None '''')\<lparr>d_handled_at := Some 60\<rparr>"



end
