(* ===== verification/Message_Safety.thy ===== *)
theory Message_Safety
  imports Messages Delivery_System
begin

text \<open>
  What message creation promises: one fresh delivery per recipient on the route its role allows,
  packets bound to the durable ones, and exactly-once creation per idempotency key.
\<close>

section \<open>The fan-out\<close>

definition routed :: "env \<Rightarrow> packet_binding \<Rightarrow> ident \<Rightarrow> db \<Rightarrow> ident \<Rightarrow> delivery_row \<Rightarrow> bool" where
  "routed e b i s p d = (\<exists>x r. fetchone (\<lambda>x. p_id x = p \<and> p_enabled x) (principals s) = Some x
     \<and> d = new_delivery e i p (if p_role x = CAO then pk_supervisor_attachment b else None) r
     \<and> (\<forall>y. Some p = pk_attempt_worker b \<and> pk_attempt_runtime b = Some y \<longrightarrow> r = Some y))"

lemma new_delivery_fields [simp]:
  "d_message_id (new_delivery e i p t r) = i" "d_recipient_id (new_delivery e i p t r) = p"
  "d_recipient_attachment_id (new_delivery e i p t r) = t"
  by (simp_all add: new_delivery_def)

lemma choose_runtime_pinned: "choose_runtime e s q role p (Some i) = Inr r \<Longrightarrow> r = Some i"
  by (auto simp: choose_runtime_def pinned_runtime_def split: option.splits dest!: fetchone_SomeD)

lemma route_delivery_routes:
  assumes "route_delivery e q b i s p = Inr s'" and "mq_create_delivery q"
  shows "\<exists>d. s' = s\<lparr>deliveries := deliveries s @ [d]\<rparr> \<and> routed e b i s p d"
proof -
  from assms obtain x r where x: "fetchone (\<lambda>x. p_id x = p \<and> p_enabled x) (principals s) = Some x"
    and r: "choose_runtime e s q (p_role x) p
        (if Some p = pk_attempt_worker b then pk_attempt_runtime b else mq_runtime_session_id q) = Inr r"
    and ins: "insert_delivery (new_delivery e i p (if p_role x = CAO then pk_supervisor_attachment b else None) r) s = Inr s'"
    by (auto simp: route_delivery_def bindE_Inr_iff split: option.splits if_splits)
  from r have "\<forall>y. Some p = pk_attempt_worker b \<and> pk_attempt_runtime b = Some y \<longrightarrow> r = Some y"
    by (auto dest: choose_runtime_pinned)
  with x have "routed e b i s p (new_delivery e i p (if p_role x = CAO then pk_supervisor_attachment b else None) r)"
    unfolding routed_def by blast
  moreover have "s' = s\<lparr>deliveries := deliveries s @ [new_delivery e i p (if p_role x = CAO then pk_supervisor_attachment b else None) r]\<rparr>"
    using ins by (auto simp: insert_delivery_def split: if_splits)
  ultimately show ?thesis by blast
qed

lemma routes_fan_out:
  assumes "foldE (route_delivery e q b i) s ps = Inr s'" and "mq_create_delivery q"
  shows "\<exists>news. s' = s\<lparr>deliveries := deliveries s @ news\<rparr> \<and> list_all2 (routed e b i s) ps news"
  using assms(1)
proof (induction ps arbitrary: s)
  case Nil
  then show ?case by simp
next
  case (Cons p ps)
  then obtain t where t: "route_delivery e q b i s p = Inr t" "foldE (route_delivery e q b i) t ps = Inr s'"
    by (auto simp: bindE_Inr_iff)
  from route_delivery_routes [OF t(1) assms(2)] obtain d
    where d: "t = s\<lparr>deliveries := deliveries s @ [d]\<rparr>" "routed e b i s p d" by blast
  from Cons.IH [OF t(2)] obtain news
    where news: "s' = t\<lparr>deliveries := deliveries t @ news\<rparr>" "list_all2 (routed e b i t) ps news" by blast
  have "routed e b i t = routed e b i s" by (intro ext) (simp add: routed_def d(1))
  with d news show ?case by (intro exI [of _ "d # news"]) simp
qed

lemma routes_silent:
  "foldE (route_delivery e q b i) s ps = Inr s' \<Longrightarrow> \<not> mq_create_delivery q \<Longrightarrow> s' = s"
  by (induction ps arbitrary: s)
    (auto simp: route_delivery_def bindE_Inr_iff split: option.splits if_splits)

section \<open>What creating a message writes\<close>

definition only_messages :: "db \<Rightarrow> db \<Rightarrow> bool" where
  "only_messages s s' = (\<exists>ms n ds evs k ps. s' = s\<lparr>messages := ms, message_sequence := n, deliveries := ds,
     events := evs, event_sequence := k, push_deliveries := ps\<rparr>)"

lemma log_event_update: "log_event e x s = s\<lparr>events := events (log_event e x s),
    event_sequence := event_sequence (log_event e x s), push_deliveries := push_deliveries (log_event e x s)\<rparr>"
  by (simp add: log_event_def record_event_def Let_def)

lemma created:
  assumes "create_message e q b payload s = Inr (s', m, ds)"
  obtains news where "m = new_message e q b payload (message_sequence s + 1)" "only_messages s s'"
    "messages s' = messages s @ [m]" "deliveries s' = deliveries s @ news"
    "mq_create_delivery q \<Longrightarrow> list_all2 (routed e b (m_id m) s) (request_recipients q) news"
    "\<not> mq_create_delivery q \<Longrightarrow> news = []"
    "message_bundle s' (m_id m) = Inr (m, ds)" "\<forall>x\<in>set (messages s). m_id x \<noteq> m_id m"
proof -
  let ?m = "new_message e q b payload (message_sequence s + 1)"
  from assms obtain s1 s2 s3 where s1: "insert_message ?m s = Inr s1"
    and s2: "foldE (route_delivery e q b (m_id ?m)) s1 (request_recipients q) = Inr s2"
    and s3: "\<exists>x. s3 = log_event e x s2" and bndl: "message_bundle s3 (m_id ?m) = Inr (m, ds)" and out: "s' = s3"
    by (auto simp: create_message_def Let_def bindE_Inr_iff)
  from s1 have t1: "s1 = s\<lparr>messages := messages s @ [?m], message_sequence := m_sequence ?m\<rparr>"
    and fresh: "\<forall>x\<in>set (messages s). m_id x \<noteq> m_id ?m"
    by (auto simp: insert_message_def list_ex_iff split: if_splits)
  obtain news where news: "s2 = s1\<lparr>deliveries := deliveries s1 @ news\<rparr>"
    "mq_create_delivery q \<Longrightarrow> list_all2 (routed e b (m_id ?m) s1) (request_recipients q) news"
    "\<not> mq_create_delivery q \<Longrightarrow> news = []"
  proof (cases "mq_create_delivery q")
    case True
    with routes_fan_out [OF s2] that show thesis by blast
  next
    case False
    with routes_silent [OF s2] have "s2 = s1\<lparr>deliveries := deliveries s1 @ []\<rparr>" by simp
    with that False show thesis by blast
  qed
  have same: "routed e b (m_id ?m) s1 = routed e b (m_id ?m) s" by (intro ext) (simp add: routed_def t1)
  from s3 obtain x where x: "s3 = log_event e x s2" by blast
  have msgs: "messages s' = messages s @ [?m]" and dels: "deliveries s' = deliveries s @ news"
    by (simp_all add: out x news(1) t1)
  have "get_message s' (m_id ?m) = Some ?m"
    using fresh fetchone_None_iff [of "\<lambda>x. m_id x = m_id ?m" "messages s"]
    by (simp add: get_message_def msgs fetchone_append)
  then have m: "m = ?m" using bndl out by (simp add: message_bundle_def)
  have "only_messages s s'"
    unfolding only_messages_def out x by (subst log_event_update) (simp add: news(1) t1, blast)
  with m msgs dels news(2,3) same bndl out fresh show thesis by (intro that [of news]) simp_all
qed

section \<open>The promises\<close>

lemma bound_goal:
  assumes "bind_packets s q = Inr b" and "given (mq_work_item_id q)"
  obtains g :: goal_revision_row and w :: work_row and version where "mq_goal_version q = Some version"
    "g \<in> set (goal_revisions s)" "gr_work_item_id g = str_or_empty (mq_work_item_id q)" "gr_version g = version"
    "pk_goal_digest b = gr_packet_digest g" "gr_packet_digest g \<noteq> ''''"
    "get_work s (str_or_empty (mq_work_item_id q)) = Some w"
    "pk_supervisor_attachment b = w_supervisor_attachment_id w"
proof -
  from assms obtain version g w where 1: "mq_goal_version q = Some version"
    "fetchone (\<lambda>g. gr_work_item_id g = str_or_empty (mq_work_item_id q) \<and> gr_version g = version) (goal_revisions s) = Some g"
    "gr_packet_digest g \<noteq> ''''" "get_work s (str_or_empty (mq_work_item_id q)) = Some w"
    "bind_attempt s (str_or_empty (mq_work_item_id q)) (mq_attempt_id q) version
       \<lparr>pk_goal_digest = gr_packet_digest g, pk_task_digest = '''', pk_attempt_runtime = None,
        pk_attempt_worker = None, pk_supervisor = coalesce (w_supervisor_id w) (Some (w_created_by w)),
        pk_supervisor_attachment = w_supervisor_attachment_id w,
        pk_managed_thread = str_or_empty (w_managed_worker_thread_id w)\<rparr> = Inr b"
    by (auto simp: bind_packets_def Let_def split: option.splits if_splits)
  from 1(5) have "pk_goal_digest b = gr_packet_digest g" "pk_supervisor_attachment b = w_supervisor_attachment_id w"
    by (auto simp: bind_attempt_def split: option.splits if_splits)
  with 1(1-4) show thesis by (intro that) (auto dest: fetchone_SomeD)
qed

lemma message_creates:
  assumes "message_tx e q s = Inr (s', m, ds)" and "existing_message s q = None"
  obtains b payload where "bind_packets s q = Inr b" "create_message e q b payload s = Inr (s', m, ds)"
  using assms by (auto simp: message_tx_def bindE_Inr_iff split: if_splits)


section \<open>Exactly once\<close>

lemma only_messages_reads:
  assumes "only_messages s s'"
  shows "bind_packets s' q = bind_packets s q" "worker_purpose_tx e s' i = worker_purpose_tx e s i"
proof -
  from assms obtain ms n ds evs k ps where s': "s' = s\<lparr>messages := ms, message_sequence := n, deliveries := ds,
     events := evs, event_sequence := k, push_deliveries := ps\<rparr>" by (auto simp: only_messages_def)
  have tables: "attempts s' = attempts s" "goal_revisions s' = goal_revisions s" "works s' = works s"
    "purpose_revisions s' = purpose_revisions s" by (simp_all add: s')
  show "bind_packets s' q = bind_packets s q"
    unfolding bind_packets_def bind_attempt_def get_work_def tables ..
  show "worker_purpose_tx e s' i = worker_purpose_tx e s i"
    unfolding worker_purpose_tx_def current_revision_def tables ..
qed

lemma same_hash:
  assumes "env_sha e' = env_sha e"
  shows "worker_purpose_tx e' s i = worker_purpose_tx e s i" "request_digest e' q b payload = request_digest e q b payload"
  unfolding worker_purpose_tx_def purpose_row_view_def request_digest_def assms by (rule refl)+

text \<open>A message is created exactly once per idempotency key. After a call with a key has returned a
  message, repeating the request, at any later time, returns the same message with its deliveries and
  changes nothing.
\<close>

theorem message_created_once:
  assumes "message_tx e q s = Inr (s', m, ds)" and "mq_idempotency_key q \<noteq> ''''" and "env_sha e' = env_sha e"
  shows "message_tx e' q s' = Inr (s', m, ds)"
proof -
  note sha = same_hash [OF assms(3)]
  from assms(1) obtain b payload0 payload where calc: "bind_packets s q = Inr b" "bound_payload q b = Inr payload0"
    "purposed_payload e s q b payload0 = Inr payload" and gates: "request_recipients q \<noteq> []"
    "\<not> (\<not> mq_create_delivery q \<and> mq_kind q \<notin> {ARTIFACT, PROGRESS})"
    by (auto simp: message_tx_def bindE_Inr_iff split: if_splits)
  show ?thesis
  proof (cases "existing_message s q")
    case (Some x)
    have "purposed_payload e' s q b payload0 = Inr payload"
      using calc(3) unfolding purposed_payload_def sha .
    with assms(1) calc gates Some show ?thesis
      by (auto simp: message_tx_def bindE_Inr_iff sha split: if_splits)
  next
    case None
    with assms(1) calc gates have c: "create_message e q b payload s = Inr (s', m, ds)"
      by (auto simp: message_tx_def split: if_splits)
    show ?thesis
    proof (rule created [OF c])
      assume m: "m = new_message e q b payload (message_sequence s + 1)" and only: "only_messages s s'"
        and msgs: "messages s' = messages s @ [m]" and bndl: "message_bundle s' (m_id m) = Inr (m, ds)"
      note same = only_messages_reads [OF only]
      have "purposed_payload e' s' q b payload0 = Inr payload"
        using calc(3) unfolding purposed_payload_def sha same .
      moreover have "existing_message s' q = Some m"
        using None assms(2) by (simp add: existing_message_def msgs fetchone_append m new_message_def Let_def)
      moreover have "m_message_digest m = request_digest e' q b payload"
        by (simp add: m new_message_def Let_def sha)
      ultimately show ?thesis using calc gates bndl by (simp add: message_tx_def same)
    qed
  qed
qed

section \<open>Concrete messages\<close>

definition sample_request :: message_request where
  "sample_request = \<lparr>mq_sender_id = ''c'', mq_recipient_id = None, mq_recipient_ids = [''w'', ''w''], mq_kind = INSTRUCTION,
     mq_payload = [], mq_work_item_id = None, mq_attempt_id = None, mq_correlation_id = '''', mq_causation_id = '''',
     mq_idempotency_key = ''k'', mq_goal_version = None, mq_runtime_session_id = None, mq_create_delivery = True\<rparr>"

definition sample_principals_db :: db where
  "sample_principals_db = empty_db\<lparr>principals :=
     [\<lparr>p_id = ''w'', p_role = USER, p_enabled = True, p_operator_scope = ''production''\<rparr>,
      \<lparr>p_id = ''c'', p_role = CAO, p_enabled = True, p_operator_scope = ''production''\<rparr>]\<rparr>"

lemma sample_created:
  "\<exists>s' m ds. message_tx sample_env sample_request sample_principals_db = Inr (s', m, ds)"
  by (simp add: message_tx_def sample_request_def sample_principals_db_def sample_env_def fixed_env_def empty_db_def
      request_recipients_def bind_packets_def unbound_def given_def bound_payload_def purposed_payload_def existing_message_def
      create_message_def Let_def new_message_def insert_message_def dangling_def route_delivery_def choose_runtime_def
      latest_runtime_def insert_delivery_def attachment_exact_def new_delivery_def message_bundle_def get_message_def)


lemma message_created_once_witness:
  "\<exists>s' m ds. message_tx sample_env sample_request sample_principals_db = Inr (s', m, ds)
     \<and> message_tx (fixed_env 200) sample_request s' = Inr (s', m, ds)"
proof -
  from sample_created obtain s' m ds where c: "message_tx sample_env sample_request sample_principals_db = Inr (s', m, ds)"
    by blast
  from message_created_once [OF c, of "fixed_env 200"] c show ?thesis
    by (auto simp: sample_request_def sample_env_def fixed_env_def)
qed

end
