(* ===== verification/Supervision_Safety.thy ===== *)
theory Supervision_Safety
  imports Message_Safety Delivery_System
begin

text \<open>
  What supervision promises: every operation is a run of guarded statements of the ledger, a
  pause leaves nothing of the Work running and can be read back, an escalation hands the Work to
  its requester, and recovery of a decision that does not come ends after one repeated wake.
\<close>

section \<open>Frames\<close>

definition sup_frame :: "db \<Rightarrow> db \<Rightarrow> bool" where
  "sup_frame s s' = (works s' = works s \<and> pauses s' = pauses s \<and> resumptions s' = resumptions s
     \<and> continuations s' = continuations s \<and> reviews s' = reviews s \<and> requester_decisions s' = requester_decisions s)"

lemma sup_frame_refl [simp]: "sup_frame s s"
  by (simp add: sup_frame_def)

lemma sup_frame_trans: "sup_frame s s' \<Longrightarrow> sup_frame s' s'' \<Longrightarrow> sup_frame s s''"
  by (simp add: sup_frame_def)

lemma sup_frame_log [simp]: "sup_frame s (log_event e x t) = sup_frame s t"
  by (simp add: sup_frame_def)

lemma only_messages_refl: "only_messages s s"
  unfolding only_messages_def by (intro exI [of _ "messages s"] exI [of _ "message_sequence s"] exI [of _ "deliveries s"]
    exI [of _ "events s"] exI [of _ "event_sequence s"] exI [of _ "push_deliveries s"]) simp

lemma message_only: "message_tx e q s = Inr (s', r) \<Longrightarrow> only_messages s s'"
proof -
  assume "message_tx e q s = Inr (s', r)"
  then obtain b payload where "s' = s \<or> create_message e q b payload s = Inr (s', fst r, snd r)"
    by (auto simp: message_tx_def bindE_Inr_iff split: option.splits if_splits)
  then show ?thesis
    by (elim disjE) (simp only: only_messages_refl, erule created)
qed

lemma only_messages_tables:
  assumes "only_messages s s'"
  shows "works s' = works s" "pauses s' = pauses s" "resumptions s' = resumptions s" "continuations s' = continuations s"
    "boundaries s' = boundaries s" "dispositions s' = dispositions s" "supersessions s' = supersessions s"
    "reasoner_turns s' = reasoner_turns s" "attempts s' = attempts s" "attachments s' = attachments s"
    "principals s' = principals s" "runtimes s' = runtimes s" "reviews s' = reviews s"
    "requester_decisions s' = requester_decisions s"
  using assms by (auto simp: only_messages_def)

lemma sets_only_guarded: "sets_only cols f \<Longrightarrow> sets_only cols (\<lambda>x. if p x then f x else x)"
  by (auto simp: sets_only_def)

text \<open>An update only matters on the rows its \<open>WHERE\<close> clause selects.\<close>

lemma update_works_guard: "update_works cols p f s = update_works cols p (\<lambda>x. if p x then f x else x) s"
  by (simp add: update_works_def update_rows_def list_all_iff)

lemma sup_frame_message: "message_tx e q s = Inr (s', r) \<Longrightarrow> sup_frame s s'"
  by (simp add: sup_frame_def only_messages_tables [OF message_only])

lemma fold_frame: "(\<And>x s. x \<in> set xs \<Longrightarrow> sup_frame s (f x s)) \<Longrightarrow> sup_frame s (fold f xs s)"
  by (induction xs arbitrary: s) (auto intro: sup_frame_trans)

lemma sup_frame_deliveries [simp]: "sup_frame s (t\<lparr>deliveries := x\<rparr>) = sup_frame s t"
  and sup_frame_turns [simp]: "sup_frame s (t\<lparr>reasoner_turns := y\<rparr>) = sup_frame s t"
  and sup_frame_attempts [simp]: "sup_frame s (t\<lparr>attempts := z\<rparr>) = sup_frame s t"
  by (simp_all add: sup_frame_def)

lemma sup_frame_handle: "sup_frame s (handle_boundary_deliveries_tx e b p evidence s)"
  unfolding handle_boundary_deliveries_tx_def by (rule fold_frame) (simp split: prod.split)

lemma sup_frame_supersede: "sup_frame s (supersede_boundary_deliveries_tx e b p reason s)"
  unfolding supersede_boundary_deliveries_tx_def
  by (rule sup_frame_trans [OF _ fold_frame]) (simp_all split: prod.split)

lemma sup_frame_insert:
  "insert_turn t s = Inr s' \<Longrightarrow> sup_frame s s'"
  "insert_disposition d s = Inr s' \<Longrightarrow> sup_frame s s'"
  by (auto simp: insert_turn_def insert_disposition_def sup_frame_def split: if_splits)

section \<open>Operations are runs of ledger statements\<close>

lemma user_needed_sets_only: "sets_only [COL_STATE, COL_ATTENTION, COL_USER_NEEDED] (user_needed_work e b)"
  by (simp add: sets_only_def user_needed_work_def)

lemma paused_sets_only: "sets_only [COL_STATE, COL_ATTENTION, COL_GENERATION, COL_PAUSED] (paused_work e b)"
  by (simp add: sets_only_def paused_work_def)

lemma escalate_stages:
  assumes "escalate_supervision_tx e b w code reason turn digest s = Inr (s', d)"
  obtains supervisor d_id t_id dig s2 s4 s6 q r x where "w_supervisor_id w = Some supervisor"
    "d = escalation_disposition e d_id t_id supervisor b reason dig" "sup_frame s s2"
    "boundaries s2 = boundaries s" "dispositions s2 = dispositions s @ [d]"
    "update_works [COL_STATE, COL_ATTENTION, COL_USER_NEEDED] (\<lambda>x. w_id x = w_id w) (user_needed_work e (b_id b))
       (s2\<lparr>attempts := update_rows (\<lambda>a. a_id a = b_attempt_id b) (input_required_attempt e) (attempts s2)\<rparr>) = Inr s4"
    "message_tx e q (supersede_boundary_deliveries_tx e (b_id b) supervisor (''system-escalation:'' @ d_id) s4) = Inr (s6, r)"
    "q = system_request supervisor supervisor (upayload (escalation_payload (b_id b) d_id reason code)) (w_id w)
       (b_attempt_id b) (b_goal_version b) (''requester-escalation:'' @ b_id b)"
    "s' = log_event e x s6" "attempts s2 = attempts s" "messages s2 = messages s" "deliveries s2 = deliveries s"
    "\<forall>x\<in>set (dispositions s). bd_boundary_id x \<noteq> b_id b"
proof -
  from assms obtain supervisor where sup: "w_supervisor_id w = Some supervisor"
    by (auto simp: escalate_supervision_tx_def split: option.splits)
  define d_id where "d_id = env_mint e ''bdisp'' (int (length (dispositions s)))"
  define t_id where "t_id = (case turn of Some t \<Rightarrow> rt_id t | None \<Rightarrow> env_mint e ''turn'' (int (length (reasoner_turns s))))"
  define dig where "dig = escalation_decision_digest e b code digest"
  define q where "q = system_request supervisor supervisor (upayload (escalation_payload (b_id b) d_id reason code)) (w_id w)
       (b_attempt_id b) (b_goal_version b) (''requester-escalation:'' @ b_id b)"
  define x where "x = mk_event ''boundary.disposed'' ''work_item'' (w_id w) supervisor
                  [(''boundary_id'', jstr (b_id b)), (''disposition_id'', jstr d_id),
                   (''generation'', JInt (b_generation b)), (''kind'', jstr ''wait_user''),
                   (''reason_code'', jstr code), (''origin'', jstr ''system_supervision_recovery'')]"
  define settle where "settle = (case turn of
                None \<Rightarrow> insert_turn (escalation_turn e t_id supervisor (w_id w) b (decision_result_digest e b d_id dig)) s
              | Some t \<Rightarrow> Inr (s\<lparr>reasoner_turns := update_rows (\<lambda>x. rt_id x = t_id)
                    (\<lambda>x. x\<lparr>rt_state := TURN_COMPLETED, rt_result_digest := decision_result_digest e b d_id dig,
                       rt_completed_at := Some (env_now e), rt_updated_at := env_now e\<rparr>) (reasoner_turns s)\<rparr>))"
  note run = assms [unfolded escalate_supervision_tx_def sup option.case Let_def, folded d_id_def t_id_def,
      folded dig_def, folded settle_def q_def x_def]
  from run obtain s1 s2 s4 s6 r where
    d: "d = escalation_disposition e d_id t_id supervisor b reason dig"
    and s1: "settle = Inr s1"
    and s2: "insert_disposition d s1 = Inr s2"
    and s4: "update_works [COL_STATE, COL_ATTENTION, COL_USER_NEEDED] (\<lambda>x. w_id x = w_id w) (user_needed_work e (b_id b))
       (s2\<lparr>attempts := update_rows (\<lambda>a. a_id a = b_attempt_id b) (input_required_attempt e) (attempts s2)\<rparr>) = Inr s4"
    and s6: "message_tx e q (supersede_boundary_deliveries_tx e (b_id b) supervisor (''system-escalation:'' @ d_id) s4) = Inr (s6, r)"
    and s': "s' = log_event e x s6"
    unfolding bindE_Inr_iff by (elim exE conjE) (simp only: split_def sum.inject prod.inject, elim conjE, metis prod.collapse)
  have s1': "sup_frame s s1 \<and> boundaries s1 = boundaries s \<and> dispositions s1 = dispositions s \<and> attempts s1 = attempts s
      \<and> messages s1 = messages s \<and> deliveries s1 = deliveries s"
    using s1 unfolding settle_def by (auto simp: insert_turn_def sup_frame_def split: option.splits if_splits)
  from s2 s1' d have fresh: "\<forall>x\<in>set (dispositions s). bd_boundary_id x \<noteq> b_id b"
    by (auto simp: insert_disposition_def escalation_disposition_def list_ex_iff split: if_splits)
  from s2 have t2: "s2 = s1\<lparr>dispositions := dispositions s1 @ [d]\<rparr>"
    by (auto simp: insert_disposition_def split: if_splits)
  from sup_frame_insert(2) [OF s2] s1' have frame: "sup_frame s s2" by (blast intro: sup_frame_trans)
  show thesis
    by (rule that [OF sup d frame _ _ s4 s6 q_def s' _ _ _ fresh]) (simp_all add: t2 s1')
qed

lemma message_frame_logged:
  "message_tx e q s1 = Inr (s2, r) \<Longrightarrow> sup_frame s s1 \<Longrightarrow> sup_frame s (log_event e' x s2)"
  by (auto intro: sup_frame_trans sup_frame_message)

lemma abandon_lapsed_frame: "sup_frame s (abandon_lapsed e turn s)"
  by (simp add: abandon_lapsed_def split: option.split)

lemma retire_commands_frame: "sup_frame s (fold (retire_command e actor b) cs s)"
  by (rule fold_frame) (simp add: retire_command_def)

text \<open>A pause, statement by statement.\<close>

lemma pause_stages:
  assumes "pause_work_tx e actor w a b s = Inr s'"
  obtains s1 s3 x where "require_pause_safe_tx e s w a b = Inr ()" "insert_pause (new_pause e actor w a b) s = Inr s1"
    "update_works [COL_STATE, COL_ATTENTION, COL_GENERATION, COL_PAUSED] (pause_fence w) (paused_work e (b_id b))
       (s1\<lparr>attempts := update_rows (\<lambda>x. a_id x = a_id a) (\<lambda>x. x\<lparr>a_state := A_SUSPENDED, a_updated_at := env_now e\<rparr>)
          (attempts s1)\<rparr>) = Inr s3"
    "rowcount (pause_fence w) (works s1) = 1"
    "s' = log_event e x (fold (retire_command e actor (b_id b)) (unstarted_commands s3 w a) s3)"
  using assms unfolding pause_work_tx_def Let_def bindE_Inr_iff by (auto split: if_splits)

section \<open>The supervising service\<close>

inductive supervision_step :: "db \<Rightarrow> db \<Rightarrow> bool" where
  step_recover_turns: "recover_expired_reasoner_turns e s = Inr (s', n) \<Longrightarrow> supervision_step s s'"
| step_recover_notice: "recover_incomplete_requester_escalation_tx e i p g s = Inr (s', out) \<Longrightarrow> supervision_step s s'"
| step_recover_delivery: "recover_incomplete_reasoner_delivery_tx e i p g b s = Inr (s', out) \<Longrightarrow> supervision_step s s'"
| step_escalate: "escalate_supervision_tx e bd w code reason turn dig s = Inr (s', d) \<Longrightarrow> supervision_step s s'"
| step_pause: "pause_work_tx e actor w a bd s = Inr s' \<Longrightarrow> supervision_step s s'"
| step_message: "message_tx e q s = Inr (s', r) \<Longrightarrow> supervision_step s s'"

section \<open>Operations are runs of guarded statements\<close>

text \<open>
  What the operations need of a relation between databases to run inside it: it admits every write
  that leaves the tables of the ledger alone, a guarded update of Works that completes none, and the
  records of pauses, resumptions and continuations.
\<close>

locale guarded_statements =
  fixes R :: "db \<Rightarrow> db \<Rightarrow> bool"
  assumes by_frame: "sup_frame s s' \<Longrightarrow> R s s'"
    and by_work: "update_works cols p f s = Inr s' \<Longrightarrow> sets_only cols (\<lambda>x. if p x then f x else x)
      \<Longrightarrow> (\<And>x. w_state (f x) = W_COMPLETED \<Longrightarrow> w_state x = W_COMPLETED) \<Longrightarrow> R s s'"
    and by_pause: "insert_pause z s = Inr s' \<Longrightarrow> R s s'"
    and by_resumption: "insert_resumption r s = Inr s' \<Longrightarrow> R s s'"
    and by_continuation: "insert_continuation c s = Inr s' \<Longrightarrow> R s s'"
begin

lemma by_set:
  assumes "update_works cols p f s = Inr s'" and "sets_only cols f"
    and "\<And>x. w_state (f x) = W_COMPLETED \<Longrightarrow> w_state x = W_COMPLETED"
  shows "R s s'"
  by (rule by_work [OF assms(1) sets_only_guarded [OF assms(2)] assms(3)])

lemma ledger_runs:
  "R a b \<Longrightarrow> R b c \<Longrightarrow> R c d \<Longrightarrow> R\<^sup>*\<^sup>* a d"
  "R\<^sup>*\<^sup>* a d \<Longrightarrow> R d f \<Longrightarrow> R\<^sup>*\<^sup>* a f"
  by (auto intro: rtranclp.rtrancl_into_rtrancl)

lemma escalate_ledger:
  assumes "escalate_supervision_tx e b w code reason turn digest s = Inr (s', d)"
  shows "R\<^sup>*\<^sup>* s s'"
  using assms
proof (rule escalate_stages)
  fix supervisor d_id t_id dig s2 s4 s6 q r x
  assume s2: "sup_frame s s2"
    and s4: "update_works [COL_STATE, COL_ATTENTION, COL_USER_NEEDED] (\<lambda>x. w_id x = w_id w) (user_needed_work e (b_id b))
       (s2\<lparr>attempts := update_rows (\<lambda>a. a_id a = b_attempt_id b) (input_required_attempt e) (attempts s2)\<rparr>) = Inr s4"
    and s6: "message_tx e q (supersede_boundary_deliveries_tx e (b_id b) supervisor (''system-escalation:'' @ d_id) s4) = Inr (s6, r)"
    and s': "s' = log_event e x s6"
  let ?s3 = "s2\<lparr>attempts := update_rows (\<lambda>a. a_id a = b_attempt_id b) (input_required_attempt e) (attempts s2)\<rparr>"
  have "R s ?s3" using s2 by (intro by_frame) simp
  moreover have "R ?s3 s4" by (rule by_set [OF s4 user_needed_sets_only]) (simp add: user_needed_work_def)
  moreover have "R s4 s'"
    using sup_frame_trans [OF sup_frame_supersede sup_frame_message [OF s6]] by (intro by_frame) (simp add: s')
  ultimately show ?thesis by (rule ledger_runs(1))
qed

lemma recover_abandoned_ledger:
  assumes "recover_abandoned_turn e t b s = Inr s'"
  shows "R\<^sup>*\<^sup>* s s'"
proof (cases "has_reasoner_recovery_tx s (rt_boundary_id t)")
  case True
  with assms show ?thesis
    by (auto simp: recover_abandoned_turn_def bindE_Inr_iff split: option.splits intro: escalate_ledger)
next
  case False
  with assms have "sup_frame s s'"
    by (auto simp: recover_abandoned_turn_def bindE_Inr_iff Let_def dest!: sup_frame_message
      intro: sup_frame_trans [OF sup_frame_supersede])
  then show ?thesis by (intro r_into_rtranclp by_frame)
qed

lemma turns_then_ledger: "R\<^sup>*\<^sup>* (s\<lparr>reasoner_turns := ts\<rparr>) s' \<Longrightarrow> R\<^sup>*\<^sup>* s s'"
  by (rule converse_rtranclp_into_rtranclp [of R, OF by_frame]) simp_all

lemma recover_expired_turn_ledger:
  assumes "recover_expired_turn e st tbw = Inr st'"
  shows "R\<^sup>*\<^sup>* (fst st) (fst st')"
  using assms
  by (cases st; cases st') (auto simp: recover_expired_turn_def Let_def bindE_Inr_iff split: prod.splits if_splits
    intro: turns_then_ledger recover_abandoned_ledger)

lemma recover_expired_ledger:
  assumes "recover_expired_reasoner_turns e s = Inr (s', n)"
  shows "R\<^sup>*\<^sup>* s s'"
proof -
  from assms have "foldE (recover_expired_turn e) (s, 0) (expired_turns e s) = Inr (s', n)"
    by (simp add: recover_expired_reasoner_turns_def transaction_Inr_iff)
  then have "R\<^sup>*\<^sup>* s (fst (s', n))"
  proof (rule foldE_invariant)
    show "R\<^sup>*\<^sup>* s (fst (s, 0 :: int))" by simp
    fix st tbw st' assume "R\<^sup>*\<^sup>* s (fst st)" "recover_expired_turn e st tbw = Inr st'"
    then show "R\<^sup>*\<^sup>* s (fst st')"
      by (blast intro: rtranclp_trans recover_expired_turn_ledger)
  qed
  then show ?thesis by simp
qed

lemma recover_notice_ledger:
  assumes "recover_incomplete_requester_escalation_tx e i p g s = Inr (s', out)"
  shows "R\<^sup>*\<^sup>* s s'"
proof -
  have "rearm_notice e i p g m s = Inr (s', out) \<Longrightarrow> sup_frame s s'" for m
    by (auto simp: rearm_notice_def retire_notice_def bindE_Inr_iff split: if_splits option.splits
      intro: message_frame_logged)
  with assms have "sup_frame s s'"
    by (auto simp: recover_incomplete_requester_escalation_tx_def split: option.splits if_splits)
  then show ?thesis by (intro r_into_rtranclp by_frame)
qed

lemma advance_incomplete_ledger:
  assumes "advance_incomplete_turn e i p g b turn s = Inr (s', out)"
  shows "R\<^sup>*\<^sup>* s s'"
proof (cases "has_reasoner_recovery_tx s (b_id b)")
  case True
  with assms show ?thesis
    by (auto simp: advance_incomplete_turn_def Let_def bindE_Inr_iff split: option.splits intro: escalate_ledger)
next
  case False
  with assms have "sup_frame s s'"
    by (auto simp: advance_incomplete_turn_def bindE_Inr_iff Let_def dest!: sup_frame_message
      intro: sup_frame_trans [OF sup_frame_supersede])
  then show ?thesis by (intro r_into_rtranclp by_frame)
qed

lemma recover_incomplete_ledger:
  assumes "recover_incomplete_reasoner_delivery_tx e i p g b s = Inr (s', out)"
  shows "R\<^sup>*\<^sup>* s s'"
  using assms
  by (auto simp: recover_incomplete_reasoner_delivery_tx_def Let_def split: option.splits if_splits
    intro: converse_rtranclp_into_rtranclp [of R, OF by_frame [OF abandon_lapsed_frame]
      advance_incomplete_ledger])

lemma pause_work_ledger:
  assumes "pause_work_tx e actor w a b s = Inr s'"
  shows "R\<^sup>*\<^sup>* s s'"
  using assms
proof (rule pause_stages)
  fix s1 s3 :: db and x
  let ?s2 = "s1\<lparr>attempts := update_rows (\<lambda>x. a_id x = a_id a) (\<lambda>x. x\<lparr>a_state := A_SUSPENDED, a_updated_at := env_now e\<rparr>)
          (attempts s1)\<rparr>"
  assume p: "insert_pause (new_pause e actor w a b) s = Inr s1"
    and u: "update_works [COL_STATE, COL_ATTENTION, COL_GENERATION, COL_PAUSED] (pause_fence w) (paused_work e (b_id b)) ?s2 = Inr s3"
    and s': "s' = log_event e x (fold (retire_command e actor (b_id b)) (unstarted_commands s3 w a) s3)"
  have "R s s1" by (rule by_pause [OF p])
  moreover have "R s1 ?s2" by (rule by_frame) simp
  moreover have "R ?s2 s3" by (rule by_set [OF u paused_sets_only]) (simp add: paused_work_def)
  moreover have "R s3 s'" by (rule by_frame) (simp add: s' retire_commands_frame)
  ultimately show ?thesis by (rule ledger_runs(2) [OF ledger_runs(1)])
qed

lemma supervision_step_ledger: "supervision_step s s' \<Longrightarrow> R\<^sup>*\<^sup>* s s'"
  by (induction rule: supervision_step.induct)
    (auto intro: recover_expired_ledger recover_notice_ledger recover_incomplete_ledger escalate_ledger pause_work_ledger
      by_frame [OF sup_frame_message])

lemma supervision_run_ledger: "supervision_step\<^sup>*\<^sup>* s s' \<Longrightarrow> R\<^sup>*\<^sup>* s s'"
  by (induction rule: rtranclp_induct) (auto intro: rtranclp_trans supervision_step_ledger)

end

text \<open>The statements of the ledger are such a relation.\<close>

lemma ledger_guarded:
  assumes "update_works cols p f s = Inr s'" and "sets_only cols (\<lambda>x. if p x then f x else x)"
  shows "ledger_step s s'"
  using ledger_work [OF assms(1) [unfolded update_works_guard [of cols p f]] assms(2)] .

interpretation ledger: guarded_statements ledger_step
  by unfold_locales (auto intro: ledger_guarded ledger_pause ledger_resumption ledger_continuation ledger_other simp: sup_frame_def)

text \<open>Supervision refines its ledger. Every run of recoveries, escalations, pauses and messages of
  the service is a run of guarded statements of the database, so the two pointers of every Work
  stay bound whatever the service does.\<close>

theorem supervision_refines_ledger:
  assumes "supervision_step\<^sup>*\<^sup>* s t"
  shows "ledger_step\<^sup>*\<^sup>* s t \<and> (supervision_pointers_ok s \<longrightarrow> supervision_pointers_ok t)"
  using ledger.supervision_run_ledger [OF assms] ledger_run_pointers by blast

section \<open>A pause leaves nothing running\<close>

lemma retire_command_deliveries:
  "deliveries (retire_command e actor b c s) = update_rows (\<lambda>r. delivery_key r = delivery_key c \<and> d_state r = d_state c)
     (retired_notice e ''work_supervision_paused'') (deliveries s)"
  by (simp add: retire_command_def)

lemma retire_commands_row:
  "r \<in> set (deliveries (fold (retire_command e actor b) cs s)) \<Longrightarrow> d_state r = DEAD \<or> r \<in> set (deliveries s) \<and> r \<notin> set cs"
proof (induction cs arbitrary: s)
  case (Cons c cs)
  from Cons.prems have "r \<in> set (deliveries (fold (retire_command e actor b) cs (retire_command e actor b c s)))" by simp
  from Cons.IH [OF this] show ?case
    by (auto simp: retire_command_deliveries set_update_rows retired_notice_def split: if_splits)
qed simp

lemma fold_keeps: "(\<And>x s. k (f x s) = k s) \<Longrightarrow> k (fold f xs s) = k s"
  by (induction xs arbitrary: s) simp_all

lemma retire_commands_keep [simp]:
  "works (fold (retire_command e actor b) cs s) = works s"
  "attempts (fold (retire_command e actor b) cs s) = attempts s"
  "messages (fold (retire_command e actor b) cs s) = messages s"
  "pauses (fold (retire_command e actor b) cs s) = pauses s"
  "resumptions (fold (retire_command e actor b) cs s) = resumptions s"
  "boundaries (fold (retire_command e actor b) cs s) = boundaries s"
  "dispositions (fold (retire_command e actor b) cs s) = dispositions s"
  "supersessions (fold (retire_command e actor b) cs s) = supersessions s"
  "reasoner_turns (fold (retire_command e actor b) cs s) = reasoner_turns s"
  "principals (fold (retire_command e actor b) cs s) = principals s"
  by (rule fold_keeps, simp add: retire_command_def)+

lemma update_worksD:
  assumes "update_works cols p f s = Inr s'"
  shows "s' = s\<lparr>works := update_rows p f (works s)\<rparr>"
    and "w \<in> set (works s) \<Longrightarrow> p w \<Longrightarrow> work_update_ok s cols w (f w)"
  using assms by (auto simp: update_works_def list_all_iff split: if_splits)

lemma pause_bound_cong:
  assumes "pauses s' = pauses s" "attempts s' = attempts s" "resumptions s' = resumptions s" "boundaries s' = boundaries s"
    "dispositions s' = dispositions s" "reasoner_turns s' = reasoner_turns s" "principals s' = principals s"
    "supersessions s' = supersessions s" "w_id ` set (works s') = w_id ` set (works s)"
  shows "paused_pointer_bound s' w = paused_pointer_bound s w" "pause_record_binding s' p = pause_record_binding s p"
proof -
  have "list_ex (\<lambda>w. w_id w = i) (works t) = (i \<in> w_id ` set (works t))" for i and t :: db
    by (auto simp: list_ex_iff)
  then have "list_ex (\<lambda>w. w_id w = i) (works s') = list_ex (\<lambda>w. w_id w = i) (works s)" for i
    by (simp only: assms(9))
  then show same: "pause_record_binding s' p = pause_record_binding s p" for p
    by (simp add: pause_record_binding_def decided_def superseded_def is_cao_def assms)
  then show "paused_pointer_bound s' w = paused_pointer_bound s w"
    by (simp add: paused_pointer_bound_def later_attempt_def resumed_def assms)
qed

lemma paused_work_id [simp]: "w_id (paused_work e b w) = w_id w"
  by (simp add: paused_work_def)

lemma get_work_update:
  assumes "works s' = update_rows p f (works s)" "\<And>x. w_id (f x) = w_id x"
  shows "get_work s' i = map_option (\<lambda>x. if p x then f x else x) (get_work s i)"
  unfolding get_work_def assms(1) update_rows_def by (rule fetchone_update_rows) (simp add: assms(2))

text \<open>The state a pause leaves, table by table.\<close>

lemma paused_state:
  assumes "pause_work_tx e actor w a b s = Inr s'"
  shows "pauses s' = pauses s @ [new_pause e actor w a b]"
    "works s' = update_rows (pause_fence w) (paused_work e (b_id b)) (works s)"
    "attempts s' = update_rows (\<lambda>x. a_id x = a_id a) (\<lambda>x. x\<lparr>a_state := A_SUSPENDED, a_updated_at := env_now e\<rparr>) (attempts s)"
    "messages s' = messages s" "boundaries s' = boundaries s" "dispositions s' = dispositions s"
    "resumptions s' = resumptions s" "supersessions s' = supersessions s" "reasoner_turns s' = reasoner_turns s"
    "principals s' = principals s"
    "\<And>d. d \<in> set (deliveries s') \<Longrightarrow> d_state d = DEAD \<or> d \<in> set (deliveries s) \<and> d \<notin> set (unstarted_commands s w a)"
    "require_pause_safe_tx e s w a b = Inr ()" "wz_boundary_id x = b_id b \<Longrightarrow> x \<notin> set (pauses s)"
    "get_work s (w_id w) = Some w \<Longrightarrow> paused_pointer_bound s' (paused_work e (b_id b) w)"
    "get_work s (w_id w) = Some w \<Longrightarrow> get_work s' (w_id w) = Some (paused_work e (b_id b) w)"
proof -
  from assms obtain s1 s3 :: db and ev where
    safe: "require_pause_safe_tx e s w a b = Inr ()" and p: "insert_pause (new_pause e actor w a b) s = Inr s1"
    and u: "update_works [COL_STATE, COL_ATTENTION, COL_GENERATION, COL_PAUSED] (pause_fence w) (paused_work e (b_id b))
       (s1\<lparr>attempts := update_rows (\<lambda>x. a_id x = a_id a) (\<lambda>x. x\<lparr>a_state := A_SUSPENDED, a_updated_at := env_now e\<rparr>)
          (attempts s1)\<rparr>) = Inr s3"
    and s': "s' = log_event e ev (fold (retire_command e actor (b_id b)) (unstarted_commands s3 w a) s3)"
    by (rule pause_stages)
  from p have s1: "s1 = s\<lparr>pauses := pauses s @ [new_pause e actor w a b]\<rparr>"
    by (auto simp: insert_pause_def split: if_splits)
  from p have fresh: "\<forall>x\<in>set (pauses s). wz_boundary_id x \<noteq> b_id b"
    by (auto simp: insert_pause_def new_pause_def list_ex_iff split: if_splits)
  note s3 = update_worksD(1) [OF u]
  show "pauses s' = pauses s @ [new_pause e actor w a b]"
    "works s' = update_rows (pause_fence w) (paused_work e (b_id b)) (works s)"
    "attempts s' = update_rows (\<lambda>x. a_id x = a_id a) (\<lambda>x. x\<lparr>a_state := A_SUSPENDED, a_updated_at := env_now e\<rparr>) (attempts s)"
    "messages s' = messages s" "boundaries s' = boundaries s" "dispositions s' = dispositions s"
    "resumptions s' = resumptions s" "supersessions s' = supersessions s" "reasoner_turns s' = reasoner_turns s"
    "principals s' = principals s"
    by (simp_all add: s' s3 s1)
  show "require_pause_safe_tx e s w a b = Inr ()" by (rule safe)
  show "wz_boundary_id x = b_id b \<Longrightarrow> x \<notin> set (pauses s)" using fresh by auto
  have same: "unstarted_commands s3 w a = unstarted_commands s w a"
    by (simp add: unstarted_commands_def s3 s1)
  show "d_state d = DEAD \<or> d \<in> set (deliveries s) \<and> d \<notin> set (unstarted_commands s w a)"
    if "d \<in> set (deliveries s')" for d
    using that retire_commands_row [of d e actor "b_id b" "unstarted_commands s w a" s3]
    by (simp add: s' same) (simp add: s3 s1)
  have rows: "works s' = update_rows (pause_fence w) (paused_work e (b_id b)) (works s)"
    by (simp add: s' s3 s1)
  assume w: "get_work s (w_id w) = Some w"
  then have mem: "w \<in> set (works s)" by (auto simp: get_work_def dest: fetchone_SomeD)
  from safe have fence: "pause_fence w w"
    by (auto simp: require_pause_safe_tx_def require_not_paused_def pause_fence_def split: option.splits)
  from get_work_update [OF rows, of "w_id w"] w fence
  show "get_work s' (w_id w) = Some (paused_work e (b_id b) w)" by simp
  from update_worksD(2) [OF u _ fence] mem
  have "paused_pointer_bound (s1\<lparr>attempts := update_rows (\<lambda>x. a_id x = a_id a)
      (\<lambda>x. x\<lparr>a_state := A_SUSPENDED, a_updated_at := env_now e\<rparr>) (attempts s1)\<rparr>) (paused_work e (b_id b) w)"
    by (simp add: s1 work_update_ok_def fires_def pause_exact_ok_def paused_work_def)
  moreover have "w_id ` set (works s') = w_id ` set (works s)"
    unfolding set_map [symmetric] rows by (simp add: map_update_rows)
  ultimately show "paused_pointer_bound s' (paused_work e (b_id b) w)"
    by (subst (asm) pause_bound_cong(1) [symmetric, where s' = s']) (simp_all add: s' s3 s1)
qed

text \<open>C31: A pause leaves nothing of the Work running. After it the Work is suspended, owned by nobody,
  one generation further and pointing to the boundary; its attempt is suspended, and every command
  of the Work for its Worker is dead or already handled, so none is claimed any more.\<close>

theorem pause_quiets_work:
  assumes "pause_work_tx e actor w a b s = Inr s'" and "get_work s (w_id w) = Some w"
  shows "(\<exists>w'. get_work s' (w_id w) = Some w' \<and> w_state w' = W_SUSPENDED \<and> w_attention_owner w' = AO_NONE
      \<and> w_generation w' = w_generation w + 1 \<and> w_paused_boundary_id w' = Some (b_id b))
    \<and> (\<forall>x\<in>set (attempts s'). a_id x = a_id a \<longrightarrow> a_state x = A_SUSPENDED)
    \<and> (\<forall>d\<in>set (deliveries s'). d_recipient_id d = a_worker_id a
      \<and> (\<exists>m\<in>set (messages s'). m_id m = d_message_id d \<and> m_work_item_id m = Some (w_id w)
            \<and> m_kind m \<in> {ASSIGNMENT, INSTRUCTION, STATUS_REQUEST})
      \<longrightarrow> d_state d \<in> {DEAD, HANDLED})"
proof (intro conjI)
  note state = paused_state [OF assms(1)]
  from state(15) [OF assms(2)]
  show "\<exists>w'. get_work s' (w_id w) = Some w' \<and> w_state w' = W_SUSPENDED \<and> w_attention_owner w' = AO_NONE
      \<and> w_generation w' = w_generation w + 1 \<and> w_paused_boundary_id w' = Some (b_id b)"
    by (simp add: paused_work_def)
  show "\<forall>x\<in>set (attempts s'). a_id x = a_id a \<longrightarrow> a_state x = A_SUSPENDED"
    by (auto simp: state(3) set_update_rows)
  have settled: "d_state d \<in> {QUEUED, LEASED, DEAD, HANDLED}" if "d \<in> set (deliveries s)" "work_delivery s w a d" for d
    using state(12) that by (cases "d_state d") (auto simp: require_pause_safe_tx_def bindE_Inr_iff delivery_unsettled_def list_ex_iff split: if_splits)
  show "\<forall>d\<in>set (deliveries s'). d_recipient_id d = a_worker_id a
      \<and> (\<exists>m\<in>set (messages s'). m_id m = d_message_id d \<and> m_work_item_id m = Some (w_id w)
            \<and> m_kind m \<in> {ASSIGNMENT, INSTRUCTION, STATUS_REQUEST})
      \<longrightarrow> d_state d \<in> {DEAD, HANDLED}"
  proof (intro ballI impI)
    fix d assume d: "d \<in> set (deliveries s')" and c: "d_recipient_id d = a_worker_id a
      \<and> (\<exists>m\<in>set (messages s'). m_id m = d_message_id d \<and> m_work_item_id m = Some (w_id w)
            \<and> m_kind m \<in> {ASSIGNMENT, INSTRUCTION, STATUS_REQUEST})"
    then have "work_delivery s w a d" by (auto simp: work_delivery_def list_ex_iff state(4))
    with state(11) [OF d] settled c show "d_state d \<in> {DEAD, HANDLED}"
      by (auto simp: unstarted_commands_def list_ex_iff state(4))
  qed
qed

lemma pause_currentI:
  assumes "paused_pointer_bound s w" "distinct (map a_id (attempts s))"
  obtains p where "p \<in> set (pauses s)" "Some (wz_boundary_id p) = w_paused_boundary_id w" "pause_current s w p"
proof -
  from assms(1) obtain p x where p: "p \<in> set (pauses s)" "Some (wz_boundary_id p) = w_paused_boundary_id w"
    "wz_work_item_id p = w_id w" "wz_pause_generation p = w_generation w" "sql_eq (Some (wz_paused_by p)) (w_supervisor_id w)"
    and x: "x \<in> set (attempts s)" "a_id x = wz_attempt_id p" "a_state x = A_SUSPENDED" "\<not> later_attempt s (w_id w) x"
    and bound: "pause_record_binding s p" and open_pause: "\<not> resumed s (wz_boundary_id p)"
    by (auto simp: paused_pointer_bound_def list_ex_iff)
  from bound obtain y where "y \<in> set (attempts s)" "a_id y = wz_attempt_id p" "a_work_item_id y = wz_work_item_id p"
    by (auto simp: pause_record_binding_def list_ex_iff packet_attempt_def)
  with x key_unique [OF assms(2), of y x] have "a_work_item_id x = wz_work_item_id p" by simp
  with p x have "list_ex (\<lambda>a. a_id a = wz_attempt_id p \<and> a_state a = A_SUSPENDED
          \<and> list_ex (\<lambda>x. a_work_item_id x = wz_work_item_id p \<and> a_attempt_number x = a_attempt_number a) (attempts s)
          \<and> \<not> later_attempt s (wz_work_item_id p) a) (attempts s)"
    unfolding list_ex_iff by (intro bexI [of _ x]) auto
  then have "pause_current s w p"
    using p bound open_pause by (simp add: pause_current_def)
  with p show thesis by (blast intro: that)
qed

lemma pause_disposition:
  assumes "pause_record_binding s p"
  obtains d where "fetchone (\<lambda>d. bd_boundary_id d = wz_boundary_id p) (dispositions s) = Some d"
proof -
  from assms have "\<exists>d\<in>set (dispositions s). bd_boundary_id d = wz_boundary_id p"
    by (auto simp: pause_record_binding_def decided_def list_ex_iff)
  with that show thesis by (cases "fetchone (\<lambda>d. bd_boundary_id d = wz_boundary_id p) (dispositions s)") (auto simp: fetchone_None_iff)
qed

text \<open>What a pause records is what is read back. Immediately after a pause of a Work the pause view of
  that Work reports the boundary, the generation it was paused at and the next one, the time, and the
  reason and resume condition of the decision that paused it.\<close>

theorem pause_read_back:
  assumes "pause_work_tx e actor w a b s = Inr s'" and "get_work s (w_id w) = Some w"
    and "distinct (map a_id (attempts s))" and "get_work s' (w_id w) = Some w'"
  shows "\<exists>d. fetchone (\<lambda>d. bd_boundary_id d = b_id b) (dispositions s) = Some d
    \<and> pause_view_tx s' w' = Inr (Some \<lparr>pv_boundary_id = b_id b, pv_source_generation = w_generation w,
        pv_pause_generation = w_generation w + 1, pv_reason = bd_reason d, pv_resume_condition = bd_resume_condition d,
        pv_paused_at = env_now e\<rparr>)"
proof -
  note state = paused_state [OF assms(1)]
  from state(15) [OF assms(2)] assms(4) have w': "w' = paused_work e (b_id b) w" by simp
  have keys: "distinct (map a_id (attempts s'))"
    using assms(3) by (simp add: state(3) map_update_rows)
  have pointer: "w_paused_boundary_id w' = Some (b_id b)" by (simp add: w' paused_work_def)
  have only: "p = new_pause e actor w a b" if "p \<in> set (pauses s')" "wz_boundary_id p = b_id b" for p
    using that state(13) [of p] by (auto simp: state(1))
  from pause_currentI [OF state(14) [OF assms(2)] keys, folded w'] pointer only
  have current: "pause_current s' w' (new_pause e actor w a b)" by (metis option.inject)
  have old: "\<not> pause_current s' w' p" if "p \<in> set (pauses s)" for p
    using that state(13) [of p] pointer by (auto simp: pause_current_def)
  have "fetchone (pause_current s' w') (pauses s') = Some (new_pause e actor w a b)"
    using current old by (auto simp: state(1) fetchone_append fetchone_None_iff split: option.split dest!: fetchone_SomeD)
  moreover from current have "pause_record_binding s' (new_pause e actor w a b)" by (simp add: pause_current_def)
  then obtain d where "fetchone (\<lambda>d. bd_boundary_id d = b_id b) (dispositions s) = Some d"
    by (auto simp: state(6) new_pause_def elim: pause_disposition)
  moreover have "w_suspended_by_work_item_id w = None" "w_user_needed_boundary_id w = None"
    using state(12) by (auto simp: require_pause_safe_tx_def bindE_Inr_iff split: if_splits)
  ultimately show ?thesis
    by (intro exI [of _ d]) (simp add: pause_view_tx_def pointer state(6), simp add: w' paused_work_def new_pause_def)
qed

section \<open>An escalation hands the Work to its requester\<close>

lemma supersede_keeps [simp]:
  "works (supersede_boundary_deliveries_tx e b p reason s) = works s"
  "attempts (supersede_boundary_deliveries_tx e b p reason s) = attempts s"
  "messages (supersede_boundary_deliveries_tx e b p reason s) = messages s"
  "boundaries (supersede_boundary_deliveries_tx e b p reason s) = boundaries s"
  "dispositions (supersede_boundary_deliveries_tx e b p reason s) = dispositions s"
  "reasoner_turns (supersede_boundary_deliveries_tx e b p reason s) =
     update_rows (\<lambda>t. rt_boundary_id t = b \<and> rt_state t = TURN_LEASED) (abandoned_turn e) (reasoner_turns s)"
  unfolding supersede_boundary_deliveries_tx_def
  by ((subst fold_keeps, simp split: prod.split, simp)+)

lemma escalated_state:
  assumes "escalate_supervision_tx e b w code reason turn dig s = Inr (s', d)"
  shows "works s' = update_rows (\<lambda>x. w_id x = w_id w) (user_needed_work e (b_id b)) (works s)"
    "attempts s' = update_rows (\<lambda>a. a_id a = b_attempt_id b) (input_required_attempt e) (attempts s)"
    "boundaries s' = boundaries s" "dispositions s' = dispositions s @ [d]"
    "\<forall>x\<in>set (dispositions s). bd_boundary_id x \<noteq> b_id b"
    "\<forall>t\<in>set (reasoner_turns s'). rt_boundary_id t = b_id b \<longrightarrow> rt_state t \<noteq> TURN_LEASED"
    "\<exists>supervisor i t dg. w_supervisor_id w = Some supervisor \<and> d = escalation_disposition e i t supervisor b reason dg"
proof -
  from assms obtain supervisor d_id t_id dg s2 s4 s6 q r x where sup: "w_supervisor_id w = Some supervisor"
    and d: "d = escalation_disposition e d_id t_id supervisor b reason dg" and f2: "sup_frame s s2"
    and b2: "boundaries s2 = boundaries s" "dispositions s2 = dispositions s @ [d]" "attempts s2 = attempts s"
    and s4: "update_works [COL_STATE, COL_ATTENTION, COL_USER_NEEDED] (\<lambda>x. w_id x = w_id w) (user_needed_work e (b_id b))
       (s2\<lparr>attempts := update_rows (\<lambda>a. a_id a = b_attempt_id b) (input_required_attempt e) (attempts s2)\<rparr>) = Inr s4"
    and s6: "message_tx e q (supersede_boundary_deliveries_tx e (b_id b) supervisor (''system-escalation:'' @ d_id) s4) = Inr (s6, r)"
    and s': "s' = log_event e x s6" and fresh: "\<forall>x\<in>set (dispositions s). bd_boundary_id x \<noteq> b_id b"
    by (rule escalate_stages)
  note rows = update_worksD(1) [OF s4] and same = only_messages_tables [OF message_only [OF s6]]
  from f2 have w2: "works s2 = works s" by (simp add: sup_frame_def)
  show "works s' = update_rows (\<lambda>x. w_id x = w_id w) (user_needed_work e (b_id b)) (works s)"
    "attempts s' = update_rows (\<lambda>a. a_id a = b_attempt_id b) (input_required_attempt e) (attempts s)"
    "boundaries s' = boundaries s" "dispositions s' = dispositions s @ [d]"
    by (simp_all add: s' same rows w2 b2)
  show "\<forall>t\<in>set (reasoner_turns s'). rt_boundary_id t = b_id b \<longrightarrow> rt_state t \<noteq> TURN_LEASED"
    by (auto simp: s' same set_update_rows abandoned_turn_def)
  show "\<forall>x\<in>set (dispositions s). bd_boundary_id x \<noteq> b_id b" by (rule fresh)
  show "\<exists>supervisor i t dg. w_supervisor_id w = Some supervisor \<and> d = escalation_disposition e i t supervisor b reason dg"
    using sup d by blast
qed

lemma fetchone_and: "fetchone p rows = Some r \<Longrightarrow> q r \<Longrightarrow> fetchone (\<lambda>x. p x \<and> q x) rows = Some r"
  by (induction rows) (auto split: if_splits)

text \<open>C32: An escalation hands the Work to its requester, and the requester reads what was decided. After it
  the Work waits for the user at the boundary, its attempt waits for input, no decision lease on the
  boundary is left, the supervisor's WAIT_USER decision is recorded, and the requester escalation of
  the Work is exactly this boundary with the reason given and the standing instruction.\<close>

theorem escalation_hands_over:
  assumes "escalate_supervision_tx e b w code reason turn dig s = Inr (s', d)"
    and "get_work s (w_id w) = Some w" "get_boundary s (b_id b) = Some b" "b_work_item_id b = w_id w" "b_id b \<noteq> ''''"
  shows "(\<exists>w' v. get_work s' (w_id w) = Some w' \<and> w_state w' = W_USER_NEEDED \<and> w_attention_owner w' = AO_USER
      \<and> w_user_needed_boundary_id w' = Some (b_id b) \<and> requester_escalation_tx s' w' = Some v
      \<and> ev_boundary_id v = b_id b \<and> ev_reason v = u reason \<and> ev_decision v = u escalation_instruction
      \<and> ev_resume_condition v = u escalation_resume_condition \<and> ev_requested_at v = env_now e)
    \<and> (\<forall>x\<in>set (attempts s'). a_id x = b_attempt_id b \<longrightarrow> a_state x = A_INPUT_REQUIRED)
    \<and> (\<forall>t\<in>set (reasoner_turns s'). rt_boundary_id t = b_id b \<longrightarrow> rt_state t \<noteq> TURN_LEASED)
    \<and> d \<in> set (dispositions s') \<and> bd_kind d = WAIT_USER \<and> Some (bd_decided_by d) = w_supervisor_id w"
proof (intro conjI)
  note state = escalated_state [OF assms(1)]
  let ?w = "user_needed_work e (b_id b) w"
  have w': "get_work s' (w_id w) = Some ?w"
    using get_work_update [OF state(1), of "w_id w"] assms(2) by (simp add: user_needed_work_def)
  have id: "w_id ?w = w_id w" by (simp add: user_needed_work_def)
  have pointer: "escalation_pointer ?w = Some (b_id b, WAIT_USER)"
    using assms(5) by (simp add: escalation_pointer_def user_needed_work_def)
  have found: "fetchone (\<lambda>x. b_id x = b_id b \<and> b_work_item_id x = w_id w) (boundaries s') = Some b"
    by (rule fetchone_and) (use assms(3,4) in \<open>simp_all add: state(3) get_boundary_def\<close>)
  from state(7) have dk: "bd_boundary_id d = b_id b" "bd_kind d = WAIT_USER" "Some (bd_decided_by d) = w_supervisor_id w"
    "bd_reason d = u reason" "bd_instruction d = u escalation_instruction" "bd_created_at d = env_now e"
    "bd_resume_condition d = u escalation_resume_condition"
    by (auto simp: escalation_disposition_def)
  have "fetchone (\<lambda>x. bd_boundary_id x = b_id b \<and> bd_kind x = WAIT_USER) (dispositions s) = None"
    using state(5) by (simp add: fetchone_None_iff)
  with dk have "fetchone (\<lambda>x. bd_boundary_id x = b_id b \<and> bd_kind x = WAIT_USER) (dispositions s') = Some d"
    by (simp add: state(4) fetchone_append)
  then show "\<exists>w' v. get_work s' (w_id w) = Some w' \<and> w_state w' = W_USER_NEEDED \<and> w_attention_owner w' = AO_USER
      \<and> w_user_needed_boundary_id w' = Some (b_id b) \<and> requester_escalation_tx s' w' = Some v
      \<and> ev_boundary_id v = b_id b \<and> ev_reason v = u reason \<and> ev_decision v = u escalation_instruction
      \<and> ev_resume_condition v = u escalation_resume_condition \<and> ev_requested_at v = env_now e"
    by (intro exI [of _ ?w]) (simp add: w' requester_escalation_tx_def pointer id found dk, simp add: user_needed_work_def Let_def)
  show "\<forall>x\<in>set (attempts s'). a_id x = b_attempt_id b \<longrightarrow> a_state x = A_INPUT_REQUIRED"
    by (auto simp: state(2) set_update_rows input_required_attempt_def)
  show "\<forall>t\<in>set (reasoner_turns s'). rt_boundary_id t = b_id b \<longrightarrow> rt_state t \<noteq> TURN_LEASED" by (rule state(6))
  show "d \<in> set (dispositions s')" "bd_kind d = WAIT_USER" "Some (bd_decided_by d) = w_supervisor_id w"
    by (simp_all add: state(4) dk)
qed

section \<open>The recovery budget of a boundary\<close>

lemma map_of_first: "map_of xs k = (case filter (\<lambda>x. fst x = k) xs of [] \<Rightarrow> None | x # _ \<Rightarrow> Some (snd x))"
  by (induction xs) auto

lemma map_of_sorted: "map_of (sort_key fst xs) k = map_of xs k"
  by (simp add: map_of_first sort_key_stable)

lemma jget_sort_keys: "jget (sort_keys (JObj kvs)) k = map_option sort_keys (jget (JObj kvs) k)"
  by (simp add: map_of_sorted map_of_map [symmetric] comp_def) (simp add: map_of_map)

lemma map_of_put_key: "map_of (put_key kvs k v) k' = (if k' = k then Some v else map_of kvs k')"
  by (induction kvs) auto

lemma digest_field_keeps:
  "digest_field field expected p = Inr p' \<Longrightarrow> k \<noteq> u field \<Longrightarrow> map_of p' k = map_of p k"
  by (auto simp: digest_field_def Let_def map_of_put_key split: if_splits option.splits json.splits)

text \<open>A system message keeps the fields it was given, apart from the two packet digests.\<close>

lemma system_message_payload:
  assumes "message_tx e (system_request sender p (upayload kvs) i att g key) s = Inr (s', r)"
    and "existing_message s (system_request sender p (upayload kvs) i att g key) = None"
    and "k \<noteq> ''goal_packet_digest''" "k \<noteq> ''task_packet_digest''" "map_of (upayload kvs) (u k) = Some (jstr x)"
  shows "\<exists>m. messages s' = messages s @ [m] \<and> jget (m_payload m) k = Some (jstr x)"
proof -
  let ?q = "system_request sender p (upayload kvs) i att g key"
  from assms(1,2) obtain b payload0 payload where 0: "bound_payload ?q b = Inr payload0"
    and 1: "purposed_payload e s ?q b payload0 = Inr payload"
    and c: "create_message e ?q b payload s = Inr (s', fst r, snd r)"
    by (auto simp: message_tx_def bindE_Inr_iff split: if_splits)
  from 1 have "payload = payload0" by (simp add: purposed_payload_def system_request_def)
  moreover from 0 assms(3-5) have "map_of payload0 (u k) = Some (jstr x)"
    by (auto simp: bound_payload_def bindE_Inr_iff system_request_def given_def split: if_splits dest!: digest_field_keeps [where k = "u k"])
  moreover from c obtain news where "fst r = new_message e ?q b payload (message_sequence s + 1)" "messages s' = messages s @ [fst r]"
    by (rule created)
  ultimately show ?thesis
    by (intro exI [of _ "fst r"]) (simp add: new_message_def Let_def jget_sort_keys del: sort_keys.simps, simp add: jstr_def)
qed

definition recovery_budget :: "db \<Rightarrow> ident \<Rightarrow> nat" where
  "recovery_budget s b = (if disposed s b then 0 else if has_reasoner_recovery_tx s b then 1 else 2)"

definition recovery_key_fresh :: "db \<Rightarrow> ident \<Rightarrow> int \<Rightarrow> bool" where
  "recovery_key_fresh s message_id generation = (\<not> list_ex (\<lambda>m. m_idempotency_key m =
     ''reasoner-incomplete:'' @ message_id @ '':'' @ int_text generation) (messages s))"

definition history_grows :: "db \<Rightarrow> db \<Rightarrow> bool" where
  "history_grows s s' = (\<exists>ms ds. messages s' = messages s @ ms \<and> dispositions s' = dispositions s @ ds)"

lemma history_same: "messages s' = messages s \<Longrightarrow> dispositions s' = dispositions s \<Longrightarrow> history_grows s s'"
  by (simp add: history_grows_def)

lemma history_trans: "history_grows s s' \<Longrightarrow> history_grows s' s'' \<Longrightarrow> history_grows s s''"
  by (auto simp: history_grows_def)

lemma history_other [simp]:
  "history_grows s (log_event e x s') = history_grows s s'"
  "history_grows s (s'\<lparr>reasoner_turns := ts\<rparr>) = history_grows s s'"
  "history_grows s (s'\<lparr>deliveries := ds\<rparr>) = history_grows s s'"
  "history_grows (s\<lparr>reasoner_turns := ts\<rparr>) s' = history_grows s s'"
  "history_grows (s\<lparr>deliveries := ds\<rparr>) s' = history_grows s s'"
  "history_grows (supersede_boundary_deliveries_tx e b p reason s) s' = history_grows s s'"
  by (simp_all add: history_grows_def)

lemma history_message: "message_tx e q s = Inr (s', r) \<Longrightarrow> history_grows s s'"
proof -
  assume m: "message_tx e q s = Inr (s', r)"
  then obtain b payload where "s' = s \<or> create_message e q b payload s = Inr (s', fst r, snd r)"
    by (auto simp: message_tx_def bindE_Inr_iff split: option.splits if_splits)
  then have "\<exists>ms. messages s' = messages s @ ms"
    by (elim disjE) (simp, erule created, simp)
  then show ?thesis by (simp add: history_grows_def only_messages_tables [OF message_only [OF m]])
qed

lemma history_escalate:
  assumes "escalate_supervision_tx e b w code reason turn dig s = Inr (s', d)"
  shows "history_grows s s'"
proof -
  from assms obtain supervisor d_id t_id dg s2 s4 s6 q r x where "messages s2 = messages s"
    and d2: "dispositions s2 = dispositions s @ [d]"
    and s4: "update_works [COL_STATE, COL_ATTENTION, COL_USER_NEEDED] (\<lambda>x. w_id x = w_id w) (user_needed_work e (b_id b))
       (s2\<lparr>attempts := update_rows (\<lambda>a. a_id a = b_attempt_id b) (input_required_attempt e) (attempts s2)\<rparr>) = Inr s4"
    and s6: "message_tx e q (supersede_boundary_deliveries_tx e (b_id b) supervisor (''system-escalation:'' @ d_id) s4) = Inr (s6, r)"
    and s': "s' = log_event e x s6"
    by (rule escalate_stages)
  then have "history_grows s s4" by (simp add: history_grows_def update_worksD(1) [OF s4])
  with history_message [OF s6] show ?thesis by (auto simp: s' intro: history_trans)
qed

lemmas history_intros = history_same history_message history_escalate

lemma history_abandon [simp]: "history_grows (abandon_lapsed e turn s) s' = history_grows s s'"
  by (simp add: abandon_lapsed_def split: option.split)

lemma history_advance:
  assumes "advance_incomplete_turn e i p g b turn s = Inr (s', out)"
  shows "history_grows s s'"
  using assms by (auto simp: advance_incomplete_turn_def Let_def bindE_Inr_iff split: if_splits option.splits
    dest!: history_message history_escalate)

lemma history_recover_abandoned:
  assumes "recover_abandoned_turn e t b s = Inr s'"
  shows "history_grows s s'"
  using assms by (auto simp: recover_abandoned_turn_def Let_def bindE_Inr_iff split: if_splits option.splits
    dest!: history_message history_escalate)

lemma history_recover_turns:
  assumes "recover_expired_reasoner_turns e s = Inr (s', n)"
  shows "history_grows s s'"
proof -
  from assms have "foldE (recover_expired_turn e) (s, 0) (expired_turns e s) = Inr (s', n)"
    by (simp add: recover_expired_reasoner_turns_def transaction_Inr_iff)
  then have "history_grows s (fst (s', n))"
  proof (rule foldE_invariant)
    show "history_grows s (fst (s, 0 :: int))" by (simp add: history_same)
    fix st tbw st' assume "history_grows s (fst st)" "recover_expired_turn e st tbw = Inr st'"
    then show "history_grows s (fst st')"
      by (auto simp: recover_expired_turn_def Let_def bindE_Inr_iff split: prod.splits if_splits
        dest!: history_recover_abandoned intro: history_trans)
  qed
  then show ?thesis by simp
qed

lemma history_step: "supervision_step s s' \<Longrightarrow> history_grows s s'"
proof (induction rule: supervision_step.induct)
  case (step_recover_notice e i p g s s' out)
  then show ?case
    by (auto simp: recover_incomplete_requester_escalation_tx_def rearm_notice_def retire_notice_def bindE_Inr_iff
      history_same split: option.splits if_splits dest!: history_message)
next
  case (step_recover_delivery e i p g b s s' out)
  then show ?case
    by (auto simp: recover_incomplete_reasoner_delivery_tx_def Let_def history_same split: option.splits if_splits
      dest!: history_advance)
next
  case (step_pause e actor w a bd s s')
  then show ?case by (intro history_same) (simp_all add: paused_state)
qed (auto intro: history_recover_turns history_escalate history_message)

lemma budget_falls: "history_grows s s' \<Longrightarrow> recovery_budget s' b \<le> recovery_budget s b"
  by (auto simp: history_grows_def recovery_budget_def disposed_def has_reasoner_recovery_tx_def)

lemma scheduled_spends:
  assumes "recover_incomplete_reasoner_delivery_tx e i p g b s = Inr (s', SCHEDULED)" and "recovery_key_fresh s i g"
  shows "recovery_budget s' b < recovery_budget s b"
proof -
  from assms(1) obtain bd turn where bd: "get_boundary s b = Some bd" and open_b: "\<not> disposed s b"
    and adv: "advance_incomplete_turn e i p g bd turn (abandon_lapsed e turn s) = Inr (s', SCHEDULED)"
    by (auto simp: recover_incomplete_reasoner_delivery_tx_def Let_def split: option.splits if_splits)
  from bd have id: "b_id bd = b" by (auto simp: get_boundary_def dest: fetchone_SomeD)
  let ?s = "abandon_lapsed e turn s"
  have same: "messages ?s = messages s" "dispositions ?s = dispositions s"
    by (simp_all add: abandon_lapsed_def split: option.split)
  show ?thesis
  proof (cases "has_reasoner_recovery_tx s b")
    case True
    with adv id obtain w d where "escalate_supervision_tx e bd w recovery_reason_code recovery_reason None '''' ?s = Inr (s', d)"
      by (auto simp: advance_incomplete_turn_def Let_def bindE_Inr_iff has_reasoner_recovery_tx_def same split: option.splits)
    note state = escalated_state(4,7) [OF this]
    have "dispositions s' = dispositions s @ [d]" "bd_boundary_id d = b"
      using state by (auto simp: same escalation_disposition_def id)
    then have "disposed s' b" by (simp add: disposed_def)
    with open_b show ?thesis by (simp add: recovery_budget_def)
  next
    case False
    let ?kvs = "[(''action'', jstr ''recover_incomplete_reasoner_turn''), (''boundary_id'', jstr b),
      (''boundary_kind'', jstr (boundary_kind_value (b_kind bd))), (''generation'', JInt (b_generation bd)),
      (''prior_turn_id'', jstr (str_or_empty (map_option rt_id turn)))]"
    let ?q = "system_request (b_source_principal_id bd) p (upayload ?kvs) (b_work_item_id bd)
              (b_attempt_id bd) (b_goal_version bd) (''reasoner-incomplete:'' @ i @ '':'' @ int_text g)"
    let ?s2 = "supersede_boundary_deliveries_tx e b p ''incomplete-reasoner-turn'' ?s"
    from False adv id obtain s3 r x where m: "message_tx e ?q ?s2 = Inr (s3, r)" and s': "s' = log_event e x s3"
      by (auto simp: advance_incomplete_turn_def Let_def bindE_Inr_iff has_reasoner_recovery_tx_def same
        system_reconciliation_notification_payload_def)
    have new: "existing_message ?s2 ?q = None"
      using assms(2) by (auto simp: existing_message_def system_request_def recovery_key_fresh_def same list_ex_iff fetchone_None_iff)
    from system_message_payload [OF m new, of "''action''" "''recover_incomplete_reasoner_turn''"]
      system_message_payload [OF m new, of "''boundary_id''" b]
    have "has_reasoner_recovery_tx s' b"
      by (auto simp: has_reasoner_recovery_tx_def s' upayload_def)
    moreover from False open_b have "recovery_budget s b = 2" by (simp add: recovery_budget_def)
    ultimately show ?thesis by (simp add: recovery_budget_def)
  qed
qed

text \<open>A run of the service in which the recovery of boundary \<open>b\<close> is scheduled \<open>n\<close> times.\<close>

inductive recovery_run :: "ident \<Rightarrow> nat \<Rightarrow> db \<Rightarrow> db \<Rightarrow> bool" where
  recovery_start: "recovery_run b 0 s s"
| recovery_other: "recovery_run b n s t \<Longrightarrow> supervision_step t t' \<Longrightarrow> recovery_run b n s t'"
| recovery_scheduled: "recovery_run b n s t \<Longrightarrow> recovery_key_fresh t i g \<Longrightarrow>
    recover_incomplete_reasoner_delivery_tx e i p g b t = Inr (t', SCHEDULED) \<Longrightarrow> recovery_run b (Suc n) s t'"

lemma recovery_run_budget: "recovery_run b n s t \<Longrightarrow> n + recovery_budget t b \<le> recovery_budget s b"
proof (induction rule: recovery_run.induct)
  case (recovery_other b n s t t')
  then show ?case using budget_falls [OF history_step, of t t' b] by simp
next
  case (recovery_scheduled b n s t i g e p t')
  then show ?case using scheduled_spends [of e i p g b t t'] by simp
qed simp


section \<open>A small supervised Work\<close>

definition sample_sup_work :: work_row where
  "sample_sup_work = \<lparr>w_id = ''w'', w_goal_version = 1, w_state = W_WAITING_SUPERVISOR, w_created_by = ''c'',
     w_requester_id = None, w_supervisor_id = Some ''c'', w_supervisor_attachment_id = Some ''t'', w_assigned_worker_id = ''k'',
     w_managed_worker_thread_id = None, w_managed_worker_thread_generation = None, w_user_needed_boundary_id = None,
     w_paused_boundary_id = None, w_operator_scope = ''production'', w_attention_owner = AO_CAO,
     w_generation = 2, w_suspended_by_work_item_id = None, w_created_at = 10, w_updated_at = 20\<rparr>"

definition sample_attempt :: attempt_row where
  "sample_attempt = \<lparr>a_id = ''a'', a_work_item_id = ''w'', a_attempt_number = 1, a_worker_id = ''k'',
     a_runtime_session_id = Some ''r'', a_goal_version = 1, a_goal_packet_digest = ''g'', a_task_packet_digest = ''p'',
     a_state = A_WORKING, a_trajectory = '''', a_evidence_confidence = ''unknown'', a_stage = [],
     a_next_boundary = [], a_completion_claim = JObj [], a_updated_at = 20\<rparr>"

definition sample_boundary :: boundary_row where
  "sample_boundary = \<lparr>b_id = ''b'', b_source_principal_id = ''k'', b_source_event_id = ''ev'', b_work_item_id = ''w'',
     b_attempt_id = ''a'', b_goal_version = 1, b_generation = 2, b_goal_packet_digest = ''g'', b_task_packet_digest = ''p'',
     b_kind = IDLE, b_summary = [], b_runtime_state = R_READY, b_metadata = JObj [], b_recovery_action = '''',
     b_input_digest = '''', b_created_at = 30\<rparr>"

definition sample_notice :: message_row where
  "sample_notice = sample_message\<lparr>m_id := ''n'', m_sender_id := ''k'', m_kind := SYSTEM, m_work_item_id := Some ''w'',
     m_attempt_id := Some ''a'', m_payload := jobj [(''boundary_id'', jstr ''b'')], m_goal_version := Some 1,
     m_goal_packet_digest := ''g'', m_task_packet_digest := ''p''\<rparr>"

definition sample_command :: message_row where
  "sample_command = sample_message\<lparr>m_sequence := 2, m_id := ''m'', m_kind := ASSIGNMENT, m_work_item_id := Some ''w''\<rparr>"

definition sample_sup_db :: db where
  "sample_sup_db = empty_db\<lparr>
     metadata := [(''conversation_mcp_catalog_digest'', ''cat''), (''conversation_mcp_proxy_abi_version'', int_text 1)],
     principals := [\<lparr>p_id = ''c'', p_role = CAO, p_enabled = True, p_operator_scope = ''production''\<rparr>,
       \<lparr>p_id = ''k'', p_role = WORKER, p_enabled = True, p_operator_scope = ''production''\<rparr>],
     works := [sample_sup_work], attempts := [sample_attempt], boundaries := [sample_boundary],
     goal_revisions := [\<lparr>gr_work_item_id = ''w'', gr_version = 1, gr_objective = [], gr_maturity = ''final'',
       gr_acceptance = JArr [], gr_non_goals = JArr [], gr_packet = JObj [], gr_packet_digest = ''g''\<rparr>],
     attachments := [\<lparr>ca_id = ''t'', ca_principal_id = ''c'', ca_runtime_session_id = ''rc'', ca_native_thread_id = '''',
       ca_project_digest = '''', ca_project_scope_digest = '''', ca_state = ''active'', ca_generation = 1, ca_lease_expires_at = 900\<rparr>],
     connections := [\<lparr>cc_id = ''x'', cc_attachment_id = ''t'', cc_principal_id = ''c'', cc_generation = 1,
       cc_connection_generation = 1, cc_proxy_catalog_digest = ''cat'', cc_proxy_abi_version = 1, cc_state = ''active'',
       cc_lease_expires_at = 900\<rparr>],
     messages := [sample_notice, sample_command], message_sequence := 2,
     deliveries := [(sample_delivery DELIVERED None '''')\<lparr>d_message_id := ''n'', d_recipient_id := ''c'',
         d_recipient_attachment_id := Some ''t''\<rparr>,
       (sample_delivery QUEUED None '''')\<lparr>d_recipient_id := ''k''\<rparr>]\<rparr>"

definition sample_turn :: turn_row where
  "sample_turn = \<lparr>rt_id = ''q'', rt_supervisor_id = ''c'', rt_work_item_id = ''w'', rt_boundary_id = ''b'',
     rt_generation = 2, rt_goal_version = 1, rt_goal_packet_digest = ''g'', rt_task_packet_digest = ''p'',
     rt_input_digest = '''', rt_result_digest = '''', rt_state = TURN_COMPLETED, rt_lease_token_digest = '''',
     rt_lease_expires_at = 90, rt_idempotency_key = '''', rt_completed_at = Some 95, rt_created_at = 80, rt_updated_at = 95\<rparr>"

text \<open>The same Work after its supervisor decided to pause it.\<close>

definition sample_decided_db :: db where
  "sample_decided_db = sample_sup_db\<lparr>reasoner_turns := [sample_turn],
     dispositions := [\<lparr>bd_id = ''d'', bd_boundary_id = ''b'', bd_reasoner_turn_id = ''q'', bd_decided_by = ''c'',
       bd_generation = 2, bd_kind = PAUSE, bd_reason = u ''maintenance'', bd_instruction = [],
       bd_resume_condition = u ''window closes'', bd_request_digest = '''', bd_created_at = 95\<rparr>]\<rparr>"

lemmas sample_sup_defs = sample_sup_db_def sample_decided_db_def sample_sup_work_def sample_attempt_def sample_boundary_def
  sample_notice_def sample_command_def sample_turn_def sample_defs

lemma sample_pause_works: "\<exists>s'. pause_work_tx sample_env ''c'' sample_sup_work sample_attempt sample_boundary sample_decided_db = Inr s'"
  by (simp add: pause_work_tx_def require_pause_safe_tx_def require_not_paused_def sample_sup_defs runtime_executing_def
    pending_capture_def work_delivery_def delivery_unsettled_def effect_unsettled_def sibling_boundary_def disposed_def
    insert_pause_def new_pause_def pause_record_binding_def decided_def packet_attempt_def is_cao_def superseded_def
    pause_insert_current_def later_attempt_def Let_def update_works_def pause_fence_def paused_work_def work_update_ok_def
    fires_def user_needed_contract_def pause_exact_ok_def pause_pointer_ok_def paused_pointer_bound_def resumed_def
    sql_nonblank_def u_def)

lemma sample_decided_reads [simp]:
  "get_work sample_decided_db ''w'' = Some sample_sup_work" "w_id sample_sup_work = ''w''"
  "distinct (map a_id (attempts sample_decided_db))" "a_id sample_attempt = ''a''" "b_id sample_boundary = ''b''"
  "get_work sample_sup_db ''w'' = Some sample_sup_work" "get_boundary sample_sup_db ''b'' = Some sample_boundary"
  "b_work_item_id sample_boundary = ''w''"
  by (simp_all add: sample_sup_defs get_work_def get_boundary_def)

lemma supervision_refines_ledger_witness:
  "\<exists>s'. pause_work_tx sample_env ''c'' sample_sup_work sample_attempt sample_boundary sample_decided_db = Inr s'
     \<and> ledger_step\<^sup>*\<^sup>* sample_decided_db s' \<and> supervision_pointers_ok s'"
proof -
  from sample_pause_works obtain s' where
    p: "pause_work_tx sample_env ''c'' sample_sup_work sample_attempt sample_boundary sample_decided_db = Inr s'" by blast
  have "supervision_pointers_ok sample_decided_db"
    by (simp add: supervision_pointers_ok_def sample_sup_defs user_needed_contract_def pause_pointer_held_def)
  with supervision_refines_ledger [OF r_into_rtranclp [of supervision_step, OF step_pause [OF p]]] p
  show ?thesis by blast
qed

lemma pause_quiets_work_witness:
  "\<exists>s'. pause_work_tx sample_env ''c'' sample_sup_work sample_attempt sample_boundary sample_decided_db = Inr s'
     \<and> (\<exists>w'. get_work s' ''w'' = Some w' \<and> w_state w' = W_SUSPENDED \<and> w_generation w' = 3)"
proof -
  from sample_pause_works obtain s' where
    p: "pause_work_tx sample_env ''c'' sample_sup_work sample_attempt sample_boundary sample_decided_db = Inr s'" by blast
  have "w_generation sample_sup_work = 2" by (simp add: sample_sup_work_def)
  with pause_quiets_work [OF p] p show ?thesis by auto
qed

lemma pause_read_back_witness:
  "\<exists>s' w' v. pause_work_tx sample_env ''c'' sample_sup_work sample_attempt sample_boundary sample_decided_db = Inr s'
     \<and> pause_view_tx s' w' = Inr (Some v) \<and> pv_reason v = u ''maintenance''"
proof -
  from sample_pause_works obtain s' where
    p: "pause_work_tx sample_env ''c'' sample_sup_work sample_attempt sample_boundary sample_decided_db = Inr s'" by blast
  from paused_state(15) [OF p] have "get_work s' (w_id sample_sup_work) = Some (paused_work sample_env ''b'' sample_sup_work)"
    by simp
  moreover have "get_work sample_decided_db (w_id sample_sup_work) = Some sample_sup_work" by simp
  ultimately obtain d v where d: "fetchone (\<lambda>d. bd_boundary_id d = b_id sample_boundary) (dispositions sample_decided_db) = Some d"
    and v: "pause_view_tx s' (paused_work sample_env ''b'' sample_sup_work) = Inr (Some v)" "pv_reason v = bd_reason d"
    using pause_read_back [OF p _ sample_decided_reads(3)] by fastforce
  from d have "bd_reason d = u ''maintenance''" by (auto simp: sample_decided_db_def)
  with p v show ?thesis by metis
qed

lemma sample_escalation:
  "\<exists>s' d. escalate_supervision_tx sample_env sample_boundary sample_sup_work recovery_reason_code recovery_reason None ''''
     sample_sup_db = Inr (s', d)"
  by (simp add: escalate_supervision_tx_def Let_def insert_turn_def escalation_turn_def turn_clash_def insert_disposition_def
    escalation_disposition_def superseded_def update_works_def user_needed_work_def input_required_attempt_def work_update_ok_def
    fires_def user_needed_contract_def wait_user_pointer_ok_def wait_user_binding_def packet_attempt_def later_attempt_def
    decided_def continued_def pause_exact_ok_def
    supersede_boundary_deliveries_tx_def boundary_delivery_rows_tx_def boundary_message_def get_boundary_def
    superseded_delivery_def addressed_def delivery_key_def abandoned_turn_def
    message_tx_def system_request_def upayload_def escalation_payload_def
    request_recipients_def bind_packets_def bind_attempt_def unbound_def given_def bound_payload_def digest_field_def
    purposed_payload_def existing_message_def create_message_def new_message_def insert_message_def dangling_def
    route_delivery_def choose_runtime_def supervisor_runtime_def get_work_def insert_delivery_def attachment_exact_def
    new_delivery_def message_bundle_def get_message_def sample_sup_defs)

lemma escalation_hands_over_witness:
  "\<exists>s' d w'. escalate_supervision_tx sample_env sample_boundary sample_sup_work recovery_reason_code recovery_reason None ''''
     sample_sup_db = Inr (s', d) \<and> get_work s' ''w'' = Some w' \<and> w_user_needed_boundary_id w' = Some ''b''"
proof -
  from sample_escalation obtain s' d where
    e: "escalate_supervision_tx sample_env sample_boundary sample_sup_work recovery_reason_code recovery_reason None ''''
      sample_sup_db = Inr (s', d)" by blast
  from escalation_hands_over [OF e] e show ?thesis by auto
qed

lemma sample_recovery:
  "\<exists>s'. recover_incomplete_reasoner_delivery_tx sample_env ''n'' ''c'' 1 ''b'' sample_sup_db = Inr (s', SCHEDULED)"
  by (simp add: recover_incomplete_reasoner_delivery_tx_def get_boundary_def disposed_def superseded_def continued_def
    get_message_def get_delivery_def current_boundary_delivery_def boundary_message_def recovery_open_def newer_notification_def
    cao_automatic_wake_ready_tx_def cao_automatic_wake_ready_def lapsed_turn_def abandon_lapsed_def advance_incomplete_turn_def
    has_reasoner_recovery_tx_def Let_def system_reconciliation_notification_payload_def
    supersede_boundary_deliveries_tx_def boundary_delivery_rows_tx_def superseded_delivery_def addressed_def
    message_tx_def system_request_def upayload_def
    request_recipients_def bind_packets_def bind_attempt_def unbound_def given_def bound_payload_def digest_field_def
    purposed_payload_def existing_message_def create_message_def new_message_def insert_message_def dangling_def
    route_delivery_def choose_runtime_def supervisor_runtime_def get_work_def insert_delivery_def attachment_exact_def
    new_delivery_def message_bundle_def sample_sup_defs delivery_key_def)


end
