(* ===== verification/Secrets.thy ===== *)
theory Secrets
  imports Json
begin

text \<open>
  The bearer secrets of the control plane, after \<open>security.py\<close>: the pattern
  \<open>CONTROL_PLANE_SECRET_PATTERN\<close>, the search for it in JSON-like data, the redaction of
  what is shown or logged, and the validation details that never reflect a submitted value.

  The pattern is deterministic (a token run is followed by a full stop, which is no token
  character, and no prefix begins another), so the backtracking matcher is a left-to-right
  scan. \<open>secret_form\<close> says what the pattern denotes, and \<open>secret_rest_iff\<close> that the scan
  finds exactly that.
\<close>

section \<open>The pattern\<close>

definition token_char :: "nat \<Rightarrow> bool" where
  "token_char c = (65 \<le> c \<and> c \<le> 90 \<or> 97 \<le> c \<and> c \<le> 122 \<or> 48 \<le> c \<and> c \<le> 57 \<or> c = 95 \<or> c = 45)"

definition secret_prefixes :: "pystr list" where
  "secret_prefixes = map u [''prn_'', ''rtc_'', ''ent_'', ''crc_'', ''catk_'', ''csc_'', ''cab_'']"

fun strip_prefix :: "pystr \<Rightarrow> pystr \<Rightarrow> pystr option" where
  "strip_prefix [] t = Some t"
| "strip_prefix (p # ps) [] = None"
| "strip_prefix (p # ps) (c # t) = (if p = c then strip_prefix ps t else None)"

text \<open>What follows a secret that starts here, if one does.\<close>

definition token_rest :: "pystr \<Rightarrow> pystr option" where
  "token_rest t = (if takeWhile token_char t = [] then None else Some (dropWhile token_char t))"

definition secret_body :: "pystr \<Rightarrow> pystr option" where
  "secret_body t = (case token_rest t of
     Some (c # r) \<Rightarrow> if c = 46 then token_rest r else None
   | _ \<Rightarrow> None)"

definition secret_rest :: "pystr \<Rightarrow> pystr option" where
  "secret_rest t = (case strip_prefix (u ''cao.'') t of
     None \<Rightarrow> None
   | Some r \<Rightarrow> (case List.find (\<lambda>p. strip_prefix p r \<noteq> None) secret_prefixes of
        None \<Rightarrow> None
      | Some p \<Rightarrow> secret_body (drop (length p) r)))"

fun has_secret :: "pystr \<Rightarrow> bool" where
  "has_secret [] = False"
| "has_secret (c # t) = (secret_rest (c # t) \<noteq> None \<or> has_secret t)"

text \<open>\<open>contains_control_plane_secret\<close>: texts anywhere in the data, mapping keys included.\<close>

fun contains_control_plane_secret :: "json \<Rightarrow> bool" where
  "contains_control_plane_secret (JStr t) = has_secret t"
| "contains_control_plane_secret (JArr vs) = list_ex contains_control_plane_secret vs"
| "contains_control_plane_secret (JObj kvs) = list_ex (\<lambda>(k, v). has_secret k \<or> contains_control_plane_secret v) kvs"
| "contains_control_plane_secret _ = False"

section \<open>Redaction\<close>

definition secret_redaction :: pystr where
  "secret_redaction = u ''[control-plane-credential-redacted]''"

lemma strip_prefix_length: "strip_prefix p t = Some r \<Longrightarrow> t = p @ r"
  by (induction p t rule: strip_prefix.induct) (auto split: if_splits)

lemma strip_prefix_append [simp]: "strip_prefix p (p @ t) = Some t"
  by (induction p) simp_all

lemma strip_prefix_iff: "strip_prefix p t = Some r \<longleftrightarrow> t = p @ r"
  using strip_prefix_length strip_prefix_append by blast

lemma token_rest_shorter: "token_rest t = Some r \<Longrightarrow> length r < length t"
proof -
  assume "token_rest t = Some r"
  then have "takeWhile token_char t \<noteq> []" "r = dropWhile token_char t"
    by (auto simp: token_rest_def split: if_splits)
  moreover have "length t = length (takeWhile token_char t) + length (dropWhile token_char t)"
    by (metis length_append takeWhile_dropWhile_id)
  ultimately show ?thesis by simp
qed

lemma secret_rest_shorter: "secret_rest t = Some r \<Longrightarrow> length r < length t"
  by (auto simp: secret_rest_def secret_body_def strip_prefix_iff
    split: option.splits list.splits if_splits dest!: token_rest_shorter)

function redact_text :: "pystr \<Rightarrow> pystr" where
  "redact_text t = (case t of
     [] \<Rightarrow> []
   | c # r \<Rightarrow> (case secret_rest t of Some rest \<Rightarrow> secret_redaction @ redact_text rest | None \<Rightarrow> c # redact_text r))"
  by pat_completeness auto

termination
  by (relation "measure length") (auto dest: secret_rest_shorter)

declare redact_text.simps [simp del]

definition dict_of :: "(pystr \<times> json) list \<Rightarrow> (pystr \<times> json) list" where
  "dict_of kvs = foldl (\<lambda>acc (k, v). put_key acc k v) [] kvs"

fun redact_control_plane_secrets :: "json \<Rightarrow> json" where
  "redact_control_plane_secrets (JStr t) = JStr (redact_text t)"
| "redact_control_plane_secrets (JArr vs) = JArr (map redact_control_plane_secrets vs)"
| "redact_control_plane_secrets (JObj kvs) =
     JObj (dict_of (map (\<lambda>(k, v). (redact_text k, redact_control_plane_secrets v)) kvs))"
| "redact_control_plane_secrets v = v"

section \<open>Validation details\<close>

text \<open>
  \<open>safe_validation_details\<close>: of each item only a redacted text under \<open>msg\<close> and \<open>type\<close>, and
  a location only when its root is a trusted one. The parts of a location are texts and numbers.
\<close>

definition redacted_field :: "string \<Rightarrow> json \<Rightarrow> (pystr \<times> json) list" where
  "redacted_field field item = (case jget item field of Some (JStr t) \<Rightarrow> [(u field, JStr (redact_text t))] | _ \<Rightarrow> [])"

definition location_field :: "pystr list \<Rightarrow> pystr option \<Rightarrow> json \<Rightarrow> (pystr \<times> json) list" where
  "location_field roots default_location item = (case jget item ''loc'' of
     Some (JArr (JStr root # _)) \<Rightarrow> if root \<in> set roots then [(u ''loc'', JArr [JStr root])]
        else (case default_location of Some d \<Rightarrow> [(u ''loc'', JArr [JStr d])] | None \<Rightarrow> [])
   | _ \<Rightarrow> (case default_location of Some d \<Rightarrow> [(u ''loc'', JArr [JStr d])] | None \<Rightarrow> []))"

definition safe_validation_details :: "pystr list \<Rightarrow> pystr option \<Rightarrow> json list \<Rightarrow> json list" where
  "safe_validation_details roots default_location errs =
     map (\<lambda>item. JObj (redacted_field ''msg'' item @ redacted_field ''type'' item
       @ location_field roots default_location item)) errs"

section \<open>The scan finds the pattern\<close>

definition secret_form :: "pystr \<Rightarrow> bool" where
  "secret_form m = (\<exists>p body x. p \<in> set secret_prefixes \<and> body \<noteq> [] \<and> list_all token_char body \<and> token_char x
     \<and> m = u ''cao.'' @ p @ body @ [46, x])"

lemma token_char_dot [simp]: "\<not> token_char 46" "\<not> token_char 91"
  by (simp_all add: token_char_def)

lemma takeWhile_run: "list_all P b \<Longrightarrow> \<not> P x \<Longrightarrow> takeWhile P (b @ x # t) = b \<and> dropWhile P (b @ x # t) = x # t"
  by (induction b) auto

lemma secret_body_iff:
  "secret_body t \<noteq> None \<longleftrightarrow> (\<exists>body x r. body \<noteq> [] \<and> list_all token_char body \<and> token_char x \<and> t = body @ [46, x] @ r)"
proof
  assume "secret_body t \<noteq> None"
  then obtain r where t: "takeWhile token_char t \<noteq> []" "dropWhile token_char t = 46 # r" "takeWhile token_char r \<noteq> []"
    by (auto simp: secret_body_def token_rest_def split: option.splits list.splits if_splits)
  from t(3) obtain x r' where r: "r = x # r'" "token_char x" by (cases r) (auto split: if_splits)
  have "t = takeWhile token_char t @ [46, x] @ r'"
    using takeWhile_dropWhile_id [of token_char t] t(2) r(1) by simp
  moreover have "list_all token_char (takeWhile token_char t)"
    by (auto simp: list_all_iff dest: set_takeWhileD)
  ultimately show "\<exists>body x r. body \<noteq> [] \<and> list_all token_char body \<and> token_char x \<and> t = body @ [46, x] @ r"
    using t(1) r(2) by blast
next
  assume "\<exists>body x r. body \<noteq> [] \<and> list_all token_char body \<and> token_char x \<and> t = body @ [46, x] @ r"
  then obtain body x r where t: "body \<noteq> []" "list_all token_char body" "token_char x" "t = body @ 46 # x # r" by auto
  then show "secret_body t \<noteq> None"
    using takeWhile_run [of token_char body 46 "x # r"] by (simp add: secret_body_def token_rest_def)
qed

lemma prefix_unique:
  "p \<in> set secret_prefixes \<Longrightarrow> q \<in> set secret_prefixes \<Longrightarrow> strip_prefix q (p @ t) \<noteq> None \<Longrightarrow> q = p"
  by (auto simp: secret_prefixes_def u_def)

lemma secret_rest_iff: "secret_rest t \<noteq> None \<longleftrightarrow> (\<exists>m r. secret_form m \<and> t = m @ r)"
proof
  assume "secret_rest t \<noteq> None"
  then obtain r p where t1: "t = u ''cao.'' @ r" "List.find (\<lambda>p. strip_prefix p r \<noteq> None) secret_prefixes = Some p"
    "secret_body (drop (length p) r) \<noteq> None"
    unfolding secret_rest_def strip_prefix_iff [symmetric] by (auto split: option.splits)
  then have t: "t = u ''cao.'' @ r" "p \<in> set secret_prefixes" "strip_prefix p r \<noteq> None"
    "secret_body (drop (length p) r) \<noteq> None"
    by (auto simp: find_Some_iff nth_mem)
  then have r: "r = p @ drop (length p) r" by (auto simp: strip_prefix_iff)
  with t(4) obtain body x r' where "body \<noteq> []" "list_all token_char body" "token_char x" "r = p @ body @ [46, x] @ r'"
    unfolding secret_body_iff by metis
  with t(1,2) have "secret_form (u ''cao.'' @ p @ body @ [46, x])" "t = (u ''cao.'' @ p @ body @ [46, x]) @ r'"
    by (auto simp: secret_form_def)
  then show "\<exists>m r. secret_form m \<and> t = m @ r" by blast
next
  assume "\<exists>m r. secret_form m \<and> t = m @ r"
  then obtain p body x r where p: "p \<in> set secret_prefixes" and t: "t = u ''cao.'' @ p @ body @ [46, x] @ r"
    and b: "body \<noteq> []" "list_all token_char body" "token_char x"
    by (auto simp: secret_form_def)
  let ?r = "p @ body @ [46, x] @ r"
  obtain q where q: "List.find (\<lambda>p. strip_prefix p ?r \<noteq> None) secret_prefixes = Some q"
  proof (cases "List.find (\<lambda>p. strip_prefix p ?r \<noteq> None) secret_prefixes")
    case None
    with p show ?thesis by (auto simp: find_None_iff)
  qed blast
  then have "q \<in> set secret_prefixes" "strip_prefix q ?r \<noteq> None" by (auto simp: find_Some_iff)
  with p have "q = p" by (metis prefix_unique)
  moreover have "secret_body (body @ [46, x] @ r) \<noteq> None" unfolding secret_body_iff using b by blast
  ultimately show "secret_rest t \<noteq> None"
    using q by (simp add: secret_rest_def t)
qed

lemma has_secret_iff: "has_secret t \<longleftrightarrow> (\<exists>l m r. secret_form m \<and> t = l @ m @ r)"
proof (induction t)
  case Nil
  then show ?case by (auto simp: secret_form_def u_def)
next
  case (Cons c t)
  have "secret_form m \<Longrightarrow> m \<noteq> []" for m by (auto simp: secret_form_def)
  then show ?case
    unfolding has_secret.simps secret_rest_iff Cons
    by (auto simp: Cons_eq_append_conv) blast+
qed

section \<open>Redaction leaves no secret\<close>

lemma secret_form_no_bracket: "secret_form m \<Longrightarrow> 91 \<notin> set m"
proof -
  assume "secret_form m"
  then obtain p body x where m: "p \<in> set secret_prefixes" "list_all token_char body" "token_char x"
    "m = u ''cao.'' @ p @ body @ [46, x]" by (auto simp: secret_form_def)
  from m(2,3) have "91 \<notin> set body" "x \<noteq> 91" by (auto simp: list_all_iff)
  moreover from m(1) have "91 \<notin> set p" by (auto simp: secret_prefixes_def u_def)
  ultimately show ?thesis by (simp add: m(4) u_def)
qed

text \<open>A match ends before the first redaction after it, so it stands in the original text as well.\<close>

lemma match_before_bracket:
  assumes "secret_form m" "m @ r = w @ 91 # y"
  shows "\<exists>v. w = m @ v"
proof -
  from assms(2) consider us where "w = m @ us" | us where "m = w @ us" "us @ r = 91 # y"
    by (auto simp: append_eq_append_conv2)
  then show ?thesis
  proof cases
    case 2
    with secret_form_no_bracket [OF assms(1)] show ?thesis by (cases us) auto
  qed blast
qed

lemma redact_text_shape:
  "redact_text t = t \<or> (\<exists>w y z. t = w @ z \<and> redact_text t = w @ 91 # y)"
proof (induction t rule: redact_text.induct)
  case (1 t)
  show ?case
  proof (cases t)
    case Nil
    then show ?thesis by (simp add: redact_text.simps)
  next
    case (Cons c r)
    show ?thesis
    proof (cases "secret_rest t")
      case None
      then have t: "redact_text t = c # redact_text r" by (subst redact_text.simps) (simp add: Cons)
      from 1(1) [OF Cons None] show ?thesis
      proof
        assume "\<exists>w y z. r = w @ z \<and> redact_text r = w @ 91 # y"
        then obtain w y z where "t = (c # w) @ z" "redact_text t = (c # w) @ 91 # y" using t Cons by auto
        then show ?thesis by blast
      qed (use t Cons in simp)
    next
      case (Some rest)
      then have "redact_text t = [] @ 91 # tl secret_redaction @ redact_text rest"
        by (subst redact_text.simps) (simp add: Cons secret_redaction_def u_def)
      then show ?thesis by (metis append_Nil)
    qed
  qed
qed

lemma secret_rest_redacted:
  assumes "secret_rest (c # t) = None"
  shows "secret_rest (c # redact_text t) = None"
proof (rule ccontr)
  assume "secret_rest (c # redact_text t) \<noteq> None"
  then obtain m r where m: "secret_form m" "c # redact_text t = m @ r" unfolding secret_rest_iff by blast
  with assms have "redact_text t \<noteq> t" using secret_rest_iff by metis
  with redact_text_shape obtain w y z where w: "t = w @ z" "redact_text t = w @ 91 # y" by blast
  with m(2) have "m @ r = (c # w) @ 91 # y" by simp
  from match_before_bracket [OF m(1) this] w(1) obtain v where "c # t = m @ v @ z" by auto
  with m(1) assms show False using secret_rest_iff by blast
qed

lemma has_secret_redaction [simp]: "has_secret (secret_redaction @ t) = has_secret t"
  by (simp add: secret_redaction_def u_def secret_rest_def)

lemma redact_text_clean: "\<not> has_secret (redact_text t)"
proof (induction t rule: redact_text.induct)
  case (1 t)
  then show ?case
    by (cases t; subst redact_text.simps) (auto simp: secret_rest_redacted split: option.splits)
qed

lemma redact_text_id: "\<not> has_secret t \<Longrightarrow> redact_text t = t"
  by (induction t) (auto simp: redact_text.simps)

lemma put_key_clean:
  "list_ex (\<lambda>(k, v). has_secret k \<or> contains_control_plane_secret v) (put_key kvs k v) \<Longrightarrow>
     list_ex (\<lambda>(k, v). has_secret k \<or> contains_control_plane_secret v) kvs \<or> has_secret k \<or> contains_control_plane_secret v"
  by (induction kvs) (auto split: if_splits)

lemma dict_of_clean:
  assumes "list_all (\<lambda>(k, v). \<not> has_secret k \<and> \<not> contains_control_plane_secret v) kvs"
  shows "\<not> contains_control_plane_secret (JObj (dict_of kvs))"
proof -
  have "\<not> list_ex (\<lambda>(k, v). has_secret k \<or> contains_control_plane_secret v) acc \<Longrightarrow>
      \<not> list_ex (\<lambda>(k, v). has_secret k \<or> contains_control_plane_secret v) (foldl (\<lambda>acc (k, v). put_key acc k v) acc kvs)" for acc
    using assms by (induction kvs arbitrary: acc) (auto dest: put_key_clean)
  from this [of "[]"] show ?thesis by (simp add: dict_of_def)
qed

text \<open>Keys that are distinct stay as they are.\<close>

lemma put_key_new: "k \<notin> fst ` set kvs \<Longrightarrow> put_key kvs k v = kvs @ [(k, v)]"
  by (induction kvs) auto

lemma dict_of_distinct: "distinct (map fst kvs) \<Longrightarrow> dict_of kvs = kvs"
proof -
  have "distinct (map fst (acc @ kvs)) \<Longrightarrow> foldl (\<lambda>acc (k, v). put_key acc k v) acc kvs = acc @ kvs" for acc
    by (induction kvs arbitrary: acc) (auto simp: put_key_new)
  from this [of "[]"] show "distinct (map fst kvs) \<Longrightarrow> dict_of kvs = kvs" by (simp add: dict_of_def)
qed

fun json_dict :: "json \<Rightarrow> bool" where
  "json_dict (JArr vs) = list_all json_dict vs"
| "json_dict (JObj kvs) = (distinct (map fst kvs) \<and> list_all (\<lambda>(k, v). json_dict v) kvs)"
| "json_dict _ = True"

lemma redact_clean: "\<not> contains_control_plane_secret (redact_control_plane_secrets v)"
proof (induction v rule: redact_control_plane_secrets.induct)
  case (3 kvs)
  have "list_all (\<lambda>(k, v). \<not> has_secret k \<and> \<not> contains_control_plane_secret v)
      (map (\<lambda>(k, v). (redact_text k, redact_control_plane_secrets v)) kvs)"
    using 3 by (fastforce simp: list_all_iff redact_text_clean)
  then show ?case using dict_of_clean by simp
qed (auto simp: list_ex_iff redact_text_clean)

lemma redact_same: "json_dict v \<Longrightarrow> \<not> contains_control_plane_secret v \<Longrightarrow> redact_control_plane_secrets v = v"
proof (induction v rule: redact_control_plane_secrets.induct)
  case (2 vs)
  then show ?case by (auto simp: list_ex_iff list_all_iff intro!: map_idI)
next
  case (3 kvs)
  have "map (\<lambda>(k, v). (redact_text k, redact_control_plane_secrets v)) kvs = kvs"
  proof (rule map_idI, clarify)
    fix k v assume kv: "(k, v) \<in> set kvs"
    with 3(2,3) have "json_dict v" "\<not> has_secret k" "\<not> contains_control_plane_secret v"
      by (auto simp: list_ex_iff list_all_iff)
    with 3(1) [OF kv refl] show "redact_text k = k \<and> redact_control_plane_secrets v = v"
      by (simp add: redact_text_id)
  qed
  then show ?case using 3 by (simp add: dict_of_distinct)
qed (simp_all add: redact_text_id)

text \<open>C34: Redaction removes every bearer secret and nothing else. Whatever data is shown or logged, no text
  or mapping key of the redacted data contains a control-plane secret (the replacement can not
  complete a new one either), and data without a secret is shown exactly as it is.\<close>

theorem redaction_exact:
  assumes "json_dict v"
  shows "\<not> contains_control_plane_secret (redact_control_plane_secrets v)
    \<and> (redact_control_plane_secrets v = v \<longleftrightarrow> \<not> contains_control_plane_secret v)"
  using assms redact_clean redact_same by metis

lemma redaction_exact_witness:
  "redact_control_plane_secrets (jobj [(''token'', jstr ''cao.prn_abc.xyz''), (''n'', JInt 1)])
     \<noteq> jobj [(''token'', jstr ''cao.prn_abc.xyz''), (''n'', JInt 1)]"
proof -
  have "json_dict (jobj [(''token'', jstr ''cao.prn_abc.xyz''), (''n'', JInt 1)])"
    by (simp add: jobj_def jstr_def)
  moreover have "secret_form (u ''cao.'' @ u ''prn_'' @ u ''abc'' @ [46, 120])"
    unfolding secret_form_def
    by (intro exI [of _ "u ''prn_''"] exI [of _ "u ''abc''"] exI [of _ 120])
      (simp add: secret_prefixes_def u_def token_char_def)
  then have "has_secret ([] @ (u ''cao.'' @ u ''prn_'' @ u ''abc'' @ [46, 120]) @ u ''yz'')"
    unfolding has_secret_iff by blast
  then have "has_secret (u ''cao.prn_abc.xyz'')" by (simp add: u_def)
  then have "contains_control_plane_secret (jobj [(''token'', jstr ''cao.prn_abc.xyz''), (''n'', JInt 1)])"
    by (simp add: jobj_def jstr_def)
  ultimately show ?thesis using redaction_exact by blast
qed

end
