(* ===== verification/Credentials.thy ===== *)
theory Credentials
  imports Secrets Errors
begin

text \<open>
  \<open>contains_generic_credential_text\<close> of \<open>security.py\<close>: token and key patterns of other
  providers, and credentials embedded in URLs. The patterns are kept as regular expressions
  (\<open>rx\<close>) and searched by a matcher that returns every position a match can end at; the
  relation \<open>rx_match\<close> is what a pattern means, and the two are shown to agree.

  The character tables of the standard library that depend on the Unicode version are
  parameters: the NFKC form of a text, the alphanumeric characters outside ASCII, and the
  bracketed hosts \<open>urlsplit\<close> accepts.
\<close>

record text_tables =
  tt_nfkc :: "pystr \<Rightarrow> pystr"
  tt_alnum :: "nat \<Rightarrow> bool"
  tt_bracketed :: "pystr \<Rightarrow> bool"

section \<open>Regular expressions\<close>

datatype rx = Eps | Class "nat \<Rightarrow> bool" | Seq rx rx | Alt rx rx | Many rx | Bound

text \<open>A position: the character before it, if any, and the text after it.\<close>

type_synonym position = "nat option \<times> pystr"

definition boundary :: "(nat \<Rightarrow> bool) \<Rightarrow> position \<Rightarrow> bool" where
  "boundary w p = ((case fst p of None \<Rightarrow> False | Some c \<Rightarrow> w c) \<noteq> (case snd p of [] \<Rightarrow> False | c # _ \<Rightarrow> w c))"

fun advance :: "(nat \<Rightarrow> bool) \<Rightarrow> position \<Rightarrow> position list" where
  "advance q (_, []) = []"
| "advance q (_, c # t) = (if q c then [(Some c, t)] else [])"

function ends :: "(nat \<Rightarrow> bool) \<Rightarrow> rx \<Rightarrow> position \<Rightarrow> position list" where
  "ends w Eps p = [p]"
| "ends w (Class q) p = advance q p"
| "ends w Bound p = (if boundary w p then [p] else [])"
| "ends w (Seq r1 r2) p = concat (map (ends w r2) (ends w r1 p))"
| "ends w (Alt r1 r2) p = ends w r1 p @ ends w r2 p"
| "ends w (Many r) p = p # concat (map (ends w (Many r)) (filter (\<lambda>q. length (snd q) < length (snd p)) (ends w r p)))"
  by pat_completeness auto

termination
  by (relation "measures [\<lambda>(w, r, p). size r, \<lambda>(w, r, p). length (snd p)]") auto

declare ends.simps(6) [simp del]

fun rx_found :: "(nat \<Rightarrow> bool) \<Rightarrow> rx \<Rightarrow> nat option \<Rightarrow> pystr \<Rightarrow> bool" where
  "rx_found w r prev [] = (ends w r (prev, []) \<noteq> [])"
| "rx_found w r prev (c # t) = (ends w r (prev, c # t) \<noteq> [] \<or> rx_found w r (Some c) t)"

definition rx_search :: "(nat \<Rightarrow> bool) \<Rightarrow> rx \<Rightarrow> pystr \<Rightarrow> bool" where
  "rx_search w r t = rx_found w r None t"

section \<open>What a pattern means\<close>

inductive rx_match :: "(nat \<Rightarrow> bool) \<Rightarrow> rx \<Rightarrow> position \<Rightarrow> position \<Rightarrow> bool" for w where
  match_eps: "rx_match w Eps p p"
| match_class: "q c \<Longrightarrow> rx_match w (Class q) (prev, c # t) (Some c, t)"
| match_bound: "boundary w p \<Longrightarrow> rx_match w Bound p p"
| match_seq: "rx_match w r1 p q \<Longrightarrow> rx_match w r2 q q' \<Longrightarrow> rx_match w (Seq r1 r2) p q'"
| match_left: "rx_match w r1 p q \<Longrightarrow> rx_match w (Alt r1 r2) p q"
| match_right: "rx_match w r2 p q \<Longrightarrow> rx_match w (Alt r1 r2) p q"
| match_none: "rx_match w (Many r) p p"
| match_more: "rx_match w r p q \<Longrightarrow> rx_match w (Many r) q q' \<Longrightarrow> rx_match w (Many r) p q'"

inductive_simps match_simps: "rx_match w Eps p q" "rx_match w (Class c) p q" "rx_match w Bound p q"
  "rx_match w (Seq r1 r2) p q" "rx_match w (Alt r1 r2) p q"

text \<open>The position after reading a piece of text.\<close>

fun after :: "nat option \<Rightarrow> pystr \<Rightarrow> nat option" where
  "after prev [] = prev"
| "after prev (c # t) = after (Some c) t"

lemma after_append [simp]: "after prev (s @ t) = after (after prev s) t"
  by (induction s arbitrary: prev) simp_all

lemma match_reads: "rx_match w r p q \<Longrightarrow> \<exists>s. snd p = s @ snd q \<and> fst q = after (fst p) s"
proof (induction rule: rx_match.induct)
  case (match_class q c prev t)
  then show ?case by (intro exI [of _ "[c]"]) simp
next
  case (match_seq r1 p q r2 q')
  then obtain s1 s2 where "snd p = s1 @ snd q" "fst q = after (fst p) s1" "snd q = s2 @ snd q'" "fst q' = after (fst q) s2"
    by blast
  then show ?case by (intro exI [of _ "s1 @ s2"]) simp
next
  case (match_more r p q q')
  then obtain s1 s2 where "snd p = s1 @ snd q" "fst q = after (fst p) s1" "snd q = s2 @ snd q'" "fst q' = after (fst q) s2"
    by blast
  then show ?case by (intro exI [of _ "s1 @ s2"]) simp
qed auto

lemma match_shrinks:
  assumes "rx_match w r p q"
  shows "length (snd q) < length (snd p) \<or> q = p"
proof -
  from match_reads [OF assms] obtain s where "snd p = s @ snd q" "fst q = after (fst p) s" by blast
  then show ?thesis by (cases s) (auto simp: prod_eq_iff)
qed

text \<open>An empty round of a repetition changes nothing, so it is left out.\<close>

lemma many_progress:
  assumes "rx_match w (Many r) p q" "p \<noteq> q"
  shows "\<exists>m. rx_match w r p m \<and> length (snd m) < length (snd p) \<and> rx_match w (Many r) m q"
  using assms
proof (induction "Many r" p q rule: rx_match.induct)
  case (match_more p m q)
  then show ?case using match_shrinks by blast
qed simp

lemma ends_match: "q \<in> set (ends w r p) \<longleftrightarrow> rx_match w r p q"
proof (induction w r p arbitrary: q rule: ends.induct)
  case (2 w c p)
  then show ?case by (cases p; cases "snd p") (auto simp: match_simps)
next
  case (6 w r p)
  have "q \<in> set (ends w (Many r) p) \<longleftrightarrow> q = p \<or> (\<exists>m. rx_match w r p m \<and> length (snd m) < length (snd p) \<and> rx_match w (Many r) m q)"
    using 6 by (auto simp: ends.simps(6) [of w r p])
  also have "\<dots> \<longleftrightarrow> rx_match w (Many r) p q"
    using many_progress [of w r p q] by (auto intro: rx_match.intros)
  finally show ?case .
qed (auto simp: match_simps)

lemma ends_some: "ends w r p \<noteq> [] \<longleftrightarrow> (\<exists>q. rx_match w r p q)"
  unfolding ends_match [symmetric] by (cases "ends w r p") auto

lemma rx_found_iff: "rx_found w r prev t \<longleftrightarrow> (\<exists>s t' q. t = s @ t' \<and> rx_match w r (after prev s, t') q)"
proof (induction t arbitrary: prev)
  case Nil
  then show ?case by (simp add: ends_some)
next
  case (Cons c t)
  have "(\<exists>s t' q. c # t = s @ t' \<and> rx_match w r (after prev s, t') q) \<longleftrightarrow>
      (\<exists>q. rx_match w r (prev, c # t) q) \<or> (\<exists>s t' q. t = s @ t' \<and> rx_match w r (after (Some c) s, t') q)"
    (is "?l \<longleftrightarrow> ?a \<or> ?b")
  proof
    assume ?l
    then obtain s t' q where s: "c # t = s @ t'" "rx_match w r (after prev s, t') q" by blast
    then show "?a \<or> ?b"
    proof (cases s)
      case Nil
      with s have "rx_match w r (prev, c # t) q" by simp
      then have ?a by blast
      then show ?thesis by (rule disjI1)
    next
      case (Cons x xs)
      with s have "t = xs @ t'" "rx_match w r (after (Some c) xs, t') q" by simp_all
      then have ?b by blast
      then show ?thesis by (rule disjI2)
    qed
  next
    assume "?a \<or> ?b"
    then show ?l
    proof
      assume ?a
      then have "\<exists>q. rx_match w r (after prev [], c # t) q" by simp
      then show ?l by (metis append_Nil)
    next
      assume ?b
      then obtain s t' q where "t = s @ t'" "rx_match w r (after (Some c) s, t') q" by blast
      then have "c # t = (c # s) @ t'" "rx_match w r (after prev (c # s), t') q" by simp_all
      then show ?l by blast
    qed
  qed
  then show ?case by (simp add: ends_some Cons)
qed

section \<open>The patterns\<close>

definition py_space :: "nat \<Rightarrow> bool" where
  "py_space c = (9 \<le> c \<and> c \<le> 13 \<or> 28 \<le> c \<and> c \<le> 32 \<or> c = 0x85 \<or> c = 0xA0 \<or> c = 0x1680 \<or> 0x2000 \<le> c \<and> c \<le> 0x200A
     \<or> c = 0x2028 \<or> c = 0x2029 \<or> c = 0x202F \<or> c = 0x205F \<or> c = 0x3000)"

definition ascii_alnum :: "nat \<Rightarrow> bool" where
  "ascii_alnum c = (48 \<le> c \<and> c \<le> 57 \<or> 65 \<le> c \<and> c \<le> 90 \<or> 97 \<le> c \<and> c \<le> 122)"

definition word_char :: "text_tables \<Rightarrow> nat \<Rightarrow> bool" where
  "word_char l c = (if c < 128 then ascii_alnum c \<or> c = 95 else tt_alnum l c)"

text \<open>
  \<open>re.IGNORECASE\<close> on a Unicode text: the letters i, s and k are also matched by the dotted and
  the dotless i, the long s and the Kelvin sign.
\<close>

definition same_letter :: "nat \<Rightarrow> nat \<Rightarrow> bool" where
  "same_letter l c = (c = l \<or> 97 \<le> l \<and> l \<le> 122 \<and> c = l - 32 \<or> 65 \<le> l \<and> l \<le> 90 \<and> c = l + 32
     \<or> l \<in> {105, 73} \<and> c \<in> {0x130, 0x131} \<or> l \<in> {115, 83} \<and> c = 0x17F \<or> l \<in> {107, 75} \<and> c = 0x212A)"

definition alnum_folded :: "nat \<Rightarrow> bool" where
  "alnum_folded c = (ascii_alnum c \<or> c \<in> {0x130, 0x131, 0x17F, 0x212A})"

definition one_of :: "string \<Rightarrow> rx" where
  "one_of cs = Class (\<lambda>c. list_ex (\<lambda>l. same_letter l c) (u cs))"

definition alnum_or :: "string \<Rightarrow> rx" where
  "alnum_or cs = Class (\<lambda>c. alnum_folded c \<or> c \<in> set (u cs))"

definition none_of :: "string \<Rightarrow> rx" where
  "none_of cs = Class (\<lambda>c. \<not> py_space c \<and> c \<notin> set (u cs))"

definition spaces :: rx where
  "spaces = Many (Class py_space)"

fun rx_seq :: "rx list \<Rightarrow> rx" where
  "rx_seq [] = Eps"
| "rx_seq [r] = r"
| "rx_seq (r # rs) = Seq r (rx_seq rs)"

fun rx_alt :: "rx list \<Rightarrow> rx" where
  "rx_alt [] = Class (\<lambda>_. False)"
| "rx_alt [r] = r"
| "rx_alt (r # rs) = Alt r (rx_alt rs)"

definition lit :: "string \<Rightarrow> rx" where
  "lit t = rx_seq (map (\<lambda>l. Class (same_letter l)) (u t))"

definition at_least :: "nat \<Rightarrow> rx \<Rightarrow> rx" where
  "at_least n r = rx_seq (replicate n r @ [Many r])"

definition exactly :: "nat \<Rightarrow> rx \<Rightarrow> rx" where
  "exactly n r = rx_seq (replicate n r)"

definition maybe :: "rx \<Rightarrow> rx" where
  "maybe r = Alt r Eps"

definition key_word :: "string list \<Rightarrow> rx" where
  "key_word ws = rx_seq (lit (hd ws) # concat (map (\<lambda>w. [maybe (one_of '' _-''), lit w]) (tl ws)))"

definition generic_credential_pattern :: rx where
  "generic_credential_pattern = rx_alt
     [rx_seq [Bound, lit ''github_pat_'', at_least 20 (alnum_or ''_''), Bound],
      rx_seq [Bound, lit ''gh'', one_of ''oprsu'', lit ''_'', at_least 30 (alnum_or ''''), Bound],
      rx_seq [Bound, lit ''xox'', one_of ''baprs'', lit ''-'', at_least 10 (alnum_or ''-''), Bound],
      rx_seq [Bound, lit ''sk-'', maybe (lit ''proj-''), at_least 16 (alnum_or ''_-''), Bound],
      rx_seq [lit ''-----BEGIN'', Many (rx_seq [lit '' '', at_least 1 (alnum_or '''')]), lit '' PRIVATE KEY-----''],
      rx_seq [Bound, lit ''Authorization'', spaces, lit '':'', spaces, Alt (lit ''Bearer'') (lit ''Basic''),
        at_least 1 (Class py_space), at_least 1 (none_of '',;'')],
      rx_seq [Bound, lit ''Bearer'', at_least 1 (Class py_space), at_least 20 (alnum_or ''._~+/=-'')],
      rx_seq [Bound, lit ''AKIA'', exactly 16 (alnum_or ''''), Bound],
      rx_seq [Bound, Many (rx_seq [at_least 1 (alnum_or ''''), one_of ''_-'']),
        rx_alt [key_word [''api'', ''key''], key_word [''access'', ''token''], key_word [''auth'', ''token''],
          key_word [''refresh'', ''token''], key_word [''client'', ''secret''], key_word [''private'', ''key''],
          key_word [''secret'', ''access'', ''key''], lit ''password''],
        spaces, one_of '':='', spaces, at_least 12 (none_of '',;'')]]"

section \<open>Credentials in URLs\<close>

text \<open>\<open>_GENERIC_CREDENTIAL_HTTP_URL_PATTERN\<close> at one place; its last run takes all it can.\<close>

fun strip_letters :: "pystr \<Rightarrow> pystr \<Rightarrow> pystr option" where
  "strip_letters [] t = Some t"
| "strip_letters (l # ls) [] = None"
| "strip_letters (l # ls) (c # t) = (if same_letter l c then strip_letters ls t else None)"

definition url_char :: "nat \<Rightarrow> bool" where
  "url_char c = (\<not> py_space c \<and> c \<notin> {60, 62, 34, 39})"

definition url_run :: "pystr \<Rightarrow> pystr \<Rightarrow> pystr option" where
  "url_run scheme t = (case strip_letters scheme t of
     None \<Rightarrow> None | Some r \<Rightarrow> if takeWhile url_char r = [] then None else Some (dropWhile url_char r))"

definition url_at :: "text_tables \<Rightarrow> nat option \<Rightarrow> pystr \<Rightarrow> pystr option" where
  "url_at l prev t = (if \<not> boundary (word_char l) (prev, t) then None
     else case url_run (u ''https://'') t of Some r \<Rightarrow> Some r | None \<Rightarrow> url_run (u ''http://'') t)"

lemma strip_letters_length: "strip_letters ls t = Some r \<Longrightarrow> length t = length ls + length r"
  by (induction ls t rule: strip_letters.induct) (auto split: if_splits)

lemma url_at_shorter: "url_at l prev t = Some r \<Longrightarrow> length r < length t"
proof -
  have "length r < length t" if "url_run s t = Some r" "s \<noteq> []" for s
  proof -
    from that(1) obtain x where "strip_letters s t = Some x" "r = dropWhile url_char x"
      by (auto simp: url_run_def split: option.splits if_splits)
    then have "length t = length s + length x" "length r \<le> length x"
      using strip_letters_length length_dropWhile_le by auto
    with that(2) show ?thesis by (cases s) auto
  qed
  then show "url_at l prev t = Some r \<Longrightarrow> length r < length t"
    by (auto simp: url_at_def u_def split: option.splits if_splits)
qed

text \<open>\<open>finditer\<close>: the matches from left to right, each search going on where the last ended.\<close>

function http_urls :: "text_tables \<Rightarrow> nat option \<Rightarrow> pystr \<Rightarrow> pystr list" where
  "http_urls l prev t = (case t of
     [] \<Rightarrow> []
   | c # r \<Rightarrow> (case url_at l prev t of
        Some rest \<Rightarrow> (let url = take (length t - length rest) t in url # http_urls l (Some (last url)) rest)
      | None \<Rightarrow> http_urls l (Some c) r))"
  by pat_completeness auto

termination
  by (relation "measure (\<lambda>(l, prev, t). length t)") (auto dest: url_at_shorter)

declare http_urls.simps [simp del]

definition py_rstrip :: "pystr \<Rightarrow> pystr \<Rightarrow> pystr" where
  "py_rstrip cs t = rev (dropWhile (\<lambda>c. c \<in> set cs) (rev t))"

text \<open>\<open>urlsplit\<close>: the authority, or the \<open>ValueError\<close> it raises for its brackets.\<close>

definition scheme_char :: "nat \<Rightarrow> bool" where
  "scheme_char c = (ascii_alnum c \<or> c \<in> {43, 45, 46})"

definition after_scheme :: "pystr \<Rightarrow> pystr" where
  "after_scheme url = (let s = takeWhile (\<lambda>c. c \<noteq> 58) url in
     if s \<noteq> [] \<and> length s < length url \<and> (65 \<le> hd s \<and> hd s \<le> 90 \<or> 97 \<le> hd s \<and> hd s \<le> 122) \<and> list_all scheme_char s
     then drop (length s + 1) url else url)"

definition authority :: "pystr \<Rightarrow> pystr" where
  "authority url = (case after_scheme url of
     a # b # r \<Rightarrow> if a = 47 \<and> b = 47 then takeWhile (\<lambda>c. c \<notin> {47, 63, 35}) r else [] | _ \<Rightarrow> [])"

definition urlsplit_authority :: "text_tables \<Rightarrow> pystr \<Rightarrow> pystr cp" where
  "urlsplit_authority l url = (let a = authority url in
     if (91 \<in> set a) \<noteq> (93 \<in> set a) then Inl (PyError ''ValueError'' ''Invalid IPv6 URL'')
     else if 91 \<in> set a \<and> \<not> tt_bracketed l a then Inl (PyError ''ValueError'' ''Invalid IPv6 URL'')
     else Inr a)"

fun url_credentials :: "text_tables \<Rightarrow> pystr list \<Rightarrow> bool cp" where
  "url_credentials l [] = Inr False"
| "url_credentials l (url # urls) = bindE (urlsplit_authority l (py_rstrip (u ''.,;:!?)]}'') url))
     (\<lambda>a. if 64 \<in> set a then Inr True else url_credentials l urls)"

definition contains_generic_credential_text :: "text_tables \<Rightarrow> pystr \<Rightarrow> bool cp" where
  "contains_generic_credential_text l value = (let normalized = tt_nfkc l value in
     if rx_search (word_char l) generic_credential_pattern normalized then Inr True
     else url_credentials l (http_urls l None normalized))"

section \<open>What the scan decides\<close>

definition pattern_in :: "(nat \<Rightarrow> bool) \<Rightarrow> rx \<Rightarrow> pystr \<Rightarrow> bool" where
  "pattern_in w r t = (\<exists>before piece rest. t = before @ piece @ rest
     \<and> rx_match w r (after None before, piece @ rest) (after None (before @ piece), rest))"

lemma rx_search_exact: "rx_search w r t \<longleftrightarrow> pattern_in w r t"
proof -
  have "(\<exists>s t' q. t = s @ t' \<and> rx_match w r (after None s, t') q) \<longleftrightarrow> pattern_in w r t" (is "?l \<longleftrightarrow> ?r")
  proof
    assume ?l
    then obtain s t' q where s: "t = s @ t'" "rx_match w r (after None s, t') q" by blast
    from match_reads [OF s(2)] obtain m where "t' = m @ snd q" "fst q = after (after None s) m" by auto
    with s have "t = s @ m @ snd q" "rx_match w r (after None s, m @ snd q) (after None (s @ m), snd q)"
      by (cases q; simp)+
    then show ?r unfolding pattern_in_def by blast
  next
    assume ?r
    then show ?l unfolding pattern_in_def by blast
  qed
  then show ?thesis by (simp add: rx_search_def rx_found_iff)
qed

lemma url_credentials_clean:
  "url_credentials l urls = Inr False \<longleftrightarrow>
     (\<forall>url\<in>set urls. \<exists>a. urlsplit_authority l (py_rstrip (u ''.,;:!?)]}'') url) = Inr a \<and> 64 \<notin> set a)"
  by (induction urls) (auto simp: bindE_Inr_iff split: if_splits)


text \<open>
  An address in brackets at the end of a URL: its closing bracket is taken for punctuation,
  and \<open>urlsplit\<close> then rejects the open one. The whole scan ends with that exception.
\<close>

definition plain_tables :: text_tables where
  "plain_tables = \<lparr>tt_nfkc = (\<lambda>t. t), tt_alnum = (\<lambda>_. False), tt_bracketed = (\<lambda>_. True)\<rparr>"

lemma credential_scan_raises:
  "url_credentials plain_tables [u ''http://[::1]''] = Inl (PyError ''ValueError'' ''Invalid IPv6 URL'')"
  by (simp add: urlsplit_authority_def Let_def authority_def after_scheme_def py_rstrip_def u_def scheme_char_def
    ascii_alnum_def)


end
