(* ===== verification/Utf8.thy ===== *)
theory Utf8
  imports Json Errors
begin

text \<open>
  The UTF-8 codec as the code uses it: \<open>str.encode("utf-8")\<close>, which raises on a surrogate,
  and \<open>bytes.decode("utf-8")\<close> with \<open>errors="strict"\<close> and \<open>errors="ignore"\<close>, which skips
  the longest well-formed start of a sequence that cannot be completed. The strict decoder
  accepts exactly the encodings of scalar texts, and decoding a cut encoding with \<open>ignore\<close> keeps
  exactly the characters that fit.
\<close>

type_synonym bytes = "nat list"

definition utf8_char :: "nat \<Rightarrow> bytes" where
  "utf8_char c =
     (if c < 128 then [c]
      else if c < 2048 then [192 + c div 64, 128 + c mod 64]
      else if c < 65536 then [224 + c div 4096, 128 + c div 64 mod 64, 128 + c mod 64]
      else [240 + c div 262144, 128 + c div 4096 mod 64, 128 + c div 64 mod 64, 128 + c mod 64])"

definition utf8 :: "pystr \<Rightarrow> bytes" where
  "utf8 t = concat (map utf8_char t)"

definition utf8_encode :: "pystr \<Rightarrow> bytes cp" where
  "utf8_encode t = (if list_all scalar t then Inr (utf8 t)
     else Inl (PyError ''UnicodeEncodeError'' ''surrogates not allowed''))"

definition cont :: "nat \<Rightarrow> bool" where
  "cont b = (128 \<le> b \<and> b < 192)"

definition second_ok :: "nat \<Rightarrow> nat \<Rightarrow> bool" where
  "second_ok b0 b1 = (cont b1 \<and> (b0 = 224 \<longrightarrow> 160 \<le> b1) \<and> (b0 = 237 \<longrightarrow> b1 < 160)
     \<and> (b0 = 240 \<longrightarrow> 144 \<le> b1) \<and> (b0 = 244 \<longrightarrow> b1 < 144))"

text \<open>One step of the decoder: a character with the bytes it took, or the bytes to skip.\<close>

fun utf8_next :: "bytes \<Rightarrow> nat + nat \<times> nat" where
  "utf8_next [] = Inl 1"
| "utf8_next (b0 # r) =
     (if b0 < 128 then Inr (b0, 1)
      else if b0 < 194 \<or> 245 \<le> b0 then Inl 1
      else if b0 < 224 then
        (case r of b1 # _ \<Rightarrow> if cont b1 then Inr ((b0 - 192) * 64 + (b1 - 128), 2) else Inl 1 | [] \<Rightarrow> Inl 1)
      else (case r of
          [] \<Rightarrow> Inl 1
        | b1 # r1 \<Rightarrow> if \<not> second_ok b0 b1 then Inl 1
            else (case r1 of
                [] \<Rightarrow> Inl 2
              | b2 # r2 \<Rightarrow> if \<not> cont b2 then Inl 2
                  else if b0 < 240 then Inr ((b0 - 224) * 4096 + (b1 - 128) * 64 + (b2 - 128), 3)
                  else (case r2 of
                      [] \<Rightarrow> Inl 3
                    | b3 # _ \<Rightarrow> if \<not> cont b3 then Inl 3
                        else Inr ((b0 - 240) * 262144 + (b1 - 128) * 4096 + (b2 - 128) * 64 + (b3 - 128), 4)))))"

lemma utf8_next_progress: "utf8_next bs = Inl n \<Longrightarrow> 0 < n" "utf8_next bs = Inr (c, k) \<Longrightarrow> 0 < k"
  by (cases bs; auto split: if_splits list.splits)+

text \<open>The characters of a byte string in order, with a hole for every skipped piece.\<close>

function utf8_scan :: "bytes \<Rightarrow> nat option list" where
  "utf8_scan bs = (if bs = [] then []
     else (case utf8_next bs of
         Inl n \<Rightarrow> None # utf8_scan (drop n bs)
       | Inr (c, n) \<Rightarrow> Some c # utf8_scan (drop n bs)))"
  by pat_completeness auto

termination
  by (relation "measure length") (auto dest: utf8_next_progress)

declare utf8_scan.simps [simp del]

definition utf8_decode :: "bytes \<Rightarrow> pystr option" where
  "utf8_decode bs = (let ps = utf8_scan bs in if None \<in> set ps then None else Some (map the ps))"

definition utf8_decode_ignore :: "bytes \<Rightarrow> pystr" where
  "utf8_decode_ignore bs = map the (filter (\<lambda>p. p \<noteq> None) (utf8_scan bs))"

section \<open>The two directions agree\<close>

lemma utf8_char_length: "0 < length (utf8_char c)" "length (utf8_char c) \<le> 4"
  by (simp_all add: utf8_char_def)

lemma utf8_simps [simp]: "utf8 [] = []" "utf8 (c # t) = utf8_char c @ utf8 t" "utf8 (s @ t) = utf8 s @ utf8 t"
  by (simp_all add: utf8_def)

lemma utf8_Nil_iff [simp]: "utf8 t = [] \<longleftrightarrow> t = []"
  using utf8_char_length(1) by (cases t) (auto simp: utf8_def)

lemma split3: "(c::nat) = c div 4096 * 4096 + c div 64 mod 64 * 64 + c mod 64"
proof -
  have "c div 4096 = c div 64 div 64" using div_mult2_eq [of c 64 64] by simp
  then show ?thesis using div_mult_mod_eq [of c 64] div_mult_mod_eq [of "c div 64" 64] by linarith
qed

lemma split4: "(c::nat) = c div 262144 * 262144 + c div 4096 mod 64 * 4096 + c div 64 mod 64 * 64 + c mod 64"
proof -
  have "c div 262144 = c div 4096 div 64" using div_mult2_eq [of c 4096 64] by simp
  then show ?thesis using split3 [of c] div_mult_mod_eq [of "c div 4096" 64] by linarith
qed

lemma utf8_next_char:
  assumes "scalar c"
  shows "utf8_next (utf8_char c @ bs) = Inr (c, length (utf8_char c))"
proof -
  consider "c < 128" | "128 \<le> c" "c < 2048" | "2048 \<le> c" "c < 65536" | "65536 \<le> c" "c < 1114112"
    using assms unfolding scalar_def by linarith
  then show ?thesis
  proof cases
    case 2
    then have "2 \<le> c div 64" "c div 64 < 32" by simp_all
    then show ?thesis using 2 by (simp add: utf8_char_def cont_def)
  next
    case 3
    define a b d where abd: "a = c div 4096" "b = c div 64 mod 64" "d = c mod 64"
    have c: "c = a * 4096 + b * 64 + d" unfolding abd by (rule split3)
    have lim: "a < 16" "b < 64" "d < 64" using 3 by (simp_all add: abd less_mult_imp_div_less)
    have "a = 0 \<Longrightarrow> 32 \<le> b" "a = 13 \<Longrightarrow> b < 32"
      using 3 assms c lim unfolding scalar_def by linarith+
    then have ok: "second_ok (224 + a) (128 + b)" using lim by (simp add: second_ok_def cont_def)
    have e: "utf8_char c = [224 + a, 128 + b, 128 + d]" using 3 by (simp add: utf8_char_def abd)
    show ?thesis unfolding e using ok lim c by (simp add: cont_def)
  next
    case 4
    define a b d f where abd: "a = c div 262144" "b = c div 4096 mod 64" "d = c div 64 mod 64" "f = c mod 64"
    have c: "c = a * 262144 + b * 4096 + d * 64 + f" unfolding abd by (rule split4)
    have lim: "a < 5" "b < 64" "d < 64" "f < 64" using 4 by (simp_all add: abd less_mult_imp_div_less)
    have "a = 0 \<Longrightarrow> 16 \<le> b" "a = 4 \<Longrightarrow> b < 16"
      using 4 c lim by linarith+
    then have ok: "second_ok (240 + a) (128 + b)" using lim by (simp add: second_ok_def cont_def)
    have e: "utf8_char c = [240 + a, 128 + b, 128 + d, 128 + f]" using 4 by (simp add: utf8_char_def abd)
    show ?thesis unfolding e using ok lim c by (simp add: cont_def)
  qed (simp add: utf8_char_def)
qed

lemma utf8_scan_Cons: "bs \<noteq> [] \<Longrightarrow> utf8_scan bs = (case utf8_next bs of
    Inl n \<Rightarrow> None # utf8_scan (drop n bs) | Inr (c, n) \<Rightarrow> Some c # utf8_scan (drop n bs))"
  by (subst utf8_scan.simps) simp

lemma utf8_scan_Nil [simp]: "utf8_scan [] = []"
  by (subst utf8_scan.simps) simp

lemma utf8_scan_encoded: "list_all scalar t \<Longrightarrow> utf8_scan (utf8 t @ bs) = map Some t @ utf8_scan bs"
proof (induction t)
  case (Cons c t)
  have "utf8_char c @ utf8 t @ bs \<noteq> []" using utf8_char_length(1) [of c] by auto
  then show ?case using Cons by (simp add: utf8_scan_Cons utf8_next_char)
qed simp

lemma low_bits: "(d::nat) < 64 \<Longrightarrow> (x * 64 + d) mod 64 = d \<and> (x * 64 + d) div 64 = x"
  by simp

lemma utf8_next_sound:
  assumes "utf8_next bs = Inr (c, n)"
  shows "scalar c \<and> take n bs = utf8_char c"
proof -
  from assms obtain b0 r where bs: "bs = b0 # r" by (cases bs) auto
  consider "b0 < 128" | b1 r1 where "r = b1 # r1" "194 \<le> b0" "b0 < 224" "cont b1"
    | b1 b2 r2 where "r = b1 # b2 # r2" "224 \<le> b0" "b0 < 240" "second_ok b0 b1" "cont b2"
    | b1 b2 b3 r3 where "r = b1 # b2 # b3 # r3" "240 \<le> b0" "b0 < 245" "second_ok b0 b1" "cont b2" "cont b3"
    using assms unfolding bs by (auto split: if_splits list.splits)
  then show ?thesis
  proof cases
    case 1
    then show ?thesis using assms unfolding bs by (auto simp: scalar_def utf8_char_def)
  next
    case 2
    define a b where "a = b0 - 192" "b = b1 - 128"
    then have ab: "b0 = 192 + a" "b1 = 128 + b" "2 \<le> a" "a < 32" "b < 64" using 2 by (auto simp: cont_def)
    have "c = a * 64 + b" "n = 2" using assms ab(3-5) unfolding bs 2(1) ab(1,2) by (simp_all add: cont_def)
    then show ?thesis using ab unfolding bs 2(1) by (simp add: scalar_def utf8_char_def)
  next
    case 3
    define a b d where "a = b0 - 224" "b = b1 - 128" "d = b2 - 128"
    then have ab: "b0 = 224 + a" "b1 = 128 + b" "b2 = 128 + d" "a < 16" "b < 64" "d < 64"
      "a = 0 \<Longrightarrow> 32 \<le> b" "a = 13 \<Longrightarrow> b < 32" using 3 by (auto simp: cont_def second_ok_def)
    have c: "c = (a * 64 + b) * 64 + d" "n = 3"
      using assms ab(4-6) 3(4,5) unfolding bs 3(1) ab(1-3) by (simp_all add: algebra_simps)
    have low: "2048 \<le> c" using ab(4-7) c(1) by (cases "a = 0") auto
    have high: "c < 65536" using ab(4-6) c(1) by simp
    have "c < 55296" if "a < 14" using that ab(4-6,8) c(1) by (cases "a = 13") auto
    then have "scalar c" using high c(1) unfolding scalar_def by (cases "a < 14") auto
    moreover note low high
    moreover have d64: "c div 64 = a * 64 + b" "c mod 64 = d" unfolding c(1) using low_bits [OF ab(6)] by blast+
    moreover have "c div 4096 = a"
      using div_mult2_eq [of c 64 64] d64(1) low_bits [OF ab(5)] by simp
    ultimately show ?thesis using ab c(2) unfolding bs 3(1) by (simp add: utf8_char_def)
  next
    case 4
    define a b d f where "a = b0 - 240" "b = b1 - 128" "d = b2 - 128" "f = b3 - 128"
    then have ab: "b0 = 240 + a" "b1 = 128 + b" "b2 = 128 + d" "b3 = 128 + f" "a < 5" "b < 64" "d < 64" "f < 64"
      "a = 0 \<Longrightarrow> 16 \<le> b" "a = 4 \<Longrightarrow> b < 16" using 4 by (auto simp: cont_def second_ok_def)
    have c: "c = ((a * 64 + b) * 64 + d) * 64 + f" "n = 4"
      using assms ab(5-8) 4(4-6) unfolding bs 4(1) ab(1-4) by (simp_all add: algebra_simps)
    have "65536 \<le> c" using ab(5-9) c(1) by (cases "a = 0") auto
    moreover have "c < 1114112" using ab(5-8,10) c(1) by (cases "a = 4") auto
    moreover have d64: "c div 64 = (a * 64 + b) * 64 + d" "c mod 64 = f" unfolding c(1) using low_bits [OF ab(8)] by blast+
    moreover have d4096: "c div 4096 = a * 64 + b"
      using div_mult2_eq [of c 64 64] d64(1) low_bits [OF ab(7), of "a * 64 + b"] by simp
    moreover have "c div 262144 = a"
      using div_mult2_eq [of c 4096 64] d4096 low_bits [OF ab(6), of a] by simp
    ultimately have "utf8_char c = [240 + a, 128 + b, 128 + d, 128 + f]" "scalar c"
      using low_bits [OF ab(7), of "a * 64 + b"] low_bits [OF ab(6), of a]
      by (simp_all only: utf8_char_def scalar_def) simp_all
    then show ?thesis using ab(1-4) c(2) unfolding bs 4(1) by simp
  qed
qed

text \<open>The strict decoder accepts exactly the encodings of scalar texts.\<close>

lemma utf8_decode_iff: "utf8_decode bs = Some t \<longleftrightarrow> list_all scalar t \<and> bs = utf8 t"
proof
  assume "list_all scalar t \<and> bs = utf8 t"
  then show "utf8_decode bs = Some t" using utf8_scan_encoded [of t "[]"] by (auto simp: utf8_decode_def comp_def)
next
  have "None \<notin> set (utf8_scan bs) \<Longrightarrow> list_all scalar (map the (utf8_scan bs)) \<and> utf8 (map the (utf8_scan bs)) = bs"
  proof (induction bs rule: utf8_scan.induct)
    case (1 bs)
    show ?case
    proof (cases "bs = []")
      case False
      from 1(3) False obtain c n where n: "utf8_next bs = Inr (c, n)"
        by (cases "utf8_next bs") (auto simp: utf8_scan_Cons)
      then have "utf8_scan bs = Some c # utf8_scan (drop n bs)" using False by (simp add: utf8_scan_Cons)
      moreover have "utf8_char c @ drop n bs = bs"
        using utf8_next_sound [OF n] append_take_drop_id [of n bs] by simp
      ultimately show ?thesis using 1(2) [OF False n] 1(3) utf8_next_sound [OF n] by auto
    qed simp
  qed
  moreover assume "utf8_decode bs = Some t"
  ultimately show "list_all scalar t \<and> bs = utf8 t"
    by (auto simp: utf8_decode_def Let_def split: if_splits)
qed

section \<open>A cut encoding\<close>

text \<open>The longest start of a text whose encoding has at most \<open>n\<close> bytes.\<close>

fun fit :: "nat \<Rightarrow> pystr \<Rightarrow> pystr" where
  "fit n [] = []"
| "fit n (c # t) = (if length (utf8_char c) \<le> n then c # fit (n - length (utf8_char c)) t else [])"

lemma fit_bounded: "length (utf8 (fit n t)) \<le> n"
  by (induction n t rule: fit.induct) auto

lemma fit_rest: "\<exists>r. t = fit n t @ r"
  by (induction n t rule: fit.induct) auto

lemma fit_longest: "length (utf8 p) \<le> n \<Longrightarrow> \<exists>r. fit n (p @ q) = p @ r"
  by (induction p arbitrary: n) auto

lemma fit_all: "length (utf8 t) \<le> n \<Longrightarrow> fit n t = t"
  by (induction n t rule: fit.induct) auto

lemma fit_scalar: "list_all scalar t \<Longrightarrow> list_all scalar (fit n t)"
  by (induction n t rule: fit.induct) auto

lemma utf8_next_cut:
  assumes "scalar c" "0 < k" "k < length (utf8_char c)"
  shows "utf8_next (take k (utf8_char c)) = Inl k"
proof -
  consider "128 \<le> c" "c < 2048" | "2048 \<le> c" "c < 65536" | "65536 \<le> c" "c < 1114112"
    using assms unfolding scalar_def by (fastforce simp: utf8_char_def split: if_splits)
  then show ?thesis
  proof cases
    case 1
    then have "k = 1" "2 \<le> c div 64" "c div 64 < 32" using assms by (simp_all add: utf8_char_def)
    then show ?thesis using 1 by (simp add: utf8_char_def)
  next
    case 2
    then have k: "k = 1 \<or> k = 2" using assms by (auto simp: utf8_char_def)
    have "utf8_next (utf8_char c) = Inr (c, length (utf8_char c))" using utf8_next_char [OF assms(1), of "[]"] by simp
    moreover have "c div 4096 < 16" using 2 by (simp add: less_mult_imp_div_less)
    ultimately show ?thesis using k 2 by (auto simp: utf8_char_def numeral_2_eq_2 split: if_splits)
  next
    case 3
    then have k: "k = 1 \<or> k = 2 \<or> k = 3" using assms by (auto simp: utf8_char_def)
    have "utf8_next (utf8_char c) = Inr (c, length (utf8_char c))" using utf8_next_char [OF assms(1), of "[]"] by simp
    moreover have "c div 262144 < 5" using 3 by (simp add: less_mult_imp_div_less)
    ultimately show ?thesis using k 3
      by (auto simp: utf8_char_def numeral_2_eq_2 numeral_3_eq_3 split: if_splits)
  qed
qed

lemma utf8_decode_ignore_cut: "list_all scalar t \<Longrightarrow> utf8_decode_ignore (take n (utf8 t)) = fit n t"
proof (induction t arbitrary: n)
  case (Cons c t)
  let ?k = "length (utf8_char c)"
  show ?case
  proof (cases "?k \<le> n")
    case True
    then have "utf8_scan (take n (utf8 (c # t))) = Some c # utf8_scan (take (n - ?k) (utf8 t))"
      using utf8_scan_encoded [of "[c]"] Cons.prems by simp
    then show ?thesis using Cons True by (simp add: utf8_decode_ignore_def)
  next
    case False
    show ?thesis
    proof (cases "n = 0")
      case False2: False
      have "take n (utf8_char c) \<noteq> []" using utf8_char_length(1) [of c] False2 by simp
      then have "utf8_scan (take n (utf8 (c # t))) = [None]"
        using False False2 utf8_next_cut [of c n] Cons.prems by (simp add: utf8_scan_Cons)
      then show ?thesis using False by (simp add: utf8_decode_ignore_def)
    qed (use utf8_char_length(1) [of c] in \<open>auto simp: utf8_decode_ignore_def\<close>)
  qed
qed (simp add: utf8_decode_ignore_def)

end
