(* ===== verification/Artifact_Content.thy ===== *)
theory Artifact_Content
  imports Utf8 Credentials
begin

text \<open>
  The owner-private content archive as its clients see it (\<open>artifact_preservation_edge.py\<close>):
  staging a byte string under its digest, and reading a verified text back in chunks. The archive
  is a map from digests to bytes. What the file system does to an entry (a missing link count, a
  changed identity, an \<open>OSError\<close>) is the parameter \<open>cs_fault\<close>, a failure code per digest;
  SHA-256 over bytes is the parameter \<open>cs_sha\<close>.

  A client that follows the offsets of the chunks reads the whole text, each byte once.
\<close>

type_synonym archive = "string \<Rightarrow> bytes option"

record content_store =
  cs_sha :: "bytes \<Rightarrow> string"
  cs_fault :: "string \<Rightarrow> string option"
  cs_tables :: text_tables

definition ARTIFACT_CONTENT_MAX_BYTES :: nat where
  "ARTIFACT_CONTENT_MAX_BYTES = 1024 * 1024"

definition ARTIFACT_CONTENT_CHUNK_MAX_BYTES :: nat where
  "ARTIFACT_CONTENT_CHUNK_MAX_BYTES = 64 * 1024"

definition provider_error :: "string \<Rightarrow> cp_error" where
  "provider_error code = PyError ''ArtifactPreservationProviderError'' code"

definition hex_digest :: "string \<Rightarrow> bool" where
  "hex_digest v = (length v = 64 \<and> list_all (\<lambda>c. c \<in> set ''0123456789abcdef'') v)"

definition canonical_digest :: "string \<Rightarrow> string cp" where
  "canonical_digest v = (if hex_digest v then Inr v else Inl (provider_error ''artifact_preservation_invalid_digest''))"

section \<open>Staging\<close>

definition write_or_validate_archive_bytes :: "content_store \<Rightarrow> bytes \<Rightarrow> string \<Rightarrow> archive \<Rightarrow> archive cp" where
  "write_or_validate_archive_bytes c content digest a =
     (case cs_fault c digest of
        Some code \<Rightarrow> Inl (provider_error code)
      | None \<Rightarrow> (case a digest of
          Some existing \<Rightarrow> if cs_sha c existing \<noteq> digest
            then Inl (provider_error ''artifact_preservation_archive_digest_mismatch'') else Inr a
        | None \<Rightarrow> Inr (a(digest \<mapsto> content))))"

definition stage_bytes :: "content_store \<Rightarrow> string \<Rightarrow> bytes \<Rightarrow> archive \<Rightarrow> archive cp" where
  "stage_bytes c digest content a =
     bindE (canonical_digest digest) (\<lambda>canonical.
     if cs_sha c content \<noteq> canonical then Inl (provider_error ''artifact_preservation_source_digest_mismatch'')
     else write_or_validate_archive_bytes c content canonical a)"

section \<open>Reading\<close>

definition read_staged_archive_bounded :: "content_store \<Rightarrow> archive \<Rightarrow> string \<Rightarrow> bytes cp" where
  "read_staged_archive_bounded c a digest =
     (case cs_fault c digest of
        Some code \<Rightarrow> Inl (provider_error code)
      | None \<Rightarrow> (case a digest of
          None \<Rightarrow> Inl (provider_error ''artifact_preservation_archive_unavailable'')
        | Some content \<Rightarrow>
            if length content > ARTIFACT_CONTENT_MAX_BYTES then Inl (provider_error ''artifact_content_too_large'')
            else if cs_sha c content \<noteq> digest
            then Inl (provider_error ''artifact_preservation_archive_digest_mismatch'')
            else Inr content))"

record chunk =
  ch_content :: pystr
  ch_byte_offset :: nat
  ch_byte_count :: nat
  ch_total_bytes :: nat
  ch_next_byte_offset :: "nat option"
  ch_complete :: bool
  ch_digest :: string

definition slice :: "bytes \<Rightarrow> nat \<Rightarrow> nat \<Rightarrow> bytes" where
  "slice bs i j = take (j - i) (drop i bs)"

text \<open>The loop that moves the end of the chunk back to a character boundary.\<close>

fun chunk_end :: "bytes \<Rightarrow> nat \<Rightarrow> nat \<Rightarrow> nat \<times> pystr" where
  "chunk_end encoded start stop =
     (if stop \<le> start then (stop, [])
      else (case utf8_decode (slice encoded start stop) of
          Some content \<Rightarrow> (stop, content)
        | None \<Rightarrow> chunk_end encoded start (stop - 1)))"

declare chunk_end.simps [simp del]

definition text_chunk :: "content_store \<Rightarrow> bytes \<Rightarrow> nat \<Rightarrow> nat \<Rightarrow> chunk cp" where
  "text_chunk c encoded start max_bytes =
     (case chunk_end encoded start (min (length encoded) (start + max_bytes)) of
        (stop, content) \<Rightarrow>
          if stop = start \<and> start < length encoded
          then Inl (provider_error ''artifact_content_chunk_boundary_unavailable'')
          else (let part = slice encoded start stop; complete = (stop = length encoded) in
            Inr \<lparr>ch_content = content, ch_byte_offset = start, ch_byte_count = length part,
              ch_total_bytes = length encoded, ch_next_byte_offset = (if complete then None else Some stop),
              ch_complete = complete, ch_digest = cs_sha c part\<rparr>))"

definition readable_text :: "content_store \<Rightarrow> bytes \<Rightarrow> unit cp" where
  "readable_text c encoded =
     (case utf8_decode encoded of
        None \<Rightarrow> Inl (provider_error ''artifact_content_not_utf8'')
      | Some decoded \<Rightarrow>
          if contains_control_plane_secret (JStr decoded)
          then Inl (provider_error ''artifact_content_contains_control_plane_secret'')
          else bindE (contains_generic_credential_text (cs_tables c) decoded) (\<lambda>credential.
            require (\<not> credential) (provider_error ''artifact_content_contains_generic_credential'')))"

definition read_verified_text_chunk :: "content_store \<Rightarrow> archive \<Rightarrow> string \<Rightarrow> int \<Rightarrow> int \<Rightarrow> chunk cp" where
  "read_verified_text_chunk c a digest byte_offset max_bytes =
     bindE (canonical_digest digest) (\<lambda>canonical.
     if byte_offset < 0 \<or> byte_offset > int ARTIFACT_CONTENT_MAX_BYTES
     then Inl (provider_error ''artifact_content_offset_out_of_range'')
     else if max_bytes < 4 \<or> max_bytes > int ARTIFACT_CONTENT_CHUNK_MAX_BYTES
     then Inl (provider_error ''artifact_content_chunk_size_invalid'')
     else bindE (read_staged_archive_bounded c a canonical) (\<lambda>encoded.
     bindE (readable_text c encoded) (\<lambda>_.
     let start = nat byte_offset in
     if start > length encoded then Inl (provider_error ''artifact_content_offset_out_of_range'')
     else if utf8_decode (take start encoded) = None
     then Inl (provider_error ''artifact_content_offset_not_utf8_boundary'')
     else text_chunk c encoded start (nat max_bytes))))"

section \<open>Pagination\<close>

text \<open>A client that starts at an offset and follows the offsets of the chunks, with a fuel bound on its calls.\<close>

fun read_pages :: "content_store \<Rightarrow> archive \<Rightarrow> string \<Rightarrow> int \<Rightarrow> nat \<Rightarrow> nat \<Rightarrow> chunk list cp" where
  "read_pages c a digest max_bytes 0 start = Inl (PyError ''Unfinished'' '''')"
| "read_pages c a digest max_bytes (Suc fuel) start =
     bindE (read_verified_text_chunk c a digest (int start) max_bytes) (\<lambda>k.
     case ch_next_byte_offset k of
       None \<Rightarrow> Inr [k]
     | Some follow \<Rightarrow> bindE (read_pages c a digest max_bytes fuel follow) (\<lambda>ks. Inr (k # ks)))"

text \<open>An archive entry that a client may read: its digest matches, it is UTF-8 and free of credentials.\<close>

definition servable :: "content_store \<Rightarrow> archive \<Rightarrow> string \<Rightarrow> pystr \<Rightarrow> bool" where
  "servable c a digest t = (hex_digest digest \<and> list_all scalar t
     \<and> read_staged_archive_bounded c a digest = Inr (utf8 t) \<and> readable_text c (utf8 t) = Inr ())"

text \<open>The chunks cover the bytes from \<open>start\<close> to \<open>stop\<close>, without gap or overlap.\<close>

fun contiguous :: "nat \<Rightarrow> chunk list \<Rightarrow> nat \<Rightarrow> bool" where
  "contiguous start [] stop = (start = stop)"
| "contiguous start (k # ks) stop = (ch_byte_offset k = start \<and> contiguous (start + ch_byte_count k) ks stop)"

lemma fit_zero [simp]: "fit 0 t = []"
  using utf8_char_length(1) by (cases t) auto

lemma fit_pred: "length (utf8 (fit (Suc n) q)) \<noteq> Suc n \<Longrightarrow> fit n q = fit (Suc n) q"
proof -
  assume "length (utf8 (fit (Suc n) q)) \<noteq> Suc n"
  then have less: "length (utf8 (fit (Suc n) q)) \<le> n" using fit_bounded [of "Suc n" q] by linarith
  obtain r where "q = fit (Suc n) q @ r" using fit_rest by blast
  with fit_longest [OF less, of r] obtain x where x: "fit n q = fit (Suc n) q @ x" by auto
  obtain r' where r': "q = fit n q @ r'" using fit_rest by blast
  have "length (utf8 (fit n q)) \<le> Suc n" using fit_bounded [of n q] by linarith
  from fit_longest [OF this, of r'] r' obtain y where "fit (Suc n) q = fit n q @ y" by auto
  with x show ?thesis by simp
qed

lemma take_exact: "length xs = min n (length (xs @ ys)) \<Longrightarrow> take n (xs @ ys) = xs"
  by (auto simp: min_def split: if_splits)

lemma decode_cut: "list_all scalar q \<Longrightarrow> utf8_decode (take n (utf8 q)) =
    (if length (utf8 (fit n q)) = min n (length (utf8 q)) then Some (fit n q) else None)"
proof -
  assume q: "list_all scalar q"
  obtain r where r: "q = fit n q @ r" using fit_rest by blast
  have u: "utf8 q = utf8 (fit n q) @ utf8 r" using arg_cong [OF r, of utf8] by simp
  show ?thesis
  proof (cases "utf8_decode (take n (utf8 q))")
    case None
    moreover have "utf8_decode (take n (utf8 q)) = Some (fit n q)"
      if "length (utf8 (fit n q)) = min n (length (utf8 q))"
    proof -
      have "take n (utf8 q) = utf8 (fit n q)"
        using that unfolding u by (rule take_exact)
      then show ?thesis using fit_scalar [OF q] by (simp add: utf8_decode_iff)
    qed
    ultimately show ?thesis by auto
  next
    case (Some t)
    then have t: "list_all scalar t" "take n (utf8 q) = utf8 t" by (simp_all add: utf8_decode_iff)
    have "fit n q = utf8_decode_ignore (utf8 t)" using utf8_decode_ignore_cut [OF q, of n] t(2) by simp
    also have "\<dots> = t" using utf8_decode_ignore_cut [OF t(1), of "length (utf8 t)"] fit_all [of t] by simp
    finally have "fit n q = t" .
    then show ?thesis using Some arg_cong [OF t(2), of length] by (simp add: min.commute)
  qed
qed

lemma chunk_end_fit:
  assumes "list_all scalar q" "n \<le> length (utf8 q)"
  shows "chunk_end (utf8 p @ utf8 q) (length (utf8 p)) (length (utf8 p) + n)
    = (length (utf8 p) + length (utf8 (fit n q)), fit n q)"
  using assms
proof (induction n)
  case (Suc n)
  then show ?case
    using fit_pred [of n q] by (subst chunk_end.simps) (auto simp: slice_def decode_cut split: if_splits)
qed (simp add: chunk_end.simps)

lemma fit_min: "fit (min (length (utf8 q)) m) q = fit m q"
  by (cases "length (utf8 q) \<le> m") (simp_all add: min_def fit_all)

lemma text_chunk_exact:
  assumes q: "list_all scalar q" and m: "4 \<le> m"
  shows "\<exists>k. text_chunk c (utf8 p @ utf8 q) (length (utf8 p)) m = Inr k \<and> ch_content k = fit m q
    \<and> ch_byte_offset k = length (utf8 p) \<and> ch_byte_count k = length (utf8 (fit m q))
    \<and> ch_next_byte_offset k = (if fit m q = q then None else Some (length (utf8 (p @ fit m q))))"
proof -
  define n where "n = min (length (utf8 q)) m"
  have "min (length (utf8 p @ utf8 q)) (length (utf8 p) + m) = length (utf8 p) + n"
    unfolding n_def by simp
  moreover have "n \<le> length (utf8 q)" "fit n q = fit m q" unfolding n_def by (simp_all add: fit_min)
  ultimately have e: "chunk_end (utf8 p @ utf8 q) (length (utf8 p)) (min (length (utf8 p @ utf8 q)) (length (utf8 p) + m))
    = (length (utf8 p) + length (utf8 (fit m q)), fit m q)"
    using chunk_end_fit [OF q, of n p] by simp
  obtain r where r: "q = fit m q @ r" using fit_rest by blast
  have len: "length (utf8 q) = length (utf8 (fit m q)) + length (utf8 r)"
    using arg_cong [OF r, of utf8] by simp
  have "r = [] \<longleftrightarrow> fit m q = q" using r by (metis append_self_conv)
  then have full: "length (utf8 (fit m q)) = length (utf8 q) \<longleftrightarrow> fit m q = q" using len by auto
  have "fit m q \<noteq> []" if "q \<noteq> []"
    using that m utf8_char_length(2) [of "hd q"] by (cases q) auto
  then have "\<not> (fit m q = [] \<and> q \<noteq> [])" by blast
  then show ?thesis
    using full len unfolding text_chunk_def e by (auto simp: Let_def slice_def)
qed

lemma read_verified_exact:
  assumes "servable c a digest (p @ q)" "4 \<le> m" "m \<le> ARTIFACT_CONTENT_CHUNK_MAX_BYTES"
  shows "read_verified_text_chunk c a digest (int (length (utf8 p))) (int m) = text_chunk c (utf8 p @ utf8 q) (length (utf8 p)) m"
proof -
  have "length (utf8 p @ utf8 q) \<le> ARTIFACT_CONTENT_MAX_BYTES"
    using assms(1) unfolding servable_def read_staged_archive_bounded_def by (auto split: option.splits if_splits)
  moreover have "utf8_decode (utf8 p) = Some p" using assms(1) by (simp add: servable_def utf8_decode_iff)
  ultimately show ?thesis
    using assms unfolding read_verified_text_chunk_def servable_def canonical_digest_def
    by (simp add: Let_def)
qed

lemma read_pages_cover:
  assumes "servable c a digest (p @ q)" "4 \<le> m" "m \<le> ARTIFACT_CONTENT_CHUNK_MAX_BYTES" "length q < fuel"
  shows "\<exists>ks. read_pages c a digest (int m) fuel (length (utf8 p)) = Inr ks \<and> concat (map ch_content ks) = q
    \<and> contiguous (length (utf8 p)) ks (length (utf8 (p @ q))) \<and> (\<forall>k\<in>set ks. ch_byte_count k \<le> m)"
  using assms
proof (induction "length q" arbitrary: p q fuel rule: less_induct)
  case less
  obtain n where n: "fuel = Suc n" using less.prems(4) by (cases fuel) auto
  have q: "list_all scalar q" using less.prems(1) by (simp add: servable_def)
  obtain k where k: "read_verified_text_chunk c a digest (int (length (utf8 p))) (int m) = Inr k"
    "ch_content k = fit m q" "ch_byte_offset k = length (utf8 p)" "ch_byte_count k = length (utf8 (fit m q))"
    "ch_next_byte_offset k = (if fit m q = q then None else Some (length (utf8 (p @ fit m q))))"
    using text_chunk_exact [OF q less.prems(2), of c p] read_verified_exact [OF less.prems(1-3)] by auto
  show ?case
  proof (cases "fit m q = q")
    case True
    then show ?thesis using k fit_bounded [of m q] by (simp add: n)
  next
    case False
    obtain r where r: "q = fit m q @ r" using fit_rest by blast
    have "fit m q \<noteq> []" using False less.prems(2) utf8_char_length(2) [of "hd q"] by (cases q) auto
    then have short: "length r < length q" using arg_cong [OF r, of length] by simp
    have s: "servable c a digest ((p @ fit m q) @ r)" using less.prems(1) r by simp
    have "length r < n" using short less.prems(4) n by simp
    from less.hyps [OF short s less.prems(2,3) this] obtain ks where
      ks: "read_pages c a digest (int m) n (length (utf8 (p @ fit m q))) = Inr ks" "concat (map ch_content ks) = r"
        "contiguous (length (utf8 (p @ fit m q))) ks (length (utf8 ((p @ fit m q) @ r)))" "\<forall>k\<in>set ks. ch_byte_count k \<le> m"
      by blast
    have "(p @ fit m q) @ r = p @ q" using r by simp
    then show ?thesis using k ks False r fit_bounded [of m q]
      by (simp add: n)
  qed
qed

text \<open>C36: Paging through a text returns all of it. Whoever reads a servable text in chunks of at most \<open>m\<close> bytes
  (at least the four of one character) and follows the offsets of the chunks gets a successful read
  on every call, ends after at most one call per character, receives the chunks without gap or overlap,
  none longer than asked, and their texts are together the archived text.\<close>

theorem pages_reassemble:
  assumes "servable c a digest t" "4 \<le> m" "m \<le> ARTIFACT_CONTENT_CHUNK_MAX_BYTES"
  shows "\<exists>ks. read_pages c a digest (int m) (Suc (length t)) 0 = Inr ks \<and> concat (map ch_content ks) = t
    \<and> contiguous 0 ks (length (utf8 t)) \<and> (\<forall>k\<in>set ks. ch_byte_count k \<le> m)"
  using read_pages_cover [of c a digest "[]" t m "Suc (length t)"] assms by simp

definition sample_store :: content_store where
  "sample_store = \<lparr>cs_sha = (\<lambda>_. replicate 64 CHR ''a''), cs_fault = (\<lambda>_. None), cs_tables = plain_tables\<rparr>"

definition sample_text :: pystr where
  "sample_text = [233, 98, 233, 98]"

definition sample_archive :: archive where
  "sample_archive = [replicate 64 CHR ''a'' \<mapsto> utf8 sample_text]"

lemma sample_servable: "servable sample_store sample_archive (replicate 64 CHR ''a'') sample_text"
proof -
  have "utf8_decode (utf8 sample_text) = Some sample_text" by (simp add: utf8_decode_iff sample_text_def scalar_def)
  moreover have "contains_generic_credential_text plain_tables sample_text = Inr False" by code_simp
  moreover have "\<not> contains_control_plane_secret (JStr sample_text)" by code_simp
  ultimately have "readable_text sample_store (utf8 sample_text) = Inr ()"
    by (simp add: readable_text_def sample_store_def)
  moreover have "hex_digest (replicate 64 CHR ''a'')" by (simp add: hex_digest_def list_all_iff)
  ultimately show ?thesis
    by (simp add: servable_def read_staged_archive_bounded_def sample_store_def sample_archive_def
      sample_text_def scalar_def utf8_def utf8_char_def ARTIFACT_CONTENT_MAX_BYTES_def)
qed

lemma sample_lengths: "length sample_text = 4" "length (utf8 sample_text) = 6"
  by (simp_all add: sample_text_def utf8_def utf8_char_def)

lemma pages_reassemble_witness:
  "\<exists>ks. read_pages sample_store sample_archive (replicate 64 CHR ''a'') 4 5 0 = Inr ks
    \<and> concat (map ch_content ks) = sample_text \<and> contiguous 0 ks 6 \<and> (\<forall>k\<in>set ks. ch_byte_count k \<le> 4)"
  using pages_reassemble [OF sample_servable, of 4]
  by (simp add: ARTIFACT_CONTENT_CHUNK_MAX_BYTES_def sample_lengths del: read_pages.simps)

end
