(* ===== verification/Capture_Safety.thy ===== *)
theory Capture_Safety
  imports Worker_Capture Supervision_Safety
begin

text \<open>
  What the capture of Worker output guarantees: the receipts and streams stay well formed however
  captures, reads and other work interleave, a repeated event is answered from its receipt, and a review
  admits exactly the output that was read.
\<close>

section \<open>Streams and receipts\<close>

definition receipt_ok :: "output_receipt_row \<Rightarrow> bool" where
  "receipt_ok r = (wo_id r \<noteq> ''''
     \<and> wo_event_kind r \<in> {''message'', ''turn_end''}
     \<and> wo_phase r \<in> {''commentary'', ''final'', ''unspecified''}
     \<and> wo_turn_status r \<in> {''running'', ''completed'', ''failed'', ''interrupted''}
     \<and> (wo_turn_status r = ''running'' \<longleftrightarrow> wo_event_kind r = ''message'')
     \<and> wo_capture_state r \<in> {''available'', ''empty'', ''partial'', ''withheld'', ''unavailable''}
     \<and> 0 \<le> wo_byte_count r \<and> wo_byte_count r \<le> int ARTIFACT_CONTENT_MAX_BYTES
     \<and> (wo_capture_state r \<in> {''available'', ''partial''} \<longleftrightarrow> 0 < wo_byte_count r)
     \<and> (wo_byte_count r = 0 \<longrightarrow> wo_content_digest r = '''')
     \<and> (wo_complete r \<longrightarrow> wo_capture_state r \<in> {''available'', ''empty''}))"

definition of_stream :: "output_receipt_row \<Rightarrow> output_stream_row \<Rightarrow> bool" where
  "of_stream r st = (wo_stream_id r = os_id st \<and> wo_work_item_id r = os_work_item_id st
     \<and> wo_attempt_id r = os_attempt_id st \<and> wo_runtime_session_id r = os_runtime_session_id st
     \<and> wo_source_message_id r = os_source_message_id st \<and> wo_delivery_generation r = os_delivery_generation st
     \<and> wo_enrollment_generation r = os_enrollment_generation st \<and> wo_work_generation r = os_work_generation st)"

definition stream_key :: "output_stream_row \<Rightarrow> ident \<times> int" where
  "stream_key st = (os_source_message_id st, os_delivery_generation st)"

text \<open>
  A stream that has a terminal has exactly one \<open>turn_end\<close> receipt, the one it names, and no receipt
  after it; every receipt carries the binding of its stream.
\<close>

definition capture_tables_ok :: "output_stream_row list \<Rightarrow> output_receipt_row list \<Rightarrow> int \<Rightarrow> bool" where
  "capture_tables_ok streams receipts n =
     (distinct (map os_id streams) \<and> distinct (map stream_key streams)
      \<and> distinct (map wo_id receipts) \<and> sorted_wrt (<) (map wo_sequence receipts)
      \<and> (\<forall>r\<in>set receipts. wo_sequence r \<le> n \<and> receipt_ok r
           \<and> (\<exists>st\<in>set streams. of_stream r st \<and> (wo_event_kind r = ''turn_end'' \<longleftrightarrow> os_terminal_output_id st = wo_id r)))
      \<and> (\<forall>st\<in>set streams. os_terminal_output_id st \<noteq> '''' \<longrightarrow>
           (\<exists>r\<in>set receipts. wo_id r = os_terminal_output_id st \<and> wo_stream_id r = os_id st))
      \<and> (\<forall>r\<in>set receipts. \<forall>x\<in>set receipts. wo_event_kind r = ''turn_end'' \<longrightarrow> wo_stream_id x = wo_stream_id r
           \<longrightarrow> wo_sequence x \<le> wo_sequence r))"

definition capture_ok :: "db \<Rightarrow> bool" where
  "capture_ok s = capture_tables_ok (output_streams s) (output_receipts s) (output_sequence s)"

lemma tables_okD:
  assumes "capture_tables_ok S R n"
  shows "distinct (map os_id S)" "distinct (map stream_key S)" "distinct (map wo_id R)"
    "sorted_wrt (<) (map wo_sequence R)" "r \<in> set R \<Longrightarrow> wo_sequence r \<le> n" "r \<in> set R \<Longrightarrow> receipt_ok r"
    "r \<in> set R \<Longrightarrow> \<exists>st\<in>set S. of_stream r st \<and> (wo_event_kind r = ''turn_end'' \<longleftrightarrow> os_terminal_output_id st = wo_id r)"
    "st \<in> set S \<Longrightarrow> os_terminal_output_id st \<noteq> '''' \<Longrightarrow>
       \<exists>r\<in>set R. wo_id r = os_terminal_output_id st \<and> wo_stream_id r = os_id st"
    "r \<in> set R \<Longrightarrow> x \<in> set R \<Longrightarrow> wo_event_kind r = ''turn_end'' \<Longrightarrow> wo_stream_id x = wo_stream_id r
       \<Longrightarrow> wo_sequence x \<le> wo_sequence r"
  using assms unfolding capture_tables_ok_def by blast+

text \<open>Appending one receipt: what is left to show.\<close>

lemma tables_add_receipt:
  assumes ok: "capture_tables_ok S R n" and r: "receipt_ok r" "wo_id r \<notin> wo_id ` set R" "wo_sequence r = n + 1"
    and keys: "map os_id S' = map os_id S" "map stream_key S' = map stream_key S"
    and open_: "\<And>x. x \<in> set R \<Longrightarrow> wo_stream_id x = wo_stream_id r \<Longrightarrow> wo_event_kind x \<noteq> ''turn_end''"
    and bound: "\<And>x. x \<in> set (R @ [r]) \<Longrightarrow>
      \<exists>st\<in>set S'. of_stream x st \<and> (wo_event_kind x = ''turn_end'' \<longleftrightarrow> os_terminal_output_id st = wo_id x)"
    and terminal: "\<And>st. st \<in> set S' \<Longrightarrow> os_terminal_output_id st \<noteq> '''' \<Longrightarrow>
      \<exists>x\<in>set (R @ [r]). wo_id x = os_terminal_output_id st \<and> wo_stream_id x = os_id st"
  shows "capture_tables_ok S' (R @ [r]) (n + 1)"
proof -
  have less: "wo_sequence x < wo_sequence r" if "x \<in> set R" for x using tables_okD(5) [OF ok that] r(3) by simp
  have "distinct (map os_id S')" "distinct (map stream_key S')" using keys tables_okD(1,2) [OF ok] by simp_all
  moreover have "distinct (map wo_id (R @ [r]))" using tables_okD(3) [OF ok] r(2) by simp
  moreover have "sorted_wrt (<) (map wo_sequence (R @ [r]))"
    using tables_okD(4) [OF ok] less by (simp add: sorted_wrt_append)
  moreover have "wo_sequence x \<le> n + 1 \<and> receipt_ok x" if "x \<in> set (R @ [r])" for x
    using that r tables_okD(5,6) [OF ok, of x] by auto
  moreover have "wo_sequence y \<le> wo_sequence x"
    if "x \<in> set (R @ [r])" "y \<in> set (R @ [r])" "wo_event_kind x = ''turn_end''" "wo_stream_id y = wo_stream_id x" for x y
    using that less [of y] open_ [of x] tables_okD(9) [OF ok, of x y] by (cases "x \<in> set R"; cases "y \<in> set R") auto
  ultimately show ?thesis using bound terminal unfolding capture_tables_ok_def by blast
qed

lemma tables_add_stream:
  assumes "capture_tables_ok S R n" "os_id st \<notin> os_id ` set S" "stream_key st \<notin> stream_key ` set S"
    "os_terminal_output_id st = ''''"
  shows "capture_tables_ok (S @ [st]) R n"
  using assms unfolding capture_tables_ok_def by auto

lemma tables_keep_streams:
  assumes "capture_tables_ok S R n"
    and keep: "\<And>st. os_id (f st) = os_id st" "\<And>st. stream_key (f st) = stream_key st"
      "\<And>st. os_terminal_output_id (f st) = os_terminal_output_id st" "\<And>r st. of_stream r (f st) = of_stream r st"
  shows "capture_tables_ok (update_rows p f S) R n"
proof -
  have "map os_id (update_rows p f S) = map os_id S" "map stream_key (update_rows p f S) = map stream_key S"
    using keep by (simp_all add: map_update_rows)
  moreover define g where "g = (\<lambda>st. if p st then f st else st)"
  then have g: "os_id (g st) = os_id st" "os_terminal_output_id (g st) = os_terminal_output_id st"
      "of_stream r (g st) = of_stream r st" for r st
    using keep by simp_all
  have "set (update_rows p f S) = g ` set S" by (simp add: set_update_rows g_def)
  ultimately show ?thesis using assms(1) unfolding capture_tables_ok_def by (simp add: g)
qed

lemma open_stream_has_no_terminal:
  assumes "capture_tables_ok S R n" "st \<in> set S" "os_terminal_output_id st = ''''" "x \<in> set R" "wo_stream_id x = os_id st"
  shows "wo_event_kind x \<noteq> ''turn_end'' \<and> of_stream x st"
proof -
  from assms obtain st' where st': "st' \<in> set S" "of_stream x st'"
    "wo_event_kind x = ''turn_end'' \<longleftrightarrow> os_terminal_output_id st' = wo_id x" and ok: "receipt_ok x"
    unfolding capture_tables_ok_def by blast
  then have "os_id st' = os_id st" using assms(5) by (simp add: of_stream_def)
  then have eq: "st' = st" by (rule key_unique [OF tables_okD(1) [OF assms(1)] st'(1) assms(2)])
  have "of_stream x st" "wo_event_kind x = ''turn_end'' \<longleftrightarrow> os_terminal_output_id st = wo_id x"
    using st'(2,3) unfolding eq .
  moreover have "wo_id x \<noteq> ''''" using ok by (simp add: receipt_ok_def)
  ultimately show ?thesis using assms(3) by auto
qed

lemma tables_add_message:
  assumes ok: "capture_tables_ok S R n" and st: "st \<in> set S" "os_terminal_output_id st = ''''" "of_stream r st"
    and r: "receipt_ok r" "wo_event_kind r = ''message''" "wo_id r \<notin> wo_id ` set R" "wo_sequence r = n + 1"
  shows "capture_tables_ok S (R @ [r]) (n + 1)"
proof -
  have new: "wo_event_kind x \<noteq> ''turn_end''" if "x \<in> set R" "wo_stream_id r = wo_stream_id x" for x
    using open_stream_has_no_terminal [OF ok st(1,2) that(1)] that(2) st(3) by (simp add: of_stream_def)
  have "wo_id r \<noteq> ''''" using r(1) by (simp add: receipt_ok_def)
  then have own: "\<exists>st\<in>set S. of_stream r st \<and> (wo_event_kind r = ''turn_end'' \<longleftrightarrow> os_terminal_output_id st = wo_id r)"
    using st r(2) by auto
  show ?thesis
  proof (rule tables_add_receipt [OF ok r(1,3,4) refl refl])
    show "wo_event_kind x \<noteq> ''turn_end''" if "x \<in> set R" "wo_stream_id x = wo_stream_id r" for x
      using new [OF that(1)] that(2) by simp
    show "\<exists>st\<in>set S. of_stream x st \<and> (wo_event_kind x = ''turn_end'' \<longleftrightarrow> os_terminal_output_id st = wo_id x)"
      if "x \<in> set (R @ [r])" for x
      using that own tables_okD(7) [OF ok, of x] by auto
    show "\<exists>x\<in>set (R @ [r]). wo_id x = os_terminal_output_id st \<and> wo_stream_id x = os_id st"
      if "st \<in> set S" "os_terminal_output_id st \<noteq> ''''" for st
      using tables_okD(8) [OF ok that] by auto
  qed
qed

lemma tables_add_terminal:
  assumes ok: "capture_tables_ok S R n" and st: "st \<in> set S" "os_terminal_output_id st = ''''" "of_stream r st"
    and r: "receipt_ok r" "wo_event_kind r = ''turn_end''" "wo_id r \<notin> wo_id ` set R" "wo_sequence r = n + 1"
  shows "capture_tables_ok (update_rows (\<lambda>x. os_id x = os_id st) (\<lambda>x. x\<lparr>os_terminal_output_id := wo_id r\<rparr>) S) (R @ [r]) (n + 1)"
    (is "capture_tables_ok (update_rows ?p ?f S) _ _")
proof -
  have uniq: "x = st" if "x \<in> set S" "os_id x = os_id st" for x
    using that(2) by (rule key_unique [OF tables_okD(1) [OF ok] that(1) st(1)])
  have S': "set (update_rows ?p ?f S) = insert (?f st) (set S - {st})"
  proof -
    let ?g = "\<lambda>x. if ?p x then ?f x else x"
    have same: "?g x = x" if "x \<in> set S - {st}" for x
    proof -
      have "\<not> ?p x" using that uniq by blast
      then show ?thesis by simp
    qed
    have S: "set S = insert st (set S - {st})" using st(1) by blast
    have "set (update_rows ?p ?f S) = insert (?g st) (?g ` (set S - {st}))"
      unfolding set_update_rows by (subst S) (rule image_insert)
    also have "?g ` (set S - {st}) = (\<lambda>x. x) ` (set S - {st})" by (rule image_cong [OF refl same])
    finally show ?thesis by simp
  qed
  have keys: "map os_id (update_rows ?p ?f S) = map os_id S" "map stream_key (update_rows ?p ?f S) = map stream_key S"
    by (simp_all add: map_update_rows stream_key_def)
  have old: "\<exists>y\<in>set (update_rows ?p ?f S). of_stream x y \<and> (wo_event_kind x = ''turn_end'' \<longleftrightarrow> os_terminal_output_id y = wo_id x)"
    if x: "x \<in> set R" for x
  proof -
    from ok x obtain y where y: "y \<in> set S" "of_stream x y" "wo_event_kind x = ''turn_end'' \<longleftrightarrow> os_terminal_output_id y = wo_id x"
      unfolding capture_tables_ok_def by blast
    show ?thesis
    proof (cases "y = st")
      case True
      have "wo_event_kind x \<noteq> ''turn_end''"
        using open_stream_has_no_terminal [OF ok st(1,2) x] y(2) True by (simp add: of_stream_def)
      moreover have "wo_id r \<noteq> wo_id x" using r(3) x by auto
      moreover have "of_stream x (?f st)" using y(2) True by (simp add: of_stream_def)
      ultimately show ?thesis unfolding S' by auto
    qed (use y S' in auto)
  qed
  have new: "of_stream r (?f st)" using st(3) by (simp add: of_stream_def)
  have terminal: "\<exists>x\<in>set (R @ [r]). wo_id x = os_terminal_output_id y \<and> wo_stream_id x = os_id y"
    if "y \<in> set (update_rows ?p ?f S)" "os_terminal_output_id y \<noteq> ''''" for y
    using that tables_okD(8) [OF ok, of y] st(3) unfolding S' of_stream_def by auto
  have own: "\<exists>y\<in>set (update_rows ?p ?f S). of_stream r y \<and> (wo_event_kind r = ''turn_end'' \<longleftrightarrow> os_terminal_output_id y = wo_id r)"
    unfolding S' using new r(2) by auto
  show ?thesis
  proof (rule tables_add_receipt [OF ok r(1,3,4) keys])
    show "wo_event_kind x \<noteq> ''turn_end''" if "x \<in> set R" "wo_stream_id x = wo_stream_id r" for x
      using open_stream_has_no_terminal [OF ok st(1,2) that(1)] that(2) st(3) by (simp add: of_stream_def)
    show "\<exists>y\<in>set (update_rows ?p ?f S). of_stream x y \<and> (wo_event_kind x = ''turn_end'' \<longleftrightarrow> os_terminal_output_id y = wo_id x)"
      if "x \<in> set (R @ [r])" for x
      using that own old [of x] by auto
  qed (use terminal in blast)
qed

section \<open>The operations keep the tables\<close>

definition capture_frame :: "db \<Rightarrow> db \<Rightarrow> bool" where
  "capture_frame s s' = (output_streams s' = output_streams s \<and> output_receipts s' = output_receipts s
     \<and> output_sequence s' = output_sequence s)"

lemma capture_frame_ok: "capture_frame s s' \<Longrightarrow> capture_ok s \<Longrightarrow> capture_ok s'"
  by (simp add: capture_frame_def capture_ok_def)

lemma begin_capture_tx_ok:
  assumes "begin_capture_tx e q s = Inr (s', i)" "capture_ok s"
  shows "capture_ok s'"
proof (cases "s' = s")
  case False
  from assms(1) False obtain st where st: "insert_stream st s = Inr s'" "os_terminal_output_id st = ''''"
    by (auto simp: begin_capture_tx_def Let_def bindE_Inr_iff split: option.splits if_splits)
  then have "output_streams s' = output_streams s @ [st]" "output_receipts s' = output_receipts s"
    "output_sequence s' = output_sequence s" "os_id st \<notin> os_id ` set (output_streams s)"
    "stream_key st \<notin> stream_key ` set (output_streams s)"
    by (auto simp: insert_stream_def list_ex_iff stream_key_def split: if_splits)
  then show ?thesis using assms(2) st(2) by (simp add: capture_ok_def tables_add_stream)
qed (use assms in simp)

definition cap_ok :: "captured \<Rightarrow> bool" where
  "cap_ok cap = (cap_state cap \<in> {''available'', ''empty'', ''partial'', ''withheld'', ''unavailable''}
     \<and> length (cap_content cap) \<le> ARTIFACT_CONTENT_MAX_BYTES
     \<and> (cap_state cap \<in> {''available'', ''partial''} \<longleftrightarrow> cap_content cap \<noteq> [])
     \<and> (cap_content cap = [] \<longrightarrow> cap_digest cap = '''') \<and> (cap_complete cap \<longrightarrow> cap_state cap \<in> {''available'', ''empty''}))"

lemma max_bytes_four: "4 \<le> ARTIFACT_CONTENT_MAX_BYTES"
  by (simp add: ARTIFACT_CONTENT_MAX_BYTES_def)

text \<open>What is kept of a text: the longest start of it that fits into the archive limit.\<close>

lemma captured_content:
  assumes "utf8_encode (ev_text ev) = Inr raw"
  shows "raw = utf8 (ev_text ev)"
    "cap_content (captured_text c ev raw) = utf8 (fit ARTIFACT_CONTENT_MAX_BYTES (ev_text ev))"
  using assms by (auto simp: utf8_encode_def captured_text_def Let_def utf8_decode_ignore_cut split: if_splits)

lemma captured_text_ok:
  assumes "utf8_encode (ev_text ev) = Inr raw"
  shows "cap_ok (captured_text c ev raw)"
proof -
  have "fit ARTIFACT_CONTENT_MAX_BYTES t = [] \<longleftrightarrow> t = []" for t
    using max_bytes_four utf8_char_length(2) [of "hd t"] by (cases t) auto
  then have "cap_content (captured_text c ev raw) = [] \<longleftrightarrow> raw = []"
    using captured_content [OF assms] by simp
  moreover have "length (cap_content (captured_text c ev raw)) \<le> ARTIFACT_CONTENT_MAX_BYTES"
    using captured_content(2) [OF assms] fit_bounded by simp
  ultimately show ?thesis by (auto simp: cap_ok_def captured_text_def Let_def)
qed

lemma without_content_ok: "state \<in> {''withheld'', ''unavailable''} \<Longrightarrow> cap_ok (without_content state)"
  by (auto simp: cap_ok_def without_content_def)

lemma screened_text_ok:
  "utf8_encode (ev_text ev) = Inr raw \<Longrightarrow> screened_text c ev raw = Inr cap \<Longrightarrow> cap_ok cap"
  using captured_text_ok [of ev raw c] without_content_ok
  by (auto simp: screened_text_def bindE_Inr_iff split: if_splits)

lemma stage_captured_ok: "stage_captured c cap a = (a', cap') \<Longrightarrow> cap_ok cap \<Longrightarrow> cap_ok cap'"
  using without_content_ok by (auto simp: stage_captured_def split: if_splits sum.splits)

lemma find_stream_ok:
  assumes "find_stream e q s = Inr st"
  shows "st \<in> set (output_streams s)" "os_source_message_id st = cq_message_id q"
    "os_delivery_generation st = cq_delivery_generation q" "os_runtime_session_id st = cq_runtime_id q"
    "os_attempt_id st = cq_attempt_id q" "os_enrollment_generation st = cq_enrollment_generation q"
    "os_owner_token_digest st = worker_digest e (jstr (cq_owner_token q))"
  using assms by (auto simp: find_stream_def split: option.splits if_splits dest: fetchone_SomeD)

lemma capture_current_work: "capture_current s q st = Some (a, w) \<Longrightarrow> w_id w = os_work_item_id st"
  by (auto simp: capture_current_def get_work_def split: option.splits if_splits dest: fetchone_SomeD)

lemma observe_fresh:
  assumes "observe_checks e c q ev raw s = Inr (Fresh st a w s1 cap)"
  shows "find_stream e q s = Inr st" "os_terminal_output_id st = ''''" "w_id w = os_work_item_id st"
    "s1 = bind_turn e ev (os_id st) (bind_thread q ev s)" "screened_text c ev raw = Inr cap"
  using assms
  by (auto simp: observe_checks_def bindE_Inr_iff split: option.splits if_splits dest: capture_current_work)

lemma observe_replayed:
  assumes "observe_checks e c q ev raw s = Inr (Replayed r)"
  shows "r \<in> set (output_receipts s)"
  using assms by (auto simp: observe_checks_def bindE_Inr_iff split: option.splits if_splits prod.splits dest: fetchone_SomeD)

definition bound_stream :: "env \<Rightarrow> output_event \<Rightarrow> output_stream_row \<Rightarrow> output_stream_row" where
  "bound_stream e ev st = st\<lparr>
     os_source_thread_digest := (if os_source_thread_digest st = '''' then source_digest e (ev_native_thread_id ev)
                                 else os_source_thread_digest st),
     os_source_turn_digest := (if os_source_turn_digest st = '''' then source_digest e (ev_turn_id ev)
                                 else os_source_turn_digest st)\<rparr>"

lemma bound_stream_keeps [simp]:
  "os_id (bound_stream e ev st) = os_id st" "os_work_item_id (bound_stream e ev st) = os_work_item_id st"
  "os_work_generation (bound_stream e ev st) = os_work_generation st" "os_terminal_output_id (bound_stream e ev st) = os_terminal_output_id st"
  "os_source_message_id (bound_stream e ev st) = os_source_message_id st"
  "os_delivery_generation (bound_stream e ev st) = os_delivery_generation st"
  "os_runtime_session_id (bound_stream e ev st) = os_runtime_session_id st"
  "os_attempt_id (bound_stream e ev st) = os_attempt_id st"
  "os_enrollment_generation (bound_stream e ev st) = os_enrollment_generation st"
  "os_owner_token_digest (bound_stream e ev st) = os_owner_token_digest st"
  "stream_key (bound_stream e ev st) = stream_key st" "of_stream r (bound_stream e ev st) = of_stream r st"
  by (simp_all add: bound_stream_def stream_key_def of_stream_def)

lemma bind_streams:
  "output_streams (bind_turn e ev i (bind_thread q ev s)) = update_rows (\<lambda>st. os_id st = i) (bound_stream e ev) (output_streams s)"
  "output_receipts (bind_turn e ev i (bind_thread q ev s)) = output_receipts s"
  "output_sequence (bind_turn e ev i (bind_thread q ev s)) = output_sequence s"
  "authority_mode (bind_turn e ev i (bind_thread q ev s)) = authority_mode s"
  by (simp_all add: bind_turn_def bind_thread_def bound_stream_def [abs_def])

lemma settle_stream_tables:
  "output_receipts (settle_stream e q ev wk i o' s) = output_receipts s"
  "output_sequence (settle_stream e q ev wk i o' s) = output_sequence s"
  "authority_mode (settle_stream e q ev wk i o' s) = authority_mode s"
  "output_streams (settle_stream e q ev wk i o' s) = (if ev_kind ev = ''turn_end''
     then update_rows (\<lambda>st. os_id st = i) (\<lambda>st. st\<lparr>os_terminal_output_id := o'\<rparr>) (output_streams s) else output_streams s)"
  by (simp_all add: settle_stream_def end_stream_def consume_input_def Let_def)

lemma insert_receipt_ok:
  assumes "insert_receipt r s = Inr s'"
  shows "output_receipts s' = output_receipts s @ [r]" "output_sequence s' = wo_sequence r"
    "output_streams s' = output_streams s" "authority_mode s' = authority_mode s"
    "wo_id r \<notin> wo_id ` set (output_receipts s)"
  using assms by (auto simp: insert_receipt_def list_ex_iff split: if_splits)

lemma new_receipt_ok:
  assumes "envelope_ok ev" "cap_ok cap"
  shows "receipt_ok (new_receipt e c q ev raw st a w cap s)"
proof -
  have "ev_kind ev \<in> {''message'', ''turn_end''}" "ev_phase ev \<in> {''commentary'', ''final'', ''unspecified''}"
    "ev_status ev \<in> {''running'', ''completed'', ''failed'', ''interrupted''}"
    "ev_status ev = ''running'' \<longleftrightarrow> ev_kind ev = ''message''"
    using assms(1) unfolding envelope_ok_def by blast+
  moreover have "cap_state cap \<in> {''available'', ''partial''} \<longleftrightarrow> 0 < length (cap_content cap)"
    "length (cap_content cap) = 0 \<longrightarrow> cap_digest cap = ''''"
    "cap_complete cap \<longrightarrow> cap_state cap \<in> {''available'', ''empty''}"
    "length (cap_content cap) \<le> ARTIFACT_CONTENT_MAX_BYTES"
    "cap_state cap \<in> {''available'', ''empty'', ''partial'', ''withheld'', ''unavailable''}"
    using assms(2) unfolding cap_ok_def by simp_all
  moreover have "output_identity e i k t \<noteq> ''''" for i k t by (simp add: output_identity_def)
  ultimately show ?thesis unfolding receipt_ok_def new_receipt_def by simp
qed

lemma record_capture_tables:
  assumes "record_capture e c q ev raw st a w cap s = Inr (s', r)"
  shows "r = new_receipt e c q ev raw st a w cap s"
    "output_receipts s' = output_receipts s @ [r]" "output_sequence s' = output_sequence s + 1"
    "wo_id r \<notin> wo_id ` set (output_receipts s)" "authority_mode s' = authority_mode s"
    "output_streams s' = (if ev_kind ev = ''turn_end''
       then update_rows (\<lambda>x. os_id x = os_id st) (\<lambda>x. x\<lparr>os_terminal_output_id := wo_id r\<rparr>) (output_streams s)
       else output_streams s)"
proof -
  let ?r = "new_receipt e c q ev raw st a w cap s"
  from assms obtain s1 where s1: "insert_receipt ?r s = Inr s1" and r: "r = ?r"
    and s': "\<exists>x. s' = log_event e x (settle_stream e q ev (a_worker_id a) (os_id st) (wo_id ?r) s1)"
    by (auto simp: record_capture_def Let_def bindE_Inr_iff)
  note ins = insert_receipt_ok [OF s1]
  show "r = ?r" by (rule r)
  have seq: "wo_sequence ?r = output_sequence s + 1" by (simp add: new_receipt_def)
  from s' obtain x where x: "s' = log_event e x (settle_stream e q ev (a_worker_id a) (os_id st) (wo_id ?r) s1)" by blast
  show "output_receipts s' = output_receipts s @ [r]" "output_sequence s' = output_sequence s + 1"
    "authority_mode s' = authority_mode s"
    by (simp_all add: x r settle_stream_tables ins(1,2,4) seq)
  show "wo_id r \<notin> wo_id ` set (output_receipts s)" using ins(5) r by simp
  show "output_streams s' = (if ev_kind ev = ''turn_end''
       then update_rows (\<lambda>x. os_id x = os_id st) (\<lambda>x. x\<lparr>os_terminal_output_id := wo_id r\<rparr>) (output_streams s)
       else output_streams s)"
    by (simp add: x r settle_stream_tables ins(3))
qed

lemma observe_tx_ok:
  assumes run: "observe_tx e c q ev raw a s = (a', Inr (s', r))" and ok: "capture_ok s"
    and ev: "envelope_ok ev" "utf8_encode (ev_text ev) = Inr raw"
  shows "capture_ok s'"
proof (cases "observe_checks e c q ev raw s")
  case (Inr o')
  then show ?thesis
  proof (cases o')
    case (Fresh st att w s1 cap0)
    note fresh = observe_fresh [OF Inr [unfolded Fresh]]
    note st = find_stream_ok [OF fresh(1)]
    obtain a1 cap where cap: "stage_captured c cap0 a = (a1, cap)" by (cases "stage_captured c cap0 a")
    then have rec: "record_capture e c q ev raw st att w cap s1 = Inr (s', r)"
      using run by (simp add: observe_tx_def Inr Fresh)
    note tab = record_capture_tables [OF rec]
    let ?st = "bound_stream e ev st"
    have ok1: "capture_tables_ok (output_streams s1) (output_receipts s1) (output_sequence s1)"
      using ok unfolding fresh(4) bind_streams capture_ok_def by (rule tables_keep_streams) simp_all
    have in1: "?st \<in> set (output_streams s1)"
      unfolding fresh(4) bind_streams set_update_rows using st(1) by (auto intro: rev_image_eqI)
    have r: "receipt_ok r"
      unfolding tab(1) by (rule new_receipt_ok [OF ev(1) stage_captured_ok [OF cap screened_text_ok [OF ev(2) fresh(5)]]])
    have of_st: "of_stream r ?st" "wo_event_kind r = ev_kind ev" "wo_sequence r = output_sequence s1 + 1"
      unfolding tab(1) by (simp_all add: new_receipt_def of_stream_def st fresh(3))
    have open_end: "os_terminal_output_id ?st = ''''" using fresh(2) by simp
    have "ev_kind ev \<in> {''message'', ''turn_end''}" using ev(1) unfolding envelope_ok_def by blast
    then consider "ev_kind ev = ''message''" | "ev_kind ev = ''turn_end''" by blast
    then show ?thesis
    proof cases
      case 1
      have "output_streams s' = output_streams s1" using tab(6) 1 by simp
      then show ?thesis using tables_add_message [OF ok1 in1 open_end of_st(1) r _ tab(4) of_st(3)] of_st(2) 1
        unfolding capture_ok_def tab(2,3) by simp
    next
      case 2
      have "output_streams s' = update_rows (\<lambda>x. os_id x = os_id ?st) (\<lambda>x. x\<lparr>os_terminal_output_id := wo_id r\<rparr>) (output_streams s1)"
        using tab(6) 2 by simp
      then show ?thesis using tables_add_terminal [OF ok1 in1 open_end of_st(1) r _ tab(4) of_st(3)] of_st(2) 2
        unfolding capture_ok_def tab(2,3) by simp
    qed
  qed (use run ok Inr in \<open>simp add: observe_tx_def\<close>)
qed (use run in \<open>simp add: observe_tx_def\<close>)

lemma observe_receipt_tx:
  assumes "observe_receipt e c q ev a s = (a', Inr (s', r))"
  obtains raw where "envelope_ok ev" "utf8_encode (ev_text ev) = Inr raw" "authority_mode s = Some ''canonical''"
    "observe_tx e c q ev raw a s = (a', Inr (s', r))"
  using assms by (auto simp: observe_receipt_def transaction_Inr_iff split: if_splits sum.splits)

lemma observe_output_receipt:
  assumes "observe_output e c q ev a s = (a', Inr (s', v))"
  obtains r where "observe_receipt e c q ev a s = (a', Inr (s', r))" "v = output_view r"
  using assms by (auto simp: observe_output_def bindE_Inr_iff split: prod.splits)

lemma record_event_log: "record_event e y s = (s', n) \<Longrightarrow> s' = log_event e y s"
  by (simp add: log_event_def)

lemma read_output_frame: "read_output e c a actor q s = Inr (s', x) \<Longrightarrow> capture_frame s s'"
proof -
  assume run: "read_output e c a actor q s = Inr (s', x)"
  then obtain r0 k0 n0 where "read_output_tx e c a actor q s = Inr (s', r0, k0, n0)"
    by (auto simp: read_output_def bindE_Inr_iff transaction_Inr_iff split: if_splits)
  then obtain r k where "audit_read e actor q r k s = Inr (s', r0, k0, n0)"
    by (auto simp: read_output_tx_def Let_def bindE_Inr_iff split: option.splits if_splits)
  then show ?thesis
    by (auto simp: audit_read_def capture_frame_def dest!: record_event_log split: option.splits if_splits prod.splits)
qed

section \<open>Runs\<close>

text \<open>One transaction of the capture, or any other work that leaves the two tables alone.\<close>

inductive capture_step :: "db \<Rightarrow> db \<Rightarrow> bool" where
  reserve: "begin_capture e q s = Inr (s', i) \<Longrightarrow> capture_step s s'"
| observe: "observe_output e c q ev a s = (a', Inr (s', v)) \<Longrightarrow> capture_step s s'"
| read: "read_output e c a actor q s = Inr (s', x) \<Longrightarrow> capture_step s s'"
| other: "capture_frame s s' \<Longrightarrow> capture_step s s'"

lemma capture_step_ok: "capture_step s s' \<Longrightarrow> capture_ok s \<Longrightarrow> capture_ok s'"
proof (induction rule: capture_step.induct)
  case (reserve e q s s' i)
  then show ?case by (auto simp: begin_capture_def transaction_Inr_iff intro: begin_capture_tx_ok)
next
  case (observe e c q ev a s a' s' v)
  from observe(1) obtain r where "observe_receipt e c q ev a s = (a', Inr (s', r))" by (rule observe_output_receipt)
  then obtain raw where "envelope_ok ev" "utf8_encode (ev_text ev) = Inr raw" "observe_tx e c q ev raw a s = (a', Inr (s', r))"
    by (rule observe_receipt_tx)
  then show ?case using observe_tx_ok observe(2) by blast
qed (auto dest: read_output_frame capture_frame_ok)

lemma capture_ok_empty: "output_streams s = [] \<Longrightarrow> output_receipts s = [] \<Longrightarrow> capture_ok s"
  by (simp add: capture_ok_def capture_tables_ok_def)


section \<open>A closed stream\<close>

definition closed_stream :: "ident \<times> int \<Rightarrow> db \<Rightarrow> bool" where
  "closed_stream k s = (\<exists>st\<in>set (output_streams s). stream_key st = k \<and> os_terminal_output_id st \<noteq> '''')"

lemma closed_update:
  assumes "\<And>st. stream_key (f st) = stream_key st" "\<And>st. os_terminal_output_id st \<noteq> '''' \<Longrightarrow> os_terminal_output_id (f st) \<noteq> ''''"
    and "\<exists>st\<in>set S. stream_key st = k \<and> os_terminal_output_id st \<noteq> ''''"
  shows "\<exists>st\<in>set (update_rows p f S). stream_key st = k \<and> os_terminal_output_id st \<noteq> ''''"
proof -
  from assms(3) obtain st where st: "st \<in> set S" "stream_key st = k" "os_terminal_output_id st \<noteq> ''''" by blast
  let ?g = "if p st then f st else st"
  have "?g \<in> set (update_rows p f S)" using st(1) unfolding set_update_rows by (rule imageI)
  moreover have "stream_key ?g = k" using assms(1) st(2) by simp
  moreover have "os_terminal_output_id ?g \<noteq> ''''" using assms(2) [OF st(3)] st(3) by (simp split: if_split)
  ultimately show ?thesis by blast
qed

definition observed_streams :: "env \<Rightarrow> output_event \<Rightarrow> ident \<Rightarrow> ident \<Rightarrow> output_stream_row list \<Rightarrow> output_stream_row list" where
  "observed_streams e ev i o' streams = (let S = update_rows (\<lambda>x. os_id x = i) (bound_stream e ev) streams in
     if ev_kind ev = ''turn_end'' then update_rows (\<lambda>x. os_id x = i) (\<lambda>x. x\<lparr>os_terminal_output_id := o'\<rparr>) S else S)"

lemma observed_streams_closed:
  assumes "\<exists>st\<in>set streams. stream_key st = k \<and> os_terminal_output_id st \<noteq> ''''" "o' \<noteq> ''''"
  shows "\<exists>st\<in>set (observed_streams e ev i o' streams). stream_key st = k \<and> os_terminal_output_id st \<noteq> ''''"
proof -
  define S where "S = update_rows (\<lambda>x. os_id x = i) (bound_stream e ev) streams"
  have S: "\<exists>st\<in>set S. stream_key st = k \<and> os_terminal_output_id st \<noteq> ''''"
    unfolding S_def by (rule closed_update [OF _ _ assms(1)]) simp_all
  have "\<exists>st\<in>set (update_rows p (\<lambda>x. x\<lparr>os_terminal_output_id := o'\<rparr>) S). stream_key st = k \<and> os_terminal_output_id st \<noteq> ''''" for p
    by (rule closed_update [OF _ _ S]) (simp_all add: stream_key_def assms(2))
  then show ?thesis using S unfolding observed_streams_def S_def [symmetric] Let_def by simp
qed

lemma observe_receipt_streams:
  assumes "observe_receipt e c q ev a s = (a', Inr (s', r))"
  shows "s' = s \<and> a' = a
    \<or> (\<exists>st. find_stream e q s = Inr st \<and> os_terminal_output_id st = '''' \<and> wo_id r \<noteq> ''''
        \<and> wo_stream_id r = os_id st \<and> r \<in> set (output_receipts s')
        \<and> output_streams s' = observed_streams e ev (os_id st) (wo_id r) (output_streams s))"
proof -
  from assms obtain raw where run: "observe_tx e c q ev raw a s = (a', Inr (s', r))" by (rule observe_receipt_tx)
  then obtain o' where checks: "observe_checks e c q ev raw s = Inr o'"
    by (cases "observe_checks e c q ev raw s") (simp_all add: observe_tx_def)
  show ?thesis
  proof (cases o')
    case (Fresh st att w s1 cap0)
    note fresh = observe_fresh [OF checks [unfolded Fresh]]
    obtain a1 cap where "stage_captured c cap0 a = (a1, cap)" by (cases "stage_captured c cap0 a")
    then have "record_capture e c q ev raw st att w cap s1 = Inr (s', r)" using run by (simp add: observe_tx_def checks Fresh)
    note tab = record_capture_tables [OF this]
    have "wo_id r \<noteq> ''''" "wo_stream_id r = os_id st" unfolding tab(1) by (simp_all add: new_receipt_def output_identity_def)
    moreover have "r \<in> set (output_receipts s')" using tab(2) by simp
    ultimately show ?thesis using fresh(1,2) tab(6) unfolding fresh(4) bind_streams observed_streams_def Let_def by blast
  qed (use run checks in \<open>simp add: observe_tx_def\<close>)
qed

lemma begin_capture_streams:
  "begin_capture e q s = Inr (s', i) \<Longrightarrow> set (output_streams s) \<subseteq> set (output_streams s')"
  by (auto simp: begin_capture_def transaction_Inr_iff begin_capture_tx_def insert_stream_def Let_def bindE_Inr_iff
      split: option.splits if_splits)

lemma capture_step_closed: "capture_step s s' \<Longrightarrow> closed_stream k s \<Longrightarrow> closed_stream k s'"
proof (induction rule: capture_step.induct)
  case (reserve e q s s' i)
  then show ?case using begin_capture_streams unfolding closed_stream_def by blast
next
  case (observe e c q ev a s a' s' v)
  from observe(1) obtain r where "observe_receipt e c q ev a s = (a', Inr (s', r))" by (rule observe_output_receipt)
  from observe_receipt_streams [OF this] consider "s' = s"
    | i where "wo_id r \<noteq> ''''" "output_streams s' = observed_streams e ev i (wo_id r) (output_streams s)" by blast
  then show ?case using observe(2) unfolding closed_stream_def by cases (simp_all add: observed_streams_closed)
qed (auto dest!: read_output_frame simp: capture_frame_def closed_stream_def)

text \<open>In a closed stream an observation is accepted only as a replay.\<close>

lemma closed_stream_replays:
  assumes ok: "capture_ok s" and closed: "closed_stream (cq_message_id q, cq_delivery_generation q) s"
    and run: "observe_receipt e c q ev a s = (a', Inr (s', r))"
  shows "s' = s \<and> a' = a"
proof (rule ccontr)
  assume "\<not> ?thesis"
  then obtain st where st: "find_stream e q s = Inr st" "os_terminal_output_id st = ''''"
    using observe_receipt_streams [OF run] by blast
  note found = find_stream_ok [OF st(1)]
  from closed obtain x where x: "x \<in> set (output_streams s)" "os_terminal_output_id x \<noteq> ''''"
    "stream_key x = stream_key st" unfolding closed_stream_def using found(2,3) by (auto simp: stream_key_def)
  have "distinct (map stream_key (output_streams s))" using ok unfolding capture_ok_def by (rule tables_okD)
  from key_unique [OF this x(1) found(1) x(3)] x(2) st(2) show False by simp
qed

lemma turn_end_closes:
  assumes "capture_ok s" "r \<in> set (output_receipts s)" "wo_event_kind r = ''turn_end''"
  shows "closed_stream (wo_source_message_id r, wo_delivery_generation r) s"
proof -
  note ok = assms(1) [unfolded capture_ok_def]
  from tables_okD(7) [OF ok assms(2)] assms(3) obtain st where st: "st \<in> set (output_streams s)" "of_stream r st"
    "os_terminal_output_id st = wo_id r" by blast
  moreover have "wo_id r \<noteq> ''''" using tables_okD(6) [OF ok assms(2)] by (simp add: receipt_ok_def)
  ultimately show ?thesis unfolding closed_stream_def by (intro bexI [of _ st]) (auto simp: stream_key_def of_stream_def)
qed

text \<open>C38: The end of a turn is final. Once a stream has the receipt of an ended turn, then however reservations, events, reads
  and other work interleave afterwards, every further event the stream accepts is a repetition of one it already
  has: neither the database nor the archive changes.\<close>

theorem turn_end_final:
  assumes "capture_ok s" "r \<in> set (output_receipts s)" "wo_event_kind r = ''turn_end''" "capture_step\<^sup>*\<^sup>* s t"
    and "observe_output e c q ev a t = (a', Inr (t', v))"
    and "cq_message_id q = wo_source_message_id r" "cq_delivery_generation q = wo_delivery_generation r"
  shows "t' = t \<and> a' = a"
proof -
  let ?k = "(wo_source_message_id r, wo_delivery_generation r)"
  from assms(5) obtain r2 where r2: "observe_receipt e c q ev a t = (a', Inr (t', r2))" by (rule observe_output_receipt)
  have "capture_ok t \<and> closed_stream ?k t"
    using assms(4) turn_end_closes [OF assms(1-3)] assms(1)
    by (induction rule: rtranclp_induct) (auto intro: capture_step_ok capture_step_closed)
  then show ?thesis using closed_stream_replays [OF _ _ r2] assms(6,7) by simp
qed

section \<open>What a review has seen\<close>

lemma covered_to_upto:
  assumes "sorted spans"
  shows "c \<le> covered_to c spans
    \<and> (\<forall>i. c \<le> i \<and> i < covered_to c spans \<longrightarrow> (\<exists>(a, b)\<in>set spans. a \<le> i \<and> i < b))
    \<and> (\<forall>(a, b)\<in>set spans. a \<le> covered_to c spans \<longrightarrow> b \<le> covered_to c spans)"
  using assms
proof (induction c spans rule: covered_to.induct)
  case (2 c start stop spans)
  show ?case
  proof (cases "start > c")
    case True
    have "\<forall>(a, b)\<in>set spans. start \<le> a" using 2(2) by (auto simp: less_eq_prod_def)
    then show ?thesis using True by auto
  next
    case False
    from 2(1) [OF False] 2(2) have
      ih: "max c stop \<le> covered_to (max c stop) spans"
        "\<And>i. max c stop \<le> i \<Longrightarrow> i < covered_to (max c stop) spans \<Longrightarrow> \<exists>(a, b)\<in>set spans. a \<le> i \<and> i < b"
        "\<forall>(a, b)\<in>set spans. a \<le> covered_to (max c stop) spans \<longrightarrow> b \<le> covered_to (max c stop) spans"
      by auto
    have "\<exists>(a, b)\<in>set ((start, stop) # spans). a \<le> i \<and> i < b"
      if "c \<le> i" "i < covered_to (max c stop) spans" for i
      using that False ih(2) [of i] by (cases "i < stop") auto
    then show ?thesis using ih(1,3) False by auto
  qed
qed simp

lemma covered_to_iff:
  assumes "sorted spans"
  shows "covered_to c spans = n \<longleftrightarrow> c \<le> n \<and> (\<forall>i. c \<le> i \<and> i < n \<longrightarrow> (\<exists>(a, b)\<in>set spans. a \<le> i \<and> i < b))
    \<and> (\<forall>(a, b)\<in>set spans. a \<le> n \<longrightarrow> b \<le> n)" (is "_ \<longleftrightarrow> ?char n")
proof
  assume n: "?char n"
  let ?m = "covered_to c spans"
  note m = covered_to_upto [OF assms, of c]
  show "?m = n"
  proof (rule antisym)
    show "?m \<le> n"
    proof (rule ccontr)
      assume "\<not> ?m \<le> n"
      with m n have "\<exists>(a, b)\<in>set spans. a \<le> n \<and> n < b" by auto
      with n show False by fastforce
    qed
    show "n \<le> ?m"
    proof (rule ccontr)
      assume "\<not> n \<le> ?m"
      with m n have "\<exists>(a, b)\<in>set spans. a \<le> ?m \<and> ?m < b" by auto
      with m show False by fastforce
    qed
  qed
qed (use covered_to_upto [OF assms, of c] in blast)

lemma review_all:
  "(\<exists>v. foldE (review_output c a actor s i) verified rs = Inr v) \<longleftrightarrow>
     (\<forall>d x. d \<notin> set verified \<longrightarrow> fetchone (\<lambda>r. wo_content_digest r = d) rs = Some x \<longrightarrow> reviewable c a actor s i x = Inr ())"
proof (induction rs arbitrary: verified)
  case (Cons r rs)
  show ?case
  proof (cases "wo_content_digest r \<in> set verified")
    case True
    then show ?thesis using Cons.IH [of verified] by (auto simp: review_output_def)
  next
    case False
    show ?thesis
    proof (cases "reviewable c a actor s i r")
      case (Inl err)
      then show ?thesis using False by (auto simp: review_output_def)
    next
      case (Inr unit)
      then have step: "review_output c a actor s i verified r = Inr (wo_content_digest r # verified)"
        using False by (simp add: review_output_def)
      have ok: "reviewable c a actor s i r = Inr ()" using Inr by simp
      have "(\<forall>d x. d \<notin> set verified \<longrightarrow> fetchone (\<lambda>r. wo_content_digest r = d) (r # rs) = Some x
          \<longrightarrow> reviewable c a actor s i x = Inr ()) \<longleftrightarrow>
        (\<forall>d x. d \<notin> set (wo_content_digest r # verified) \<longrightarrow> fetchone (\<lambda>r. wo_content_digest r = d) rs = Some x
          \<longrightarrow> reviewable c a actor s i x = Inr ())" (is "(\<forall>d x. ?A d x) \<longleftrightarrow> (\<forall>d x. ?B d x)")
      proof -
        have "(\<forall>x. ?A d x) \<longleftrightarrow> (\<forall>x. ?B d x)" for d
          using ok by (cases "d = wo_content_digest r") auto
        then show ?thesis by simp
      qed
      then show ?thesis using Cons.IH [of "wo_content_digest r # verified"] step by simp
    qed
  qed
qed simp

text \<open>Every byte of an output lies in a read of the actor's current attachment, and no such read goes past its end.\<close>

definition read_offset :: "event_row \<Rightarrow> int" where
  "read_offset x = jnat (jget (e_data x) ''byte_offset'')"

definition read_count :: "event_row \<Rightarrow> int" where
  "read_count x = jnat (jget (e_data x) ''byte_count'')"

definition read_whole :: "db \<Rightarrow> actor \<Rightarrow> ident \<Rightarrow> output_receipt_row \<Rightarrow> bool" where
  "read_whole s actor stream_id r = (let reads = audited_reads s actor stream_id (wo_content_digest r) in
     0 \<le> wo_byte_count r
     \<and> (\<forall>i. 0 \<le> i \<and> i < wo_byte_count r \<longrightarrow> (\<exists>x\<in>set reads. read_offset x \<le> i \<and> i < read_offset x + read_count x))
     \<and> (\<forall>x\<in>set reads. read_offset x \<le> wo_byte_count r \<longrightarrow> read_offset x + read_count x \<le> wo_byte_count r))"

lemma reviewable_iff:
  "reviewable c a actor s i r = Inr () \<longleftrightarrow>
     read_whole s actor i r \<and> (\<exists>k. read_verified_text_chunk c a (wo_content_digest r) 0 4 = Inr k)"
proof -
  have "covered_to 0 (audited_spans s actor i (wo_content_digest r)) = wo_byte_count r \<longleftrightarrow> read_whole s actor i r"
    by (subst covered_to_iff) (simp_all add: audited_spans_def read_whole_def read_offset_def read_count_def Let_def)
  then show ?thesis
    by (auto simp: reviewable_def read_chunk_def bindE_Inr_iff split: sum.splits)
qed

text \<open>C39: A review admits exactly what was read. A boundary of captured output is reviewable if and only if its
  last provider turn completed and was captured completely, no receipt of that stream is partial,
  withheld or unavailable, there is a final output, and for every digest among the final outputs the first output
  with it was read byte for byte by this CAO under its current attachment generation and still
  verifies in the archive.\<close>

theorem review_admits_exactly:
  "require_reviewable_output_tx c a actor b s = Inr t \<longleftrightarrow>
     terminal_of s b = Some t \<and> wo_turn_status t = ''completed'' \<and> wo_complete t
     \<and> (\<forall>r\<in>set (output_receipts s). wo_stream_id r = wo_stream_id t \<longrightarrow>
          wo_complete r \<and> wo_capture_state r \<notin> {''partial'', ''withheld'', ''unavailable''})
     \<and> final_outputs s (wo_stream_id t) \<noteq> []
     \<and> (\<forall>d r. fetchone (\<lambda>r. wo_content_digest r = d) (final_outputs s (wo_stream_id t)) = Some r \<longrightarrow>
          read_whole s actor (wo_stream_id t) r
          \<and> (\<exists>k. read_verified_text_chunk c a (wo_content_digest r) 0 4 = Inr k))"
proof -
  have complete: "list_ex (incomplete_receipt i) rs \<longleftrightarrow> \<not> (\<forall>r\<in>set rs. wo_stream_id r = i \<longrightarrow>
      wo_complete r \<and> wo_capture_state r \<notin> {''partial'', ''withheld'', ''unavailable''})" for i rs
    by (auto simp: list_ex_iff incomplete_receipt_def)
  show ?thesis
    unfolding require_reviewable_output_tx_def complete reviewable_iff [symmetric]
    using review_all [of c a actor s "wo_stream_id t" "[]" "final_outputs s (wo_stream_id t)"]
    by (auto simp: Let_def bindE_Inr_iff split: option.splits)
qed

section \<open>A captured turn\<close>

definition sample_binding :: capture_binding where
  "sample_binding = \<lparr>cq_runtime_id = ''r'', cq_attempt_id = ''a'', cq_message_id = ''m'', cq_delivery_generation = 1,
     cq_enrollment_generation = 3, cq_owner_token = ''disp''\<rparr>"

definition sample_capture_db :: db where
  "sample_capture_db = empty_db\<lparr>works := [sample_sup_work\<lparr>w_state := W_ACTIVE, w_attention_owner := AO_WORKER\<rparr>],
     attempts := [sample_attempt],
     messages := [sample_message\<lparr>m_kind := ASSIGNMENT, m_work_item_id := Some ''w'', m_attempt_id := Some ''a'',
       m_goal_version := Some 1, m_task_packet_digest := ''p''\<rparr>],
     deliveries := [(sample_delivery DISPATCHED (Some 160) ''disp'')\<lparr>d_recipient_id := ''k'', d_runtime_session_id := Some ''r''\<rparr>],
     runtimes := [\<lparr>r_id = ''r'', r_principal_id = ''k'', r_adapter = ''codex'', r_endpoint = '''', r_native_session_id = '''', r_state = R_BUSY,
       r_lease_expires_at = 900, r_metadata = JObj [], r_updated_at = 50\<rparr>],
     enrollments := [\<lparr>we_id = ''e'', we_principal_id = ''k'', we_runtime_session_id = ''r'', we_state = E_READY, we_generation = 3,
       we_required_tools_digest = '''', we_discovered_tools_digest = '''', we_protocol_version = '''', we_heartbeat_sequence = 0,
       we_managed = True, we_lease_expires_at = None\<rparr>],
     enrollment_tickets := [\<lparr>et_id = ''tk'', et_enrollment_id = ''e'', et_attempt_id = Some ''a'', et_generation = 3,
       et_state = ''pending''\<rparr>]\<rparr>"

definition sample_stream :: output_stream_row where
  "sample_stream = \<lparr>os_id = ''wos_'', os_work_item_id = ''w'', os_attempt_id = ''a'', os_runtime_session_id = ''r'',
     os_source_message_id = ''m'', os_delivery_generation = 1, os_enrollment_generation = 3, os_work_generation = 2,
     os_owner_token_digest = '''', os_source_thread_digest = '''', os_source_turn_digest = '''', os_terminal_output_id = '''',
     os_settled_at = None, os_created_at = 100\<rparr>"

definition sample_reserved_db :: db where
  "sample_reserved_db = sample_capture_db\<lparr>output_streams := [sample_stream]\<rparr>"

definition sample_turn_end :: output_event where
  "sample_turn_end = \<lparr>ev_native_thread_id = ''th'', ev_turn_id = ''tu'', ev_item_id = '''', ev_kind = ''turn_end'', ev_text = [],
     ev_phase = ''final'', ev_status = ''completed'', ev_complete = True\<rparr>"

lemmas capture_sample_defs = sample_binding_def sample_capture_db_def sample_stream_def sample_reserved_db_def
  sample_turn_end_def sample_sup_work_def sample_attempt_def sample_defs

lemma sample_reserved: "begin_capture sample_env sample_binding sample_capture_db = Inr (sample_reserved_db, ''wos_'')"
  by (simp add: begin_capture_def begin_capture_tx_def capture_source_def get_message_def get_attempt_def get_work_def
      live_ticket_def retired_enrollment_def stream_identity_def worker_digest_def insert_stream_def dangling_def
      capture_sample_defs Let_def)

lemma sample_capture_current:
  "capture_current sample_reserved_db sample_binding sample_stream
     = Some (sample_attempt, sample_sup_work\<lparr>w_state := W_ACTIVE, w_attention_owner := AO_WORKER\<rparr>)"
  by (simp add: capture_current_def get_attempt_def get_work_def retired_enrollment_def live_ticket_def latest_attempt_def
      str_or_none_def capture_sample_defs)

lemma sample_screened: "screened_text sample_store sample_turn_end [] = Inr \<lparr>cap_state = ''empty'', cap_digest = '''', cap_content = [], cap_complete = True\<rparr>"
proof -
  have "contains_generic_credential_text plain_tables [] = Inr False" by code_simp
  moreover have "\<not> contains_control_plane_secret (JStr [])" by code_simp
  ultimately show ?thesis
    by (simp add: screened_text_def captured_text_def sample_turn_end_def sample_store_def utf8_decode_ignore_def)
qed

lemma sample_checks:
  "observe_checks sample_env sample_store sample_binding sample_turn_end [] sample_reserved_db
     = Inr (Fresh sample_stream sample_attempt (sample_sup_work\<lparr>w_state := W_ACTIVE, w_attention_owner := AO_WORKER\<rparr>)
         (bind_turn sample_env sample_turn_end ''wos_'' (bind_thread sample_binding sample_turn_end sample_reserved_db))
         \<lparr>cap_state = ''empty'', cap_digest = '''', cap_content = [], cap_complete = True\<rparr>)"
proof -
  have "find_stream sample_env sample_binding sample_reserved_db = Inr sample_stream"
    by (simp add: find_stream_def worker_digest_def capture_sample_defs)
  moreover have "output_receipts sample_reserved_db = []" "os_terminal_output_id sample_stream = ''''" "os_id sample_stream = ''wos_''"
    by (simp_all add: capture_sample_defs)
  moreover have "\<not> thread_conflict sample_reserved_db sample_binding sample_turn_end"
    "\<not> turn_conflict sample_env sample_turn_end sample_stream"
    by (simp_all add: thread_conflict_def turn_conflict_def capture_sample_defs)
  ultimately show ?thesis
    by (simp add: observe_checks_def sample_capture_current sample_screened)
qed

lemma sample_captured:
  "\<exists>s' r. observe_receipt sample_env sample_store sample_binding sample_turn_end Map.empty sample_reserved_db = (Map.empty, Inr (s', r))
    \<and> r \<in> set (output_receipts s') \<and> wo_event_kind r = ''turn_end'' \<and> wo_source_message_id r = ''m'' \<and> wo_delivery_generation r = 1"
proof -
  let ?w = "sample_sup_work\<lparr>w_state := W_ACTIVE, w_attention_owner := AO_WORKER\<rparr>"
  let ?cap = "\<lparr>cap_state = ''empty'', cap_digest = '''', cap_content = [], cap_complete = True\<rparr>"
  let ?s = "bind_turn sample_env sample_turn_end ''wos_'' (bind_thread sample_binding sample_turn_end sample_reserved_db)"
  let ?r = "new_receipt sample_env sample_store sample_binding sample_turn_end [] sample_stream sample_attempt ?w ?cap ?s"
  have "insert_receipt ?r ?s = Inr (?s\<lparr>output_receipts := output_receipts ?s @ [?r], output_sequence := wo_sequence ?r\<rparr>)"
    by (simp add: insert_receipt_def new_receipt_def dangling_def bind_turn_def bind_thread_def capture_sample_defs)
  then obtain s' where s': "record_capture sample_env sample_store sample_binding sample_turn_end [] sample_stream sample_attempt ?w ?cap ?s = Inr (s', ?r)"
    by (simp add: record_capture_def Let_def)
  have "envelope_ok sample_turn_end" "utf8_encode (ev_text sample_turn_end) = Inr []"
    by (simp_all add: envelope_ok_def failure_event_def utf8_encode_def sample_turn_end_def)
  moreover have "authority_mode sample_reserved_db = Some ''canonical''" by (simp add: capture_sample_defs)
  ultimately have "observe_receipt sample_env sample_store sample_binding sample_turn_end Map.empty sample_reserved_db = (Map.empty, Inr (s', ?r))"
    using s' by (simp add: observe_receipt_def observe_tx_def sample_checks stage_captured_def)
  moreover have "?r \<in> set (output_receipts s')" using record_capture_tables(2) [OF s'] by simp
  moreover have "wo_event_kind ?r = ''turn_end''" "wo_source_message_id ?r = ''m''" "wo_delivery_generation ?r = 1"
    by (simp_all add: new_receipt_def sample_turn_end_def sample_binding_def)
  ultimately show ?thesis by blast
qed

lemma sample_reserve_step: "capture_step sample_capture_db sample_reserved_db"
  using sample_reserved by (rule capture_step.reserve)

lemma sample_capture_ok: "capture_ok sample_capture_db"
  by (rule capture_ok_empty) (simp_all add: capture_sample_defs)


lemma sample_reserved_ok: "capture_ok sample_reserved_db"
  using capture_step_ok [OF sample_reserve_step sample_capture_ok] .

lemma turn_end_final_witness:
  "\<exists>s. output_receipts s \<noteq> [] \<and> (\<forall>e c ev a a' t' v. observe_output e c sample_binding ev a s = (a', Inr (t', v)) \<longrightarrow> t' = s \<and> a' = a)"
proof -
  from sample_captured obtain s' r where run: "observe_receipt sample_env sample_store sample_binding sample_turn_end Map.empty
      sample_reserved_db = (Map.empty, Inr (s', r))"
    and r: "r \<in> set (output_receipts s')" "wo_event_kind r = ''turn_end''" "wo_source_message_id r = ''m''" "wo_delivery_generation r = 1"
    by blast
  have "observe_output sample_env sample_store sample_binding sample_turn_end Map.empty sample_reserved_db
      = (Map.empty, Inr (s', output_view r))" using run by (simp add: observe_output_def)
  then have "capture_ok s'" using capture_step_ok [OF capture_step.observe sample_reserved_ok] by blast
  then have "\<forall>e c ev a a' t' v. observe_output e c sample_binding ev a s' = (a', Inr (t', v)) \<longrightarrow> t' = s' \<and> a' = a"
    using turn_end_final [OF _ r(1,2) rtranclp.rtrancl_refl] r(3,4) by (simp add: sample_binding_def)
  then show ?thesis using r(1) by (intro exI [of _ s']) auto
qed

section \<open>A reviewed turn\<close>

definition sample_terminal :: output_receipt_row where
  "sample_terminal = \<lparr>wo_sequence = 2, wo_id = ''t'', wo_stream_id = ''wos_'', wo_work_item_id = ''w'', wo_attempt_id = ''a'',
     wo_runtime_session_id = ''r'', wo_source_message_id = ''m'', wo_delivery_generation = 1, wo_enrollment_generation = 3,
     wo_work_generation = 2, wo_goal_version = 1, wo_goal_packet_digest = ''g'', wo_task_packet_digest = ''p'',
     wo_source_thread_digest = '''', wo_source_turn_digest = '''', wo_source_item_digest = '''', wo_event_kind = ''turn_end'',
     wo_phase = ''final'', wo_turn_status = ''completed'', wo_capture_state = ''empty'', wo_content_digest = '''',
     wo_byte_count = 0, wo_complete = True, wo_event_digest = '''', wo_artifact_manifest = [],
     wo_notification_message_id = None, wo_boundary_id = Some ''b'', wo_created_at = 100\<rparr>"

definition sample_output :: output_receipt_row where
  "sample_output = sample_terminal\<lparr>wo_sequence := 1, wo_id := ''o'', wo_event_kind := ''message'', wo_turn_status := ''running'',
     wo_capture_state := ''available'', wo_content_digest := replicate 64 CHR ''a'', wo_byte_count := 6, wo_boundary_id := None\<rparr>"

definition sample_reader :: actor where
  "sample_reader = (bare_actor ''c'' CAO)\<lparr>act_attachment_id := ''att'', act_attachment_generation := Some 1\<rparr>"

definition sample_read :: "int \<Rightarrow> int \<Rightarrow> event_row" where
  "sample_read start count = \<lparr>e_sequence = start, e_id = '''', e_event_type = ''worker_output.read'', e_aggregate_type = ''attempt'',
     e_aggregate_id = ''a'', e_operator_scope = ''production'', e_actor_id = ''c'',
     e_data = jobj [(''output_id'', jstr ''o''), (''digest'', jstr (replicate 64 CHR ''a'')), (''byte_offset'', JInt start),
       (''byte_count'', JInt count), (''supervisor_attachment_id'', jstr ''att''), (''supervisor_attachment_generation'', JInt 1)],
     e_correlation_id = '''', e_causation_id = '''', e_created_at = 100\<rparr>"

definition sample_review_db :: db where
  "sample_review_db = empty_db\<lparr>output_receipts := [sample_output, sample_terminal], events := [sample_read 3 3, sample_read 0 3]\<rparr>"

lemma sample_review_lists:
  "terminal_of sample_review_db ''b'' = Some sample_terminal"
  "final_outputs sample_review_db ''wos_'' = [sample_output]"
  "audited_reads sample_review_db sample_reader ''wos_'' (replicate 64 CHR ''a'') = [sample_read 3 3, sample_read 0 3]"
  by (simp_all add: terminal_of_def final_outputs_def audited_reads_def sample_review_db_def empty_db_def sample_output_def
      sample_terminal_def sample_read_def sample_reader_def bare_actor_def jint_opt_def)

lemma review_admits_exactly_witness:
  "require_reviewable_output_tx sample_store sample_archive sample_reader ''b'' sample_review_db = Inr sample_terminal"
proof -
  have "read_whole sample_review_db sample_reader ''wos_'' sample_output"
    by (auto simp: read_whole_def sample_review_lists sample_output_def sample_read_def read_offset_def read_count_def jnat_def)
  moreover have "\<exists>k. read_verified_text_chunk sample_store sample_archive (replicate 64 CHR ''a'') 0 4 = Inr k"
    using read_verified_exact [of sample_store sample_archive "replicate 64 CHR ''a''" "[]" sample_text 4] sample_servable
      text_chunk_exact [of sample_text 4 sample_store "[]"]
    by (auto simp: servable_def ARTIFACT_CONTENT_CHUNK_MAX_BYTES_def)
  moreover have "wo_stream_id sample_terminal = ''wos_''" "wo_turn_status sample_terminal = ''completed''"
    "wo_complete sample_terminal" "wo_content_digest sample_output = replicate 64 CHR ''a''"
    by (simp_all add: sample_terminal_def sample_output_def)
  moreover have "\<forall>r\<in>set (output_receipts sample_review_db). wo_complete r \<and> wo_capture_state r \<notin> {''partial'', ''withheld'', ''unavailable''}"
    by (simp add: sample_review_db_def empty_db_def sample_output_def sample_terminal_def)
  ultimately show ?thesis
    unfolding review_admits_exactly by (simp add: sample_review_lists split: if_splits)
qed

end
