(* ===== verification/Worker_Lane.thy ===== *)
theory Worker_Lane
  imports Work_Pause
begin

text \<open>
  The lane of a managed Worker, from \<open>service.py\<close>: the logical thread and the transport epoch
  it currently runs on, the runtime a command can be bound to (\<open>_bind_ready_worker_runtime_tx\<close>),
  what blocks a new command (\<open>_worker_thread_instruction_blocker_tx\<close>), the replacement of an
  unavailable transport (\<open>_advance_worker_thread_connection_tx\<close>) and the admission of a command
  (\<open>_admit_managed_worker_command_tx\<close>). The thread is the authority; a runtime is only the route.
\<close>

datatype command_kind = CMD_CREATE_WORK | CMD_REPLACE_GOAL | CMD_CONTINUE | CMD_CORRECT | CMD_RETRY
  | CMD_RESUME_INTERRUPTED | CMD_RESUME_PAUSED

datatype lane_route = ROUTE_CURRENT | ROUTE_ADVANCED

datatype attempt_mode = REUSE_CURRENT | NEW_ATTEMPT

record admission =
  ad_worker_thread_id :: ident
  ad_thread_generation :: int
  ad_connection_generation :: int
  ad_runtime_session_id :: ident
  ad_enrollment_id :: ident
  ad_route :: lane_route
  ad_attempt_mode :: attempt_mode
  ad_queue_only :: bool

section \<open>The logical thread\<close>

text \<open>
  The joined row of \<open>_managed_worker_thread_tx\<close>. Thread, specification and epoch are joined by
  key, so each table gives at most one row; epoch and runtime are left joins.
\<close>

record lane =
  ln_thread :: thread_row
  ln_spec :: spec_row
  ln_epoch :: "epoch_row option"
  ln_runtime :: "runtime_row option"

definition current_epoch :: "db \<Rightarrow> thread_row \<Rightarrow> epoch_row option" where
  "current_epoch s t = fetchone (\<lambda>ep. te_thread_id ep = mt_id t \<and> te_generation ep = mt_generation t
     \<and> te_retired_at ep = None) (epochs s)"

definition get_attachment :: "db \<Rightarrow> ident \<Rightarrow> attachment_row option" where
  "get_attachment s i = fetchone (\<lambda>a. ca_id a = i) (attachments s)"

definition lane_runtime :: "db \<Rightarrow> spec_row \<Rightarrow> epoch_row option \<Rightarrow> runtime_row option" where
  "lane_runtime s sp ep = (case ep of None \<Rightarrow> None
     | Some x \<Rightarrow> fetchone (\<lambda>r. r_id r = te_runtime_session_id x \<and> r_principal_id r = ms_principal_id sp) (runtimes s))"

definition project_shared :: "db \<Rightarrow> ident \<Rightarrow> ident \<Rightarrow> int \<Rightarrow> spec_row \<Rightarrow> bool" where
  "project_shared s actor_id attachment_id generation sp =
     (case (get_attachment s (ms_attachment_id sp), get_attachment s attachment_id) of
        (Some source, Some current) \<Rightarrow> ca_principal_id current = actor_id \<and> ca_generation current = generation
          \<and> ca_project_scope_digest current = ca_project_scope_digest source \<and> ca_state current = ''active''
          \<and> ca_principal_id source = actor_id
      | _ \<Rightarrow> False)"

definition managed_worker_thread_tx :: "db \<Rightarrow> ident \<Rightarrow> ident \<Rightarrow> int \<Rightarrow> ident \<Rightarrow> lane cp" where
  "managed_worker_thread_tx s actor_id attachment_id generation thread_id =
     (case fetchone (\<lambda>t. mt_id t = thread_id) (threads s) of
        None \<Rightarrow> Inl (NotFoundError ''managed Worker thread'' thread_id)
      | Some t \<Rightarrow> (case fetchone (\<lambda>sp. ms_id sp = mt_managed_spec_id t) (specs s) of
          None \<Rightarrow> Inl (NotFoundError ''managed Worker thread'' thread_id)
        | Some sp \<Rightarrow>
            if list_ex (\<lambda>p. p_id p = ms_principal_id sp) (principals s)
               \<and> project_shared s actor_id attachment_id generation sp
            then Inr \<lparr>ln_thread = t, ln_spec = sp, ln_epoch = current_epoch s t,
                   ln_runtime = lane_runtime s sp (current_epoch s t)\<rparr>
            else Inl (NotFoundError ''managed Worker thread'' thread_id)))"

definition managed_principal :: "db \<Rightarrow> ident \<Rightarrow> bool" where
  "managed_principal s i = list_ex (\<lambda>sp. ms_principal_id sp = i) (specs s)"

section \<open>Binding a runtime\<close>

text \<open>A runtime of a managed Worker must be the current epoch of its active thread.\<close>

definition epoch_current_route :: "db \<Rightarrow> runtime_row \<Rightarrow> enrollment_row \<Rightarrow> bool" where
  "epoch_current_route s r en = list_ex (\<lambda>sp. ms_principal_id sp = r_principal_id r \<and> ms_runtime_session_id sp = r_id r
     \<and> ms_enrollment_id sp = we_id en \<and> ms_state sp = ''enabled''
     \<and> list_ex (\<lambda>t. mt_managed_spec_id t = ms_id sp \<and> mt_state t = ''active''
         \<and> list_ex (\<lambda>ep. te_thread_id ep = mt_id t \<and> te_generation ep = mt_generation t \<and> te_retired_at ep = None
             \<and> te_runtime_session_id ep = r_id r \<and> te_enrollment_id ep = we_id en) (epochs s)) (threads s)) (specs s)"

definition route_of_principal :: "db \<Rightarrow> runtime_row \<Rightarrow> enrollment_row \<Rightarrow> bool" where
  "route_of_principal s r en = (\<not> managed_principal s (r_principal_id r) \<or> epoch_current_route s r en)"

definition lease_live :: "env \<Rightarrow> timestamp option \<Rightarrow> bool" where
  "lease_live e t = (case t of None \<Rightarrow> False | Some x \<Rightarrow> x \<ge> env_now e)"

definition active_credential :: "db \<Rightarrow> enrollment_row \<Rightarrow> (credential_row \<Rightarrow> bool) \<Rightarrow> bool" where
  "active_credential s en p = list_ex (\<lambda>c. cr_owner_id c = we_id en \<and> cr_state c = ''active'' \<and> p c) (runtime_credentials s)"

definition runtime_carried :: "env \<Rightarrow> db \<Rightarrow> runtime_row \<Rightarrow> enrollment_row \<Rightarrow> bool" where
  "runtime_carried e s r en =
     (r_state r \<in> {R_READY, R_BUSY} \<and> active_credential s en (\<lambda>c. cr_principal_id c = we_principal_id en
          \<and> cr_expires_at c \<ge> env_now e \<and> cr_generation c = we_generation en)
      \<or> r_state r = R_WAITING \<and> \<not> active_credential s en (\<lambda>_. True))"

definition ready_enrollment :: "env \<Rightarrow> db \<Rightarrow> runtime_row \<Rightarrow> enrollment_row \<Rightarrow> bool" where
  "ready_enrollment e s r en = (we_runtime_session_id en = r_id r \<and> we_managed en \<and> we_state en = E_READY
     \<and> route_of_principal s r en \<and> we_required_tools_digest en = env_tools_digest e
     \<and> we_discovered_tools_digest en = env_tools_digest e \<and> we_protocol_version en \<noteq> ''''
     \<and> lease_live e (we_lease_expires_at en) \<and> r_lease_expires_at r \<ge> env_now e \<and> runtime_carried e s r en)"

text \<open>A freshly advanced route: it was never started, and nothing was discovered on it yet.\<close>

definition initial_enrollment :: "env \<Rightarrow> db \<Rightarrow> runtime_row \<Rightarrow> enrollment_row \<Rightarrow> bool" where
  "initial_enrollment e s r en = (we_runtime_session_id en = r_id r \<and> r_state r = R_STARTING \<and> we_managed en
     \<and> we_state en = E_AWAITING_HANDSHAKE \<and> route_of_principal s r en
     \<and> we_required_tools_digest en = env_tools_digest e \<and> we_discovered_tools_digest en = ''''
     \<and> we_protocol_version en = '''' \<and> we_heartbeat_sequence en = 0
     \<and> lease_live e (we_lease_expires_at en) \<and> r_lease_expires_at r \<ge> env_now e \<and> \<not> active_credential s en (\<lambda>_. True))"

definition ready_runtimes :: "env \<Rightarrow> db \<Rightarrow> ident \<Rightarrow> ident option \<Rightarrow> runtime_row list" where
  "ready_runtimes e s worker_id wanted =
     take 2 (rev (sort_key (\<lambda>r. (r_updated_at r, r_id r)) (filter (\<lambda>r. r_principal_id r = worker_id
        \<and> list_ex (ready_enrollment e s r) (enrollments s)
        \<and> (case wanted of None \<Rightarrow> True | Some i \<Rightarrow> r_id r = i)) (runtimes s))))"

definition not_assignment_ready :: cp_error where
  "not_assignment_ready = ConflictError ''current managed Worker is not assignment-ready''
     [(''reason_code'', jstr ''worker_runtime_not_connected''), (''retryable'', JBool False)]"

definition bind_initial_runtime :: "env \<Rightarrow> db \<Rightarrow> ident \<Rightarrow> ident \<Rightarrow> ident cp" where
  "bind_initial_runtime e s worker_id i =
     (case fetchone (\<lambda>r. r_id r = i) (runtimes s) of
        None \<Rightarrow> Inl (NotFoundError ''runtime'' i)
      | Some r \<Rightarrow>
          if r_principal_id r \<noteq> worker_id
          then Inl (ValidationError ''runtime session does not belong to the assigned Worker'' [])
          else if list_ex (initial_enrollment e s r) (enrollments s) then Inr i
          else Inl not_assignment_ready)"

definition bind_ready_worker_runtime_tx :: "env \<Rightarrow> db \<Rightarrow> ident \<Rightarrow> ident option \<Rightarrow> ident cp" where
  "bind_ready_worker_runtime_tx e s worker_id wanted =
     (case (ready_runtimes e s worker_id wanted, wanted) of
        ([], Some i) \<Rightarrow> bind_initial_runtime e s worker_id i
      | ([], None) \<Rightarrow> Inl not_assignment_ready
      | (r # rs, None) \<Rightarrow> if rs = [] then Inr (r_id r)
          else Inl (ConflictError ''Worker assignment requires one unambiguous managed MCP runtime'' [])
      | (r # rs, Some i) \<Rightarrow> Inr (r_id r))"

section \<open>The project fence of a Worker\<close>

definition foreign_project :: cp_error where
  "foreign_project = AuthorizationError ''managed Worker belongs to a different CAO project'' []"

definition spec_thread :: "db \<Rightarrow> spec_row \<Rightarrow> thread_row option" where
  "spec_thread s sp = fetchone (\<lambda>t. mt_managed_spec_id t = ms_id sp) (threads s)"

definition spec_enrollment :: "db \<Rightarrow> spec_row \<Rightarrow> enrollment_row option" where
  "spec_enrollment s sp = (case fetchone (\<lambda>r. r_id r = ms_runtime_session_id sp \<and> r_principal_id r = ms_principal_id sp) (runtimes s) of
     None \<Rightarrow> None
   | Some r \<Rightarrow> fetchone (\<lambda>en. we_id en = ms_enrollment_id sp \<and> we_runtime_session_id en = r_id r
       \<and> we_principal_id en = r_principal_id r) (enrollments s))"

definition spec_route_current :: "db \<Rightarrow> spec_row \<Rightarrow> ident \<Rightarrow> ident \<Rightarrow> bool" where
  "spec_route_current s sp worker_id runtime_id =
     (case (spec_thread s sp, spec_enrollment s sp) of
        (Some t, Some en) \<Rightarrow> (case current_epoch s t of
            None \<Rightarrow> False
          | Some ep \<Rightarrow> ms_runtime_session_id sp = runtime_id \<and> ms_state sp = ''enabled'' \<and> mt_state t = ''active''
              \<and> te_runtime_session_id ep = runtime_id \<and> te_enrollment_id ep = ms_enrollment_id sp
              \<and> we_principal_id en = worker_id \<and> we_runtime_session_id en = runtime_id
              \<and> we_state en \<in> {E_AWAITING_HANDSHAKE, E_READY})
      | _ \<Rightarrow> False)"

definition require_managed_worker_work_attachment_tx ::
  "db \<Rightarrow> ident \<Rightarrow> ident \<Rightarrow> ident \<Rightarrow> ident option \<Rightarrow> unit cp" where
  "require_managed_worker_work_attachment_tx s supervisor_id worker_id runtime_id supervisor_attachment_id =
     (case fetchone (\<lambda>sp. ms_principal_id sp = worker_id) (specs s) of
        None \<Rightarrow> Inr ()
      | Some sp \<Rightarrow> (case get_attachment s (ms_attachment_id sp) of
          None \<Rightarrow> Inr ()
        | Some source \<Rightarrow>
            if supervisor_attachment_id \<noteq> None \<and> supervisor_attachment_id \<noteq> Some ''''
               \<and> ca_principal_id source = supervisor_id
               \<and> (case get_attachment s (str_or_empty supervisor_attachment_id) of
                    None \<Rightarrow> False
                  | Some own \<Rightarrow> ca_principal_id own = supervisor_id
                      \<and> ca_project_scope_digest source = ca_project_scope_digest own)
               \<and> ms_attachment_generation sp \<le> ca_generation source
               \<and> spec_route_current s sp worker_id runtime_id
            then Inr () else Inl foreign_project))"

text \<open>The boundary of the open provider circuit an assignment on this runtime is bound to.\<close>

definition provider_instruction_source_boundary_tx :: "db \<Rightarrow> ident \<Rightarrow> ident" where
  "provider_instruction_source_boundary_tx s runtime_id =
     (case concat (map (\<lambda>sp. filter (\<lambda>c. pc_scope_digest c = ms_provider_scope_digest sp \<and> pc_state c = ''open''
          \<and> pc_probe_outcome_state c = ''none'' \<and> pc_source_boundary_id c \<noteq> None \<and> pc_source_boundary_id c \<noteq> Some '''')
          (circuits s))
        (filter (\<lambda>sp. ms_runtime_session_id sp = runtime_id \<and> ms_adapter sp = ''claude'' \<and> ms_state sp = ''enabled''
          \<and> ms_catalog_target_id sp \<noteq> '''') (specs s))) of
       [c] \<Rightarrow> str_or_empty (pc_source_boundary_id c)
     | _ \<Rightarrow> '''')"

section \<open>What blocks a command\<close>

definition executing_attempt :: "ident \<Rightarrow> attempt_row \<Rightarrow> bool" where
  "executing_attempt worker_id a = (a_worker_id a = worker_id \<and> a_state a \<in> {A_ASSIGNED, A_ACCEPTED, A_WORKING})"

definition worker_has_execution_owned_attempt_tx :: "db \<Rightarrow> ident \<Rightarrow> bool" where
  "worker_has_execution_owned_attempt_tx s worker_id = list_ex (executing_attempt worker_id) (attempts s)"

definition recovery_blocks :: "db \<Rightarrow> ident \<Rightarrow> ident \<Rightarrow> ident option \<Rightarrow> bool" where
  "recovery_blocks s thread_id worker_id work_id = list_ex (\<lambda>b. list_ex (\<lambda>w. w_id w = b_work_item_id b
       \<and> w_managed_worker_thread_id w = Some thread_id \<and> w_assigned_worker_id w = worker_id
       \<and> (work_id = None \<or> work_id = Some (w_id w))) (works s)
     \<and> b_recovery_action b \<in> {''dispose_continue_or_correct'', ''reconcile_continue_same_thread'', ''system_reconciliation''}
     \<and> \<not> disposed s (b_id b) \<and> \<not> superseded s (b_id b)) (boundaries s)"

definition runtime_blocks :: "db \<Rightarrow> ident \<Rightarrow> ident \<Rightarrow> bool" where
  "runtime_blocks s thread_id worker_id = list_ex (\<lambda>ep. te_thread_id ep = thread_id \<and> te_retired_at ep = None
     \<and> list_ex (\<lambda>r. r_id r = te_runtime_session_id ep \<and> r_state r = R_BUSY
         \<and> list_ex (\<lambda>a. a_runtime_session_id a = Some (r_id r) \<and> executing_attempt worker_id a) (attempts s)) (runtimes s)) (epochs s)"

definition message_attempt :: "db \<Rightarrow> message_row \<Rightarrow> attempt_row option" where
  "message_attempt s m = (case m_attempt_id m of None \<Rightarrow> None | Some i \<Rightarrow> get_attempt s i)"

definition attempt_ended :: "attempt_row option \<Rightarrow> bool" where
  "attempt_ended a = (case a of None \<Rightarrow> False | Some x \<Rightarrow> a_state x \<in> {A_COMPLETED, A_CANCELED, A_FAILED})"

text \<open>A retired transport of an ended attempt is evidence about another Work.\<close>

definition retired_evidence :: "db \<Rightarrow> ident \<Rightarrow> attempt_row option \<Rightarrow> delivery_row \<Rightarrow> bool" where
  "retired_evidence s thread_id a d = list_ex (\<lambda>old. te_thread_id old = thread_id
     \<and> d_runtime_session_id d = Some (te_runtime_session_id old) \<and> te_retired_at old \<noteq> None \<and> attempt_ended a
     \<and> \<not> list_ex (\<lambda>live. te_thread_id live = te_thread_id old \<and> te_runtime_session_id live = te_runtime_session_id old
          \<and> te_retired_at live = None) (epochs s)) (epochs s)"

definition unclaimed_at :: "timestamp \<Rightarrow> delivery_row \<Rightarrow> bool" where
  "unclaimed_at now d = (d_state d = QUEUED \<and> d_owner_token d = ''''
     \<or> d_state d = LEASED \<and> (d_owner_token d = '''' \<or> (case d_lease_until d of None \<Rightarrow> True | Some t \<Rightarrow> t \<le> now)))"

definition delivery_open :: "env \<Rightarrow> attempt_row option \<Rightarrow> delivery_row \<Rightarrow> bool" where
  "delivery_open e a d = (d_state d = DISPATCHED
     \<or> d_state d \<in> {QUEUED, LEASED} \<and> \<not> (attempt_ended a \<and> unclaimed_at (env_now e) d)
     \<or> d_state d \<in> {DELIVERED, ACKNOWLEDGED}
       \<and> (case a of None \<Rightarrow> False | Some x \<Rightarrow> a_state x \<in> {A_ASSIGNED, A_ACCEPTED, A_WORKING}))"

definition delivery_blocks :: "env \<Rightarrow> db \<Rightarrow> ident \<Rightarrow> ident \<Rightarrow> ident option \<Rightarrow> bool" where
  "delivery_blocks e s thread_id worker_id work_id = list_ex (\<lambda>d. d_recipient_id d = worker_id
     \<and> list_ex (\<lambda>m. m_id m = d_message_id d
         \<and> (work_id = None \<or> m_work_item_id m = work_id \<or> \<not> retired_evidence s thread_id (message_attempt s m) d)
         \<and> delivery_open e (message_attempt s m) d) (messages s)) (deliveries s)"

definition effect_blocks :: "db \<Rightarrow> ident \<Rightarrow> bool" where
  "effect_blocks s worker_id = list_ex (\<lambda>x. o_status x \<in> {STARTED, EFFECT_UNKNOWN}
     \<and> (o_principal_id x = worker_id \<or> list_ex (\<lambda>w. o_cleanup_work_item_id x = Some (w_id w)
          \<and> w_assigned_worker_id w = worker_id) (works s))) (effect_operations s)"

definition instruction_blocker :: "env \<Rightarrow> db \<Rightarrow> ident \<Rightarrow> ident \<Rightarrow> ident option \<Rightarrow> string" where
  "instruction_blocker e s thread_id worker_id work_id =
     (if recovery_blocks s thread_id worker_id work_id then ''recovery_boundary''
      else if runtime_blocks s thread_id worker_id then ''runtime_busy''
      else if worker_has_execution_owned_attempt_tx s worker_id then ''work_not_settled''
      else if delivery_blocks e s thread_id worker_id work_id then ''delivery_outcome_unsettled''
      else if effect_blocks s worker_id then ''effect_outcome_unsettled'' else '''')"

text \<open>\<open>_dead_letter_terminal_worker_deliveries_tx\<close>: unclaimed deliveries of ended attempts.\<close>

definition terminal_candidates :: "db \<Rightarrow> ident \<Rightarrow> delivery_row list" where
  "terminal_candidates s worker_id = sort_key d_message_id (filter (\<lambda>d. d_recipient_id d = worker_id
     \<and> d_state d \<in> {QUEUED, LEASED}
     \<and> list_ex (\<lambda>m. m_id m = d_message_id d \<and> list_ex (\<lambda>a. m_attempt_id m = Some (a_id a) \<and> a_worker_id a = worker_id
          \<and> a_state a \<in> {A_COMPLETED, A_CANCELED, A_FAILED}) (attempts s)) (messages s)) (deliveries s))"

definition dead_lettered :: "env \<Rightarrow> delivery_row \<Rightarrow> delivery_row" where
  "dead_lettered e d = d\<lparr>d_state := DEAD, d_next_attempt_at := env_now e, d_lease_until := None, d_owner_token := '''',
     d_last_error := ''superseded_by_distinct_worker_instruction'', d_updated_at := env_now e\<rparr>"

definition same_delivery_state :: "delivery_row \<Rightarrow> delivery_row \<Rightarrow> bool" where
  "same_delivery_state d x = (d_message_id x = d_message_id d \<and> d_recipient_id x = d_recipient_id d \<and> d_state x = d_state d
     \<and> d_generation x = d_generation d \<and> d_owner_token x = d_owner_token d \<and> d_lease_until x = d_lease_until d)"

definition dead_letter_one :: "env \<Rightarrow> ident \<Rightarrow> ident \<Rightarrow> db \<Rightarrow> delivery_row \<Rightarrow> db cp" where
  "dead_letter_one e thread_id actor_id s d =
     (if \<not> unclaimed_at (env_now e) d then Inr s
      else if rowcount (same_delivery_state d) (deliveries s) \<noteq> 1
      then Inl (ConflictError ''managed Worker delivery normalization lost its exact fence''
             [(''reason_code'', jstr ''worker_thread_busy''), (''blocker_kind'', jstr ''delivery_outcome_unsettled'')])
      else Inr (log_event e ((mk_event ''message.delivery_superseded'' ''message'' (d_message_id d) actor_id
             [(''reason_code'', jstr ''superseded_by_distinct_worker_instruction''),
              (''prior_state'', jstr (delivery_state_value (d_state d)))])\<lparr>ei_causation_id := thread_id\<rparr>)
           (s\<lparr>deliveries := update_rows (same_delivery_state d) (dead_lettered e) (deliveries s)\<rparr>)))"

definition dead_letter_terminal_worker_deliveries_tx :: "env \<Rightarrow> ident \<Rightarrow> ident \<Rightarrow> ident \<Rightarrow> db \<Rightarrow> db cp" where
  "dead_letter_terminal_worker_deliveries_tx e thread_id worker_id actor_id s =
     foldE (dead_letter_one e thread_id actor_id) s (terminal_candidates s worker_id)"

section \<open>The preflight of a command\<close>

definition command_conflict :: "string \<Rightarrow> string \<Rightarrow> cp_error" where
  "command_conflict text reason = ConflictError text [(''reason_code'', jstr reason), (''retryable'', JBool False)]"

definition outcome_unsettled :: "string \<Rightarrow> string \<Rightarrow> cp_error" where
  "outcome_unsettled reason blocker = ConflictError ''managed Worker command has an unsettled execution outcome''
     [(''reason_code'', jstr reason), (''blocker_kind'', jstr blocker), (''retryable'', JBool False)]"

definition preflight_lane_exact :: "db \<Rightarrow> ident \<Rightarrow> work_row \<Rightarrow> bool" where
  "preflight_lane_exact s actor_id w = list_ex (\<lambda>t. Some (mt_id t) = w_managed_worker_thread_id w
     \<and> Some (mt_generation t) = w_managed_worker_thread_generation w \<and> mt_state t = ''active''
     \<and> list_ex (\<lambda>sp. ms_id sp = mt_managed_spec_id t \<and> ms_state sp = ''enabled'' \<and> ms_principal_id sp = w_assigned_worker_id w
         \<and> list_ex (\<lambda>ep. te_thread_id ep = mt_id t \<and> te_generation ep = mt_generation t \<and> te_retired_at ep = None
             \<and> ms_runtime_session_id sp = te_runtime_session_id ep \<and> ms_enrollment_id sp = te_enrollment_id ep) (epochs s)
         \<and> list_ex (\<lambda>source. ca_id source = ms_attachment_id sp \<and> ca_principal_id source = actor_id
             \<and> list_ex (\<lambda>own. Some (ca_id own) = w_supervisor_attachment_id w \<and> ca_principal_id own = ca_principal_id source
                 \<and> ca_project_scope_digest own = ca_project_scope_digest source) (attachments s)) (attachments s))
       (specs s)) (threads s)"

definition preflight_managed_worker_command_tx :: "env \<Rightarrow> db \<Rightarrow> ident \<Rightarrow> work_row \<Rightarrow> unit cp" where
  "preflight_managed_worker_command_tx e s actor_id w = bindE (require_not_paused w) (\<lambda>_.
     let thread_id = str_or_empty (w_managed_worker_thread_id w) in
     if (thread_id \<noteq> '''') \<noteq> (w_managed_worker_thread_generation w \<noteq> None)
     then Inl (command_conflict ''Work managed Worker binding is incomplete'' ''worker_command_binding_ambiguous'')
     else if thread_id = ''''
     then (if managed_principal s (w_assigned_worker_id w)
           then Inl (command_conflict ''Work managed Worker binding is unresolved'' ''worker_command_binding_ambiguous'')
           else Inr ())
     else if \<not> preflight_lane_exact s actor_id w
     then Inl (command_conflict ''managed Worker command binding is no longer exact'' ''worker_command_binding_conflict'')
     else (let blocker = instruction_blocker e s thread_id (w_assigned_worker_id w) (Some (w_id w)) in
       if blocker \<noteq> '''' then Inl (outcome_unsettled ''worker_command_outcome_unsettled'' blocker) else Inr ()))"

text \<open>\<open>_task_is_unclaimed_queued_tx\<close>: the revised task was recorded, and nothing ever claimed it.\<close>

definition attempt_deliveries :: "db \<Rightarrow> attempt_row \<Rightarrow> (delivery_row \<times> message_row) list" where
  "attempt_deliveries s a = concat (map (\<lambda>d. map (Pair d) (filter (\<lambda>m. m_id m = d_message_id d
     \<and> m_attempt_id m = Some (a_id a)) (messages s))) (filter (\<lambda>d. d_recipient_id d = a_worker_id a) (deliveries s)))"

definition task_is_unclaimed_queued_tx :: "db \<Rightarrow> work_row \<Rightarrow> attempt_row \<Rightarrow> bool" where
  "task_is_unclaimed_queued_tx s w a = (w_state w = W_ACTIVE \<and> a_state a = A_ASSIGNED
     \<and> length (filter (\<lambda>(d, m). m_kind m = ASSIGNMENT) (attempt_deliveries s a)) = 1
     \<and> list_all (\<lambda>(d, m). d_state d = QUEUED \<and> d_owner_token d = '''' \<and> d_attempts d = 0) (attempt_deliveries s a)
     \<and> \<not> list_ex (\<lambda>t. et_attempt_id t = Some (a_id a) \<and> et_state t \<in> {''pending'', ''consumed''}) (enrollment_tickets s)
     \<and> \<not> list_ex (\<lambda>r. wo_attempt_id r = a_id a) (output_receipts s)
     \<and> \<not> list_ex (\<lambda>x. ar_attempt_id x = a_id a) (artifacts s)
     \<and> \<not> list_ex (\<lambda>x. o_cleanup_work_item_id x = Some (w_id w) \<and> o_status x \<in> {STARTED, EFFECT_UNKNOWN})
         (effect_operations s))"

section \<open>Replacing a transport\<close>

text \<open>The errors of a binding that mean the route is unavailable.\<close>

fun route_unavailable :: "cp_error \<Rightarrow> bool" where
  "route_unavailable (ConflictError m d) = True"
| "route_unavailable (NotFoundError k i) = True"
| "route_unavailable (ValidationError m d) = True"
| "route_unavailable _ = False"

definition same_transport :: "thread_row \<Rightarrow> epoch_row \<Rightarrow> epoch_row \<Rightarrow> bool" where
  "same_transport t ep x = (te_id x = te_id ep \<and> te_thread_id x = mt_id t \<and> te_generation x = mt_generation t
     \<and> te_connection_generation x = te_connection_generation ep \<and> te_retired_at x = None)"

definition retire_epoch :: "env \<Rightarrow> thread_row \<Rightarrow> epoch_row \<Rightarrow> db \<Rightarrow> db" where
  "retire_epoch e t ep s = s\<lparr>epochs := update_rows (same_transport t ep) (\<lambda>x. x\<lparr>te_retired_at := Some (env_now e)\<rparr>) (epochs s)\<rparr>"

definition revoke_enrollment :: "enrollment_row \<Rightarrow> enrollment_row" where
  "revoke_enrollment en = en\<lparr>we_state := E_REVOKED,
     we_generation := (if we_state en = E_REVOKED then we_generation en else we_generation en + 1)\<rparr>"

definition revoke_transport :: "env \<Rightarrow> epoch_row \<Rightarrow> db \<Rightarrow> db" where
  "revoke_transport e ep s = s\<lparr>
     enrollments := update_rows (\<lambda>en. we_id en = te_enrollment_id ep) revoke_enrollment (enrollments s),
     runtime_credentials := update_rows (\<lambda>c. cr_owner_id c = te_enrollment_id ep \<and> cr_state c = ''active'')
       (\<lambda>c. c\<lparr>cr_state := ''revoked''\<rparr>) (runtime_credentials s),
     enrollment_tickets := update_rows (\<lambda>t. et_enrollment_id t = te_enrollment_id ep \<and> et_state t = ''pending'')
       (\<lambda>t. t\<lparr>et_state := ''revoked''\<rparr>) (enrollment_tickets s),
     runtimes := update_rows (\<lambda>r. r_id r = te_runtime_session_id ep)
       (\<lambda>r. r\<lparr>r_state := R_STOPPED, r_updated_at := env_now e\<rparr>) (runtimes s)\<rparr>"

definition fresh_runtime :: "env \<Rightarrow> ident \<Rightarrow> spec_row \<Rightarrow> runtime_row \<Rightarrow> runtime_row" where
  "fresh_runtime e i sp old = \<lparr>r_id = i, r_principal_id = ms_principal_id sp, r_adapter = ms_adapter sp,
     r_endpoint = r_endpoint old, r_native_session_id = r_native_session_id old, r_state = R_STARTING,
     r_lease_expires_at = utc_after e 86400, r_metadata = r_metadata old, r_updated_at = env_now e\<rparr>"

definition fresh_enrollment :: "env \<Rightarrow> ident \<Rightarrow> ident \<Rightarrow> spec_row \<Rightarrow> enrollment_row" where
  "fresh_enrollment e i runtime_id sp = \<lparr>we_id = i, we_principal_id = ms_principal_id sp, we_runtime_session_id = runtime_id,
     we_state = E_AWAITING_HANDSHAKE, we_generation = 0, we_required_tools_digest = env_tools_digest e,
     we_discovered_tools_digest = '''', we_protocol_version = '''', we_heartbeat_sequence = 0, we_managed = True,
     we_lease_expires_at = Some (utc_after e 86400)\<rparr>"

definition fresh_epoch :: "ident \<Rightarrow> thread_row \<Rightarrow> int \<Rightarrow> ident \<Rightarrow> ident \<Rightarrow> epoch_row" where
  "fresh_epoch i t connection_generation runtime_id enrollment_id = \<lparr>te_id = i, te_thread_id = mt_id t,
     te_generation = mt_generation t, te_connection_generation = connection_generation,
     te_runtime_session_id = runtime_id, te_enrollment_id = enrollment_id, te_retired_at = None\<rparr>"

text \<open>The keys and unique indexes of the three tables; a managed Worker has one live enrollment.\<close>

definition enrollment_clash :: "enrollment_row \<Rightarrow> enrollment_row \<Rightarrow> bool" where
  "enrollment_clash en x = (we_id x = we_id en \<or> we_runtime_session_id x = we_runtime_session_id en
     \<or> we_principal_id x = we_principal_id en \<and> we_state x \<in> {E_AWAITING_HANDSHAKE, E_READY, E_STALE})"

definition epoch_clash :: "epoch_row \<Rightarrow> epoch_row \<Rightarrow> bool" where
  "epoch_clash ep x = (te_id x = te_id ep \<or> te_runtime_session_id x = te_runtime_session_id ep
     \<or> te_enrollment_id x = te_enrollment_id ep \<or> te_thread_id x = te_thread_id ep \<and> te_retired_at x = None
     \<or> te_thread_id x = te_thread_id ep \<and> te_generation x = te_generation ep
       \<and> te_connection_generation x = te_connection_generation ep)"

definition insert_transport :: "runtime_row \<Rightarrow> enrollment_row \<Rightarrow> epoch_row \<Rightarrow> db \<Rightarrow> db cp" where
  "insert_transport r en ep s =
     (if list_ex (\<lambda>x. r_id x = r_id r) (runtimes s) \<or> list_ex (enrollment_clash en) (enrollments s)
         \<or> list_ex (epoch_clash ep) (epochs s)
      then Inl unique_violation
      else Inr (s\<lparr>runtimes := runtimes s @ [r], enrollments := enrollments s @ [en], epochs := epochs s @ [ep]\<rparr>))"

definition reroute_spec :: "lane \<Rightarrow> epoch_row \<Rightarrow> spec_row \<Rightarrow> bool" where
  "reroute_spec ln ep sp = (ms_id sp = ms_id (ln_spec ln) \<and> ms_state sp = ''enabled''
     \<and> ms_runtime_session_id sp = te_runtime_session_id ep \<and> ms_enrollment_id sp = te_enrollment_id ep)"

definition replace_transport :: "env \<Rightarrow> ident \<Rightarrow> lane \<Rightarrow> epoch_row \<Rightarrow> runtime_row \<Rightarrow> db \<Rightarrow> db cp" where
  "replace_transport e actor_id ln ep old s =
     (let t = ln_thread ln; sp = ln_spec ln;
          runtime_id = env_mint e ''run'' (int (length (runtimes s)));
          enrollment_id = env_mint e ''enr'' (int (length (enrollments s)));
          next = fresh_epoch (env_mint e ''mwe'' (int (length (epochs s)))) t (te_connection_generation ep + 1) runtime_id enrollment_id
      in bindE (insert_transport (fresh_runtime e runtime_id sp old) (fresh_enrollment e enrollment_id runtime_id sp) next
             (revoke_transport e ep (retire_epoch e t ep s))) (\<lambda>s1.
         if rowcount (reroute_spec ln ep) (specs s1) \<noteq> 1
         then Inl (ConflictError ''managed Worker connection spec changed''
                [(''reason_code'', jstr ''worker_connection_generation_conflict'')])
         else Inr (log_event e (mk_event ''managed_worker_thread.connection_advanced'' ''managed_worker_thread'' (mt_id t) actor_id
                [(''thread_generation'', JInt (mt_generation t)),
                 (''connection_generation'', JInt (te_connection_generation ep + 1))])
              (s1\<lparr>specs := update_rows (reroute_spec ln ep)
                 (\<lambda>x. x\<lparr>ms_runtime_session_id := runtime_id, ms_enrollment_id := enrollment_id\<rparr>) (specs s1)\<rparr>))))"

definition advance_worker_thread_connection_tx ::
  "env \<Rightarrow> ident \<Rightarrow> lane \<Rightarrow> ident \<Rightarrow> int \<Rightarrow> db \<Rightarrow> (db \<times> lane) cp" where
  "advance_worker_thread_connection_tx e actor_id ln attachment_id attachment_generation s =
     (case bind_ready_worker_runtime_tx e s (ms_principal_id (ln_spec ln))
             (Some (case ln_epoch ln of None \<Rightarrow> '''' | Some ep \<Rightarrow> te_runtime_session_id ep)) of
        Inr _ \<Rightarrow> Inr (s, ln)
      | Inl err \<Rightarrow>
          if \<not> route_unavailable err then Inl err
          else (case ln_epoch ln of
              None \<Rightarrow> Inl (command_conflict ''managed Worker connection lineage is unavailable'' ''worker_connection_recovery_required'')
            | Some ep \<Rightarrow>
                if te_id ep = '''' \<or> te_connection_generation ep < 1
                then Inl (command_conflict ''managed Worker connection lineage is unavailable'' ''worker_connection_recovery_required'')
                else if rowcount (same_transport (ln_thread ln) ep) (epochs s) \<noteq> 1
                then Inl (ConflictError ''managed Worker connection epoch changed''
                       [(''reason_code'', jstr ''worker_connection_generation_conflict'')])
                else (case ln_runtime ln of
                    None \<Rightarrow> Inl (PyError ''IntegrityError'' ''NOT NULL constraint failed'')
                  | Some old \<Rightarrow> bindE (replace_transport e actor_id ln ep old s) (\<lambda>s1.
                      bindE (managed_worker_thread_tx s1 actor_id attachment_id attachment_generation (mt_id (ln_thread ln)))
                        (\<lambda>ln'. Inr (s1, ln'))))))"

section \<open>Admitting a command\<close>

record command =
  cm_actor_id :: ident
  cm_kind :: command_kind
  cm_worker_id :: ident
  cm_supervisor_attachment_id :: "ident option"
  cm_worker_thread_id :: "ident option"
  cm_expected_generation :: "int option"
  cm_work :: "work_row option"
  cm_previous_attempt :: "attempt_row option"

text \<open>The thread and generation the Work is bound to, empty and absent without a Work.\<close>

definition stored_thread :: "command \<Rightarrow> ident" where
  "stored_thread c = (case cm_work c of None \<Rightarrow> '''' | Some w \<Rightarrow> str_or_empty (w_managed_worker_thread_id w))"

definition stored_generation :: "command \<Rightarrow> int option" where
  "stored_generation c = (case cm_work c of None \<Rightarrow> None | Some w \<Rightarrow> w_managed_worker_thread_generation w)"

definition same_worker :: "command \<Rightarrow> bool" where
  "same_worker c = (case cm_work c of None \<Rightarrow> True | Some w \<Rightarrow> w_assigned_worker_id w = cm_worker_id c)"

definition work_binding_ok :: "db \<Rightarrow> command \<Rightarrow> work_row \<Rightarrow> unit cp" where
  "work_binding_ok s c w = bindE (if cm_kind c \<noteq> CMD_RESUME_PAUSED then require_not_paused w else Inr ()) (\<lambda>_.
     if (stored_thread c \<noteq> '''') \<noteq> (stored_generation c \<noteq> None)
     then Inl (command_conflict ''Work managed Worker binding is incomplete'' ''worker_command_binding_ambiguous'')
     else if (case stored_generation c of None \<Rightarrow> False | Some g \<Rightarrow> g < 1)
     then Inl (command_conflict ''Work managed Worker binding is invalid'' ''worker_command_binding_ambiguous'')
     else if \<not> same_worker c \<and> cm_kind c \<notin> {CMD_REPLACE_GOAL, CMD_RETRY}
     then Inl (command_conflict ''managed Worker command cannot change the Work owner'' ''worker_command_binding_conflict'')
     else if stored_thread c = '''' \<and> managed_principal s (w_assigned_worker_id w)
     then Inl (command_conflict ''Work managed Worker binding is unresolved'' ''worker_command_binding_ambiguous'')
     else Inr ())"

definition selected_thread :: "command \<Rightarrow> ident" where
  "selected_thread c = (if same_worker c \<and> stored_thread c \<noteq> '''' then stored_thread c else str_or_empty (cm_worker_thread_id c))"

text \<open>The thread a command is for; \<open>None\<close> is a command to an unmanaged Worker.\<close>

definition command_thread :: "db \<Rightarrow> command \<Rightarrow> (attachment_row \<times> ident) option cp" where
  "command_thread s c =
     (if str_or_empty (cm_supervisor_attachment_id c) = ''''
      then (if stored_thread c \<noteq> '''' \<or> managed_principal s (cm_worker_id c)
            then Inl (command_conflict ''managed Worker command lacks an exact conversation binding'' ''worker_command_binding_ambiguous'')
            else Inr None)
      else (case fetchone (\<lambda>a. ca_id a = str_or_empty (cm_supervisor_attachment_id c) \<and> ca_principal_id a = cm_actor_id c) (attachments s) of
          None \<Rightarrow> Inl (AuthorizationError ''managed Worker command attachment is not current'' [])
        | Some a \<Rightarrow>
            if ca_state a \<noteq> ''active'' then Inl (AuthorizationError ''managed Worker command attachment is not current'' [])
            else if same_worker c \<and> stored_thread c \<noteq> '''' \<and> str_or_empty (cm_worker_thread_id c) \<noteq> ''''
                \<and> stored_thread c \<noteq> str_or_empty (cm_worker_thread_id c)
            then Inl (command_conflict ''managed Worker command selected a different logical thread'' ''worker_command_binding_conflict'')
            else if selected_thread c = ''''
            then (if managed_principal s (cm_worker_id c)
                  then Inl (command_conflict ''managed Worker command requires an exact logical thread'' ''worker_command_binding_ambiguous'')
                  else Inr None)
            else Inr (Some (a, selected_thread c))))"

definition lane_active :: "command \<Rightarrow> lane \<Rightarrow> bool" where
  "lane_active c ln = (ms_principal_id (ln_spec ln) = cm_worker_id c \<and> mt_state (ln_thread ln) = ''active''
     \<and> ms_state (ln_spec ln) = ''enabled''
     \<and> (case ln_epoch ln of None \<Rightarrow> False
        | Some ep \<Rightarrow> te_id ep \<noteq> '''' \<and> ms_runtime_session_id (ln_spec ln) = te_runtime_session_id ep
            \<and> ms_enrollment_id (ln_spec ln) = te_enrollment_id ep))"

definition required_generation :: "command \<Rightarrow> int option" where
  "required_generation c = (if same_worker c \<and> stored_generation c \<noteq> None then stored_generation c else cm_expected_generation c)"

definition lane_exact :: "command \<Rightarrow> lane \<Rightarrow> unit cp" where
  "lane_exact c ln =
     (if \<not> lane_active c ln
      then Inl (command_conflict ''managed Worker command lineage is not active'' ''worker_command_binding_conflict'')
      else if required_generation c \<noteq> None \<and> required_generation c \<noteq> Some (mt_generation (ln_thread ln))
      then Inl (command_conflict ''managed Worker command lifecycle generation changed'' ''worker_command_generation_conflict'')
      else if same_worker c \<and> stored_generation c \<noteq> None \<and> cm_expected_generation c \<noteq> None
          \<and> stored_generation c \<noteq> cm_expected_generation c
      then Inl (command_conflict ''managed Worker command expected a different lifecycle generation'' ''worker_command_generation_conflict'')
      else Inr ())"

definition admit_on :: "lane \<Rightarrow> epoch_row \<Rightarrow> ident \<Rightarrow> lane_route \<Rightarrow> attempt_mode \<Rightarrow> bool \<Rightarrow> admission" where
  "admit_on ln ep runtime_id route mode queue_only = \<lparr>ad_worker_thread_id = mt_id (ln_thread ln),
     ad_thread_generation = mt_generation (ln_thread ln), ad_connection_generation = te_connection_generation ep,
     ad_runtime_session_id = runtime_id, ad_enrollment_id = te_enrollment_id ep, ad_route = route,
     ad_attempt_mode = mode, ad_queue_only = queue_only\<rparr>"

text \<open>Recording later Work, or revising a task nobody claimed, leaves the route as it is.\<close>

definition records_only :: "db \<Rightarrow> command \<Rightarrow> epoch_row \<Rightarrow> bool option" where
  "records_only s c ep =
     (if cm_kind c = CMD_CREATE_WORK \<and> worker_has_execution_owned_attempt_tx s (cm_worker_id c) then Some False
      else if cm_kind c = CMD_REPLACE_GOAL \<and> same_worker c
          \<and> (case (cm_work c, cm_previous_attempt c) of
               (Some w, Some a) \<Rightarrow> str_or_empty (a_runtime_session_id a) = te_runtime_session_id ep \<and> task_is_unclaimed_queued_tx s w a
             | _ \<Rightarrow> False)
      then Some True else None)"

definition command_mode :: "command \<Rightarrow> lane_route \<Rightarrow> ident \<Rightarrow> attempt_mode" where
  "command_mode c route runtime_id =
     (if cm_kind c \<in> {CMD_CONTINUE, CMD_CORRECT, CMD_RESUME_INTERRUPTED} \<and> route = ROUTE_CURRENT
         \<and> (case cm_previous_attempt c of None \<Rightarrow> False | Some a \<Rightarrow> str_or_empty (a_runtime_session_id a) = runtime_id)
      then REUSE_CURRENT else NEW_ATTEMPT)"

definition route_command :: "env \<Rightarrow> command \<Rightarrow> attachment_row \<Rightarrow> lane \<Rightarrow> epoch_row \<Rightarrow> db \<Rightarrow> (db \<times> admission option) cp" where
  "route_command e c a ln ep s =
     (case bind_ready_worker_runtime_tx e s (cm_worker_id c) (Some (te_runtime_session_id ep)) of
        Inr runtime_id \<Rightarrow> Inr (s, Some (admit_on ln ep runtime_id ROUTE_CURRENT (command_mode c ROUTE_CURRENT runtime_id) False))
      | Inl err \<Rightarrow>
          if \<not> route_unavailable err then Inl err
          else bindE (advance_worker_thread_connection_tx e (cm_actor_id c) ln (ca_id a) (ca_generation a) s) (\<lambda>(s1, ln1).
            case ln_epoch ln1 of
              None \<Rightarrow> Inl (PyError ''TypeError'' '''')
            | Some ep1 \<Rightarrow> Inr (s1, Some (admit_on ln ep1 (te_runtime_session_id ep1) ROUTE_ADVANCED
                  (command_mode c ROUTE_ADVANCED (te_runtime_session_id ep1)) False))))"

definition command_blocker :: "env \<Rightarrow> command \<Rightarrow> ident \<Rightarrow> db \<Rightarrow> (db \<times> string) cp" where
  "command_blocker e c thread_id s =
     (if cm_kind c = CMD_CREATE_WORK then Inr (s, '''')
      else bindE (dead_letter_terminal_worker_deliveries_tx e thread_id (cm_worker_id c) (cm_actor_id c) s) (\<lambda>s1.
        Inr (s1, instruction_blocker e s1 thread_id (cm_worker_id c) (map_option w_id (cm_work c)))))"

definition admit_lane :: "env \<Rightarrow> command \<Rightarrow> attachment_row \<Rightarrow> lane \<Rightarrow> db \<Rightarrow> (db \<times> admission option) cp" where
  "admit_lane e c a ln s = bindE (lane_exact c ln) (\<lambda>_.
     case ln_epoch ln of
       None \<Rightarrow> Inl (PyError ''AssertionError'' '''')
     | Some ep \<Rightarrow>
         (case records_only s c ep of
            Some queue_only \<Rightarrow> Inr (s, Some (admit_on ln ep (te_runtime_session_id ep) ROUTE_CURRENT NEW_ATTEMPT queue_only))
          | None \<Rightarrow> bindE (command_blocker e c (mt_id (ln_thread ln)) s) (\<lambda>(s1, blocker).
              if blocker \<noteq> '''' then Inl (outcome_unsettled ''worker_command_outcome_unsettled'' blocker)
              else route_command e c a ln ep s1)))"

definition admit_managed_worker_command_tx :: "env \<Rightarrow> command \<Rightarrow> db \<Rightarrow> (db \<times> admission option) cp" where
  "admit_managed_worker_command_tx e c s =
     bindE (case cm_work c of None \<Rightarrow> Inr () | Some w \<Rightarrow> work_binding_ok s c w) (\<lambda>_.
     bindE (command_thread s c) (\<lambda>target.
     case target of
       None \<Rightarrow> Inr (s, None)
     | Some (a, thread_id) \<Rightarrow>
         bindE (managed_worker_thread_tx s (cm_actor_id c) (ca_id a) (ca_generation a) thread_id) (\<lambda>ln.
         admit_lane e c a ln s)))"

end
