(* ===== verification/Idempotency.thy ===== *)
theory Idempotency
  imports Actors
begin

text \<open>
  The results recorded under idempotency keys: \<open>_idempotent_get_tx\<close> and \<open>_idempotent_put\<close> of
  \<open>service.py\<close>, and the interface a command relies on when it replays its first result.
\<close>

section \<open>Idempotent results\<close>

definition same_command :: "ident \<Rightarrow> string \<Rightarrow> string \<Rightarrow> idempotency_row \<Rightarrow> bool" where
  "same_command actor_id operation key r = (i_actor_id r = actor_id \<and> i_operation r = operation \<and> i_key r = key)"

definition idempotent_get_tx :: "ident \<Rightarrow> string \<Rightarrow> string \<Rightarrow> string list \<Rightarrow> db \<Rightarrow> json option cp" where
  "idempotent_get_tx actor_id operation key digests s =
     (if key = '''' then Inr None
      else (case fetchone (same_command actor_id operation key) (idempotency_results s) of
          None \<Rightarrow> Inr None
        | Some r \<Rightarrow> if i_request_digest r \<notin> set digests
            then Inl (ConflictError ''idempotency key was reused with different command parameters''
                   [(''operation'', jstr operation)])
            else Inr (Some (i_result r))))"

definition idempotent_put :: "ident \<Rightarrow> string \<Rightarrow> string \<Rightarrow> string \<Rightarrow> json \<Rightarrow> db \<Rightarrow> db cp" where
  "idempotent_put actor_id operation key digest result s =
     (if key = '''' then Inr s
      else (case fetchone (same_command actor_id operation key) (idempotency_results s) of
          Some r \<Rightarrow> if i_request_digest r \<noteq> digest
            then Inl (ConflictError ''idempotency key was concurrently reused with different command parameters''
                   [(''operation'', jstr operation)])
            else Inr s
        | None \<Rightarrow>
            if \<not> list_ex (\<lambda>p. p_id p = actor_id) (principals s) then Inl foreign_key_violation
            else Inr (s\<lparr>idempotency_results := idempotency_results s @ [\<lparr>i_actor_id = actor_id, i_operation = operation,
                   i_key = key, i_request_digest = digest, i_result = result\<rparr>]\<rparr>)))"

section \<open>Recorded commands\<close>

text \<open>
  The interface of recorded commands: what is put under a fresh key is what a later get of that key
  reads, and the entries of other keys stay.
\<close>

locale command_log =
  fixes recorded :: "'k \<Rightarrow> 'd list \<Rightarrow> 's \<Rightarrow> ('e + 'r option)"
    and record_result :: "'k \<Rightarrow> 'd \<Rightarrow> 'r \<Rightarrow> 's \<Rightarrow> ('e + 's)"
    and keyed :: "'k \<Rightarrow> bool"
  assumes unkeyed: "\<not> keyed k \<Longrightarrow> recorded k ds s = Inr None"
    and put_get: "keyed k \<Longrightarrow> recorded k ds s = Inr None \<Longrightarrow> record_result k d r s = Inr s' \<Longrightarrow> d \<in> set ds'
      \<Longrightarrow> recorded k ds' s' = Inr (Some r)"
    and put_other: "record_result k d r s = Inr s' \<Longrightarrow> k' \<noteq> k \<Longrightarrow> recorded k' ds s' = recorded k' ds s"
    and put_again: "keyed k \<Longrightarrow> recorded k [d] s = Inr (Some r') \<Longrightarrow> record_result k d r s = Inr s"
begin

lemma fresh_read: "recorded k ds s = Inr (Some r) \<Longrightarrow> keyed k"
  using unkeyed [of k ds s] by (cases "keyed k") auto

lemma put_twice:
  assumes k: "keyed k" and f: "recorded k [d] s = Inr None" and p: "record_result k d r s = Inr s1"
  shows "record_result k d r' s1 = Inr s1"
  using put_get [OF k f p, of "[d]"] put_again [OF k] by simp

lemma put_put_get:
  assumes k: "keyed k" and f: "recorded k ds s = Inr None" and p: "record_result k d r s = Inr s1"
    and p2: "record_result k2 d2 r2 s1 = Inr s2" and n: "k2 \<noteq> k"
  shows "recorded k [d] s2 = Inr (Some r)"
  using put_other [OF p2 n [symmetric]] put_get [OF k f p] by simp

end

definition command_get :: "ident \<times> string \<times> string \<Rightarrow> string list \<Rightarrow> db \<Rightarrow> json option cp" where
  "command_get k ds s = (case k of (a, operation, key) \<Rightarrow> idempotent_get_tx a operation key ds s)"

definition command_put :: "ident \<times> string \<times> string \<Rightarrow> string \<Rightarrow> json \<Rightarrow> db \<Rightarrow> db cp" where
  "command_put k d r s = (case k of (a, operation, key) \<Rightarrow> idempotent_put a operation key d r s)"

lemmas command_log_defs = command_get_def command_put_def idempotent_get_tx_def idempotent_put_def same_command_def

interpretation cl: command_log command_get command_put "\<lambda>(a, operation, key). key \<noteq> ''''"
proof unfold_locales
  fix k :: "ident \<times> string \<times> string" and ds :: "string list" and s :: db
  assume "\<not> (case k of (a, operation, key) \<Rightarrow> key \<noteq> '''')"
  then show "command_get k ds s = Inr None" by (auto simp: command_log_defs split: prod.splits)
next
  fix k :: "ident \<times> string \<times> string" and ds ds' :: "string list" and s s' :: db and d r
  assume "case k of (a, operation, key) \<Rightarrow> key \<noteq> ''''" "command_get k ds s = Inr None"
    "command_put k d r s = Inr s'" "d \<in> set ds'"
  then show "command_get k ds' s' = Inr (Some r)"
    by (auto simp: command_log_defs fetchone_append split: prod.splits option.splits if_splits)
next
  fix k k' :: "ident \<times> string \<times> string" and ds :: "string list" and s s' :: db and d r
  assume "command_put k d r s = Inr s'" "k' \<noteq> k"
  then show "command_get k' ds s' = command_get k' ds s"
    by (auto simp: command_log_defs fetchone_append split: prod.splits option.splits if_splits)
next
  fix k :: "ident \<times> string \<times> string" and s :: db and d r r'
  assume "case k of (a, operation, key) \<Rightarrow> key \<noteq> ''''" "command_get k [d] s = Inr (Some r')"
  then show "command_put k d r s = Inr s"
    by (auto simp: command_log_defs split: prod.splits option.splits if_splits)
qed

end
