(* ===== verification/Work_Continuation.thy ===== *)
theory Work_Continuation
  imports Worker_Lane Idempotency Goal_Packets
begin

text \<open>
  How a Work goes on after a boundary, from \<open>service.py\<close>: the next attempt of the same goal
  (\<open>_retry_attempt_tx\<close>), the contract of a Work that waits for its requester
  (\<open>_current_user_needed_boundary_tx\<close>, \<open>_consume_user_needed_boundary_tx\<close>), the two commands that
  consume a wait (\<open>_reply_user_needed\<close>) and a pause (\<open>resume_work\<close>), and the return to a Work that
  an interrupting one suspended (\<open>_resume_interrupted_target_tx\<close>).

  Three parts of the service come in as \<open>continuation_ports\<close>: the check of a payload sealed for a
  Worker (\<open>_require_worker_safe_task_payload\<close>), the proof that a failed runtime may be continued on
  its thread (\<open>_runtime_recovery_retry_target_tx\<close>), and the bundle view an operation returns.
\<close>

record continuation_ports =
  kp_payload_safe :: "json \<Rightarrow> unit cp"
  kp_recovery_target :: "db \<Rightarrow> work_row \<Rightarrow> attempt_row \<Rightarrow> boundary_row \<Rightarrow> bool \<Rightarrow> (db \<times> admission) cp"
  kp_bundle :: "db \<Rightarrow> ident \<Rightarrow> json cp"

section \<open>The goal of a Work\<close>

definition current_goal_tx :: "db \<Rightarrow> work_row \<Rightarrow> goal_revision_row cp" where
  "current_goal_tx s w =
     (case fetchone (\<lambda>g. gr_work_item_id g = w_id w \<and> gr_version g = w_goal_version w) (goal_revisions s) of
        None \<Rightarrow> Inl (PyError ''RuntimeError'' ''work item current goal pointer is invalid'')
      | Some g \<Rightarrow> Inr g)"

definition latest_attempt_tx :: "db \<Rightarrow> ident \<Rightarrow> attempt_row option" where
  "latest_attempt_tx s work_id = last_by a_attempt_number (filter (\<lambda>a. a_work_item_id a = work_id) (attempts s))"

text \<open>Iterating over a document: a text yields its characters, a mapping its keys.\<close>

fun py_iter :: "json \<Rightarrow> json list option" where
  "py_iter (JArr vs) = Some vs"
| "py_iter (JStr t) = Some (map (\<lambda>c. JStr [c]) t)"
| "py_iter (JObj kvs) = Some (map (\<lambda>(k, v). JStr k) kvs)"
| "py_iter _ = None"

definition packet_dependencies :: "env \<Rightarrow> json \<Rightarrow> pystr list cp" where
  "packet_dependencies e packet = (case jget packet ''dependencies'' of
     None \<Rightarrow> Inr []
   | Some v \<Rightarrow> (case py_iter v of None \<Rightarrow> Inl (PyError ''TypeError'' ''object is not iterable'')
       | Some vs \<Rightarrow> Inr (map (\<lambda>x. py_str e (Some x)) vs)))"

definition sealed_attachment :: "json \<Rightarrow> mapping_doc option cp" where
  "sealed_attachment packet = (case jget packet ''supervisor_attachment'' of
     None \<Rightarrow> Inr None
   | Some JNull \<Rightarrow> Inr None
   | Some (JObj kvs) \<Rightarrow> Inr (Some kvs)
   | Some _ \<Rightarrow> Inl (PyError ''RuntimeError'' ''work item goal attachment packet is invalid''))"

section \<open>Waiting for the requester\<close>

definition wait_authority :: "db \<Rightarrow> ident \<Rightarrow> work_row \<Rightarrow> attempt_row \<Rightarrow> ident \<Rightarrow> boundary_row \<Rightarrow> bool" where
  "wait_authority s actor_id w a pointer b = (b_id b = pointer \<and> b_work_item_id b = w_id w \<and> b_attempt_id b = a_id a
     \<and> b_generation b = w_generation w \<and> b_goal_version b = a_goal_version a
     \<and> b_goal_packet_digest b = a_goal_packet_digest a \<and> b_task_packet_digest b = a_task_packet_digest a
     \<and> b_source_principal_id b \<in> {a_worker_id a, actor_id}
     \<and> decided s b WAIT_USER actor_id (b_generation b) (\<lambda>_. True)
     \<and> \<not> superseded s (b_id b) \<and> \<not> continued s (b_id b))"

definition awaiting_boundary :: "db \<Rightarrow> work_row \<Rightarrow> bool" where
  "awaiting_boundary s w = list_ex (\<lambda>b. b_work_item_id b = w_id w \<and> b_generation b = w_generation w
     \<and> \<not> disposed s (b_id b) \<and> \<not> superseded s (b_id b)) (boundaries s)"

definition current_user_needed_boundary_tx :: "db \<Rightarrow> ident \<Rightarrow> work_row \<Rightarrow> attempt_row \<Rightarrow> boundary_row option cp" where
  "current_user_needed_boundary_tx s actor_id w a =
     (if w_state w \<noteq> W_USER_NEEDED
      then (if w_user_needed_boundary_id w \<noteq> None
            then Inl (PyError ''RuntimeError'' ''non-user-needed Work retains a WAIT_USER boundary'') else Inr None)
      else (case w_user_needed_boundary_id w of
          None \<Rightarrow> Inl (command_conflict ''requester-input authority is unresolved'' ''worker_command_binding_ambiguous'')
        | Some pointer \<Rightarrow> (case fetchone (wait_authority s actor_id w a pointer) (boundaries s) of
            None \<Rightarrow> Inl (command_conflict ''requester-input continuation contract changed'' ''worker_command_binding_conflict'')
          | Some b \<Rightarrow>
              if awaiting_boundary s w \<or> w_attention_owner w \<noteq> AO_USER
              then Inl (command_conflict ''requester-input continuation contract changed'' ''worker_command_binding_conflict'')
              else Inr (Some b))))"

text \<open>The Work as it still is when its wait is consumed.\<close>

definition wait_fence :: "work_row \<Rightarrow> boundary_row \<Rightarrow> work_row \<Rightarrow> bool" where
  "wait_fence w b x = (w_id x = w_id w \<and> w_state x = W_USER_NEEDED \<and> w_attention_owner x = AO_USER
     \<and> w_generation x = w_generation w \<and> w_user_needed_boundary_id x = Some (b_id b))"

definition continued_work :: "env \<Rightarrow> int \<Rightarrow> work_row \<Rightarrow> work_row" where
  "continued_work e generation x = x\<lparr>w_state := W_ACTIVE, w_attention_owner := AO_WORKER, w_generation := generation,
     w_user_needed_boundary_id := None, w_updated_at := env_now e\<rparr>"

definition consume_user_needed_boundary_tx ::
  "env \<Rightarrow> ident \<Rightarrow> work_row \<Rightarrow> boundary_row \<Rightarrow> attempt_row \<Rightarrow> attempt_row \<Rightarrow> int \<Rightarrow> ident \<Rightarrow> db \<Rightarrow> db cp" where
  "consume_user_needed_boundary_tx e actor_id w b source successor generation message_id s =
     bindE (insert_continuation \<lparr>bc_boundary_id = b_id b, bc_work_item_id = w_id w, bc_source_attempt_id = a_id source,
       bc_source_generation = w_generation w, bc_successor_attempt_id = a_id successor, bc_successor_generation = generation,
       bc_message_id = message_id, bc_decided_by = actor_id\<rparr> s) (\<lambda>s1.
     bindE (update_works [COL_STATE, COL_ATTENTION, COL_GENERATION, COL_USER_NEEDED] (wait_fence w b)
       (continued_work e generation) s1) (\<lambda>s2.
     if rowcount (wait_fence w b) (works s1) \<noteq> 1
     then Inl (command_conflict ''requester-input continuation lost its Work fence'' ''worker_command_generation_conflict'')
     else Inr s2))"

section \<open>The next attempt\<close>

record retry_request =
  rq_reason :: pystr
  rq_worker_id :: "ident option"
  rq_runtime_session_id :: "ident option"
  rq_kind :: command_kind
  rq_admission :: "admission option"
  rq_context :: "(string \<times> pystr) list"

definition retry_target :: "attempt_row \<Rightarrow> retry_request \<Rightarrow> ident" where
  "retry_target previous q = (if str_or_empty (rq_worker_id q) = '''' then a_worker_id previous else str_or_empty (rq_worker_id q))"

definition requested_runtime :: "attempt_row \<Rightarrow> retry_request \<Rightarrow> ident option" where
  "requested_runtime previous q = (if rq_runtime_session_id q \<noteq> None then rq_runtime_session_id q
     else if retry_target previous q = a_worker_id previous then a_runtime_session_id previous else None)"

definition retry_worker_ok :: "db \<Rightarrow> work_row \<Rightarrow> ident \<Rightarrow> unit cp" where
  "retry_worker_ok s w worker_id =
     (case fetchone (\<lambda>p. p_id p = worker_id) (principals s) of
        None \<Rightarrow> Inl (ValidationError ''retry worker must be an enabled Worker'' [])
      | Some p \<Rightarrow>
          if p_role p \<noteq> WORKER \<or> \<not> p_enabled p then Inl (ValidationError ''retry worker must be an enabled Worker'' [])
          else if p_operator_scope p \<noteq> w_operator_scope w
          then Inl (ConflictError ''retry Worker operator scope does not match WorkItem'' [])
          else Inr ())"

definition retry_command :: "ident \<Rightarrow> work_row \<Rightarrow> attempt_row \<Rightarrow> retry_request \<Rightarrow> command" where
  "retry_command actor_id w previous q = \<lparr>cm_actor_id = actor_id, cm_kind = rq_kind q, cm_worker_id = retry_target previous q,
     cm_supervisor_attachment_id = w_supervisor_attachment_id w, cm_worker_thread_id = None, cm_expected_generation = None,
     cm_work = Some w, cm_previous_attempt = Some previous\<rparr>"

definition retry_admission :: "env \<Rightarrow> ident \<Rightarrow> work_row \<Rightarrow> attempt_row \<Rightarrow> retry_request \<Rightarrow> db \<Rightarrow> (db \<times> admission option) cp" where
  "retry_admission e actor_id w previous q s = (case rq_admission q of Some x \<Rightarrow> Inr (s, Some x)
     | None \<Rightarrow> admit_managed_worker_command_tx e (retry_command actor_id w previous q) s)"

definition retry_runtime :: "env \<Rightarrow> db \<Rightarrow> attempt_row \<Rightarrow> retry_request \<Rightarrow> admission option \<Rightarrow> ident cp" where
  "retry_runtime e s previous q adm = (case adm of Some x \<Rightarrow> Inr (ad_runtime_session_id x)
     | None \<Rightarrow> bind_ready_worker_runtime_tx e s (retry_target previous q)
         (if str_or_empty (requested_runtime previous q) = '''' then None else requested_runtime previous q))"

definition retire_attempt :: "env \<Rightarrow> attempt_row \<Rightarrow> db \<Rightarrow> db" where
  "retire_attempt e previous s = (if a_state previous \<in> {A_COMPLETED, A_FAILED, A_CANCELED} then s
     else s\<lparr>attempts := update_rows (\<lambda>a. a_id a = a_id previous)
       (\<lambda>a. a\<lparr>a_state := A_CANCELED, a_updated_at := env_now e\<rparr>) (attempts s)\<rparr>)"

text \<open>The managed thread the Work is bound to from now on.\<close>

definition next_thread :: "work_row \<Rightarrow> ident \<Rightarrow> admission option \<Rightarrow> ident option \<times> int option" where
  "next_thread w worker_id adm = (case adm of
     Some x \<Rightarrow> (Some (ad_worker_thread_id x), Some (ad_thread_generation x))
   | None \<Rightarrow> if w_assigned_worker_id w = worker_id
       then (w_managed_worker_thread_id w, w_managed_worker_thread_generation w) else (None, None))"

definition reassigned_work :: "env \<Rightarrow> ident \<Rightarrow> ident option \<times> int option \<Rightarrow> work_row \<Rightarrow> work_row" where
  "reassigned_work e worker_id thread x = x\<lparr>w_assigned_worker_id := worker_id, w_managed_worker_thread_id := fst thread,
     w_managed_worker_thread_generation := snd thread, w_updated_at := env_now e\<rparr>"

definition reactivated_work :: "env \<Rightarrow> command_kind \<Rightarrow> ident \<Rightarrow> ident option \<times> int option \<Rightarrow> work_row \<Rightarrow> work_row" where
  "reactivated_work e kind worker_id thread x = (reassigned_work e worker_id thread x)\<lparr>w_state := W_ACTIVE,
     w_attention_owner := AO_WORKER, w_generation := w_generation x + 1,
     w_paused_boundary_id := (if kind = CMD_RESUME_PAUSED then None else w_paused_boundary_id x)\<rparr>"

definition reassign_work ::
  "env \<Rightarrow> work_row \<Rightarrow> boundary_row option \<Rightarrow> command_kind \<Rightarrow> ident \<Rightarrow> ident option \<times> int option \<Rightarrow> db \<Rightarrow> db cp" where
  "reassign_work e w waiting kind worker_id thread s =
     (case waiting of
        Some b \<Rightarrow> bindE (update_works [COL_ASSIGNED_WORKER] (wait_fence w b) (reassigned_work e worker_id thread) s) (\<lambda>s1.
          if rowcount (wait_fence w b) (works s) \<noteq> 1
          then Inl (command_conflict ''requester-input continuation lost its preparation fence'' ''worker_command_generation_conflict'')
          else Inr s1)
      | None \<Rightarrow> update_works [COL_ASSIGNED_WORKER, COL_STATE, COL_ATTENTION, COL_PAUSED, COL_GENERATION]
          (\<lambda>x. w_id x = w_id w) (reactivated_work e kind worker_id thread) s)"

definition successor_packet ::
  "env \<Rightarrow> work_row \<Rightarrow> goal_revision_row \<Rightarrow> ident \<Rightarrow> int \<Rightarrow> ident \<Rightarrow> ident \<Rightarrow> string cp" where
  "successor_packet e w g attempt_id number worker_id runtime_id =
     (if \<not> is_mapping (gr_packet g) then Inl (PyError ''RuntimeError'' ''work item goal packet is invalid'')
      else bindE (sealed_attachment (gr_packet g)) (\<lambda>attachment.
        bindE (packet_dependencies e (gr_packet g)) (\<lambda>dependencies.
        task_packet_digest (env_sha e) (build_task_packet
          \<lparr>tp_goal_packet_digest_value = u (gr_packet_digest g), tp_work_item_id = u (w_id w), tp_goal_version = w_goal_version w,
           tp_attempt_id = u attempt_id, tp_attempt_number = number, tp_worker_id = u worker_id,
           tp_runtime_session_id = (if runtime_id = '''' then None else Some (u runtime_id)),
           tp_supervisor_attachment = attachment, tp_dependencies = dependencies\<rparr>))))"

definition successor_attempt :: "env \<Rightarrow> work_row \<Rightarrow> string \<Rightarrow> string \<Rightarrow> ident \<Rightarrow> int \<Rightarrow> ident \<Rightarrow> ident \<Rightarrow> attempt_row" where
  "successor_attempt e w goal_digest task_digest attempt_id number worker_id runtime_id =
     \<lparr>a_id = attempt_id, a_work_item_id = w_id w, a_attempt_number = number, a_worker_id = worker_id,
      a_runtime_session_id = Some runtime_id, a_goal_version = w_goal_version w, a_goal_packet_digest = goal_digest,
      a_task_packet_digest = task_digest, a_state = A_ASSIGNED, a_trajectory = ''untracked'', a_evidence_confidence = ''unknown'',
      a_stage = [], a_next_boundary = [], a_completion_claim = JObj [], a_updated_at = env_now e\<rparr>"

definition insert_attempt :: "attempt_row \<Rightarrow> db \<Rightarrow> db cp" where
  "insert_attempt a s =
     (if list_ex (\<lambda>x. a_id x = a_id a \<or> a_work_item_id x = a_work_item_id a \<and> a_attempt_number x = a_attempt_number a) (attempts s)
      then Inl unique_violation
      else if dangling w_id (works s) (Some (a_work_item_id a)) \<or> dangling p_id (principals s) (Some (a_worker_id a))
         \<or> dangling r_id (runtimes s) (a_runtime_session_id a)
      then Inl foreign_key_violation
      else Inr (s\<lparr>attempts := attempts s @ [a]\<rparr>))"

definition context_json :: "(string \<times> pystr) list \<Rightarrow> json" where
  "context_json c = jobj (map (\<lambda>(k, v). (k, JStr v)) c)"

definition command_context_ok :: "continuation_ports \<Rightarrow> (string \<times> pystr) list \<Rightarrow> unit cp" where
  "command_context_ok p c =
     (if c = [] then Inr ()
      else if \<not> set (map fst c) \<subseteq> {''action'', ''reason'', ''instruction'', ''source_boundary_id'', ''directive_id''}
      then Inl (ValidationError ''replacement Assignment command context is invalid'' [])
      else kp_payload_safe p (jobj [(''command'', context_json c)]))"

definition retry_payload ::
  "env \<Rightarrow> work_row \<Rightarrow> goal_revision_row \<Rightarrow> attempt_row \<Rightarrow> retry_request \<Rightarrow> pystr list \<Rightarrow> (pystr \<times> json) list" where
  "retry_payload e w g a q dependencies = upayload
     ([(''work_item_id'', jstr (w_id w)), (''attempt_id'', jstr (a_id a)), (''goal_version'', JInt (w_goal_version w)),
       (''generation'', JInt (w_generation w + 1)), (''objective'', JStr (gr_objective g)), (''maturity'', jstr (gr_maturity g)),
       (''acceptance'', gr_acceptance g), (''non_goals'', gr_non_goals g),
       (''completion_contract'', (case jget (gr_packet g) ''completion_contract'' of
           None \<Rightarrow> jstr ''legacy_unclassified'' | Some v \<Rightarrow> JStr (py_str e (Some v))))]
      @ (case jget (gr_packet g) ''dependencies'' of None \<Rightarrow> []
         | Some v \<Rightarrow> if truthy v then [(''dependencies'', JArr (map JStr dependencies))] else [])
      @ (case jget (gr_packet g) ''managed_task_policy'' of None \<Rightarrow> [] | Some v \<Rightarrow> [(''managed_task_policy'', v)])
      @ [(''reason'', JStr (rq_reason q))]
      @ (if rq_context q = [] then [] else [(''command'', context_json (rq_context q))])
      @ [(''goal_packet_digest'', jstr (a_goal_packet_digest a)), (''task_packet_digest'', jstr (a_task_packet_digest a))])"

definition work_message ::
  "ident \<Rightarrow> ident \<Rightarrow> message_kind \<Rightarrow> (pystr \<times> json) list \<Rightarrow> work_row \<Rightarrow> ident \<Rightarrow> string \<Rightarrow> message_request" where
  "work_message sender recipient kind payload w attempt_id key =
     \<lparr>mq_sender_id = sender, mq_recipient_id = Some recipient, mq_recipient_ids = [], mq_kind = kind,
      mq_payload = payload, mq_work_item_id = Some (w_id w), mq_attempt_id = Some attempt_id,
      mq_correlation_id = '''', mq_causation_id = '''', mq_idempotency_key = key, mq_goal_version = Some (w_goal_version w),
      mq_runtime_session_id = None, mq_create_delivery = True\<rparr>"

text \<open>The statements that replace the attempt, once worker, lane and runtime are settled.\<close>

definition replace_attempt ::
  "env \<Rightarrow> continuation_ports \<Rightarrow> ident \<Rightarrow> work_row \<Rightarrow> attempt_row \<Rightarrow> retry_request \<Rightarrow> goal_revision_row \<Rightarrow> boundary_row option
   \<Rightarrow> admission option \<Rightarrow> ident \<Rightarrow> db \<Rightarrow> (db \<times> attempt_row) cp" where
  "replace_attempt e p actor_id w previous q g waiting adm runtime_id s =
     (let worker_id = retry_target previous q; number = a_attempt_number previous + 1;
          attempt_id = env_mint e ''att'' (int (length (attempts s)));
          source = provider_instruction_source_boundary_tx s runtime_id;
          s1 = retire_attempt e previous (fence_reasoner_turns_tx e (w_id w) s)
      in bindE (successor_packet e w g attempt_id number worker_id runtime_id) (\<lambda>task_digest.
         bindE (packet_dependencies e (gr_packet g)) (\<lambda>dependencies.
         let a = successor_attempt e w (gr_packet_digest g) task_digest attempt_id number worker_id runtime_id
         in bindE (reassign_work e w waiting (rq_kind q) worker_id (next_thread w worker_id adm) s1) (\<lambda>s2.
         bindE (insert_attempt a s2) (\<lambda>s3.
         bindE (command_context_ok p (rq_context q)) (\<lambda>_.
         bindE (message_tx e (work_message actor_id worker_id ASSIGNMENT (retry_payload e w g a q dependencies) w attempt_id
             (''retry:'' @ a_id previous)) s3) (\<lambda>(s4, m, ds).
         bindE (case waiting of None \<Rightarrow> Inr s4
           | Some b \<Rightarrow> consume_user_needed_boundary_tx e actor_id w b previous a (w_generation w + 1) (m_id m) s4) (\<lambda>s5.
         Inr (log_event e ((mk_event ''attempt.created'' ''attempt'' attempt_id actor_id
               ([(''work_item_id'', jstr (w_id w)), (''number'', JInt number), (''reason'', JStr (rq_reason q))]
                @ (if source = '''' then [] else [(''provider_source_boundary_id'', jstr source)])))
               \<lparr>ei_causation_id := m_id m\<rparr>) s5, a)))))))))"

definition retry_attempt_tx ::
  "env \<Rightarrow> continuation_ports \<Rightarrow> ident \<Rightarrow> work_row \<Rightarrow> attempt_row \<Rightarrow> retry_request \<Rightarrow> db \<Rightarrow> (db \<times> attempt_row) cp" where
  "retry_attempt_tx e p actor_id w previous q s =
     bindE (if rq_kind q \<noteq> CMD_RESUME_PAUSED then require_not_paused w else Inr ()) (\<lambda>_.
     bindE (current_goal_tx s w) (\<lambda>g.
     bindE (current_user_needed_boundary_tx s actor_id w previous) (\<lambda>waiting.
     bindE (retry_worker_ok s w (retry_target previous q)) (\<lambda>_.
     bindE (retry_admission e actor_id w previous q s) (\<lambda>(s1, adm).
     bindE (retry_runtime e s1 previous q adm) (\<lambda>runtime_id.
     bindE (require_managed_worker_work_attachment_tx s1 actor_id (retry_target previous q) runtime_id
       (if str_or_empty (w_supervisor_attachment_id w) = '''' then None else w_supervisor_attachment_id w)) (\<lambda>_.
     replace_attempt e p actor_id w previous q g waiting adm runtime_id s1)))))))"

section \<open>Continuing a Work\<close>

text \<open>\<open>_retire_runtime_recovery_deliveries_tx\<close>: the open deliveries of the failed route.\<close>

definition recovery_reason_text :: "bool \<Rightarrow> string" where
  "recovery_reason_text reconciliation =
     (if reconciliation then ''runtime_reconciliation_superseded'' else ''runtime_recovery_superseded'')"

definition recovery_deliveries :: "db \<Rightarrow> attempt_row \<Rightarrow> delivery_row list" where
  "recovery_deliveries s a = map fst (sort_key (\<lambda>(d, m). (m_sequence m, d_recipient_id d)) (concat (map (\<lambda>d. map (Pair d)
     (filter (\<lambda>m. m_id m = d_message_id d \<and> m_attempt_id m = Some (a_id a)) (messages s)))
     (filter (\<lambda>d. d_recipient_id d = a_worker_id a \<and> a_runtime_session_id a \<noteq> None
        \<and> d_runtime_session_id d = a_runtime_session_id a \<and> d_state d \<in> {QUEUED, LEASED, DISPATCHED}) (deliveries s)))))"

definition same_route_delivery :: "delivery_row \<Rightarrow> delivery_row \<Rightarrow> bool" where
  "same_route_delivery d x = (d_message_id x = d_message_id d \<and> d_recipient_id x = d_recipient_id d
     \<and> d_runtime_session_id d \<noteq> None \<and> d_runtime_session_id x = d_runtime_session_id d
     \<and> d_generation x = d_generation d \<and> d_state x = d_state d)"

definition superseded_route :: "env \<Rightarrow> bool \<Rightarrow> delivery_row \<Rightarrow> delivery_row" where
  "superseded_route e reconciliation d = d\<lparr>d_state := DEAD, d_next_attempt_at := env_now e, d_lease_until := None,
     d_owner_token := '''', d_last_error := recovery_reason_text reconciliation, d_updated_at := env_now e\<rparr>"

definition retire_route_delivery :: "env \<Rightarrow> ident \<Rightarrow> boundary_row \<Rightarrow> bool \<Rightarrow> db \<Rightarrow> delivery_row \<Rightarrow> db cp" where
  "retire_route_delivery e actor_id b reconciliation s d =
     (if rowcount (same_route_delivery d) (deliveries s) \<noteq> 1
      then Inl (ConflictError ''managed runtime recovery delivery changed''
             [(''reason_code'', jstr ''worker_instruction_outcome_unknown''),
              (''recovery_state'', jstr ''system_reconciliation_required''), (''retryable'', JBool False)])
      else Inr (log_event e ((mk_event ''message.delivery_superseded'' ''message'' (d_message_id d) actor_id
             ([(''reason_code'', jstr (recovery_reason_text reconciliation)),
               (''prior_state'', jstr (delivery_state_value (d_state d)))]
              @ (if d_last_error d = '''' then [] else [(''provider_failure_code'', jstr (d_last_error d))])))
             \<lparr>ei_causation_id := b_id b\<rparr>)
           (s\<lparr>deliveries := update_rows (same_route_delivery d) (superseded_route e reconciliation) (deliveries s)\<rparr>)))"

definition retire_runtime_recovery_deliveries_tx :: "env \<Rightarrow> ident \<Rightarrow> attempt_row \<Rightarrow> boundary_row \<Rightarrow> bool \<Rightarrow> db \<Rightarrow> db cp" where
  "retire_runtime_recovery_deliveries_tx e actor_id a b reconciliation s =
     foldE (retire_route_delivery e actor_id b reconciliation) s (recovery_deliveries s a)"

text \<open>The lane a continuation runs on: the recovered route of a failed runtime, or the admitted one.\<close>

definition continuation_command :: "ident \<Rightarrow> command_kind \<Rightarrow> work_row \<Rightarrow> attempt_row \<Rightarrow> command" where
  "continuation_command actor_id kind w a = \<lparr>cm_actor_id = actor_id, cm_kind = kind, cm_worker_id = a_worker_id a,
     cm_supervisor_attachment_id = w_supervisor_attachment_id w, cm_worker_thread_id = None, cm_expected_generation = None,
     cm_work = Some w, cm_previous_attempt = Some a\<rparr>"

definition recover_route ::
  "env \<Rightarrow> continuation_ports \<Rightarrow> ident \<Rightarrow> work_row \<Rightarrow> attempt_row \<Rightarrow> boundary_row \<Rightarrow> bool \<Rightarrow> db \<Rightarrow> (db \<times> admission) cp" where
  "recover_route e p actor_id w a b reconciliation s =
     bindE (kp_recovery_target p s w a b reconciliation) (\<lambda>(s1, adm).
     bindE (retire_runtime_recovery_deliveries_tx e actor_id a b reconciliation s1) (\<lambda>s2. Inr (s2, adm)))"

definition continuation_route ::
  "env \<Rightarrow> continuation_ports \<Rightarrow> ident \<Rightarrow> work_row \<Rightarrow> attempt_row \<Rightarrow> boundary_row \<Rightarrow> db \<Rightarrow> (db \<times> admission option) cp" where
  "continuation_route e p actor_id w a b s =
     (if b_recovery_action b \<in> {''dispose_continue_or_correct'', ''reconcile_continue_same_thread''}
      then bindE (recover_route e p actor_id w a b (b_recovery_action b = ''reconcile_continue_same_thread'') s)
             (\<lambda>(s1, adm). Inr (s1, Some adm))
      else admit_managed_worker_command_tx e (continuation_command actor_id CMD_CORRECT w a) s)"

definition starts_attempt :: "admission option \<Rightarrow> bool" where
  "starts_attempt adm = (case adm of None \<Rightarrow> False | Some x \<Rightarrow> ad_attempt_mode x = NEW_ATTEMPT)"

section \<open>The requester's reply\<close>

record reply_request =
  ry_work_id :: ident
  ry_boundary_id :: ident
  ry_expected_generation :: int
  ry_message_text :: pystr
  ry_idempotency_key :: string
  ry_request_digest :: string
  ry_expected_purpose_version :: "int option"

definition requester_reason :: pystr where
  "requester_reason = u ''Requester supplied the exact WAIT_USER decision''"

definition reply_context :: "boundary_row \<Rightarrow> reply_request \<Rightarrow> (string \<times> pystr) list" where
  "reply_context b q = [(''action'', (if b_recovery_action b = ''reconcile_continue_same_thread''
        then u ''reconcile_continue'' else u ''correct'')), (''reason'', requester_reason),
     (''instruction'', ry_message_text q), (''source_boundary_id'', u (ry_boundary_id q))]"

definition reply_payload :: "reply_request \<Rightarrow> (pystr \<times> json) list" where
  "reply_payload q = upayload [(''action'', jstr ''correct''), (''reason'', JStr requester_reason),
     (''instruction'', JStr (ry_message_text q)), (''generation'', JInt (ry_expected_generation q)),
     (''continued_from_boundary_id'', jstr (ry_boundary_id q))]"

definition waiting_state_ok :: "reply_request \<Rightarrow> work_row \<Rightarrow> attempt_row option \<Rightarrow> bool" where
  "waiting_state_ok q w a = (case a of None \<Rightarrow> False
     | Some x \<Rightarrow> w_generation w = ry_expected_generation q \<and> w_state w = W_USER_NEEDED \<and> w_attention_owner w = AO_USER
         \<and> a_state x = A_INPUT_REQUIRED)"

text \<open>The same attempt goes on: it gets an instruction, and the wait is consumed by it.\<close>

definition reply_in_place ::
  "env \<Rightarrow> ident \<Rightarrow> reply_request \<Rightarrow> work_row \<Rightarrow> attempt_row \<Rightarrow> boundary_row \<Rightarrow> db \<Rightarrow> (db \<times> attempt_row \<times> int \<times> ident) cp" where
  "reply_in_place e actor_id q w a b s =
     bindE (message_tx e (work_message actor_id (a_worker_id a) INSTRUCTION (reply_payload q) w (a_id a)
         (''user-needed-reply:'' @ ry_boundary_id q @ '':'' @ service_digest (env_sha e) (jstr (ry_idempotency_key q)))) s)
       (\<lambda>(s1, m, ds).
     bindE (consume_user_needed_boundary_tx e actor_id w b a a (ry_expected_generation q) (m_id m) s1) (\<lambda>s2.
     Inr (s2\<lparr>attempts := update_rows (\<lambda>x. a_id x = a_id a) (\<lambda>x. x\<lparr>a_state := A_WORKING, a_updated_at := env_now e\<rparr>)
            (attempts s2)\<rparr>, a, ry_expected_generation q, m_id m)))"

definition reply_with_attempt ::
  "env \<Rightarrow> continuation_ports \<Rightarrow> ident \<Rightarrow> reply_request \<Rightarrow> work_row \<Rightarrow> attempt_row \<Rightarrow> boundary_row \<Rightarrow> admission option \<Rightarrow> db
   \<Rightarrow> (db \<times> attempt_row \<times> int \<times> ident) cp" where
  "reply_with_attempt e p actor_id q w a b adm s =
     bindE (retry_attempt_tx e p actor_id w a \<lparr>rq_reason = requester_reason, rq_worker_id = None, rq_runtime_session_id = None,
       rq_kind = CMD_CORRECT, rq_admission = adm, rq_context = reply_context b q\<rparr> s) (\<lambda>(s1, x).
     Inr (s1, x, ry_expected_generation q + 1, a_id x))"

definition reply_waiting ::
  "env \<Rightarrow> continuation_ports \<Rightarrow> ident \<Rightarrow> reply_request \<Rightarrow> work_row \<Rightarrow> attempt_row \<Rightarrow> boundary_row \<Rightarrow> db \<Rightarrow> db cp" where
  "reply_waiting e p actor_id q w a b s =
     bindE (continuation_route e p actor_id w a b s) (\<lambda>(s1, adm).
     bindE (if starts_attempt adm then reply_with_attempt e p actor_id q w a b adm s1
            else reply_in_place e actor_id q w a b s1) (\<lambda>(s2, x, generation, causation).
     Inr (log_event e ((mk_event ''work.user_needed_resumed'' ''work_item'' (w_id w) actor_id
         [(''boundary_id'', jstr (ry_boundary_id q)), (''attempt_id'', jstr (a_id x)), (''generation'', JInt generation)])
         \<lparr>ei_causation_id := causation\<rparr>) s2)))"

definition reply_lost :: cp_error where
  "reply_lost = command_conflict ''requester-input continuation no longer owns the exact Work state''
     ''worker_command_generation_conflict''"

definition reply_fresh :: "env \<Rightarrow> continuation_ports \<Rightarrow> actor \<Rightarrow> reply_request \<Rightarrow> work_row \<Rightarrow> db \<Rightarrow> db cp" where
  "reply_fresh e p actor q w s =
     bindE (confirm_work_purpose_tx e (act_id actor) w (ry_expected_purpose_version q) ''requester_reply'' s) (\<lambda>s1.
     case latest_attempt_tx s1 (ry_work_id q) of
       None \<Rightarrow> Inl reply_lost
     | Some a \<Rightarrow>
         if \<not> waiting_state_ok q w (Some a) then Inl reply_lost
         else bindE (current_user_needed_boundary_tx s1 (act_id actor) w a) (\<lambda>waiting.
           case waiting of
             None \<Rightarrow> Inl (command_conflict ''requester-input continuation contract changed'' ''worker_command_binding_conflict'')
           | Some b \<Rightarrow>
               if b_id b \<noteq> ry_boundary_id q
               then Inl (command_conflict ''requester-input continuation contract changed'' ''worker_command_binding_conflict'')
               else reply_waiting e p (act_id actor) q w a b s1))"

definition reply_user_needed :: "env \<Rightarrow> continuation_ports \<Rightarrow> actor \<Rightarrow> reply_request \<Rightarrow> db \<Rightarrow> (db \<times> json) cp" where
  "reply_user_needed e p actor q s =
     bindE (kp_payload_safe p (jobj [(''action'', jstr ''correct''), (''instruction'', JStr (ry_message_text q)),
       (''boundary_id'', jstr (ry_boundary_id q))])) (\<lambda>_.
     transaction s (\<lambda>s.
       bindE (if act_attachment_id actor \<noteq> '''' then require_current_cao_attachment_actor_tx e True s actor else Inr ()) (\<lambda>_.
       bindE (require_authorized_work_tx s actor (ry_work_id q)) (\<lambda>w.
       bindE (idempotent_get_tx (act_id actor) ''reply'' (ry_idempotency_key q) [ry_request_digest q] s) (\<lambda>cached.
       case cached of
         Some r \<Rightarrow> Inr (s, r)
       | None \<Rightarrow>
           bindE (reply_fresh e p actor q w s) (\<lambda>s1.
           bindE (kp_bundle p s1 (ry_work_id q)) (\<lambda>result.
           bindE (idempotent_put (act_id actor) ''reply'' (ry_idempotency_key q) (ry_request_digest q) result s1)
             (\<lambda>s2. Inr (s2, result)))))))))"

section \<open>Resuming a paused Work\<close>

record resume_request =
  rs_work_id :: ident
  rs_expected_generation :: int
  rs_pause_boundary_id :: ident
  rs_reason :: pystr
  rs_instruction :: pystr
  rs_resume_evidence :: pystr
  rs_idempotency_key :: string
  rs_expected_purpose_version :: "int option"

definition resume_digest :: "env \<Rightarrow> resume_request \<Rightarrow> string" where
  "resume_digest e q = service_digest (env_sha e) (jobj
     ([(''work_item_id'', jstr (rs_work_id q)), (''expected_generation'', JInt (rs_expected_generation q)),
       (''pause_boundary_id'', jstr (rs_pause_boundary_id q)), (''reason'', JStr (rs_reason q)),
       (''instruction'', JStr (rs_instruction q)), (''resume_evidence'', JStr (rs_resume_evidence q)),
       (''idempotency_key'', jstr (rs_idempotency_key q))]
      @ (case rs_expected_purpose_version q of None \<Rightarrow> [] | Some v \<Rightarrow> [(''expected_purpose_version'', JInt v)])))"

definition resume_retry :: "resume_request \<Rightarrow> retry_request" where
  "resume_retry q = \<lparr>rq_reason = rs_reason q, rq_worker_id = None, rq_runtime_session_id = None, rq_kind = CMD_RESUME_PAUSED,
     rq_admission = None, rq_context = [(''action'', u ''correct''), (''reason'', rs_reason q),
       (''instruction'', rs_instruction q), (''source_boundary_id'', u (rs_pause_boundary_id q))]\<rparr>"

definition resumable_attempt :: "db \<Rightarrow> resume_request \<Rightarrow> work_row \<Rightarrow> attempt_row cp" where
  "resumable_attempt s q w =
     (if w_generation w \<noteq> rs_expected_generation q
      then Inl (StaleGenerationError (rs_expected_generation q) (w_generation w))
      else bindE (pause_view_tx s w) (\<lambda>pause.
        if map_option pv_boundary_id pause \<noteq> Some (rs_pause_boundary_id q)
        then Inl (command_conflict ''The requested pause is not current for this Work'' ''work_pause_binding_conflict'')
        else (case latest_attempt_tx s (rs_work_id q) of
            None \<Rightarrow> Inl (ConflictError ''Paused Work has no suspended current Attempt'' [])
          | Some a \<Rightarrow> if a_state a \<noteq> A_SUSPENDED
              then Inl (ConflictError ''Paused Work has no suspended current Attempt'' []) else Inr a)))"

definition assignment_of :: "db \<Rightarrow> attempt_row \<Rightarrow> message_row option" where
  "assignment_of s a = fetchone (\<lambda>m. m_attempt_id m = Some (a_id a) \<and> m_kind m = ASSIGNMENT) (messages s)"

definition new_resumption :: "ident \<Rightarrow> resume_request \<Rightarrow> attempt_row \<Rightarrow> attempt_row \<Rightarrow> message_row \<Rightarrow> resumption_row" where
  "new_resumption actor_id q previous successor m = \<lparr>wr_boundary_id = rs_pause_boundary_id q, wr_work_item_id = rs_work_id q,
     wr_previous_attempt_id = a_id previous, wr_successor_attempt_id = a_id successor,
     wr_expected_generation = rs_expected_generation q, wr_successor_generation = rs_expected_generation q + 1,
     wr_message_id = m_id m, wr_resumed_by = actor_id, wr_reason = rs_reason q, wr_instruction = rs_instruction q,
     wr_resume_evidence = rs_resume_evidence q\<rparr>"

definition resume_paused_tx ::
  "env \<Rightarrow> continuation_ports \<Rightarrow> ident \<Rightarrow> resume_request \<Rightarrow> work_row \<Rightarrow> attempt_row \<Rightarrow> db \<Rightarrow> db cp" where
  "resume_paused_tx e p actor_id q w previous s =
     bindE (retry_attempt_tx e p actor_id w previous (resume_retry q) s) (\<lambda>(s1, successor).
     case assignment_of s1 successor of
       None \<Rightarrow> Inl (PyError ''AssertionError'' '''')
     | Some m \<Rightarrow> bindE (insert_resumption (new_resumption actor_id q previous successor m) s1) (\<lambda>s2.
         Inr (log_event e ((mk_event ''work.pause_resumed'' ''work_item'' (rs_work_id q) actor_id
             [(''boundary_id'', jstr (rs_pause_boundary_id q)), (''attempt_id'', jstr (a_id successor)),
              (''generation'', JInt (rs_expected_generation q + 1)),
              (''resume_evidence_digest'', jstr (service_digest (env_sha e) (JStr (rs_resume_evidence q))))])
             \<lparr>ei_causation_id := m_id m\<rparr>) s2)))"

definition resume_fresh :: "env \<Rightarrow> continuation_ports \<Rightarrow> actor \<Rightarrow> resume_request \<Rightarrow> work_row \<Rightarrow> db \<Rightarrow> db cp" where
  "resume_fresh e p actor q w s =
     bindE (confirm_work_purpose_tx e (act_id actor) w (rs_expected_purpose_version q) ''resume'' s) (\<lambda>s1.
     bindE (resumable_attempt s1 q w) (\<lambda>a. resume_paused_tx e p (act_id actor) q w a s1))"

definition resume_work :: "env \<Rightarrow> continuation_ports \<Rightarrow> actor \<Rightarrow> resume_request \<Rightarrow> db \<Rightarrow> (db \<times> json) cp" where
  "resume_work e p actor q s =
     bindE (require_role e s actor [CAO]) (\<lambda>_.
     bindE (kp_payload_safe p (jobj [(''instruction'', JStr (rs_instruction q)), (''reason'', JStr (rs_reason q)),
       (''resume_evidence'', JStr (rs_resume_evidence q))])) (\<lambda>_.
     transaction s (\<lambda>s.
       bindE (if act_attachment_id actor \<noteq> '''' then require_current_cao_attachment_actor_tx e True s actor else Inr ()) (\<lambda>_.
       bindE (require_authorized_work_tx s actor (rs_work_id q)) (\<lambda>w.
       bindE (idempotent_get_tx (act_id actor) ''resume_work'' (rs_idempotency_key q) [resume_digest e q] s) (\<lambda>cached.
       case cached of
         Some r \<Rightarrow> Inr (s, r)
       | None \<Rightarrow>
           bindE (resume_fresh e p actor q w s) (\<lambda>s1.
           bindE (kp_bundle p s1 (rs_work_id q)) (\<lambda>result.
           bindE (idempotent_put (act_id actor) ''resume_work'' (rs_idempotency_key q) (resume_digest e q) result s1)
             (\<lambda>s2. Inr (s2, result))))))))))"

section \<open>Returning to an interrupted Work\<close>

definition interrupted_target :: "db \<Rightarrow> ident \<Rightarrow> work_row option" where
  "interrupted_target s completed_id =
     (case fetchone (\<lambda>d. di_created_work_item_id d = Some completed_id \<and> di_relation d = ''interrupt'') (directives s) of
        None \<Rightarrow> None
      | Some d \<Rightarrow>
          if str_or_empty (di_target_work_item_id d) = '''' then None
          else (case get_work s (str_or_empty (di_target_work_item_id d)) of
              None \<Rightarrow> None
            | Some w \<Rightarrow> if w_state w = W_SUSPENDED \<and> w_suspended_by_work_item_id w = Some completed_id then Some w else None))"

text \<open>
  What an admission that ends in a conflict has already written: past the checks of the lane the
  deliveries of ended attempts are retired before the blockers are looked at, and a caller that
  handles the conflict commits that.
\<close>

definition admission_residue :: "env \<Rightarrow> command \<Rightarrow> db \<Rightarrow> db" where
  "admission_residue e c s =
     (case bindE (case cm_work c of None \<Rightarrow> Inr () | Some w \<Rightarrow> work_binding_ok s c w) (\<lambda>_.
        bindE (command_thread s c) (\<lambda>target. case target of
            None \<Rightarrow> Inr s
          | Some (a, thread_id) \<Rightarrow>
              bindE (managed_worker_thread_tx s (cm_actor_id c) (ca_id a) (ca_generation a) thread_id) (\<lambda>ln.
              bindE (lane_exact c ln) (\<lambda>_.
              bindE (command_blocker e c (mt_id (ln_thread ln)) s) (\<lambda>(s1, blocker). Inr s1))))) of
        Inl err \<Rightarrow> s
      | Inr s1 \<Rightarrow> s1)"

fun conflict_code :: "cp_error \<Rightarrow> json option" where
  "conflict_code (ConflictError m d) = Some (case map_of d ''reason_code'' of None \<Rightarrow> jstr ''conflict'' | Some v \<Rightarrow> v)"
| "conflict_code _ = None"

definition returned_work :: "env \<Rightarrow> work_row \<Rightarrow> work_row" where
  "returned_work e x = x\<lparr>w_state := W_ACTIVE, w_attention_owner := AO_WORKER, w_generation := w_generation x + 1,
     w_suspended_by_work_item_id := None, w_updated_at := env_now e\<rparr>"

definition return_in_place :: "env \<Rightarrow> ident \<Rightarrow> ident \<Rightarrow> work_row \<Rightarrow> attempt_row option \<Rightarrow> db \<Rightarrow> (db \<times> int) cp" where
  "return_in_place e actor_id completed_id w a s =
     bindE (update_works [COL_STATE, COL_ATTENTION, COL_GENERATION, COL_SUSPENDED_BY] (\<lambda>x. w_id x = w_id w) (returned_work e) s)
       (\<lambda>s1.
     let s2 = (case a of None \<Rightarrow> s1 | Some x \<Rightarrow> if a_state x \<noteq> A_SUSPENDED then s1
          else s1\<lparr>attempts := update_rows (\<lambda>r. a_id r = a_id x) (\<lambda>r. r\<lparr>a_state := A_WORKING, a_updated_at := env_now e\<rparr>)
            (attempts s1)\<rparr>);
         generation = w_generation w + 1
     in case a of
       None \<Rightarrow> Inr (s2, generation)
     | Some x \<Rightarrow> bindE (message_tx e (work_message actor_id (a_worker_id x) INSTRUCTION
           (upayload [(''action'', jstr ''resume''), (''work_item_id'', jstr (w_id w)), (''attempt_id'', jstr (a_id x)),
              (''goal_version'', JInt (w_goal_version w)), (''generation'', JInt generation)]) w (a_id x)
           (''resume:'' @ completed_id @ '':'' @ w_id w)) s2) (\<lambda>(s3, m, ds). Inr (s3, generation)))"

definition return_with_attempt ::
  "env \<Rightarrow> continuation_ports \<Rightarrow> ident \<Rightarrow> work_row \<Rightarrow> attempt_row \<Rightarrow> admission option \<Rightarrow> db \<Rightarrow> (db \<times> int) cp" where
  "return_with_attempt e p actor_id w a adm s =
     bindE (retry_attempt_tx e p actor_id w a \<lparr>rq_reason = u ''Resume exact Work after interrupt completion'', rq_worker_id = None,
       rq_runtime_session_id = None, rq_kind = CMD_RESUME_INTERRUPTED, rq_admission = adm, rq_context = []\<rparr> s) (\<lambda>(s1, x).
     bindE (update_works [COL_SUSPENDED_BY] (\<lambda>y. w_id y = w_id w)
       (\<lambda>y. y\<lparr>w_suspended_by_work_item_id := None, w_updated_at := env_now e\<rparr>) s1) (\<lambda>s2. Inr (s2, w_generation w + 1)))"

definition return_to ::
  "env \<Rightarrow> continuation_ports \<Rightarrow> ident \<Rightarrow> ident \<Rightarrow> work_row \<Rightarrow> attempt_row option \<Rightarrow> admission option \<Rightarrow> db \<Rightarrow> db cp" where
  "return_to e p actor_id completed_id w a adm s =
     bindE (case a of
         Some x \<Rightarrow> if starts_attempt adm then return_with_attempt e p actor_id w x adm s
           else return_in_place e actor_id completed_id w a s
       | None \<Rightarrow> return_in_place e actor_id completed_id w a s) (\<lambda>(s1, generation).
     Inr (log_event e (mk_event ''work.resumed'' ''work_item'' (w_id w) actor_id
       [(''after_interrupt'', jstr completed_id), (''generation'', JInt generation)]) s1))"

definition resume_interrupted_target_tx :: "env \<Rightarrow> continuation_ports \<Rightarrow> ident \<Rightarrow> ident \<Rightarrow> db \<Rightarrow> db cp" where
  "resume_interrupted_target_tx e p completed_id actor_id s =
     (case interrupted_target s completed_id of
        None \<Rightarrow> Inr s
      | Some w \<Rightarrow>
          (let s1 = fence_reasoner_turns_tx e (w_id w) s in
           case latest_attempt_tx s1 (w_id w) of
             None \<Rightarrow> return_to e p actor_id completed_id w None None s1
           | Some a \<Rightarrow>
               (let c = continuation_command actor_id CMD_RESUME_INTERRUPTED w a in
                case admit_managed_worker_command_tx e c s1 of
                  Inr (s2, adm) \<Rightarrow> return_to e p actor_id completed_id w (Some a) adm s2
                | Inl err \<Rightarrow> (case conflict_code err of
                    None \<Rightarrow> Inl err
                  | Some code \<Rightarrow> Inr (log_event e (mk_event ''work.resume_deferred'' ''work_item'' (w_id w) actor_id
                      [(''after_interrupt'', jstr completed_id), (''reason_code'', code)]) (admission_residue e c s1))))))"

end
