(* ===== verification/Continuation_Safety.thy ===== *)
theory Continuation_Safety
  imports Work_Continuation Dispatch_Claim Supervision_Safety
begin

text \<open>
  What a continued Work is promised: a command is admitted on a quiet lane only, the assignment of
  the next attempt is one the dispatcher can claim, and a pause is consumed by one resumption.
\<close>

section \<open>Admission frames\<close>

text \<open>What the admission of a command leaves as it is; a specification may change its route only.\<close>

definition spec_key :: "spec_row \<Rightarrow> ident \<times> ident \<times> ident \<times> string" where
  "spec_key sp = (ms_id sp, ms_principal_id sp, ms_attachment_id sp, ms_state sp)"

definition lane_frame :: "db \<Rightarrow> db \<Rightarrow> bool" where
  "lane_frame s s' = (threads s' = threads s \<and> attachments s' = attachments s \<and> works s' = works s
     \<and> attempts s' = attempts s \<and> messages s' = messages s \<and> goal_revisions s' = goal_revisions s
     \<and> principals s' = principals s \<and> boundaries s' = boundaries s \<and> effect_operations s' = effect_operations s
     \<and> pauses s' = pauses s \<and> resumptions s' = resumptions s \<and> continuations s' = continuations s
     \<and> reviews s' = reviews s \<and> requester_decisions s' = requester_decisions s
     \<and> map spec_key (specs s') = map spec_key (specs s))"

lemma lane_frame_refl [simp]: "lane_frame s s"
  by (simp add: lane_frame_def)

lemma lane_frame_trans: "lane_frame s s' \<Longrightarrow> lane_frame s' s'' \<Longrightarrow> lane_frame s s''"
  by (simp add: lane_frame_def)

lemma lane_frame_log [simp]: "lane_frame s (log_event e x t) = lane_frame s t"
  by (simp add: lane_frame_def)

lemma foldE_frame:
  assumes "foldE f s xs = Inr s'" and "\<And>x s s'. f s x = Inr s' \<Longrightarrow> lane_frame s s'"
  shows "lane_frame s s'"
  using assms(1)
proof (induction xs arbitrary: s)
  case (Cons x xs)
  then obtain t where "f s x = Inr t" "foldE f t xs = Inr s'" by (auto simp: bindE_Inr_iff)
  with Cons.IH assms(2) show ?case by (blast intro: lane_frame_trans)
qed simp

lemma dead_letter_frame: "dead_letter_terminal_worker_deliveries_tx e t w a s = Inr s' \<Longrightarrow> lane_frame s s'"
  unfolding dead_letter_terminal_worker_deliveries_tx_def
  by (erule foldE_frame) (auto simp: dead_letter_one_def lane_frame_def split: if_splits)

lemma command_blocker_frame: "command_blocker e c t s = Inr (s', x) \<Longrightarrow> lane_frame s s'"
  by (auto simp: command_blocker_def bindE_Inr_iff dest: dead_letter_frame split: if_splits)

lemma replace_transport_frame: "replace_transport e a ln ep old s = Inr s' \<Longrightarrow> lane_frame s s'"
  by (auto simp: replace_transport_def Let_def bindE_Inr_iff insert_transport_def revoke_transport_def retire_epoch_def
      lane_frame_def spec_key_def update_rows_def split: if_splits)

lemma advance_frame: "advance_worker_thread_connection_tx e a ln i g s = Inr (s', ln') \<Longrightarrow> lane_frame s s'"
  by (auto simp: advance_worker_thread_connection_tx_def bindE_Inr_iff dest: replace_transport_frame
      split: sum.splits if_splits option.splits)

lemma route_command_frame: "route_command e c a ln ep s = Inr (s', adm) \<Longrightarrow> lane_frame s s'"
  by (auto simp: route_command_def bindE_Inr_iff dest: advance_frame split: sum.splits if_splits option.splits)

lemma admit_lane_frame: "admit_lane e c a ln s = Inr (s', adm) \<Longrightarrow> lane_frame s s'"
  by (auto simp: admit_lane_def bindE_Inr_iff dest!: command_blocker_frame route_command_frame intro: lane_frame_trans
      split: option.splits if_splits)

lemma admit_frame: "admit_managed_worker_command_tx e c s = Inr (s', adm) \<Longrightarrow> lane_frame s s'"
  by (auto simp: admit_managed_worker_command_tx_def bindE_Inr_iff dest: admit_lane_frame split: option.splits)

section \<open>The admitted lane\<close>

text \<open>The thread an admission names, with the specification of the commanded Worker.\<close>

definition admitted_thread :: "db \<Rightarrow> ident \<Rightarrow> admission \<Rightarrow> thread_row \<Rightarrow> spec_row \<Rightarrow> bool" where
  "admitted_thread s worker_id adm t sp = (t \<in> set (threads s) \<and> sp \<in> set (specs s) \<and> mt_managed_spec_id t = ms_id sp
     \<and> ms_principal_id sp = worker_id \<and> ad_worker_thread_id adm = mt_id t \<and> ad_thread_generation adm = mt_generation t
     \<and> mt_state t = ''active'' \<and> get_attachment s (ms_attachment_id sp) \<noteq> None)"

lemma managed_thread_found:
  "managed_worker_thread_tx s a i g t = Inr ln \<Longrightarrow> ln_thread ln \<in> set (threads s) \<and> mt_id (ln_thread ln) = t
    \<and> ln_spec ln \<in> set (specs s) \<and> mt_managed_spec_id (ln_thread ln) = ms_id (ln_spec ln)
    \<and> get_attachment s (ms_attachment_id (ln_spec ln)) \<noteq> None"
  by (auto simp: managed_worker_thread_tx_def project_shared_def dest!: fetchone_SomeD split: option.splits if_splits)

lemma admit_on_thread [simp]:
  "ad_worker_thread_id (admit_on ln ep r rt mode x) = mt_id (ln_thread ln)"
  "ad_thread_generation (admit_on ln ep r rt mode x) = mt_generation (ln_thread ln)"
  by (simp_all add: admit_on_def)

lemma route_command_lane:
  "route_command e c a ln ep s = Inr (s', Some adm) \<Longrightarrow>
    ad_worker_thread_id adm = mt_id (ln_thread ln) \<and> ad_thread_generation adm = mt_generation (ln_thread ln)"
  by (auto simp: route_command_def bindE_Inr_iff split: sum.splits if_splits option.splits)

lemma admit_lane_thread:
  assumes "admit_lane e c a ln s = Inr (s', Some adm)"
  shows "ad_worker_thread_id adm = mt_id (ln_thread ln) \<and> ad_thread_generation adm = mt_generation (ln_thread ln)
    \<and> lane_active c ln"
  using assms by (auto simp: admit_lane_def lane_exact_def bindE_Inr_iff dest!: route_command_lane split: option.splits if_splits)

lemma admit_thread:
  assumes "admit_managed_worker_command_tx e c s = Inr (s', Some adm)"
  shows "\<exists>t sp. admitted_thread s (cm_worker_id c) adm t sp"
proof -
  from assms obtain a i ln where ln: "managed_worker_thread_tx s (cm_actor_id c) (ca_id a) (ca_generation a) i = Inr ln"
    and adm: "admit_lane e c a ln s = Inr (s', Some adm)"
    by (auto simp: admit_managed_worker_command_tx_def bindE_Inr_iff split: option.splits)
  have "admitted_thread s (cm_worker_id c) adm (ln_thread ln) (ln_spec ln)"
    using managed_thread_found [OF ln] admit_lane_thread [OF adm] by (auto simp: admitted_thread_def lane_active_def)
  then show ?thesis by blast
qed

lemma route_command_some: "route_command e c a ln ep s = Inr (s', adm) \<Longrightarrow> adm \<noteq> None"
  by (auto simp: route_command_def bindE_Inr_iff split: sum.splits if_splits option.splits)

lemma admit_lane_some: "admit_lane e c a ln s = Inr (s', adm) \<Longrightarrow> adm \<noteq> None"
  by (auto simp: admit_lane_def bindE_Inr_iff dest: route_command_some split: option.splits if_splits)

lemma unmanaged_thread: "command_thread s c = Inr None \<Longrightarrow> \<not> managed_principal s (cm_worker_id c)"
  by (auto simp: command_thread_def split: option.splits if_splits)

lemma admitted_managed:
  assumes "admit_managed_worker_command_tx e c s = Inr (s', adm)" and "managed_principal s (cm_worker_id c)"
  shows "adm \<noteq> None"
proof -
  from assms(1) obtain target where t: "command_thread s c = Inr target"
    and r: "(case target of None \<Rightarrow> Inr (s, None) | Some (a, i) \<Rightarrow>
        bindE (managed_worker_thread_tx s (cm_actor_id c) (ca_id a) (ca_generation a) i) (\<lambda>ln. admit_lane e c a ln s)) = Inr (s', adm)"
    by (auto simp: admit_managed_worker_command_tx_def bindE_Inr_iff)
  from t assms(2) have "target \<noteq> None" using unmanaged_thread [of s c] by (cases target) auto
  with r show ?thesis by (auto simp: bindE_Inr_iff dest: admit_lane_some)
qed

section \<open>The next attempt\<close>

text \<open>The tables a route is read from; the statements that replace an attempt leave them alone.\<close>

definition route_frame :: "db \<Rightarrow> db \<Rightarrow> bool" where
  "route_frame s s' = (threads s' = threads s \<and> epochs s' = epochs s \<and> specs s' = specs s \<and> attachments s' = attachments s)"

lemma route_frame_refl [simp]: "route_frame s s"
  by (simp add: route_frame_def)

lemma route_frame_trans: "route_frame s s' \<Longrightarrow> route_frame s' s'' \<Longrightarrow> route_frame s s''"
  by (simp add: route_frame_def)

lemma route_frame_message: "message_tx e q s = Inr (s', r) \<Longrightarrow> route_frame s s'"
  by (auto dest!: message_only simp: only_messages_def route_frame_def)

lemma update_worksI: "update_works cols p f s = Inr s' \<Longrightarrow> w \<in> set (works s) \<Longrightarrow> p w \<Longrightarrow> f w \<in> set (works s')"
  by (auto simp: update_works_def set_update_rows split: if_splits)

text \<open>The Work as an attempt finds it: active for its Worker, on its thread, at the next generation.\<close>

definition handed_to :: "work_row \<Rightarrow> ident \<Rightarrow> ident option \<times> int option \<Rightarrow> work_row \<Rightarrow> bool" where
  "handed_to w worker_id thread x = (w_id x = w_id w \<and> w_assigned_worker_id x = worker_id
     \<and> w_managed_worker_thread_id x = fst thread \<and> w_managed_worker_thread_generation x = snd thread
     \<and> w_state x = W_ACTIVE \<and> w_attention_owner x = AO_WORKER \<and> w_generation x = w_generation w + 1
     \<and> w_supervisor_attachment_id x = w_supervisor_attachment_id w)"

lemma reassigned_active:
  assumes "reassign_work e w None kind i th s = Inr s'" and "w \<in> set (works s)"
  shows "\<exists>x\<in>set (works s'). handed_to w i th x"
proof (rule bexI [of _ "reactivated_work e kind i th w"])
  show "handed_to w i th (reactivated_work e kind i th w)"
    by (simp add: handed_to_def reactivated_work_def reassigned_work_def)
  show "reactivated_work e kind i th w \<in> set (works s')"
    by (rule update_worksI [OF _ assms(2), where p = "\<lambda>x. w_id x = w_id w"])
      (use assms(1) in \<open>simp_all only: reassign_work_def option.case refl\<close>)
qed

lemma reassigned_waiting:
  assumes "reassign_work e w (Some b) kind i th s = Inr s'" and "w \<in> set (works s)" and "wait_fence w b w"
  shows "reassigned_work e i th w \<in> set (works s')"
  using update_worksI [of _ _ _ s s' w] assms by (auto simp: reassign_work_def bindE_Inr_iff split: if_splits)

lemma consumed_active:
  assumes "consume_user_needed_boundary_tx e actor w b source succ (w_generation w + 1) m s = Inr s'"
    and "reassigned_work e i th w \<in> set (works s)" and "wait_fence w b w"
  shows "\<exists>x\<in>set (works s'). handed_to w i th x"
proof -
  from assms(1) obtain c t where "insert_continuation c s = Inr t"
    and u: "update_works [COL_STATE, COL_ATTENTION, COL_GENERATION, COL_USER_NEEDED] (wait_fence w b)
      (continued_work e (w_generation w + 1)) t = Inr s'"
    by (auto simp: consume_user_needed_boundary_tx_def bindE_Inr_iff split: if_splits)
  then have "works t = works s" by (auto simp: insert_continuation_def split: if_splits)
  with update_worksI [OF u, of "reassigned_work e i th w"] assms(2,3)
  show ?thesis by (intro bexI [of _ "continued_work e (w_generation w + 1) (reassigned_work e i th w)"])
      (auto simp: wait_fence_def handed_to_def continued_work_def reassigned_work_def)
qed

lemma reassign_frame: "reassign_work e w b kind i th s = Inr s' \<Longrightarrow> \<exists>ws. s' = s\<lparr>works := ws\<rparr>"
  by (auto simp: reassign_work_def bindE_Inr_iff dest!: update_worksD(1) split: option.splits if_splits)

lemma consume_frame:
  "consume_user_needed_boundary_tx e actor w b source succ n m s = Inr s' \<Longrightarrow> \<exists>ws cs. s' = s\<lparr>continuations := cs, works := ws\<rparr>"
  by (auto simp: consume_user_needed_boundary_tx_def bindE_Inr_iff insert_continuation_def split: if_splits dest!: update_worksD(1))

lemma successor_attempt_fields [simp]:
  "a_id (successor_attempt e w gd td i n p r) = i" "a_work_item_id (successor_attempt e w gd td i n p r) = w_id w"
  "a_attempt_number (successor_attempt e w gd td i n p r) = n" "a_worker_id (successor_attempt e w gd td i n p r) = p"
  "a_runtime_session_id (successor_attempt e w gd td i n p r) = Some r" "a_state (successor_attempt e w gd td i n p r) = A_ASSIGNED"
  "a_trajectory (successor_attempt e w gd td i n p r) = ''untracked''"
  by (simp_all add: successor_attempt_def)

text \<open>The statements that replace an attempt, one after the other.\<close>

lemma replace_stages:
  assumes "replace_attempt e p actor w previous q g waiting adm runtime_id s = Inr (s', a)"
  obtains td deps s2 s3 s4 m ds s5 x where
    "a = successor_attempt e w (gr_packet_digest g) td (env_mint e ''att'' (int (length (attempts s))))
       (a_attempt_number previous + 1) (retry_target previous q) runtime_id"
    "reassign_work e w waiting (rq_kind q) (retry_target previous q) (next_thread w (retry_target previous q) adm)
       (retire_attempt e previous (fence_reasoner_turns_tx e (w_id w) s)) = Inr s2"
    "insert_attempt a s2 = Inr s3"
    "message_tx e (work_message actor (retry_target previous q) ASSIGNMENT (retry_payload e w g a q deps) w (a_id a)
       (''retry:'' @ a_id previous)) s3 = Inr (s4, m, ds)"
    "(case waiting of None \<Rightarrow> Inr s4
      | Some b \<Rightarrow> consume_user_needed_boundary_tx e actor w b previous a (w_generation w + 1) (m_id m) s4) = Inr s5"
    "s' = log_event e x s5"
proof -
  define s1 where "s1 = retire_attempt e previous (fence_reasoner_turns_tx e (w_id w) s)"
  let ?i = "retry_target previous q" and ?th = "next_thread w (retry_target previous q) adm"
  let ?id = "env_mint e ''att'' (int (length (attempts s)))"
  let ?a = "\<lambda>td. successor_attempt e w (gr_packet_digest g) td ?id (a_attempt_number previous + 1) ?i runtime_id"
  from assms obtain td deps s2 s3 s4 m ds s5 where a: "a = ?a td"
    and s2: "reassign_work e w waiting (rq_kind q) ?i ?th s1 = Inr s2"
    and raw3: "insert_attempt (?a td) s2 = Inr s3"
    and raw4: "message_tx e (work_message actor ?i ASSIGNMENT (retry_payload e w g (?a td) q deps) w ?id (''retry:'' @ a_id previous)) s3 = Inr (s4, m, ds)"
    and raw5: "(case waiting of None \<Rightarrow> Inr s4
       | Some b \<Rightarrow> consume_user_needed_boundary_tx e actor w b previous (?a td) (w_generation w + 1) (m_id m) s4) = Inr s5"
    and out: "\<exists>x. s' = log_event e x s5"
    by (clarsimp simp: replace_attempt_def Let_def bindE_Inr_iff simp del: append_Cons simp flip: s1_def)
      (rule that, assumption+, rule exI, assumption)
  have s3: "insert_attempt a s2 = Inr s3"
    and s4: "message_tx e (work_message actor ?i ASSIGNMENT (retry_payload e w g a q deps) w (a_id a) (''retry:'' @ a_id previous)) s3 = Inr (s4, m, ds)"
    and s5: "(case waiting of None \<Rightarrow> Inr s4
       | Some b \<Rightarrow> consume_user_needed_boundary_tx e actor w b previous a (w_generation w + 1) (m_id m) s4) = Inr s5"
    unfolding a successor_attempt_fields by (rule raw3 raw4 raw5)+
  from out obtain x where "s' = log_event e x s5" by blast
  then show thesis by (rule that [OF a s2 [unfolded s1_def] s3 s4 s5])
qed

text \<open>What a replaced attempt leaves behind.\<close>

lemma replaced:
  assumes "replace_attempt e p actor w previous q g waiting adm runtime_id s = Inr (s', a)" and "w \<in> set (works s)"
    and "\<And>b. waiting = Some b \<Longrightarrow> wait_fence w b w"
  obtains td deps s3 s4 m ds where
    "a = successor_attempt e w (gr_packet_digest g) td (env_mint e ''att'' (int (length (attempts s))))
       (a_attempt_number previous + 1) (retry_target previous q) runtime_id"
    "attempts s3 = attempts (retire_attempt e previous s) @ [a]" "\<forall>x\<in>set (attempts (retire_attempt e previous s)). a_id x \<noteq> a_id a"
    "messages s3 = messages s" "route_frame s s'"
    "message_tx e (work_message actor (retry_target previous q) ASSIGNMENT (retry_payload e w g a q deps) w (a_id a)
       (''retry:'' @ a_id previous)) s3 = Inr (s4, m, ds)"
    "messages s' = messages s4" "deliveries s' = deliveries s4" "attempts s' = attempts s3"
    "\<exists>x\<in>set (works s'). handed_to w (retry_target previous q) (next_thread w (retry_target previous q) adm) x"
proof (rule replace_stages [OF assms(1)])
  let ?i = "retry_target previous q" and ?th = "next_thread w (retry_target previous q) adm"
  define s1 where "s1 = retire_attempt e previous (fence_reasoner_turns_tx e (w_id w) s)"
  fix td deps s2 s3 s4 m ds s5 y
  assume a: "a = successor_attempt e w (gr_packet_digest g) td (env_mint e ''att'' (int (length (attempts s)))) (a_attempt_number previous + 1) ?i runtime_id"
    and s2: "reassign_work e w waiting (rq_kind q) ?i ?th (retire_attempt e previous (fence_reasoner_turns_tx e (w_id w) s)) = Inr s2"
    and s3: "insert_attempt a s2 = Inr s3"
    and s4: "message_tx e (work_message actor ?i ASSIGNMENT (retry_payload e w g a q deps) w (a_id a) (''retry:'' @ a_id previous)) s3 = Inr (s4, m, ds)"
    and s5: "(case waiting of None \<Rightarrow> Inr s4
       | Some b \<Rightarrow> consume_user_needed_boundary_tx e actor w b previous a (w_generation w + 1) (m_id m) s4) = Inr s5"
    and x: "s' = log_event e y s5"
  note s2 = s2 [folded s1_def]
  from s3 have s3': "s3 = s2\<lparr>attempts := attempts s2 @ [a]\<rparr>" "\<forall>x\<in>set (attempts s2). a_id x \<noteq> a_id a"
    by (auto simp: insert_attempt_def list_ex_iff split: if_splits)
  from reassign_frame [OF s2] obtain ws where ws: "s2 = s1\<lparr>works := ws\<rparr>" by blast
  have s1_tables: "attempts s1 = attempts (retire_attempt e previous s)" "messages s1 = messages s" "works s1 = works s" "route_frame s s1"
    by (simp_all add: s1_def retire_attempt_def fence_reasoner_turns_tx_def route_frame_def)
  from message_only [OF s4] have only: "attempts s4 = attempts s3" "works s4 = works s3" by (auto simp: only_messages_def)
  have s5': "messages s5 = messages s4" "deliveries s5 = deliveries s4" "attempts s5 = attempts s4" "route_frame s4 s5"
    using s5 by (auto simp: route_frame_def split: option.splits dest!: consume_frame)
  have "route_frame s1 s3" by (simp add: s3' ws route_frame_def)
  with s1_tables(4) route_frame_message [OF s4] s5'(4) have "route_frame s s5" by (metis route_frame_trans)
  then have frame: "route_frame s s'" by (simp add: x route_frame_def)
  have "\<exists>x\<in>set (works s5). handed_to w ?i ?th x"
  proof (cases waiting)
    case None
    with s5 only s3' have "works s5 = works s2" by simp
    with reassigned_active [OF s2 [unfolded None]] assms(2) show ?thesis by (simp add: s1_tables)
  next
    case (Some b)
    from reassigned_waiting [OF s2 [unfolded Some]] assms(2,3) Some
    have "reassigned_work e ?i ?th w \<in> set (works s4)" by (simp add: only s3' s1_tables)
    with s5 Some assms(3) show ?thesis by (auto intro: consumed_active)
  qed
  then have "\<exists>x\<in>set (works s'). handed_to w ?i ?th x" by (simp add: x)
  from that [OF a _ _ _ frame s4 _ _ _ this] show thesis
    using s3'(2) by (simp add: s3' s1_tables ws x s5' only)
qed

section \<open>The assignment of the next attempt\<close>

lemma bound_attempt:
  assumes "bind_packets s q = Inr b" and "given (mq_work_item_id q)" and "mq_attempt_id q = Some (a_id a)" and "a_id a \<noteq> ''''"
    and "attempts s = xs @ [a]" and "\<forall>x\<in>set xs. a_id x \<noteq> a_id a" and "a_work_item_id a = str_or_empty (mq_work_item_id q)"
  shows "pk_attempt_worker b = Some (a_worker_id a)" "pk_attempt_runtime b = a_runtime_session_id a"
proof -
  have "fetchone (\<lambda>x. a_id x = a_id a \<and> a_work_item_id x = i) xs = None" for i
    using assms(6) by (auto simp: fetchone_None_iff)
  then have "fetchone (\<lambda>x. a_id x = a_id a \<and> a_work_item_id x = str_or_empty (mq_work_item_id q)) (attempts s) = Some a"
    using assms(7) by (simp add: assms(5) fetchone_append)
  with assms(1-4) show "pk_attempt_worker b = Some (a_worker_id a)" "pk_attempt_runtime b = a_runtime_session_id a"
    by (auto simp: bind_packets_def bind_attempt_def Let_def given_def split: option.splits if_splits)
qed

lemma purposed_cases:
  "purposed_payload e s q b p0 = Inr p \<Longrightarrow> p = p0 \<or> (\<exists>v. p = put_key p0 (u ''worker_purpose'') v)"
  by (cases "worker_purpose_tx e s (pk_managed_thread b)") (auto simp: purposed_payload_def split: if_splits option.splits)

lemma payload_kept:
  assumes "bound_payload q b = Inr p0" and "purposed_payload e s q b p0 = Inr p"
    and "k \<notin> {u ''goal_packet_digest'', u ''task_packet_digest'', u ''worker_purpose''}"
  shows "map_of p k = map_of (mq_payload q) k"
proof -
  from assms(1,3) have "map_of p0 k = map_of (mq_payload q) k"
    by (auto simp: bound_payload_def bindE_Inr_iff split: if_splits dest!: digest_field_keeps [where k = k])
  with purposed_cases [OF assms(2)] assms(3) show ?thesis by (auto simp: map_of_put_key)
qed

lemma single_recipient:
  assumes "message_tx e (work_message sender p kind payload w i key) s = Inr r"
  shows "request_recipients (work_message sender p kind payload w i key) = [p]"
  using assms by (auto simp: message_tx_def request_recipients_def work_message_def split: if_splits)

lemma retry_generation: "map_of (retry_payload e w g a q deps) (u ''generation'') = Some (JInt (w_generation w + 1))"
  by (simp add: retry_payload_def upayload_def u_def)

text \<open>A new command reaches its Worker on the runtime of the attempt it is for.\<close>

lemma work_message_routed:
  assumes "message_tx e (work_message sender (a_worker_id a) kind payload w (a_id a) key) s = Inr (s', m, ds)"
    and "existing_message s (work_message sender (a_worker_id a) kind payload w (a_id a) key) = None"
    and "attempts s = xs @ [a]" and "\<forall>x\<in>set xs. a_id x \<noteq> a_id a" and "a_work_item_id a = w_id w"
    and "w_id w \<noteq> ''''" and "a_id a \<noteq> ''''" and "a_runtime_session_id a = Some r"
    and "map_of payload (u ''generation'') = Some (JInt n)"
  shows "\<exists>d\<in>set (deliveries s'). m \<in> set (messages s') \<and> m_kind m = kind \<and> m_attempt_id m = Some (a_id a)
    \<and> m_work_item_id m = Some (w_id w) \<and> jget (m_payload m) ''generation'' = Some (JInt n)
    \<and> d_message_id d = m_id m \<and> d_recipient_id d = a_worker_id a \<and> d_state d = QUEUED \<and> d_runtime_session_id d = Some r"
proof -
  let ?q = "work_message sender (a_worker_id a) kind payload w (a_id a) key"
  from assms(1,2) obtain b p0 p where b: "bind_packets s ?q = Inr b"
    and p: "bound_payload ?q b = Inr p0" "purposed_payload e s ?q b p0 = Inr p" and c: "create_message e ?q b p s = Inr (s', m, ds)"
    by (auto simp: message_tx_def bindE_Inr_iff split: if_splits)
  have fields: "mq_work_item_id ?q = Some (w_id w)" "mq_attempt_id ?q = Some (a_id a)" "mq_create_delivery ?q" "mq_kind ?q = kind"
    "mq_payload ?q = payload"
    by (simp_all add: work_message_def)
  from bound_attempt [OF b, of a xs] assms(3-7) have bound: "pk_attempt_worker b = Some (a_worker_id a)" "pk_attempt_runtime b = Some r"
    by (simp_all add: fields given_def assms(8))
  from created [OF c] fields(3) obtain news where m: "m = new_message e ?q b p (message_sequence s + 1)"
    and msgs: "messages s' = messages s @ [m]" and dels: "deliveries s' = deliveries s @ news"
    and routes: "list_all2 (routed e b (m_id m) s) (request_recipients ?q) news" by metis
  from routes obtain d where d: "d \<in> set news" "routed e b (m_id m) s (a_worker_id a) d"
    by (auto simp: single_recipient [OF assms(1)] list_all2_Cons1)
  have "map_of p (u ''generation'') = Some (JInt n)"
    using payload_kept [OF p, of "u ''generation''"] assms(9) by (simp add: fields u_def)
  then have "jget (m_payload m) ''generation'' = Some (JInt n)"
    by (simp add: m new_message_def Let_def jget_sort_keys del: sort_keys.simps) simp
  moreover from d(2) bound have "d_message_id d = m_id m \<and> d_recipient_id d = a_worker_id a \<and> d_state d = QUEUED \<and> d_runtime_session_id d = Some r"
    by (auto simp: routed_def new_delivery_def)
  ultimately show ?thesis using d(1)
    by (intro bexI [of _ d]) (simp_all add: msgs dels m new_message_def Let_def fields)
qed

section \<open>The route of the next attempt\<close>

lemma spec_kept: "lane_frame s s' \<Longrightarrow> sp' \<in> set (specs s') \<Longrightarrow> \<exists>sp\<in>set (specs s). spec_key sp = spec_key sp'"
  unfolding lane_frame_def by (metis (no_types, lifting) imageE image_eqI list.set_map)

lemma spec_found: "lane_frame s s' \<Longrightarrow> sp \<in> set (specs s) \<Longrightarrow> \<exists>sp'\<in>set (specs s'). spec_key sp' = spec_key sp"
  unfolding lane_frame_def by (metis (no_types, lifting) imageE image_eqI list.set_map)

lemma distinct_key: "distinct (map k xs) \<Longrightarrow> x \<in> set xs \<Longrightarrow> y \<in> set xs \<Longrightarrow> k x = k y \<Longrightarrow> x = y"
  by (auto simp: distinct_map inj_on_def)

text \<open>The lane of the admission is the route the attachment check lets through.\<close>

definition lane_open :: "db \<Rightarrow> ident \<Rightarrow> ident \<Rightarrow> ident option \<Rightarrow> ident \<Rightarrow> admission \<Rightarrow> epoch_row \<Rightarrow> thread_row \<Rightarrow> spec_row
    \<Rightarrow> attachment_row \<Rightarrow> attachment_row \<Rightarrow> bool" where
  "lane_open s supervisor_id worker_id attachment runtime_id adm ep t sp source own =
     (ep \<in> set (epochs s) \<and> t \<in> set (threads s) \<and> sp \<in> set (specs s) \<and> source \<in> set (attachments s) \<and> own \<in> set (attachments s)
      \<and> mt_id t = ad_worker_thread_id adm \<and> mt_generation t = ad_thread_generation adm \<and> mt_state t = ''active''
      \<and> te_thread_id ep = mt_id t \<and> te_generation ep = mt_generation t \<and> te_retired_at ep = None
      \<and> te_runtime_session_id ep = runtime_id \<and> te_enrollment_id ep = ms_enrollment_id sp
      \<and> ms_id sp = mt_managed_spec_id t \<and> ms_principal_id sp = worker_id \<and> ms_state sp = ''enabled''
      \<and> ms_runtime_session_id sp = runtime_id
      \<and> ca_id source = ms_attachment_id sp \<and> Some (ca_id own) = attachment \<and> ca_principal_id source = supervisor_id
      \<and> ca_principal_id own = supervisor_id \<and> ca_project_scope_digest source = ca_project_scope_digest own)"

lemma admitted_lane_open:
  assumes "lane_frame s s1" and "admitted_thread s i adm t sp" and "distinct (map ms_principal_id (specs s))"
    and "distinct (map mt_managed_spec_id (threads s))"
    and "require_managed_worker_work_attachment_tx s1 supervisor i r attachment = Inr ()"
  shows "\<exists>ep sp' source own. lane_open s1 supervisor i attachment r adm ep t sp' source own"
proof -
  from assms(2) have sp: "sp \<in> set (specs s)" "ms_principal_id sp = i" and t: "t \<in> set (threads s)" "mt_managed_spec_id t = ms_id sp"
    and adm: "ad_worker_thread_id adm = mt_id t" "ad_thread_generation adm = mt_generation t"
    and source: "get_attachment s (ms_attachment_id sp) \<noteq> None"
    by (auto simp: admitted_thread_def)
  from spec_found [OF assms(1) sp(1)] sp(2) obtain sp1 where sp1: "fetchone (\<lambda>x. ms_principal_id x = i) (specs s1) = Some sp1"
    by (cases "fetchone (\<lambda>x. ms_principal_id x = i) (specs s1)") (auto simp: fetchone_None_iff spec_key_def)
  then have in1: "sp1 \<in> set (specs s1)" "ms_principal_id sp1 = i" by (auto dest: fetchone_SomeD)
  from spec_kept [OF assms(1) in1(1)] obtain sp0 where sp0: "sp0 \<in> set (specs s)" "spec_key sp0 = spec_key sp1" by blast
  with in1(2) sp distinct_key [OF assms(3), of sp0 sp] have "sp0 = sp" by (simp add: spec_key_def)
  with sp0(2) have key: "ms_id sp1 = ms_id sp" "ms_attachment_id sp1 = ms_attachment_id sp" by (simp_all add: spec_key_def)
  have same: "threads s1 = threads s" "attachments s1 = attachments s" using assms(1) by (simp_all add: lane_frame_def)
  have thread: "spec_thread s1 sp1 = Some t"
    unfolding spec_thread_def same key by (rule fetchone_unique [OF assms(4) t(1)]) (simp_all add: t(2))
  from source obtain a where a: "get_attachment s1 (ms_attachment_id sp1) = Some a"
    by (auto simp: get_attachment_def same key)
  from assms(5) obtain own where own: "get_attachment s1 (str_or_empty attachment) = Some own" "ca_principal_id own = supervisor"
      "ca_project_scope_digest a = ca_project_scope_digest own" "ca_principal_id a = supervisor" "attachment \<noteq> None"
    and route: "spec_route_current s1 sp1 i r"
    by (auto simp: require_managed_worker_work_attachment_tx_def sp1 a split: option.splits if_splits)
  from route thread obtain ep where ep: "current_epoch s1 t = Some ep" "ms_runtime_session_id sp1 = r" "ms_state sp1 = ''enabled''"
      "mt_state t = ''active''" "te_runtime_session_id ep = r" "te_enrollment_id ep = ms_enrollment_id sp1"
    by (auto simp: spec_route_current_def split: option.splits)
  from ep(1) have "ep \<in> set (epochs s1)" "te_thread_id ep = mt_id t" "te_generation ep = mt_generation t" "te_retired_at ep = None"
    by (auto simp: current_epoch_def dest: fetchone_SomeD)
  moreover from a own(1,5) have "a \<in> set (attachments s1)" "ca_id a = ms_attachment_id sp1" "own \<in> set (attachments s1)"
      "Some (ca_id own) = attachment"
    by (auto simp: get_attachment_def dest!: fetchone_SomeD)
  ultimately have "lane_open s1 supervisor i attachment r adm ep t sp1 a own"
    using ep own adm in1 t key by (simp add: lane_open_def same)
  then show ?thesis by blast
qed

lemma lane_open_epoch_route:
  assumes "lane_open s supervisor i attachment r adm ep t sp source own" and "route_frame s s'"
    and "handed_to w i (Some (ad_worker_thread_id adm), Some (ad_thread_generation adm)) x" and "w_supervisor_attachment_id w = attachment"
    and "ca_project_digest source = ca_project_digest own" and "a_worker_id a = i" and "d_runtime_session_id d = Some r"
  shows "current_epoch_route s' x a d"
proof -
  from assms(1,3,4) have att: "w_supervisor_attachment_id x = Some (ca_id own)" by (auto simp: lane_open_def handed_to_def)
  have rows: "ep \<in> set (epochs s')" "t \<in> set (threads s')" "sp \<in> set (specs s')" "source \<in> set (attachments s')" "own \<in> set (attachments s')"
    using assms(1,2) by (simp_all add: lane_open_def route_frame_def)
  have "supervised_from s' x sp"
    unfolding supervised_from_def list_ex_iff
    by (rule bexI [OF _ rows(4)], intro conjI, use assms(1) in \<open>simp add: lane_open_def\<close>, rule bexI [OF _ rows(5)])
      (use assms(1,5) in \<open>auto simp: lane_open_def att\<close>)
  with assms show ?thesis
    unfolding current_epoch_route_def list_ex_iff
    by (intro conjI bexI [OF _ rows(1)] bexI [OF _ rows(2)] bexI [OF _ rows(3)]) (simp_all add: lane_open_def handed_to_def)
qed

lemma waiting_fence: "current_user_needed_boundary_tx s actor w a = Inr (Some b) \<Longrightarrow> wait_fence w b w"
  by (auto simp: current_user_needed_boundary_tx_def wait_fence_def wait_authority_def dest!: fetchone_SomeD split: if_splits option.splits)

lemma retry_stages:
  assumes "retry_attempt_tx e p actor w previous q s = Inr (s', a)" and "rq_admission q = None" and "managed_principal s (retry_target previous q)"
  obtains s1 adm g waiting where "admit_managed_worker_command_tx e (retry_command actor w previous q) s = Inr (s1, Some adm)"
    "require_managed_worker_work_attachment_tx s1 actor (retry_target previous q) (ad_runtime_session_id adm)
       (if str_or_empty (w_supervisor_attachment_id w) = '''' then None else w_supervisor_attachment_id w) = Inr ()"
    "replace_attempt e p actor w previous q g waiting (Some adm) (ad_runtime_session_id adm) s1 = Inr (s', a)"
    "\<And>b. waiting = Some b \<Longrightarrow> wait_fence w b w"
proof -
  from assms(1,2) obtain g waiting s1 adm r where w: "current_user_needed_boundary_tx s actor w previous = Inr waiting"
    and adm: "admit_managed_worker_command_tx e (retry_command actor w previous q) s = Inr (s1, adm)"
    and r: "retry_runtime e s1 previous q adm = Inr r"
    and req: "require_managed_worker_work_attachment_tx s1 actor (retry_target previous q) r
       (if str_or_empty (w_supervisor_attachment_id w) = '''' then None else w_supervisor_attachment_id w) = Inr ()"
    and rep: "replace_attempt e p actor w previous q g waiting adm r s1 = Inr (s', a)"
    by (auto simp: retry_attempt_tx_def retry_admission_def bindE_Inr_iff)
  have "cm_worker_id (retry_command actor w previous q) = retry_target previous q" by (simp add: retry_command_def)
  with admitted_managed [OF adm] assms(3) obtain x where x: "adm = Some x" by auto
  with r have "r = ad_runtime_session_id x" by (simp add: retry_runtime_def)
  with adm req rep x w that show thesis by (auto intro: waiting_fence)
qed


section \<open>A quiet lane\<close>

lemma route_command_keeps:
  assumes "route_command e c a ln ep s = Inr (s', adm)"
  shows "deliveries s' = deliveries s" "dispositions s' = dispositions s" "supersessions s' = supersessions s"
  using assms by (auto simp: route_command_def advance_worker_thread_connection_tx_def replace_transport_def Let_def bindE_Inr_iff
      insert_transport_def revoke_transport_def retire_epoch_def split: sum.splits if_splits option.splits)

lemma admitted_unblocked:
  assumes "admit_managed_worker_command_tx e c s = Inr (s', Some adm)" and "cm_kind c \<notin> {CMD_CREATE_WORK, CMD_REPLACE_GOAL}"
  obtains s1 where "instruction_blocker e s1 (ad_worker_thread_id adm) (cm_worker_id c) (map_option w_id (cm_work c)) = ''''"
    "lane_frame s1 s'" "deliveries s' = deliveries s1" "dispositions s' = dispositions s1" "supersessions s' = supersessions s1"
proof -
  from assms(1) obtain a i ln where lane: "admit_lane e c a ln s = Inr (s', Some adm)"
    by (auto simp: admit_managed_worker_command_tx_def bindE_Inr_iff split: option.splits)
  from assms(2) have "records_only s c ep = None" for ep by (auto simp: records_only_def)
  with lane obtain ep s1 where b: "command_blocker e c (mt_id (ln_thread ln)) s = Inr (s1, '''')"
    and r: "route_command e c a ln ep s1 = Inr (s', Some adm)"
    by (auto simp: admit_lane_def bindE_Inr_iff split: option.splits if_splits)
  from b assms(2) have "instruction_blocker e s1 (mt_id (ln_thread ln)) (cm_worker_id c) (map_option w_id (cm_work c)) = ''''"
    by (auto simp: command_blocker_def bindE_Inr_iff)
  with that [of s1] route_command_lane [OF r] route_command_frame [OF r] route_command_keeps [OF r] show thesis by simp
qed


end
