(* ===== verification/Completion_Evidence.thy ===== *)
theory Completion_Evidence
  imports Work_Continuation Worker_Capture
begin

text \<open>
  What a claimed completion must rest on, from \<open>service.py\<close>: the artifacts a completion claim seals
  (\<open>_completion_claim_artifact_rows_tx\<close>), the state of the delivery they make
  (\<open>_completion_delivery_state_tx\<close>), the check both the review and the requester's acceptance repeat
  (\<open>_require_completion_delivery_ready_tx\<close>), and the frozen criteria a review has to judge
  (\<open>task_review_criteria\<close> of \<open>worker_purpose.py\<close>).
\<close>

section \<open>The artifacts of a claim\<close>

definition verified_scope :: pystr where
  "verified_scope = u ''verified_attempt_artifacts_v2''"

text \<open>\<open>re.fullmatch(r"sha256:([0-9a-f]{64})", value)\<close>.\<close>

definition hex64 :: "pystr \<Rightarrow> bool" where
  "hex64 t = (length t = 64 \<and> list_all (\<lambda>c. c \<in> set (u ''0123456789abcdef'')) t)"

definition canonical_artifact_digest :: "pystr \<Rightarrow> pystr" where
  "canonical_artifact_digest v =
     (if take 7 v = u ''sha256:'' \<and> hex64 (drop 7 v) then drop 7 v else v)"

definition owner_private_uri :: "pystr \<Rightarrow> pystr" where
  "owner_private_uri digest = u ''owner-private-artifact:'' @ digest"

definition verified_artifact :: "artifact_row \<Rightarrow> bool" where
  "verified_artifact r = (hex64 (ar_digest r) \<and> ar_uri r = owner_private_uri (ar_digest r))"

definition attempt_artifacts :: "db \<Rightarrow> ident \<Rightarrow> artifact_row list" where
  "attempt_artifacts s attempt_id = sort_key (\<lambda>r. (ar_created_at r, ar_id r))
     (filter (\<lambda>r. ar_attempt_id r = attempt_id) (artifacts s))"

text \<open>A field of a manifest item: missing is the empty text, a value that is no text matches nothing.\<close>

definition item_text :: "json \<Rightarrow> string \<Rightarrow> pystr option" where
  "item_text item k = (case jget item k of None \<Rightarrow> Some [] | Some (JStr t) \<Rightarrow> Some t | Some _ \<Rightarrow> None)"

definition item_matches :: "bool \<Rightarrow> json \<Rightarrow> artifact_row \<Rightarrow> bool" where
  "item_matches v2 item r =
     ((case item_text item ''digest'' of
         None \<Rightarrow> False
       | Some d \<Rightarrow> d = ar_digest r \<or> \<not> v2 \<and> canonical_artifact_digest d = ar_digest r)
      \<and> item_text item ''uri'' = Some (ar_uri r)
      \<and> (v2 \<longrightarrow> verified_artifact r))"

text \<open>One item of a manifest, against the identifiers already taken.\<close>

definition manifest_row :: "db \<Rightarrow> ident \<Rightarrow> bool \<Rightarrow> pystr list \<Rightarrow> json \<Rightarrow> artifact_row option" where
  "manifest_row s attempt_id v2 seen item =
     (case jget item ''id'' of
        Some (JStr i) \<Rightarrow>
          if i = [] \<or> i \<in> set seen then None
          else (case fetchone (\<lambda>r. u (ar_id r) = i \<and> ar_attempt_id r = attempt_id) (artifacts s) of
              None \<Rightarrow> None
            | Some r \<Rightarrow> if item_matches v2 item r then Some r else None)
      | _ \<Rightarrow> None)"

fun manifest_rows :: "db \<Rightarrow> ident \<Rightarrow> bool \<Rightarrow> pystr list \<Rightarrow> json list \<Rightarrow> artifact_row list option" where
  "manifest_rows s attempt_id v2 seen [] = Some []"
| "manifest_rows s attempt_id v2 seen (item # items) =
     (case manifest_row s attempt_id v2 seen item of
        None \<Rightarrow> None
      | Some r \<Rightarrow> map_option ((#) r) (manifest_rows s attempt_id v2 (u (ar_id r) # seen) items))"

fun hashable :: "json \<Rightarrow> bool" where
  "hashable (JArr vs) = False"
| "hashable (JObj kvs) = False"
| "hashable _ = True"

text \<open>The scope of the manifest: verified or legacy; anything else is no claim.\<close>

definition manifest_scope :: "json \<Rightarrow> bool option cp" where
  "manifest_scope claim =
     (case jget claim ''artifact_manifest_scope'' of
        None \<Rightarrow> Inr (Some False)
      | Some JNull \<Rightarrow> Inr (Some False)
      | Some v \<Rightarrow> if \<not> hashable v then Inl (PyError ''TypeError'' ''unhashable type'')
          else Inr (if v = JStr verified_scope then Some True else None))"

definition completion_claim_artifact_rows_tx :: "db \<Rightarrow> attempt_row \<Rightarrow> artifact_row list option cp" where
  "completion_claim_artifact_rows_tx s a =
     (let claim = a_completion_claim a in
      if \<not> is_mapping claim \<or> \<not> truthy claim then Inr None
      else (case (case jget claim ''artifacts'' of None \<Rightarrow> JArr [] | Some v \<Rightarrow> v) of
          JArr items \<Rightarrow> bindE (manifest_scope claim) (\<lambda>scope.
            case scope of
              None \<Rightarrow> Inr None
            | Some v2 \<Rightarrow>
                if items = [] then Inr (Some (if v2 then [] else attempt_artifacts s (a_id a)))
                else Inr (manifest_rows s (a_id a) v2 [] items))
        | _ \<Rightarrow> Inr None))"

section \<open>The delivery of a completion\<close>

definition contract_invalid :: cp_error where
  "contract_invalid = PyError ''RuntimeError'' ''work item completion contract is invalid''"

definition completion_delivery_state_tx :: "db \<Rightarrow> pystr \<Rightarrow> attempt_row \<Rightarrow> string cp" where
  "completion_delivery_state_tx s contract a =
     (if \<not> truthy (a_completion_claim a) then Inr ''pending''
      else if contract = u ''no_artifact_expected'' then Inr ''not_required''
      else if contract = u ''legacy_unclassified'' then Inr ''legacy_unclassified''
      else if contract \<noteq> u ''completion_required'' then Inl contract_invalid
      else bindE (completion_claim_artifact_rows_tx s a) (\<lambda>rows.
        case rows of
          None \<Rightarrow> Inr ''delivery_missing''
        | Some rs \<Rightarrow> Inr (if rs = [] \<or> list_ex (\<lambda>r. \<not> verified_artifact r) rs then ''delivery_missing'' else ''ready'')))"

definition unsettled_input :: "attempt_row \<Rightarrow> delivery_row \<Rightarrow> bool" where
  "unsettled_input a d = (d_recipient_id d = a_worker_id a
     \<and> sql_eq (d_runtime_session_id d) (a_runtime_session_id a)
     \<and> d_state d \<in> {QUEUED, LEASED, DISPATCHED, DELIVERED, ACKNOWLEDGED})"

definition pending_input :: "db \<Rightarrow> attempt_row \<Rightarrow> bool" where
  "pending_input s a = list_ex (\<lambda>m. m_attempt_id m = Some (a_id a)
     \<and> list_ex (\<lambda>d. d_message_id d = m_id m \<and> unsettled_input a d) (deliveries s)) (messages s)"

definition goal_contract :: "env \<Rightarrow> goal_revision_row \<Rightarrow> pystr cp" where
  "goal_contract e g =
     (if \<not> is_mapping (gr_packet g) then Inl (PyError ''AttributeError'' ''object has no attribute get'')
      else Inr (case jget (gr_packet g) ''completion_contract'' of
          None \<Rightarrow> u ''legacy_unclassified''
        | Some v \<Rightarrow> py_str e (Some v)))"

definition completion_delivery_conflict :: "string \<Rightarrow> pystr \<Rightarrow> string \<Rightarrow> cp_error" where
  "completion_delivery_conflict text contract state =
     ConflictError text [(''completion_contract'', JStr contract), (''delivery_state'', jstr state)]"

definition require_completion_delivery_ready_tx :: "env \<Rightarrow> db \<Rightarrow> work_row \<Rightarrow> attempt_row \<Rightarrow> string cp" where
  "require_completion_delivery_ready_tx e s w a =
     (if pending_input s a
      then Inl (ConflictError ''completion has unsettled Worker commands''
             [(''reason_code'', jstr ''completion_worker_input_pending'')])
      else bindE (current_goal_tx s w) (\<lambda>g.
        bindE (goal_contract e g) (\<lambda>contract.
        bindE (completion_delivery_state_tx s contract a) (\<lambda>state.
        if state = ''delivery_missing''
        then Inl (completion_delivery_conflict ''completion-required Work has no verified artifact delivery'' contract state)
        else if state = ''pending''
        then Inl (completion_delivery_conflict ''completion delivery cannot be reviewed before a completion claim'' contract state)
        else Inr state))))"

section \<open>The criteria of a review\<close>

definition packet_invalid :: cp_error where
  "packet_invalid = ConflictError ''Frozen task criteria integrity is invalid''
     [(''reason_code'', jstr ''review_task_packet_invalid'')]"

definition criterion_ids :: "nat \<Rightarrow> pystr list" where
  "criterion_ids n = map (\<lambda>i. u ''task_'' @ py_int (int i)) [1..<Suc n]"

text \<open>The identifiers of the criteria of the packet, in order; its text must hash to the recorded digest.\<close>

definition task_review_criteria :: "env \<Rightarrow> goal_revision_row \<Rightarrow> pystr list cp" where
  "task_review_criteria e g =
     (if gr_packet g = JNull then Inr [u ''task_instruction'']
      else if \<not> is_mapping (gr_packet g) then Inl packet_invalid
      else bindE (goal_packet_digest (env_sha e) (gr_packet g)) (\<lambda>digest.
        if digest \<noteq> gr_packet_digest g then Inl packet_invalid
        else (let acceptance = (case jget (gr_packet g) ''acceptance'' of None \<Rightarrow> JArr [] | Some v \<Rightarrow> v) in
          if truthy acceptance
          then (case py_iter acceptance of
              None \<Rightarrow> Inl (PyError ''TypeError'' ''object is not iterable'')
            | Some vs \<Rightarrow> Inr (criterion_ids (length vs)))
          else if jget (gr_packet g) ''objective'' = None then Inl (PyError ''KeyError'' ''objective'')
          else Inr [u ''task_instruction''])))"

end
