(* ===== verification/Decision_Fence.thy ===== *)
theory Decision_Fence
  imports Completion_Evidence
begin

text \<open>
  The fenced decision about a boundary: a supervisor acquires the decision lease of the
  current generation (\<open>acquire_reasoner_turn\<close>) and disposes of the boundary under that lease
  (\<open>_dispose_boundary_tx\<close>), both of \<open>service.py\<close>, with the idempotent results they replay.

  Parts of the service that are modelled nowhere in this development come in as \<open>decision_ports\<close>:
  the reconciliation of recovery routes that runs first, the supersession of the boundaries of a terminal Work, the guidance text and memory shown with a
  lease, and the ports of \<open>Work_Continuation\<close>.
\<close>

section \<open>The ports\<close>

record decision_request =
  dq_turn_id :: ident
  dq_lease_token :: string
  dq_expected_generation :: int
  dq_kind :: disposition_kind
  dq_reason :: pystr
  dq_instruction :: pystr
  dq_resume_condition :: pystr
  dq_worker_id :: "ident option"
  dq_runtime_session_id :: "ident option"
  dq_expected_purpose_version :: "int option"
  dq_resume_condition_given :: bool

record decision_ports =
  dp_continuation :: continuation_ports
  dp_backfill :: "db \<Rightarrow> db"
  dp_supersede_terminal :: "ident \<Rightarrow> db \<Rightarrow> db cp"
  dp_guidance :: string
  dp_memory :: "db \<Rightarrow> actor \<Rightarrow> work_row \<Rightarrow> json"

section \<open>Acquiring the decision lease\<close>

record turn_request =
  tq_work_id :: ident
  tq_boundary_id :: "ident option"
  tq_expected_generation :: int
  tq_lease_seconds :: int
  tq_idempotency_key :: string

definition turn_request_digest :: "env \<Rightarrow> turn_request \<Rightarrow> string" where
  "turn_request_digest e q = service_digest (env_sha e) (jobj [(''work_item_id'', jstr (tq_work_id q)),
     (''boundary_id'', jstr_opt (tq_boundary_id q)), (''expected_generation'', JInt (tq_expected_generation q)),
     (''lease_seconds'', JInt (tq_lease_seconds q))])"

definition open_boundary :: "db \<Rightarrow> ident \<Rightarrow> int \<Rightarrow> boundary_row \<Rightarrow> bool" where
  "open_boundary s work_id generation b = (b_work_item_id b = work_id \<and> b_generation b = generation
     \<and> \<not> disposed s (b_id b) \<and> \<not> superseded s (b_id b))"

definition select_boundary :: "db \<Rightarrow> turn_request \<Rightarrow> boundary_row cp" where
  "select_boundary s q =
     (case tq_boundary_id q of
        None \<Rightarrow>
          (case take 2 (sort_key (\<lambda>b. (b_created_at b, b_id b))
               (filter (open_boundary s (tq_work_id q) (tq_expected_generation q)) (boundaries s))) of
             [b] \<Rightarrow> Inr b
           | bs \<Rightarrow> Inl (ConflictError ''reasoner turn requires exactly one explicit unresolved boundary''
                  [(''unresolved_boundaries'', JInt (int (length bs)))]))
      | Some i \<Rightarrow>
          (case fetchone (\<lambda>b. b_id b = i \<and> open_boundary s (tq_work_id q) (tq_expected_generation q) b) (boundaries s) of
             Some b \<Rightarrow> Inr b
           | None \<Rightarrow> Inl (ConflictError ''reasoner turn boundary is missing, stale, or already disposed''
                  [(''boundary_id'', jstr i)])))"

definition recovery_flag :: "string \<Rightarrow> boundary_row \<Rightarrow> bool" where
  "recovery_flag key b = (jget (b_metadata b) key = Some (JBool True))"

definition recovery_not_executable :: "boundary_row \<Rightarrow> bool" where
  "recovery_not_executable b = ((recovery_flag ''runtime_recovery'' b \<or> recovery_flag ''system_recovery'' b)
     \<and> b_recovery_action b \<notin> {''dispose_continue_or_correct'', ''reconcile_continue_same_thread'', ''system_reconciliation''})"

definition packet_current :: "db \<Rightarrow> goal_revision_row \<Rightarrow> boundary_row \<Rightarrow> bool" where
  "packet_current s g b =
     (case get_attempt s (b_attempt_id b) of
        None \<Rightarrow> False
      | Some a \<Rightarrow> b_goal_packet_digest b = gr_packet_digest g \<and> b_goal_packet_digest b = a_goal_packet_digest a
          \<and> b_task_packet_digest b = a_task_packet_digest a)"

definition leasable_boundary :: "db \<Rightarrow> work_row \<Rightarrow> turn_request \<Rightarrow> boundary_row cp" where
  "leasable_boundary s w q =
     (if w_generation w \<noteq> tq_expected_generation q
      then Inl (StaleGenerationError (tq_expected_generation q) (w_generation w))
      else if w_state w \<in> {W_COMPLETED, W_CANCELED, W_FAILED, W_SUSPENDED}
      then Inl (ConflictError ''work is not available for a reasoner turn'' [(''state'', jstr (work_state_value (w_state w)))])
      else bindE (select_boundary s q) (\<lambda>b.
        if b_goal_version b \<noteq> w_goal_version w
        then Inl (ConflictError ''reasoner turn boundary targets a stale goal revision'' [])
        else if recovery_not_executable b
        then Inl (ConflictError ''system recovery boundary requires its recovery workflow''
               [(''reason_code'', jstr ''system_recovery_owned'')])
        else bindE (current_goal_tx s w) (\<lambda>g.
          if \<not> packet_current s g b then Inl (ConflictError ''reasoner turn boundary has a stale task packet'' [])
          else Inr b)))"

text \<open>A lapsed lease of this supervisor on this Work is abandoned, a live one blocks.\<close>

definition active_turn :: "db \<Rightarrow> ident \<Rightarrow> ident \<Rightarrow> turn_row option" where
  "active_turn s supervisor work_id = fetchone (\<lambda>t. rt_supervisor_id t = supervisor \<and> rt_work_item_id t = work_id
     \<and> rt_state t = TURN_LEASED) (reasoner_turns s)"

definition release_lapsed :: "env \<Rightarrow> ident \<Rightarrow> ident \<Rightarrow> db \<Rightarrow> db cp" where
  "release_lapsed e supervisor work_id s =
     (case active_turn s supervisor work_id of
        None \<Rightarrow> Inr s
      | Some t \<Rightarrow>
          if is_expired e (Some (rt_lease_expires_at t))
          then Inr (s\<lparr>reasoner_turns := update_rows (\<lambda>x. rt_id x = rt_id t) (abandoned_turn e) (reasoner_turns s)\<rparr>)
          else Inl (ConflictError ''the work item already has an active reasoner turn''
                 [(''turn_id'', jstr (rt_id t)), (''work_item_id'', jstr (rt_work_item_id t))]))"

definition leased_turn :: "env \<Rightarrow> ident \<Rightarrow> work_row \<Rightarrow> turn_request \<Rightarrow> boundary_row \<Rightarrow> ident \<Rightarrow> string \<Rightarrow> turn_row" where
  "leased_turn e supervisor w q b turn_id token = \<lparr>rt_id = turn_id, rt_supervisor_id = supervisor,
     rt_work_item_id = tq_work_id q, rt_boundary_id = b_id b, rt_generation = tq_expected_generation q,
     rt_goal_version = w_goal_version w, rt_goal_packet_digest = b_goal_packet_digest b,
     rt_task_packet_digest = b_task_packet_digest b,
     rt_input_digest = service_digest (env_sha e) (jobj [(''boundary_id'', jstr (b_id b)),
       (''boundary_input_digest'', jstr (b_input_digest b)), (''goal_packet_digest'', jstr (b_goal_packet_digest b)),
       (''task_packet_digest'', jstr (b_task_packet_digest b)), (''generation'', JInt (tq_expected_generation q))]),
     rt_result_digest = '''', rt_state = TURN_LEASED, rt_lease_token_digest = service_digest (env_sha e) (jstr token),
     rt_lease_expires_at = utc_after e (tq_lease_seconds q), rt_idempotency_key = tq_idempotency_key q,
     rt_completed_at = None, rt_created_at = env_now e, rt_updated_at = env_now e\<rparr>"

definition lease_json :: "turn_row \<Rightarrow> string \<Rightarrow> (string \<times> json) list" where
  "lease_json t token = [(''id'', jstr (rt_id t)), (''supervisor_id'', jstr (rt_supervisor_id t)),
     (''work_item_id'', jstr (rt_work_item_id t)), (''boundary_id'', jstr (rt_boundary_id t)),
     (''generation'', JInt (rt_generation t)), (''goal_version'', JInt (rt_goal_version t)),
     (''goal_packet_digest'', jstr (rt_goal_packet_digest t)), (''task_packet_digest'', jstr (rt_task_packet_digest t)),
     (''input_digest'', jstr (rt_input_digest t)), (''state'', jstr ''leased''), (''lease_token'', jstr token),
     (''lease_expires_at'', jtime (rt_lease_expires_at t)), (''idempotency_key'', jstr (rt_idempotency_key t)),
     (''created_at'', jtime (rt_created_at t)), (''updated_at'', jtime (rt_updated_at t))]"

definition lease_view :: "env \<Rightarrow> decision_ports \<Rightarrow> db \<Rightarrow> work_row \<Rightarrow> (string \<times> json) list cp" where
  "lease_view e p s w = bindE (worker_purpose_tx e s (str_or_empty (w_managed_worker_thread_id w))) (\<lambda>v.
     Inr [(''worker_purpose'', jopt purpose_view_json v), (''supervision_guidance'', jstr (dp_guidance p))])"

definition acquire_turn_tx ::
  "env \<Rightarrow> decision_ports \<Rightarrow> actor \<Rightarrow> turn_request \<Rightarrow> work_row \<Rightarrow> db \<Rightarrow> (db \<times> (string \<times> json) list) cp" where
  "acquire_turn_tx e p actor q w s =
     bindE (leasable_boundary s w q) (\<lambda>b.
     bindE (release_lapsed e (act_id actor) (tq_work_id q) s) (\<lambda>s1.
     let n = int (length (reasoner_turns s1)); token = env_mint e ''lease_token'' n;
         t = leased_turn e (act_id actor) w q b (env_mint e ''turn'' n) token
     in bindE (insert_turn t s1) (\<lambda>s2.
        let s3 = log_event e (mk_event ''reasoner.turn_acquired'' ''work_item'' (tq_work_id q) (act_id actor)
              [(''turn_id'', jstr (rt_id t)), (''boundary_id'', jstr (b_id b)),
               (''generation'', JInt (tq_expected_generation q))]) s2
        in bindE (lease_view e p s3 w) (\<lambda>view.
           let result = lease_json t token @ view @ [(''supervision_memory'', dp_memory p s3 actor w)]
           in bindE (idempotent_put (act_id actor) ''acquire_reasoner_turn'' (tq_idempotency_key q)
                (turn_request_digest e q) (jobj result) s3) (\<lambda>s4. Inr (s4, result))))))"

text \<open>A replayed lease, with the purpose read again.\<close>

definition cached_turn :: "env \<Rightarrow> decision_ports \<Rightarrow> turn_request \<Rightarrow> work_row \<Rightarrow> json \<Rightarrow> db \<Rightarrow> (db \<times> json) cp" where
  "cached_turn e p q w cached s =
     (if jget cached ''generation'' \<noteq> Some (JInt (tq_expected_generation q))
        \<or> (case tq_boundary_id q of None \<Rightarrow> False | Some i \<Rightarrow> jget cached ''boundary_id'' \<noteq> Some (jstr i))
      then Inl (ConflictError ''reasoner turn idempotency key was reused for another boundary'' [])
      else bindE (lease_view e p s w) (\<lambda>view.
        Inr (s, JObj (foldl (\<lambda>d (k, v). put_key d (u k) v) (payload_items cached) view))))"

definition acquire_actor_ok :: "env \<Rightarrow> db \<Rightarrow> actor \<Rightarrow> turn_request \<Rightarrow> work_row cp" where
  "acquire_actor_ok e s actor q =
     bindE (if act_attachment_id actor \<noteq> '''' then require_current_cao_attachment_actor_tx e True s actor else Inr ()) (\<lambda>_.
     bindE (require_authorized_work_tx s actor (tq_work_id q)) (\<lambda>w.
     if w_supervisor_attachment_id w \<noteq> None \<and> w_supervisor_attachment_id w \<noteq> Some '''' \<and> act_attachment_id actor = ''''
     then Inl (AuthorizationError ''attached Work must be reviewed from its originating CAO conversation'' [])
     else if w_supervisor_id w \<noteq> Some (act_id actor)
     then Inl (AuthorizationError ''only the assigned supervisor can reason about work'' [])
     else Inr w))"

definition acquire_reasoner_turn :: "env \<Rightarrow> decision_ports \<Rightarrow> actor \<Rightarrow> turn_request \<Rightarrow> db \<Rightarrow> (db \<times> json) cp" where
  "acquire_reasoner_turn e p actor q s =
     bindE (require_role e s actor [CAO]) (\<lambda>_.
     if tq_idempotency_key q = '''' then Inl (ValidationError ''reasoner turn requires an idempotency key'' [])
     else if tq_lease_seconds q < 15 \<or> tq_lease_seconds q > 86400
     then Inl (ValidationError ''reasoner turn lease must be between 15 and 86400 seconds'' [])
     else transaction s (\<lambda>s.
       bindE (acquire_actor_ok e s actor q) (\<lambda>w.
       let s0 = dp_backfill p s in
       bindE (idempotent_get_tx (act_id actor) ''acquire_reasoner_turn'' (tq_idempotency_key q) [turn_request_digest e q] s0)
         (\<lambda>cached. case cached of
            Some c \<Rightarrow> cached_turn e p q w c s0
          | None \<Rightarrow> bindE (acquire_turn_tx e p actor q w s0) (\<lambda>(s', r). Inr (s', jobj r))))))"

section \<open>Who may decide\<close>

fun turn_state_value :: "turn_state \<Rightarrow> string" where
  "turn_state_value TURN_LEASED = ''leased''"
| "turn_state_value TURN_COMPLETED = ''completed''"
| "turn_state_value TURN_ABANDONED = ''abandoned''"

definition decision_fields :: "bool \<Rightarrow> decision_request \<Rightarrow> json" where
  "decision_fields with_condition q = jobj ([(''turn_id'', jstr (dq_turn_id q)), (''lease_token'', jstr (dq_lease_token q)),
     (''expected_generation'', JInt (dq_expected_generation q)), (''kind'', jstr (disposition_kind_value (dq_kind q))),
     (''reason'', JStr (dq_reason q)), (''instruction'', JStr (dq_instruction q)),
     (''worker_id'', jstr_opt (dq_worker_id q)), (''runtime_session_id'', jstr_opt (dq_runtime_session_id q))]
     @ (case dq_expected_purpose_version q of None \<Rightarrow> [] | Some v \<Rightarrow> [(''expected_purpose_version'', JInt v)])
     @ (if with_condition then [(''resume_condition'', JStr (dq_resume_condition q))] else []))"

definition decision_digest :: "env \<Rightarrow> decision_request \<Rightarrow> string" where
  "decision_digest e q = service_digest (env_sha e) (decision_fields True q)"

definition accepted_digests :: "env \<Rightarrow> decision_request \<Rightarrow> string list" where
  "accepted_digests e q = decision_digest e q # (if dq_kind q \<noteq> WAIT_USER \<and> \<not> dq_resume_condition_given q
     then [service_digest (env_sha e) (decision_fields False q)] else [])"

definition replays_decision :: "env \<Rightarrow> decision_request \<Rightarrow> disposition_row \<Rightarrow> bool" where
  "replays_decision e q d = (bd_request_digest d \<in> set (accepted_digests e q)
     \<or> bd_request_digest d = '''' \<and> bd_reasoner_turn_id d = dq_turn_id q \<and> bd_generation d = dq_expected_generation q
       \<and> bd_kind d = dq_kind q \<and> bd_reason d = dq_reason q \<and> bd_instruction d = dq_instruction q)"

definition deciding_turn :: "env \<Rightarrow> db \<Rightarrow> actor \<Rightarrow> work_row \<Rightarrow> boundary_row \<Rightarrow> decision_request \<Rightarrow> turn_row cp" where
  "deciding_turn e s actor w b q =
     (case fetchone (\<lambda>t. rt_id t = dq_turn_id q) (reasoner_turns s) of
        None \<Rightarrow> Inl (NotFoundError ''reasoner turn'' (dq_turn_id q))
      | Some t \<Rightarrow>
          if rt_supervisor_id t \<noteq> act_id actor \<or> rt_work_item_id t \<noteq> w_id w \<or> rt_boundary_id t \<noteq> b_id b
             \<or> rt_generation t \<noteq> dq_expected_generation q \<or> rt_goal_packet_digest t \<noteq> b_goal_packet_digest b
             \<or> rt_task_packet_digest t \<noteq> b_task_packet_digest b
          then Inl (AuthorizationError ''reasoner turn does not own this exact boundary generation'' [])
          else if rt_state t \<noteq> TURN_LEASED then Inl (ConflictError ''reasoner turn is not active''
                 [(''state'', jstr (turn_state_value (rt_state t)))])
          else if is_expired e (Some (rt_lease_expires_at t)) then Inl (ConflictError ''reasoner turn lease expired'' [])
          else if rt_lease_token_digest t \<noteq> service_digest (env_sha e) (jstr (dq_lease_token q))
          then Inl (AuthorizationError ''invalid reasoner turn lease token'' [])
          else Inr t)"

section \<open>What may be decided\<close>

definition boundary_recovery_action :: "env \<Rightarrow> json \<Rightarrow> string" where
  "boundary_recovery_action e m =
     (if jget m ''system_recovery'' = Some (JBool True) then ''system_reconciliation''
      else if jget m ''runtime_recovery'' \<noteq> Some (JBool True) then ''''
      else (let reason = py_str_or_empty e (jget m ''reason'') in
        if reason \<in> {u ''runtime_unavailable'', u ''runtime_dispatch_failed''}
           \<or> reason = u ''runtime_provider_rate_limited'' \<and> jget m ''dynamic_thread_recovery'' = Some (JBool True)
        then ''dispose_continue_or_correct'' else ''system_reconciliation''))"

definition recovery_action :: "env \<Rightarrow> boundary_row \<Rightarrow> string" where
  "recovery_action e b = (if b_recovery_action b \<noteq> '''' then b_recovery_action b
     else if is_mapping (b_metadata b) then boundary_recovery_action e (b_metadata b) else '''')"

definition recovery_owned :: "string \<Rightarrow> boundary_row \<Rightarrow> bool" where
  "recovery_owned key b = (b_kind b = FAILURE \<and> recovery_flag key b)"

definition system_owned :: "boundary_row \<Rightarrow> bool" where
  "system_owned b = (recovery_owned ''system_recovery'' b \<or> recovery_owned ''runtime_recovery'' b)"

definition same_thread_reconciliation :: "env \<Rightarrow> boundary_row \<Rightarrow> bool" where
  "same_thread_reconciliation e b = (recovery_action e b = ''reconcile_continue_same_thread'' \<and> system_owned b)"

definition managed_recovery :: "env \<Rightarrow> boundary_row \<Rightarrow> bool" where
  "managed_recovery e b = (recovery_owned ''runtime_recovery'' b \<and> recovery_action e b = ''dispose_continue_or_correct''
     \<or> same_thread_reconciliation e b)"

definition recovery_dispositions :: "env \<Rightarrow> boundary_row \<Rightarrow> disposition_kind list" where
  "recovery_dispositions e b =
     (if managed_recovery e b then [CONTINUE, CORRECT, PAUSE, WAIT_USER]
      else if recovery_action e b = ''system_reconciliation'' then [WAIT_USER] else [])"

definition boundary_review :: "db \<Rightarrow> boundary_row \<Rightarrow> review_row option" where
  "boundary_review s b = (if b_kind b \<in> {COMPLETION, WORKER_OUTPUT}
     then fetchone (\<lambda>r. rv_boundary_id r = Some (b_id b)) (reviews s) else None)"

definition review_admits :: "boundary_row \<Rightarrow> disposition_kind \<Rightarrow> review_row option \<Rightarrow> unit cp" where
  "review_admits b kind review =
     (case review of
        None \<Rightarrow> if b_kind b = WORKER_OUTPUT \<and> kind = ACCEPT
          then Inl (ConflictError ''automatic Worker output requires an OK CAO review before accept'' []) else Inr ()
      | Some r \<Rightarrow>
          if rv_verdict r = ''ok'' \<and> kind \<noteq> ACCEPT
          then Inl (ConflictError ''an OK completion review must be disposed with accept'' [(''review_id'', jstr (rv_id r))])
          else if rv_verdict r = ''needs_work'' \<and> kind \<notin> {CORRECT, RETRY, PAUSE, WAIT_USER}
          then Inl (ConflictError ''a needs-work completion review requires a corrective disposition''
                 [(''review_id'', jstr (rv_id r))])
          else Inr ())"

definition kind_admitted :: "env \<Rightarrow> db \<Rightarrow> boundary_row \<Rightarrow> disposition_kind \<Rightarrow> unit cp" where
  "kind_admitted e s b kind =
     (if system_owned b \<and> kind \<notin> set (recovery_dispositions e b)
      then Inl (ConflictError ''system recovery boundary requires its recovery workflow''
             [(''reason_code'', jstr ''system_recovery_owned'')])
      else if kind = ACCEPT \<and> b_kind b \<notin> {COMPLETION, WORKER_OUTPUT}
      then Inl (ConflictError ''only a completion or reviewed Worker output boundary can be accepted'' [])
      else if b_kind b = DIRECTIVE \<and> kind \<notin> {CONTINUE, CORRECT, PAUSE}
      then Inl (ConflictError ''a pending directive must be delivered or corrected''
             [(''disposition'', jstr (disposition_kind_value kind))])
      else review_admits b kind (boundary_review s b))"

section \<open>Deciding\<close>

definition new_disposition :: "env \<Rightarrow> ident \<Rightarrow> boundary_row \<Rightarrow> turn_row \<Rightarrow> decision_request \<Rightarrow> db \<Rightarrow> disposition_row" where
  "new_disposition e actor_id b t q s = \<lparr>bd_id = env_mint e ''bdisp'' (int (length (dispositions s))), bd_boundary_id = b_id b,
     bd_reasoner_turn_id = rt_id t, bd_decided_by = actor_id, bd_generation = dq_expected_generation q, bd_kind = dq_kind q,
     bd_reason = dq_reason q, bd_instruction = dq_instruction q, bd_resume_condition = dq_resume_condition q,
     bd_request_digest = decision_digest e q, bd_created_at = env_now e\<rparr>"

definition set_attempt :: "env \<Rightarrow> ident \<Rightarrow> attempt_state \<Rightarrow> db \<Rightarrow> db" where
  "set_attempt e i st s = s\<lparr>attempts := update_rows (\<lambda>a. a_id a = i) (\<lambda>a. a\<lparr>a_state := st, a_updated_at := env_now e\<rparr>) (attempts s)\<rparr>"

definition set_work :: "env \<Rightarrow> ident \<Rightarrow> work_state \<Rightarrow> attention_owner \<Rightarrow> db \<Rightarrow> db cp" where
  "set_work e i st owner s = update_works [COL_STATE, COL_ATTENTION] (\<lambda>w. w_id w = i)
     (\<lambda>w. w\<lparr>w_state := st, w_attention_owner := owner, w_updated_at := env_now e\<rparr>) s"

definition accept_boundary :: "env \<Rightarrow> work_row \<Rightarrow> attempt_row \<Rightarrow> review_row option \<Rightarrow> db \<Rightarrow> db cp" where
  "accept_boundary e w a review s =
     (case review of
        Some _ \<Rightarrow> bindE (require_completion_delivery_ready_tx e s w a) (\<lambda>_.
          set_work e (w_id w) W_WAITING_USER AO_USER (s\<lparr>attempts := update_rows (\<lambda>x. a_id x = a_id a)
            (\<lambda>x. x\<lparr>a_state := A_COMPLETED, a_evidence_confidence := ''verified'', a_updated_at := env_now e\<rparr>) (attempts s)\<rparr>))
      | None \<Rightarrow> set_work e (w_id w) W_WAITING_REVIEW AO_CAO (set_attempt e (a_id a) A_SUBMITTED s))"

text \<open>Continuing or correcting: on the recovered route of a failed runtime, or on the admitted lane.\<close>

definition directive_id :: "env \<Rightarrow> boundary_row \<Rightarrow> pystr" where
  "directive_id e b = (if is_mapping (b_metadata b)
     then (case jget (b_metadata b) ''directive_id'' of None \<Rightarrow> [] | Some v \<Rightarrow> py_str e (Some v)) else [])"

definition decision_context :: "decision_request \<Rightarrow> boundary_row \<Rightarrow> pystr \<Rightarrow> pystr \<Rightarrow> pystr \<Rightarrow> (string \<times> pystr) list" where
  "decision_context q b action instruction directive =
     [(''action'', action), (''reason'', dq_reason q), (''instruction'', instruction), (''source_boundary_id'', u (b_id b))]
     @ (if directive = [] then [] else [(''directive_id'', directive)])"

definition continue_recovered ::
  "env \<Rightarrow> continuation_ports \<Rightarrow> ident \<Rightarrow> work_row \<Rightarrow> attempt_row \<Rightarrow> boundary_row \<Rightarrow> decision_request \<Rightarrow> db \<Rightarrow> db cp" where
  "continue_recovered e p actor_id w a b q s =
     (let reconciliation = same_thread_reconciliation e b in
      bindE (recover_route e p actor_id w a b reconciliation s) (\<lambda>(s1, adm).
      bindE (retry_attempt_tx e p actor_id w a \<lparr>rq_reason = dq_reason q, rq_worker_id = Some (a_worker_id a),
          rq_runtime_session_id = Some (ad_runtime_session_id adm), rq_kind = CMD_RETRY, rq_admission = Some adm,
          rq_context = decision_context q b
            (if reconciliation then u ''reconcile_continue'' else u (disposition_kind_value (dq_kind q))) (dq_instruction q) []\<rparr> s1)
        (\<lambda>(s2, x). Inr s2)))"

text \<open>A directive boundary hands its pending directive over.\<close>

definition handled_directive :: "env \<Rightarrow> ident \<Rightarrow> directive_row \<Rightarrow> directive_row" where
  "handled_directive e actor_id d = d\<lparr>di_state := ''handled'', di_handled_by := Some actor_id,
     di_handled_at := Some (env_now e), di_updated_at := env_now e\<rparr>"

definition take_directive :: "env \<Rightarrow> ident \<Rightarrow> boundary_row \<Rightarrow> decision_request \<Rightarrow> db \<Rightarrow> (db \<times> pystr) cp" where
  "take_directive e actor_id b q s =
     (if b_kind b \<noteq> DIRECTIVE then Inr (s, dq_instruction q)
      else (case fetchone (\<lambda>d. u (di_id d) = directive_id e b) (directives s) of
          None \<Rightarrow> Inl (ConflictError ''directive boundary no longer owns a pending directive'' [])
        | Some d \<Rightarrow>
            if di_state d \<noteq> ''pending'' then Inl (ConflictError ''directive boundary no longer owns a pending directive'' [])
            else Inr (s\<lparr>directives := update_rows (\<lambda>x. u (di_id x) = directive_id e b) (handled_directive e actor_id) (directives s)\<rparr>,
                   if dq_instruction q = [] then di_content d else dq_instruction q)))"

definition instruction_payload :: "env \<Rightarrow> boundary_row \<Rightarrow> decision_request \<Rightarrow> pystr \<Rightarrow> (pystr \<times> json) list" where
  "instruction_payload e b q instruction = upayload [(''action'', jstr (disposition_kind_value (dq_kind q))),
     (''reason'', JStr (dq_reason q)), (''instruction'', JStr instruction),
     (''directive_id'', if directive_id e b = [] then JNull else JStr (directive_id e b)),
     (''generation'', JInt (dq_expected_generation q))]"

definition command_of :: "disposition_kind \<Rightarrow> command_kind" where
  "command_of kind = (if kind = CONTINUE then CMD_CONTINUE else CMD_CORRECT)"

definition continue_in_place :: "env \<Rightarrow> ident \<Rightarrow> work_row \<Rightarrow> attempt_row \<Rightarrow> boundary_row \<Rightarrow> decision_request \<Rightarrow> pystr \<Rightarrow> db \<Rightarrow> db cp" where
  "continue_in_place e actor_id w a b q instruction s =
     bindE (set_work e (w_id w) W_ACTIVE AO_WORKER (set_attempt e (a_id a) A_WORKING s)) (\<lambda>s1.
     bindE (message_tx e (work_message actor_id (a_worker_id a) INSTRUCTION (instruction_payload e b q instruction) w (a_id a)
       (''boundary:'' @ b_id b)) s1) (\<lambda>(s2, m, ds). Inr s2))"

definition continue_admitted ::
  "env \<Rightarrow> continuation_ports \<Rightarrow> ident \<Rightarrow> work_row \<Rightarrow> attempt_row \<Rightarrow> boundary_row \<Rightarrow> decision_request \<Rightarrow> db \<Rightarrow> db cp" where
  "continue_admitted e p actor_id w a b q s =
     bindE (admit_managed_worker_command_tx e (continuation_command actor_id (command_of (dq_kind q)) w a) s) (\<lambda>(s1, adm).
     bindE (take_directive e actor_id b q s1) (\<lambda>(s2, instruction).
     if starts_attempt adm
     then bindE (retry_attempt_tx e p actor_id w a \<lparr>rq_reason = dq_reason q, rq_worker_id = None, rq_runtime_session_id = None,
            rq_kind = command_of (dq_kind q), rq_admission = adm,
            rq_context = decision_context q b (u (disposition_kind_value (dq_kind q))) instruction (directive_id e b)\<rparr> s2)
          (\<lambda>(s3, x). Inr s3)
     else continue_in_place e actor_id w a b q instruction s2))"

definition boundary_canceled_work :: "env \<Rightarrow> work_row \<Rightarrow> work_row" where
  "boundary_canceled_work e x = x\<lparr>w_state := W_CANCELED, w_attention_owner := AO_NONE, w_generation := w_generation x + 1,
     w_user_needed_boundary_id := None, w_paused_boundary_id := None, w_updated_at := env_now e\<rparr>"

definition cancel_boundary_work :: "env \<Rightarrow> work_row \<Rightarrow> attempt_row \<Rightarrow> db \<Rightarrow> db cp" where
  "cancel_boundary_work e w a s =
     update_works [COL_STATE, COL_ATTENTION, COL_GENERATION, COL_USER_NEEDED, COL_PAUSED] (\<lambda>x. w_id x = w_id w) (boundary_canceled_work e)
       (set_attempt e (a_id a) A_CANCELED (fence_reasoner_turns_tx e (w_id w) s))"

definition retry_decided ::
  "env \<Rightarrow> continuation_ports \<Rightarrow> ident \<Rightarrow> work_row \<Rightarrow> attempt_row \<Rightarrow> decision_request \<Rightarrow> db \<Rightarrow> db cp" where
  "retry_decided e p actor_id w a q s =
     bindE (retry_attempt_tx e p actor_id w a \<lparr>rq_reason = dq_reason q, rq_worker_id = dq_worker_id q,
       rq_runtime_session_id = dq_runtime_session_id q, rq_kind = CMD_RETRY, rq_admission = None, rq_context = []\<rparr> s)
       (\<lambda>(s1, x). Inr s1)"

fun perform_kind ::
  "disposition_kind \<Rightarrow> env \<Rightarrow> decision_ports \<Rightarrow> ident \<Rightarrow> work_row \<Rightarrow> attempt_row \<Rightarrow> boundary_row \<Rightarrow> decision_request \<Rightarrow> db \<Rightarrow> db cp" where
  "perform_kind PAUSE e p actor_id w a b q s = pause_work_tx e actor_id w a b s"
| "perform_kind WAIT_USER e p actor_id w a b q s = update_works [COL_STATE, COL_ATTENTION, COL_USER_NEEDED] (\<lambda>x. w_id x = w_id w)
     (user_needed_work e (b_id b)) (set_attempt e (a_id a) A_INPUT_REQUIRED s)"
| "perform_kind ACCEPT e p actor_id w a b q s = accept_boundary e w a (boundary_review s b) s"
| "perform_kind CANCEL_WORK e p actor_id w a b q s = cancel_boundary_work e w a s"
| "perform_kind RETRY e p actor_id w a b q s = retry_decided e (dp_continuation p) actor_id w a q s"
| "perform_kind FAIL e p actor_id w a b q s = Inr s"
| "perform_kind _ e p actor_id w a b q s =
     (if managed_recovery e b then continue_recovered e (dp_continuation p) actor_id w a b q s
      else continue_admitted e (dp_continuation p) actor_id w a b q s)"

definition perform_decision :: "env \<Rightarrow> decision_ports \<Rightarrow> ident \<Rightarrow> work_row \<Rightarrow> attempt_row \<Rightarrow> boundary_row \<Rightarrow> decision_request \<Rightarrow> db \<Rightarrow> db cp" where
  "perform_decision e p actor_id w a b q s = perform_kind (dq_kind q) e p actor_id w a b q s"

text \<open>After a cancellation the other boundaries are superseded and the interrupted Work returns.\<close>

definition finish_canceled :: "env \<Rightarrow> decision_ports \<Rightarrow> ident \<Rightarrow> work_row \<Rightarrow> db \<Rightarrow> db cp" where
  "finish_canceled e p actor_id w s =
     bindE (dp_supersede_terminal p (w_id w) s) (resume_interrupted_target_tx e (dp_continuation p) (w_id w) actor_id)"

definition complete_turn :: "env \<Rightarrow> turn_row \<Rightarrow> boundary_row \<Rightarrow> disposition_row \<Rightarrow> db \<Rightarrow> db" where
  "complete_turn e t b d s = s\<lparr>reasoner_turns := update_rows (\<lambda>x. rt_id x = rt_id t)
     (\<lambda>x. x\<lparr>rt_state := TURN_COMPLETED,
        rt_result_digest := service_digest (env_sha e) (jobj [(''boundary_id'', jstr (b_id b)),
          (''disposition_id'', jstr (bd_id d)), (''request_digest'', jstr (bd_request_digest d)),
          (''goal_packet_digest'', jstr (rt_goal_packet_digest t)), (''task_packet_digest'', jstr (rt_task_packet_digest t))]),
        rt_completed_at := Some (env_now e), rt_updated_at := env_now e\<rparr>) (reasoner_turns s)\<rparr>"

definition handoff_payload :: "decision_request \<Rightarrow> disposition_row \<Rightarrow> (pystr \<times> json) list" where
  "handoff_payload q d = upayload [(''action'', jstr ''requester_escalation''), (''source_boundary_id'', jstr (bd_boundary_id d)),
     (''disposition_id'', jstr (bd_id d)), (''disposition'', jstr (disposition_kind_value (dq_kind q))),
     (''reason'', JStr (dq_reason q)), (''decision'', JStr (dq_instruction q)),
     (''resume_condition'', JStr (dq_resume_condition q))]"

definition hand_off :: "env \<Rightarrow> ident \<Rightarrow> work_row \<Rightarrow> attempt_row \<Rightarrow> decision_request \<Rightarrow> disposition_row \<Rightarrow> db \<Rightarrow> db cp" where
  "hand_off e actor_id w a q d s =
     (if dq_kind q \<in> {WAIT_USER, PAUSE}
      then bindE (message_tx e (system_request actor_id (str_or_none (w_supervisor_id w)) (handoff_payload q d) (w_id w) (a_id a)
             (w_goal_version w) (''requester-escalation:'' @ bd_boundary_id d)) s) (\<lambda>(s', _). Inr s')
      else Inr s)"

definition commit_decision ::
  "env \<Rightarrow> decision_ports \<Rightarrow> ident \<Rightarrow> work_row \<Rightarrow> attempt_row \<Rightarrow> boundary_row \<Rightarrow> turn_row \<Rightarrow> decision_request \<Rightarrow> db
   \<Rightarrow> (db \<times> disposition_row) cp" where
  "commit_decision e p actor_id w a b t q s =
     (let d = new_disposition e actor_id b t q s in
      bindE (insert_disposition d s) (\<lambda>s1.
      bindE (perform_decision e p actor_id w a b q s1) (\<lambda>s2.
      bindE (hand_off e actor_id w a q d
          (handle_boundary_deliveries_tx e (b_id b) actor_id (''boundary-disposition:'' @ bd_id d) (complete_turn e t b d s2))) (\<lambda>s3.
      let s4 = log_event e (mk_event ''boundary.disposed'' ''work_item'' (w_id w) actor_id
            [(''boundary_id'', jstr (b_id b)), (''disposition_id'', jstr (bd_id d)),
             (''kind'', jstr (disposition_kind_value (dq_kind q))), (''generation'', JInt (dq_expected_generation q))]) s3
      in bindE (if dq_kind q = CANCEL_WORK then finish_canceled e p actor_id w s4 else Inr s4) (\<lambda>s5. Inr (s5, d))))))"

text \<open>The error of a preflight that the decision turns into an escalation.\<close>

fun unsettled_command :: "cp_error \<Rightarrow> bool" where
  "unsettled_command (ConflictError m d) = (map_of d ''reason_code'' = Some (jstr ''worker_command_outcome_unsettled''))"
| "unsettled_command _ = False"

definition decision_checks :: "env \<Rightarrow> decision_ports \<Rightarrow> work_row \<Rightarrow> attempt_row \<Rightarrow> boundary_row \<Rightarrow> decision_request \<Rightarrow> db \<Rightarrow> unit cp" where
  "decision_checks e p w a b q s =
     bindE (if dq_kind q \<in> {PAUSE, WAIT_USER} then kp_payload_safe (dp_continuation p) (jobj [(''reason'', JStr (dq_reason q)),
         (''instruction'', JStr (dq_instruction q)), (''resume_condition'', JStr (dq_resume_condition q))]) else Inr ()) (\<lambda>_.
     if dq_kind q = PAUSE then require_pause_safe_tx e s w a b else Inr ())"

definition decide ::
  "env \<Rightarrow> decision_ports \<Rightarrow> bool \<Rightarrow> ident \<Rightarrow> work_row \<Rightarrow> boundary_row \<Rightarrow> turn_row \<Rightarrow> decision_request \<Rightarrow> db \<Rightarrow> (db \<times> disposition_row) cp" where
  "decide e p escalate actor_id w b t q s =
     bindE (kind_admitted e s b (dq_kind q)) (\<lambda>_.
     case get_attempt s (b_attempt_id b) of
       None \<Rightarrow> Inl (PyError ''AssertionError'' '''')
     | Some a \<Rightarrow>
         bindE (decision_checks e p w a b q s) (\<lambda>_.
         if escalate \<and> dq_kind q \<in> {CONTINUE, CORRECT} \<and> \<not> managed_recovery e b
         then (case preflight_managed_worker_command_tx e s actor_id w of
             Inl err \<Rightarrow>
               if unsettled_command err
               then escalate_supervision_tx e b w ''worker_command_outcome_unsettled''
                      ''The requested continuation is blocked by an unsettled execution outcome.'' (Some t) (decision_digest e q) s
               else Inl err
           | Inr _ \<Rightarrow> commit_decision e p actor_id w a b t q s)
         else commit_decision e p actor_id w a b t q s))"

definition decision_targets :: "db \<Rightarrow> actor \<Rightarrow> ident \<Rightarrow> ident option \<Rightarrow> (boundary_row \<times> work_row) cp" where
  "decision_targets s actor boundary_id expected_work =
     (case get_boundary s boundary_id of
        None \<Rightarrow> Inl (NotFoundError ''boundary'' boundary_id)
      | Some b \<Rightarrow>
          if expected_work \<noteq> None \<and> expected_work \<noteq> Some (b_work_item_id b)
          then Inl (AuthorizationError ''boundary does not belong to the supplied WorkItem'' [])
          else (case get_work s (b_work_item_id b) of
              None \<Rightarrow> Inl (PyError ''AssertionError'' '''')
            | Some w \<Rightarrow> bindE (authorize_work_actor actor w) (\<lambda>_. Inr (b, w))))"

definition undecided :: "env \<Rightarrow> db \<Rightarrow> actor \<Rightarrow> boundary_row \<Rightarrow> work_row \<Rightarrow> decision_request \<Rightarrow> turn_row cp" where
  "undecided e s actor b w q =
     (if dq_kind q = FAIL
      then Inl (ConflictError ''Unfinished work must continue or be escalated to the requester''
             [(''reason_code'', jstr ''unfinished_work_requires_escalation'')])
      else if superseded s (b_id b) then Inl (ConflictError ''boundary was superseded by later Work authority''
             [(''reason'', jopt (\<lambda>x. jstr (bs_reason x)) (fetchone (\<lambda>x. bs_boundary_id x = b_id b) (supersessions s)))])
      else if w_generation w \<noteq> dq_expected_generation q
      then Inl (StaleGenerationError (dq_expected_generation q) (w_generation w))
      else if b_generation b \<noteq> dq_expected_generation q
      then Inl (StaleGenerationError (dq_expected_generation q) (b_generation b))
      else deciding_turn e s actor w b q)"

definition dispose_boundary_tx ::
  "env \<Rightarrow> decision_ports \<Rightarrow> bool \<Rightarrow> actor \<Rightarrow> ident \<Rightarrow> decision_request \<Rightarrow> ident option \<Rightarrow> db \<Rightarrow> (db \<times> disposition_row) cp" where
  "dispose_boundary_tx e p escalate actor boundary_id q expected_work s =
     bindE (require_role e s actor [CAO]) (\<lambda>_.
     bindE (if act_attachment_id actor \<noteq> '''' then require_current_cao_attachment_actor_tx e True s actor else Inr ()) (\<lambda>_.
     let s0 = dp_backfill p s in
     bindE (decision_targets s0 actor boundary_id expected_work) (\<lambda>(b, w).
     case fetchone (\<lambda>d. bd_boundary_id d = boundary_id) (dispositions s0) of
       Some d \<Rightarrow>
         if replays_decision e q d then Inr (s0, d)
         else Inl (ConflictError ''boundary was already disposed differently'' [(''disposition_id'', jstr (bd_id d))])
     | None \<Rightarrow>
         bindE (confirm_work_purpose_tx e (act_id actor) w (dq_expected_purpose_version q) ''boundary_disposition'' s0) (\<lambda>s1.
         bindE (undecided e s1 actor b w q) (\<lambda>t. decide e p escalate (act_id actor) w b t q s1)))))"

definition dispose_boundary ::
  "env \<Rightarrow> decision_ports \<Rightarrow> actor \<Rightarrow> ident \<Rightarrow> decision_request \<Rightarrow> ident option \<Rightarrow> db \<Rightarrow> (db \<times> disposition_row) cp" where
  "dispose_boundary e p actor boundary_id q expected_work s =
     transaction s (dispose_boundary_tx e p True actor boundary_id q expected_work)"

end
