(* ===== verification/Decision_Safety.thy ===== *)
theory Decision_Safety
  imports Decision_Fence Supervision_Safety
begin

text \<open>
  What the fenced decision guarantees: a replayed command reads back the result it stored, a
  granted decision lease is the only live one of its supervisor on the Work, and a boundary is
  decided under a live lease of exactly its generation.
\<close>

section \<open>A decision under its lease\<close>

text \<open>What a supervisor must hold to decide a boundary: the named turn is leased to it for exactly this boundary.\<close>

definition decision_lease :: "env \<Rightarrow> actor \<Rightarrow> boundary_row \<Rightarrow> decision_request \<Rightarrow> turn_row \<Rightarrow> bool" where
  "decision_lease e actor b q t = (rt_id t = dq_turn_id q \<and> rt_supervisor_id t = act_id actor
     \<and> rt_work_item_id t = b_work_item_id b \<and> rt_boundary_id t = b_id b \<and> rt_generation t = dq_expected_generation q
     \<and> rt_goal_packet_digest t = b_goal_packet_digest b \<and> rt_task_packet_digest t = b_task_packet_digest b
     \<and> rt_state t = TURN_LEASED \<and> env_now e < rt_lease_expires_at t
     \<and> rt_lease_token_digest t = service_digest (env_sha e) (jstr (dq_lease_token q)))"

text \<open>What the store says of a boundary that may be decided at a generation.\<close>

definition decidable_at :: "db \<Rightarrow> int \<Rightarrow> boundary_row \<Rightarrow> bool" where
  "decidable_at s generation b = (get_boundary s (b_id b) = Some b \<and> b_generation b = generation
     \<and> \<not> superseded s (b_id b) \<and> \<not> disposed s (b_id b)
     \<and> (case get_work s (b_work_item_id b) of None \<Rightarrow> False | Some w \<Rightarrow> w_generation w = generation))"

lemma deciding_turn_lease:
  assumes "deciding_turn e s actor w b q = Inr t" and "w_id w = b_work_item_id b"
  shows "t \<in> set (reasoner_turns s) \<and> decision_lease e actor b q t"
  using assms by (auto simp: deciding_turn_def decision_lease_def is_expired_def not_le
      dest!: fetchone_SomeD split: option.splits if_splits)

lemma undecided_lease:
  assumes "undecided e s actor b w q = Inr t" and "w_id w = b_work_item_id b"
  shows "t \<in> set (reasoner_turns s) \<and> decision_lease e actor b q t \<and> \<not> superseded s (b_id b)
    \<and> w_generation w = dq_expected_generation q \<and> b_generation b = dq_expected_generation q"
  using assms deciding_turn_lease [of e s actor w b q t] by (simp add: undecided_def split: if_splits)

lemma confirm_work_purpose_reads:
  assumes "confirm_work_purpose_tx e a w v d s = Inr s1"
  shows "reasoner_turns s1 = reasoner_turns s \<and> boundaries s1 = boundaries s \<and> works s1 = works s
    \<and> superseded s1 i = superseded s i \<and> dispositions s1 = dispositions s"
  using assms by (auto simp: confirm_work_purpose_tx_def bindE_Inr_iff superseded_def split: option.splits)

lemma commit_decision_row:
  assumes "commit_decision e p a w at b t q s = Inr (s', d)"
  shows "bd_boundary_id d = b_id b \<and> bd_reasoner_turn_id d = rt_id t \<and> bd_generation d = dq_expected_generation q
    \<and> bd_kind d = dq_kind q"
  using assms by (auto simp: commit_decision_def Let_def bindE_Inr_iff new_disposition_def)

lemma escalation_row:
  assumes "escalate_supervision_tx e b w c r (Some t) g s = Inr (s', d)"
  shows "bd_boundary_id d = b_id b \<and> bd_reasoner_turn_id d = rt_id t \<and> bd_generation d = b_generation b
    \<and> bd_kind d = WAIT_USER"
  using assms by (auto simp: escalate_supervision_tx_def Let_def bindE_Inr_iff escalation_disposition_def split: option.splits)

lemma decide_row:
  assumes "decide e p esc a w b t q s = Inr (s', d)" and "b_generation b = dq_expected_generation q"
  shows "bd_boundary_id d = b_id b \<and> bd_reasoner_turn_id d = rt_id t \<and> bd_generation d = dq_expected_generation q
    \<and> (bd_kind d = dq_kind q \<or> bd_kind d = WAIT_USER \<and> dq_kind q \<in> {CONTINUE, CORRECT})"
  using assms by (auto simp: decide_def bindE_Inr_iff dest!: commit_decision_row escalation_row
      split: option.splits if_splits sum.splits)

lemma get_boundary_id: "get_boundary s i = Some b \<Longrightarrow> b_id b = i"
  by (auto simp: get_boundary_def dest: fetchone_SomeD)

lemma get_work_id: "get_work s i = Some w \<Longrightarrow> w_id w = i"
  by (auto simp: get_work_def dest: fetchone_SomeD)

lemma undisposed: "fetchone (\<lambda>d. bd_boundary_id d = i) (dispositions s) = None \<Longrightarrow> \<not> disposed s i"
  by (auto simp: disposed_def list_ex_iff fetchone_None_iff)


text \<open>The sample boundary, with a lease on it, of a claimed completion, which its supervisor accepts for review with nothing in the ports.\<close>

definition sample_continuation_ports :: continuation_ports where
  "sample_continuation_ports = \<lparr>kp_payload_safe = (\<lambda>_. Inr ()),
     kp_recovery_target = (\<lambda>_ _ _ _ _. Inl (PyError ''ConflictError'' '''')), kp_bundle = (\<lambda>_ _. Inr JNull)\<rparr>"

definition sample_ports :: decision_ports where
  "sample_ports = \<lparr>dp_continuation = sample_continuation_ports, dp_backfill = (\<lambda>s. s),
     dp_supersede_terminal = (\<lambda>_ s. Inr s), dp_guidance = '''', dp_memory = (\<lambda>_ _ _. JNull)\<rparr>"

definition sample_decision :: decision_request where
  "sample_decision = \<lparr>dq_turn_id = ''q'', dq_lease_token = ''token'', dq_expected_generation = 2, dq_kind = ACCEPT,
     dq_reason = u ''ready'', dq_instruction = u ''go on'', dq_resume_condition = [], dq_worker_id = None,
     dq_runtime_session_id = None, dq_expected_purpose_version = None, dq_resume_condition_given = False\<rparr>"

definition sample_claimed :: boundary_row where
  "sample_claimed = sample_boundary\<lparr>b_kind := COMPLETION\<rparr>"

definition sample_leased_db :: db where
  "sample_leased_db = sample_sup_db\<lparr>boundaries := [sample_claimed], reasoner_turns := [sample_turn\<lparr>rt_state := TURN_LEASED,
     rt_lease_expires_at := 900, rt_lease_token_digest := service_digest (env_sha sample_env) (jstr ''token''),
     rt_completed_at := None\<rparr>]\<rparr>"

lemmas sample_lease_defs = sample_leased_db_def sample_claimed_def sample_sup_defs

lemma sample_no_purpose: "confirm_work_purpose_tx sample_env ''c'' sample_sup_work None ''boundary_disposition'' sample_leased_db
  = Inr sample_leased_db"
  by (simp add: confirm_work_purpose_tx_def confirm_work_purpose_def confirm_worker_purpose_tx_def worker_purpose_tx_def
      sample_lease_defs)

lemma sample_deciding: "\<exists>t. undecided sample_env sample_leased_db (bare_actor ''c'' CAO) sample_claimed sample_sup_work
    sample_decision = Inr t \<and> rt_id t = ''q''"
  by (simp add: undecided_def deciding_turn_def superseded_def is_expired_def bare_actor_def sample_decision_def
      sample_lease_defs)

lemma sample_decided:
  "\<exists>r. dispose_boundary_tx sample_env sample_ports True (bare_actor ''c'' CAO) ''b'' sample_decision None sample_leased_db = Inr r"
proof -
  obtain t where t: "undecided sample_env sample_leased_db (bare_actor ''c'' CAO) sample_claimed sample_sup_work
      sample_decision = Inr t" and i: "rt_id t = ''q''" using sample_deciding by blast
  have targets: "decision_targets sample_leased_db (bare_actor ''c'' CAO) ''b'' None = Inr (sample_claimed, sample_sup_work)"
    by (simp add: decision_targets_def authorize_work_actor_def bare_actor_def get_boundary_def get_work_def
        sample_lease_defs)
  have "\<exists>r. decide sample_env sample_ports True ''c'' sample_sup_work sample_claimed t sample_decision sample_leased_db = Inr r"
    by (simp add: decide_def kind_admitted_def decision_checks_def system_owned_def recovery_owned_def review_admits_def
        boundary_review_def commit_decision_def new_disposition_def insert_disposition_def perform_decision_def accept_boundary_def set_work_def
        update_works_def work_update_ok_def fires_def user_needed_contract_def pause_exact_ok_def set_attempt_def update_rows_def hand_off_def
        sample_ports_def sample_decision_def Let_def get_attempt_def superseded_def i sample_lease_defs)
  moreover have "fetchone (\<lambda>d. bd_boundary_id d = ''b'') (dispositions sample_leased_db) = None"
    by (simp add: sample_lease_defs)
  ultimately show ?thesis
    using t targets sample_no_purpose
    by (simp add: dispose_boundary_tx_def require_role_def bare_actor_def sample_ports_def sample_decision_def Let_def)
qed


section \<open>The granted lease\<close>

lemma release_lapsed_reads:
  assumes "release_lapsed e a w s = Inr s1"
  shows "idempotency_results s1 = idempotency_results s \<and> principals s1 = principals s \<and> boundaries s1 = boundaries s
    \<and> length (reasoner_turns s1) = length (reasoner_turns s)"
  using assms by (auto simp: release_lapsed_def update_rows_def split: option.splits if_splits)

lemma insert_turn_adds:
  assumes "insert_turn t s = Inr s1"
  shows "s1 = s\<lparr>reasoner_turns := reasoner_turns s @ [t]\<rparr> \<and> \<not> list_ex (turn_clash t) (reasoner_turns s)"
  using assms by (auto simp: insert_turn_def split: if_splits)

text \<open>Granting a lease inserts it, logs it and records the lease under the key of the request.\<close>

lemma acquire_turn_tx_steps:
  assumes "acquire_turn_tx e p actor q w s = Inr (s', r)"
  obtains b s1 s2 s3 t where "leasable_boundary s w q = Inr b" and "release_lapsed e (act_id actor) (tq_work_id q) s = Inr s1"
    and "rt_state t = TURN_LEASED \<and> rt_work_item_id t = tq_work_id q \<and> rt_boundary_id t = b_id b" and "insert_turn t s1 = Inr s2"
    and "idempotency_results s3 = idempotency_results s2" and "reasoner_turns s3 = reasoner_turns s2"
    and "command_put (act_id actor, ''acquire_reasoner_turn'', tq_idempotency_key q) (turn_request_digest e q) (jobj r) s3 = Inr s'"
proof -
  from assms obtain b s1 s2 view ev where steps: "leasable_boundary s w q = Inr b"
      "release_lapsed e (act_id actor) (tq_work_id q) s = Inr s1"
    and ins: "insert_turn (leased_turn e (act_id actor) w q b (env_mint e ''turn'' (int (length (reasoner_turns s1))))
          (env_mint e ''lease_token'' (int (length (reasoner_turns s1))))) s1 = Inr s2"
    and put: "bindE (idempotent_put (act_id actor) ''acquire_reasoner_turn'' (tq_idempotency_key q) (turn_request_digest e q)
          (jobj view) (log_event e ev s2)) (\<lambda>s4. Inr (s4, view)) = Inr (s', r)"
    unfolding acquire_turn_tx_def Let_def bindE_Inr_iff by blast
  show thesis
    by (rule that [where ?s3.0 = "log_event e ev s2", OF steps _ ins]) (use put in \<open>auto simp: leased_turn_def command_put_def bindE_Inr_iff\<close>)
qed

lemma command_put_turns: "command_put k d r s = Inr s' \<Longrightarrow> reasoner_turns s' = reasoner_turns s"
  by (auto simp: command_put_def idempotent_put_def split: prod.splits if_splits option.splits)

lemma acquired_lease_recorded:
  assumes a: "acquire_turn_tx e p actor q w s = Inr (s', r)" and k: "tq_idempotency_key q \<noteq> ''''"
    and f: "idempotent_get_tx (act_id actor) ''acquire_reasoner_turn'' (tq_idempotency_key q) ds s = Inr None"
  shows "idempotent_get_tx (act_id actor) ''acquire_reasoner_turn'' (tq_idempotency_key q) [turn_request_digest e q] s'
    = Inr (Some (jobj r))"
proof -
  let ?k = "(act_id actor, ''acquire_reasoner_turn'', tq_idempotency_key q)"
  from a obtain s1 s2 s3 t where st: "release_lapsed e (act_id actor) (tq_work_id q) s = Inr s1" "insert_turn t s1 = Inr s2"
    "idempotency_results s3 = idempotency_results s2" "command_put ?k (turn_request_digest e q) (jobj r) s3 = Inr s'"
    by (rule acquire_turn_tx_steps) blast
  have "idempotency_results s3 = idempotency_results s"
    using st(3) release_lapsed_reads [OF st(1)] insert_turn_adds [OF st(2)] by simp
  with f have "command_get ?k ds s3 = Inr None" by (simp only: command_get_def prod.case idempotent_get_tx_def)
  from cl.put_get [OF _ this st(4), of "[turn_request_digest e q]"] k show ?thesis by (simp add: command_get_def)
qed

text \<open>No other lease of the supervisor on the Work is live next to the granted one.\<close>

lemma acquired_lease_alone:
  assumes "acquire_turn_tx e p actor q w s = Inr (s', r)"
  shows "\<exists>t rest. reasoner_turns s' = rest @ [t] \<and> rt_state t = TURN_LEASED \<and> rt_work_item_id t = tq_work_id q
    \<and> \<not> list_ex (turn_clash t) rest"
  using assms
proof (rule acquire_turn_tx_steps)
  fix b s1 s2 s3 t
  assume t: "rt_state t = TURN_LEASED \<and> rt_work_item_id t = tq_work_id q \<and> rt_boundary_id t = b_id b"
    and ins: "insert_turn t s1 = Inr s2" and s3: "reasoner_turns s3 = reasoner_turns s2"
    and put: "command_put (act_id actor, ''acquire_reasoner_turn'', tq_idempotency_key q) (turn_request_digest e q) (jobj r) s3 = Inr s'"
  have "reasoner_turns s' = reasoner_turns s1 @ [t]"
    using insert_turn_adds [OF ins] s3 command_put_turns [OF put] by simp
  then show ?thesis using t insert_turn_adds [OF ins] by blast
qed

end
