(* ===== verification/Continuation_Ledger.thy ===== *)
theory Continuation_Ledger
  imports Continuation_Safety Decision_Safety
begin

text \<open>
  Continuing and deciding against the guarded ledger: every reply, resumption, return and decision of
  the service is a run of the statements whose triggers bind the pointers of a Work, and a pause is
  consumed by one resumption, whatever runs in between.
\<close>

section \<open>Frames and guarded updates\<close>

lemma lane_sup_frame: "lane_frame s s' \<Longrightarrow> sup_frame s s'"
  by (simp add: lane_frame_def sup_frame_def)

lemma foldE_sup_frame:
  assumes "foldE f s xs = Inr s'" and "\<And>x s s'. f s x = Inr s' \<Longrightarrow> sup_frame s s'"
  shows "sup_frame s s'"
  using assms(1)
proof (induction xs arbitrary: s)
  case (Cons x xs)
  then obtain t where "f s x = Inr t" "foldE f t xs = Inr s'" by (auto simp: bindE_Inr_iff)
  with Cons.IH assms(2) show ?case by (blast intro: sup_frame_trans)
qed simp

lemma retire_routes_frame: "retire_runtime_recovery_deliveries_tx e actor a b r s = Inr s' \<Longrightarrow> sup_frame s s'"
  unfolding retire_runtime_recovery_deliveries_tx_def
  by (erule foldE_sup_frame) (auto simp: retire_route_delivery_def split: if_splits)

lemma confirm_frame: "confirm_work_purpose_tx e i w v d s = Inr s' \<Longrightarrow> sup_frame s s'"
  by (auto simp: confirm_work_purpose_tx_def bindE_Inr_iff split: option.splits)

lemma residue_frame: "sup_frame s (admission_residue e c s)"
  by (auto simp: admission_residue_def bindE_Inr_iff dest!: command_blocker_frame lane_sup_frame split: sum.splits option.splits)

lemma fence_frame: "sup_frame s (fence_reasoner_turns_tx e i s)"
  by (simp add: fence_reasoner_turns_tx_def)

lemma set_attempt_frame [simp]: "sup_frame s (set_attempt e i st t) = sup_frame s t"
  by (simp add: set_attempt_def)

lemma directive_frame: "take_directive e actor b q s = Inr (s', i) \<Longrightarrow> sup_frame s s'"
  by (auto simp: take_directive_def sup_frame_def split: if_splits option.splits)

lemma resume_stages:
  assumes "resume_fresh e p actor q w s = Inr s'"
  obtains s1 a s2 succ m s3 x where "confirm_work_purpose_tx e (act_id actor) w (rs_expected_purpose_version q) ''resume'' s = Inr s1"
    "resumable_attempt s1 q w = Inr a" "retry_attempt_tx e p (act_id actor) w a (resume_retry q) s1 = Inr (s2, succ)"
    "insert_resumption (new_resumption (act_id actor) q a succ m) s2 = Inr s3" "s' = log_event e x s3"
  using assms by (auto simp: resume_fresh_def resume_paused_tx_def bindE_Inr_iff split: option.splits)

section \<open>Parameters that keep to a relation\<close>

text \<open>
  The parts of the service the model takes as parameters write these tables, when they do, through
  the same guarded statements: what they do is a run of the relation as well.
\<close>

definition continuation_ports_guarded :: "(db \<Rightarrow> db \<Rightarrow> bool) \<Rightarrow> continuation_ports \<Rightarrow> bool" where
  "continuation_ports_guarded R p =
     (\<forall>s w a b r s' adm. kp_recovery_target p s w a b r = Inr (s', adm) \<longrightarrow> R\<^sup>*\<^sup>* s s')"

definition decision_ports_guarded :: "(db \<Rightarrow> db \<Rightarrow> bool) \<Rightarrow> decision_ports \<Rightarrow> bool" where
  "decision_ports_guarded R p = (continuation_ports_guarded R (dp_continuation p) \<and> (\<forall>s. R\<^sup>*\<^sup>* s (dp_backfill p s))
     \<and> (\<forall>i s s'. dp_supersede_terminal p i s = Inr s' \<longrightarrow> R\<^sup>*\<^sup>* s s'))"

section \<open>The continuing service\<close>

inductive continuation_step :: "decision_ports \<Rightarrow> db \<Rightarrow> db \<Rightarrow> bool" for p where
  step_decide: "dispose_boundary_tx e p esc actor i q x s = Inr (s', d) \<Longrightarrow> continuation_step p s s'"
| step_retry: "retry_attempt_tx e (dp_continuation p) actor_id w a r s = Inr (s', a') \<Longrightarrow> continuation_step p s s'"
| step_reply: "reply_fresh e (dp_continuation p) actor y w s = Inr s' \<Longrightarrow> continuation_step p s s'"
| step_resume: "resume_fresh e (dp_continuation p) actor z w s = Inr s' \<Longrightarrow> continuation_step p s s'"
| step_return: "resume_interrupted_target_tx e (dp_continuation p) j actor_id s = Inr s' \<Longrightarrow> continuation_step p s s'"
| step_supervise: "supervision_step s s' \<Longrightarrow> continuation_step p s s'"

section \<open>Operations as runs\<close>

context guarded_statements
begin

lemma ledger_frame: "sup_frame s s' \<Longrightarrow> R\<^sup>*\<^sup>* s s'"
  by (blast intro: by_frame)

section \<open>Replacing an attempt\<close>

lemma reassign_ledger:
  assumes "reassign_work e w waiting kind i th s = Inr s'"
  shows "R s s'"
proof (cases waiting)
  case None
  with assms show ?thesis
    by (auto simp: reassign_work_def intro!: by_set simp: sets_only_def reactivated_work_def reassigned_work_def)
next
  case (Some b)
  with assms have "update_works [COL_ASSIGNED_WORKER] (wait_fence w b) (reassigned_work e i th) s = Inr s'"
    by (auto simp: reassign_work_def bindE_Inr_iff split: if_splits)
  then show ?thesis by (rule by_set) (simp_all add: sets_only_def reassigned_work_def)
qed

lemma consume_ledger:
  assumes "consume_user_needed_boundary_tx e actor w b source succ n m s = Inr s'" and "w_generation w \<le> n"
  shows "R\<^sup>*\<^sup>* s s'"
proof -
  from assms(1) obtain c t where c: "insert_continuation c s = Inr t"
    and u: "update_works [COL_STATE, COL_ATTENTION, COL_GENERATION, COL_USER_NEEDED] (wait_fence w b) (continued_work e n) t = Inr s'"
    by (auto simp: consume_user_needed_boundary_tx_def bindE_Inr_iff split: if_splits)
  have "R t s'"
    by (rule by_work [OF u]) (use assms(2) in \<open>auto simp: sets_only_def continued_work_def wait_fence_def\<close>)
  with by_continuation [OF c] show ?thesis by (rule converse_rtranclp_into_rtranclp [OF _ r_into_rtranclp])
qed

lemma replace_ledger:
  assumes "replace_attempt e p actor w previous q g waiting adm r s = Inr (s', a)"
  shows "R\<^sup>*\<^sup>* s s'"
proof (rule replace_stages [OF assms])
  let ?i = "retry_target previous q" and ?s1 = "retire_attempt e previous (fence_reasoner_turns_tx e (w_id w) s)"
  fix td deps s2 s3 s4 m ds s5 x
  assume s2: "reassign_work e w waiting (rq_kind q) ?i (next_thread w ?i adm) ?s1 = Inr s2" and s3: "insert_attempt a s2 = Inr s3"
    and s4: "message_tx e (work_message actor ?i ASSIGNMENT (retry_payload e w g a q deps) w (a_id a) (''retry:'' @ a_id previous)) s3 = Inr (s4, m, ds)"
    and s5: "(case waiting of None \<Rightarrow> Inr s4
       | Some b \<Rightarrow> consume_user_needed_boundary_tx e actor w b previous a (w_generation w + 1) (m_id m) s4) = Inr s5"
    and x: "s' = log_event e x s5"
  have "R s ?s1" by (rule by_frame) (simp add: retire_attempt_def fence_reasoner_turns_tx_def)
  moreover note reassign_ledger [OF s2]
  moreover have "R s2 s4"
    by (rule by_frame, rule sup_frame_trans [OF _ sup_frame_message [OF s4]])
      (use s3 in \<open>auto simp: insert_attempt_def sup_frame_def split: if_splits\<close>)
  ultimately have "R\<^sup>*\<^sup>* s s4" by (rule ledger_runs(1))
  also have "R\<^sup>*\<^sup>* s4 s5" using s5 by (auto split: option.splits intro: consume_ledger)
  also have "R\<^sup>*\<^sup>* s5 s'" by (rule ledger_frame) (simp add: x)
  finally show ?thesis .
qed

lemma admit_ledger: "admit_managed_worker_command_tx e c s = Inr (s', adm) \<Longrightarrow> R\<^sup>*\<^sup>* s s'"
  by (rule ledger_frame [OF lane_sup_frame [OF admit_frame]])

lemma retry_ledger:
  assumes "retry_attempt_tx e p actor w previous q s = Inr (s', a)"
  shows "R\<^sup>*\<^sup>* s s'"
proof -
  from assms obtain s1 adm g waiting r where a: "retry_admission e actor w previous q s = Inr (s1, adm)"
    and r: "replace_attempt e p actor w previous q g waiting adm r s1 = Inr (s', a)"
    by (auto simp: retry_attempt_tx_def bindE_Inr_iff)
  from a have "R\<^sup>*\<^sup>* s s1" by (auto simp: retry_admission_def dest: admit_ledger split: option.splits)
  with replace_ledger [OF r] show ?thesis by (rule rtranclp_trans [rotated])
qed

lemma recovery_target_ledger:
  "continuation_ports_guarded R p \<Longrightarrow> kp_recovery_target p s w a b r = Inr (s', adm) \<Longrightarrow> R\<^sup>*\<^sup>* s s'"
  unfolding continuation_ports_guarded_def by blast

lemma supersede_terminal_ledger:
  "decision_ports_guarded R p \<Longrightarrow> dp_supersede_terminal p i s = Inr s' \<Longrightarrow> R\<^sup>*\<^sup>* s s'"
  unfolding decision_ports_guarded_def by blast

section \<open>Replies\<close>

lemma recover_route_ledger:
  assumes "recover_route e p actor w a b r s = Inr (s', adm)" and "continuation_ports_guarded R p"
  shows "R\<^sup>*\<^sup>* s s'"
proof -
  from assms(1) obtain s1 where "kp_recovery_target p s w a b r = Inr (s1, adm)"
    and r: "retire_runtime_recovery_deliveries_tx e actor a b r s1 = Inr s'"
    by (auto simp: recover_route_def bindE_Inr_iff)
  with assms(2) have "R\<^sup>*\<^sup>* s s1" by (blast intro: recovery_target_ledger)
  with ledger_frame [OF retire_routes_frame [OF r]] show ?thesis by (rule rtranclp_trans [rotated])
qed

lemma continuation_route_ledger:
  "continuation_route e p actor w a b s = Inr (s', adm) \<Longrightarrow> continuation_ports_guarded R p \<Longrightarrow> R\<^sup>*\<^sup>* s s'"
  by (auto simp: continuation_route_def bindE_Inr_iff dest: recover_route_ledger admit_ledger split: if_splits)

lemma reply_in_place_ledger:
  assumes "reply_in_place e actor q w a b s = Inr (s', x, g, c)" and "w_generation w \<le> ry_expected_generation q"
  shows "R\<^sup>*\<^sup>* s s'"
proof -
  from assms(1) obtain m s1 s2 r where "message_tx e m s = Inr (s1, r)"
    and c: "consume_user_needed_boundary_tx e actor w b a a (ry_expected_generation q) (m_id (fst r)) s1 = Inr s2"
    and s': "s' = s2\<lparr>attempts := update_rows (\<lambda>x. a_id x = a_id a) (\<lambda>x. x\<lparr>a_state := A_WORKING, a_updated_at := env_now e\<rparr>) (attempts s2)\<rparr>"
    by (auto simp: reply_in_place_def bindE_Inr_iff simp del: append_Cons)
  then have "R\<^sup>*\<^sup>* s s1" by (blast intro: ledger_frame sup_frame_message)
  also note consume_ledger [OF c assms(2)]
  also have "R\<^sup>*\<^sup>* s2 s'" by (rule ledger_frame) (simp add: s')
  finally show ?thesis .
qed

lemma reply_waiting_ledger:
  assumes "reply_waiting e p actor q w a b s = Inr s'" and "w_generation w \<le> ry_expected_generation q" and "continuation_ports_guarded R p"
  shows "R\<^sup>*\<^sup>* s s'"
proof -
  from assms(1) obtain s1 adm s2 x g c y where r: "continuation_route e p actor w a b s = Inr (s1, adm)"
    and g: "(if starts_attempt adm then reply_with_attempt e p actor q w a b adm s1 else reply_in_place e actor q w a b s1) = Inr (s2, x, g, c)"
    and s': "s' = log_event e y s2"
    by (auto simp: reply_waiting_def bindE_Inr_iff)
  from r assms(3) have "R\<^sup>*\<^sup>* s s1" by (rule continuation_route_ledger)
  also have "R\<^sup>*\<^sup>* s1 s2"
    using g assms(2) by (auto simp: reply_with_attempt_def bindE_Inr_iff dest: retry_ledger reply_in_place_ledger split: if_splits)
  also have "R\<^sup>*\<^sup>* s2 s'" by (rule ledger_frame) (simp add: s')
  finally show ?thesis .
qed

lemma reply_ledger:
  assumes "reply_fresh e p actor q w s = Inr s'" and "continuation_ports_guarded R p"
  shows "R\<^sup>*\<^sup>* s s'"
proof -
  from assms(1) obtain s1 where c: "confirm_work_purpose_tx e (act_id actor) w (ry_expected_purpose_version q) ''requester_reply'' s = Inr s1"
    by (auto simp: reply_fresh_def bindE_Inr_iff)
  note r = assms(1) [unfolded reply_fresh_def c, simplified]
  then obtain a where a: "latest_attempt_tx s1 (ry_work_id q) = Some a" by (cases "latest_attempt_tx s1 (ry_work_id q)") auto
  with r have ok: "waiting_state_ok q w (Some a)" by (auto split: if_splits)
  with r a obtain b where b: "current_user_needed_boundary_tx s1 (act_id actor) w a = Inr (Some b)"
    by (cases "current_user_needed_boundary_tx s1 (act_id actor) w a") (auto split: option.splits)
  with r a ok have "reply_waiting e p (act_id actor) q w a b s1 = Inr s'" by (auto split: if_splits)
  moreover have "w_generation w = ry_expected_generation q" using ok by (simp add: waiting_state_ok_def)
  ultimately show ?thesis
    using ledger_frame [OF confirm_frame [OF c]] reply_waiting_ledger [OF _ _ assms(2)] by (auto intro: rtranclp_trans)
qed

section \<open>Resumptions\<close>

lemma resume_ledger:
  assumes "resume_fresh e p actor q w s = Inr s'"
  shows "R\<^sup>*\<^sup>* s s'"
proof (rule resume_stages [OF assms])
  fix s1 a s2 succ m s3 x
  assume c: "confirm_work_purpose_tx e (act_id actor) w (rs_expected_purpose_version q) ''resume'' s = Inr s1"
    and r: "retry_attempt_tx e p (act_id actor) w a (resume_retry q) s1 = Inr (s2, succ)"
    and i: "insert_resumption (new_resumption (act_id actor) q a succ m) s2 = Inr s3" and s': "s' = log_event e x s3"
  note ledger_frame [OF confirm_frame [OF c]]
  also note retry_ledger [OF r]
  also note r_into_rtranclp [of R, OF by_resumption [OF i]]
  also have "R\<^sup>*\<^sup>* s3 s'" by (rule ledger_frame) (simp add: s')
  finally show ?thesis .
qed

section \<open>Returning to interrupted Works\<close>

lemma return_in_place_ledger:
  assumes "return_in_place e actor i w a s = Inr (s', g)"
  shows "R\<^sup>*\<^sup>* s s'"
proof -
  let ?rest = "\<lambda>s1. case a of None \<Rightarrow> s1 | Some x \<Rightarrow> if a_state x \<noteq> A_SUSPENDED then s1
    else s1\<lparr>attempts := update_rows (\<lambda>r. a_id r = a_id x) (\<lambda>r. r\<lparr>a_state := A_WORKING, a_updated_at := env_now e\<rparr>) (attempts s1)\<rparr>"
  from assms obtain s1 where u: "update_works [COL_STATE, COL_ATTENTION, COL_GENERATION, COL_SUSPENDED_BY] (\<lambda>x. w_id x = w_id w) (returned_work e) s = Inr s1"
    by (auto simp: return_in_place_def bindE_Inr_iff)
  note rest = assms [unfolded return_in_place_def u, simplified, unfolded Let_def]
  have "sup_frame s1 (?rest s1)" by (simp split: option.split)
  moreover have "sup_frame (?rest s1) s'"
  proof (cases a)
    case None
    with rest show ?thesis by simp
  next
    case (Some x)
    with rest show ?thesis by (auto simp: bindE_Inr_iff simp del: append_Cons dest!: sup_frame_message)
  qed
  ultimately have "R s1 s'" by (blast intro: sup_frame_trans by_frame)
  moreover have "R s s1" by (rule by_set [OF u]) (simp_all add: sets_only_def returned_work_def)
  ultimately show ?thesis by (blast intro: converse_rtranclp_into_rtranclp r_into_rtranclp)
qed

lemma return_with_attempt_ledger:
  assumes "return_with_attempt e p actor w a adm s = Inr (s', g)"
  shows "R\<^sup>*\<^sup>* s s'"
proof -
  from assms obtain q s1 x where r: "retry_attempt_tx e p actor w a q s = Inr (s1, x)"
    and u: "update_works [COL_SUSPENDED_BY] (\<lambda>y. w_id y = w_id w) (\<lambda>y. y\<lparr>w_suspended_by_work_item_id := None, w_updated_at := env_now e\<rparr>) s1 = Inr s'"
    by (auto simp: return_with_attempt_def bindE_Inr_iff)
  have "R s1 s'" by (rule by_set [OF u]) (simp_all add: sets_only_def)
  with retry_ledger [OF r] show ?thesis by (rule rtranclp.rtrancl_into_rtrancl)
qed

lemma return_to_ledger:
  assumes "return_to e p actor i w a adm s = Inr s'"
  shows "R\<^sup>*\<^sup>* s s'"
proof -
  from assms obtain s1 g x where "(case a of Some x \<Rightarrow> if starts_attempt adm then return_with_attempt e p actor w x adm s
           else return_in_place e actor i w a s | None \<Rightarrow> return_in_place e actor i w a s) = Inr (s1, g)" and s': "s' = log_event e x s1"
    by (auto simp: return_to_def bindE_Inr_iff)
  then have "R\<^sup>*\<^sup>* s s1" by (auto dest: return_with_attempt_ledger return_in_place_ledger split: option.splits if_splits)
  also have "R\<^sup>*\<^sup>* s1 s'" by (rule ledger_frame) (simp add: s')
  finally show ?thesis .
qed

lemma return_ledger:
  assumes "resume_interrupted_target_tx e p i actor s = Inr s'"
  shows "R\<^sup>*\<^sup>* s s'"
proof (cases "interrupted_target s i")
  case None
  with assms show ?thesis by (simp add: resume_interrupted_target_tx_def)
next
  case (Some w)
  let ?s1 = "fence_reasoner_turns_tx e (w_id w) s"
  have f: "R\<^sup>*\<^sup>* s ?s1" by (rule ledger_frame [OF fence_frame])
  show ?thesis
  proof (cases "latest_attempt_tx ?s1 (w_id w)")
    case None
    with assms Some have "return_to e p actor i w None None ?s1 = Inr s'" by (simp add: resume_interrupted_target_tx_def)
    with f show ?thesis by (blast intro: rtranclp_trans return_to_ledger)
  next
    case (Some a)
    let ?c = "continuation_command actor CMD_RESUME_INTERRUPTED w a"
    show ?thesis
    proof (cases "admit_managed_worker_command_tx e ?c ?s1")
      case (Inr r)
      obtain s2 adm where r: "r = (s2, adm)" by (cases r)
      with Inr Some \<open>interrupted_target s i = Some w\<close> assms have "return_to e p actor i w (Some a) adm s2 = Inr s'"
        by (simp add: resume_interrupted_target_tx_def)
      with f admit_ledger [OF Inr [unfolded r]] show ?thesis by (blast intro: rtranclp_trans return_to_ledger)
    next
      case (Inl err)
      with Some \<open>interrupted_target s i = Some w\<close> assms obtain x where "s' = log_event e x (admission_residue e ?c ?s1)"
        by (auto simp: resume_interrupted_target_tx_def Let_def split: option.splits)
      then have "sup_frame ?s1 s'" by (simp add: residue_frame)
      with f show ?thesis by (blast intro: rtranclp_trans ledger_frame)
    qed
  qed
qed

section \<open>Decisions\<close>

lemma set_work_ledger: "set_work e i st owner s = Inr s' \<Longrightarrow> st \<noteq> W_COMPLETED \<Longrightarrow> R s s'"
  unfolding set_work_def by (erule by_set) (simp_all add: sets_only_def)

lemma framed_step: "sup_frame s t \<Longrightarrow> R t s' \<Longrightarrow> R\<^sup>*\<^sup>* s s'"
  by (blast intro: converse_rtranclp_into_rtranclp by_frame r_into_rtranclp)

lemma accept_ledger: "accept_boundary e w a review s = Inr s' \<Longrightarrow> R\<^sup>*\<^sup>* s s'"
  by (auto simp: accept_boundary_def bindE_Inr_iff split: option.splits elim!: framed_step [rotated, OF set_work_ledger])

lemma cancel_ledger:
  assumes "cancel_boundary_work e w a s = Inr s'"
  shows "R\<^sup>*\<^sup>* s s'"
  by (rule framed_step [OF _ by_set [OF assms [unfolded cancel_boundary_work_def]]])
    (simp_all add: fence_frame sets_only_def boundary_canceled_work_def)

lemma wait_ledger:
  "perform_kind WAIT_USER e p actor w a b q s = Inr s' \<Longrightarrow> R\<^sup>*\<^sup>* s s'"
  unfolding perform_kind.simps by (rule framed_step [OF _ by_set [OF _ user_needed_sets_only]]) (auto simp: user_needed_work_def)

lemma continue_in_place_ledger:
  assumes "continue_in_place e actor w a b q i s = Inr s'"
  shows "R\<^sup>*\<^sup>* s s'"
proof -
  from assms obtain s1 m r where w: "set_work e (w_id w) W_ACTIVE AO_WORKER (set_attempt e (a_id a) A_WORKING s) = Inr s1"
    and m: "message_tx e m s1 = Inr (s', r)"
    by (auto simp: continue_in_place_def bindE_Inr_iff simp del: append_Cons)
  have "R\<^sup>*\<^sup>* s s1" by (rule framed_step [OF _ set_work_ledger [OF w]]) simp_all
  with ledger_frame [OF sup_frame_message [OF m]] show ?thesis by (rule rtranclp_trans [rotated])
qed

lemma continue_admitted_ledger:
  assumes "continue_admitted e p actor w a b q s = Inr s'"
  shows "R\<^sup>*\<^sup>* s s'"
proof -
  from assms obtain s1 adm s2 i where a: "admit_managed_worker_command_tx e (continuation_command actor (command_of (dq_kind q)) w a) s = Inr (s1, adm)"
    and d: "take_directive e actor b q s1 = Inr (s2, i)"
    and r: "R\<^sup>*\<^sup>* s2 s'"
    by (auto simp: continue_admitted_def bindE_Inr_iff dest: retry_ledger continue_in_place_ledger split: if_splits)
  from admit_ledger [OF a] ledger_frame [OF directive_frame [OF d]] r show ?thesis by (blast intro: rtranclp_trans)
qed

lemma continue_recovered_ledger:
  "continue_recovered e p actor w a b q s = Inr s' \<Longrightarrow> continuation_ports_guarded R p \<Longrightarrow> R\<^sup>*\<^sup>* s s'"
  by (auto simp: continue_recovered_def Let_def bindE_Inr_iff intro: rtranclp_trans dest!: recover_route_ledger retry_ledger)

lemma perform_ledger:
  assumes "perform_decision e p actor w a b q s = Inr s'" and "continuation_ports_guarded R (dp_continuation p)"
  shows "R\<^sup>*\<^sup>* s s'"
  using assms
  by (cases "dq_kind q") (auto simp: perform_decision_def retry_decided_def bindE_Inr_iff split: if_splits
      dest: pause_work_ledger accept_ledger cancel_ledger retry_ledger continue_recovered_ledger continue_admitted_ledger
      wait_ledger [unfolded perform_kind.simps])

lemma commit_ledger:
  assumes "commit_decision e p actor w a b t q s = Inr (s', d)" and "decision_ports_guarded R p"
  shows "R\<^sup>*\<^sup>* s s'"
proof -
  from assms(1) obtain s1 s2 s3 s4 x where i: "insert_disposition d s = Inr s1" and p: "perform_decision e p actor w a b q s1 = Inr s2"
    and h: "hand_off e actor w a q d (handle_boundary_deliveries_tx e (b_id b) actor (''boundary-disposition:'' @ bd_id d)
        (complete_turn e t b d s2)) = Inr s3" and s4: "s4 = log_event e x s3"
    and f: "(if dq_kind q = CANCEL_WORK then finish_canceled e p actor w s4 else Inr s4) = Inr s'"
    by (auto simp: commit_decision_def Let_def bindE_Inr_iff simp del: append_Cons split del: if_split)
  have "sup_frame s2 (complete_turn e t b d s2)" by (simp add: complete_turn_def)
  then have h2: "sup_frame s2 (handle_boundary_deliveries_tx e (b_id b) actor (''boundary-disposition:'' @ bd_id d) (complete_turn e t b d s2))"
    by (rule sup_frame_trans [OF _ sup_frame_handle])
  have h3: "sup_frame s2 s4" unfolding s4 sup_frame_log
    using h by (auto simp: hand_off_def bindE_Inr_iff split: if_splits intro: sup_frame_trans [OF h2] dest!: sup_frame_message
        simp del: append_Cons)
  note ledger_frame [OF sup_frame_insert(2) [OF i]]
  also have "R\<^sup>*\<^sup>* s1 s2" using perform_ledger [OF p] assms(2) by (simp add: decision_ports_guarded_def)
  also note ledger_frame [OF h3]
  also have "R\<^sup>*\<^sup>* s4 s'"
    using f assms(2) by (auto simp: finish_canceled_def bindE_Inr_iff split: if_splits
        intro: rtranclp_trans [OF supersede_terminal_ledger return_ledger])
  finally show ?thesis .
qed

lemma decide_ledger:
  "decide e p esc actor w b t q s = Inr (s', d) \<Longrightarrow> decision_ports_guarded R p \<Longrightarrow> R\<^sup>*\<^sup>* s s'"
  by (auto simp: decide_def bindE_Inr_iff dest: commit_ledger escalate_ledger split: option.splits if_splits sum.splits)

lemma dispose_ledger:
  assumes "dispose_boundary_tx e p esc actor i q x s = Inr (s', d)" and "decision_ports_guarded R p"
  shows "R\<^sup>*\<^sup>* s s'"
proof -
  have b: "R\<^sup>*\<^sup>* s (dp_backfill p s)" using assms(2) by (simp add: decision_ports_guarded_def)
  from assms(1) obtain bd w where r: "(case fetchone (\<lambda>d. bd_boundary_id d = i) (dispositions (dp_backfill p s)) of
       Some d \<Rightarrow> if replays_decision e q d then Inr (dp_backfill p s, d)
         else Inl (ConflictError ''boundary was already disposed differently'' [(''disposition_id'', jstr (bd_id d))])
     | None \<Rightarrow> bindE (confirm_work_purpose_tx e (act_id actor) w (dq_expected_purpose_version q) ''boundary_disposition'' (dp_backfill p s))
         (\<lambda>s1. bindE (undecided e s1 actor bd w q) (\<lambda>t. decide e p esc (act_id actor) w bd t q s1))) = Inr (s', d)"
    by (auto simp: dispose_boundary_tx_def Let_def bindE_Inr_iff)
  show ?thesis
  proof (cases "fetchone (\<lambda>d. bd_boundary_id d = i) (dispositions (dp_backfill p s))")
    case (Some y)
    with r b show ?thesis by (auto split: if_splits)
  next
    case None
    with r obtain s1 t where "confirm_work_purpose_tx e (act_id actor) w (dq_expected_purpose_version q) ''boundary_disposition'' (dp_backfill p s) = Inr s1"
      and t: "decide e p esc (act_id actor) w bd t q s1 = Inr (s', d)" by (auto simp: bindE_Inr_iff)
    then have "R\<^sup>*\<^sup>* (dp_backfill p s) s1" by (blast intro: ledger_frame confirm_frame)
    with b decide_ledger [OF t assms(2)] show ?thesis by (blast intro: rtranclp_trans)
  qed
qed

lemma continuation_step_ledger: "continuation_step p s s' \<Longrightarrow> decision_ports_guarded R p \<Longrightarrow> R\<^sup>*\<^sup>* s s'"
  by (induction rule: continuation_step.induct)
    (auto intro: dispose_ledger retry_ledger reply_ledger resume_ledger return_ledger supervision_step_ledger simp: decision_ports_guarded_def)

lemma continuation_run_ledger:
  "(continuation_step p)\<^sup>*\<^sup>* s t \<Longrightarrow> decision_ports_guarded R p \<Longrightarrow> R\<^sup>*\<^sup>* s t"
  by (induction rule: rtranclp_induct) (auto intro: rtranclp_trans continuation_step_ledger)

end

text \<open>Continuing refines the ledger. Every run of decisions, retries, replies, resumptions, returns
  from interrupts and supervision is a run of the guarded statements of the database, so in every
  state it reaches a Work that waits for its requester points to its boundary and a paused Work is
  suspended and points to a recorded pause of itself.\<close>

theorem continuation_refines_ledger:
  assumes "(continuation_step p)\<^sup>*\<^sup>* s t" and "decision_ports_guarded ledger_step p" and "supervision_pointers_ok s"
  shows "ledger_step\<^sup>*\<^sup>* s t \<and> supervision_pointers_ok t"
  using ledger.continuation_run_ledger [OF assms(1,2)] ledger_run_pointers assms(3) by blast

section \<open>A pause is consumed once\<close>

lemma ledger_resumptions: "ledger_step s s' \<Longrightarrow> \<exists>news. resumptions s' = resumptions s @ news"
  by (erule ledger_stepE)
    (auto simp: insert_pause_def insert_resumption_def insert_continuation_def insert_work_def update_works_def split: if_splits)

lemma ledger_run_resumed: "ledger_step\<^sup>*\<^sup>* s t \<Longrightarrow> resumed s b \<Longrightarrow> resumed t b"
  by (induction rule: rtranclp_induct) (auto simp: resumed_def dest!: ledger_resumptions)

lemma resume_recorded:
  assumes "resume_fresh e p actor q w s = Inr s'"
  shows "resumed s' (rs_pause_boundary_id q)"
  using assms by (rule resume_stages) (auto simp: resumed_def insert_resumption_def new_resumption_def split: if_splits)

lemma resumable_unresumed: "resumable_attempt s q w = Inr a \<Longrightarrow> \<not> resumed s (rs_pause_boundary_id q)"
  by (auto simp: resumable_attempt_def pause_view_tx_def pause_current_def bindE_Inr_iff
      dest!: fetchone_SomeD split: if_splits option.splits)

text \<open>C11: A pause is resumed once. After a resumption of a pause has succeeded, whatever decisions,
  retries, replies, returns and further resumptions run, no other request resumes the same pause,
  with whatever key, actor or expected generation.\<close>

theorem paused_work_resumed_once:
  assumes "resume_fresh e (dp_continuation p) actor q w s = Inr s'" and "(continuation_step p)\<^sup>*\<^sup>* s' t" and "decision_ports_guarded ledger_step p"
    and "rs_pause_boundary_id q' = rs_pause_boundary_id q"
  shows "\<exists>err. resume_fresh e' (dp_continuation p) actor' q' w' t = Inl err"
proof (rule ccontr)
  assume "\<nexists>err. resume_fresh e' (dp_continuation p) actor' q' w' t = Inl err"
  then obtain t' where "resume_fresh e' (dp_continuation p) actor' q' w' t = Inr t'"
    by (cases "resume_fresh e' (dp_continuation p) actor' q' w' t") auto
  then obtain t1 a where c: "confirm_work_purpose_tx e' (act_id actor') w' (rs_expected_purpose_version q') ''resume'' t = Inr t1"
    and r: "resumable_attempt t1 q' w' = Inr a" by (rule resume_stages)
  from ledger_run_resumed [OF ledger.continuation_run_ledger [OF assms(2,3)] resume_recorded [OF assms(1)]]
  have "resumed t1 (rs_pause_boundary_id q)" using confirm_frame [OF c] by (simp add: resumed_def sup_frame_def)
  with resumable_unresumed [OF r] assms(4) show False by simp
qed

section \<open>A paused Work on a managed lane\<close>

text \<open>The sample Work after its pause, on the thread of a managed Worker whose transport has stopped.\<close>

definition sample_lane_env :: env where
  "sample_lane_env = sample_env\<lparr>env_sha := \<lambda>_. ''h''\<rparr>"

definition sample_lane_work :: work_row where
  "sample_lane_work = sample_sup_work\<lparr>w_state := W_SUSPENDED, w_attention_owner := AO_NONE, w_generation := 3,
     w_paused_boundary_id := Some ''b'', w_managed_worker_thread_id := Some ''th'', w_managed_worker_thread_generation := Some 1\<rparr>"

definition sample_lane_attempt :: attempt_row where
  "sample_lane_attempt = sample_attempt\<lparr>a_state := A_SUSPENDED\<rparr>"

definition sample_lane_db :: db where
  "sample_lane_db = sample_decided_db\<lparr>works := [sample_lane_work], attempts := [sample_lane_attempt],
     pauses := [\<lparr>wz_boundary_id = ''b'', wz_work_item_id = ''w'', wz_attempt_id = ''a'', wz_source_generation = 2,
       wz_pause_generation = 3, wz_paused_by = ''c'', wz_created_at = 95\<rparr>],
     messages := [sample_notice], deliveries := [(sample_delivery HANDLED None '''')\<lparr>d_message_id := ''n'', d_recipient_id := ''c'',
       d_recipient_attachment_id := Some ''t''\<rparr>],
     specs := [\<lparr>ms_id = ''sp'', ms_attachment_id = ''t'', ms_attachment_generation = 1, ms_principal_id = ''k'',
       ms_runtime_session_id = ''r'', ms_enrollment_id = ''n'', ms_adapter = ''codex'', ms_workspace_ref = '''',
       ms_catalog_target_id = '''', ms_provider_scope_digest = '''', ms_state = ''enabled''\<rparr>],
     threads := [\<lparr>mt_id = ''th'', mt_managed_spec_id = ''sp'', mt_state = ''active'', mt_generation = 1\<rparr>],
     epochs := [\<lparr>te_id = ''ep'', te_thread_id = ''th'', te_generation = 1, te_connection_generation = 1,
       te_runtime_session_id = ''r'', te_enrollment_id = ''n'', te_retired_at = None\<rparr>],
     runtimes := [\<lparr>r_id = ''r'', r_principal_id = ''k'', r_adapter = ''codex'', r_endpoint = '''', r_native_session_id = '''',
       r_state = R_STOPPED, r_lease_expires_at = 900, r_metadata = JObj [], r_updated_at = 90\<rparr>],
     enrollments := [\<lparr>we_id = ''n'', we_principal_id = ''k'', we_runtime_session_id = ''r'', we_state = E_REVOKED,
       we_generation = 1, we_required_tools_digest = ''tools'', we_discovered_tools_digest = ''tools'',
       we_protocol_version = ''1'', we_heartbeat_sequence = 4, we_managed = True, we_lease_expires_at = Some 900\<rparr>]\<rparr>"

definition sample_resume :: resume_request where
  "sample_resume = \<lparr>rs_work_id = ''w'', rs_expected_generation = 3, rs_pause_boundary_id = ''b'', rs_reason = u ''window closed'',
     rs_instruction = u ''go on'', rs_resume_evidence = u ''announced'', rs_idempotency_key = ''key'',
     rs_expected_purpose_version = None\<rparr>"

abbreviation sample_cao :: actor where
  "sample_cao \<equiv> bare_actor ''c'' CAO"

lemma sample_resumed: "\<exists>t. resume_fresh sample_lane_env sample_continuation_ports sample_cao sample_resume sample_lane_work sample_lane_db = Inr t"
proof -
  have "is_ok (resume_fresh sample_lane_env sample_continuation_ports sample_cao sample_resume sample_lane_work sample_lane_db)"
    by code_simp
  then show ?thesis by (auto simp: is_ok_def split: sum.splits)
qed

lemmas sample_lane_defs = sample_lane_db_def sample_lane_work_def sample_lane_attempt_def sample_lane_env_def sample_resume_def sample_sup_defs

lemma sample_guarded: "decision_ports_guarded R sample_ports"
  by (simp add: decision_ports_guarded_def continuation_ports_guarded_def sample_ports_def sample_continuation_ports_def)

lemma sample_dp [simp]: "dp_continuation sample_ports = sample_continuation_ports"
  by (simp add: sample_ports_def)

lemma sample_retried:
  obtains s' a s1 adm where "retry_attempt_tx sample_lane_env sample_continuation_ports ''c'' sample_lane_work sample_lane_attempt
       (resume_retry sample_resume) sample_lane_db = Inr (s', a)"
    "admit_managed_worker_command_tx sample_lane_env (retry_command ''c'' sample_lane_work sample_lane_attempt
       (resume_retry sample_resume)) sample_lane_db = Inr (s1, Some adm)"
proof -
  from sample_resumed obtain t where "resume_fresh sample_lane_env sample_continuation_ports sample_cao sample_resume sample_lane_work
    sample_lane_db = Inr t" by blast
  then obtain s1 a s2 succ where c: "confirm_work_purpose_tx sample_lane_env (act_id sample_cao) sample_lane_work
       (rs_expected_purpose_version sample_resume) ''resume'' sample_lane_db = Inr s1"
    and a: "resumable_attempt s1 sample_resume sample_lane_work = Inr a"
    and r: "retry_attempt_tx sample_lane_env sample_continuation_ports (act_id sample_cao) sample_lane_work a (resume_retry sample_resume) s1
      = Inr (s2, succ)"
    by (rule resume_stages)
  have no_revision: "current_revision sample_lane_db i = None" for i by (simp add: current_revision_def sample_lane_defs)
  have "confirm_work_purpose_tx sample_lane_env (act_id sample_cao) sample_lane_work (rs_expected_purpose_version sample_resume)
      ''resume'' sample_lane_db = Inr sample_lane_db"
    using no_revision by (simp add: confirm_work_purpose_tx_def confirm_work_purpose_def confirm_worker_purpose_tx_def
      worker_purpose_tx_def sample_resume_def)
  with c have s1: "s1 = sample_lane_db" by simp
  from a have "latest_attempt_tx s1 ''w'' = Some a"
    by (auto simp: resumable_attempt_def bindE_Inr_iff sample_resume_def split: if_splits option.splits)
  then have a': "a = sample_lane_attempt" by (simp add: s1 latest_attempt_tx_def sample_lane_defs)
  have managed: "managed_principal sample_lane_db (retry_target sample_lane_attempt (resume_retry sample_resume))"
    by (simp add: managed_principal_def retry_target_def resume_retry_def sample_lane_defs)
  have "rq_admission (resume_retry sample_resume) = None" by (simp add: resume_retry_def)
  from retry_stages [OF r [unfolded s1 a'] this managed] that r show thesis by (simp add: s1 a' bare_actor_def) metis
qed

lemma continuation_refines_ledger_witness:
  "\<exists>t. resume_fresh sample_lane_env sample_continuation_ports sample_cao sample_resume sample_lane_work sample_lane_db = Inr t
     \<and> supervision_pointers_ok t"
proof -
  from sample_resumed obtain t where t: "resume_fresh sample_lane_env sample_continuation_ports sample_cao sample_resume sample_lane_work
    sample_lane_db = Inr t" by blast
  have "continuation_step sample_ports sample_lane_db t" by (rule step_resume [where p = sample_ports, unfolded sample_dp, OF t])
  moreover have "supervision_pointers_ok sample_lane_db"
    by (simp add: supervision_pointers_ok_def pause_pointer_held_def user_needed_contract_def sample_lane_defs)
  ultimately show ?thesis using continuation_refines_ledger [OF r_into_rtranclp [of "continuation_step sample_ports"] sample_guarded] t by blast
qed

lemma paused_work_resumed_once_witness:
  "\<exists>t err. resume_fresh sample_lane_env sample_continuation_ports sample_cao sample_resume sample_lane_work sample_lane_db = Inr t
     \<and> resume_fresh sample_lane_env sample_continuation_ports sample_cao sample_resume sample_lane_work t = Inl err"
proof -
  from sample_resumed obtain t where t: "resume_fresh sample_lane_env sample_continuation_ports sample_cao sample_resume sample_lane_work
    sample_lane_db = Inr t" by blast
  from paused_work_resumed_once [OF _ rtranclp.rtrancl_refl sample_guarded refl, unfolded sample_dp, OF t] t show ?thesis by blast
qed



end
