(* ===== verification/Provider_Circuit.thy ===== *)
theory Provider_Circuit
  imports Provider_Probe Events
begin

text \<open>
  The circuit of a rate-limited provider scope, from \<open>service.py\<close>: a typed rate limit of a managed
  Worker opens it (\<open>_record_provider_rate_limit_tx\<close>), one assignment made after that boundary may
  take its half-open slot (\<open>_provider_probe_candidate_tx\<close>, \<open>_claim_provider_runtime_probe_tx\<close>,
  \<open>provider_runtime_dispatch_eligibility\<close>), and the progress of that probe closes it
  (\<open>_close_provider_rate_limit_probe_tx\<close>). \<open>Provider_Probe\<close> holds the fencing and the release of the
  slot.

  The proof that the conversation which owned the throttled Worker was closed and may be succeeded
  (\<open>_provider_closed_source_takeover_sequence_tx\<close>) is a parameter: it yields the sequence of the
  closing event, if there is one. \<open>scan\<close> is \<open>dispatcher_recovery_scan_seconds\<close>.
\<close>

type_synonym takeover = "db \<Rightarrow> string \<Rightarrow> ident \<Rightarrow> int option"

datatype probe_answer = PROBE_ALLOWED | PROBE_PARKED timestamp

section \<open>Documents of events\<close>

definition jtrue :: "json \<Rightarrow> string \<Rightarrow> bool" where
  "jtrue j k = (jget j k = Some (JBool True) \<or> jget j k = Some (JInt 1))"

definition recorded_boundary :: "boundary_row \<Rightarrow> event_row \<Rightarrow> bool" where
  "recorded_boundary b ev = (e_event_type ev = ''boundary.recorded'' \<and> e_aggregate_type ev = ''work_item''
     \<and> e_aggregate_id ev = b_work_item_id b \<and> jget (e_data ev) ''boundary_id'' = Some (jstr (b_id b)))"

definition worker_boundary :: "boundary_row \<Rightarrow> attempt_row \<Rightarrow> event_row \<Rightarrow> bool" where
  "worker_boundary b a ev = (recorded_boundary b ev \<and> e_actor_id ev = a_worker_id a
     \<and> jget (e_data ev) ''kind'' = Some (jstr (boundary_kind_value (b_kind b)))
     \<and> jget (e_data ev) ''runtime_state'' = Some (jstr (runtime_state_value (b_runtime_state b)))
     \<and> jget (e_data ev) ''generation'' = Some (JInt (b_generation b)))"

definition rate_limited_boundary :: "boundary_row \<Rightarrow> bool" where
  "rate_limited_boundary b = (b_kind b = FAILURE \<and> jtrue (b_metadata b) ''runtime_recovery''
     \<and> jget (b_metadata b) ''reason'' = Some (jstr ''runtime_provider_rate_limited''))"

definition names_work :: "work_row \<Rightarrow> string \<Rightarrow> event_row \<Rightarrow> bool" where
  "names_work w ty ev = (e_event_type ev = ty \<and> e_aggregate_type ev = ''work_item'' \<and> e_aggregate_id ev = w_id w)"

definition names_attempt :: "attempt_row \<Rightarrow> event_row \<Rightarrow> bool" where
  "names_attempt a ev = (e_event_type ev = ''attempt.created'' \<and> e_aggregate_type ev = ''attempt'' \<and> e_aggregate_id ev = a_id a)"

definition from_supervisor :: "work_row \<Rightarrow> message_row \<Rightarrow> event_row \<Rightarrow> bool" where
  "from_supervisor w m ev = (sql_eq (Some (e_actor_id ev)) (w_supervisor_id w) \<and> e_causation_id ev = m_id m)"

text \<open>The event of the instruction that started the throttled attempt.\<close>

definition source_instruction :: "work_row \<Rightarrow> attempt_row \<Rightarrow> message_row \<Rightarrow> event_row \<Rightarrow> bool" where
  "source_instruction w a m ev = (from_supervisor w m ev
     \<and> (names_work w ''work.assigned'' ev \<and> jget (e_data ev) ''attempt_id'' = Some (jstr (a_id a))
          \<and> jget (e_data ev) ''worker_id'' = Some (jstr (a_worker_id a))
        \<or> names_work w ''work.goal_replaced'' ev \<and> jget (e_data ev) ''attempt_id'' = Some (jstr (a_id a))
        \<or> names_attempt a ev \<and> jget (e_data ev) ''work_item_id'' = Some (jstr (w_id w))))"

text \<open>The event of the instruction that names the boundary of the rate limit and came after it.\<close>

definition probe_instruction :: "work_row \<Rightarrow> attempt_row \<Rightarrow> message_row \<Rightarrow> boundary_row \<Rightarrow> int \<Rightarrow> event_row \<Rightarrow> bool" where
  "probe_instruction w a m b floor ev = (from_supervisor w m ev \<and> e_sequence ev > floor
     \<and> jget (e_data ev) ''provider_source_boundary_id'' = Some (jstr (b_id b))
     \<and> (names_work w ''work.assigned'' ev \<or> names_work w ''work.goal_replaced'' ev \<or> names_attempt a ev))"

section \<open>The candidate\<close>

text \<open>The spec of a runtime, by its present runtime or by an earlier epoch of its thread.\<close>

definition spec_of_runtime :: "db \<Rightarrow> ident option \<Rightarrow> spec_row \<Rightarrow> bool" where
  "spec_of_runtime s runtime sp = (sql_eq (Some (ms_runtime_session_id sp)) runtime
     \<or> list_ex (\<lambda>ep. sql_eq (Some (te_runtime_session_id ep)) runtime
         \<and> list_ex (\<lambda>t. mt_id t = te_thread_id ep \<and> mt_managed_spec_id t = ms_id sp) (threads s)) (epochs s))"

definition attachment_pair :: "db \<Rightarrow> circuit_row \<Rightarrow> ident \<Rightarrow> (spec_row \<times> attachment_row \<times> spec_row \<times> attachment_row) option" where
  "attachment_pair s c runtime_id = fetchone (\<lambda>_. True)
     [(sp, pa, so, sa). sp \<leftarrow> specs s, ms_runtime_session_id sp = runtime_id \<and> ms_provider_scope_digest sp = pc_scope_digest c,
        pa \<leftarrow> attachments s, ca_id pa = ms_attachment_id sp,
        so \<leftarrow> specs s, spec_of_runtime s (pc_source_runtime_session_id c) so,
        sa \<leftarrow> attachments s, ca_id sa = ms_attachment_id so]"

definition instruction_floor :: "takeover \<Rightarrow> db \<Rightarrow> circuit_row \<Rightarrow> ident \<Rightarrow> int option" where
  "instruction_floor tk s c runtime_id =
     (case attachment_pair s c runtime_id of
        None \<Rightarrow> None
      | Some (sp, pa, so, sa) \<Rightarrow>
          if ca_id pa \<noteq> ca_id sa \<or> ms_attachment_generation sp \<noteq> ms_attachment_generation so
          then tk s (pc_scope_digest c) (ca_id pa)
          else Some (pc_source_boundary_sequence c))"

text \<open>The assignment that asks for the slot: an enabled Claude Worker under a live supervisor.\<close>

definition probe_side ::
  "env \<Rightarrow> db \<Rightarrow> circuit_row \<Rightarrow> ident \<Rightarrow> ident \<Rightarrow> ident
   \<Rightarrow> (attempt_row \<times> message_row \<times> work_row \<times> spec_row \<times> attachment_row) list" where
  "probe_side e s c runtime_id message_id attempt_id =
     [(a, m, w, sp, pa).
        a \<leftarrow> attempts s, a_id a = attempt_id \<and> a_runtime_session_id a = Some runtime_id,
        m \<leftarrow> messages s, m_id m = message_id \<and> m_attempt_id m = Some (a_id a)
          \<and> m_work_item_id m = Some (a_work_item_id a) \<and> m_kind m = ASSIGNMENT,
        w \<leftarrow> works s, w_id w = a_work_item_id a \<and> w_assigned_worker_id w = a_worker_id a
          \<and> w_supervisor_id w = Some (m_sender_id m),
        p \<leftarrow> principals s, sql_eq (Some (p_id p)) (w_supervisor_id w) \<and> p_role p = CAO,
        sp \<leftarrow> specs s, sql_eq (Some (ms_runtime_session_id sp)) (a_runtime_session_id a) \<and> ms_principal_id sp = a_worker_id a
          \<and> ms_state sp = ''enabled'' \<and> ms_adapter sp = ''claude'' \<and> ms_provider_scope_digest sp = pc_scope_digest c,
        r \<leftarrow> runtimes s, r_id r = ms_runtime_session_id sp \<and> r_principal_id r = ms_principal_id sp,
        en \<leftarrow> enrollments s, we_id en = ms_enrollment_id sp \<and> we_runtime_session_id en = r_id r
          \<and> we_principal_id en = r_principal_id r \<and> we_state en \<in> {E_AWAITING_HANDSHAKE, E_READY},
        pa \<leftarrow> attachments s, ca_id pa = ms_attachment_id sp \<and> sql_eq (Some (ca_principal_id pa)) (w_supervisor_id w),
        sa \<leftarrow> attachments s, sql_eq (Some (ca_id sa)) (w_supervisor_attachment_id w)
          \<and> sql_eq (Some (ca_principal_id sa)) (w_supervisor_id w)
          \<and> ca_project_scope_digest sa = ca_project_scope_digest pa
          \<and> ca_state sa = ''active'' \<and> ca_lease_expires_at sa > env_now e]"

text \<open>The attempt that met the limit, with its assignment, its boundary and the events of both.\<close>

definition source_side :: "db \<Rightarrow> circuit_row \<Rightarrow> (spec_row \<times> attachment_row \<times> boundary_row) list" where
  "source_side s c =
     [(so, sa, b).
        so \<leftarrow> specs s, spec_of_runtime s (pc_source_runtime_session_id c) so \<and> ms_catalog_target_id so \<noteq> '''',
        sa \<leftarrow> attachments s, ca_id sa = ms_attachment_id so,
        a \<leftarrow> attempts s, sql_eq (a_runtime_session_id a) (pc_source_runtime_session_id c) \<and> ms_principal_id so = a_worker_id a,
        b \<leftarrow> boundaries s, sql_eq (Some (b_id b)) (pc_source_boundary_id c)
          \<and> sql_eq (Some (b_work_item_id b)) (pc_source_work_item_id c)
          \<and> b_attempt_id b = a_id a \<and> b_source_principal_id b = a_worker_id a \<and> rate_limited_boundary b,
        w \<leftarrow> works s, w_id w = b_work_item_id b \<and> w_supervisor_attachment_id w = Some (ca_id sa) \<and> a_work_item_id a = w_id w,
        m \<leftarrow> messages s, m_kind m = ASSIGNMENT \<and> m_attempt_id m = Some (a_id a) \<and> m_work_item_id m = Some (w_id w)
          \<and> w_supervisor_id w = Some (m_sender_id m),
        d \<leftarrow> deliveries s, d_message_id d = m_id m \<and> d_recipient_id d = a_worker_id a
          \<and> sql_eq (d_runtime_session_id d) (a_runtime_session_id a),
        i \<leftarrow> events s, source_instruction w a m i,
        ev \<leftarrow> events s, worker_boundary b a ev \<and> e_sequence ev = pc_source_boundary_sequence c
          \<and> rowcount (\<lambda>x. worker_boundary b a x \<and> e_sequence x = e_sequence ev) (events s) = 1
          \<and> rowcount (source_instruction w a m) (events s) = 1]"

definition candidate_sequences ::
  "env \<Rightarrow> db \<Rightarrow> circuit_row \<Rightarrow> int \<Rightarrow> ident \<Rightarrow> ident \<Rightarrow> ident \<Rightarrow> int list" where
  "candidate_sequences e s c floor runtime_id message_id attempt_id =
     [e_sequence i.
        (a, m, w, sp, pa) \<leftarrow> probe_side e s c runtime_id message_id attempt_id,
        (so, sa, b) \<leftarrow> source_side s c,
        ca_project_scope_digest pa = ca_project_scope_digest sa \<and> ms_catalog_target_id sp = ms_catalog_target_id so
          \<and> ms_workspace_ref sp = ms_workspace_ref so \<and> ms_provider_scope_digest so = ms_provider_scope_digest sp,
        i \<leftarrow> events s, probe_instruction w a m b floor i \<and> rowcount (probe_instruction w a m b floor) (events s) = 1]"

definition provider_probe_candidate_tx ::
  "env \<Rightarrow> takeover \<Rightarrow> db \<Rightarrow> circuit_row \<Rightarrow> ident \<Rightarrow> ident \<Rightarrow> ident \<Rightarrow> int option" where
  "provider_probe_candidate_tx e tk s c runtime_id message_id attempt_id =
     (case instruction_floor tk s c runtime_id of
        None \<Rightarrow> None
      | Some floor \<Rightarrow> (case candidate_sequences e s c floor runtime_id message_id attempt_id of [i] \<Rightarrow> Some i | _ \<Rightarrow> None))"

section \<open>The slot\<close>

text \<open>The live tuple of the slot: the dispatched assignment of a busy, enrolled runtime.\<close>

definition probe_in_flight :: "db \<Rightarrow> circuit_row \<Rightarrow> ident \<Rightarrow> ident \<Rightarrow> ident \<Rightarrow> bool" where
  "probe_in_flight s c runtime_id message_id attempt_id = list_ex (\<lambda>sp.
     ms_runtime_session_id sp = runtime_id \<and> ms_state sp = ''enabled'' \<and> ms_adapter sp = ''claude''
     \<and> ms_provider_scope_digest sp = pc_scope_digest c
     \<and> list_ex (\<lambda>r. r_id r = ms_runtime_session_id sp \<and> ms_principal_id sp = r_principal_id r \<and> r_state r = R_BUSY
         \<and> list_ex (\<lambda>en. we_runtime_session_id en = r_id r \<and> we_principal_id en = r_principal_id r
             \<and> we_state en \<in> {E_AWAITING_HANDSHAKE, E_READY}) (enrollments s)
         \<and> list_ex (\<lambda>a. a_id a = attempt_id \<and> a_runtime_session_id a = Some (r_id r) \<and> a_worker_id a = r_principal_id r
             \<and> list_ex (\<lambda>m. m_id m = message_id \<and> m_kind m = ASSIGNMENT \<and> m_attempt_id m = Some (a_id a)
                 \<and> m_work_item_id m = Some (a_work_item_id a)
                 \<and> list_ex (\<lambda>d. d_message_id d = m_id m \<and> d_recipient_id d = r_principal_id r
                     \<and> d_runtime_session_id d = Some (r_id r) \<and> d_state d \<in> {DISPATCHED, ACKNOWLEDGED}) (deliveries s))
               (messages s)) (attempts s)) (runtimes s)) (specs s)"

definition holds_slot :: "circuit_row \<Rightarrow> ident \<Rightarrow> ident \<Rightarrow> ident \<Rightarrow> bool" where
  "holds_slot c runtime_id message_id attempt_id = (pc_state c = ''half_open'' \<and> pc_probe_outcome_state c = ''active''
     \<and> str_or_empty (pc_probe_runtime_session_id c) = runtime_id \<and> str_or_empty (pc_probe_attempt_id c) = attempt_id
     \<and> pc_probe_message_id c = message_id \<and> pc_source_boundary_sequence c > 0
     \<and> pc_probe_instruction_sequence c > pc_source_boundary_sequence c)"

definition valid_provider_probe_tx ::
  "env \<Rightarrow> takeover \<Rightarrow> db \<Rightarrow> circuit_row \<Rightarrow> ident \<Rightarrow> ident \<Rightarrow> ident \<Rightarrow> bool" where
  "valid_provider_probe_tx e tk s c runtime_id message_id attempt_id =
     (holds_slot c runtime_id message_id attempt_id
      \<and> provider_probe_candidate_tx e tk s c runtime_id message_id attempt_id = Some (pc_probe_instruction_sequence c)
      \<and> probe_in_flight s c runtime_id message_id attempt_id)"

definition parked :: "env \<Rightarrow> int \<Rightarrow> circuit_row \<Rightarrow> probe_answer" where
  "parked e scan c = PROBE_PARKED (max (pc_cooldown_until c) (utc_after e (max 1 scan)))"

definition claude_spec :: "db \<Rightarrow> ident \<Rightarrow> spec_row option" where
  "claude_spec s runtime_id =
     (case fetchone (\<lambda>sp. ms_runtime_session_id sp = runtime_id) (specs s) of
        None \<Rightarrow> None
      | Some sp \<Rightarrow> if ms_adapter sp = ''claude'' then Some sp else None)"

definition scope_circuit :: "db \<Rightarrow> string \<Rightarrow> circuit_row option" where
  "scope_circuit s scope = fetchone (\<lambda>c. pc_scope_digest c = scope) (circuits s)"

text \<open>\<open>provider_runtime_dispatch_eligibility\<close>: the read-only check before a launch is prepared.\<close>

definition provider_runtime_dispatch_eligibility ::
  "env \<Rightarrow> takeover \<Rightarrow> int \<Rightarrow> ident \<Rightarrow> ident \<Rightarrow> ident \<Rightarrow> db \<Rightarrow> (db \<times> probe_answer) cp" where
  "provider_runtime_dispatch_eligibility e tk scan runtime_id message_id attempt_id s = transaction s (\<lambda>s.
     Inr (s, case claude_spec s runtime_id of
        None \<Rightarrow> PROBE_ALLOWED
      | Some sp \<Rightarrow> (case scope_circuit s (ms_provider_scope_digest sp) of
          None \<Rightarrow> PROBE_ALLOWED
        | Some c \<Rightarrow>
            if pc_state c = ''closed'' then PROBE_ALLOWED
            else if ms_state sp \<noteq> ''enabled'' then parked e scan c
            else if pc_state c = ''half_open''
            then (if valid_provider_probe_tx e tk s c runtime_id message_id attempt_id then PROBE_ALLOWED else parked e scan c)
            else if pc_state c \<noteq> ''open'' then parked e scan c
            else if provider_probe_candidate_tx e tk s c runtime_id message_id attempt_id = None then parked e scan c
            else PROBE_ALLOWED)))"

definition reserve_fence :: "spec_row \<Rightarrow> circuit_row \<Rightarrow> circuit_row \<Rightarrow> bool" where
  "reserve_fence sp c x = (pc_scope_digest x = ms_provider_scope_digest sp \<and> pc_state x = ''open''
     \<and> pc_probe_outcome_state x = ''none'' \<and> pc_source_boundary_sequence x = pc_source_boundary_sequence c)"

definition reserved_slot :: "env \<Rightarrow> ident \<Rightarrow> ident \<Rightarrow> ident \<Rightarrow> int \<Rightarrow> circuit_row \<Rightarrow> circuit_row" where
  "reserved_slot e runtime_id message_id attempt_id i x = x\<lparr>pc_state := ''half_open'', pc_restart_authorized := False,
     pc_probe_restart_override := False, pc_probe_runtime_session_id := Some runtime_id,
     pc_probe_attempt_id := Some attempt_id, pc_probe_message_id := message_id,
     pc_probe_instruction_sequence := i, pc_probe_outcome_state := ''active'', pc_updated_at := env_now e\<rparr>"

definition circuit_event :: "string \<Rightarrow> ident \<Rightarrow> ident \<Rightarrow> (string \<times> json) list \<Rightarrow> event_input" where
  "circuit_event ty runtime_id actor_id rest = mk_event ty ''runtime'' runtime_id actor_id
     ((''failure_code'', jstr ''runtime_provider_rate_limited'') # rest)"

definition take_slot ::
  "env \<Rightarrow> int \<Rightarrow> spec_row \<Rightarrow> circuit_row \<Rightarrow> ident \<Rightarrow> ident \<Rightarrow> ident \<Rightarrow> int \<Rightarrow> db \<Rightarrow> db \<times> probe_answer" where
  "take_slot e scan sp c runtime_id message_id attempt_id i s =
     (let s1 = s\<lparr>circuits := update_rows (reserve_fence sp c) (reserved_slot e runtime_id message_id attempt_id i) (circuits s)\<rparr> in
      if rowcount (reserve_fence sp c) (circuits s) \<noteq> 1
      then (s1, case scope_circuit s1 (ms_provider_scope_digest sp) of
             None \<Rightarrow> PROBE_ALLOWED
           | Some latest \<Rightarrow> if pc_state latest = ''closed'' then PROBE_ALLOWED else parked e scan latest)
      else (log_event e (circuit_event ''runtime.provider_rate_limit_probe_reserved'' runtime_id '''' []) s1, PROBE_ALLOWED))"

definition claim_provider_runtime_probe_tx ::
  "env \<Rightarrow> takeover \<Rightarrow> int \<Rightarrow> ident \<Rightarrow> ident \<Rightarrow> ident \<Rightarrow> db \<Rightarrow> db \<times> probe_answer" where
  "claim_provider_runtime_probe_tx e tk scan runtime_id message_id attempt_id s =
     (case claude_spec s runtime_id of
        None \<Rightarrow> (s, PROBE_ALLOWED)
      | Some sp \<Rightarrow> (case scope_circuit s (ms_provider_scope_digest sp) of
          None \<Rightarrow> (s, PROBE_ALLOWED)
        | Some c \<Rightarrow>
            if pc_state c = ''closed'' then (s, PROBE_ALLOWED)
            else if ms_state sp \<noteq> ''enabled'' then (s, parked e scan c)
            else if pc_state c = ''half_open''
            then (s, if valid_provider_probe_tx e tk s c runtime_id message_id attempt_id then PROBE_ALLOWED else parked e scan c)
            else if pc_probe_outcome_state c \<noteq> ''none'' then (s, parked e scan c)
            else (case provider_probe_candidate_tx e tk s c runtime_id message_id attempt_id of
                None \<Rightarrow> (s, parked e scan c)
              | Some i \<Rightarrow> take_slot e scan sp c runtime_id message_id attempt_id i s)))"

section \<open>Opening\<close>

text \<open>The rate limit the runtime met, as its recorded failure boundary proves it.\<close>

definition rate_limit_source :: "db \<Rightarrow> ident \<Rightarrow> ident \<Rightarrow> ident \<Rightarrow> (spec_row \<times> boundary_row \<times> attempt_row \<times> int) option" where
  "rate_limit_source s runtime_id boundary_id work_item_id = fetchone (\<lambda>_. True)
     [(sp, b, a, e_sequence ev).
        sp \<leftarrow> specs s, ms_runtime_session_id sp = runtime_id \<and> ms_catalog_target_id sp \<noteq> '''',
        a \<leftarrow> attempts s, sql_eq (a_runtime_session_id a) (Some (ms_runtime_session_id sp)) \<and> a_worker_id a = ms_principal_id sp
          \<and> a_work_item_id a = work_item_id,
        b \<leftarrow> boundaries s, b_id b = boundary_id \<and> b_attempt_id b = a_id a \<and> b_work_item_id b = a_work_item_id a
          \<and> b_source_principal_id b = a_worker_id a \<and> rate_limited_boundary b
          \<and> rowcount (recorded_boundary b) (events s) = 1,
        w \<leftarrow> works s, w_id w = a_work_item_id a \<and> w_assigned_worker_id w = a_worker_id a,
        ta \<leftarrow> attachments s, ca_id ta = ms_attachment_id sp,
        sa \<leftarrow> attachments s, sql_eq (Some (ca_id sa)) (w_supervisor_attachment_id w) \<and> ca_principal_id sa = ca_principal_id ta
          \<and> ca_project_scope_digest sa = ca_project_scope_digest ta \<and> sql_eq (Some (ca_principal_id sa)) (w_supervisor_id w),
        ev \<leftarrow> events s, recorded_boundary b ev]"

definition opened_circuit :: "env \<Rightarrow> int \<Rightarrow> ident \<Rightarrow> spec_row \<Rightarrow> boundary_row \<Rightarrow> attempt_row \<Rightarrow> int \<Rightarrow> circuit_row" where
  "opened_circuit e cooldown runtime_id sp b a i = \<lparr>pc_scope_digest = ms_provider_scope_digest sp, pc_state = ''open'',
     pc_cooldown_until = utc_after e cooldown, pc_restart_authorized = False,
     pc_source_runtime_session_id = Some runtime_id, pc_source_boundary_id = Some (b_id b),
     pc_source_work_item_id = Some (a_work_item_id a), pc_source_boundary_sequence = i, pc_probe_restart_override = False,
     pc_probe_runtime_session_id = None, pc_probe_attempt_id = None, pc_probe_message_id = '''',
     pc_probe_instruction_sequence = 0, pc_probe_outcome_state = ''none'', pc_opened_at = env_now e, pc_updated_at = env_now e\<rparr>"

definition upsert_circuit :: "circuit_row \<Rightarrow> circuit_row list \<Rightarrow> circuit_row list" where
  "upsert_circuit c cs = (if list_ex (\<lambda>x. pc_scope_digest x = pc_scope_digest c) cs
     then update_rows (\<lambda>x. pc_scope_digest x = pc_scope_digest c) (\<lambda>x. c) cs else cs @ [c])"

text \<open>The same boundary, or an earlier one, never opens the circuit again.\<close>

definition already_recorded :: "circuit_row option \<Rightarrow> boundary_row \<Rightarrow> int \<Rightarrow> bool" where
  "already_recorded current b i = (case current of
     None \<Rightarrow> False
   | Some c \<Rightarrow> str_or_empty (pc_source_boundary_id c) = b_id b \<or> pc_source_boundary_sequence c \<ge> i)"

definition record_provider_rate_limit_tx :: "env \<Rightarrow> int \<Rightarrow> ident \<Rightarrow> ident \<Rightarrow> ident \<Rightarrow> db \<Rightarrow> db" where
  "record_provider_rate_limit_tx e cooldown runtime_id boundary_id work_item_id s =
     (case rate_limit_source s runtime_id boundary_id work_item_id of
        None \<Rightarrow> s
      | Some (sp, b, a, i) \<Rightarrow>
          if ms_adapter sp \<noteq> ''claude'' \<or> already_recorded (scope_circuit s (ms_provider_scope_digest sp)) b i then s
          else log_event e (circuit_event ''runtime.provider_rate_limit_opened'' runtime_id ''''
              [(''cooldown_until'', jtime (utc_after e cooldown))])
            (s\<lparr>circuits := upsert_circuit (opened_circuit e cooldown runtime_id sp b a i) (circuits s)\<rparr>))"

definition record_provider_rate_limit :: "env \<Rightarrow> int \<Rightarrow> ident \<Rightarrow> ident \<Rightarrow> ident \<Rightarrow> db \<Rightarrow> (db \<times> unit) cp" where
  "record_provider_rate_limit e cooldown runtime_id boundary_id work_item_id s =
     transaction s (\<lambda>s. Inr (record_provider_rate_limit_tx e cooldown runtime_id boundary_id work_item_id s, ()))"

section \<open>Closing\<close>

definition close_fence :: "db \<Rightarrow> string \<Rightarrow> ident \<Rightarrow> ident \<Rightarrow> circuit_row \<Rightarrow> bool" where
  "close_fence s scope runtime_id attempt_id c = (pc_scope_digest c = scope \<and> pc_state c \<in> {''half_open'', ''blocked''}
     \<and> pc_probe_runtime_session_id c = Some runtime_id \<and> pc_probe_attempt_id c = Some attempt_id
     \<and> list_ex (\<lambda>m. m_id m = pc_probe_message_id c \<and> m_kind m = ASSIGNMENT \<and> m_attempt_id m = Some attempt_id) (messages s))"

definition closed_circuit :: "env \<Rightarrow> circuit_row \<Rightarrow> circuit_row" where
  "closed_circuit e c = c\<lparr>pc_state := ''closed'', pc_restart_authorized := False, pc_probe_restart_override := False,
     pc_probe_instruction_sequence := 0, pc_probe_outcome_state := ''none'', pc_updated_at := env_now e\<rparr>"

definition close_provider_rate_limit_probe_tx :: "env \<Rightarrow> ident \<Rightarrow> ident \<Rightarrow> ident \<Rightarrow> db \<Rightarrow> db" where
  "close_provider_rate_limit_probe_tx e runtime_id attempt_id actor_id s =
     (case fetchone (\<lambda>sp. ms_runtime_session_id sp = runtime_id \<and> ms_adapter sp = ''claude'') (specs s) of
        None \<Rightarrow> s
      | Some sp \<Rightarrow>
          let fence = close_fence s (ms_provider_scope_digest sp) runtime_id attempt_id;
              s1 = s\<lparr>circuits := update_rows fence (closed_circuit e) (circuits s)\<rparr>
          in if rowcount fence (circuits s) = 1
             then log_event e (circuit_event ''runtime.provider_rate_limit_closed_on_progress'' runtime_id actor_id []) s1
             else s1)"

end
