(* ===== verification/Work_Report.thy ===== *)
theory Work_Report
  imports Decision_Fence Provider_Circuit
begin

text \<open>
  What a Worker tells its supervisor, from \<open>service.py\<close>: \<open>report\<close> with everything it settles
  (\<open>_handle_attempt_assignment_from_report_tx\<close>, \<open>_handle_status_requests_from_report_tx\<close>, the
  incorporated instruction), the boundary a question, a blocker or a completion claim records
  (\<open>_record_boundary_tx\<close>), the artifacts it registers (\<open>_create_artifact_tx\<close>), and the status a
  supervisor asks for (\<open>request_status\<close>).

  Outside the model, as \<open>report_ports\<close>: the scans of a payload for credentials and private locators,
  the keyed binding of a locator (HMAC), the scheme of a URI (\<open>urlsplit\<close>, \<open>None\<close> when it raises), the
  staging of a local artifact (\<open>None\<close> when the archive refuses, \<open>Some None\<close> when no workspace is
  held), the backfill of recovery actions, and the bundle view.
\<close>

record report_ports =
  rp_credential :: "json \<Rightarrow> bool"
  rp_private_locator :: "json \<Rightarrow> bool"
  rp_bind_locator :: "pystr \<Rightarrow> pystr"
  rp_scheme :: "pystr \<Rightarrow> string option"
  rp_stage :: "string \<Rightarrow> db \<Rightarrow> actor \<Rightarrow> work_row \<Rightarrow> attempt_row \<Rightarrow> pystr \<Rightarrow> pystr \<Rightarrow> pystr option option"
  rp_backfill_recovery :: "db \<Rightarrow> db"
  rp_bundle :: "db \<Rightarrow> ident \<Rightarrow> json cp"

section \<open>Recording a boundary\<close>

record boundary_input =
  bi_source_event_id :: string
  bi_work_item_id :: ident
  bi_attempt_id :: ident
  bi_goal_version :: int
  bi_goal_packet_digest :: string
  bi_task_packet_digest :: string
  bi_generation :: int
  bi_kind :: boundary_kind
  bi_summary :: pystr
  bi_runtime_state :: runtime_state
  bi_metadata :: json

definition boundary_input_digest :: "env \<Rightarrow> boundary_input \<Rightarrow> string" where
  "boundary_input_digest e q = service_digest (env_sha e) (jobj [(''source_event_id'', jstr (bi_source_event_id q)),
     (''work_item_id'', jstr (bi_work_item_id q)), (''attempt_id'', jstr (bi_attempt_id q)),
     (''expected_goal_version'', JInt (bi_goal_version q)),
     (''expected_goal_packet_digest'', jstr (bi_goal_packet_digest q)),
     (''expected_task_packet_digest'', jstr (bi_task_packet_digest q)),
     (''expected_generation'', JInt (bi_generation q)), (''kind'', jstr (boundary_kind_value (bi_kind q))),
     (''summary'', JStr (bi_summary q)), (''runtime_state'', jstr (runtime_state_value (bi_runtime_state q))),
     (''metadata'', bi_metadata q)])"

definition recovers_runtime :: "boundary_input \<Rightarrow> bool" where
  "recovers_runtime q = (jget (bi_metadata q) ''runtime_recovery'' = Some (JBool True))"

definition backfilled :: "report_ports \<Rightarrow> boundary_input \<Rightarrow> db \<Rightarrow> db" where
  "backfilled p q s = (if recovers_runtime q then rp_backfill_recovery p s else s)"

text \<open>The work and attempt a new boundary is recorded on.\<close>

definition boundary_target :: "db \<Rightarrow> actor \<Rightarrow> boundary_input \<Rightarrow> (work_row \<times> attempt_row) cp" where
  "boundary_target s actor q =
     (case get_work s (bi_work_item_id q) of
        None \<Rightarrow> Inl (NotFoundError ''work item'' (bi_work_item_id q))
      | Some w \<Rightarrow> (case fetchone (\<lambda>a. a_id a = bi_attempt_id q \<and> a_work_item_id a = w_id w) (attempts s) of
          None \<Rightarrow> Inl (ValidationError ''boundary attempt does not belong to the work item'' [])
        | Some a \<Rightarrow>
            if act_role actor = WORKER \<and> a_worker_id a \<noteq> act_id actor
            then Inl (AuthorizationError (''Worker cannot record another Worker'' @ [CHR 0x27] @ ''s boundary'') [])
            else if w_goal_version w \<noteq> bi_goal_version q
            then Inl (StaleGoalError (bi_goal_version q) (w_goal_version w))
            else if a_goal_packet_digest a \<noteq> bi_goal_packet_digest q \<or> a_task_packet_digest a \<noteq> bi_task_packet_digest q
               \<or> a_goal_version a \<noteq> bi_goal_version q
            then Inl (ConflictError ''boundary targets a stale or partial task packet'' [])
            else if w_generation w \<noteq> bi_generation q then Inl (StaleGenerationError (bi_generation q) (w_generation w))
            else if map_option a_id (latest_attempt_tx s (w_id w)) \<noteq> Some (a_id a)
            then Inl (ConflictError ''boundary targets a superseded attempt'' [])
            else bindE (require_not_paused w) (\<lambda>_. Inr (w, a))))"

definition new_boundary :: "env \<Rightarrow> ident \<Rightarrow> boundary_input \<Rightarrow> db \<Rightarrow> boundary_row" where
  "new_boundary e actor_id q s = \<lparr>b_id = env_mint e ''bnd'' (int (length (boundaries s))), b_source_principal_id = actor_id,
     b_source_event_id = bi_source_event_id q, b_work_item_id = bi_work_item_id q, b_attempt_id = bi_attempt_id q,
     b_goal_version = bi_goal_version q, b_generation = bi_generation q, b_goal_packet_digest = bi_goal_packet_digest q,
     b_task_packet_digest = bi_task_packet_digest q, b_kind = bi_kind q, b_summary = bi_summary q,
     b_runtime_state = bi_runtime_state q, b_metadata = bi_metadata q,
     b_recovery_action = boundary_recovery_action e (bi_metadata q), b_input_digest = boundary_input_digest e q,
     b_created_at = env_now e\<rparr>"

definition recorded_event :: "ident \<Rightarrow> boundary_row \<Rightarrow> event_input" where
  "recorded_event actor_id b = mk_event ''boundary.recorded'' ''work_item'' (b_work_item_id b) actor_id
     [(''boundary_id'', jstr (b_id b)), (''kind'', jstr (boundary_kind_value (b_kind b))),
      (''runtime_state'', jstr (runtime_state_value (b_runtime_state b))), (''generation'', JInt (b_generation b))]"

definition boundary_of_source :: "db \<Rightarrow> ident \<Rightarrow> string \<Rightarrow> boundary_row option" where
  "boundary_of_source s actor_id source =
     fetchone (\<lambda>b. b_source_principal_id b = actor_id \<and> b_source_event_id b = source) (boundaries s)"

definition record_boundary_tx :: "env \<Rightarrow> report_ports \<Rightarrow> actor \<Rightarrow> boundary_input \<Rightarrow> db \<Rightarrow> (db \<times> boundary_row) cp" where
  "record_boundary_tx e p actor q s =
     (case boundary_of_source s (act_id actor) (bi_source_event_id q) of
        Some b \<Rightarrow>
          if b_input_digest b \<noteq> boundary_input_digest e q
          then Inl (ConflictError ''boundary source identity was reused with different data'' [])
          else (let s1 = backfilled p q s in
            case get_boundary s1 (b_id b) of
              None \<Rightarrow> Inl (PyError ''AssertionError'' '''')
            | Some b' \<Rightarrow> Inr (s1, b'))
      | None \<Rightarrow>
          bindE (boundary_target s actor q) (\<lambda>(w, a).
          let b = new_boundary e (act_id actor) q s in
          bindE (insert_boundary b s) (\<lambda>s1.
          let s2 = backfilled p q (log_event e (recorded_event (act_id actor) b) s1) in
          case get_boundary s2 (b_id b) of
            None \<Rightarrow> Inl (PyError ''AssertionError'' '''')
          | Some b' \<Rightarrow> Inr (s2, b'))))"

section \<open>Artifacts\<close>

record artifact_input =
  ai_name :: pystr
  ai_uri :: pystr
  ai_media_type :: pystr
  ai_digest :: pystr
  ai_metadata :: json

definition unverified_uri :: "ident \<Rightarrow> pystr" where
  "unverified_uri i = u (''unverified-artifact:'' @ i)"

definition staging_failure :: "string \<Rightarrow> cp_error" where
  "staging_failure scheme = ValidationError
     ((if scheme = ''data'' then ''inline'' else if scheme = ''workspace'' then ''workspace'' else ''local'')
        @ '' artifact could not be staged in owner-private storage'') []"

definition artifact_uri ::
  "report_ports \<Rightarrow> db \<Rightarrow> actor \<Rightarrow> work_row \<Rightarrow> attempt_row \<Rightarrow> ident \<Rightarrow> pystr \<Rightarrow> pystr \<Rightarrow> pystr cp" where
  "artifact_uri p s actor w a i digest uri =
     (case rp_scheme p uri of
        None \<Rightarrow> Inl (PyError ''ValueError'' '''')
      | Some scheme \<Rightarrow>
          if \<not> hex64 digest then Inr (unverified_uri i)
          else if scheme \<in> {''file'', '''', ''data'', ''workspace''}
          then (case rp_stage p scheme s actor w a digest uri of
              None \<Rightarrow> Inl (staging_failure scheme)
            | Some None \<Rightarrow> Inr (unverified_uri i)
            | Some (Some v) \<Rightarrow> Inr v)
          else if take 23 uri = u ''owner-private-artifact:''
          then Inl (ValidationError ''owner-private artifact references are issued only by the control plane'' [])
          else Inr (unverified_uri i))"

definition create_artifact_tx ::
  "env \<Rightarrow> report_ports \<Rightarrow> actor \<Rightarrow> work_row \<Rightarrow> attempt_row \<Rightarrow> artifact_input \<Rightarrow> db \<Rightarrow> (db \<times> artifact_row) cp" where
  "create_artifact_tx e p actor w a x s =
     (let i = env_mint e ''art'' (int (length (artifacts s))); digest = canonical_artifact_digest (ai_digest x) in
      bindE (artifact_uri p s actor w a i digest (ai_uri x)) (\<lambda>uri.
      let r = \<lparr>ar_id = i, ar_work_item_id = w_id w, ar_attempt_id = a_id a, ar_producer_id = act_id actor, ar_name = ai_name x,
                ar_uri = uri, ar_media_type = ai_media_type x, ar_digest = digest, ar_metadata = ai_metadata x,
                ar_created_at = env_now e\<rparr>
      in if list_ex (\<lambda>y. ar_id y = i) (artifacts s) then Inl unique_violation
         else Inr (s\<lparr>artifacts := artifacts s @ [r]\<rparr>, r)))"

fun create_artifacts ::
  "env \<Rightarrow> report_ports \<Rightarrow> actor \<Rightarrow> work_row \<Rightarrow> attempt_row \<Rightarrow> artifact_input list \<Rightarrow> db \<Rightarrow> (db \<times> artifact_row list) cp" where
  "create_artifacts e p actor w a [] s = Inr (s, [])"
| "create_artifacts e p actor w a (x # xs) s =
     bindE (create_artifact_tx e p actor w a x s) (\<lambda>(s1, r).
     bindE (create_artifacts e p actor w a xs s1) (\<lambda>(s2, rs). Inr (s2, r # rs)))"

section \<open>Reports\<close>

datatype report_kind = REPORT_PROGRESS | REPORT_QUESTION | REPORT_BLOCKER | REPORT_ARTIFACT | REPORT_COMPLETION_CLAIM

fun report_kind_value :: "report_kind \<Rightarrow> string" where
  "report_kind_value REPORT_PROGRESS = ''progress''"
| "report_kind_value REPORT_QUESTION = ''question''"
| "report_kind_value REPORT_BLOCKER = ''blocker''"
| "report_kind_value REPORT_ARTIFACT = ''artifact''"
| "report_kind_value REPORT_COMPLETION_CLAIM = ''completion_claim''"

fun report_message_kind :: "report_kind \<Rightarrow> message_kind" where
  "report_message_kind REPORT_PROGRESS = PROGRESS"
| "report_message_kind REPORT_QUESTION = QUESTION"
| "report_message_kind REPORT_BLOCKER = BLOCKER"
| "report_message_kind REPORT_ARTIFACT = ARTIFACT"
| "report_message_kind REPORT_COMPLETION_CLAIM = COMPLETION_CLAIM"

text \<open>The reports that hand the Work to its supervisor, and the boundary each records.\<close>

fun report_boundary :: "report_kind \<Rightarrow> boundary_kind option" where
  "report_boundary REPORT_QUESTION = Some BK_QUESTION"
| "report_boundary REPORT_BLOCKER = Some BK_BLOCKER"
| "report_boundary REPORT_COMPLETION_CLAIM = Some COMPLETION"
| "report_boundary _ = None"

record report_request =
  rpq_kind :: report_kind
  rpq_goal_version :: int
  rpq_goal_packet_digest :: string
  rpq_task_packet_digest :: string
  rpq_generation :: int
  rpq_summary :: pystr
  rpq_execution_started :: bool
  rpq_trajectory :: "string option"
  rpq_stage :: pystr
  rpq_next_boundary :: pystr
  rpq_evidence :: "json list"
  rpq_artifacts :: "artifact_input list"
  rpq_incorporated :: "ident list"
  rpq_idempotency_key :: string

definition artifact_json :: "(pystr \<Rightarrow> (string \<times> json) list) \<Rightarrow> artifact_input \<Rightarrow> json" where
  "artifact_json uri x = jobj ([(''name'', JStr (ai_name x))] @ uri (ai_uri x)
     @ [(''media_type'', JStr (ai_media_type x)), (''digest'', JStr (ai_digest x)), (''metadata'', ai_metadata x)])"

definition plain_uri :: "pystr \<Rightarrow> (string \<times> json) list" where
  "plain_uri t = [(''uri'', JStr t)]"

definition bound_uri :: "report_ports \<Rightarrow> pystr \<Rightarrow> (string \<times> json) list" where
  "bound_uri p t = [(''uri'', JStr (u ''hmac-sha256:'' @ rp_bind_locator p t))]"

definition report_fields :: "(pystr \<Rightarrow> (string \<times> json) list) \<Rightarrow> bool \<Rightarrow> report_request \<Rightarrow> json" where
  "report_fields uri with_messages q = jobj ([(''kind'', jstr (report_kind_value (rpq_kind q))),
     (''expected_goal_version'', JInt (rpq_goal_version q)),
     (''expected_goal_packet_digest'', jstr (rpq_goal_packet_digest q)),
     (''expected_task_packet_digest'', jstr (rpq_task_packet_digest q)),
     (''expected_generation'', JInt (rpq_generation q)), (''summary'', JStr (rpq_summary q))]
     @ (if rpq_execution_started q then [(''progress_event'', jstr ''execution_started'')] else [])
     @ [(''trajectory'', jstr_opt (rpq_trajectory q)), (''stage'', JStr (rpq_stage q)),
        (''next_boundary'', JStr (rpq_next_boundary q)), (''evidence'', JArr (rpq_evidence q)),
        (''artifacts'', JArr (map (artifact_json uri) (rpq_artifacts q)))]
     @ (if with_messages then [(''incorporated_message_ids'', JArr (map jstr (rpq_incorporated q)))] else [])
     @ [(''idempotency_key'', jstr (rpq_idempotency_key q))])"

definition request_of_attempt :: "env \<Rightarrow> ident \<Rightarrow> json \<Rightarrow> string" where
  "request_of_attempt e attempt_id request =
     service_digest (env_sha e) (jobj [(''attempt_id'', jstr attempt_id), (''request'', request)])"

definition report_digest :: "env \<Rightarrow> report_ports \<Rightarrow> ident \<Rightarrow> report_request \<Rightarrow> string" where
  "report_digest e p attempt_id q = request_of_attempt e attempt_id (report_fields (bound_uri p) True q)"

text \<open>The digests an earlier release recorded for the same request are accepted as well.\<close>

definition report_digests :: "env \<Rightarrow> report_ports \<Rightarrow> ident \<Rightarrow> report_request \<Rightarrow> string list" where
  "report_digests e p attempt_id q = dict_fromkeys (report_digest e p attempt_id q # map (request_of_attempt e attempt_id)
     (report_fields plain_uri True q
      # (if rpq_incorporated q = [] then [report_fields (bound_uri p) False q, report_fields plain_uri False q] else [])))"

definition report_screen :: "report_ports \<Rightarrow> report_request \<Rightarrow> unit cp" where
  "report_screen p q =
     (let payload = report_fields plain_uri True q in
      if contains_control_plane_secret payload \<or> rp_credential p payload
      then Inl (ValidationError ''Worker report contains credential-like secret'' [])
      else if rp_private_locator p (report_fields (\<lambda>_. []) True q)
      then Inl (ValidationError ''Worker report contains a private locator'' [])
      else Inr ())"

section \<open>Who may report, and on what\<close>

definition report_actor :: "env \<Rightarrow> db \<Rightarrow> actor \<Rightarrow> ident \<Rightarrow> (attempt_row \<times> work_row \<times> ident) cp" where
  "report_actor e s actor attempt_id =
     (case get_attempt s attempt_id of
        None \<Rightarrow> Inl (NotFoundError ''attempt'' attempt_id)
      | Some a \<Rightarrow>
          if a_worker_id a \<noteq> act_id actor
          then Inl (AuthorizationError (''Worker cannot report for another Worker'' @ [CHR 0x27] @ ''s attempt'') [])
          else (let runtime_id = str_or_empty (a_runtime_session_id a) in
            if runtime_id = '''' then Inl (ConflictError ''Worker attempt is not bound to a managed MCP runtime'' [])
            else bindE (require_worker_runtime_actor_tx e (Some runtime_id) True s actor) (\<lambda>_.
              case get_work s (a_work_item_id a) of
                None \<Rightarrow> Inl (NotFoundError ''work item'' (a_work_item_id a))
              | Some w \<Rightarrow> bindE (authorize_work_actor actor w) (\<lambda>_. Inr (a, w, runtime_id)))))"

fun attempt_state_value :: "attempt_state \<Rightarrow> string" where
  "attempt_state_value A_ASSIGNED = ''assigned''"
| "attempt_state_value A_ACCEPTED = ''accepted''"
| "attempt_state_value A_WORKING = ''working''"
| "attempt_state_value A_SUSPENDED = ''suspended''"
| "attempt_state_value A_WAITING_SUPERVISOR = ''waiting_supervisor''"
| "attempt_state_value A_INPUT_REQUIRED = ''input_required''"
| "attempt_state_value A_BLOCKED = ''blocked''"
| "attempt_state_value A_SUBMITTED = ''submitted''"
| "attempt_state_value A_COMPLETED = ''completed''"
| "attempt_state_value A_FAILED = ''failed''"
| "attempt_state_value A_CANCELED = ''canceled''"

definition undecided_boundary :: "db \<Rightarrow> ident \<Rightarrow> boundary_row option" where
  "undecided_boundary s attempt_id = last_by b_created_at
     (filter (\<lambda>b. b_attempt_id b = attempt_id \<and> \<not> disposed s (b_id b) \<and> \<not> superseded s (b_id b)) (boundaries s))"

definition report_current :: "db \<Rightarrow> report_request \<Rightarrow> work_row \<Rightarrow> attempt_row \<Rightarrow> unit cp" where
  "report_current s q w a =
     (if w_goal_version w \<noteq> rpq_goal_version q then Inl (StaleGoalError (rpq_goal_version q) (w_goal_version w))
      else if a_goal_packet_digest a \<noteq> rpq_goal_packet_digest q \<or> a_task_packet_digest a \<noteq> rpq_task_packet_digest q
         \<or> a_goal_version a \<noteq> rpq_goal_version q
      then Inl (ConflictError ''report targets a stale or partial task packet'' [])
      else if w_generation w \<noteq> rpq_generation q then Inl (StaleGenerationError (rpq_generation q) (w_generation w))
      else if map_option a_id (latest_attempt_tx s (w_id w)) \<noteq> Some (a_id a)
      then Inl (ConflictError ''report targets a superseded attempt'' [])
      else if a_state a \<in> {A_SUSPENDED, A_COMPLETED, A_FAILED, A_CANCELED}
      then Inl (ConflictError ''attempt cannot report in its current state'' [(''state'', jstr (attempt_state_value (a_state a)))])
      else if w_state w \<in> {W_COMPLETED, W_CANCELED, W_FAILED}
      then Inl (ConflictError ''cannot report against terminal work'' [(''state'', jstr (work_state_value (w_state w)))])
      else (case undecided_boundary s (a_id a) of
          None \<Rightarrow> Inr ()
        | Some b \<Rightarrow> Inl (ConflictError ''attempt already has an unresolved supervisor boundary''
            [(''boundary_id'', jstr (b_id b))])))"

text \<open>An instruction the report incorporates: of this packet, and acknowledged on this lane.\<close>

definition require_incorporated_worker_instruction_tx ::
  "db \<Rightarrow> ident \<Rightarrow> ident \<Rightarrow> work_row \<Rightarrow> attempt_row \<Rightarrow> report_request \<Rightarrow> ident \<Rightarrow> (message_row \<times> delivery_row) cp" where
  "require_incorporated_worker_instruction_tx s actor_id runtime_id w a q message_id =
     (case get_message s message_id of
        None \<Rightarrow> Inl (NotFoundError ''message'' message_id)
      | Some m \<Rightarrow>
          if m_kind m \<noteq> INSTRUCTION \<or> Some (m_sender_id m) \<noteq> coalesce (w_supervisor_id w) (Some (w_created_by w))
             \<or> str_or_empty (m_work_item_id m) \<noteq> w_id w \<or> str_or_empty (m_attempt_id m) \<noteq> a_id a
             \<or> (case m_goal_version m of None \<Rightarrow> 0 | Some v \<Rightarrow> v) \<noteq> rpq_goal_version q
             \<or> m_goal_packet_digest m \<noteq> rpq_goal_packet_digest q \<or> m_task_packet_digest m \<noteq> rpq_task_packet_digest q
          then Inl (ConflictError ''incorporated message is not an instruction for this task packet'' [])
          else (case get_delivery s message_id actor_id of
              None \<Rightarrow> Inl (ConflictError ''incorporated instruction must be acknowledged on this runtime lane'' [])
            | Some d \<Rightarrow>
                if str_or_empty (d_runtime_session_id d) \<noteq> runtime_id \<or> d_state d \<noteq> ACKNOWLEDGED
                then Inl (ConflictError ''incorporated instruction must be acknowledged on this runtime lane'' [])
                else bindE (require_delivery_head_tx s m d) (\<lambda>_. Inr (m, d))))"

fun incorporated_instructions ::
  "db \<Rightarrow> ident \<Rightarrow> ident \<Rightarrow> work_row \<Rightarrow> attempt_row \<Rightarrow> report_request \<Rightarrow> ident list \<Rightarrow> (message_row \<times> delivery_row) list cp" where
  "incorporated_instructions s actor_id runtime_id w a q [] = Inr []"
| "incorporated_instructions s actor_id runtime_id w a q (i # is) =
     bindE (require_incorporated_worker_instruction_tx s actor_id runtime_id w a q i) (\<lambda>x.
     bindE (incorporated_instructions s actor_id runtime_id w a q is) (\<lambda>xs. Inr (x # xs)))"

section \<open>What a report settles\<close>

definition report_handled_row :: "env \<Rightarrow> delivery_row \<Rightarrow> delivery_row" where
  "report_handled_row e d = d\<lparr>d_state := HANDLED, d_delivered_at := coalesce (d_delivered_at d) (Some (env_now e)),
     d_acknowledged_at := coalesce (d_acknowledged_at d) (Some (env_now e)),
     d_handled_at := coalesce (d_handled_at d) (Some (env_now e)), d_lease_until := None, d_owner_token := '''',
     d_updated_at := env_now e\<rparr>"

definition on_lane :: "ident \<Rightarrow> ident \<Rightarrow> ident \<Rightarrow> delivery_state set \<Rightarrow> delivery_row \<Rightarrow> bool" where
  "on_lane message_id actor_id runtime_id states d = (d_message_id d = message_id \<and> d_recipient_id d = actor_id
     \<and> d_runtime_session_id d = Some runtime_id \<and> d_state d \<in> states)"

definition incorporated_event :: "env \<Rightarrow> ident \<Rightarrow> string \<Rightarrow> report_kind \<Rightarrow> ident \<Rightarrow> event_input" where
  "incorporated_event e actor_id what kind message_id = message_event ''message.handled'' message_id actor_id
     [(''evidence_digest'', jstr (text_digest e (''worker-report-incorporated-'' @ what @ '':'' @ report_kind_value kind)))]"

definition lane_messages :: "db \<Rightarrow> message_kind \<Rightarrow> ident \<Rightarrow> (ident \<Rightarrow> delivery_row \<Rightarrow> bool) \<Rightarrow> message_row list" where
  "lane_messages s kind attempt_id p = sort_key m_sequence (filter (\<lambda>m. m_attempt_id m = Some attempt_id \<and> m_kind m = kind
     \<and> list_ex (p (m_id m)) (deliveries s)) (messages s))"

text \<open>
  The statement settles the deliveries of one message on the lane, whatever their state among the open
  ones, and logs that it did when it changed a row.
\<close>

definition settle_message ::
  "env \<Rightarrow> ident \<Rightarrow> ident \<Rightarrow> string \<Rightarrow> report_kind \<Rightarrow> delivery_state set \<Rightarrow> message_row \<Rightarrow> db \<Rightarrow> db" where
  "settle_message e actor_id runtime_id what kind states m s =
     (let fence = on_lane (m_id m) actor_id runtime_id states;
          s1 = s\<lparr>deliveries := update_rows fence (report_handled_row e) (deliveries s)\<rparr>
      in if rowcount fence (deliveries s) = 1 then log_event e (incorporated_event e actor_id what kind (m_id m)) s1 else s1)"

definition handle_attempt_assignment_from_report_tx :: "env \<Rightarrow> ident \<Rightarrow> ident \<Rightarrow> ident \<Rightarrow> report_kind \<Rightarrow> db \<Rightarrow> db" where
  "handle_attempt_assignment_from_report_tx e actor_id runtime_id attempt_id kind s =
     (case lane_messages s ASSIGNMENT attempt_id (\<lambda>i. on_lane i actor_id runtime_id UNIV) of
        [] \<Rightarrow> s
      | m # ms \<Rightarrow>
          if list_ex (on_lane (m_id m) actor_id runtime_id {HANDLED}) (deliveries s) then s
          else settle_message e actor_id runtime_id ''assignment'' kind {QUEUED, LEASED, DISPATCHED, DELIVERED, ACKNOWLEDGED} m s)"

definition open_or_dead :: "delivery_state set" where
  "open_or_dead = {QUEUED, LEASED, DISPATCHED, DELIVERED, ACKNOWLEDGED, DEAD}"

definition handle_status_requests_from_report_tx :: "env \<Rightarrow> ident \<Rightarrow> ident \<Rightarrow> ident \<Rightarrow> report_kind \<Rightarrow> db \<Rightarrow> db \<times> bool" where
  "handle_status_requests_from_report_tx e actor_id runtime_id attempt_id kind s =
     (if kind = REPORT_ARTIFACT then (s, False)
      else (let ms = lane_messages s STATUS_REQUEST attempt_id (\<lambda>i. on_lane i actor_id runtime_id open_or_dead) in
        (fold (settle_message e actor_id runtime_id ''status-request'' kind open_or_dead) ms s, ms \<noteq> [])))"

definition instruction_fence :: "ident \<Rightarrow> message_row \<Rightarrow> delivery_row \<Rightarrow> delivery_row \<Rightarrow> bool" where
  "instruction_fence actor_id m d x = (d_message_id x = m_id m \<and> d_recipient_id x = actor_id
     \<and> sql_eq (d_runtime_session_id x) (d_runtime_session_id d) \<and> d_generation x = d_generation d \<and> d_state x = ACKNOWLEDGED)"

definition instruction_handled_row :: "env \<Rightarrow> delivery_row \<Rightarrow> delivery_row" where
  "instruction_handled_row e d = d\<lparr>d_state := HANDLED, d_handled_at := Some (env_now e), d_lease_until := None,
     d_owner_token := '''', d_updated_at := env_now e\<rparr>"

definition handle_incorporated_worker_instruction_tx ::
  "env \<Rightarrow> ident \<Rightarrow> ident \<Rightarrow> report_kind \<Rightarrow> db \<Rightarrow> message_row \<times> delivery_row \<Rightarrow> db cp" where
  "handle_incorporated_worker_instruction_tx e actor_id report_id kind s x =
     (let m = fst x; d = snd x; fence = instruction_fence actor_id m d in
      if rowcount fence (deliveries s) \<noteq> 1 then Inl (ConflictError ''instruction handling lost its delivery fence'' [])
      else Inr (log_event e (caused_event ''message.handled'' ''message'' (m_id m) actor_id
          [(''reason_code'', jstr ''worker_report_incorporated_instruction''),
           (''report_kind'', jstr (report_kind_value kind)),
           (''evidence_digest'', jstr (service_digest (env_sha e) (jobj [(''report_message_id'', jstr report_id),
             (''instruction_message_id'', jstr (m_id m))])))] report_id)
        (s\<lparr>deliveries := update_rows fence (instruction_handled_row e) (deliveries s)\<rparr>)))"

section \<open>The report\<close>

definition report_trajectory :: "report_request \<Rightarrow> attempt_row \<Rightarrow> string" where
  "report_trajectory q a = (case rpq_trajectory q of Some t \<Rightarrow> t
     | None \<Rightarrow> if rpq_kind q = REPORT_COMPLETION_CLAIM then ''complete'' else a_trajectory a)"

definition hands_over :: "report_request \<Rightarrow> bool" where
  "hands_over q = (report_boundary (rpq_kind q) \<noteq> None)"

definition completion_claim :: "env \<Rightarrow> report_request \<Rightarrow> attempt_row \<Rightarrow> artifact_row list \<Rightarrow> db \<Rightarrow> json" where
  "completion_claim e q a created s =
     (if rpq_kind q = REPORT_COMPLETION_CLAIM
      then jobj [(''summary'', JStr (rpq_summary q)), (''evidence'', JArr (rpq_evidence q)),
        (''artifacts'', JArr (map artifact_view
           (if created = [] then filter verified_artifact (attempt_artifacts s (a_id a)) else created))),
        (''artifact_manifest_scope'', JStr verified_scope),
        (''goal_packet_digest'', jstr (rpq_goal_packet_digest q)),
        (''task_packet_digest'', jstr (rpq_task_packet_digest q)), (''claimed_at'', jtime (env_now e))]
      else a_completion_claim a)"

definition reported_attempt :: "env \<Rightarrow> report_request \<Rightarrow> attempt_row \<Rightarrow> json \<Rightarrow> attempt_row \<Rightarrow> attempt_row" where
  "reported_attempt e q a claim x = x\<lparr>a_state := (if hands_over q then A_WAITING_SUPERVISOR else A_WORKING),
     a_trajectory := report_trajectory q a,
     a_evidence_confidence := (if rpq_kind q = REPORT_COMPLETION_CLAIM then ''declared'' else a_evidence_confidence a),
     a_stage := rpq_stage q, a_next_boundary := rpq_next_boundary q, a_completion_claim := claim, a_updated_at := env_now e\<rparr>"

definition report_work :: "env \<Rightarrow> report_request \<Rightarrow> work_row \<Rightarrow> db \<Rightarrow> db cp" where
  "report_work e q w s = (if hands_over q then set_work e (w_id w) W_WAITING_SUPERVISOR AO_CAO s
     else set_work e (w_id w) W_ACTIVE AO_WORKER s)"

definition report_boundary_input :: "env \<Rightarrow> report_request \<Rightarrow> work_row \<Rightarrow> attempt_row \<Rightarrow> boundary_kind \<Rightarrow> artifact_row list \<Rightarrow> db \<Rightarrow> boundary_input" where
  "report_boundary_input e q w a kind created s = \<lparr>bi_source_event_id = (if rpq_idempotency_key q \<noteq> ''''
       then ''report:'' @ a_id a @ '':'' @ rpq_idempotency_key q else env_mint e ''report_event'' (int (length (boundaries s)))),
     bi_work_item_id = w_id w, bi_attempt_id = a_id a, bi_goal_version = w_goal_version w,
     bi_goal_packet_digest = rpq_goal_packet_digest q, bi_task_packet_digest = rpq_task_packet_digest q,
     bi_generation = rpq_generation q, bi_kind = kind, bi_summary = rpq_summary q, bi_runtime_state = R_WAITING,
     bi_metadata = jobj [(''report_kind'', jstr (report_kind_value (rpq_kind q))), (''trajectory'', jstr (report_trajectory q a)),
       (''stage'', JStr (rpq_stage q)), (''next_boundary'', JStr (rpq_next_boundary q)), (''evidence'', JArr (rpq_evidence q)),
       (''artifact_ids'', JArr (map (\<lambda>r. jstr (ar_id r)) created))]\<rparr>"

definition report_boundary_tx ::
  "env \<Rightarrow> report_ports \<Rightarrow> actor \<Rightarrow> report_request \<Rightarrow> work_row \<Rightarrow> attempt_row \<Rightarrow> artifact_row list \<Rightarrow> db \<Rightarrow> (db \<times> boundary_row option) cp" where
  "report_boundary_tx e p actor q w a created s =
     (case report_boundary (rpq_kind q) of
        None \<Rightarrow> Inr (s, None)
      | Some kind \<Rightarrow> bindE (record_boundary_tx e p actor (report_boundary_input e q w a kind created s) s)
          (\<lambda>(s1, b). Inr (s1, Some b)))"

definition first_execution_start :: "report_request \<Rightarrow> attempt_row \<Rightarrow> db \<Rightarrow> bool" where
  "first_execution_start q a s = (rpq_execution_started q
     \<and> \<not> list_ex (\<lambda>ev. e_event_type ev = ''attempt.execution_started'' \<and> e_aggregate_id ev = a_id a) (events s))"

definition report_payload :: "report_request \<Rightarrow> attempt_row \<Rightarrow> artifact_row list \<Rightarrow> boundary_row option \<Rightarrow> (string \<times> json) list" where
  "report_payload q a created b = [(''summary'', JStr (rpq_summary q)), (''trajectory'', jstr (report_trajectory q a)),
     (''stage'', JStr (rpq_stage q)), (''next_boundary'', JStr (rpq_next_boundary q)), (''evidence'', JArr (rpq_evidence q)),
     (''artifacts'', JArr (map artifact_view created)),
     (''incorporated_message_ids'', JArr (map jstr (rpq_incorporated q))), (''boundary_id'', jopt (\<lambda>x. jstr (b_id x)) b)]
     @ (if rpq_execution_started q then [(''progress_event'', jstr ''execution_started'')] else [])"

text \<open>\<open>work["supervisor_id"] or work["created_by"]\<close>.\<close>

definition work_supervisor :: "work_row \<Rightarrow> ident" where
  "work_supervisor w = (if str_or_empty (w_supervisor_id w) = '''' then w_created_by w else str_or_empty (w_supervisor_id w))"

definition report_message :: "actor \<Rightarrow> report_request \<Rightarrow> work_row \<Rightarrow> attempt_row \<Rightarrow> (string \<times> json) list \<Rightarrow> bool \<Rightarrow> message_request" where
  "report_message actor q w a payload deliver =
     (work_message (act_id actor) (work_supervisor w) (report_message_kind (rpq_kind q)) (upayload payload) w (a_id a)
        (if rpq_idempotency_key q = '''' then '''' else ''report:'' @ rpq_idempotency_key q))\<lparr>mq_create_delivery := deliver\<rparr>"

definition report_events ::
  "env \<Rightarrow> ident \<Rightarrow> report_request \<Rightarrow> attempt_row \<Rightarrow> (string \<times> json) list \<Rightarrow> bool \<Rightarrow> message_row \<Rightarrow> db \<Rightarrow> db" where
  "report_events e actor_id q a payload first m s =
     (let s1 = (if first then log_event e (caused_event ''attempt.execution_started'' ''attempt'' (a_id a) actor_id
              [(''message_id'', jstr (m_id m)), (''source'', jstr ''worker_report'')] (m_id m)) s else s)
      in log_event e (caused_event (''attempt.'' @ report_kind_value (rpq_kind q)) ''attempt'' (a_id a) actor_id payload (m_id m)) s1)"

text \<open>What the report writes, once it is admitted.\<close>

definition report_attempt ::
  "env \<Rightarrow> report_ports \<Rightarrow> actor \<Rightarrow> report_request \<Rightarrow> attempt_row \<Rightarrow> work_row \<Rightarrow> artifact_input list \<Rightarrow> db
   \<Rightarrow> (db \<times> artifact_row list \<times> boundary_row option) cp" where
  "report_attempt e p actor q a w xs s =
     bindE (create_artifacts e p actor w a xs s) (\<lambda>(s1, created).
     let claim = completion_claim e q a created s1;
         s2 = s1\<lparr>attempts := update_rows (\<lambda>x. a_id x = a_id a) (reported_attempt e q a claim) (attempts s1)\<rparr>
     in bindE (report_work e q w s2) (\<lambda>s3.
        bindE (report_boundary_tx e p actor q w a created s3) (\<lambda>(s4, b). Inr (s4, created, b))))"

definition report_tell ::
  "env \<Rightarrow> actor \<Rightarrow> report_request \<Rightarrow> attempt_row \<Rightarrow> work_row \<Rightarrow> bool \<Rightarrow> (message_row \<times> delivery_row) list
   \<Rightarrow> artifact_row list \<Rightarrow> boundary_row option \<Rightarrow> db \<Rightarrow> db cp" where
  "report_tell e actor q a w answered instructions created b s =
     (let first = first_execution_start q a s; payload = report_payload q a created b in
      bindE (message_tx e (report_message actor q w a payload (hands_over q \<or> answered \<or> first)) s) (\<lambda>(s1, m, ds).
      foldE (handle_incorporated_worker_instruction_tx e (act_id actor) (m_id m) (rpq_kind q))
        (report_events e (act_id actor) q a payload first m s1) instructions))"

definition report_tx ::
  "env \<Rightarrow> report_ports \<Rightarrow> actor \<Rightarrow> report_request \<Rightarrow> attempt_row \<Rightarrow> work_row \<Rightarrow> ident \<Rightarrow> db \<Rightarrow> db cp" where
  "report_tx e p actor q a w runtime_id s =
     bindE (report_current s q w a) (\<lambda>_.
     bindE (incorporated_instructions s (act_id actor) runtime_id w a q (rpq_incorporated q)) (\<lambda>instructions.
     let s1 = handle_attempt_assignment_from_report_tx e (act_id actor) runtime_id (a_id a) (rpq_kind q) s;
         (s2, answered) = handle_status_requests_from_report_tx e (act_id actor) runtime_id (a_id a) (rpq_kind q) s1
     in bindE (report_attempt e p actor q a w (rpq_artifacts q) s2) (\<lambda>(s3, created, b).
        bindE (report_tell e actor q a w answered instructions created b s3) (\<lambda>s4.
        Inr (close_provider_rate_limit_probe_tx e runtime_id (a_id a) (act_id actor) s4)))))"

definition report :: "env \<Rightarrow> report_ports \<Rightarrow> actor \<Rightarrow> ident \<Rightarrow> report_request \<Rightarrow> db \<Rightarrow> (db \<times> json) cp" where
  "report e p actor attempt_id q s =
     bindE (require_role e s actor [WORKER]) (\<lambda>_.
     bindE (report_screen p q) (\<lambda>_.
     transaction s (\<lambda>s.
       bindE (report_actor e s actor attempt_id) (\<lambda>(a, w, runtime_id).
       bindE (idempotent_get_tx (act_id actor) ''report'' (rpq_idempotency_key q) (report_digests e p attempt_id q) s) (\<lambda>cached.
       case cached of
         Some r \<Rightarrow> Inr (s, r)
       | None \<Rightarrow>
           bindE (report_tx e p actor q a w runtime_id s) (\<lambda>s1.
           bindE (rp_bundle p s1 (w_id w)) (\<lambda>result.
           bindE (idempotent_put (act_id actor) ''report'' (rpq_idempotency_key q) (report_digest e p attempt_id q) result s1)
             (\<lambda>s2. Inr (s2, result)))))))))"

section \<open>Asking for a status\<close>

record status_request =
  sq_generation :: int
  sq_summary :: pystr
  sq_response_due_seconds :: int
  sq_idempotency_key :: string

definition status_digest :: "env \<Rightarrow> ident \<Rightarrow> status_request \<Rightarrow> string" where
  "status_digest e work_id q = service_digest (env_sha e) (jobj [(''work_item_id'', jstr work_id),
     (''request'', jobj [(''expected_generation'', JInt (sq_generation q)), (''summary'', JStr (sq_summary q)),
       (''response_due_seconds'', JInt (sq_response_due_seconds q)), (''idempotency_key'', jstr (sq_idempotency_key q))])])"

definition status_not_connected :: cp_error where
  "status_not_connected = ConflictError ''current Worker execution route is not connected for a status request''
     [(''reason_code'', jstr ''worker_status_runtime_not_connected''), (''retryable'', JBool False)]"

definition connected_runtime :: "env \<Rightarrow> db \<Rightarrow> ident \<Rightarrow> ident \<Rightarrow> bool" where
  "connected_runtime e s runtime_id worker_id = list_ex (\<lambda>r. r_id r = runtime_id \<and> r_principal_id r = worker_id
     \<and> r_state r \<in> {R_READY, R_BUSY}
     \<and> list_ex (\<lambda>n. we_runtime_session_id n = r_id r \<and> we_state n = E_READY
         \<and> list_ex (\<lambda>c. cr_owner_id c = we_id n \<and> cr_principal_id c = we_principal_id n \<and> cr_generation c = we_generation n
             \<and> cr_state c = ''active'' \<and> cr_expires_at c \<ge> env_now e) (runtime_credentials s)) (enrollments s)) (runtimes s)"

text \<open>\<open>except (ConflictError, NotFoundError, ValidationError)\<close>.\<close>

fun expected_error :: "cp_error \<Rightarrow> bool" where
  "expected_error (ConflictError m d) = True"
| "expected_error (NotFoundError k i) = True"
| "expected_error (ValidationError m d) = True"
| "expected_error _ = False"

definition require_connected_worker :: "env \<Rightarrow> db \<Rightarrow> attempt_row \<Rightarrow> unit cp" where
  "require_connected_worker e s a =
     (case bind_ready_worker_runtime_tx e s (a_worker_id a)
          (let i = str_or_empty (a_runtime_session_id a) in if i = '''' then None else Some i) of
        Inl err \<Rightarrow> Inl (if expected_error err then status_not_connected else err)
      | Inr runtime_id \<Rightarrow> if connected_runtime e s runtime_id (a_worker_id a) then Inr () else Inl status_not_connected)"

definition status_payload :: "env \<Rightarrow> status_request \<Rightarrow> (string \<times> json) list" where
  "status_payload e q = [(''action'', jstr ''report_status''), (''summary'', JStr (sq_summary q)),
     (''generation'', JInt (sq_generation q)), (''response_due_at'', jtime (utc_after e (sq_response_due_seconds q)))]"

fun attention_owner_value :: "attention_owner \<Rightarrow> string" where
  "attention_owner_value AO_NONE = ''none''"
| "attention_owner_value AO_WORKER = ''worker''"
| "attention_owner_value AO_CAO = ''cao''"
| "attention_owner_value AO_USER = ''user''"
| "attention_owner_value AO_EXTERNAL = ''external''"

definition status_target :: "db \<Rightarrow> status_request \<Rightarrow> work_row \<Rightarrow> attempt_row cp" where
  "status_target s q w =
     (if w_generation w \<noteq> sq_generation q then Inl (StaleGenerationError (sq_generation q) (w_generation w))
      else if w_state w \<noteq> W_ACTIVE \<or> w_attention_owner w \<noteq> AO_WORKER
      then Inl (ConflictError ''status requests require active Worker-owned Work''
             [(''work_state'', jstr (work_state_value (w_state w))),
              (''attention_owner'', jstr (attention_owner_value (w_attention_owner w)))])
      else (case latest_attempt_tx s (w_id w) of
          None \<Rightarrow> Inl (ConflictError ''status request has no active Attempt'' [])
        | Some a \<Rightarrow> if a_state a \<in> {A_COMPLETED, A_FAILED, A_CANCELED, A_SUSPENDED}
            then Inl (ConflictError ''status request has no active Attempt'' []) else Inr a))"

definition request_status_tx :: "env \<Rightarrow> continuation_ports \<Rightarrow> ident \<Rightarrow> status_request \<Rightarrow> work_row \<Rightarrow> db \<Rightarrow> db cp" where
  "request_status_tx e p actor_id q w s =
     bindE (status_target s q w) (\<lambda>a.
     bindE (require_connected_worker e s a) (\<lambda>_.
     bindE (kp_payload_safe p (jobj (status_payload e q))) (\<lambda>_.
     bindE (message_tx e (work_message actor_id (a_worker_id a) STATUS_REQUEST (upayload (status_payload e q)) w (a_id a)
       (''status-request:'' @ sq_idempotency_key q)) s) (\<lambda>(s1, m, ds).
     Inr (log_event e (caused_event ''work.status_requested'' ''work_item'' (w_id w) actor_id
       [(''message_id'', jstr (m_id m)), (''attempt_id'', jstr (a_id a)),
        (''response_due_at'', jtime (utc_after e (sq_response_due_seconds q)))] (m_id m)) s1)))))"

definition request_status ::
  "env \<Rightarrow> continuation_ports \<Rightarrow> actor \<Rightarrow> ident \<Rightarrow> status_request \<Rightarrow> db \<Rightarrow> (db \<times> json) cp" where
  "request_status e p actor work_id q s =
     bindE (require_role e s actor [CAO]) (\<lambda>_.
     transaction s (\<lambda>s.
       bindE (if act_attachment_id actor \<noteq> '''' then require_current_cao_attachment_actor_tx e True s actor else Inr ()) (\<lambda>_.
       bindE (require_authorized_work_tx s actor work_id) (\<lambda>w.
       bindE (idempotent_get_tx (act_id actor) ''request_status'' (sq_idempotency_key q) [status_digest e work_id q] s) (\<lambda>cached.
       case cached of
         Some r \<Rightarrow> Inr (s, r)
       | None \<Rightarrow>
           bindE (request_status_tx e p (act_id actor) q w s) (\<lambda>s1.
           bindE (kp_bundle p s1 work_id) (\<lambda>result.
           bindE (idempotent_put (act_id actor) ''request_status'' (sq_idempotency_key q) (status_digest e work_id q) result s1)
             (\<lambda>s2. Inr (s2, result)))))))))"

end
