(* ===== verification/Work_Review.thy ===== *)
theory Work_Review
  imports Work_Report
begin

text \<open>
  How a claimed result is accepted, from \<open>service.py\<close>: the review of the supervising CAO (\<open>review\<close>)
  and the decision of the requester it observed in its conversation (\<open>record_requester_decision\<close>).
  A review of an undecided completion boundary is only evidence for the decision about that boundary;
  a review of a submitted claim moves the Work by itself. The trigger
  \<open>requester_decisions_exact_binding_insert\<close> of \<open>database.py\<close> guards the record of the requester.

  \<open>review_ports\<close> adds to the ports of a report the content archive a captured output is read from and
  the parser of a stored manifest.
\<close>

record review_ports =
  vp_report :: report_ports
  vp_continuation :: continuation_ports
  vp_store :: content_store
  vp_archive :: archive
  vp_loads :: "pystr \<Rightarrow> json"

section \<open>The request\<close>

record assessment =
  as_criterion_id :: pystr
  as_verdict :: string
  as_evidence :: pystr

record review_request =
  vq_attempt_id :: ident
  vq_verdict :: string
  vq_summary :: pystr
  vq_evidence :: "json list"
  vq_assessments :: "assessment list"
  vq_expected_assignment_version :: "int option"
  vq_expected_purpose_version :: "int option"
  vq_idempotency_key :: string

definition assessment_fields :: "assessment \<Rightarrow> (string \<times> json) list" where
  "assessment_fields x = [(''criterion_id'', JStr (as_criterion_id x)), (''verdict'', jstr (as_verdict x)),
     (''evidence'', JStr (as_evidence x))]"

definition given_field :: "string \<Rightarrow> ('a \<Rightarrow> json) \<Rightarrow> 'a option \<Rightarrow> (string \<times> json) list" where
  "given_field k f v = (case v of None \<Rightarrow> [] | Some x \<Rightarrow> [(k, f x)])"

definition review_digest :: "env \<Rightarrow> review_request \<Rightarrow> string" where
  "review_digest e q = service_digest (env_sha e) (jobj (given_field ''expected_purpose_version'' JInt (vq_expected_purpose_version q)
     @ [(''attempt_id'', jstr (vq_attempt_id q)), (''verdict'', jstr (vq_verdict q)), (''summary'', JStr (vq_summary q)),
        (''evidence'', JArr (vq_evidence q))]
     @ (if vq_assessments q = [] then []
        else [(''criterion_assessments'', JArr (map (\<lambda>x. jobj (assessment_fields x)) (vq_assessments q)))])
     @ given_field ''expected_assignment_purpose_version'' JInt (vq_expected_assignment_version q)
     @ [(''idempotency_key'', jstr (vq_idempotency_key q))]))"

section \<open>What is under review\<close>

definition open_completion :: "db \<Rightarrow> work_row \<Rightarrow> attempt_row \<Rightarrow> boundary_row option" where
  "open_completion s w a = last_by (\<lambda>b. (b_created_at b, b_id b))
     (filter (\<lambda>b. b_attempt_id b = a_id a \<and> b_work_item_id b = w_id w \<and> b_kind b \<in> {COMPLETION, WORKER_OUTPUT}
        \<and> b_generation b = w_generation w \<and> \<not> disposed s (b_id b) \<and> \<not> superseded s (b_id b)) (boundaries s))"

text \<open>The boundary a review is evidence about; without one the review must be of a submitted claim.\<close>

definition reviewed_boundary :: "db \<Rightarrow> work_row \<Rightarrow> attempt_row \<Rightarrow> boundary_row option" where
  "reviewed_boundary s w a =
     (if w_state w = W_WAITING_SUPERVISOR \<and> a_state a = A_WAITING_SUPERVISOR then open_completion s w a else None)"

definition reviews_submitted :: "work_row \<Rightarrow> attempt_row \<Rightarrow> bool" where
  "reviews_submitted w a = (w_state w = W_WAITING_REVIEW \<and> a_state a = A_SUBMITTED)"

definition review_subject :: "db \<Rightarrow> review_request \<Rightarrow> work_row \<Rightarrow> attempt_row \<Rightarrow> goal_revision_row cp" where
  "review_subject s q w a =
     (if vq_verdict q \<notin> {''ok'', ''needs_work''} then Inl (ValidationError ''CAO review verdict must be ok or needs_work'' [])
      else if reviewed_boundary s w a = None \<and> \<not> reviews_submitted w a
      then Inl (ConflictError ''CAO review requires an unresolved Worker output or completion claim''
             [(''work_state'', jstr (work_state_value (w_state w))), (''attempt_state'', jstr (attempt_state_value (a_state a)))])
      else bindE (current_goal_tx s w) (\<lambda>g.
        if a_goal_version a \<noteq> w_goal_version w \<or> a_goal_packet_digest a \<noteq> gr_packet_digest g \<or> a_task_packet_digest a = ''''
        then Inl (ConflictError ''review targets a stale or partial task packet'' []) else Inr g))"

section \<open>The frozen criteria\<close>

definition view_version :: "purpose_view option \<Rightarrow> int option" where
  "view_version v = map_option pv_version v"

definition structured_view :: "purpose_view option \<Rightarrow> bool" where
  "structured_view v = (case v of None \<Rightarrow> False | Some x \<Rightarrow> (case pv_contract x of None \<Rightarrow> False | Some c \<Rightarrow> truthy c))"

definition purpose_confirmed :: "review_request \<Rightarrow> purpose_view option \<Rightarrow> purpose_view option \<Rightarrow> unit cp" where
  "purpose_confirmed q assigned current =
     (if assigned \<noteq> current \<and> (structured_view assigned \<or> structured_view current)
         \<and> vq_expected_assignment_version q \<noteq> view_version assigned
      then Inl (ConflictError ''Confirm the frozen assignment purpose before reviewing after a purpose change''
             [(''reason_code'', jstr ''review_assignment_purpose_confirmation_required''),
              (''assignment_purpose_version'', jint_opt (view_version assigned))])
      else Inr ())"

definition criteria_assessed :: "review_request \<Rightarrow> bool \<Rightarrow> pystr list \<Rightarrow> unit cp" where
  "criteria_assessed q structured expected =
     (let actual = map as_criterion_id (vq_assessments q) in
      if (structured \<or> vq_assessments q \<noteq> []) \<and> (\<not> distinct actual \<or> set actual \<noteq> set expected)
      then Inl (ConflictError ''Review each frozen task criterion with evidence; do not add new criteria''
             [(''reason_code'', jstr ''review_criteria_mismatch''), (''expected_criterion_ids'', JArr (map JStr expected))])
      else if vq_assessments q \<noteq> []
         \<and> (vq_verdict q = ''ok'' \<and> list_ex (\<lambda>x. as_verdict x \<noteq> ''met'') (vq_assessments q)
            \<or> vq_verdict q = ''needs_work'' \<and> list_all (\<lambda>x. as_verdict x = ''met'') (vq_assessments q))
      then Inl (ConflictError ''Review verdict contradicts the criterion assessments''
             [(''reason_code'', jstr ''review_criteria_verdict_conflict'')])
      else if list_ex (\<lambda>x. jget x ''kind'' = Some (jstr ''criterion_assessment'')) (vq_evidence q)
      then Inl (ValidationError ''Use criterion_assessments for criterion evidence'' [])
      else Inr ())"

definition review_evidence :: "review_request \<Rightarrow> work_row \<Rightarrow> attempt_row \<Rightarrow> purpose_view option \<Rightarrow> json list" where
  "review_evidence q w a assigned = vq_evidence q @ map (\<lambda>x. jobj ((''kind'', jstr ''criterion_assessment'') # assessment_fields x
     @ [(''goal_version'', JInt (w_goal_version w)), (''assignment_purpose_version'', jint_opt (view_version assigned)),
        (''goal_packet_digest'', jstr (a_goal_packet_digest a))])) (vq_assessments q)"

definition review_judged :: "env \<Rightarrow> db \<Rightarrow> review_request \<Rightarrow> work_row \<Rightarrow> attempt_row \<Rightarrow> goal_revision_row \<Rightarrow> json list cp" where
  "review_judged e s q w a g =
     bindE (work_purpose_tx e s (w_id w) (w_goal_version w)) (\<lambda>assigned.
     bindE (worker_purpose_tx e s (str_or_empty (w_managed_worker_thread_id w))) (\<lambda>current.
     bindE (purpose_confirmed q assigned current) (\<lambda>_.
     bindE (task_review_criteria e g) (\<lambda>expected.
     bindE (criteria_assessed q (structured_view assigned) expected) (\<lambda>_.
     Inr (review_evidence q w a assigned))))))"

section \<open>Evidence of the result\<close>

text \<open>An OK review of captured output turns that output into the completion claim of the attempt.\<close>

definition captured_claim :: "env \<Rightarrow> review_ports \<Rightarrow> review_request \<Rightarrow> attempt_row \<Rightarrow> json list \<Rightarrow> output_receipt_row \<Rightarrow> json" where
  "captured_claim e p q a evidence r = jobj [(''source'', jstr ''cao_reviewed_worker_output''), (''output_id'', jstr (wo_id r)),
     (''summary'', JStr (vq_summary q)), (''evidence'', JArr evidence), (''artifacts'', vp_loads p (wo_artifact_manifest r)),
     (''artifact_manifest_scope'', JStr verified_scope), (''goal_packet_digest'', jstr (a_goal_packet_digest a)),
     (''task_packet_digest'', jstr (a_task_packet_digest a)), (''claimed_at'', jtime (env_now e))]"

definition claim_captured ::
  "env \<Rightarrow> review_ports \<Rightarrow> actor \<Rightarrow> review_request \<Rightarrow> work_row \<Rightarrow> attempt_row \<Rightarrow> json list \<Rightarrow> db \<Rightarrow> (db \<times> attempt_row) cp" where
  "claim_captured e p actor q w a evidence s =
     (case open_completion s w a of
        Some b \<Rightarrow>
          if b_kind b \<noteq> WORKER_OUTPUT then Inr (s, a)
          else bindE (require_reviewable_output_tx (vp_store p) (vp_archive p) actor (b_id b) s) (\<lambda>r.
            let f = (\<lambda>x. x\<lparr>a_completion_claim := captured_claim e p q a evidence r\<rparr>) in
            Inr (s\<lparr>attempts := update_rows (\<lambda>x. a_id x = a_id a) f (attempts s)\<rparr>, f a))
      | None \<Rightarrow> Inr (s, a))"

definition review_delivered ::
  "env \<Rightarrow> review_ports \<Rightarrow> actor \<Rightarrow> review_request \<Rightarrow> work_row \<Rightarrow> attempt_row \<Rightarrow> json list \<Rightarrow> db \<Rightarrow> (db \<times> attempt_row) cp" where
  "review_delivered e p actor q w a evidence s =
     (if vq_verdict q \<noteq> ''ok'' then Inr (s, a)
      else bindE (claim_captured e p actor q w a evidence s) (\<lambda>(s1, a1).
        bindE (require_completion_delivery_ready_tx e s1 w a1) (\<lambda>_. Inr (s1, a1))))"

section \<open>The review\<close>

definition new_review ::
  "env \<Rightarrow> actor \<Rightarrow> review_request \<Rightarrow> work_row \<Rightarrow> attempt_row \<Rightarrow> boundary_row option \<Rightarrow> json list \<Rightarrow> db \<Rightarrow> review_row" where
  "new_review e actor q w a b evidence s = \<lparr>rv_id = env_mint e ''rev'' (int (length (reviews s))), rv_work_item_id = w_id w,
     rv_attempt_id = a_id a, rv_boundary_id = map_option b_id b, rv_reviewer_id = act_id actor, rv_reviewer_role = act_role actor,
     rv_supervisor_attachment_id = (if act_attachment_id actor = '''' then None else Some (act_attachment_id actor)),
     rv_supervisor_attachment_generation = act_attachment_generation actor, rv_work_generation = w_generation w,
     rv_goal_version = a_goal_version a, rv_goal_packet_digest = a_goal_packet_digest a,
     rv_task_packet_digest = a_task_packet_digest a, rv_verdict = vq_verdict q, rv_summary = vq_summary q,
     rv_evidence = JArr evidence, rv_created_at = env_now e\<rparr>"

text \<open>The unique index \<open>reviews_boundary_unique\<close> admits one review per boundary.\<close>

definition insert_review :: "review_row \<Rightarrow> db \<Rightarrow> db cp" where
  "insert_review r s =
     (if list_ex (\<lambda>x. rv_id x = rv_id r \<or> sql_eq (rv_boundary_id x) (rv_boundary_id r)) (reviews s) then Inl unique_violation
      else Inr (s\<lparr>reviews := reviews s @ [r]\<rparr>))"

definition already_reviewed :: "db \<Rightarrow> boundary_row \<Rightarrow> unit cp" where
  "already_reviewed s b = (case fetchone (\<lambda>r. rv_boundary_id r = Some (b_id b)) (reviews s) of
     None \<Rightarrow> Inr ()
   | Some r \<Rightarrow> Inl (ConflictError ''completion boundary already has a CAO review''
       [(''review_id'', jstr (rv_id r)), (''verdict'', jstr (rv_verdict r))]))"

definition review_open_boundary ::
  "env \<Rightarrow> actor \<Rightarrow> review_request \<Rightarrow> work_row \<Rightarrow> attempt_row \<Rightarrow> boundary_row \<Rightarrow> json list \<Rightarrow> db \<Rightarrow> db cp" where
  "review_open_boundary e actor q w a b evidence s =
     bindE (already_reviewed s b) (\<lambda>_.
     let r = new_review e actor q w a (Some b) evidence s in
     bindE (insert_review r s) (\<lambda>s1.
     Inr (log_event e (caused_event ''work.reviewed'' ''work_item'' (w_id w) (act_id actor)
       [(''review_id'', jstr (rv_id r)), (''verdict'', jstr (rv_verdict r)), (''boundary_id'', jstr (b_id b)),
        (''awaiting_disposition'', JBool True)] (b_id b)) s1)))"

definition rejected_boundary :: "review_row \<Rightarrow> review_request \<Rightarrow> work_row \<Rightarrow> attempt_row \<Rightarrow> boundary_input" where
  "rejected_boundary r q w a = \<lparr>bi_source_event_id = ''review:'' @ rv_id r @ '':needs-work'', bi_work_item_id = w_id w,
     bi_attempt_id = a_id a, bi_goal_version = w_goal_version w, bi_goal_packet_digest = a_goal_packet_digest a,
     bi_task_packet_digest = a_task_packet_digest a, bi_generation = w_generation w, bi_kind = REVIEW_REJECTED,
     bi_summary = vq_summary q, bi_runtime_state = R_WAITING,
     bi_metadata = jobj [(''review_id'', jstr (rv_id r)), (''evidence'', JArr (vq_evidence q))]\<rparr>"

text \<open>What the verdict on a submitted claim does, with the recipient it is sent to.\<close>

definition accept_claim :: "env \<Rightarrow> work_row \<Rightarrow> attempt_row \<Rightarrow> db \<Rightarrow> (db \<times> ident \<times> boundary_row option) cp" where
  "accept_claim e w a s =
     bindE (set_work e (w_id w) W_WAITING_USER AO_USER (s\<lparr>attempts := update_rows (\<lambda>x. a_id x = a_id a)
       (\<lambda>x. x\<lparr>a_state := A_COMPLETED, a_evidence_confidence := ''verified'', a_updated_at := env_now e\<rparr>) (attempts s)\<rparr>)) (\<lambda>s1.
     Inr (s1, str_or_empty (if str_or_empty (w_supervisor_attachment_id w) \<noteq> '''' \<or> str_or_empty (w_requester_id w) = ''''
        then w_supervisor_id w else w_requester_id w), None))"

definition reject_claim ::
  "env \<Rightarrow> review_ports \<Rightarrow> actor \<Rightarrow> review_row \<Rightarrow> review_request \<Rightarrow> work_row \<Rightarrow> attempt_row \<Rightarrow> db
   \<Rightarrow> (db \<times> ident \<times> boundary_row option) cp" where
  "reject_claim e p actor r q w a s =
     bindE (set_work e (w_id w) W_WAITING_SUPERVISOR AO_CAO (s\<lparr>attempts := update_rows (\<lambda>x. a_id x = a_id a)
       (\<lambda>x. x\<lparr>a_state := A_WAITING_SUPERVISOR, a_trajectory := ''at_risk'', a_updated_at := env_now e\<rparr>) (attempts s)\<rparr>)) (\<lambda>s1.
     bindE (record_boundary_tx e (vp_report p) actor (rejected_boundary r q w a) s1) (\<lambda>(s2, b).
     Inr (s2, work_supervisor w, Some b)))"

definition review_message :: "actor \<Rightarrow> review_request \<Rightarrow> review_row \<Rightarrow> work_row \<Rightarrow> attempt_row \<Rightarrow> ident \<Rightarrow> boundary_row option \<Rightarrow> message_request" where
  "review_message actor q r w a recipient b = work_message (act_id actor) recipient REVIEW
     (upayload [(''review_id'', jstr (rv_id r)), (''verdict'', jstr (rv_verdict r)), (''summary'', JStr (vq_summary q)),
       (''evidence'', JArr (vq_evidence q)), (''boundary_id'', jopt (\<lambda>x. jstr (b_id x)) b)]) w (a_id a)
     (if vq_idempotency_key q = '''' then '''' else ''review:'' @ vq_idempotency_key q)"

definition review_claim ::
  "env \<Rightarrow> review_ports \<Rightarrow> actor \<Rightarrow> review_request \<Rightarrow> work_row \<Rightarrow> attempt_row \<Rightarrow> json list \<Rightarrow> db \<Rightarrow> db cp" where
  "review_claim e p actor q w a evidence s =
     (let r = new_review e actor q w a None evidence s in
      bindE (insert_review r s) (\<lambda>s1.
      bindE (if vq_verdict q = ''ok'' then accept_claim e w a s1 else reject_claim e p actor r q w a s1) (\<lambda>(s2, recipient, b).
      bindE (message_tx e (review_message actor q r w a recipient b) s2) (\<lambda>(s3, m, ds).
      Inr (log_event e (caused_event ''work.reviewed'' ''work_item'' (w_id w) (act_id actor)
        [(''review_id'', jstr (rv_id r)), (''verdict'', jstr (rv_verdict r))] (m_id m)) s3)))))"

definition review_actor :: "env \<Rightarrow> db \<Rightarrow> actor \<Rightarrow> ident \<Rightarrow> (attempt_row \<times> work_row) cp" where
  "review_actor e s actor attempt_id =
     bindE (if act_attachment_id actor \<noteq> '''' then require_current_cao_attachment_actor_tx e True s actor else Inr ()) (\<lambda>_.
     case get_attempt s attempt_id of
       None \<Rightarrow> Inl (NotFoundError ''attempt'' attempt_id)
     | Some a \<Rightarrow> bindE (require_authorized_work_tx s actor (a_work_item_id a)) (\<lambda>w.
         if str_or_empty (w_supervisor_attachment_id w) \<noteq> ''''
            \<and> act_attachment_id actor \<noteq> str_or_empty (w_supervisor_attachment_id w)
         then Inl (AuthorizationError ''attached Work must be reviewed from its originating CAO conversation'' [])
         else Inr (a, w)))"

definition review_tx :: "env \<Rightarrow> review_ports \<Rightarrow> actor \<Rightarrow> review_request \<Rightarrow> attempt_row \<Rightarrow> work_row \<Rightarrow> db \<Rightarrow> db cp" where
  "review_tx e p actor q a w s =
     bindE (confirm_work_purpose_tx e (act_id actor) w (vq_expected_purpose_version q) ''review'' s) (\<lambda>s1.
     bindE (review_subject s1 q w a) (\<lambda>g.
     bindE (review_judged e s1 q w a g) (\<lambda>evidence.
     bindE (review_delivered e p actor q w a evidence s1) (\<lambda>(s2, a1).
     case reviewed_boundary s1 w a of
       Some b \<Rightarrow> review_open_boundary e actor q w a1 b evidence s2
     | None \<Rightarrow> review_claim e p actor q w a1 evidence s2))))"

definition review :: "env \<Rightarrow> review_ports \<Rightarrow> actor \<Rightarrow> review_request \<Rightarrow> db \<Rightarrow> (db \<times> json) cp" where
  "review e p actor q s =
     bindE (require_role e s actor [CAO]) (\<lambda>_.
     transaction s (\<lambda>s.
       bindE (review_actor e s actor (vq_attempt_id q)) (\<lambda>(a, w).
       bindE (idempotent_get_tx (act_id actor) ''review'' (vq_idempotency_key q) [review_digest e q] s) (\<lambda>cached.
       case cached of
         Some r \<Rightarrow> Inr (s, r)
       | None \<Rightarrow>
           bindE (review_tx e p actor q a w s) (\<lambda>s1.
           bindE (rp_bundle (vp_report p) s1 (w_id w)) (\<lambda>result.
           bindE (idempotent_put (act_id actor) ''review'' (vq_idempotency_key q) (review_digest e q) result s1)
             (\<lambda>s2. Inr (s2, result))))))))"

section \<open>The decision of the requester\<close>

record requester_request =
  eq_review_id :: ident
  eq_accepted :: bool
  eq_summary :: pystr
  eq_evidence :: "json list"
  eq_conversation_evidence_id :: string
  eq_expected_purpose_version :: "int option"
  eq_idempotency_key :: string

definition verdict_text :: "requester_request \<Rightarrow> string" where
  "verdict_text q = (if eq_accepted q then ''accepted'' else ''rejected'')"

definition requester_fields :: "requester_request \<Rightarrow> json" where
  "requester_fields q = jobj (given_field ''expected_purpose_version'' JInt (eq_expected_purpose_version q)
     @ [(''review_id'', jstr (eq_review_id q)), (''verdict'', jstr (verdict_text q)), (''summary'', JStr (eq_summary q)),
        (''evidence'', JArr (eq_evidence q)), (''conversation_evidence_id'', jstr (eq_conversation_evidence_id q)),
        (''idempotency_key'', jstr (eq_idempotency_key q))])"

definition requester_digest :: "env \<Rightarrow> actor \<Rightarrow> requester_request \<Rightarrow> string" where
  "requester_digest e actor q = service_digest (env_sha e)
     (jobj [(''attachment_id'', jstr (act_attachment_id actor)), (''request'', requester_fields q)])"

definition requester_known :: "db \<Rightarrow> work_row \<Rightarrow> bool" where
  "requester_known s w = (str_or_empty (w_requester_id w) \<noteq> ''''
     \<and> list_ex (\<lambda>p. p_id p = str_or_empty (w_requester_id w) \<and> p_role p = USER) (principals s))"

text \<open>The review decided on, its Work and attempt, in the conversation that made it.\<close>

definition decision_subject :: "db \<Rightarrow> actor \<Rightarrow> int \<Rightarrow> requester_request \<Rightarrow> (review_row \<times> work_row \<times> attempt_row) cp" where
  "decision_subject s actor generation q =
     (case fetchone (\<lambda>r. rv_id r = eq_review_id q) (reviews s) of
        None \<Rightarrow> Inl (NotFoundError ''review'' (eq_review_id q))
      | Some r \<Rightarrow> (case (get_work s (rv_work_item_id r), get_attempt s (rv_attempt_id r)) of
          (Some w, Some a) \<Rightarrow>
            bindE (authorize_work_actor actor w) (\<lambda>_.
            if \<not> requester_known s w
            then Inl (ConflictError ''review-bound WorkItem requester authority is unavailable'' [])
            else if str_or_empty (rv_supervisor_attachment_id r) \<noteq> act_attachment_id actor
               \<or> (case rv_supervisor_attachment_generation r of None \<Rightarrow> True | Some g \<Rightarrow> g > generation)
            then Inl (AuthorizationError ''review belongs to another CAO conversation generation'' [])
            else Inr (r, w, a))
        | _ \<Rightarrow> Inl (PyError ''AssertionError'' '''')))"

definition decidable_result :: "env \<Rightarrow> db \<Rightarrow> requester_request \<Rightarrow> review_row \<Rightarrow> work_row \<Rightarrow> attempt_row \<Rightarrow> unit cp" where
  "decidable_result e s q r w a =
     (if rv_verdict r \<noteq> ''ok'' then Inl (ConflictError ''requester decision requires an OK CAO review'' [])
      else bindE (current_goal_tx s w) (\<lambda>g.
        if rv_attempt_id r \<noteq> a_id a \<or> rv_goal_version r \<noteq> w_goal_version w
           \<or> rv_goal_packet_digest r \<noteq> a_goal_packet_digest a \<or> rv_task_packet_digest r \<noteq> a_task_packet_digest a
           \<or> gr_packet_digest g \<noteq> a_goal_packet_digest a
        then Inl (ConflictError ''requester decision targets a stale review packet'' [])
        else if w_state w \<noteq> W_WAITING_USER \<or> a_state a \<noteq> A_COMPLETED \<or> a_evidence_confidence a \<noteq> ''verified''
        then Inl (ConflictError ''requester decision requires a verified result awaiting its requester''
               [(''work_state'', jstr (work_state_value (w_state w))), (''attempt_state'', jstr (attempt_state_value (a_state a)))])
        else if eq_accepted q then bindE (require_completion_delivery_ready_tx e s w a) (\<lambda>_. Inr ()) else Inr ()))"

definition review_decision :: "db \<Rightarrow> review_row \<Rightarrow> requester_decision_row option" where
  "review_decision s r = fetchone (\<lambda>d. rd_review_id d = rv_id r) (requester_decisions s)"

definition accepted_work :: "env \<Rightarrow> int \<Rightarrow> work_row \<Rightarrow> work_row" where
  "accepted_work e generation x = x\<lparr>w_state := W_COMPLETED, w_attention_owner := AO_NONE, w_generation := generation,
     w_updated_at := env_now e\<rparr>"

definition complete_work :: "env \<Rightarrow> work_row \<Rightarrow> db \<Rightarrow> db cp" where
  "complete_work e w s = update_works [COL_STATE, COL_ATTENTION, COL_GENERATION] (\<lambda>x. w_id x = w_id w)
     (accepted_work e (w_generation w + 1)) (fence_reasoner_turns_tx e (w_id w) s)"

definition refusal_boundary :: "ident \<Rightarrow> requester_request \<Rightarrow> review_row \<Rightarrow> work_row \<Rightarrow> attempt_row \<Rightarrow> boundary_input" where
  "refusal_boundary decision_id q r w a = \<lparr>bi_source_event_id = ''requester-decision:'' @ decision_id @ '':rejected'',
     bi_work_item_id = w_id w, bi_attempt_id = a_id a, bi_goal_version = w_goal_version w,
     bi_goal_packet_digest = a_goal_packet_digest a, bi_task_packet_digest = a_task_packet_digest a,
     bi_generation = w_generation w, bi_kind = USER_REJECTION, bi_summary = eq_summary q, bi_runtime_state = R_WAITING,
     bi_metadata = jobj [(''requester_decision_id'', jstr decision_id), (''review_id'', jstr (rv_id r))]\<rparr>"

definition refuse_work ::
  "env \<Rightarrow> review_ports \<Rightarrow> actor \<Rightarrow> ident \<Rightarrow> requester_request \<Rightarrow> review_row \<Rightarrow> work_row \<Rightarrow> attempt_row \<Rightarrow> db
   \<Rightarrow> (db \<times> boundary_row) cp" where
  "refuse_work e p actor decision_id q r w a s =
     bindE (set_work e (w_id w) W_WAITING_SUPERVISOR AO_CAO (set_attempt e (a_id a) A_WAITING_SUPERVISOR s)) (\<lambda>s1.
     record_boundary_tx e (vp_report p) actor (refusal_boundary decision_id q r w a) s1)"

definition apply_decision ::
  "env \<Rightarrow> review_ports \<Rightarrow> actor \<Rightarrow> ident \<Rightarrow> requester_request \<Rightarrow> review_row \<Rightarrow> work_row \<Rightarrow> attempt_row \<Rightarrow> db
   \<Rightarrow> (db \<times> boundary_row option) cp" where
  "apply_decision e p actor decision_id q r w a s =
     (if eq_accepted q then bindE (complete_work e w s) (\<lambda>s1. Inr (s1, None))
      else bindE (refuse_work e p actor decision_id q r w a s) (\<lambda>(s1, b). Inr (s1, Some b)))"

text \<open>The trigger: every column of the record is the one of the rows it refers to.\<close>

definition decision_binding :: "db \<Rightarrow> requester_decision_row \<Rightarrow> bool" where
  "decision_binding s d = list_ex (\<lambda>w. w_id w = rd_work_item_id d \<and> w_requester_id w = Some (rd_requester_id d)
     \<and> w_supervisor_id w = Some (rd_recorded_by d) \<and> w_supervisor_attachment_id w = Some (rd_supervisor_attachment_id d)
     \<and> w_generation w = rd_work_generation d
     \<and> list_ex (\<lambda>a. a_id a = rd_attempt_id d \<and> a_work_item_id a = w_id w \<and> a_goal_version a = rd_goal_version d
         \<and> a_goal_packet_digest a = rd_goal_packet_digest d \<and> a_task_packet_digest a = rd_task_packet_digest d
         \<and> list_ex (\<lambda>r. rv_id r = rd_review_id d \<and> rv_work_item_id r = w_id w \<and> rv_attempt_id r = a_id a
             \<and> rv_reviewer_role r = CAO \<and> rv_verdict r = ''ok''
             \<and> rv_supervisor_attachment_id r = Some (rd_supervisor_attachment_id d)
             \<and> (case rv_supervisor_attachment_generation r of None \<Rightarrow> False
                | Some g \<Rightarrow> g \<le> rd_supervisor_attachment_generation d)
             \<and> rv_work_generation r \<le> rd_work_generation d \<and> rv_goal_version r = rd_goal_version d
             \<and> rv_goal_packet_digest r = rd_goal_packet_digest d \<and> rv_task_packet_digest r = rd_task_packet_digest d)
           (reviews s)) (attempts s)
     \<and> list_ex (\<lambda>t. ca_id t = rd_supervisor_attachment_id d \<and> ca_principal_id t = rd_recorded_by d
         \<and> ca_generation t = rd_supervisor_attachment_generation d) (attachments s)) (works s)"

definition insert_requester_decision :: "requester_decision_row \<Rightarrow> db \<Rightarrow> db cp" where
  "insert_requester_decision d s =
     (if \<not> decision_binding s d then Inl (PyError ''IntegrityError'' ''requester decision exact binding violation'')
      else if list_ex (\<lambda>x. rd_id x = rd_id d \<or> rd_review_id x = rd_review_id d) (requester_decisions s) then Inl unique_violation
      else Inr (s\<lparr>requester_decisions := requester_decisions s @ [d]\<rparr>))"

definition new_requester_decision ::
  "env \<Rightarrow> actor \<Rightarrow> int \<Rightarrow> ident \<Rightarrow> requester_request \<Rightarrow> review_row \<Rightarrow> work_row \<Rightarrow> attempt_row \<Rightarrow> requester_decision_row" where
  "new_requester_decision e actor generation decision_id q r w a = \<lparr>rd_id = decision_id, rd_work_item_id = w_id w,
     rd_attempt_id = a_id a, rd_review_id = rv_id r, rd_requester_id = str_or_empty (w_requester_id w),
     rd_recorded_by = act_id actor, rd_supervisor_attachment_id = act_attachment_id actor,
     rd_supervisor_attachment_generation = generation, rd_goal_version = a_goal_version a,
     rd_goal_packet_digest = a_goal_packet_digest a, rd_task_packet_digest = a_task_packet_digest a,
     rd_work_generation = (if eq_accepted q then w_generation w + 1 else w_generation w), rd_verdict = verdict_text q,
     rd_summary = eq_summary q, rd_evidence = JArr (eq_evidence q),
     rd_conversation_evidence_id = eq_conversation_evidence_id q, rd_request_digest = requester_digest e actor q,
     rd_created_at = env_now e\<rparr>"

text \<open>The review messages of this conversation about the decided review are settled.\<close>

definition review_notice :: "db \<Rightarrow> actor \<Rightarrow> review_row \<Rightarrow> work_row \<Rightarrow> delivery_row \<Rightarrow> bool" where
  "review_notice s actor r w d = (d_recipient_id d = act_id actor \<and> d_recipient_attachment_id d = Some (act_attachment_id actor)
     \<and> d_state d \<in> {QUEUED, LEASED, DISPATCHED, DELIVERED, ACKNOWLEDGED}
     \<and> list_ex (\<lambda>m. m_id m = d_message_id d \<and> m_work_item_id m = Some (w_id w) \<and> m_kind m = REVIEW
         \<and> jget (m_payload m) ''review_id'' = Some (jstr (rv_id r))) (messages s))"

definition decision_event :: "actor \<Rightarrow> int \<Rightarrow> ident \<Rightarrow> requester_request \<Rightarrow> review_row \<Rightarrow> work_row \<Rightarrow> boundary_row option \<Rightarrow> event_input" where
  "decision_event actor generation decision_id q r w b = mk_event ''work.requester_decision_recorded'' ''work_item'' (w_id w)
     (act_id actor) [(''requester_decision_id'', jstr decision_id), (''review_id'', jstr (rv_id r)),
       (''verdict'', jstr (verdict_text q)), (''attachment_generation'', JInt generation),
       (''boundary_id'', jopt (\<lambda>x. jstr (b_id x)) b)]"

definition decide_result ::
  "env \<Rightarrow> review_ports \<Rightarrow> actor \<Rightarrow> int \<Rightarrow> requester_request \<Rightarrow> review_row \<Rightarrow> work_row \<Rightarrow> attempt_row \<Rightarrow> db \<Rightarrow> db cp" where
  "decide_result e p actor generation q r w a s =
     (let decision_id = env_mint e ''rdec'' (int (length (requester_decisions s))) in
      bindE (apply_decision e p actor decision_id q r w a s) (\<lambda>(s1, b).
      bindE (insert_requester_decision (new_requester_decision e actor generation decision_id q r w a) s1) (\<lambda>s2.
      let s3 = log_event e (decision_event actor generation decision_id q r w b)
            (s2\<lparr>deliveries := update_rows (review_notice s2 actor r w) (report_handled_row e) (deliveries s2)\<rparr>)
      in if eq_accepted q then resume_interrupted_target_tx e (vp_continuation p) (w_id w) (act_id actor) s3 else Inr s3)))"

text \<open>\<open>None\<close>: the review already has exactly this decision, and nothing is recorded again.\<close>

definition requester_decision_tx ::
  "env \<Rightarrow> review_ports \<Rightarrow> actor \<Rightarrow> int \<Rightarrow> requester_request \<Rightarrow> review_row \<Rightarrow> work_row \<Rightarrow> attempt_row \<Rightarrow> db \<Rightarrow> (db \<times> bool) cp" where
  "requester_decision_tx e p actor generation q r w a s =
     bindE (confirm_work_purpose_tx e (act_id actor) w (eq_expected_purpose_version q) ''requester_decision'' s) (\<lambda>s1.
     bindE (decidable_result e s1 q r w a) (\<lambda>_.
     case review_decision s1 r of
       Some d \<Rightarrow>
         if rd_request_digest d \<noteq> requester_digest e actor q
         then Inl (ConflictError ''CAO review already has a different requester decision'' [])
         else Inr (s1, False)
     | None \<Rightarrow> bindE (decide_result e p actor generation q r w a s1) (\<lambda>s2. Inr (s2, True))))"

definition record_requester_decision ::
  "env \<Rightarrow> review_ports \<Rightarrow> actor \<Rightarrow> requester_request \<Rightarrow> db \<Rightarrow> (db \<times> json) cp" where
  "record_requester_decision e p actor q s =
     bindE (require_role e s actor [CAO]) (\<lambda>_.
     if act_attachment_id actor = '''' \<or> act_attachment_generation actor = None
     then Inl (AuthorizationError ''requester decisions require an attached CAO conversation'' [])
     else if contains_control_plane_secret (requester_fields q)
     then Inl (ValidationError ''requester decision contains a credential-like secret'' [])
     else (let generation = the (act_attachment_generation actor); operation = ''requester_decision:'' @ act_attachment_id actor in
       transaction s (\<lambda>s.
       bindE (require_current_cao_attachment_actor_tx e True s actor) (\<lambda>_.
       bindE (decision_subject s actor generation q) (\<lambda>(r, w, a).
       bindE (idempotent_get_tx (act_id actor) operation (eq_idempotency_key q) [requester_digest e actor q] s) (\<lambda>cached.
       case cached of
         Some v \<Rightarrow> Inr (s, v)
       | None \<Rightarrow>
           bindE (requester_decision_tx e p actor generation q r w a s) (\<lambda>(s1, recorded).
           bindE (rp_bundle (vp_report p) s1 (w_id w)) (\<lambda>result.
           if \<not> recorded then Inr (s1, result)
           else bindE (idempotent_put (act_id actor) operation (eq_idempotency_key q) (requester_digest e actor q) result s1)
             (\<lambda>s2. Inr (s2, result))))))))))"

end
