(* ===== verification/Acceptance_Safety.thy ===== *)
theory Acceptance_Safety
  imports Work_Review Continuation_Ledger
begin

text \<open>
  What reporting, reviewing and accepting promise. Reports, status requests and reviews are runs of the
  statements the ledger guards, like everything that continues a Work, and no operation completes a
  Work but the record of a requester that accepted a result its supervisor had reviewed as good.
\<close>

section \<open>Reports\<close>

lemma settle_frame: "sup_frame s (settle_message e actor_id runtime_id what kind states m s)"
  by (simp add: settle_message_def Let_def)

lemma handle_assignment_frame: "sup_frame s (handle_attempt_assignment_from_report_tx e actor_id runtime_id attempt_id kind s)"
  by (simp add: handle_attempt_assignment_from_report_tx_def settle_frame split: list.split)

lemma handle_status_frame:
  "handle_status_requests_from_report_tx e actor_id runtime_id attempt_id kind s = (s', x) \<Longrightarrow> sup_frame s s'"
  by (auto simp: handle_status_requests_from_report_tx_def Let_def intro: fold_frame settle_frame split: if_splits)

lemma create_artifacts_frame: "create_artifacts e p actor w a xs s = Inr (s', rs) \<Longrightarrow> sup_frame s s'"
proof (induction xs arbitrary: s rs)
  case (Cons x xs)
  then obtain t r rs' where "create_artifact_tx e p actor w a x s = Inr (t, r)" "create_artifacts e p actor w a xs t = Inr (s', rs')"
    by (auto simp: bindE_Inr_iff)
  moreover from this(1) have "sup_frame s t"
    by (auto simp: create_artifact_tx_def Let_def bindE_Inr_iff sup_frame_def split: if_splits)
  ultimately show ?case using Cons.IH by (blast intro: sup_frame_trans)
qed simp

lemma incorporated_frame:
  "foldE (handle_incorporated_worker_instruction_tx e actor_id report_id kind) s xs = Inr s' \<Longrightarrow> sup_frame s s'"
  by (erule foldE_sup_frame) (auto simp: handle_incorporated_worker_instruction_tx_def Let_def split: if_splits)

lemma report_events_frame: "sup_frame s (report_events e i q a payload first m s)"
  by (simp add: report_events_def Let_def)

lemma report_tell_frame: "report_tell e actor q a w answered xs created b s = Inr s' \<Longrightarrow> sup_frame s s'"
  by (auto simp: report_tell_def Let_def bindE_Inr_iff
      intro: sup_frame_trans [OF sup_frame_message sup_frame_trans [OF report_events_frame incorporated_frame]])

lemma close_probe_frame: "sup_frame s (close_provider_rate_limit_probe_tx e r a i s)"
  by (simp add: close_provider_rate_limit_probe_tx_def Let_def sup_frame_def split: option.split)

lemma put_frame: "idempotent_put i op k d r s = Inr s' \<Longrightarrow> sup_frame s s'"
  by (auto simp: idempotent_put_def sup_frame_def split: if_splits option.splits)

lemma insert_boundary_frame: "insert_boundary b s = Inr s' \<Longrightarrow> sup_frame s s'"
  by (auto simp: insert_boundary_def sup_frame_def split: if_splits)

lemma request_status_tx_frame: "request_status_tx e p i q w s = Inr s' \<Longrightarrow> sup_frame s s'"
  by (auto simp: request_status_tx_def bindE_Inr_iff simp del: append_Cons dest: sup_frame_message)

lemma request_status_frame: "request_status e p actor i q s = Inr (s', r) \<Longrightarrow> sup_frame s s'"
  by (auto simp: request_status_def transaction_Inr_iff bindE_Inr_iff split: option.splits
      intro: sup_frame_trans [OF request_status_tx_frame put_frame])

text \<open>The backfill of recovery actions a report takes as a parameter writes through the statements as well.\<close>

definition report_ports_guarded :: "(db \<Rightarrow> db \<Rightarrow> bool) \<Rightarrow> report_ports \<Rightarrow> bool" where
  "report_ports_guarded R p = (\<forall>s. R\<^sup>*\<^sup>* s (rp_backfill_recovery p s))"

context guarded_statements
begin

lemma backfilled_runs: "report_ports_guarded R p \<Longrightarrow> R\<^sup>*\<^sup>* s (backfilled p q s)"
  by (simp add: report_ports_guarded_def backfilled_def)

lemma record_boundary_runs:
  assumes "record_boundary_tx e p actor q s = Inr (s', b)" and "report_ports_guarded R p"
  shows "R\<^sup>*\<^sup>* s s'"
proof (cases "boundary_of_source s (act_id actor) (bi_source_event_id q)")
  case None
  with assms(1) obtain s1 x where s1: "insert_boundary (new_boundary e (act_id actor) q s) s = Inr s1"
    and s': "s' = backfilled p q (log_event e x s1)"
    by (auto simp: record_boundary_tx_def Let_def bindE_Inr_iff split: option.splits)
  have "R\<^sup>*\<^sup>* s (log_event e x s1)" by (rule ledger_frame) (simp add: insert_boundary_frame [OF s1])
  with backfilled_runs [OF assms(2)] show ?thesis unfolding s' by (blast intro: rtranclp_trans)
next
  case (Some b)
  with assms(1) have "s' = backfilled p q s"
    by (auto simp: record_boundary_tx_def Let_def split: if_splits option.splits)
  with backfilled_runs [OF assms(2)] show ?thesis by simp
qed

lemma report_work_runs: "report_work e q w s = Inr s' \<Longrightarrow> R s s'"
  by (auto simp: report_work_def intro: set_work_ledger split: if_splits)

lemma report_attempt_runs:
  assumes "report_attempt e p actor q a w xs s = Inr (s', created, b)" and "report_ports_guarded R p"
  shows "R\<^sup>*\<^sup>* s s'"
proof -
  from assms(1) obtain s1 f s3 where c: "create_artifacts e p actor w a xs s = Inr (s1, created)"
    and w: "report_work e q w (s1\<lparr>attempts := f\<rparr>) = Inr s3"
    and r: "report_boundary_tx e p actor q w a created s3 = Inr (s', b)"
    by (auto simp: report_attempt_def Let_def bindE_Inr_iff)
  have "R\<^sup>*\<^sup>* s s3" by (rule framed_step [OF _ report_work_runs [OF w]]) (simp add: create_artifacts_frame [OF c])
  also have "R\<^sup>*\<^sup>* s3 s'"
    using r assms(2) by (auto simp: report_boundary_tx_def bindE_Inr_iff dest: record_boundary_runs split: option.splits)
  finally show ?thesis .
qed

lemma report_runs:
  assumes "report e p actor i q s = Inr (s', r)" and "report_ports_guarded R p"
  shows "R\<^sup>*\<^sup>* s s'"
proof -
  have tx: "R\<^sup>*\<^sup>* s s1" if run: "report_tx e p actor q a w rt s = Inr s1" for a w rt s1
  proof -
    let ?s1 = "handle_attempt_assignment_from_report_tx e (act_id actor) rt (a_id a) (rpq_kind q) s"
    obtain s2 answered where st: "handle_status_requests_from_report_tx e (act_id actor) rt (a_id a) (rpq_kind q) ?s1 = (s2, answered)"
      by (cases "handle_status_requests_from_report_tx e (act_id actor) rt (a_id a) (rpq_kind q) ?s1")
    with run obtain s3 created b xs s4 where a: "report_attempt e p actor q a w (rpq_artifacts q) s2 = Inr (s3, created, b)"
      and t: "report_tell e actor q a w answered xs created b s3 = Inr s4"
      and s1: "s1 = close_provider_rate_limit_probe_tx e rt (a_id a) (act_id actor) s4"
      by (auto simp: report_tx_def Let_def bindE_Inr_iff)
    have "R\<^sup>*\<^sup>* s s2" by (rule ledger_frame [OF sup_frame_trans [OF handle_assignment_frame handle_status_frame [OF st]]])
    also note report_attempt_runs [OF a assms(2)]
    also have "R\<^sup>*\<^sup>* s3 s1" unfolding s1 by (rule ledger_frame [OF sup_frame_trans [OF report_tell_frame [OF t] close_probe_frame]])
    finally show ?thesis .
  qed
  from assms(1) show ?thesis
    by (auto simp: report_def transaction_Inr_iff bindE_Inr_iff split: option.splits
        intro: rtranclp_trans [OF tx ledger_frame [OF put_frame]])
qed

end

section \<open>Reviews\<close>

locale reviewing_statements = guarded_statements +
  assumes by_review: "insert_review r s = Inr s' \<Longrightarrow> R s s'"
begin

lemma claim_captured_frame: "claim_captured e p actor q w a evidence s = Inr (s', a') \<Longrightarrow> sup_frame s s'"
  by (auto simp: claim_captured_def Let_def bindE_Inr_iff split: option.splits if_splits)

lemma review_delivered_frame: "review_delivered e p actor q w a evidence s = Inr (s', a') \<Longrightarrow> sup_frame s s'"
  by (auto simp: review_delivered_def bindE_Inr_iff dest: claim_captured_frame split: if_splits)

lemma review_open_runs:
  assumes "review_open_boundary e actor q w a b evidence s = Inr s'"
  shows "R\<^sup>*\<^sup>* s s'"
proof -
  from assms obtain r s1 x where i: "insert_review r s = Inr s1" and s': "s' = log_event e x s1"
    by (auto simp: review_open_boundary_def Let_def bindE_Inr_iff)
  from by_review [OF i] have "R\<^sup>*\<^sup>* s s1" ..
  also have "R\<^sup>*\<^sup>* s1 s'" by (rule ledger_frame) (simp add: s')
  finally show ?thesis .
qed

lemma accept_claim_runs: "accept_claim e w a s = Inr (s', x) \<Longrightarrow> R\<^sup>*\<^sup>* s s'"
  by (auto simp: accept_claim_def bindE_Inr_iff elim!: framed_step [rotated, OF set_work_ledger])

lemma reject_claim_runs:
  assumes "reject_claim e p actor r q w a s = Inr (s', x)" and "report_ports_guarded R (vp_report p)"
  shows "R\<^sup>*\<^sup>* s s'"
proof -
  from assms(1) obtain f s1 b where w: "set_work e (w_id w) W_WAITING_SUPERVISOR AO_CAO (s\<lparr>attempts := f\<rparr>) = Inr s1"
    and b: "record_boundary_tx e (vp_report p) actor (rejected_boundary r q w a) s1 = Inr (s', b)"
    by (auto simp: reject_claim_def bindE_Inr_iff)
  have "R\<^sup>*\<^sup>* s s1" by (rule framed_step [OF _ set_work_ledger [OF w]]) simp_all
  with record_boundary_runs [OF b assms(2)] show ?thesis by (rule rtranclp_trans [rotated])
qed

lemma review_claim_runs:
  assumes "review_claim e p actor q w a evidence s = Inr s'" and "report_ports_guarded R (vp_report p)"
  shows "R\<^sup>*\<^sup>* s s'"
proof -
  from assms(1) obtain r s1 s2 recipient b s3 m ds x where i: "insert_review r s = Inr s1"
    and v: "(if vq_verdict q = ''ok'' then accept_claim e w a s1 else reject_claim e p actor r q w a s1) = Inr (s2, recipient, b)"
    and m: "message_tx e (review_message actor q r w a recipient b) s2 = Inr (s3, m, ds)" and s': "s' = log_event e x s3"
    by (auto simp: review_claim_def Let_def bindE_Inr_iff)
  from by_review [OF i] have "R\<^sup>*\<^sup>* s s1" ..
  also have "R\<^sup>*\<^sup>* s1 s2" using v assms(2) by (auto split: if_splits dest: accept_claim_runs reject_claim_runs)
  also have "R\<^sup>*\<^sup>* s2 s'" by (rule ledger_frame) (simp add: s' sup_frame_message [OF m])
  finally show ?thesis .
qed

lemma review_runs:
  assumes "review e p actor q s = Inr (s', r)" and "report_ports_guarded R (vp_report p)"
  shows "R\<^sup>*\<^sup>* s s'"
proof -
  have tx: "R\<^sup>*\<^sup>* s s3" if run: "review_tx e p actor q a w s = Inr s3" for a w s3
  proof -
    from run obtain s1 s2 evidence a1 where c: "confirm_work_purpose_tx e (act_id actor) w (vq_expected_purpose_version q) ''review'' s = Inr s1"
      and d: "review_delivered e p actor q w a evidence s1 = Inr (s2, a1)"
      and v: "(case reviewed_boundary s1 w a of Some b \<Rightarrow> review_open_boundary e actor q w a1 b evidence s2
          | None \<Rightarrow> review_claim e p actor q w a1 evidence s2) = Inr s3"
      by (auto simp: review_tx_def bindE_Inr_iff)
    from v assms(2) have "R\<^sup>*\<^sup>* s2 s3" by (auto split: option.splits dest: review_open_runs review_claim_runs)
    with ledger_frame [OF sup_frame_trans [OF confirm_frame [OF c] review_delivered_frame [OF d]]] show ?thesis by (rule rtranclp_trans)
  qed
  from assms(1) show ?thesis
    by (auto simp: review_def transaction_Inr_iff bindE_Inr_iff split: option.splits
        intro: rtranclp_trans [OF tx ledger_frame [OF put_frame]])
qed

end

section \<open>Decisions of the requester\<close>

text \<open>A recorded decision, between two writes that leave the ledgers alone; a replay records nothing.\<close>

lemma requester_cases:
  assumes "record_requester_decision e p actor q s = Inr (s', r)"
  obtains "sup_frame s s'"
  | g v w a s1 s2 where "w \<in> set (works s)" "sup_frame s s1" "decide_result e p actor g q v w a s1 = Inr s2" "sup_frame s2 s'"
proof -
  let ?g = "the (act_attachment_generation actor)"
  from assms have "\<exists>x. decision_subject s actor ?g q = Inr x \<and> (case x of (v, w, a) \<Rightarrow>
      bindE (idempotent_get_tx (act_id actor) (''requester_decision:'' @ act_attachment_id actor) (eq_idempotency_key q)
        [requester_digest e actor q] s) (\<lambda>cached. case cached of Some v \<Rightarrow> Inr (s, v)
       | None \<Rightarrow> bindE (requester_decision_tx e p actor ?g q v w a s) (\<lambda>(s1, recorded).
           bindE (rp_bundle (vp_report p) s1 (w_id w)) (\<lambda>result. if \<not> recorded then Inr (s1, result)
             else bindE (idempotent_put (act_id actor) (''requester_decision:'' @ act_attachment_id actor) (eq_idempotency_key q)
               (requester_digest e actor q) result s1) (\<lambda>s2. Inr (s2, result)))))) = Inr (s', r)"
    unfolding record_requester_decision_def Let_def bindE_Inr_iff [of "require_role e s actor [CAO]"]
    by (simp only: transaction_Inr_iff bindE_Inr_iff [of "require_current_cao_attachment_actor_tx e True s actor"]
        bindE_Inr_iff [of "decision_subject s actor ?g q"] sum.distinct simp_thms split: if_splits) (elim exE conjE disjE, (intro exI conjI, assumption+)?)
  then obtain v w a where sub: "decision_subject s actor ?g q = Inr (v, w, a)"
    and rest: "bindE (idempotent_get_tx (act_id actor) (''requester_decision:'' @ act_attachment_id actor) (eq_idempotency_key q)
        [requester_digest e actor q] s) (\<lambda>cached. case cached of Some v \<Rightarrow> Inr (s, v)
       | None \<Rightarrow> bindE (requester_decision_tx e p actor ?g q v w a s) (\<lambda>(s1, recorded).
           bindE (rp_bundle (vp_report p) s1 (w_id w)) (\<lambda>result. if \<not> recorded then Inr (s1, result)
             else bindE (idempotent_put (act_id actor) (''requester_decision:'' @ act_attachment_id actor) (eq_idempotency_key q)
               (requester_digest e actor q) result s1) (\<lambda>s2. Inr (s2, result))))) = Inr (s', r)"
    unfolding split_paired_Ex prod.case by (elim exE conjE)
  have w: "w \<in> set (works s)"
    using sub by (auto simp: decision_subject_def bindE_Inr_iff get_work_def dest!: fetchone_SomeD split: option.splits if_splits)
  from rest obtain cached where c: "(case cached of Some v \<Rightarrow> Inr (s, v)
       | None \<Rightarrow> bindE (requester_decision_tx e p actor ?g q v w a s) (\<lambda>(s1, recorded).
           bindE (rp_bundle (vp_report p) s1 (w_id w)) (\<lambda>result. if \<not> recorded then Inr (s1, result)
             else bindE (idempotent_put (act_id actor) (''requester_decision:'' @ act_attachment_id actor) (eq_idempotency_key q)
               (requester_digest e actor q) result s1) (\<lambda>s2. Inr (s2, result))))) = Inr (s', r)"
    unfolding bindE_Inr_iff [of "idempotent_get_tx _ _ _ _ _"] by (elim exE conjE)
  show thesis
  proof (cases cached)
    case (Some y)
    with c have "s' = s" by simp
    then show ?thesis by (intro that(1)) simp
  next
    case None
    with c obtain s1 recorded result where tx: "requester_decision_tx e p actor ?g q v w a s = Inr (s1, recorded)"
      and fin: "(if \<not> recorded then Inr (s1, result)
             else bindE (idempotent_put (act_id actor) (''requester_decision:'' @ act_attachment_id actor) (eq_idempotency_key q)
               (requester_digest e actor q) result s1) (\<lambda>s2. Inr (s2, result))) = Inr (s', r)"
      unfolding None option.case bindE_Inr_iff [of "requester_decision_tx _ _ _ _ _ _ _ _ _"] bindE_Inr_iff [of "rp_bundle _ _ _"]
        split_paired_Ex prod.case by (elim exE conjE)
    from tx obtain t where t: "confirm_work_purpose_tx e (act_id actor) w (eq_expected_purpose_version q) ''requester_decision'' s = Inr t"
      by (auto simp: requester_decision_tx_def bindE_Inr_iff)
    from tx t have run: "recorded \<and> decide_result e p actor ?g q v w a t = Inr s1 \<or> \<not> recorded \<and> s1 = t"
      by (auto simp: requester_decision_tx_def bindE_Inr_iff split: option.splits if_splits)
    show ?thesis
    proof (cases recorded)
      case True
      with fin have "sup_frame s1 s'" by (auto simp: bindE_Inr_iff dest: put_frame)
      with True run w confirm_frame [OF t] show ?thesis by (intro that(2)) simp_all
    next
      case False
      with fin run confirm_frame [OF t] show ?thesis by (intro that(1)) simp
    qed
  qed
qed

lemma decide_stages:
  assumes "decide_result e p actor g q v w a s = Inr s'"
  obtains s1 b d s2 s3 where "apply_decision e p actor (rd_id d) q v w a s = Inr (s1, b)" "insert_requester_decision d s1 = Inr s2"
    "rd_work_item_id d = w_id w" "rd_verdict d = verdict_text q" "rd_review_id d = rv_id v" "sup_frame s2 s3"
    "if eq_accepted q then resume_interrupted_target_tx e (vp_continuation p) (w_id w) (act_id actor) s3 = Inr s' else s' = s3"
proof -
  let ?i = "env_mint e ''rdec'' (int (length (requester_decisions s)))"
  let ?d = "new_requester_decision e actor g ?i q v w a"
  let ?s3 = "\<lambda>b s2. log_event e (decision_event actor g ?i q v w b)
    (s2\<lparr>deliveries := update_rows (review_notice s2 actor v w) (report_handled_row e) (deliveries s2)\<rparr>)"
  from assms obtain s1 b s2 where a: "apply_decision e p actor ?i q v w a s = Inr (s1, b)"
    and d: "insert_requester_decision ?d s1 = Inr s2"
    and l: "(if eq_accepted q then resume_interrupted_target_tx e (vp_continuation p) (w_id w) (act_id actor) (?s3 b s2)
       else Inr (?s3 b s2)) = Inr s'"
    by (auto simp: decide_result_def Let_def bindE_Inr_iff simp del: if_split split del: if_split)
  from l have "if eq_accepted q then resume_interrupted_target_tx e (vp_continuation p) (w_id w) (act_id actor) (?s3 b s2) = Inr s'
    else s' = ?s3 b s2" by (simp split: if_splits)
  then show thesis by (intro that [of ?d s1 b s2 "?s3 b s2"]) (use a d in \<open>simp_all add: new_requester_decision_def\<close>)
qed

lemma insert_decision_ledger: "insert_requester_decision d s = Inr s' \<Longrightarrow> ledger_step s s'"
  by (rule ledger_other) (auto simp: insert_requester_decision_def split: if_splits)

interpretation review_ledger: reviewing_statements ledger_step
  by unfold_locales (auto simp: insert_review_def intro: ledger_other split: if_splits)

text \<open>The identifier is the primary key of the Works.\<close>

definition works_keyed :: "db \<Rightarrow> bool" where
  "works_keyed s = distinct (map w_id (works s))"

lemma ledger_keeps_keys: "ledger_step s s' \<Longrightarrow> works_keyed s \<Longrightarrow> works_keyed s'"
proof (erule ledger_stepE)
  fix cols p f
  assume "works_keyed s" and u: "update_works cols p f s = Inr s'" and f: "sets_only cols f"
  have "map w_id (update_rows p f (works s)) = map w_id (works s)" using f by (simp add: update_rows_def sets_only_def)
  with u \<open>works_keyed s\<close> show "works_keyed s'" by (auto simp: works_keyed_def update_works_def split: if_splits)
next
  fix x
  assume "works_keyed s" and "insert_work x s = Inr s'"
  then show "works_keyed s'" by (force simp: works_keyed_def insert_work_def list_ex_iff split: if_splits)
qed (auto simp: works_keyed_def insert_pause_def insert_resumption_def insert_continuation_def split: if_splits)

lemma ledger_run_keys: "ledger_step\<^sup>*\<^sup>* s s' \<Longrightarrow> works_keyed s \<Longrightarrow> works_keyed s'"
  by (induction rule: rtranclp_induct) (auto intro: ledger_keeps_keys)

lemma update_works_rows:
  "update_works cols p f s = update_works cols p (\<lambda>x. if x \<in> set (works s) \<and> p x then f x else x) s"
  by (simp add: update_works_def update_rows_def list_all_iff)

lemma complete_work_ledger:
  assumes "complete_work e w s = Inr s'" and "w \<in> set (works s)" and "works_keyed s"
  shows "ledger_step\<^sup>*\<^sup>* s s'"
proof -
  let ?t = "fence_reasoner_turns_tx e (w_id w) s" and ?f = "accepted_work e (w_generation w + 1)"
  have "works ?t = works s" using fence_frame [of s e "w_id w"] by (simp add: sup_frame_def)
  moreover have same: "x = w" if "x \<in> set (works s)" "w_id x = w_id w" for x
    using assms(2,3) that by (simp add: works_keyed_def distinct_map inj_on_def)
  ultimately have f: "sets_only [COL_STATE, COL_ATTENTION, COL_GENERATION] (\<lambda>x. if x \<in> set (works ?t) \<and> w_id x = w_id w then ?f x else x)"
    by (auto simp: sets_only_def accepted_work_def dest: same)
  note u = assms(1) [unfolded complete_work_def update_works_rows [of _ _ ?f]]
  show ?thesis by (rule ledger.framed_step [OF fence_frame ledger_work [OF u f]])
qed

context guarded_statements
begin

lemma refuse_work_runs:
  assumes "refuse_work e p actor i q v w a s = Inr (s', b)" and "report_ports_guarded R (vp_report p)"
  shows "R\<^sup>*\<^sup>* s s'"
proof -
  from assms(1) obtain s1 where w: "set_work e (w_id w) W_WAITING_SUPERVISOR AO_CAO (set_attempt e (a_id a) A_WAITING_SUPERVISOR s) = Inr s1"
    and b: "record_boundary_tx e (vp_report p) actor (refusal_boundary i q v w a) s1 = Inr (s', b)"
    by (auto simp: refuse_work_def bindE_Inr_iff)
  have "R\<^sup>*\<^sup>* s s1" by (rule framed_step [OF _ set_work_ledger [OF w]]) simp_all
  with record_boundary_runs [OF b assms(2)] show ?thesis by (rule rtranclp_trans [rotated])
qed

end

lemma requester_ledger:
  assumes "record_requester_decision e p actor q s = Inr (s', r)" and "report_ports_guarded ledger_step (vp_report p)" and "works_keyed s"
  shows "ledger_step\<^sup>*\<^sup>* s s'"
  using assms(1)
proof (rule requester_cases)
  assume "sup_frame s s'"
  then show ?thesis by (rule ledger.ledger_frame)
next
  fix g v w a s1 s2
  assume w: "w \<in> set (works s)" and f: "sup_frame s s1" "sup_frame s2 s'" and d: "decide_result e p actor g q v w a s1 = Inr s2"
  from d have "ledger_step\<^sup>*\<^sup>* s1 s2"
  proof (rule decide_stages)
    fix t b d t2 t3
    assume a: "apply_decision e p actor (rd_id d) q v w a s1 = Inr (t, b)" and i: "insert_requester_decision d t = Inr t2"
      and f: "sup_frame t2 t3"
      and l: "if eq_accepted q then resume_interrupted_target_tx e (vp_continuation p) (w_id w) (act_id actor) t3 = Inr s2 else s2 = t3"
    have "w \<in> set (works s1)" "works_keyed s1" using w assms(3) \<open>sup_frame s s1\<close> by (simp_all add: sup_frame_def works_keyed_def)
    with a assms(2) have "ledger_step\<^sup>*\<^sup>* s1 t"
      by (auto simp: apply_decision_def bindE_Inr_iff dest: complete_work_ledger ledger.refuse_work_runs split: if_splits)
    also note r_into_rtranclp [of ledger_step, OF insert_decision_ledger [OF i]]
    also note ledger.ledger_frame [OF f]
    also have "ledger_step\<^sup>*\<^sup>* t3 s2" using l by (auto split: if_splits dest: ledger.return_ledger)
    finally show ?thesis .
  qed
  with ledger.ledger_frame [OF f(1)] ledger.ledger_frame [OF f(2)] show ?thesis by (meson rtranclp_trans)
qed

section \<open>The supervised service\<close>

inductive service_step :: "review_ports \<Rightarrow> decision_ports \<Rightarrow> db \<Rightarrow> db \<Rightarrow> bool" for v p where
  serve_continue: "continuation_step p s s' \<Longrightarrow> service_step v p s s'"
| serve_report: "report e (vp_report v) actor i q s = Inr (s', r) \<Longrightarrow> service_step v p s s'"
| serve_status: "request_status e (vp_continuation v) actor i sq s = Inr (s', r) \<Longrightarrow> service_step v p s s'"
| serve_review: "review e v actor vq s = Inr (s', r) \<Longrightarrow> service_step v p s s'"
| serve_requester: "record_requester_decision e v actor rq s = Inr (s', r) \<Longrightarrow> service_step v p s s'"
| serve_elsewhere: "sup_frame s s' \<Longrightarrow> service_step v p s s'"

definition service_ports_guarded :: "(db \<Rightarrow> db \<Rightarrow> bool) \<Rightarrow> review_ports \<Rightarrow> decision_ports \<Rightarrow> bool" where
  "service_ports_guarded R v p = (decision_ports_guarded R p \<and> report_ports_guarded R (vp_report v))"

lemma service_step_ledger:
  "service_step v p s s' \<Longrightarrow> service_ports_guarded ledger_step v p \<Longrightarrow> works_keyed s \<Longrightarrow> ledger_step\<^sup>*\<^sup>* s s'"
  by (induction rule: service_step.induct) (auto simp: service_ports_guarded_def
      intro: ledger.continuation_step_ledger ledger.report_runs review_ledger.review_runs requester_ledger ledger.ledger_frame request_status_frame)

lemma service_run_ledger:
  "(service_step v p)\<^sup>*\<^sup>* s t \<Longrightarrow> service_ports_guarded ledger_step v p \<Longrightarrow> works_keyed s \<Longrightarrow> ledger_step\<^sup>*\<^sup>* s t"
  by (induction rule: rtranclp_induct) (auto intro: rtranclp_trans service_step_ledger ledger_run_keys)


section \<open>Completed by the requester\<close>

text \<open>
  The acceptance of a Work: the record of a requester that accepted it, bound to a review of the Work
  by its CAO that found the result of the same packets good.
\<close>

definition accepts :: "db \<Rightarrow> ident \<Rightarrow> requester_decision_row \<Rightarrow> bool" where
  "accepts s i d = (rd_work_item_id d = i \<and> rd_verdict d = ''accepted''
     \<and> list_ex (\<lambda>r. rv_id r = rd_review_id d \<and> rv_work_item_id r = i \<and> rv_reviewer_role r = CAO \<and> rv_verdict r = ''ok''
         \<and> rv_goal_version r = rd_goal_version d \<and> rv_goal_packet_digest r = rd_goal_packet_digest d
         \<and> rv_task_packet_digest r = rd_task_packet_digest d) (reviews s))"

definition accepted :: "db \<Rightarrow> ident \<Rightarrow> bool" where
  "accepted s i = list_ex (accepts s i) (requester_decisions s)"

definition acceptance_ok :: "db \<Rightarrow> bool" where
  "acceptance_ok s = list_all (\<lambda>w. w_state w = W_COMPLETED \<longrightarrow> accepted s (w_id w)) (works s)"

definition completed_in :: "db \<Rightarrow> ident \<Rightarrow> bool" where
  "completed_in s i = list_ex (\<lambda>w. w_id w = i \<and> w_state w = W_COMPLETED) (works s)"

definition nothing_completed :: "db \<Rightarrow> db \<Rightarrow> bool" where
  "nothing_completed s s' = (requester_decisions s' = requester_decisions s \<and> set (reviews s) \<subseteq> set (reviews s')
     \<and> (\<forall>i. completed_in s' i \<longrightarrow> completed_in s i))"

lemma acceptance_completed: "acceptance_ok s \<longleftrightarrow> (\<forall>i. completed_in s i \<longrightarrow> accepted s i)"
  by (auto simp: acceptance_ok_def completed_in_def list_all_iff list_ex_iff)

lemma accepted_by: "accepted s i \<longleftrightarrow> (\<exists>d\<in>set (requester_decisions s). accepts s i d)"
  by (simp add: accepted_def list_ex_iff)

lemma accepts_mono:
  assumes "set (reviews s) \<subseteq> set (reviews s')" and "accepts s i d"
  shows "accepts s' i d"
proof -
  have "list_ex p (reviews s) \<Longrightarrow> list_ex p (reviews s')" for p using assms(1) by (auto simp: list_ex_iff)
  with assms(2) show ?thesis unfolding accepts_def by simp
qed

lemma accepted_mono:
  assumes "set (reviews s) \<subseteq> set (reviews s')" and "set (requester_decisions s) \<subseteq> set (requester_decisions s')" and "accepted s i"
  shows "accepted s' i"
proof -
  from assms(3) obtain d where "d \<in> set (requester_decisions s)" "accepts s i d" unfolding accepted_by by blast
  with assms(1,2) show ?thesis unfolding accepted_by by (auto intro: accepts_mono)
qed

lemma nothing_completed_ok:
  assumes "nothing_completed s s'" and "acceptance_ok s"
  shows "acceptance_ok s'"
  unfolding acceptance_completed
proof (intro allI impI)
  fix i assume "completed_in s' i"
  with assms(1) have "completed_in s i" by (simp add: nothing_completed_def)
  with assms(2) have "accepted s i" by (simp add: acceptance_completed)
  with assms(1) show "accepted s' i" by (auto simp: nothing_completed_def intro: accepted_mono)
qed

lemma run_nothing_completed: "nothing_completed\<^sup>*\<^sup>* s t \<Longrightarrow> nothing_completed s t"
  by (induction rule: rtranclp_induct) (auto simp: nothing_completed_def)

lemma nothing_completed_works:
  "works s' = works s \<Longrightarrow> reviews s' = reviews s \<Longrightarrow> requester_decisions s' = requester_decisions s \<Longrightarrow> nothing_completed s s'"
  by (simp add: nothing_completed_def completed_in_def)

lemma update_completes_nothing:
  assumes "update_works cols p f s = Inr s'" and "sets_only cols (\<lambda>x. if p x then f x else x)"
    and "\<And>x. w_state (f x) = W_COMPLETED \<Longrightarrow> w_state x = W_COMPLETED"
  shows "nothing_completed s s'"
proof -
  have same: "w_id (f x) = w_id x" if "p x" for x using assms(2) that unfolding sets_only_def by (elim allE [of _ x]) simp
  from assms(1) have s': "s' = s\<lparr>works := update_rows p f (works s)\<rparr>" by (auto simp: update_works_def split: if_splits)
  have "completed_in s i" if "completed_in s' i" for i
  proof -
    from that obtain x where "x \<in> set (works s)" "w_id (if p x then f x else x) = i" "w_state (if p x then f x else x) = W_COMPLETED"
      by (auto simp: s' completed_in_def list_ex_iff update_rows_def)
    with same assms(3) show ?thesis by (auto simp: completed_in_def list_ex_iff split: if_splits)
  qed
  then show ?thesis by (simp add: s' nothing_completed_def)
qed

lemma appends_complete_nothing:
  "insert_pause z s = Inr s' \<Longrightarrow> nothing_completed s s'"
  "insert_resumption x s = Inr s' \<Longrightarrow> nothing_completed s s'"
  "insert_continuation c s = Inr s' \<Longrightarrow> nothing_completed s s'"
  "insert_review r s = Inr s' \<Longrightarrow> nothing_completed s s'"
  by (auto simp: insert_pause_def insert_resumption_def insert_continuation_def insert_review_def nothing_completed_def
      completed_in_def split: if_splits)

interpretation acceptance: reviewing_statements nothing_completed
proof unfold_locales
  fix s s' :: db
  assume "sup_frame s s'"
  then show "nothing_completed s s'" by (intro nothing_completed_works) (simp_all add: sup_frame_def)
qed (fact update_completes_nothing appends_complete_nothing)+

lemma accept_binding:
  assumes "insert_requester_decision d s = Inr s'" and "rd_verdict d = ''accepted''"
  shows "accepted s' (rd_work_item_id d)"
proof -
  from assms(1) have "decision_binding s d" and s': "s' = s\<lparr>requester_decisions := requester_decisions s @ [d]\<rparr>"
    by (auto simp: insert_requester_decision_def split: if_splits)
  then have "accepts s' (rd_work_item_id d) d" using assms(2)
    by (fastforce simp: accepts_def decision_binding_def list_ex_iff)
  then show ?thesis by (simp add: accepted_def s')
qed

lemma insert_decision_ok:
  assumes "insert_requester_decision d s = Inr s'" and "\<And>i. completed_in s i \<Longrightarrow> accepted s i \<or> accepted s' i"
  shows "acceptance_ok s'"
proof -
  from assms(1) have s': "s' = s\<lparr>requester_decisions := requester_decisions s @ [d]\<rparr>"
    by (auto simp: insert_requester_decision_def split: if_splits)
  have "accepted s i \<Longrightarrow> accepted s' i" for i by (rule accepted_mono) (auto simp: s')
  with assms(2) show ?thesis unfolding acceptance_completed by (auto simp: s' completed_in_def)
qed

lemma complete_completed:
  assumes "complete_work e w s = Inr s'"
  shows "completed_in s' i \<Longrightarrow> i = w_id w \<or> completed_in s i" "reviews s' = reviews s" "requester_decisions s' = requester_decisions s"
proof -
  let ?t = "fence_reasoner_turns_tx e (w_id w) s"
  have t: "works ?t = works s" "reviews ?t = reviews s" "requester_decisions ?t = requester_decisions s"
    using fence_frame [of s e "w_id w"] by (simp_all add: sup_frame_def)
  from assms have s': "s' = ?t\<lparr>works := update_rows (\<lambda>x. w_id x = w_id w) (accepted_work e (w_generation w + 1)) (works s)\<rparr>"
    by (auto simp: complete_work_def update_works_def t split: if_splits)
  show "completed_in s' i \<Longrightarrow> i = w_id w \<or> completed_in s i"
    by (auto simp: s' completed_in_def list_ex_iff update_rows_def accepted_work_def split: if_splits)
  show "reviews s' = reviews s" "requester_decisions s' = requester_decisions s" by (simp_all add: s' t)
qed

lemma decide_accepts_ok:
  assumes "decide_result e p actor g q v w a s = Inr s'" and "acceptance_ok s" and "report_ports_guarded nothing_completed (vp_report p)"
  shows "acceptance_ok s'"
  using assms(1)
proof (rule decide_stages)
  fix s1 b d s2 s3
  assume a: "apply_decision e p actor (rd_id d) q v w a s = Inr (s1, b)" and i: "insert_requester_decision d s1 = Inr s2"
    and d: "rd_work_item_id d = w_id w" "rd_verdict d = verdict_text q" and f: "sup_frame s2 s3"
    and l: "if eq_accepted q then resume_interrupted_target_tx e (vp_continuation p) (w_id w) (act_id actor) s3 = Inr s' else s' = s3"
  have "acceptance_ok s2"
  proof (cases "eq_accepted q")
    case True
    with a have c: "complete_work e w s = Inr s1" by (auto simp: apply_decision_def bindE_Inr_iff)
    have n: "accepted s2 (w_id w)" using accept_binding [OF i] True by (simp add: d verdict_text_def)
    have "accepted s i \<Longrightarrow> accepted s1 i" for i by (rule accepted_mono) (simp_all add: complete_completed [OF c])
    with assms(2) n complete_completed(1) [OF c] show ?thesis
      by (intro insert_decision_ok [OF i]) (auto simp: acceptance_completed)
  next
    case False
    with a assms(3) have "nothing_completed s s1"
      by (auto simp: apply_decision_def bindE_Inr_iff dest!: acceptance.refuse_work_runs intro: run_nothing_completed)
    with assms(2) show ?thesis
      by (intro insert_decision_ok [OF i]) (use nothing_completed_ok in \<open>auto simp: acceptance_completed\<close>)
  qed
  with f have "acceptance_ok s3" by (blast intro: nothing_completed_ok acceptance.by_frame)
  with l show "acceptance_ok s'"
    by (auto split: if_splits dest: acceptance.return_ledger intro: nothing_completed_ok run_nothing_completed)
qed

lemma requester_accepts_ok:
  assumes "record_requester_decision e p actor q s = Inr (s', r)" and "acceptance_ok s" and "report_ports_guarded nothing_completed (vp_report p)"
  shows "acceptance_ok s'"
  using assms(1)
  by (rule requester_cases) (use assms(2,3) in \<open>blast intro: nothing_completed_ok acceptance.by_frame decide_accepts_ok\<close>)+

lemma service_step_accepts_ok:
  assumes "service_step v p s s'" and "service_ports_guarded nothing_completed v p" and "acceptance_ok s"
  shows "acceptance_ok s'"
proof -
  have run: "nothing_completed\<^sup>*\<^sup>* s s' \<Longrightarrow> acceptance_ok s'" using assms(3) by (blast intro: nothing_completed_ok run_nothing_completed)
  note ports = assms(2) [unfolded service_ports_guarded_def]
  from assms(1) show ?thesis
  proof cases
    case serve_requester
    then show ?thesis by (rule requester_accepts_ok [OF _ assms(3)]) (simp add: ports)
  qed (rule run, use ports in \<open>auto intro: acceptance.continuation_step_ledger acceptance.report_runs acceptance.review_runs
      acceptance.ledger_frame request_status_frame\<close>)+
qed

text \<open>C1: Only the requester completes a Work. Over any run of reports, reviews, decisions, retries,
  replies, resumptions, returns, interrupts and supervision, whatever else writes the other tables, every
  completed Work has the record of a requester that accepted it, and that record is bound to a review by
  its CAO that found the result of exactly the packets the record names good.\<close>

theorem completed_by_requester:
  assumes "(service_step v p)\<^sup>*\<^sup>* s t" and "service_ports_guarded nothing_completed v p" and "acceptance_ok s"
    and "w \<in> set (works t)" and "w_state w = W_COMPLETED"
  shows "\<exists>d\<in>set (requester_decisions t). \<exists>r\<in>set (reviews t). rd_work_item_id d = w_id w \<and> rd_verdict d = ''accepted''
    \<and> rd_review_id d = rv_id r \<and> rv_work_item_id r = w_id w \<and> rv_reviewer_role r = CAO \<and> rv_verdict r = ''ok''
    \<and> rv_goal_packet_digest r = rd_goal_packet_digest d \<and> rv_task_packet_digest r = rd_task_packet_digest d"
proof -
  from assms(1) have "acceptance_ok t"
    by (induction rule: rtranclp_induct) (use assms(2,3) service_step_accepts_ok in blast)+
  with assms(4,5) have "accepted t (w_id w)" by (auto simp: acceptance_ok_def list_all_iff)
  then obtain d where "d \<in> set (requester_decisions t)" and "accepts t (w_id w) d" by (auto simp: accepted_def list_ex_iff)
  then show ?thesis by (auto simp: accepts_def list_ex_iff intro!: bexI [of _ d]) metis
qed

section \<open>A result accepted\<close>

text \<open>A verified result in review, and the conversation of its CAO that heard the requester accept it.\<close>

definition sample_review :: review_row where
  "sample_review = \<lparr>rv_id = ''v'', rv_work_item_id = ''w'', rv_attempt_id = ''a'', rv_boundary_id = None, rv_reviewer_id = ''c'',
     rv_reviewer_role = CAO, rv_supervisor_attachment_id = Some ''t'', rv_supervisor_attachment_generation = Some 1,
     rv_work_generation = 2, rv_goal_version = 1, rv_goal_packet_digest = ''g'', rv_task_packet_digest = ''p'',
     rv_verdict = ''ok'', rv_summary = u ''good'', rv_evidence = JArr [], rv_created_at = 50\<rparr>"

definition sample_verified_db :: db where
  "sample_verified_db = sample_sup_db\<lparr>messages := [], deliveries := [], reviews := [sample_review],
     principals := principals sample_sup_db @ [\<lparr>p_id = ''u'', p_role = USER, p_enabled = True, p_operator_scope = ''production''\<rparr>],
     works := [sample_sup_work\<lparr>w_state := W_WAITING_USER, w_attention_owner := AO_USER, w_requester_id := Some ''u''\<rparr>],
     attempts := [sample_attempt\<lparr>a_state := A_COMPLETED, a_evidence_confidence := ''verified'',
       a_completion_claim := jobj [(''summary'', jstr ''done'')]\<rparr>],
     runtimes := [\<lparr>r_id = ''rc'', r_principal_id = ''c'', r_adapter = ''codex'', r_endpoint = '''', r_native_session_id = '''',
       r_state = R_BUSY, r_lease_expires_at = 900, r_metadata = JObj [], r_updated_at = 90\<rparr>],
     cao_runtime_credentials := [\<lparr>cr_id = ''k'', cr_owner_id = ''t'', cr_connection_id = None, cr_principal_id = ''c'',
       cr_generation = 1, cr_state = ''active'', cr_expires_at = 900\<rparr>]\<rparr>"

definition sample_listener :: actor where
  "sample_listener = (bare_actor ''c'' CAO)\<lparr>act_runtime_session_id := ''rc'', act_attachment_id := ''t'',
     act_attachment_generation := Some 1, act_runtime_credential_id := ''k''\<rparr>"

definition sample_acceptance :: requester_request where
  "sample_acceptance = \<lparr>eq_review_id = ''v'', eq_accepted = True, eq_summary = u ''accepted'', eq_evidence = [],
     eq_conversation_evidence_id = ''turn'', eq_expected_purpose_version = None, eq_idempotency_key = ''key''\<rparr>"

definition sample_report_ports :: report_ports where
  "sample_report_ports = \<lparr>rp_credential = (\<lambda>_. False), rp_private_locator = (\<lambda>_. False), rp_bind_locator = (\<lambda>t. t),
     rp_scheme = (\<lambda>_. Some ''''), rp_stage = (\<lambda>_ _ _ _ _ _ _. None), rp_backfill_recovery = (\<lambda>s. s), rp_bundle = (\<lambda>_ _. Inr JNull)\<rparr>"

definition sample_review_ports :: review_ports where
  "sample_review_ports = \<lparr>vp_report = sample_report_ports, vp_continuation = sample_continuation_ports,
     vp_store = sample_store, vp_archive = (\<lambda>_. None), vp_loads = (\<lambda>_. JArr [])\<rparr>"

definition completes :: "(db \<times> json) cp \<Rightarrow> bool" where
  "completes r = (case r of Inl _ \<Rightarrow> False | Inr (s, _) \<Rightarrow> map w_state (works s) = [W_COMPLETED])"

lemma sample_accepted:
  obtains t r w where "record_requester_decision sample_env sample_review_ports sample_listener sample_acceptance sample_verified_db = Inr (t, r)"
    "works t = [w]" "w_state w = W_COMPLETED"
proof -
  have "completes (record_requester_decision sample_env sample_review_ports sample_listener sample_acceptance sample_verified_db)"
    by code_simp
  then show thesis by (auto simp: completes_def split: sum.splits intro: that)
qed

lemma sample_service_guarded: "service_ports_guarded R sample_review_ports sample_ports"
  by (simp add: service_ports_guarded_def sample_guarded report_ports_guarded_def sample_review_ports_def sample_report_ports_def)

lemma completed_by_requester_witness:
  "\<exists>t r. record_requester_decision sample_env sample_review_ports sample_listener sample_acceptance sample_verified_db = Inr (t, r)
     \<and> (\<exists>d\<in>set (requester_decisions t). rd_verdict d = ''accepted'')"
proof (rule sample_accepted)
  fix t r w
  assume t: "record_requester_decision sample_env sample_review_ports sample_listener sample_acceptance sample_verified_db = Inr (t, r)"
    and w: "works t = [w]" "w_state w = W_COMPLETED"
  have "acceptance_ok sample_verified_db" by (simp add: acceptance_ok_def sample_verified_db_def)
  from completed_by_requester [OF r_into_rtranclp [of "service_step sample_review_ports sample_ports", OF serve_requester [OF t]]
    sample_service_guarded this _ w(2)] w t show ?thesis by fastforce
qed


end
