(* ===== verification/Circuit_Safety.thy ===== *)
theory Circuit_Safety
  imports Provider_Circuit
begin

text \<open>
  What the circuit of a rate-limited provider scope promises: while one probe holds the slot, every
  other assignment of the scope stays parked, whatever else runs, until the slot is released, its probe
  progresses, or a newer rate limit opens the circuit again; and the circuits stay well formed.
\<close>

section \<open>The operations on a circuit\<close>

datatype circuit_op =
    LIMIT ident ident ident
  | CLAIM ident ident ident
  | UNKNOWN ident
  | RELEASE ident ident ident
  | PROGRESS ident ident
  | ELSEWHERE

inductive circuit_step :: "takeover \<Rightarrow> circuit_op \<Rightarrow> db \<Rightarrow> db \<Rightarrow> bool" for tk where
  circuit_limit: "s' = record_provider_rate_limit_tx e n r b w s \<Longrightarrow> circuit_step tk (LIMIT r b w) s s'"
| circuit_claim: "claim_provider_runtime_probe_tx e tk n r m a s = (s', x) \<Longrightarrow> circuit_step tk (CLAIM r m a) s s'"
| circuit_unknown: "mark_provider_runtime_probe_unknown_tx e r s = (s', y) \<Longrightarrow> circuit_step tk (UNKNOWN r) s s'"
| circuit_release: "s' = release_provider_runtime_probe_tx e r m a s \<Longrightarrow> circuit_step tk (RELEASE r m a) s s'"
| circuit_progress: "s' = close_provider_rate_limit_probe_tx e r a i s \<Longrightarrow> circuit_step tk (PROGRESS r a) s s'"
| circuit_elsewhere: "circuits s' = circuits s \<Longrightarrow> circuit_step tk ELSEWHERE s s'"

inductive_cases circuit_stepE: "circuit_step tk x s s'"

fun circuit_run :: "takeover \<Rightarrow> circuit_op list \<Rightarrow> db \<Rightarrow> db \<Rightarrow> bool" where
  "circuit_run tk [] s t \<longleftrightarrow> t = s"
| "circuit_run tk (x # xs) s t \<longleftrightarrow> (\<exists>s'. circuit_step tk x s s' \<and> circuit_run tk xs s' t)"

section \<open>One row of a circuit\<close>

lemma scope_circuit_update:
  assumes "\<And>c. pc_scope_digest (f c) = pc_scope_digest c"
  shows "scope_circuit (s\<lparr>circuits := update_rows p f (circuits s)\<rparr>) scope
    = map_option (\<lambda>c. if p c then f c else c) (scope_circuit s scope)"
  unfolding scope_circuit_def by (simp add: update_rows_def) (rule fetchone_update_rows, simp add: assms)

lemma scope_circuit_log [simp]: "scope_circuit (log_event e x s) scope = scope_circuit s scope"
  by (simp add: scope_circuit_def)

lemma scope_circuit_scope: "scope_circuit s scope = Some c \<Longrightarrow> pc_scope_digest c = scope"
  by (auto simp: scope_circuit_def dest: fetchone_SomeD)

lemma fetch_replaced:
  "fetchone (\<lambda>x. pc_scope_digest x = scope) (update_rows (\<lambda>x. pc_scope_digest x = pc_scope_digest c) (\<lambda>x. c) cs)
   = (if pc_scope_digest c = scope \<and> list_ex (\<lambda>x. pc_scope_digest x = pc_scope_digest c) cs then Some c
      else fetchone (\<lambda>x. pc_scope_digest x = scope) cs)"
  unfolding update_rows_def by (induction cs) auto

lemma fetch_upsert:
  "fetchone (\<lambda>x. pc_scope_digest x = scope) (upsert_circuit c cs)
   = (if pc_scope_digest c = scope then Some c else fetchone (\<lambda>x. pc_scope_digest x = scope) cs)"
proof (cases "list_ex (\<lambda>x. pc_scope_digest x = pc_scope_digest c) cs")
  case True
  then show ?thesis by (auto simp: upsert_circuit_def fetch_replaced)
next
  case False
  then have "fetchone (\<lambda>x. pc_scope_digest x = pc_scope_digest c) cs = None" by (auto simp: fetchone_None_iff list_ex_iff)
  with False show ?thesis by (auto simp: upsert_circuit_def fetchone_append split: option.split)
qed

section \<open>The slot is exclusive\<close>

text \<open>The slot belongs to this probe since the boundary \<open>n\<close>, or a later boundary opened the circuit again.\<close>

definition slot_of :: "ident \<Rightarrow> ident \<Rightarrow> ident \<Rightarrow> circuit_row \<Rightarrow> bool" where
  "slot_of r m a c = (pc_state c \<in> {''half_open'', ''blocked''} \<and> pc_probe_outcome_state c \<noteq> ''none''
     \<and> pc_probe_runtime_session_id c = Some r \<and> pc_probe_message_id c = m \<and> pc_probe_attempt_id c = Some a)"

definition slot_since :: "string \<Rightarrow> int \<Rightarrow> ident \<Rightarrow> ident \<Rightarrow> ident \<Rightarrow> db \<Rightarrow> bool" where
  "slot_since scope n r m a s = (case scope_circuit s scope of
     None \<Rightarrow> False
   | Some c \<Rightarrow> pc_source_boundary_sequence c > n \<or> pc_source_boundary_sequence c = n \<and> slot_of r m a c)"

lemma slot_since_update:
  assumes "slot_since scope n r m a s" and "\<And>c. pc_scope_digest (f c) = pc_scope_digest c"
    and "\<And>c. pc_source_boundary_sequence (f c) = pc_source_boundary_sequence c"
    and "\<And>c. p c \<Longrightarrow> pc_scope_digest c = scope \<Longrightarrow> slot_of r m a c \<Longrightarrow> slot_of r m a (f c)"
  shows "slot_since scope n r m a (s\<lparr>circuits := update_rows p f (circuits s)\<rparr>)"
  using assms(1,3,4) scope_circuit_scope by (fastforce simp: slot_since_def scope_circuit_update [OF assms(2)] split: option.splits)

lemma slot_since_log [simp]: "slot_since scope n r m a (log_event e x s) = slot_since scope n r m a s"
  by (simp add: slot_since_def)

lemma limit_keeps_slot:
  assumes "slot_since scope n r m a s"
  shows "slot_since scope n r m a (record_provider_rate_limit_tx e k r' b w s)"
proof (cases "rate_limit_source s r' b w")
  case None
  with assms show ?thesis by (simp add: record_provider_rate_limit_tx_def)
next
  case (Some x)
  obtain sp bd at i where x: "x = (sp, bd, at, i)" by (cases x)
  let ?c = "opened_circuit e k r' sp bd at i"
  have "slot_since scope n r m a (s\<lparr>circuits := upsert_circuit ?c (circuits s)\<rparr>)"
    if new: "\<not> already_recorded (scope_circuit s (ms_provider_scope_digest sp)) bd i"
  proof (cases "ms_provider_scope_digest sp = scope")
    case True
    with assms new show ?thesis
      by (auto simp: slot_since_def scope_circuit_def fetch_upsert opened_circuit_def already_recorded_def split: option.splits)
  next
    case False
    with assms show ?thesis by (simp add: slot_since_def scope_circuit_def fetch_upsert opened_circuit_def)
  qed
  with assms Some x show ?thesis by (simp add: record_provider_rate_limit_tx_def)
qed

lemma take_slot_keeps_slot:
  assumes "slot_since scope n r m a s"
  shows "slot_since scope n r m a (fst (take_slot e k sp c r' m' a' i s))"
proof -
  have "slot_since scope n r m a (s\<lparr>circuits := update_rows (reserve_fence sp c) (reserved_slot e r' m' a' i) (circuits s)\<rparr>)"
    by (rule slot_since_update [OF assms]) (auto simp: reserved_slot_def reserve_fence_def slot_of_def)
  then show ?thesis by (simp add: take_slot_def Let_def)
qed

lemma claim_keeps_slot:
  assumes "slot_since scope n r m a s"
  shows "slot_since scope n r m a (fst (claim_provider_runtime_probe_tx e tk k r' m' a' s))"
  using assms take_slot_keeps_slot [OF assms]
  by (simp add: claim_provider_runtime_probe_tx_def split: option.split)

lemma release_keeps_slot:
  assumes "slot_since scope n r m a s" and "(r', m', a') \<noteq> (r, m, a)"
  shows "slot_since scope n r m a (release_provider_runtime_probe_tx e r' m' a' s)"
  using assms(1) unfolding release_provider_runtime_probe_tx_def
  by (auto split: option.split intro!: slot_since_update) (use assms(2) in \<open>auto simp: probe_release_fence_def slot_of_def\<close>)

lemma progress_keeps_slot:
  assumes "slot_since scope n r m a s" and "(r', a') \<noteq> (r, a)"
  shows "slot_since scope n r m a (close_provider_rate_limit_probe_tx e r' a' i s)"
proof -
  have "slot_since scope n r m a (s\<lparr>circuits := update_rows (close_fence s x r' a') (closed_circuit e) (circuits s)\<rparr>)" for x
    by (rule slot_since_update [OF assms(1)]) (use assms(2) in \<open>auto simp: close_fence_def closed_circuit_def slot_of_def\<close>)
  with assms(1) show ?thesis by (simp add: close_provider_rate_limit_probe_tx_def Let_def split: option.split)
qed

lemma unknown_keeps_slot:
  assumes "slot_since scope n r m a s"
  shows "slot_since scope n r m a (fst (mark_provider_runtime_probe_unknown_tx e r' s))"
  using assms by (auto simp: mark_provider_runtime_probe_unknown_tx_def slot_of_def intro!: slot_since_update)

lemma circuit_step_keeps_slot:
  assumes "circuit_step tk x s s'" and "slot_since scope n r m a s" and "x \<noteq> RELEASE r m a" and "x \<noteq> PROGRESS r a"
  shows "slot_since scope n r m a s'"
  using assms(1)
proof cases
  case (circuit_claim e k r' m' a' y)
  with claim_keeps_slot [OF assms(2), of e tk k r' m' a'] show ?thesis by simp
next
  case (circuit_unknown e r' y)
  with unknown_keeps_slot [OF assms(2), of e r'] show ?thesis by simp
next
  case circuit_elsewhere
  with assms(2) show ?thesis by (simp add: slot_since_def scope_circuit_def)
qed (use assms in \<open>auto intro: limit_keeps_slot release_keeps_slot progress_keeps_slot\<close>)

lemma circuit_run_keeps_slot:
  "circuit_run tk xs s t \<Longrightarrow> slot_since scope n r m a s \<Longrightarrow> RELEASE r m a \<notin> set xs \<Longrightarrow> PROGRESS r a \<notin> set xs
   \<Longrightarrow> slot_since scope n r m a t"
  by (induction xs arbitrary: s) (auto dest: circuit_step_keeps_slot)

section \<open>Taking the slot\<close>

lemma claim_takes_slot:
  assumes claim: "claim_provider_runtime_probe_tx e tk k r m a s = (s', PROBE_ALLOWED)"
    and sp: "claude_spec s r = Some sp" and c: "scope_circuit s (ms_provider_scope_digest sp) = Some c" and "pc_state c = ''open''"
  shows "slot_since (ms_provider_scope_digest sp) (pc_source_boundary_sequence c) r m a s'"
proof -
  from assms obtain i where none: "pc_probe_outcome_state c = ''none''" and t: "take_slot e k sp c r m a i s = (s', PROBE_ALLOWED)"
    by (auto simp: claim_provider_runtime_probe_tx_def parked_def split: if_splits option.splits)
  let ?s1 = "s\<lparr>circuits := update_rows (reserve_fence sp c) (reserved_slot e r m a i) (circuits s)\<rparr>"
  have "reserve_fence sp c c"
    using none assms(4) scope_circuit_scope [OF c] by (simp add: reserve_fence_def)
  then have s1: "scope_circuit ?s1 (ms_provider_scope_digest sp) = Some (reserved_slot e r m a i c)"
    using c by (subst scope_circuit_update) (simp_all add: reserved_slot_def)
  with t obtain x where "s' = log_event e x ?s1"
    by (auto simp: take_slot_def Let_def parked_def reserved_slot_def split: if_splits)
  then show ?thesis by (simp add: slot_since_def s1) (simp add: slot_of_def reserved_slot_def)
qed

lemma slot_parks_others:
  assumes "slot_since scope n r m a t" and "scope_circuit t scope = Some c" and "pc_source_boundary_sequence c = n"
    and "claude_spec t r' = Some sp" and "ms_provider_scope_digest sp = scope" and "(r', m', a') \<noteq> (r, m, a)"
  shows "\<exists>u. claim_provider_runtime_probe_tx e tk k r' m' a' t = (t, PROBE_PARKED u)"
proof -
  from assms(1-3) have "slot_of r m a c" by (simp add: slot_since_def)
  with assms show ?thesis
    by (auto simp: claim_provider_runtime_probe_tx_def slot_of_def parked_def valid_provider_probe_tx_def holds_slot_def)
qed

text \<open>C2: One probe at a time. After an assignment has taken the slot of an open circuit, whatever rate
  limits, claims, fencing, releases, progress of other assignments and other writes follow, no other
  assignment of the scope is admitted to the provider, as long as the slot was not released and its
  probe made no progress: it is parked and changes nothing, unless a later rate limit has opened the
  circuit again.\<close>

theorem one_probe_at_a_time:
  assumes "claim_provider_runtime_probe_tx e tk k r m a s = (s1, PROBE_ALLOWED)"
    and "claude_spec s r = Some sp" and "scope_circuit s (ms_provider_scope_digest sp) = Some c" and "pc_state c = ''open''"
    and "circuit_run tk xs s1 t" and "RELEASE r m a \<notin> set xs" and "PROGRESS r a \<notin> set xs"
    and "claude_spec t r' = Some sp'" and "ms_provider_scope_digest sp' = ms_provider_scope_digest sp" and "(r', m', a') \<noteq> (r, m, a)"
    and "scope_circuit t (ms_provider_scope_digest sp) = Some c'"
    and "pc_source_boundary_sequence c' = pc_source_boundary_sequence c"
  shows "\<exists>u. claim_provider_runtime_probe_tx e' tk k' r' m' a' t = (t, PROBE_PARKED u)"
  using slot_parks_others [OF circuit_run_keeps_slot [OF assms(5) claim_takes_slot [OF assms(1-4)] assms(6,7)] assms(11,12,8-10)] .

section \<open>A throttled Worker tries again\<close>

text \<open>
  A Worker met a rate limit on its first attempt (event 2); its supervisor starts a second attempt that
  names the boundary of the limit (event 3) and takes the slot. A second runtime of the scope waits.
\<close>

definition sample_limit :: boundary_row where
  "sample_limit = \<lparr>b_id = ''b'', b_source_principal_id = ''k'', b_source_event_id = ''ev'', b_work_item_id = ''w'',
     b_attempt_id = ''a1'', b_goal_version = 1, b_generation = 1, b_goal_packet_digest = '''', b_task_packet_digest = '''',
     b_kind = FAILURE, b_summary = [], b_runtime_state = R_FAILED,
     b_metadata = jobj [(''runtime_recovery'', JBool True), (''reason'', jstr ''runtime_provider_rate_limited'')],
     b_recovery_action = '''', b_input_digest = '''', b_created_at = 30\<rparr>"

definition sample_event :: "int \<Rightarrow> string \<Rightarrow> string \<Rightarrow> ident \<Rightarrow> ident \<Rightarrow> json \<Rightarrow> string \<Rightarrow> event_row" where
  "sample_event n ty agg i actor_id data cause = \<lparr>e_sequence = n, e_id = '''', e_event_type = ty, e_aggregate_type = agg,
     e_aggregate_id = i, e_operator_scope = '''', e_actor_id = actor_id, e_data = data, e_correlation_id = '''',
     e_causation_id = cause, e_created_at = 10\<rparr>"

definition sample_spec :: "ident \<Rightarrow> ident \<Rightarrow> spec_row" where
  "sample_spec i r = \<lparr>ms_id = i, ms_attachment_id = ''t'', ms_attachment_generation = 1, ms_principal_id = ''k'',
     ms_runtime_session_id = r, ms_enrollment_id = ''n'', ms_adapter = ''claude'', ms_workspace_ref = ''ws'',
     ms_catalog_target_id = ''cat'', ms_provider_scope_digest = ''scope'', ms_state = ''enabled''\<rparr>"

definition sample_try :: "ident \<Rightarrow> int \<Rightarrow> attempt_row" where
  "sample_try i n = \<lparr>a_id = i, a_work_item_id = ''w'', a_attempt_number = n, a_worker_id = ''k'',
     a_runtime_session_id = Some ''r'', a_goal_version = 1, a_goal_packet_digest = '''', a_task_packet_digest = '''',
     a_state = A_WORKING, a_trajectory = '''', a_evidence_confidence = '''', a_stage = [],
     a_next_boundary = [], a_completion_claim = JObj [], a_updated_at = 20\<rparr>"

definition sample_order :: "ident \<Rightarrow> ident \<Rightarrow> message_row" where
  "sample_order i a = \<lparr>m_sequence = 1, m_id = i, m_work_item_id = Some ''w'', m_attempt_id = Some a, m_sender_id = ''c'',
     m_kind = ASSIGNMENT, m_payload = JObj [], m_payload_digest = '''', m_message_digest = '''',
     m_correlation_id = '''', m_causation_id = '''', m_idempotency_key = '''', m_goal_version = None,
     m_goal_packet_digest = '''', m_task_packet_digest = ''''\<rparr>"

definition sample_order_delivery :: delivery_row where
  "sample_order_delivery = \<lparr>d_message_id = ''m1'', d_recipient_id = ''k'', d_recipient_attachment_id = None,
     d_state = HANDLED, d_generation = 1, d_attempts = 1, d_next_attempt_at = 50, d_runtime_session_id = Some ''r'',
     d_lease_until = None, d_owner_token = '''', d_delivered_at = None, d_acknowledged_at = None,
     d_handled_at = None, d_last_error = '''', d_reactivation_policy = TERMINAL, d_updated_at = 50\<rparr>"

definition sample_circuit :: circuit_row where
  "sample_circuit = \<lparr>pc_scope_digest = ''scope'', pc_state = ''open'', pc_cooldown_until = 90, pc_restart_authorized = False,
     pc_source_runtime_session_id = Some ''r'', pc_source_boundary_id = Some ''b'', pc_source_work_item_id = Some ''w'',
     pc_source_boundary_sequence = 2, pc_probe_restart_override = False, pc_probe_runtime_session_id = None,
     pc_probe_attempt_id = None, pc_probe_message_id = '''', pc_probe_instruction_sequence = 0,
     pc_probe_outcome_state = ''none'', pc_opened_at = 30, pc_updated_at = 30\<rparr>"

definition sample_circuit_db :: db where
  "sample_circuit_db = empty_db\<lparr>
     principals := [\<lparr>p_id = ''c'', p_role = CAO, p_enabled = True, p_operator_scope = ''production''\<rparr>],
     works := [\<lparr>w_id = ''w'', w_goal_version = 1, w_state = W_ACTIVE, w_created_by = ''c'',
       w_requester_id = None, w_supervisor_id = Some ''c'', w_supervisor_attachment_id = Some ''t'', w_assigned_worker_id = ''k'',
       w_managed_worker_thread_id = None, w_managed_worker_thread_generation = None, w_user_needed_boundary_id = None,
       w_paused_boundary_id = None, w_operator_scope = ''production'', w_attention_owner = AO_WORKER,
       w_generation = 2, w_suspended_by_work_item_id = None, w_created_at = 10, w_updated_at = 20\<rparr>],
     attempts := [sample_try ''a1'' 1, sample_try ''a2'' 2], messages := [sample_order ''m1'' ''a1'', sample_order ''m2'' ''a2''],
     deliveries := [sample_order_delivery], boundaries := [sample_limit], specs := [sample_spec ''s1'' ''r'', sample_spec ''s2'' ''q''],
     runtimes := [\<lparr>r_id = ''r'', r_principal_id = ''k'', r_adapter = ''claude'', r_endpoint = '''', r_native_session_id = '''',
       r_state = R_READY, r_lease_expires_at = 900, r_metadata = JObj [], r_updated_at = 90\<rparr>],
     enrollments := [\<lparr>we_id = ''n'', we_principal_id = ''k'', we_runtime_session_id = ''r'', we_state = E_READY,
       we_generation = 1, we_required_tools_digest = '''', we_discovered_tools_digest = '''',
       we_protocol_version = ''1'', we_heartbeat_sequence = 4, we_managed = True, we_lease_expires_at = Some 900\<rparr>],
     attachments := [\<lparr>ca_id = ''t'', ca_principal_id = ''c'', ca_runtime_session_id = ''rc'', ca_native_thread_id = '''',
       ca_project_digest = '''', ca_project_scope_digest = '''', ca_state = ''active'', ca_generation = 1, ca_lease_expires_at = 900\<rparr>],
     circuits := [sample_circuit],
     events := [sample_event 1 ''work.assigned'' ''work_item'' ''w'' ''c''
         (jobj [(''attempt_id'', jstr ''a1''), (''worker_id'', jstr ''k'')]) ''m1'',
       sample_event 2 ''boundary.recorded'' ''work_item'' ''w'' ''k'' (jobj [(''boundary_id'', jstr ''b''), (''kind'', jstr ''failure''),
         (''runtime_state'', jstr ''failed''), (''generation'', JInt 1)]) '''',
       sample_event 3 ''attempt.created'' ''attempt'' ''a2'' ''c'' (jobj [(''provider_source_boundary_id'', jstr ''b'')]) ''m2'']\<rparr>"

definition sample_no_takeover :: takeover where
  "sample_no_takeover _ _ _ = None"

definition takes :: "db \<times> probe_answer \<Rightarrow> bool" where
  "takes r = (snd r = PROBE_ALLOWED \<and> map pc_source_boundary_sequence (circuits (fst r)) = [2]
     \<and> map pc_scope_digest (circuits (fst r)) = [''scope''])"

lemma sample_slot_taken: "takes (claim_provider_runtime_probe_tx (fixed_env 100) sample_no_takeover 60 ''r'' ''m2'' ''a2'' sample_circuit_db)"
  by code_simp

lemma claim_specs: "specs (fst (claim_provider_runtime_probe_tx e tk k r m a s)) = specs s"
  by (simp add: claim_provider_runtime_probe_tx_def take_slot_def Let_def split: option.split)

lemma one_probe_at_a_time_witness:
  "\<exists>t u. claim_provider_runtime_probe_tx (fixed_env 100) sample_no_takeover 60 ''r'' ''m2'' ''a2'' sample_circuit_db = (t, PROBE_ALLOWED)
     \<and> claim_provider_runtime_probe_tx (fixed_env 110) sample_no_takeover 60 ''q'' ''m2'' ''a2'' t = (t, PROBE_PARKED u)"
proof -
  obtain t x where t: "claim_provider_runtime_probe_tx (fixed_env 100) sample_no_takeover 60 ''r'' ''m2'' ''a2'' sample_circuit_db = (t, x)"
    by (cases "claim_provider_runtime_probe_tx (fixed_env 100) sample_no_takeover 60 ''r'' ''m2'' ''a2'' sample_circuit_db")
  with sample_slot_taken have x: "x = PROBE_ALLOWED" and "map pc_source_boundary_sequence (circuits t) = [2]"
    and "map pc_scope_digest (circuits t) = [''scope'']" by (simp_all add: takes_def)
  then obtain c where c: "scope_circuit t ''scope'' = Some c" "pc_source_boundary_sequence c = 2"
    by (auto simp: scope_circuit_def map_eq_Cons_conv)
  have s: "specs t = [sample_spec ''s1'' ''r'', sample_spec ''s2'' ''q'']"
    using claim_specs [of "fixed_env 100" sample_no_takeover 60 "''r''" "''m2''" "''a2''" sample_circuit_db] t
    by (simp add: sample_circuit_db_def)
  have "\<exists>u. claim_provider_runtime_probe_tx (fixed_env 110) sample_no_takeover 60 ''q'' ''m2'' ''a2'' t = (t, PROBE_PARKED u)"
    by (rule one_probe_at_a_time [OF t [unfolded x], where xs = "[]" and sp = "sample_spec ''s1'' ''r''" and c = sample_circuit
          and sp' = "sample_spec ''s2'' ''q''" and c' = c])
      (simp_all add: claude_spec_def scope_circuit_def sample_circuit_db_def sample_circuit_def s sample_spec_def
        c [unfolded scope_circuit_def])
  with t x show ?thesis by blast
qed

end
