(* ===== verification/Spec2Isabelle.thy ===== *)
theory Spec2Isabelle
  imports Dispatch_Safety Close_Contract Goal_Packets Effects_Safety Worker_Purpose Receipt_Safety Message_Safety Supervision_Safety Credentials Capture_Safety Continuation_Ledger Acceptance_Safety Decision_Safety Circuit_Safety
begin

text \<open>
  The durable control plane of OpenCAO (\<open>src/src/cao_control_plane/\<close>).

  A requester gives Work to a supervising CAO conversation, which assigns it to Workers that run on
  provider runtimes. Everything that matters is durable: SQLite tables (\<open>database.py\<close>), changed by the
  transactions of one service class (\<open>service.py\<close>) and of one dispatcher (\<open>runtime.py\<close>). This
  development models those tables and transactions as functions from a database to an error or a new
  database, the guards of the database (triggers, unique indexes) as the errors SQLite raises, and the
  service as a relation of such steps, and shows what no interleaving of steps can break.

  \<^bold>\<open>How the program is modelled.\<close> One record per table row and one record \<open>db\<close> of all tables
  (\<open>Store\<close>), a table being the list of its rows in insertion order. A handler has the type
  \<open>db \<Rightarrow> (db \<times> 'a) cp\<close> where \<open>'a cp\<close> is the sum of \<open>cp_error\<close>, the exceptions of
  \<open>errors.py\<close> and those of Python the code can meet (\<open>Errors\<close>), and the result; \<open>bindE\<close> sequences,
  and an \<open>Inl\<close> leaves the old database, as a rolled-back transaction does. \<open>transaction\<close> is the authority check
  every transaction starts with. The clock, the fresh identifiers, SHA-256 and \<open>repr\<close> are the record
  \<open>env\<close>, an argument of every operation. A Python text is the list of its code points (\<open>pystr\<close>), a
  document is a \<open>json\<close> with its canonical text (\<open>Json\<close>, \<open>Canonical\<close>). SQL conditions keep the
  three-valued logic where a column is nullable (\<open>sql_eq\<close>). \<open>CAO_Prelude\<close> holds the shared
  vocabulary and the lemmas on rows, sums and folds every theory uses.

  \<^bold>\<open>Delivering messages.\<close> \<open>Messages\<close> creates a message with one delivery per recipient
  (\<open>ControlPlane._message\<close>, \<open>send_message\<close>), and \<open>Events\<close> logs. \<open>Delivery_Lane\<close> has
  the predicates that order deliveries on a lane, \<open>Dispatch_Claim\<close> and \<open>Dispatch_Outcome\<close> the
  dispatcher's transactions (claim, dispatch, finish, retry, reactivate, reclaim), \<open>Delivery_Receipts\<close>
  what recipients and supervisors do (acknowledge, handle, resolve), \<open>Runtime_Diagnostics\<close> the closed
  error vocabulary. \<open>Dispatch_Lifecycle\<close> and \<open>Dispatch_Safety\<close> show that the dispatcher refines a
  small graph of phases and that a lease and an outcome have one owner. \<open>Table_Growth\<close> is the interface of
  a table that only grows, \<open>Delivery_System\<close> interprets it for the delivery table under everything that
  writes it, and \<open>Receipt_Safety\<close> and \<open>Message_Safety\<close> state the promises of the single operations.

  \<^bold>\<open>Supervising Work.\<close> \<open>Supervision_Ledger\<close> is the database side: the triggers that bind the two
  pointers of a Work and the append-only ledgers of pauses, resumptions, continuations, boundaries,
  turns and dispositions, with \<open>ledger_step\<close> as any one guarded statement. On top of it are the operations
  of the service: \<open>Reasoner_Recovery\<close> (decision leases that lapse, escalation to the requester),
  \<open>Work_Pause\<close>, \<open>Decision_Fence\<close> (\<open>acquire_reasoner_turn\<close>, \<open>dispose_boundary\<close>),
  \<open>Worker_Lane\<close> (admitting a command to a managed Worker thread), \<open>Work_Continuation\<close>
  (\<open>retry_attempt\<close>, \<open>reply_user_needed\<close>, \<open>resume_work\<close>, return to an interrupted Work),
  \<open>Completion_Evidence\<close>, \<open>Work_Report\<close> (\<open>report\<close>, \<open>request_status\<close>) and \<open>Work_Review\<close>
  (\<open>review\<close>, \<open>record_requester_decision\<close>). The locale \<open>guarded_statements\<close> (\<open>Supervision_Safety\<close>)
  states what these operations need of a relation to run inside it; every operation is shown once, inside the
  locale, to be a run of it. It is interpreted twice: by the statements of the ledger, which
  gives that the service refines its ledger and keeps its pointers bound (\<open>Continuation_Ledger\<close>,
  \<open>Acceptance_Safety\<close>), and by the steps that complete no Work, which gives that only the record of a
  requester completes one. \<open>Supervision_Safety\<close>, \<open>Continuation_Safety\<close> and \<open>Decision_Safety\<close> hold
  what the single operations promise. \<open>Idempotency\<close> is the command log they all replay from, \<open>Actors\<close>
  who may call them, \<open>Worker_Purpose\<close> and \<open>Goal_Packets\<close> the frozen packets they bind,
  \<open>Close_Contract\<close> the gate of a final close.

  \<^bold>\<open>Effects and providers.\<close> \<open>Effects\<close> grants, starts and resolves effects of a Worker, with \<open>Glob\<close> for
  its patterns, and \<open>Effects_Safety\<close> the use of one-time grants and the uniqueness of an unresolved
  operation. \<open>Provider_Circuit\<close> and \<open>Provider_Probe\<close> are the circuit of a rate-limited provider and
  \<open>Circuit_Safety\<close> that its half-open slot admits one assignment at a time.

  \<^bold>\<open>Captured output and secrets.\<close> \<open>Worker_Capture\<close> reserves streams, observes provider events, serves
  reads and admits a review; \<open>Artifact_Content\<close> is the archive it stages to, \<open>Utf8\<close> the codec;
  \<open>Capture_Safety\<close> shows the tables well formed, a closed stream final and a review admitted exactly when
  everything was read. \<open>Secrets\<close> and \<open>Credentials\<close> are the filters of \<open>security.py\<close>, as matchers
  with their declared meaning.

  \<^bold>\<open>Bounds and fuel.\<close> No definition runs on fuel: every loop of the source that is modelled walks a list
  of rows or the characters of a text and is structural. The chunked reading of an archived text ends after
  at most one call per character, which is part of what is proved. SQLite integers are clamped to 64 bits
  where the code casts text to a number, Python integers are unbounded.

  \<^bold>\<open>Parameters.\<close> What is outside, or is not translated, is a field of a record of ports:
  \<open>continuation_ports\<close> (the recovery proof of a failed runtime, the safety check of a payload, the bundle
  view), \<open>decision_ports\<close> (the backfill of old packets, the cascade after a cancellation, the guidance of
  memory), \<open>report_ports\<close> (payload scans, locator binding, staging, the backfill of recovery actions),
  \<open>review_ports\<close> (the archive, the parser of a stored manifest), \<open>content_store\<close> (what the file system does),
  \<open>text_tables\<close> (Unicode tables) and the takeover proof of \<open>Provider_Circuit\<close>. A theorem over runs
  asks of the ports that write that they keep to the relation in question
  (\<open>decision_ports_guarded\<close>, \<open>report_ports_guarded\<close>), and its witness gives concrete ports that do.

  \<^bold>\<open>Not modelled.\<close> The protocol surfaces (\<open>mcp.py\<close>, \<open>api.py\<close>, \<open>a2a.py\<close>, \<open>cli.py\<close>), which decode
  requests, call the service and encode its results; the sanitized read-only projections
  (\<open>projection.py\<close>, \<open>dashboard.py\<close>, \<open>dashboard_history.py\<close> and their presentation); the deployment and
  session management of the dashboard (\<open>dashboard_lifecycle.py\<close>, \<open>dashboard_edge.py\<close>,
  \<open>dashboard_access.py\<close>, \<open>cloudflare_access.py\<close>); owner-private files, sockets and process identities
  (\<open>private_policy.py\<close>, \<open>close_inventory_edge.py\<close>, \<open>attachment_issuer.py\<close>, \<open>runtime_enrollment.py\<close>);
  the memory journals and full-text search (\<open>adaptation.py\<close>, \<open>supervision_memory.py\<close>, \<open>memory_import.py\<close>);
  start-up and configuration; schema migrations; intake of intents and creation, replacement
  and cancellation of Work by directive, execution of a close, and the adapters that drive provider
  processes. They are input and output around the core, or keep tables the modelled operations do not read.
\<close>

end
